(* ===== verification/TSN_Prelude.thy ===== *)
theory TSN_Prelude
  imports Main "HOL-Library.AList" "HOL-Library.Multiset" "HOL-Library.Sublist"
begin

text \<open>
  Shared vocabulary of the development: text operations of the JavaScript standard library that
  the sources use (\<open>trim\<close>, \<open>join\<close>, \<open>split\<close>, decimal and hexadecimal printing), the stable sort
  behind \<open>Array.prototype.sort\<close>, insertion-ordered objects as association lists, and the lemma
  collections the component theories draw on.

  A JavaScript string is a \<^typ>\<open>string\<close> whose characters are its code units; the model covers code
  units below 256. A thrown \<open>Error\<close> is its message: a fallible function returns
  \<^typ>\<open>string + 'a\<close>, with \<open>Inl\<close> the message.
\<close>

named_theorems text_simps "facts about printing and reading text"
named_theorems store_simps "facts about the document store"

type_synonym 'a result = "string + 'a"
type_synonym byte_list = "nat list"

section \<open>Results\<close>

text \<open>Sequencing: a thrown message ends the computation.\<close>

fun and_then :: "'a result \<Rightarrow> ('a \<Rightarrow> 'b result) \<Rightarrow> 'b result" where
  "and_then (Inl e) f = Inl e"
| "and_then (Inr x) f = f x"

definition require :: "bool \<Rightarrow> string \<Rightarrow> unit result" where
  "require b e = (if b then Inr () else Inl e)"

lemma and_then_Inr_iff [simp]: "and_then r f = Inr y \<longleftrightarrow> (\<exists>x. r = Inr x \<and> f x = Inr y)"
  by (cases r) auto

lemma and_then_Inl_iff: "and_then r f = Inl e \<longleftrightarrow> r = Inl e \<or> (\<exists>x. r = Inr x \<and> f x = Inl e)"
  by (cases r) auto

lemma require_Inr [simp]: "require b e = Inr u \<longleftrightarrow> b"
  by (simp add: require_def)

lemma require_Inl [simp]: "require b e = Inl e' \<longleftrightarrow> \<not> b \<and> e' = e"
  by (auto simp: require_def)

lemma require_simps [simp]: "require True e = Inr ()" "require False e = Inl e"
  by (simp_all add: require_def)

fun map_result :: "('a \<Rightarrow> 'b result) \<Rightarrow> 'a list \<Rightarrow> 'b list result" where
  "map_result f [] = Inr []"
| "map_result f (x # xs) = and_then (f x) (\<lambda>y. and_then (map_result f xs) (\<lambda>ys. Inr (y # ys)))"

section \<open>Characters\<close>

abbreviation code :: "char \<Rightarrow> nat" where
  "code c \<equiv> of_char c"

definition is_digit :: "char \<Rightarrow> bool" where
  "is_digit c \<longleftrightarrow> 48 \<le> code c \<and> code c \<le> 57"

definition digit_char :: "nat \<Rightarrow> char" where
  "digit_char n = char_of (48 + n)"

definition digit_val :: "char \<Rightarrow> nat" where
  "digit_val c = code c - 48"

definition is_lower_hex :: "char \<Rightarrow> bool" where
  "is_lower_hex c \<longleftrightarrow> is_digit c \<or> 97 \<le> code c \<and> code c \<le> 102"

definition is_hex :: "char \<Rightarrow> bool" where
  "is_hex c \<longleftrightarrow> is_lower_hex c \<or> 65 \<le> code c \<and> code c \<le> 70"

text \<open>The white space that \<open>String.prototype.trim\<close> removes, below code unit 256.\<close>

definition is_space :: "char \<Rightarrow> bool" where
  "is_space c \<longleftrightarrow> code c \<in> {9, 10, 11, 12, 13, 32, 160}"

definition to_lower :: "char \<Rightarrow> char" where
  "to_lower c = (if 65 \<le> code c \<and> code c \<le> 90 then char_of (code c + 32) else c)"

definition to_upper :: "char \<Rightarrow> char" where
  "to_upper c = (if 97 \<le> code c \<and> code c \<le> 122 then char_of (code c - 32) else c)"

lemma code_digit_char [simp]: "n < 10 \<Longrightarrow> code (digit_char n) = 48 + n"
  by (simp add: digit_char_def)

lemma is_digit_digit_char [simp]: "n < 10 \<Longrightarrow> is_digit (digit_char n)"
  by (simp add: is_digit_def)

lemma digit_val_digit_char [simp]: "n < 10 \<Longrightarrow> digit_val (digit_char n) = n"
  by (simp add: digit_val_def)

lemma digit_char_digit_val: "is_digit c \<Longrightarrow> digit_char (digit_val c) = c"
  by (simp add: digit_char_def digit_val_def is_digit_def)

lemma digit_val_less: "is_digit c \<Longrightarrow> digit_val c < 10"
  by (simp add: digit_val_def is_digit_def) linarith

lemma digit_not_space: "is_digit c \<Longrightarrow> \<not> is_space c"
  by (auto simp: is_digit_def is_space_def)

section \<open>Trimming, joining, splitting\<close>

definition js_trim_start :: "string \<Rightarrow> string" where
  "js_trim_start s = dropWhile is_space s"

definition js_trim_end :: "string \<Rightarrow> string" where
  "js_trim_end s = rev (dropWhile is_space (rev s))"

definition js_trim :: "string \<Rightarrow> string" where
  "js_trim s = js_trim_end (js_trim_start s)"

fun js_join :: "string \<Rightarrow> string list \<Rightarrow> string" where
  "js_join sep [] = []"
| "js_join sep [x] = x"
| "js_join sep (x # y # ys) = x @ sep @ js_join sep (y # ys)"

text \<open>\<open>s.split(c)\<close> for a separator of one character.\<close>

fun js_split :: "char \<Rightarrow> string \<Rightarrow> string list" where
  "js_split c [] = [[]]"
| "js_split c (x # xs) =
     (if x = c then [] # js_split c xs
      else (case js_split c xs of [] \<Rightarrow> [[x]] | w # ws \<Rightarrow> (x # w) # ws))"

definition js_starts_with :: "string \<Rightarrow> string \<Rightarrow> bool" where
  "js_starts_with s p \<longleftrightarrow> take (length p) s = p"

definition js_includes :: "string \<Rightarrow> string \<Rightarrow> bool" where
  "js_includes s t \<longleftrightarrow> sublist t s"

definition lower :: "string \<Rightarrow> string" where
  "lower s = map to_lower s"

definition upper :: "string \<Rightarrow> string" where
  "upper s = map to_upper s"

lemma js_trim_end_id [text_simps]: "s = [] \<or> \<not> is_space (last s) \<Longrightarrow> js_trim_end s = s"
  by (cases s rule: rev_cases) (auto simp: js_trim_end_def)

lemma js_trim_start_id [text_simps]: "s = [] \<or> \<not> is_space (hd s) \<Longrightarrow> js_trim_start s = s"
  by (cases s) (auto simp: js_trim_start_def)

lemma js_trim_id: "s = [] \<or> \<not> is_space (hd s) \<and> \<not> is_space (last s) \<Longrightarrow> js_trim s = s"
  by (auto simp: js_trim_def js_trim_end_id js_trim_start_id)

lemma set_js_trim: "set (js_trim s) \<subseteq> set s"
  by (auto simp: js_trim_def js_trim_end_def js_trim_start_def dest!: set_dropWhileD)

lemma js_split_nonempty [simp]: "js_split c s \<noteq> []"
  by (cases s) (auto split: list.splits)

lemma js_split_noc: "c \<notin> set s \<Longrightarrow> js_split c s = [s]"
  by (induction s) auto

lemma js_split_append:
  "c \<notin> set s \<Longrightarrow> js_split c (s @ c # t) = s # js_split c t"
  by (induction s) auto

text \<open>Splitting undoes joining when no part holds the separator.\<close>

lemma js_split_join [text_simps]:
  assumes "xs \<noteq> []" "\<forall>x \<in> set xs. c \<notin> set x"
  shows "js_split c (js_join [c] xs) = xs"
  using assms
proof (induction "[c]" xs rule: js_join.induct)
  case (3 x y ys)
  then have "js_split c (x @ c # js_join [c] (y # ys)) = x # js_split c (js_join [c] (y # ys))"
    by (intro js_split_append) auto
  with 3 show ?case by simp
qed (auto simp: js_split_noc)

lemma js_join_inject:
  assumes "js_join [c] xs = js_join [c] ys" "xs \<noteq> []" "ys \<noteq> []"
    and "\<forall>x \<in> set xs. c \<notin> set x" "\<forall>y \<in> set ys. c \<notin> set y"
  shows "xs = ys"
  using assms js_split_join by metis

lemma js_join_map_Cons: "js_join sep (x # xs) = x @ concat (map ((@) sep) xs)"
  by (induction xs arbitrary: x) auto

text \<open>A separator that neither word holds splits a text in one way only.\<close>

lemma sep_inject:
  assumes "a @ c # u = b @ c # v" "c \<notin> set a" "c \<notin> set b"
  shows "a = b \<and> u = v"
  using assms
proof (induction a arbitrary: b)
  case Nil
  then show ?case by (cases b) auto
next
  case (Cons x a)
  then show ?case by (cases b) auto
qed

section \<open>Decimal and hexadecimal text\<close>

fun dec :: "nat \<Rightarrow> string" where
  "dec n = (if n < 10 then [digit_char n] else dec (n div 10) @ [digit_char (n mod 10)])"

declare dec.simps [simp del]

definition dec_val :: "string \<Rightarrow> nat" where
  "dec_val s = foldl (\<lambda>a c. 10 * a + digit_val c) 0 s"

definition int_str :: "int \<Rightarrow> string" where
  "int_str z = (if z < 0 then ''-'' @ dec (nat (- z)) else dec (nat z))"

lemma dec_val_Nil [simp]: "dec_val [] = 0"
  by (simp add: dec_val_def)

lemma dec_val_foldl: "foldl (\<lambda>a c. 10 * a + digit_val c) k s = k * 10 ^ length s + dec_val s"
proof (induction s arbitrary: k)
  case (Cons c s)
  have "dec_val (c # s) = foldl (\<lambda>a c. 10 * a + digit_val c) (digit_val c) s"
    by (simp add: dec_val_def)
  also have "\<dots> = digit_val c * 10 ^ length s + dec_val s"
    by (rule Cons.IH)
  finally show ?case
    using Cons.IH [of "10 * k + digit_val c"] by (simp add: algebra_simps)
qed (simp add: dec_val_def)

lemma dec_val_append [text_simps]: "dec_val (s @ t) = dec_val s * 10 ^ length t + dec_val t"
  using dec_val_foldl [of "dec_val s" t] by (simp add: dec_val_def)

lemma dec_val_Cons: "dec_val (c # s) = digit_val c * 10 ^ length s + dec_val s"
  using dec_val_foldl [of "digit_val c" s] by (simp add: dec_val_def)

lemma dec_val_single [simp]: "dec_val [c] = digit_val c"
  by (simp add: dec_val_def)

lemma dec_val_dec [simp]: "dec_val (dec n) = n"
proof (induction n rule: dec.induct)
  case (1 n)
  show ?case
  proof (cases "n < 10")
    case False
    with 1 have "dec_val (dec (n div 10)) = n div 10" by simp
    with False show ?thesis by (subst dec.simps) (simp add: text_simps)
  qed (subst dec.simps, simp)
qed

lemma dec_nonempty [simp]: "dec n \<noteq> []"
  by (subst dec.simps) simp

lemma dec_digits [simp]: "c \<in> set (dec n) \<Longrightarrow> is_digit c"
proof (induction n rule: dec.induct)
  case (1 n)
  show ?case
  proof (cases "n < 10")
    case False
    with 1 show ?thesis by (subst (asm) dec.simps) auto
  qed (use 1 in \<open>subst (asm) dec.simps, simp\<close>)
qed

lemma dec_list_all [simp]: "list_all is_digit (dec n)"
  by (simp add: list_all_iff)

lemma dec_inject [simp]: "dec m = dec n \<longleftrightarrow> m = n"
  by (metis dec_val_dec)

lemma dec_last_not_space: "\<not> is_space (last (dec n))"
  by (rule digit_not_space, rule dec_digits [of _ n]) simp

lemma dec_hd_digit: "is_digit (hd (dec n))"
  by (rule dec_digits [of _ n]) simp

lemma dec_val_bound: "list_all is_digit s \<Longrightarrow> dec_val s < 10 ^ length s"
proof (induction s)
  case (Cons c s)
  then have "dec_val s < 10 ^ length s" "digit_val c < 10" by (auto intro: digit_val_less)
  then have "digit_val c * 10 ^ length s + dec_val s < (digit_val c + 1) * 10 ^ length s"
    by (simp add: algebra_simps)
  also have "\<dots> \<le> 10 * 10 ^ length s"
    by (rule mult_right_mono) (use \<open>digit_val c < 10\<close> in auto)
  finally show ?case by (simp add: dec_val_Cons)
qed simp

lemma int_str_inject [simp]: "int_str a = int_str b \<longleftrightarrow> a = b"
proof
  have minus: "CHR ''-'' \<notin> set (dec n)" for n
    by (rule notI, drule dec_digits) (simp add: is_digit_def)
  assume "int_str a = int_str b"
  moreover from minus have "CHR ''-'' # dec m \<noteq> dec n" for m n
    by (metis list.set_intros(1))
  moreover from minus have "dec n \<noteq> CHR ''-'' # dec m" for m n
    by (metis list.set_intros(1))
  ultimately show "a = b" by (auto simp: int_str_def split: if_splits)
qed simp

definition hex_digit :: "nat \<Rightarrow> char" where
  "hex_digit n = (if n < 10 then char_of (48 + n) else char_of (87 + n))"

definition hex_val :: "char \<Rightarrow> nat" where
  "hex_val c = (if code c \<le> 57 then code c - 48 else if code c \<le> 70 then code c - 55 else code c - 87)"

text \<open>\<open>Buffer.toString('hex')\<close>: two lower-case digits for each byte.\<close>

definition hex_byte :: "nat \<Rightarrow> string" where
  "hex_byte b = [hex_digit (b div 16), hex_digit (b mod 16)]"

definition to_hex :: "byte_list \<Rightarrow> string" where
  "to_hex bs = concat (map hex_byte bs)"

fun from_hex :: "string \<Rightarrow> byte_list" where
  "from_hex (a # b # s) = (16 * hex_val a + hex_val b) # from_hex s"
| "from_hex _ = []"

lemma hex_val_digit: "n < 16 \<Longrightarrow> hex_val (hex_digit n) = n"
  by (auto simp: hex_val_def hex_digit_def)

lemma is_lower_hex_digit: "n < 16 \<Longrightarrow> is_lower_hex (hex_digit n)"
  by (auto simp: is_lower_hex_def hex_digit_def is_digit_def)

lemma length_to_hex [simp]: "length (to_hex bs) = 2 * length bs"
  by (induction bs) (auto simp: to_hex_def hex_byte_def)

lemma from_to_hex [text_simps]: "list_all (\<lambda>b. b < 256) bs \<Longrightarrow> from_hex (to_hex bs) = bs"
  by (induction bs) (auto simp: to_hex_def hex_byte_def hex_val_digit)

lemma to_hex_lower_hex: "list_all (\<lambda>b. b < 256) bs \<Longrightarrow> list_all is_lower_hex (to_hex bs)"
  by (induction bs) (auto simp: to_hex_def hex_byte_def is_lower_hex_digit)

definition is_hex64 :: "string \<Rightarrow> bool" where
  "is_hex64 s \<longleftrightarrow> length s = 64 \<and> list_all is_hex s"

lemma lower_lower [simp]: "lower (lower s) = lower s"
proof -
  have "to_lower (to_lower c) = to_lower c" for c by (auto simp: to_lower_def)
  then show ?thesis by (simp add: lower_def)
qed

lemma length_lower [simp]: "length (lower s) = length s"
  by (simp add: lower_def)

lemma lower_hex: "is_hex c \<Longrightarrow> is_hex (to_lower c)"
  by (auto simp: is_hex_def is_lower_hex_def is_digit_def to_lower_def)

section \<open>UTF-8 encoding\<close>

text \<open>\<open>TextEncoder.encode\<close> on code units below 256: one byte below 128, two from 128 on.\<close>

definition utf8_char :: "char \<Rightarrow> byte_list" where
  "utf8_char c = (if code c < 128 then [code c] else [192 + code c div 64, 128 + code c mod 64])"

definition utf8 :: "string \<Rightarrow> byte_list" where
  "utf8 s = concat (map utf8_char s)"

lemma code_less_256: "code c < 256"
  using of_char_of [of "code c"] by (metis char_of_char of_char_of mod_less_divisor zero_less_numeral)

lemma code_inject: "code c = code d \<longleftrightarrow> c = d"
  by (metis char_of_char)

lemma utf8_char_prefix:
  assumes "utf8_char c @ u = utf8_char d @ v"
  shows "c = d \<and> u = v"
proof -
  have *: "x div 64 = y div 64 \<Longrightarrow> x mod 64 = y mod 64 \<Longrightarrow> x = y" for x y :: nat
    by (metis div_mult_mod_eq)
  from assms code_less_256 [of c] code_less_256 [of d] show ?thesis
    by (auto simp: utf8_char_def code_inject split: if_splits dest!: *)
qed

lemma utf8_append: "utf8 (s @ t) = utf8 s @ utf8 t"
  by (simp add: utf8_def)

lemma utf8_inject [simp]: "utf8 s = utf8 t \<longleftrightarrow> s = t"
proof
  assume "utf8 s = utf8 t"
  then show "s = t"
  proof (induction s arbitrary: t)
    case Nil
    then show ?case by (cases t) (auto simp: utf8_def utf8_char_def split: if_splits)
  next
    case (Cons c s)
    then obtain d t' where t: "t = d # t'"
      by (cases t) (auto simp: utf8_def utf8_char_def split: if_splits)
    with Cons.prems have "utf8_char c @ utf8 s = utf8_char d @ utf8 t'" by (simp add: utf8_def)
    with Cons.IH t show ?case by (auto dest: utf8_char_prefix)
  qed
qed simp

section \<open>Sorting with a comparator\<close>

text \<open>
  \<open>Array.prototype.sort\<close> is stable. With a comparator that is a total preorder the result is that
  of insertion sort; \<open>le x y\<close> stands for \<open>compare(x, y) \<le> 0\<close>.
\<close>

fun ins_by :: "('a \<Rightarrow> 'a \<Rightarrow> bool) \<Rightarrow> 'a \<Rightarrow> 'a list \<Rightarrow> 'a list" where
  "ins_by le x [] = [x]"
| "ins_by le x (y # ys) = (if le x y then x # y # ys else y # ins_by le x ys)"

definition sort_by :: "('a \<Rightarrow> 'a \<Rightarrow> bool) \<Rightarrow> 'a list \<Rightarrow> 'a list" where
  "sort_by le xs = foldr (ins_by le) xs []"

text \<open>\<open>[...new Set(xs)]\<close>: first occurrences, in order.\<close>

definition js_uniq :: "'a list \<Rightarrow> 'a list" where
  "js_uniq xs = rev (remdups (rev xs))"

lemma mset_ins_by [simp]: "mset (ins_by le x ys) = add_mset x (mset ys)"
  by (induction ys) auto

lemma mset_sort_by [simp]: "mset (sort_by le xs) = mset xs"
  by (induction xs) (auto simp: sort_by_def)

lemma set_ins_by [simp]: "set (ins_by le x ys) = insert x (set ys)"
  by (induction ys) auto

lemma set_sort_by [simp]: "set (sort_by le xs) = set xs"
  by (induction xs) (auto simp: sort_by_def)

lemma length_sort_by [simp]: "length (sort_by le xs) = length xs"
  by (metis mset_sort_by size_mset)

lemma sort_by_Nil [simp]: "sort_by le [] = []"
  by (simp add: sort_by_def)

lemma sort_by_Cons: "sort_by le (x # xs) = ins_by le x (sort_by le xs)"
  by (simp add: sort_by_def)

lemma set_js_uniq [simp]: "set (js_uniq xs) = set xs"
  by (simp add: js_uniq_def)

lemma distinct_js_uniq [simp]: "distinct (js_uniq xs)"
  by (simp add: js_uniq_def)

lemma js_uniq_id: "distinct xs \<Longrightarrow> js_uniq xs = xs"
  by (simp add: js_uniq_def distinct_remdups_id)

lemma ins_by_map: "ins_by (\<lambda>a b. le (f a) (f b)) x xs = ys \<Longrightarrow> map f ys = ins_by le (f x) (map f xs)"
  by (induction xs arbitrary: ys) auto

lemma sort_by_map: "map f (sort_by (\<lambda>a b. le (f a) (f b)) xs) = sort_by le (map f xs)"
  by (induction xs) (auto simp: sort_by_def ins_by_map)

text \<open>
  The contract of a comparator: a total preorder, and for a collation of texts a total order.
  Code-unit order is one; the collation behind \<open>localeCompare\<close> is a parameter of the model, and
  results that need it assume this contract.
\<close>

locale comparator =
  fixes le :: "'a \<Rightarrow> 'a \<Rightarrow> bool"
  assumes le_total: "le x y \<or> le y x"
    and le_trans: "le x y \<Longrightarrow> le y z \<Longrightarrow> le x z"
begin

lemma sorted_ins_by: "sorted_wrt le ys \<Longrightarrow> sorted_wrt le (ins_by le x ys)"
proof (induction ys)
  case (Cons y ys)
  show ?case
  proof (cases "le x y")
    case True
    with Cons.prems le_trans show ?thesis by auto
  next
    case False
    with le_total have "le y x" by blast
    with Cons False show ?thesis by auto
  qed
qed simp

lemma sorted_sort_by: "sorted_wrt le (sort_by le xs)"
  by (induction xs) (auto simp: sort_by_def sorted_ins_by)

end

locale collation = comparator +
  assumes le_antisym: "le x y \<Longrightarrow> le y x \<Longrightarrow> x = y"
begin

lemma sorted_unique:
  "sorted_wrt le xs \<Longrightarrow> sorted_wrt le ys \<Longrightarrow> mset xs = mset ys \<Longrightarrow> xs = ys"
proof (induction xs arbitrary: ys)
  case (Cons x xs)
  then obtain y ys' where ys: "ys = y # ys'" by (cases ys) auto
  have "x \<in> set ys" "y \<in> set (x # xs)"
    using Cons.prems(3) ys by (metis list.set_intros(1) set_mset_mset)+
  then have "x = y"
    using Cons.prems ys le_antisym by auto
  with Cons ys show ?case by auto
qed simp

lemma sort_by_perm: "mset xs = mset ys \<Longrightarrow> sort_by le xs = sort_by le ys"
  by (rule sorted_unique) (auto simp: sorted_sort_by)

lemma sort_by_idem: "sort_by le (sort_by le xs) = sort_by le xs"
  by (rule sort_by_perm) simp

end

text \<open>The default order of \<open>sort()\<close>: code units, first difference decides.\<close>

fun str_le :: "string \<Rightarrow> string \<Rightarrow> bool" where
  "str_le [] t = True"
| "str_le (x # s) [] = False"
| "str_le (x # s) (y # t) = (code x < code y \<or> x = y \<and> str_le s t)"

lemma str_le_total: "str_le s t \<or> str_le t s"
proof (induction s t rule: str_le.induct)
  case (3 x s y t)
  then show ?case using code_inject [of x y] by auto
qed auto

lemma str_le_trans: "str_le s t \<Longrightarrow> str_le t u \<Longrightarrow> str_le s u"
proof (induction s t arbitrary: u rule: str_le.induct)
  case (3 x s y t)
  then show ?case by (cases u) auto
qed auto

lemma str_le_antisym: "str_le s t \<Longrightarrow> str_le t s \<Longrightarrow> s = t"
proof (induction s t rule: str_le.induct)
  case (1 t)
  then show ?case by (cases t) auto
qed auto

interpretation code_units: collation str_le
  by unfold_locales (use str_le_total str_le_trans str_le_antisym in blast)+

section \<open>Insertion-ordered objects\<close>

text \<open>
  Plain objects are association lists in insertion order: writing a present key keeps its
  place (\<open>AList.update\<close>), a new key goes last.
\<close>

definition pick :: "string list \<Rightarrow> (string \<times> 'a) list \<Rightarrow> (string \<times> 'a) list" where
  "pick ks ob = filter (\<lambda>(k, _). k \<in> set ks) ob"

lemma map_of_pick [simp]: "map_of (pick ks ob) k = (if k \<in> set ks then map_of ob k else None)"
  by (induction ob) (auto simp: pick_def)

lemma keys_pick: "fst ` set (pick ks ob) = fst ` set ob \<inter> set ks"
  by (force simp: pick_def)

lemma pick_pick: "set ks \<subseteq> set ls \<Longrightarrow> pick ks (pick ls ob) = pick ks ob"
  unfolding pick_def by (simp only: filter_filter) (rule filter_cong, auto)

text \<open>The listed keys that are present, in the order of the list.\<close>

definition take_keys :: "string list \<Rightarrow> (string \<times> 'a) list \<Rightarrow> (string \<times> 'a) list" where
  "take_keys ks ob = concat (map (\<lambda>k. case map_of ob k of None \<Rightarrow> [] | Some v \<Rightarrow> [(k, v)]) ks)"

lemma map_of_take_keys [simp]: "map_of (take_keys ks ob) k = (if k \<in> set ks then map_of ob k else None)"
  by (induction ks) (auto simp: take_keys_def split: option.splits)

lemma keys_take_keys: "fst ` set (take_keys ks ob) \<subseteq> set ks"
  by (auto simp: take_keys_def split: option.splits)

text \<open>\<open>Object.assign(ob, es)\<close>; assigning to \<open>__proto__\<close> writes no own entry.\<close>

definition js_assign :: "(string \<times> 'a) list \<Rightarrow> (string \<times> 'a) list \<Rightarrow> (string \<times> 'a) list" where
  "js_assign ob es =
     foldl (\<lambda>o' (k, v). if k = ''__proto__'' then o' else AList.update k v o') ob es"

lemma js_assign_Nil [simp]: "js_assign ob [] = ob"
  by (simp add: js_assign_def)

lemma map_of_js_assign:
  assumes "distinct (map fst es)" "''__proto__'' \<notin> fst ` set es"
  shows "map_of (js_assign ob es) k = (case map_of es k of None \<Rightarrow> map_of ob k | Some v \<Rightarrow> Some v)"
  using assms
proof (induction es arbitrary: ob)
  case (Cons e es)
  obtain a v where e: "e = (a, v)" by (cases e)
  with Cons.prems have "a \<noteq> ''__proto__''" "map_of es a = None"
    by (auto simp: map_of_eq_None_iff)
  moreover have "map_of (js_assign (AList.update a v ob) es) k =
      (case map_of es k of None \<Rightarrow> map_of (AList.update a v ob) k | Some v \<Rightarrow> Some v)"
    by (rule Cons.IH) (use Cons.prems in auto)
  ultimately show ?case
    using e by (auto simp: js_assign_def update_conv split: option.splits)
qed simp

lemma distinct_pick: "distinct (map fst ob) \<Longrightarrow> distinct (map fst (pick ks ob))"
  by (induction ob) (auto simp: pick_def)

end
