(* ===== verification/Encoding.thy ===== *)
theory Encoding
  imports TSN_Prelude
begin

text \<open>
  Byte and text encodings: \<open>sdks/tsn-sdk/src/receipts/internal/encoding.ts\<close>, with the base-64
  routines \<open>btoa\<close> and \<open>atob\<close> of the runtime it calls. The length-prefixed field encoding
  \<open>canonicalFields\<close> is shown injective and the unpadded base-64 text a round trip.
\<close>

section \<open>Base 64\<close>

definition b64_char :: "nat \<Rightarrow> char" where
  "b64_char n =
     (if n < 26 then char_of (65 + n)
      else if n < 52 then char_of (71 + n)
      else if n < 62 then char_of (n - 4)
      else if n = 62 then CHR ''+'' else CHR ''/'')"

definition b64_val :: "char \<Rightarrow> nat option" where
  "b64_val c =
     (if 65 \<le> code c \<and> code c \<le> 90 then Some (code c - 65)
      else if 97 \<le> code c \<and> code c \<le> 122 then Some (code c - 71)
      else if is_digit c then Some (code c + 4)
      else if c = CHR ''+'' then Some 62
      else if c = CHR ''/'' then Some 63
      else None)"

text \<open>Three bytes make four characters; the last group is padded with \<open>=\<close>.\<close>

fun btoa :: "byte_list \<Rightarrow> string" where
  "btoa [] = []"
| "btoa [a] = [b64_char (a div 4), b64_char (a mod 4 * 16), CHR ''='', CHR ''='']"
| "btoa [a, b] =
     [b64_char (a div 4), b64_char (a mod 4 * 16 + b div 16), b64_char (b mod 16 * 4), CHR ''='']"
| "btoa (a # b # c # r) =
     b64_char (a div 4) # b64_char (a mod 4 * 16 + b div 16)
     # b64_char (b mod 16 * 4 + c div 64) # b64_char (c mod 64) # btoa r"

fun b64_bytes :: "nat list \<Rightarrow> byte_list" where
  "b64_bytes (a # b # c # d # r) =
     (a * 4 + b div 16) # (b mod 16 * 16 + c div 4) # (c mod 4 * 64 + d) # b64_bytes r"
| "b64_bytes [a, b, c] = [a * 4 + b div 16, b mod 16 * 16 + c div 4]"
| "b64_bytes [a, b] = [a * 4 + b div 16]"
| "b64_bytes _ = []"

fun b64_vals :: "string \<Rightarrow> nat list option" where
  "b64_vals [] = Some []"
| "b64_vals (c # s) =
     (case b64_val c of None \<Rightarrow> None | Some n \<Rightarrow> map_option ((#) n) (b64_vals s))"

text \<open>The forgiving decoder of \<open>atob\<close>: white space is dropped, then one or two \<open>=\<close> of a text
  whose length is a multiple of four; other characters are errors.\<close>

definition strip_padding :: "string \<Rightarrow> string" where
  "strip_padding s =
     (if length s mod 4 \<noteq> 0 then s
      else if length s \<ge> 2 \<and> drop (length s - 2) s = ''=='' then take (length s - 2) s
      else if s \<noteq> [] \<and> last s = CHR ''='' then butlast s
      else s)"

definition atob_space :: "char \<Rightarrow> bool" where
  "atob_space c \<longleftrightarrow> code c \<in> {9, 10, 12, 13, 32}"

definition atob :: "string \<Rightarrow> byte_list result" where
  "atob s =
     (let t = strip_padding (filter (\<lambda>c. \<not> atob_space c) s) in
      if length t mod 4 = 1 then Inl ''InvalidCharacterError''
      else (case b64_vals t of
              None \<Rightarrow> Inl ''InvalidCharacterError''
            | Some ns \<Rightarrow> Inr (b64_bytes ns)))"

definition drop_equals :: "string \<Rightarrow> string" where
  "drop_equals s = rev (dropWhile (\<lambda>c. c = CHR ''='') (rev s))"

definition to_url_char :: "char \<Rightarrow> char" where
  "to_url_char c = (if c = CHR ''+'' then CHR ''-'' else if c = CHR ''/'' then CHR ''_'' else c)"

definition from_url_char :: "char \<Rightarrow> char" where
  "from_url_char c = (if c = CHR ''-'' then CHR ''+'' else if c = CHR ''_'' then CHR ''/'' else c)"

definition bytesToBase64Url :: "byte_list \<Rightarrow> string" where
  "bytesToBase64Url v = drop_equals (map to_url_char (btoa v))"

definition base64UrlToBytes :: "string \<Rightarrow> byte_list result" where
  "base64UrlToBytes v =
     (let normalized = map from_url_char v;
          padded = normalized
            @ replicate ((length normalized + 3) div 4 * 4 - length normalized) (CHR ''='')
      in atob padded)"

section \<open>Canonical fields and hexadecimal digests\<close>

definition bytesToHex :: "byte_list \<Rightarrow> string" where
  "bytesToHex v = concat (map hex_byte v)"

definition field_text :: "string \<Rightarrow> string" where
  "field_text f = dec (length f) @ '':'' @ f"

definition canonicalFields :: "string list \<Rightarrow> byte_list" where
  "canonicalFields fields = utf8 (js_join ''|'' (map field_text fields))"

definition sha256Hex :: "(byte_list \<Rightarrow> byte_list) \<Rightarrow> byte_list \<Rightarrow> string" where
  "sha256Hex sha v = bytesToHex (sha v)"

subsection \<open>The field encoding is injective\<close>

lemma colon_notin_dec: "CHR '':'' \<notin> set (dec n)"
  by (rule notI, drule dec_digits) (simp add: is_digit_def)

text \<open>The length prefix says where a field ends, whatever characters the field holds.\<close>

lemma field_text_prefix:
  assumes "field_text f @ u = field_text g @ v"
  shows "f = g \<and> u = v"
proof -
  from assms have "dec (length f) @ CHR '':'' # (f @ u) = dec (length g) @ CHR '':'' # (g @ v)"
    by (simp add: field_text_def)
  then have "dec (length f) = dec (length g)" "f @ u = g @ v"
    using sep_inject colon_notin_dec by metis+
  then show ?thesis by simp
qed

lemma field_text_nonempty [simp]: "field_text f \<noteq> []"
  by (simp add: field_text_def)

lemma join_fields_inject:
  "js_join ''|'' (map field_text xs) = js_join ''|'' (map field_text ys) \<Longrightarrow> xs = ys"
proof (induction xs arbitrary: ys)
  case Nil
  then show ?case by (cases ys) (auto simp: js_join_map_Cons)
next
  case (Cons x xs)
  then obtain y ys' where ys: "ys = y # ys'"
    by (cases ys) (auto simp: js_join_map_Cons)
  let ?tail = "\<lambda>zs. concat (map ((@) ''|'') (map field_text zs))"
  from Cons.prems ys have "field_text x @ ?tail xs = field_text y @ ?tail ys'"
    by (simp only: list.map js_join_map_Cons)
  then have xy: "x = y" and tails: "?tail xs = ?tail ys'"
    by (auto dest: field_text_prefix)
  have "js_join ''|'' (map field_text xs) = js_join ''|'' (map field_text ys')"
    using tails by (cases xs; cases ys') (auto simp: js_join_map_Cons)
  with Cons.IH ys xy show ?case by auto
qed

lemma canonicalFields_inject: "canonicalFields xs = canonicalFields ys \<longleftrightarrow> xs = ys"
  by (auto simp: canonicalFields_def dest: join_fields_inject)

lemma sha256Hex_length: "length (sha v) = 32 \<Longrightarrow> length (sha256Hex sha v) = 64"
  by (simp add: sha256Hex_def bytesToHex_def to_hex_def [symmetric])

subsection \<open>Base-64 text is a round trip\<close>

lemma b64_val_char [simp]: "n < 64 \<Longrightarrow> b64_val (b64_char n) = Some n"
  by (auto simp: b64_val_def b64_char_def is_digit_def)

lemma b64_char_ne:
  assumes "n < 64" "b64_val c = None"
  shows "b64_char n \<noteq> c"
  using assms b64_val_char by fastforce

lemma b64_val_None: "b64_val (CHR ''='') = None" "b64_val (CHR ''-'') = None" "b64_val (CHR ''_'') = None"
  by (simp_all add: b64_val_def is_digit_def)

lemma url_char_round [simp]: "n < 64 \<Longrightarrow> from_url_char (to_url_char (b64_char n)) = b64_char n"
  using b64_char_ne [of n "CHR ''-''"] b64_char_ne [of n "CHR ''_''"]
  by (simp add: from_url_char_def to_url_char_def b64_val_None)

lemma b64_char_not_equals [simp]:
  "n < 64 \<Longrightarrow> b64_char n \<noteq> CHR ''=''"
  "n < 64 \<Longrightarrow> to_url_char (b64_char n) \<noteq> CHR ''=''"
  using b64_char_ne [of n "CHR ''=''"] by (simp_all add: to_url_char_def b64_val_None)

lemma b64_char_not_space [simp]: "n < 64 \<Longrightarrow> \<not> atob_space (b64_char n)"
  by (auto simp: b64_char_def atob_space_def)

text \<open>The characters of the text without padding, as 6-bit values.\<close>

fun sextets :: "byte_list \<Rightarrow> nat list" where
  "sextets [] = []"
| "sextets [a] = [a div 4, a mod 4 * 16]"
| "sextets [a, b] = [a div 4, a mod 4 * 16 + b div 16, b mod 16 * 4]"
| "sextets (a # b # c # r) =
     a div 4 # (a mod 4 * 16 + b div 16) # (b mod 16 * 4 + c div 64) # (c mod 64) # sextets r"

lemma sextets_bound: "list_all (\<lambda>b. b < 256) bs \<Longrightarrow> list_all (\<lambda>n. n < 64) (sextets bs)"
proof (induction bs rule: sextets.induct)
  case (4 a b c r)
  then have "a div 4 < 64" "a mod 4 * 16 + b div 16 < 64" "b mod 16 * 4 + c div 64 < 64" by auto
  with 4 show ?case by simp
qed auto

lemma b64_bytes_sextets: "list_all (\<lambda>b. b < 256) bs \<Longrightarrow> b64_bytes (sextets bs) = bs"
proof (induction bs rule: sextets.induct)
  case (4 a b c r)
  then have "b div 16 < 16" "c div 64 < 4" by auto
  with 4 show ?case by (simp add: div_add1_eq mod_mult2_eq)
qed (auto simp: mod_mult2_eq)

lemma b64_vals_map: "list_all (\<lambda>n. n < 64) ns \<Longrightarrow> b64_vals (map b64_char ns) = Some ns"
  by (induction ns) auto

definition padding :: "byte_list \<Rightarrow> string" where
  "padding bs = (case length bs mod 3 of 0 \<Rightarrow> [] | Suc 0 \<Rightarrow> ''=='' | _ \<Rightarrow> ''='')"

lemma btoa_sextets: "btoa bs = map b64_char (sextets bs) @ padding bs"
  by (induction bs rule: sextets.induct) (auto simp: padding_def)

lemma length_sextets_mod:
  "length (sextets bs) mod 4 = (case length bs mod 3 of 0 \<Rightarrow> 0 | Suc 0 \<Rightarrow> 2 | _ \<Rightarrow> 3)"
  by (induction bs rule: sextets.induct) auto

lemma drop_equals_append:
  "s = [] \<or> last s \<noteq> CHR ''='' \<Longrightarrow> list_all (\<lambda>c. c = CHR ''='') p \<Longrightarrow> drop_equals (s @ p) = s"
  unfolding drop_equals_def by (cases s rule: rev_cases)
    (auto simp: dropWhile_append3 list_all_iff dropWhile_eq_Nil_conv)

lemma bytesToBase64Url_sextets:
  assumes "list_all (\<lambda>b. b < 256) bs"
  shows "bytesToBase64Url bs = map (to_url_char \<circ> b64_char) (sextets bs)"
proof -
  have bound: "list_all (\<lambda>n. n < 64) (sextets bs)" using assms by (rule sextets_bound)
  let ?t = "map (to_url_char \<circ> b64_char) (sextets bs)"
  have last: "?t = [] \<or> last ?t \<noteq> CHR ''=''"
    using bound by (cases "sextets bs" rule: rev_cases) auto
  have "list_all (\<lambda>c. c = CHR ''='') (map to_url_char (padding bs))"
    by (auto simp: padding_def to_url_char_def split: nat.splits)
  with last show ?thesis
    by (simp add: bytesToBase64Url_def btoa_sextets drop_equals_append)
qed

lemma length_sextets_pad:
  "(length (sextets bs) + 3) div 4 * 4 - length (sextets bs) = length (padding bs)"
proof -
  have "n mod 4 = 0 \<Longrightarrow> (n + 3) div 4 * 4 - n = 0" "n mod 4 = 2 \<Longrightarrow> (n + 3) div 4 * 4 - n = 2"
    "n mod 4 = 3 \<Longrightarrow> (n + 3) div 4 * 4 - n = 1" for n :: nat
    by presburger+
  with length_sextets_mod [of bs] show ?thesis
    by (auto simp: padding_def split: nat.splits)
qed

lemma padding_replicate: "replicate (length (padding bs)) (CHR ''='') = padding bs"
  by (auto simp: padding_def split: nat.splits)

lemma strip_padding_btoa:
  assumes "list_all (\<lambda>n. n < 64) (sextets bs)"
  shows "strip_padding (map b64_char (sextets bs) @ padding bs) = map b64_char (sextets bs)"
proof -
  let ?t = "map b64_char (sextets bs)"
  have last: "?t = [] \<or> last ?t \<noteq> CHR ''=''"
    using assms by (cases "sextets bs" rule: rev_cases) auto
  have no2: "drop k ?t \<noteq> ''==''" "drop k ?t \<noteq> ''=''" for k
  proof -
    have "drop k ?t = [] \<or> last (drop k ?t) \<noteq> CHR ''=''"
      using last by (cases "k < length ?t") auto
    then show "drop k ?t \<noteq> ''==''" "drop k ?t \<noteq> ''=''" by fastforce+
  qed
  from length_sextets_mod [of bs] last no2 show ?thesis
    by (auto simp: strip_padding_def padding_def last_append mod_add_left_eq [symmetric, of "length (sextets bs)"]
        split: nat.splits)
qed

lemma padding_chars: "c \<in> set (padding bs) \<Longrightarrow> c = CHR ''=''"
  by (subst (asm) padding_replicate [symmetric]) simp

lemma atob_btoa:
  assumes "list_all (\<lambda>b. b < 256) bs"
  shows "atob (btoa bs) = Inr bs"
proof -
  have bound: "list_all (\<lambda>n. n < 64) (sextets bs)" using assms by (rule sextets_bound)
  have "\<not> atob_space (CHR ''='')" by (simp add: atob_space_def)
  then have "filter (\<lambda>c. \<not> atob_space c) (map b64_char (sextets bs) @ padding bs)
      = map b64_char (sextets bs) @ padding bs"
    unfolding filter_id_conv using bound by (auto simp: list_all_iff dest!: padding_chars)
  moreover have "length (sextets bs) mod 4 \<noteq> 1"
    by (simp add: length_sextets_mod split: nat.splits)
  ultimately show ?thesis
    using bound by (simp del: filter_append add: btoa_sextets atob_def strip_padding_btoa b64_vals_map
        b64_bytes_sextets assms)
qed

text \<open>Decoding the unpadded base-64 text of a byte string gives the bytes back; so does decoding
  the padded text.\<close>

lemma base64Url_round:
  assumes "list_all (\<lambda>b. b < 256) bs"
  shows "base64UrlToBytes (bytesToBase64Url bs) = Inr bs"
proof -
  have bound: "list_all (\<lambda>n. n < 64) (sextets bs)" using assms by (rule sextets_bound)
  have "map from_url_char (bytesToBase64Url bs) = map b64_char (sextets bs)"
    using bound unfolding bytesToBase64Url_sextets [OF assms] by (simp add: list_all_iff)
  with atob_btoa [OF assms] show ?thesis
    by (simp add: base64UrlToBytes_def Let_def length_sextets_pad padding_replicate btoa_sextets)
qed

lemma length_btoa: "length (btoa bs) mod 4 = 0"
  by (induction bs rule: btoa.induct) auto

lemma base64_padded_round:
  assumes "list_all (\<lambda>b. b < 256) bs"
  shows "base64UrlToBytes (btoa bs) = Inr bs"
proof -
  have bound: "list_all (\<lambda>n. n < 64) (sextets bs)" using assms by (rule sextets_bound)
  have "from_url_char (b64_char n) = b64_char n" if "n < 64" for n
    using b64_val_char [OF that] b64_val_None by (auto simp: from_url_char_def)
  then have "map from_url_char (btoa bs) = btoa bs"
    using bound unfolding btoa_sextets
    by (intro map_idI) (auto simp: list_all_iff dest!: padding_chars, simp add: from_url_char_def)
  moreover have "n mod 4 = 0 \<Longrightarrow> (n + 3) div 4 * 4 - n = 0" for n :: nat by presburger
  ultimately show ?thesis
    using atob_btoa [OF assms] length_btoa [of bs] by (simp add: base64UrlToBytes_def Let_def)
qed

end
