(* ===== verification/Json_Values.thy ===== *)
theory Json_Values
  imports Encoding
begin

text \<open>
  Values of type \<open>unknown\<close> that reach the services are JSON values. This theory has the value
  type, the coercions \<open>String(x)\<close> and \<open>Number(x)\<close>, truthiness, \<open>JSON.stringify\<close>, and the two
  canonical renderings of the Receiver: \<open>stable\<close> of \<open>lib/work-contract.ts\<close> and
  \<open>stableNodeValue\<close> of \<open>lib/node-verification.ts\<close>. Numbers are integers; an absent property
  (\<open>undefined\<close>) is \<open>None\<close>. The record \<open>host\<close> holds what is not in the repository: hash and
  signature primitives, the collation of the runtime, and its date and number readers.
\<close>

section \<open>The runtime and its libraries\<close>

record host =
  sha256 :: "byte_list \<Rightarrow> byte_list"
  collate :: "string \<Rightarrow> string \<Rightarrow> bool"
  ed25519_verify :: "byte_list \<Rightarrow> byte_list \<Rightarrow> byte_list \<Rightarrow> bool"
  base64_decode :: "string \<Rightarrow> byte_list"
  date_parse :: "string \<Rightarrow> int option"
  to_iso :: "int \<Rightarrow> string"
  number_of :: "string \<Rightarrow> int option"
  gcm_seal :: "byte_list \<Rightarrow> byte_list \<Rightarrow> byte_list \<Rightarrow> byte_list \<Rightarrow> byte_list \<times> byte_list"
  gcm_open :: "byte_list \<Rightarrow> byte_list \<Rightarrow> byte_list \<Rightarrow> byte_list \<Rightarrow> byte_list \<Rightarrow> byte_list option"

definition sha256_hex :: "host \<Rightarrow> string \<Rightarrow> string" where
  "sha256_hex h s = to_hex (sha256 h (utf8 s))"

section \<open>Values\<close>

datatype json =
    JNull
  | JBool bool
  | JNum int
  | JStr string
  | JArr "json list"
  | JObj "(string \<times> json) list"

type_synonym obj = "(string \<times> json) list"

fun truthy :: "json option \<Rightarrow> bool" where
  "truthy None = False"
| "truthy (Some JNull) = False"
| "truthy (Some (JBool b)) = b"
| "truthy (Some (JNum n)) = (n \<noteq> 0)"
| "truthy (Some (JStr s)) = (s \<noteq> [])"
| "truthy (Some (JArr _)) = True"
| "truthy (Some (JObj _)) = True"

text \<open>\<open>x ?? d\<close>: the default replaces \<open>undefined\<close> and \<open>null\<close>.\<close>

fun nullish :: "json option \<Rightarrow> json \<Rightarrow> json" where
  "nullish None d = d"
| "nullish (Some JNull) d = d"
| "nullish (Some v) d = v"

primrec js_string :: "json \<Rightarrow> string" where
  "js_string JNull = ''null''"
| "js_string (JBool b) = (if b then ''true'' else ''false'')"
| "js_string (JNum n) = int_str n"
| "js_string (JStr s) = s"
| "js_string (JArr vs) =
     js_join '','' (map (\<lambda>(v, s). if v = JNull then [] else s) (zip vs (map js_string vs)))"
| "js_string (JObj _) = ''[object Object]''"

text \<open>\<open>String(x ?? "")\<close>, the form the services use for optional fields.\<close>

definition str_or_empty :: "json option \<Rightarrow> string" where
  "str_or_empty v = js_string (nullish v (JStr []))"

text \<open>\<open>Number(x)\<close>; \<open>None\<close> is \<open>NaN\<close>. Objects and arrays coerce through their text.\<close>

fun js_number :: "host \<Rightarrow> json option \<Rightarrow> int option" where
  "js_number h None = None"
| "js_number h (Some JNull) = Some 0"
| "js_number h (Some (JBool b)) = Some (if b then 1 else 0)"
| "js_number h (Some (JNum n)) = Some n"
| "js_number h (Some v) = number_of h (js_string v)"

text \<open>A property of a value that is not \<open>null\<close>; only objects have named ones here.\<close>

fun member :: "json \<Rightarrow> string \<Rightarrow> json option" where
  "member (JObj ob) k = map_of ob k"
| "member _ k = None"

text \<open>\<open>String(x)\<close> and \<open>x.toLowerCase()\<close>.\<close>

definition String_of :: "json option \<Rightarrow> string" where
  "String_of v = (case v of None \<Rightarrow> ''undefined'' | Some x \<Rightarrow> js_string x)"

fun toLowerCase :: "json option \<Rightarrow> string result" where
  "toLowerCase (Some (JStr s)) = Inr (lower s)"
| "toLowerCase _ = Inl ''toLowerCase is not a function''"

definition max_safe_integer :: int where
  "max_safe_integer = 2 ^ 53 - 1"

definition is_plain_object :: "json option \<Rightarrow> bool" where
  "is_plain_object v = (case v of Some (JObj _) \<Rightarrow> True | _ \<Rightarrow> False)"

lemma str_or_empty_None [simp]: "str_or_empty None = []"
  by (simp add: str_or_empty_def)

lemma str_or_empty_JStr [simp]: "str_or_empty (Some (JStr s)) = s"
  by (simp add: str_or_empty_def)

section \<open>Rendering\<close>

definition esc_char :: "char \<Rightarrow> string" where
  "esc_char c =
     (if c = CHR 0x22 then [CHR 0x5C, CHR 0x22]
      else if c = CHR 0x5C then [CHR 0x5C, CHR 0x5C]
      else if code c = 8 then [CHR 0x5C, CHR ''b'']
      else if code c = 9 then [CHR 0x5C, CHR ''t'']
      else if code c = 10 then [CHR 0x5C, CHR ''n'']
      else if code c = 12 then [CHR 0x5C, CHR ''f'']
      else if code c = 13 then [CHR 0x5C, CHR ''r'']
      else if code c < 32 then [CHR 0x5C, CHR ''u'', CHR ''0'', CHR ''0''] @ hex_byte (code c)
      else [c])"

definition json_quote :: "string \<Rightarrow> string" where
  "json_quote s = CHR 0x22 # concat (map esc_char s) @ [CHR 0x22]"

definition entry_text :: "string \<times> string \<Rightarrow> string" where
  "entry_text e = json_quote (fst e) @ '':'' @ snd e"

definition on_snd :: "('a \<Rightarrow> 'b) \<Rightarrow> string \<times> 'a \<Rightarrow> string \<times> 'b" where
  "on_snd f e = (fst e, f (snd e))"

definition as_is :: "'a list \<Rightarrow> 'a list" where
  "as_is xs = xs"

lemma as_is_map [simp]: "map f (as_is xs) = map f xs"
  by (simp add: as_is_def)

text \<open>
  One recursion for the three renderings; \<open>arrange\<close> orders the entries of an object. Ordering
  looks at keys only, so it may follow the rendering of the members.
\<close>

primrec render :: "((string \<times> string) list \<Rightarrow> (string \<times> string) list) \<Rightarrow> json \<Rightarrow> string" where
  "render arrange JNull = ''null''"
| "render arrange (JBool b) = (if b then ''true'' else ''false'')"
| "render arrange (JNum n) = int_str n"
| "render arrange (JStr s) = json_quote s"
| "render arrange (JArr vs) = ''['' @ js_join '','' (map (render arrange) vs) @ '']''"
| "render arrange (JObj ob) =
     ''{'' @ js_join '','' (map entry_text (arrange (map (map_prod id (render arrange)) ob))) @ ''}''"

lemma map_prod_on_snd: "map_prod id f = on_snd f"
  by (auto simp: on_snd_def)

lemma render_JObj:
  "render arrange (JObj ob) =
     ''{'' @ js_join '','' (map entry_text (arrange (map (on_snd (render arrange)) ob))) @ ''}''"
  by (simp only: render.simps map_prod_on_snd)

declare render.simps(6) [simp del]
declare render_JObj [simp]

definition by_key :: "(string \<Rightarrow> string \<Rightarrow> bool) \<Rightarrow> string \<times> 'a \<Rightarrow> string \<times> 'a \<Rightarrow> bool" where
  "by_key le a b = le (fst a) (fst b)"

definition json_stringify :: "json \<Rightarrow> string" where
  "json_stringify = render as_is"

definition stable :: "host \<Rightarrow> json \<Rightarrow> string" where
  "stable h = render (sort_by (by_key (collate h)))"

definition stableNodeValue :: "json \<Rightarrow> string" where
  "stableNodeValue = render (sort_by (by_key str_le))"

text \<open>The value with the entries of every object sorted by key.\<close>

primrec canon :: "(string \<Rightarrow> string \<Rightarrow> bool) \<Rightarrow> json \<Rightarrow> json" where
  "canon le JNull = JNull"
| "canon le (JBool b) = JBool b"
| "canon le (JNum n) = JNum n"
| "canon le (JStr s) = JStr s"
| "canon le (JArr vs) = JArr (map (canon le) vs)"
| "canon le (JObj ob) = JObj (sort_by (by_key le) (map (map_prod id (canon le)) ob))"

lemma canon_JObj: "canon le (JObj ob) = JObj (sort_by (by_key le) (map (on_snd (canon le)) ob))"
  by (simp only: canon.simps map_prod_on_snd)

declare canon.simps(6) [simp del]
declare canon_JObj [simp]

lemma sort_by_key_on_snd:
  "sort_by (by_key le) (map (on_snd f) ob) = map (on_snd f) (sort_by (by_key le) ob)"
proof (induction ob)
  case (Cons e ob)
  have "ins_by (by_key le) (on_snd f e) (map (on_snd f) ys) = map (on_snd f) (ins_by (by_key le) e ys)" for ys
    by (induction ys) (auto simp: by_key_def on_snd_def)
  with Cons show ?case by (simp add: sort_by_Cons)
qed simp

text \<open>Sorting while rendering is rendering the sorted value.\<close>

lemma render_canon: "render (sort_by (by_key le)) v = json_stringify (canon le v)"
  unfolding json_stringify_def
proof (induction v)
  case (JArr vs)
  then have "map (render (sort_by (by_key le))) vs = map (render as_is) (map (canon le) vs)" by simp
  then show ?case by (simp only: render.simps canon.simps)
next
  case (JObj ob)
  then have "map (on_snd (render (sort_by (by_key le)))) ob
      = map (on_snd (render as_is)) (map (on_snd (canon le)) ob)"
    by (auto simp: on_snd_def snds.simps)
  then show ?case by (simp only: render_JObj canon_JObj sort_by_key_on_snd as_is_map)
qed auto

subsection \<open>Rendered text determines the value\<close>

text \<open>Reading one escaped character back.\<close>

fun unesc1 :: "string \<Rightarrow> char \<times> string" where
  "unesc1 (x # s) =
     (if x \<noteq> CHR 0x5C then (x, s)
      else case s of
        e # r \<Rightarrow>
          (if e = CHR ''u'' then (char_of (16 * hex_val (r ! 2) + hex_val (r ! 3)), drop 4 r)
           else if e = CHR ''b'' then (char_of (8::nat), r)
           else if e = CHR ''t'' then (char_of (9::nat), r)
           else if e = CHR ''n'' then (char_of (10::nat), r)
           else if e = CHR ''f'' then (char_of (12::nat), r)
           else if e = CHR ''r'' then (char_of (13::nat), r)
           else (e, r)))"

lemma code_eq_char: "code c = n \<Longrightarrow> c = char_of n"
  by auto

lemma unesc1_esc: "unesc1 (esc_char c @ u) = (c, u)"
proof -
  have "char_of (16 * (code c div 16) + code c mod 16) = c" by simp
  then show ?thesis
    using code_less_256 [of c]
    by (auto simp: esc_char_def hex_byte_def hex_val_digit numeral_2_eq_2 numeral_3_eq_3
        dest!: code_eq_char)
qed

lemma esc_char_prefix: "esc_char c @ u = esc_char d @ v \<Longrightarrow> c = d \<and> u = v"
  by (metis unesc1_esc prod.inject)

lemma esc_char_not_quote: "esc_char c @ u \<noteq> CHR 0x22 # v"
  by (auto simp: esc_char_def)

lemma escaped_prefix:
  "concat (map esc_char s) @ CHR 0x22 # u = concat (map esc_char t) @ CHR 0x22 # v
   \<Longrightarrow> s = t \<and> u = v"
proof (induction s arbitrary: t)
  case Nil
  show ?case
  proof (cases t)
    case (Cons d t')
    with Nil have "esc_char d @ (concat (map esc_char t') @ CHR 0x22 # v) = CHR 0x22 # u" by simp
    then show ?thesis by (simp only: esc_char_not_quote)
  qed (use Nil in simp)
next
  case (Cons c s)
  show ?case
  proof (cases t)
    case Nil
    with Cons.prems have "esc_char c @ (concat (map esc_char s) @ CHR 0x22 # u) = CHR 0x22 # v" by simp
    then show ?thesis by (simp only: esc_char_not_quote)
  next
    case (Cons d t')
    with Cons.prems have
      "esc_char c @ (concat (map esc_char s) @ CHR 0x22 # u)
       = esc_char d @ (concat (map esc_char t') @ CHR 0x22 # v)" by simp
    then have "c = d" "concat (map esc_char s) @ CHR 0x22 # u = concat (map esc_char t') @ CHR 0x22 # v"
      by (auto dest: esc_char_prefix)
    with Cons.IH Cons show ?thesis by auto
  qed
qed

lemma json_quote_prefix: "json_quote s @ u = json_quote t @ v \<Longrightarrow> s = t \<and> u = v"
  by (rule escaped_prefix) (simp add: json_quote_def)

lemma json_quote_inject [simp]: "json_quote s = json_quote t \<longleftrightarrow> s = t"
  using json_quote_prefix [of s "[]" t "[]"] by auto

text \<open>What may follow a value inside a larger text: nothing, a comma or a closing bracket.\<close>

definition closed_off :: "string \<Rightarrow> bool" where
  "closed_off r \<longleftrightarrow> r = [] \<or> hd r \<in> {CHR '','', CHR '']'', CHR ''}''}"

lemma closed_off_simps [simp]:
  "closed_off []" "closed_off (CHR '','' # r)" "closed_off (CHR '']'' # r)" "closed_off (CHR ''}'' # r)"
  by (auto simp: closed_off_def)

lemma int_str_chars: "c \<in> set (int_str n) \<Longrightarrow> is_digit c \<or> c = CHR ''-''"
  by (auto simp: int_str_def split: if_splits)

lemma int_str_nonempty [simp]: "int_str n \<noteq> []"
  by (simp add: int_str_def)

lemma takeWhile_closed:
  assumes "closed_off r" "\<forall>c \<in> set s. is_digit c \<or> c = CHR ''-''"
  shows "takeWhile (\<lambda>c. is_digit c \<or> c = CHR ''-'') (s @ r) = s"
  using assms by (cases r) (auto simp: closed_off_def is_digit_def takeWhile_append2)

lemma int_str_prefix:
  assumes "int_str m @ u = int_str n @ v" "closed_off u" "closed_off v"
  shows "m = n \<and> u = v"
proof -
  have "int_str m = int_str n"
    using takeWhile_closed [OF assms(2), of "int_str m"] takeWhile_closed [OF assms(3), of "int_str n"]
    by (simp add: int_str_chars assms(1))
  with assms(1) show ?thesis by simp
qed

lemma int_str_hd: "hd (int_str n @ u) \<noteq> c" if "\<not> is_digit c" "c \<noteq> CHR ''-''"
  using int_str_chars [of "hd (int_str n)" n] that by auto

text \<open>
  An item is readable when no other item, followed by a terminator, prints to the same text.
\<close>

definition readable :: "('a \<Rightarrow> string) \<Rightarrow> 'a \<Rightarrow> bool" where
  "readable r x \<longleftrightarrow> (\<forall>y u u'. r x @ u = r y @ u' \<longrightarrow> closed_off u \<longrightarrow> closed_off u' \<longrightarrow> x = y \<and> u = u')"

lemma readableI:
  "(\<And>y u u'. r x @ u = r y @ u' \<Longrightarrow> closed_off u \<Longrightarrow> closed_off u' \<Longrightarrow> x = y \<and> u = u') \<Longrightarrow> readable r x"
  unfolding readable_def by blast

lemma readableD:
  "readable r x \<Longrightarrow> r x @ u = r y @ u' \<Longrightarrow> closed_off u \<Longrightarrow> closed_off u' \<Longrightarrow> x = y \<and> u = u'"
  unfolding readable_def by blast

lemma render_hd:
  "hd (render as_is v @ u) = (case v of
     JNull \<Rightarrow> CHR ''n'' | JBool b \<Rightarrow> (if b then CHR ''t'' else CHR ''f'')
   | JNum n \<Rightarrow> hd (int_str n) | JStr s \<Rightarrow> CHR 0x22 | JArr vs \<Rightarrow> CHR ''['' | JObj ob \<Rightarrow> CHR ''{'')"
  by (cases v) (auto simp: json_quote_def)

lemma render_nonempty [simp]: "render as_is v \<noteq> []"
  by (cases v) (auto simp: json_quote_def)

lemma join_items:
  "js_join '','' (map r (x # xs)) = r x @ concat (map (\<lambda>z. CHR '','' # r z) xs)"
  by (induction xs arbitrary: x) auto

text \<open>A comma-separated list of items, each of which can be read off, can be read off.\<close>

lemma tails_prefix:
  assumes "\<forall>x \<in> set xs. readable r x" "e = CHR '']'' \<or> e = CHR ''}''"
    and "concat (map (\<lambda>z. CHR '','' # r z) xs) @ e # u = concat (map (\<lambda>z. CHR '','' # r z) ys) @ e # u'"
  shows "xs = ys \<and> u = u'"
  using assms
proof (induction xs arbitrary: ys)
  case Nil
  then show ?case by (cases ys) auto
next
  case (Cons x xs)
  let ?tail = "\<lambda>zs. concat (map (\<lambda>z. CHR '','' # r z) zs)"
  have closed: "closed_off (?tail zs @ e # w)" for zs w
    using Cons.prems(2) by (cases zs) auto
  obtain y ys' where ys: "ys = y # ys'"
    using Cons.prems(2,3) by (cases ys) auto
  have "r x @ (?tail xs @ e # u) = r y @ (?tail ys' @ e # u')"
    using Cons.prems(3) unfolding ys by simp
  then have "x = y \<and> ?tail xs @ e # u = ?tail ys' @ e # u'"
    using Cons.prems(1) closed by (intro readableD) auto
  with Cons ys show ?case by auto
qed

lemma items_prefix:
  assumes elem: "\<forall>x \<in> set xs. readable r x"
    and first: "\<And>y u x. r y @ u \<noteq> e # x"
    and e: "e = CHR '']'' \<or> e = CHR ''}''"
    and eq: "js_join '','' (map r xs) @ e # u = js_join '','' (map r ys) @ e # u'"
  shows "xs = ys \<and> u = u'"
proof (cases xs; cases ys)
  fix x xs' y ys'
  assume xs: "xs = x # xs'" and ys: "ys = y # ys'"
  let ?tail = "\<lambda>zs. concat (map (\<lambda>z. CHR '','' # r z) zs)"
  have "r x @ (?tail xs' @ e # u) = r y @ (?tail ys' @ e # u')"
    using eq unfolding xs ys join_items by simp
  moreover have "closed_off (?tail zs @ e # w)" for zs w
    using e by (cases zs) auto
  ultimately have "x = y \<and> ?tail xs' @ e # u = ?tail ys' @ e # u'"
    using elem xs by (intro readableD) auto
  with tails_prefix [of xs' r e u ys' u'] elem e xs ys show ?thesis by auto
next
  fix y ys'
  assume "xs = []" "ys = y # ys'"
  with eq join_items [of r y ys']
  have "r y @ (concat (map (\<lambda>z. CHR '','' # r z) ys') @ e # u') = e # u" by simp
  then show ?thesis by (simp only: first)
next
  fix x xs'
  assume "ys = []" "xs = x # xs'"
  with eq join_items [of r x xs']
  have "r x @ (concat (map (\<lambda>z. CHR '','' # r z) xs') @ e # u) = e # u'" by simp
  then show ?thesis by (simp only: first)
qed (use eq in auto)

lemma render_hd_not_close: "hd (render as_is v @ u) \<notin> {CHR '']'', CHR ''}''}"
proof (cases v)
  case (JNum n)
  then show ?thesis using int_str_hd [of "CHR '']''" n u] int_str_hd [of "CHR ''}''" n u] by (auto simp: is_digit_def)
qed (auto simp: json_quote_def)

lemma int_str_start:
  assumes "\<not> is_digit c" "c \<noteq> CHR ''-''"
  shows "c # x \<noteq> int_str n @ u" "int_str n @ u \<noteq> c # x"
  using int_str_hd [OF assms, of n u] by (metis list.sel(1))+

lemma not_digits [simp]:
  "\<not> is_digit (CHR ''n'')" "\<not> is_digit (CHR ''t'')" "\<not> is_digit (CHR ''f'')"
  "\<not> is_digit (CHR 0x22)" "\<not> is_digit (CHR ''['')" "\<not> is_digit (CHR ''{'')"
  by (simp_all add: is_digit_def)

abbreviation entry_render :: "string \<times> json \<Rightarrow> string" where
  "entry_render e \<equiv> entry_text (on_snd (render as_is) e)"

lemma entry_readable:
  assumes "readable (render as_is) (snd a)"
  shows "readable entry_render a"
proof (rule readableI)
  fix b u u'
  assume eq: "entry_render a @ u = entry_render b @ u'" and closed: "closed_off u" "closed_off u'"
  from eq have "json_quote (fst a) @ (CHR '':'' # render as_is (snd a) @ u)
      = json_quote (fst b) @ (CHR '':'' # render as_is (snd b) @ u')"
    by (simp add: entry_text_def on_snd_def)
  then have "fst a = fst b" "render as_is (snd a) @ u = render as_is (snd b) @ u'"
    by (auto dest: json_quote_prefix)
  with readableD [OF assms _ closed, of "snd b"] show "a = b \<and> u = u'"
    by (metis prod.collapse)
qed

lemma render_readable: "readable (render as_is) v"
proof (induction v)
  case (JNum n)
  show ?case
  proof (rule readableI)
    fix w u u'
    assume "render as_is (JNum n) @ u = render as_is w @ u'" "closed_off u" "closed_off u'"
    then show "JNum n = w \<and> u = u'"
      by (cases w) (auto simp: int_str_start json_quote_def dest: int_str_prefix split: if_splits)
  qed
next
  case (JStr s)
  show ?case
  proof (rule readableI)
    fix w u u'
    assume "render as_is (JStr s) @ u = render as_is w @ u'"
    then show "JStr s = w \<and> u = u'"
      by (cases w) (auto simp: int_str_start json_quote_def dest: escaped_prefix split: if_splits)
  qed
next
  case (JArr vs)
  show ?case
  proof (rule readableI)
    fix w u u'
    assume eq: "render as_is (JArr vs) @ u = render as_is w @ u'"
    show "JArr vs = w \<and> u = u'"
    proof (cases w)
      case (JArr ws)
      have "vs = ws \<and> u = u'"
      proof (rule items_prefix [where r = "render as_is" and e = "CHR '']''"])
        show "js_join '','' (map (render as_is) vs) @ CHR '']'' # u
            = js_join '','' (map (render as_is) ws) @ CHR '']'' # u'"
          using eq JArr by simp
        show "render as_is y @ u \<noteq> CHR '']'' # x" for y u x
          using render_hd_not_close [of y u] by (metis insertI1 list.sel(1))
      qed (use JArr.IH in auto)
      with JArr show ?thesis by simp
    qed (use eq in \<open>auto simp: int_str_start json_quote_def split: if_splits\<close>)
  qed
next
  case (JObj ob)
  show ?case
  proof (rule readableI)
    fix w u u'
    assume eq: "render as_is (JObj ob) @ u = render as_is w @ u'"
    show "JObj ob = w \<and> u = u'"
    proof (cases w)
      case (JObj wb)
      have "ob = wb \<and> u = u'"
      proof (rule items_prefix [where r = entry_render and e = "CHR ''}''"])
        show "js_join '','' (map entry_render ob) @ CHR ''}'' # u
            = js_join '','' (map entry_render wb) @ CHR ''}'' # u'"
          using eq JObj by (simp add: comp_def)
        show "\<forall>x \<in> set ob. readable entry_render x"
          using JObj.IH by (auto intro!: entry_readable simp: snds.simps)
      qed (simp_all add: entry_text_def json_quote_def)
      with JObj show ?thesis by simp
    qed (use eq in \<open>auto simp: int_str_start json_quote_def split: if_splits\<close>)
  qed
next
  case JNull
  show ?case
  proof (rule readableI)
    fix w u u'
    assume "render as_is JNull @ u = render as_is w @ u'"
    then show "JNull = w \<and> u = u'"
      by (cases w) (auto simp: int_str_start json_quote_def split: if_splits)
  qed
next
  case (JBool b)
  show ?case
  proof (rule readableI)
    fix w u u'
    assume "render as_is (JBool b) @ u = render as_is w @ u'"
    then show "JBool b = w \<and> u = u'"
      by (cases w) (auto simp: int_str_start json_quote_def split: if_splits)
  qed
qed

lemma json_stringify_inject [simp]: "json_stringify v = json_stringify w \<longleftrightarrow> v = w"
proof
  assume "json_stringify v = json_stringify w"
  then show "v = w"
    using readableD [OF render_readable, of v "[]" w "[]"] by (simp add: json_stringify_def)
qed simp

text \<open>
  So the canonical renderings identify exactly the values that differ in the order of object
  entries.
\<close>

lemma stable_eq_iff: "stable h v = stable h w \<longleftrightarrow> canon (collate h) v = canon (collate h) w"
  by (simp add: stable_def render_canon)

lemma stableNodeValue_eq_iff: "stableNodeValue v = stableNodeValue w \<longleftrightarrow> canon str_le v = canon str_le w"
  by (simp add: stableNodeValue_def render_canon)

section \<open>Values as finite maps\<close>

lemma map_of_on_snd: "map_of (map (on_snd f) ob) k = map_option f (map_of ob k)"
  by (induction ob) (auto simp: on_snd_def)

lemma map_fst_on_snd [simp]: "map fst (map (on_snd f) ob) = map fst ob"
  by (simp add: on_snd_def)

lemma alist_rebuild: "distinct (map fst xs) \<Longrightarrow> map (\<lambda>k. (k, the (map_of xs k))) (map fst xs) = xs"
  by (auto intro!: map_idI simp: map_of_is_SomeI)

text \<open>With a total order, sorting entries with distinct keys depends on the finite map only.\<close>

lemma sort_by_key_cong:
  assumes coll: "collation le" and xs: "distinct (map fst xs)" and ys: "distinct (map fst ys)"
    and eq: "map_of xs = map_of ys"
  shows "sort_by (by_key le) xs = sort_by (by_key le) ys"
proof -
  let ?s = "sort_by (by_key le)"
  have fst_sort: "map fst (?s zs) = sort_by le (map fst zs)" for zs
    using sort_by_map [of fst le zs] by (simp add: by_key_def [abs_def])
  have dist: "distinct (map fst (?s zs))" if "distinct (map fst zs)" for zs
    using that unfolding fst_sort by (metis mset_eq_imp_distinct_iff mset_sort_by)
  have map_sort: "map_of (?s zs) = map_of zs" if "distinct (map fst zs)" for zs
    using that dist [OF that] by (simp add: map_of_inject_set)
  have "mset (map fst xs) = mset (map fst ys)"
    using xs ys eq by (metis dom_map_of_conv_image_fst set_eq_iff_mset_eq_distinct list.set_map)
  then have "map fst (?s xs) = map fst (?s ys)"
    unfolding fst_sort by (rule collation.sort_by_perm [OF coll])
  with alist_rebuild [OF dist [OF xs]] alist_rebuild [OF dist [OF ys]] map_sort xs ys eq
  show ?thesis by metis
qed

lemma stable_obj_cong:
  assumes "collation (collate h)" "distinct (map fst xs)" "distinct (map fst ys)"
    and "\<And>k. map_option (stable h) (map_of xs k) = map_option (stable h) (map_of ys k)"
  shows "stable h (JObj xs) = stable h (JObj ys)"
proof -
  have "map_of (map (on_snd (canon (collate h))) xs) = map_of (map (on_snd (canon (collate h))) ys)"
  proof
    fix k
    from assms(4) [of k] show "map_of (map (on_snd (canon (collate h))) xs) k = map_of (map (on_snd (canon (collate h))) ys) k"
      by (auto simp: map_of_on_snd stable_eq_iff map_option_case split: option.splits)
  qed
  then show ?thesis
    unfolding stable_eq_iff canon_JObj using assms(1-3)
    by (intro arg_cong [where f = JObj] sort_by_key_cong) (simp_all del: map_map)
qed

end
