(* ===== verification/Sample_Host.thy ===== *)
theory Sample_Host
  imports Json_Values
begin

text \<open>
  One instance of the parameters on which the laws that later results assume hold: the hash keeps
  the first 32 bytes, a signature is the start of key and message, sealing appends a tag that
  repeats key, nonce and associated data, and instants print as their milliseconds.
\<close>

definition parse_int :: "string \<Rightarrow> int option" where
  "parse_int s =
     (let neg = (s \<noteq> [] \<and> hd s = CHR ''-''); ds = (if neg then tl s else s)
      in if ds = [] \<or> \<not> list_all is_digit ds then None
         else Some (if neg then - int (dec_val ds) else int (dec_val ds)))"

definition sample_tag :: "byte_list \<Rightarrow> byte_list \<Rightarrow> byte_list \<Rightarrow> byte_list" where
  "sample_tag key iv aad = take 16 (key @ iv @ aad @ replicate 16 0)"

lemma length_sample_tag [simp]: "length (sample_tag key iv aad) = 16"
  by (simp add: sample_tag_def)

definition sample_host :: host where
  "sample_host =
     \<lparr>sha256 = (\<lambda>bs. take 32 (map (\<lambda>b. b mod 256) bs @ replicate 32 0)),
      collate = str_le,
      ed25519_verify = (\<lambda>key msg sig. sig = take 64 (key @ msg @ replicate 64 0)),
      base64_decode = (\<lambda>s. case base64UrlToBytes s of Inr bs \<Rightarrow> bs | Inl _ \<Rightarrow> []),
      date_parse = (\<lambda>s. if s \<noteq> [] \<and> last s = CHR ''Z'' then parse_int (butlast s) else None),
      to_iso = (\<lambda>t. int_str t @ ''Z''),
      number_of = parse_int,
      gcm_seal = (\<lambda>key iv aad pt. (pt, sample_tag key iv aad)),
      gcm_open = (\<lambda>key iv aad ct tag. if tag = sample_tag key iv aad then Some ct else None)\<rparr>"

lemma parse_int_str [simp]: "parse_int (int_str z) = Some z"
proof -
  have "hd (dec n) \<noteq> CHR ''-''" for n
    using dec_hd_digit [of n] by (auto simp: is_digit_def)
  then show ?thesis by (auto simp: parse_int_def int_str_def Let_def)
qed

lemma sample_host_simps [simp]:
  "sha256 sample_host bs = take 32 (map (\<lambda>b. b mod 256) bs @ replicate 32 0)"
  "collate sample_host = str_le"
  "ed25519_verify sample_host key msg sig \<longleftrightarrow> sig = take 64 (key @ msg @ replicate 64 0)"
  "date_parse sample_host (to_iso sample_host t) = Some t"
  "gcm_seal sample_host key iv aad pt = (pt, sample_tag key iv aad)"
  "gcm_open sample_host key iv aad ct tag = (if tag = sample_tag key iv aad then Some ct else None)"
  by (simp_all add: sample_host_def)

lemma sample_base64 [simp]:
  "list_all (\<lambda>b. b < 256) bs \<Longrightarrow> base64_decode sample_host (bytesToBase64Url bs) = bs"
  by (simp add: sample_host_def base64Url_round)

lemma sample_base64_padded [simp]:
  "list_all (\<lambda>b. b < 256) bs \<Longrightarrow> base64_decode sample_host (btoa bs) = bs"
  by (simp add: sample_host_def base64_padded_round)

lemma sample_base64_mapped [simp]:
  "base64_decode sample_host (map from_url_char s) = base64_decode sample_host s"
proof -
  have "from_url_char \<circ> from_url_char = from_url_char" by (auto simp: from_url_char_def)
  then show ?thesis by (simp add: sample_host_def base64UrlToBytes_def)
qed

lemma sample_collation: "collation (collate sample_host)"
  unfolding sample_host_simps by (rule code_units.collation_axioms)

end
