(* ===== verification/Json_Parse.thy ===== *)
theory Json_Parse
  imports Sample_Host
begin

text \<open>
  \<open>JSON.parse\<close> on texts whose numbers are integers and whose characters are code units below 256,
  and the decoding of UTF-8 for the same characters. A text outside that range, or one that is not
  JSON, gives \<open>None\<close>. The parser descends with fuel; the length of the text is always enough.
\<close>

section \<open>UTF-8 decoding\<close>

fun utf8_decode :: "byte_list \<Rightarrow> string option" where
  "utf8_decode [] = Some []"
| "utf8_decode (b # bs) =
     (if b < 128 then map_option ((#) (char_of b)) (utf8_decode bs)
      else (case bs of
              b' # bs' \<Rightarrow>
                if (b = 194 \<or> b = 195) \<and> 128 \<le> b' \<and> b' < 192
                then map_option ((#) (char_of ((b - 192) * 64 + (b' - 128)))) (utf8_decode bs')
                else None
            | [] \<Rightarrow> None))"

section \<open>Parsing\<close>

definition json_space :: "char \<Rightarrow> bool" where
  "json_space c \<longleftrightarrow> code c \<in> {9, 10, 13, 32}"

definition skip_ws :: "string \<Rightarrow> string" where
  "skip_ws s = dropWhile json_space s"

definition expect :: "char \<Rightarrow> string \<Rightarrow> string option" where
  "expect c s = (case skip_ws s of [] \<Rightarrow> None | x # r \<Rightarrow> if x = c then Some r else None)"

text \<open>The characters of a string literal up to its closing quote.\<close>

definition simple_escape :: "char \<Rightarrow> char option" where
  "simple_escape e =
     map_of [(CHR 0x22, CHR 0x22), (CHR 0x5C, CHR 0x5C), (CHR ''/'', CHR ''/''), (CHR ''b'', char_of (8::nat)),
             (CHR ''f'', char_of (12::nat)), (CHR ''n'', char_of (10::nat)), (CHR ''r'', char_of (13::nat)),
             (CHR ''t'', char_of (9::nat))] e"

fun p_chars :: "string \<Rightarrow> (string \<times> string) option" where
  "p_chars [] = None"
| "p_chars (c # s) =
     (if c = CHR 0x22 then Some ([], s)
      else if c = CHR 0x5C then
        (case s of
           [] \<Rightarrow> None
         | e # r \<Rightarrow>
             if e = CHR ''u'' then
               (case r of
                  h1 # h2 # h3 # h4 # r' \<Rightarrow>
                    if list_all is_hex [h1, h2, h3, h4] \<and> hex_val h1 = 0 \<and> hex_val h2 = 0
                    then map_option (\<lambda>(t, w). (char_of (16 * hex_val h3 + hex_val h4) # t, w)) (p_chars r')
                    else None
                | _ \<Rightarrow> None)
             else (case simple_escape e of
                     None \<Rightarrow> None
                   | Some d \<Rightarrow> map_option (\<lambda>(t, w). (d # t, w)) (p_chars r)))
      else if code c < 32 then None
      else map_option (\<lambda>(t, w). (c # t, w)) (p_chars s))"

text \<open>Integers: no leading zero; a fraction or exponent leaves the modelled range.\<close>

definition p_nat :: "string \<Rightarrow> (nat \<times> string) option" where
  "p_nat s =
     (let ds = takeWhile is_digit s; r = dropWhile is_digit s
      in if ds = [] \<or> (hd ds = CHR ''0'' \<and> length ds \<noteq> 1) \<or> (r \<noteq> [] \<and> hd r \<in> set ''.eE'') then None
         else Some (dec_val ds, r))"

definition p_number :: "string \<Rightarrow> (json \<times> string) option" where
  "p_number s =
     (if s \<noteq> [] \<and> hd s = CHR ''-'' then map_option (\<lambda>(n, r). (JNum (- int n), r)) (p_nat (tl s))
      else map_option (\<lambda>(n, r). (JNum (int n), r)) (p_nat s))"

definition p_word :: "string \<Rightarrow> json \<Rightarrow> string \<Rightarrow> (json \<times> string) option" where
  "p_word w v s = (if js_starts_with s w then Some (v, drop (length w) s) else None)"

text \<open>Members of an object are assigned in order: a later duplicate replaces the value.\<close>

definition build_obj :: "obj \<Rightarrow> obj" where
  "build_obj es = foldl (\<lambda>ob (k, v). AList.update k v ob) [] es"

fun p_value :: "nat \<Rightarrow> string \<Rightarrow> (json \<times> string) option"
  and p_elements :: "nat \<Rightarrow> string \<Rightarrow> (json list \<times> string) option"
  and p_members :: "nat \<Rightarrow> string \<Rightarrow> (obj \<times> string) option" where
  "p_value 0 s = None"
| "p_value (Suc n) s =
     (case skip_ws s of
        [] \<Rightarrow> None
      | c # r \<Rightarrow>
          if c = CHR 0x22 then map_option (\<lambda>(t, w). (JStr t, w)) (p_chars r)
          else if c = CHR ''['' then
            (case expect (CHR '']'') r of
               Some w \<Rightarrow> Some (JArr [], w)
             | None \<Rightarrow> map_option (\<lambda>(vs, w). (JArr vs, w)) (p_elements n r))
          else if c = CHR ''{'' then
            (case expect (CHR ''}'') r of
               Some w \<Rightarrow> Some (JObj [], w)
             | None \<Rightarrow> map_option (\<lambda>(es, w). (JObj (build_obj es), w)) (p_members n r))
          else if c = CHR ''n'' then p_word ''null'' JNull (c # r)
          else if c = CHR ''t'' then p_word ''true'' (JBool True) (c # r)
          else if c = CHR ''f'' then p_word ''false'' (JBool False) (c # r)
          else p_number (c # r))"
| "p_elements 0 s = None"
| "p_elements (Suc n) s =
     (case p_value n s of
        None \<Rightarrow> None
      | Some (v, r) \<Rightarrow>
          (case expect (CHR '']'') r of
             Some w \<Rightarrow> Some ([v], w)
           | None \<Rightarrow> (case expect (CHR '','') r of
                       None \<Rightarrow> None
                     | Some w \<Rightarrow> map_option (\<lambda>(vs, x). (v # vs, x)) (p_elements n w))))"
| "p_members 0 s = None"
| "p_members (Suc n) s =
     (case Option.bind (expect (CHR 0x22) s) p_chars of
        None \<Rightarrow> None
      | Some (k, r) \<Rightarrow>
          (case Option.bind (expect (CHR '':'') r) (p_value n) of
             None \<Rightarrow> None
           | Some (v, r') \<Rightarrow>
               (case expect (CHR ''}'') r' of
                  Some w \<Rightarrow> Some ([(k, v)], w)
                | None \<Rightarrow> (case expect (CHR '','') r' of
                            None \<Rightarrow> None
                          | Some w \<Rightarrow> map_option (\<lambda>(es, x). ((k, v) # es, x)) (p_members n w)))))"

definition json_parse :: "string \<Rightarrow> json option" where
  "json_parse s =
     (case p_value (Suc (length s)) s of
        Some (v, r) \<Rightarrow> if skip_ws r = [] then Some v else None
      | None \<Rightarrow> None)"

text \<open>Values that a program can hold: the keys of every object are distinct.\<close>

primrec wf_json :: "json \<Rightarrow> bool" where
  "wf_json JNull = True"
| "wf_json (JBool b) = True"
| "wf_json (JNum n) = True"
| "wf_json (JStr s) = True"
| "wf_json (JArr vs) = list_all id (map wf_json vs)"
| "wf_json (JObj ob) = (distinct (map fst ob) \<and> list_all snd (map (map_prod id wf_json) ob))"

section \<open>Reading back what was written\<close>

lemma utf8_decode_utf8 [simp]: "utf8_decode (utf8 s) = Some s"
proof (induction s)
  case (Cons c s)
  have "code c div 64 = 2 \<or> code c div 64 = 3" if "\<not> code c < 128"
    using that code_less_256 [of c] by linarith
  then have "192 + code c div 64 = 194 \<or> 192 + code c div 64 = 195" if "\<not> code c < 128"
    using that by auto
  moreover have "char_of ((192 + code c div 64 - 192) * 64 + (128 + code c mod 64 - 128)) = c"
    by (simp add: mult.commute)
  moreover have "code c mod 64 < 64" by simp
  ultimately show ?case
    using Cons by (auto simp: utf8_def utf8_char_def)
qed (simp add: utf8_def)

lemma update_fresh: "k \<notin> fst ` set ob \<Longrightarrow> AList.update k v ob = ob @ [(k, v)]"
  by (induction ob) auto

lemma build_obj_distinct: "distinct (map fst es) \<Longrightarrow> build_obj es = es"
proof -
  have "distinct (map fst (acc @ es)) \<Longrightarrow> foldl (\<lambda>ob (k, v). AList.update k v ob) acc es = acc @ es" for acc
  proof (induction es arbitrary: acc)
    case (Cons e es)
    obtain k v where e: "e = (k, v)" by (cases e)
    with Cons.prems have "k \<notin> fst ` set acc" by auto
    then have "AList.update k v acc = acc @ [(k, v)]" by (rule update_fresh)
    with Cons e show ?case by simp
  qed simp
  from this [of "[]"] show "distinct (map fst es) \<Longrightarrow> build_obj es = es" by (simp add: build_obj_def)
qed

lemma hex_facts [simp]:
  "hex_val (CHR ''0'') = 0" "is_hex (CHR ''0'')" "n < 16 \<Longrightarrow> is_hex (hex_digit n)"
  by (auto simp: hex_val_def is_hex_def is_lower_hex_digit) (simp add: is_lower_hex_def is_digit_def)

lemma p_chars_esc: "p_chars (esc_char c @ w) = map_option (\<lambda>(t, r). (c # t, r)) (p_chars w)"
proof -
  have "char_of (16 * (code c div 16) + code c mod 16) = c" by simp
  then show ?thesis
    using code_less_256 [of c]
    by (auto simp: esc_char_def hex_byte_def hex_val_digit simple_escape_def dest!: code_eq_char)
qed

lemma p_chars_escaped: "p_chars (concat (map esc_char s) @ CHR 0x22 # u) = Some (s, u)"
  by (induction s) (auto simp: p_chars_esc)

lemma dec_no_leading_zero: "hd (dec n) = CHR ''0'' \<Longrightarrow> length (dec n) = 1"
proof (induction n rule: dec.induct)
  case (1 n)
  show ?case
  proof (cases "n < 10")
    case False
    then have d: "dec n = dec (n div 10) @ [digit_char (n mod 10)]" by (subst dec.simps) simp
    with 1 False have "length (dec (n div 10)) = 1" by simp
    then obtain x where x: "dec (n div 10) = [x]" by (auto simp: length_Suc_conv)
    with d 1(2) have "dec (n div 10) = ''0''" by simp
    then have "n div 10 = 0" using dec_val_dec [of "n div 10"] by (simp add: digit_val_def)
    with False show ?thesis by simp
  qed (subst dec.simps, simp)
qed

lemma p_nat_dec:
  assumes "closed_off u"
  shows "p_nat (dec n @ u) = Some (n, u)"
proof -
  have "takeWhile is_digit u = []" "dropWhile is_digit u = u"
    using assms by (cases u; auto simp: closed_off_def is_digit_def)+
  then have "takeWhile is_digit (dec n @ u) = dec n" "dropWhile is_digit (dec n @ u) = u"
    by (simp_all add: takeWhile_append2 dropWhile_append2)
  moreover have "u = [] \<or> hd u \<notin> set ''.eE''" using assms by (auto simp: closed_off_def)
  ultimately show ?thesis using dec_no_leading_zero [of n] by (auto simp: p_nat_def Let_def)
qed

lemma p_number_int_str: "closed_off u \<Longrightarrow> p_number (int_str n @ u) = Some (JNum n, u)"
  using dec_hd_digit [of "nat n"] by (auto simp: p_number_def int_str_def p_nat_dec is_digit_def)


lemma expect_hit [simp]: "\<not> json_space c \<Longrightarrow> expect c (c # u) = Some u"
  by (simp add: expect_def skip_ws_def)

lemma expect_miss: "s \<noteq> [] \<Longrightarrow> \<not> json_space (hd s) \<Longrightarrow> hd s \<noteq> c \<Longrightarrow> expect c s = None"
  by (cases s) (auto simp: expect_def skip_ws_def)

lemma not_json_space [simp]:
  "\<not> json_space (CHR 0x22)" "\<not> json_space (CHR ''['')" "\<not> json_space (CHR ''{'')" "\<not> json_space (CHR '']'')"
  "\<not> json_space (CHR ''}'')" "\<not> json_space (CHR '','')" "\<not> json_space (CHR '':'')" "\<not> json_space (CHR ''n'')"
  "\<not> json_space (CHR ''t'')" "\<not> json_space (CHR ''f'')" "\<not> json_space (CHR ''-'')"
  by (simp_all add: json_space_def)

lemma digit_not_json_space: "is_digit c \<Longrightarrow> \<not> json_space c"
  by (auto simp: is_digit_def json_space_def)

lemma render_hd_not_space: "\<not> json_space (hd (render as_is v @ u))"
proof (cases v)
  case (JNum n)
  then show ?thesis using int_str_chars [of "hd (int_str n)" n] digit_not_json_space by auto
qed (auto simp: json_quote_def)

text \<open>Enough fuel for a value: the length of its text.\<close>

definition reads_back :: "json \<Rightarrow> bool" where
  "reads_back v \<longleftrightarrow>
     (\<forall>n u. length (render as_is v) \<le> n \<longrightarrow> closed_off u \<longrightarrow> p_value n (render as_is v @ u) = Some (v, u))"

lemma reads_backD:
  "reads_back v \<Longrightarrow> length (render as_is v) \<le> n \<Longrightarrow> closed_off u \<Longrightarrow> p_value n (render as_is v @ u) = Some (v, u)"
  by (simp add: reads_back_def)

lemma reads_backI:
  assumes "\<And>n u. closed_off u \<Longrightarrow> p_value (Suc n) (render as_is v @ u) = Some (v, u)"
  shows "reads_back v"
  unfolding reads_back_def
proof (intro allI impI)
  fix n u assume n: "length (render as_is v) \<le> n" and u: "closed_off u"
  then obtain m where "n = Suc m" by (cases n) auto
  with assms [OF u] show "p_value n (render as_is v @ u) = Some (v, u)" by simp
qed

lemma expect_close_miss:
  "expect (CHR '']'') (render as_is v @ u) = None" "expect (CHR ''}'') (json_quote k @ u) = None"
  using render_hd_not_space [of v u] render_hd_not_close [of v u]
  by (auto intro!: expect_miss simp: json_quote_def)

lemma p_elements_reads_back:
  assumes "vs \<noteq> []" "\<forall>v \<in> set vs. reads_back v"
    and "length (js_join '','' (map (render as_is) vs)) < n"
  shows "p_elements n (js_join '','' (map (render as_is) vs) @ CHR '']'' # u) = Some (vs, u)"
  using assms
proof (induction vs arbitrary: n rule: list_nonempty_induct)
  case (single v)
  then obtain m where n: "n = Suc m" and m: "length (render as_is v) \<le> m" by (cases n) auto
  with single reads_backD [of v m "CHR '']'' # u"] show ?case by simp
next
  case (cons v vs)
  obtain w ws where vs: "vs = w # ws" using cons.hyps by (cases vs) auto
  let ?rest = "js_join '','' (map (render as_is) vs)"
  have joined: "js_join '','' (map (render as_is) (v # vs)) = render as_is v @ CHR '','' # ?rest"
    by (simp add: vs)
  obtain m where n: "n = Suc m" using cons.prems by (cases n) auto
  with cons.prems joined have m: "length (render as_is v) \<le> m" "length ?rest < m" by simp_all
  have "p_value m (render as_is v @ CHR '','' # ?rest @ CHR '']'' # u) = Some (v, CHR '','' # ?rest @ CHR '']'' # u)"
    using m(1) cons.prems by (intro reads_backD) auto
  moreover have "expect (CHR '']'') (CHR '','' # x) = None" for x by (rule expect_miss) auto
  moreover have "p_elements m (?rest @ CHR '']'' # u) = Some (vs, u)"
    using cons m by auto
  ultimately show ?case unfolding joined n by simp
qed

lemma p_members_reads_back:
  assumes "es \<noteq> []" "\<forall>e \<in> set es. reads_back (snd e)"
    and "length (js_join '','' (map entry_render es)) < n"
  shows "p_members n (js_join '','' (map entry_render es) @ CHR ''}'' # u) = Some (es, u)"
  using assms
proof (induction es arbitrary: n rule: list_nonempty_induct)
  case (single e)
  obtain k v where e: "e = (k, v)" by (cases e)
  from single obtain m where n: "n = Suc m" and m: "length (render as_is v) \<le> m"
    by (cases n) (auto simp: e entry_text_def on_snd_def)
  have "p_value m (render as_is v @ CHR ''}'' # u) = Some (v, CHR ''}'' # u)"
    using m single e by (intro reads_backD) auto
  then show ?case
    by (simp add: n e entry_text_def on_snd_def json_quote_def p_chars_escaped)
next
  case (cons e es)
  obtain k v where e: "e = (k, v)" by (cases e)
  obtain w ws where es: "es = w # ws" using cons.hyps by (cases es) auto
  let ?rest = "js_join '','' (map entry_render es)"
  have joined: "js_join '','' (map entry_render (e # es)) = json_quote k @ CHR '':'' # render as_is v @ CHR '','' # ?rest"
    by (simp add: es e entry_text_def on_snd_def)
  obtain m where n: "n = Suc m" using cons.prems by (cases n) auto
  with cons.prems(2) joined have m: "length (render as_is v) \<le> m" "length ?rest < m" by simp_all
  have "p_value m (render as_is v @ CHR '','' # ?rest @ CHR ''}'' # u) = Some (v, CHR '','' # ?rest @ CHR ''}'' # u)"
    using m(1) cons.prems e by (intro reads_backD) auto
  moreover have "expect (CHR ''}'') (CHR '','' # x) = None" for x by (rule expect_miss) auto
  moreover have "p_members m (?rest @ CHR ''}'' # u) = Some (es, u)"
    using cons m by auto
  ultimately show ?case unfolding joined n by (simp add: e json_quote_def p_chars_escaped)
qed

lemma wf_JArr: "wf_json (JArr vs) \<longleftrightarrow> (\<forall>v \<in> set vs. wf_json v)"
  by (auto simp: list_all_iff)

lemma wf_JObj: "wf_json (JObj ob) \<longleftrightarrow> distinct (map fst ob) \<and> (\<forall>e \<in> set ob. wf_json (snd e))"
  by (auto simp: list_all_iff)

declare wf_json.simps(5,6) [simp del]

lemma wf_reads_back: "wf_json v \<Longrightarrow> reads_back v"
proof (induction v)
  case (JNum m)
  have hd: "hd (int_str m @ u) = hd (int_str m)" for u by simp
  have "hd (int_str m) \<notin> {CHR 0x22, CHR ''['', CHR ''{'', CHR ''n'', CHR ''t'', CHR ''f''}" "\<not> json_space (hd (int_str m))"
    using int_str_chars [of "hd (int_str m)" m] digit_not_json_space by (auto simp: is_digit_def)
  then have "p_value (Suc n) (int_str m @ u) = p_number (int_str m @ u)" for n u
    by (cases "int_str m") (auto simp: skip_ws_def)
  then show ?case by (intro reads_backI) (simp del: p_value.simps add: p_number_int_str)
next
  case (JStr s)
  have "p_value (Suc n) (json_quote s @ u) = Some (JStr s, u)" for n u
    by (simp add: json_quote_def skip_ws_def p_chars_escaped)
  then show ?case by (intro reads_backI) (simp del: p_value.simps)
next
  case (JArr vs)
  show ?case
    unfolding reads_back_def
  proof (intro allI impI)
    fix n u assume n: "length (render as_is (JArr vs)) \<le> n" and "closed_off u"
    show "p_value n (render as_is (JArr vs) @ u) = Some (JArr vs, u)"
    proof (cases vs)
      case Nil
      with n obtain m where "n = Suc m" by (cases n) auto
      with Nil show ?thesis by (simp add: skip_ws_def)
    next
      case (Cons w ws)
      from n obtain m where m: "n = Suc m" "length (js_join '','' (map (render as_is) vs)) < m" by (cases n) auto
      have "p_elements m (js_join '','' (map (render as_is) vs) @ CHR '']'' # u) = Some (vs, u)"
        using JArr Cons m(2) by (intro p_elements_reads_back) (auto simp: wf_JArr)
      moreover have "expect (CHR '']'') (js_join '','' (map (render as_is) vs) @ x) = None" for x
        unfolding Cons join_items append_assoc by (rule expect_close_miss)
      ultimately show ?thesis using m(1) by (simp add: skip_ws_def)
    qed
  qed
next
  case (JObj ob)
  show ?case
    unfolding reads_back_def
  proof (intro allI impI)
    fix n u assume n: "length (render as_is (JObj ob)) \<le> n" and "closed_off u"
    have joined: "render as_is (JObj ob) = CHR ''{'' # js_join '','' (map entry_render ob) @ ''}''"
      by (simp add: comp_def)
    show "p_value n (render as_is (JObj ob) @ u) = Some (JObj ob, u)"
    proof (cases ob)
      case Nil
      with n obtain m where "n = Suc m" by (cases n) auto
      with Nil show ?thesis by (simp add: skip_ws_def)
    next
      case (Cons e es)
      from n obtain m where m: "n = Suc m" "length (js_join '','' (map entry_render ob)) < m"
        unfolding joined by (cases n) auto
      have "p_members m (js_join '','' (map entry_render ob) @ CHR ''}'' # u) = Some (ob, u)"
        using JObj Cons m(2) by (intro p_members_reads_back) (auto simp: wf_JObj snds.simps)
      moreover have "expect (CHR ''}'') (js_join '','' (map entry_render ob) @ x) = None" for x
        unfolding Cons join_items append_assoc entry_text_def by (rule expect_close_miss)
      moreover have "build_obj ob = ob" using JObj.prems by (intro build_obj_distinct) (simp add: wf_JObj)
      ultimately show ?thesis unfolding joined using m(1) by (simp add: skip_ws_def)
    qed
  qed
next
  case JNull
  have "p_value (Suc n) (''null'' @ u) = Some (JNull, u)" for n u
    by (simp add: skip_ws_def p_word_def js_starts_with_def)
  then show ?case by (intro reads_backI) (simp del: p_value.simps)
next
  case (JBool b)
  have "p_value (Suc n) ((if b then ''true'' else ''false'') @ u) = Some (JBool b, u)" for n u
    by (simp add: skip_ws_def p_word_def js_starts_with_def)
  then show ?case by (intro reads_backI) (simp del: p_value.simps)
qed

lemma json_parse_stringify: "wf_json v \<Longrightarrow> json_parse (json_stringify v) = Some v"
  using reads_backD [OF wf_reads_back, of v "Suc (length (render as_is v))" "[]"]
  by (simp add: json_parse_def json_stringify_def skip_ws_def)

end
