(* ===== verification/Base58.thy ===== *)
theory Base58
  imports TSN_Prelude
begin

text \<open>
  Base-58 text of public keys. The Receiver has one decoder, written twice
  (\<open>services/tsn-receiver/lib/work-contract.ts\<close> and \<open>lib/cranker-auth.ts\<close>); the SDK has another
  pair (\<open>sdks/tsn-sdk/src/device/index.ts\<close>, copied into \<open>sessions/index.ts\<close> and
  \<open>private-view/index.ts\<close>). The Receiver's decoder is compared with the positional reading of the
  text; the SDK's routines are shown to differ from it.
\<close>

section \<open>Positional notation\<close>

definition be_val :: "nat \<Rightarrow> nat list \<Rightarrow> nat" where
  "be_val B ds = foldl (\<lambda>a d. a * B + d) 0 ds"

fun be_digits :: "nat \<Rightarrow> nat \<Rightarrow> nat list" where
  "be_digits B n = (if n = 0 \<or> B < 2 then [] else be_digits B (n div B) @ [n mod B])"

declare be_digits.simps [simp del]

lemma be_val_Nil [simp]: "be_val B [] = 0"
  by (simp add: be_val_def)

lemma be_val_snoc [simp]: "be_val B (ds @ [d]) = be_val B ds * B + d"
  by (simp add: be_val_def)

lemma be_digits_0 [simp]: "be_digits B 0 = []"
  by (simp add: be_digits.simps)

lemma be_val_digits: "2 \<le> B \<Longrightarrow> be_val B (be_digits B n) = n"
proof (induction B n rule: be_digits.induct)
  case (1 B n)
  then show ?case by (cases "n = 0") (simp_all add: be_digits.simps [of B n])
qed

lemma be_val_zeros [simp]: "be_val B (replicate k 0 @ ds) = be_val B ds"
  by (induction k) (simp_all add: be_val_def)

lemma be_val_pos: "ds \<noteq> [] \<Longrightarrow> hd ds \<noteq> 0 \<Longrightarrow> 0 < B \<Longrightarrow> 0 < be_val B ds"
  by (induction ds rule: rev_induct) (auto simp: hd_append split: if_splits)

text \<open>Digits without a leading zero are determined by their value.\<close>

lemma be_digits_val:
  assumes "2 \<le> B" "list_all (\<lambda>d. d < B) ds" "ds = [] \<or> hd ds \<noteq> 0"
  shows "be_digits B (be_val B ds) = ds"
  using assms(2,3)
proof (induction ds rule: rev_induct)
  case (snoc d ds)
  have IH: "be_digits B (be_val B ds) = ds"
    using snoc by (cases ds) auto
  have pos: "be_val B (ds @ [d]) \<noteq> 0"
    using snoc.prems be_val_pos [of "ds @ [d]" B] assms(1) by auto
  have "be_val B (ds @ [d]) div B = be_val B ds" "be_val B (ds @ [d]) mod B = d"
    using snoc.prems assms(1) by auto
  with IH pos assms(1) show ?case
    by (subst be_digits.simps) simp
qed simp

lemma be_digits_hd: "2 \<le> B \<Longrightarrow> n \<noteq> 0 \<Longrightarrow> be_digits B n \<noteq> [] \<and> hd (be_digits B n) \<noteq> 0"
proof (induction B n rule: be_digits.induct)
  case (1 B n)
  then show ?case
    by (cases "n div B = 0") (auto simp: be_digits.simps [of B n] hd_append div_eq_0_iff)
qed

lemma be_digits_bound: "list_all (\<lambda>d. d < B) (be_digits B n)"
  by (induction B n rule: be_digits.induct) (subst be_digits.simps, auto)

section \<open>The alphabet\<close>

definition base58_alphabet :: string where
  "base58_alphabet = ''123456789ABCDEFGHJKLMNPQRSTUVWXYZabcdefghijkmnopqrstuvwxyz''"

text \<open>\<open>alphabet.indexOf(c)\<close>; \<open>None\<close> is \<open>-1\<close>.\<close>

fun index_of :: "'a \<Rightarrow> 'a list \<Rightarrow> nat option" where
  "index_of c [] = None"
| "index_of c (x # xs) = (if x = c then Some 0 else map_option Suc (index_of c xs))"

definition b58_index :: "char \<Rightarrow> nat option" where
  "b58_index c = index_of c base58_alphabet"

fun b58_indices :: "string \<Rightarrow> nat list option" where
  "b58_indices [] = Some []"
| "b58_indices (c # s) =
     (case b58_index c of None \<Rightarrow> None | Some d \<Rightarrow> map_option ((#) d) (b58_indices s))"

lemma index_of_nth: "index_of c xs = Some i \<Longrightarrow> i < length xs \<and> xs ! i = c"
  by (induction xs arbitrary: i) (auto split: if_splits)

lemma length_alphabet: "length base58_alphabet = 58"
  by (simp add: base58_alphabet_def)

lemma b58_index_inject: "b58_index c = Some d \<Longrightarrow> b58_index c' = Some d \<Longrightarrow> c = c'"
  by (auto simp: b58_index_def dest!: index_of_nth)

lemma b58_index_bound: "b58_index c = Some d \<Longrightarrow> d < 58"
  by (auto simp: b58_index_def length_alphabet dest!: index_of_nth)

lemma b58_index_1 [simp]: "b58_index (CHR ''1'') = Some 0"
  by (simp add: b58_index_def base58_alphabet_def)

lemma b58_index_0: "b58_index c = Some 0 \<longleftrightarrow> c = CHR ''1''"
  using b58_index_inject b58_index_1 by blast

lemma b58_indices_bound: "b58_indices s = Some ds \<Longrightarrow> list_all (\<lambda>d. d < 58) ds"
  by (induction s arbitrary: ds) (auto split: option.splits dest: b58_index_bound)

lemma b58_indices_map: "b58_indices s = Some ds \<Longrightarrow> map ((!) base58_alphabet) ds = s"
  by (induction s arbitrary: ds) (auto simp: b58_index_def split: option.splits dest!: index_of_nth)

lemma b58_indices_inject: "b58_indices s = Some ds \<Longrightarrow> b58_indices t = Some ds \<Longrightarrow> s = t"
  using b58_indices_map by blast

section \<open>The Receiver's decoder\<close>

fun leading_ones :: "string \<Rightarrow> nat" where
  "leading_ones (c # s) = (if c = CHR ''1'' then Suc (leading_ones s) else 0)"
| "leading_ones [] = 0"

text \<open>
  The digits are read into one number, the number is written in base 256, and each leading \<open>1\<close>
  adds a zero byte. \<open>err\<close> is the message of the caller's copy.
\<close>

fun b58_number :: "nat \<Rightarrow> string \<Rightarrow> nat option" where
  "b58_number n [] = Some n"
| "b58_number n (c # s) =
     (case b58_index c of None \<Rightarrow> None | Some d \<Rightarrow> b58_number (n * 58 + d) s)"

definition decodeBase58 :: "string \<Rightarrow> string \<Rightarrow> byte_list result" where
  "decodeBase58 err v =
     (case b58_number 0 v of
        None \<Rightarrow> Inl err
      | Some n \<Rightarrow>
          (let res = replicate (leading_ones v) 0 @ be_digits 256 n in
           if length res \<noteq> 32 then Inl err else Inr res))"

lemma b58_number_indices:
  "b58_number n s = map_option (foldl (\<lambda>a d. a * 58 + d) n) (b58_indices s)"
  by (induction s arbitrary: n) (auto simp: option.map_comp comp_def split: option.splits)

lemma b58_indices_ones:
  assumes "b58_indices s = Some ds"
  shows "\<exists>rest. ds = replicate (leading_ones s) 0 @ rest \<and> (rest = [] \<or> hd rest \<noteq> 0)"
  using assms
proof (induction s arbitrary: ds)
  case (Cons c s)
  then obtain d ds' where d: "b58_index c = Some d" and ds': "b58_indices s = Some ds'" "ds = d # ds'"
    by (auto split: option.splits)
  from Cons.IH [OF ds'(1)] show ?case
    using d ds'(2) b58_index_0 [of c] by (cases "c = CHR ''1''") auto
qed simp

text \<open>Two texts with the same key bytes are the same text: a key has one spelling.\<close>

lemma replicate_zero_inject:
  assumes "replicate m 0 @ xs = replicate n (0::nat) @ ys"
    and "xs = [] \<or> hd xs \<noteq> 0" "ys = [] \<or> hd ys \<noteq> 0"
  shows "m = n \<and> xs = ys"
  using assms
proof (induction m arbitrary: n)
  case 0
  then show ?case by (cases n) auto
next
  case (Suc m)
  then show ?case by (cases n) auto
qed

lemma decodeBase58_inject:
  assumes "decodeBase58 e s = Inr bs" "decodeBase58 e' t = Inr bs"
  shows "s = t"
proof -
  obtain ds where ds: "b58_indices s = Some ds"
    and s: "bs = replicate (leading_ones s) 0 @ be_digits 256 (be_val 58 ds)"
    using assms(1) by (auto simp: decodeBase58_def b58_number_indices be_val_def Let_def
        split: option.splits if_splits)
  obtain es where es: "b58_indices t = Some es"
    and t: "bs = replicate (leading_ones t) 0 @ be_digits 256 (be_val 58 es)"
    using assms(2) by (auto simp: decodeBase58_def b58_number_indices be_val_def Let_def
        split: option.splits if_splits)
  have lead: "be_digits 256 n = [] \<or> hd (be_digits 256 n) \<noteq> 0" for n
    using be_digits_hd [of 256 n] by (cases "n = 0") auto
  have "replicate (leading_ones s) 0 @ be_digits 256 (be_val 58 ds)
      = replicate (leading_ones t) 0 @ be_digits 256 (be_val 58 es)"
    using s t by (rule trans [OF sym])
  from replicate_zero_inject [OF this lead lead]
  have ones: "leading_ones s = leading_ones t"
    and same: "be_digits 256 (be_val 58 ds) = be_digits 256 (be_val 58 es)" by auto
  from arg_cong [OF same, of "be_val 256"] have vals: "be_val 58 ds = be_val 58 es"
    by (simp add: be_val_digits)
  obtain r r' where r: "ds = replicate (leading_ones s) 0 @ r" "r = [] \<or> hd r \<noteq> 0"
    and r': "es = replicate (leading_ones t) 0 @ r'" "r' = [] \<or> hd r' \<noteq> 0"
    using b58_indices_ones [OF ds] b58_indices_ones [OF es] by auto
  have digits: "be_digits 58 (be_val 58 r) = r" "be_digits 58 (be_val 58 r') = r'"
    using b58_indices_bound [OF ds] b58_indices_bound [OF es] r r'
    by (auto intro!: be_digits_val)
  have "be_val 58 r = be_val 58 r'" using vals unfolding r(1) r'(1) by simp
  then have "r = r'" using digits by metis
  then have "ds = es" unfolding r(1) r'(1) ones by (rule arg_cong)
  with ds es show ?thesis by (auto intro: b58_indices_inject)
qed

lemma decodeBase58_length: "decodeBase58 e s = Inr bs \<Longrightarrow> length bs = 32"
  by (auto simp: decodeBase58_def Let_def split: option.splits if_splits)

lemma decodeBase58_bytes: "decodeBase58 e s = Inr bs \<Longrightarrow> list_all (\<lambda>b. b < 256) bs"
  using be_digits_bound [of 256]
  by (auto simp: decodeBase58_def Let_def list_all_iff split: option.splits if_splits)

section \<open>The SDK's routines\<close>

text \<open>
  \<open>base58Decode\<close>: for each character the inner loop runs over \<open>result\<close> from index 0 up, passing
  the carry on; a carry that is left over is put in front.
\<close>

fun decode_pass :: "nat \<Rightarrow> nat list \<Rightarrow> nat list \<times> nat" where
  "decode_pass carry [] = ([], carry)"
| "decode_pass carry (b # bs) =
     (let x = carry + 58 * b; (bs', c') = decode_pass (x div 256) bs in (x mod 256 # bs', c'))"

fun push_carry :: "nat \<Rightarrow> nat list \<Rightarrow> nat list" where
  "push_carry carry res = (if carry = 0 then res else push_carry (carry div 256) (carry mod 256 # res))"

declare push_carry.simps [simp del]

fun decode_chars :: "nat list \<Rightarrow> string \<Rightarrow> nat list result" where
  "decode_chars res [] = Inr res"
| "decode_chars res (c # s) =
     (case b58_index c of
        None \<Rightarrow> Inl (''Invalid base58 character: '' @ [c])
      | Some d \<Rightarrow> (case decode_pass d res of (res', carry) \<Rightarrow> decode_chars (push_carry carry res') s))"

definition base58Decode :: "string \<Rightarrow> byte_list result" where
  "base58Decode s =
     (case decode_chars [] s of
        Inl e \<Rightarrow> Inl e
      | Inr res \<Rightarrow> Inr (replicate (leading_ones s) 0 @ res))"

text \<open>
  \<open>base58Encode\<close>: the inner loop runs from the last character to the first and reads each with
  \<open>charCodeAt\<close>; the arguments below are the characters in that (reversed) order.
\<close>

fun encode_pass :: "nat \<Rightarrow> string \<Rightarrow> string \<times> nat" where
  "encode_pass carry [] = ([], carry)"
| "encode_pass carry (c # cs) =
     (let x = carry + 256 * code c; (cs', c') = encode_pass (x div 58) cs
      in (base58_alphabet ! (x mod 58) # cs', c'))"

fun push_digits :: "nat \<Rightarrow> string \<Rightarrow> string" where
  "push_digits carry res =
     (if carry = 0 then res else push_digits (carry div 58) (base58_alphabet ! (carry mod 58) # res))"

declare push_digits.simps [simp del]

fun encode_bytes :: "string \<Rightarrow> byte_list \<Rightarrow> string" where
  "encode_bytes res [] = res"
| "encode_bytes res (b # bs) =
     (case encode_pass b (rev res) of (cs, carry) \<Rightarrow> encode_bytes (push_digits carry (rev cs)) bs)"

definition base58Encode :: "byte_list \<Rightarrow> string" where
  "base58Encode bs =
     replicate (length (takeWhile (\<lambda>b. b = 0) bs)) (CHR ''1'') @ encode_bytes [] bs"

end
