(* ===== verification/Work_Contract.thy ===== *)
theory Work_Contract
  imports Json_Parse Base58
begin

text \<open>
  \<open>services/tsn-receiver/lib/work-contract.ts\<close>: the work record, the allow-lists of payload
  fields, the ingress checks of sender-signed funding, payload commitments, the compact form in
  which Node decisions are stored, and the privacy filters for the Cranker and the public view.
\<close>

section \<open>Work records\<close>

datatype work_kind = AUTHORIZED_FUNDING | SETTLEMENT | TIN_OPERATION

datatype work_status =
    RECEIVED | NODE_VERIFYING | VERIFIED | REJECTED
  | CRANKER_LEASED | SUBMITTED | CONFIRMED | FAILED

fun kind_text :: "work_kind \<Rightarrow> string" where
  "kind_text AUTHORIZED_FUNDING = ''AUTHORIZED_FUNDING''"
| "kind_text SETTLEMENT = ''SETTLEMENT''"
| "kind_text TIN_OPERATION = ''TIN_OPERATION''"

fun status_text :: "work_status \<Rightarrow> string" where
  "status_text RECEIVED = ''RECEIVED''"
| "status_text NODE_VERIFYING = ''NODE_VERIFYING''"
| "status_text VERIFIED = ''VERIFIED''"
| "status_text REJECTED = ''REJECTED''"
| "status_text CRANKER_LEASED = ''CRANKER_LEASED''"
| "status_text SUBMITTED = ''SUBMITTED''"
| "status_text CONFIRMED = ''CONFIRMED''"
| "status_text FAILED = ''FAILED''"

text \<open>
  Time stamps that the service itself writes with \<open>toISOString\<close> are the instants they denote, in
  milliseconds.
\<close>

record lease_info =
  l_owner :: string
  l_expiresAt :: int
  l_leaseId :: "string option"
  l_version :: "int option"

record retry_entry =
  rejectedStateVersion :: int
  retriedAt :: int
  requestedBy :: string
  rejection :: "obj option"
  fundingWorkId :: string
  fundingStateVersion :: int
  fundingSignature :: "json option"

record work =
  w_id :: string
  w_kind :: work_kind
  w_status :: work_status
  w_stateVersion :: int
  w_payloadCommitment :: string
  w_payload :: obj
  w_receivedAt :: int
  w_updatedAt :: int
  w_nodeLease :: "lease_info option"
  w_crankerLease :: "lease_info option"
  w_verification :: "obj option"
  w_result :: "obj option"
  w_authorization :: "obj option"
  w_retryHistory :: "retry_entry list"

record payload_delta =
  addedFields :: obj
  changedFields :: obj
  removedFields :: "string list"

section \<open>Allow-lists and ingress\<close>

definition assertExternalWorkKind :: "work_kind \<Rightarrow> unit result" where
  "assertExternalWorkKind kind =
     (if kind = SETTLEMENT then Inl (kind_text kind @ ''_WORK_INTERNAL_ONLY'') else Inr ())"

definition AUTHORIZED_FUNDING_KEYS :: "string list" where
  "AUTHORIZED_FUNDING_KEYS = [
     ''paymentId'', ''intentSeedHash'', ''recipientHash'', ''recipientTin'',
     ''tokenMintAddress'', ''amount'', ''recipientAmount'', ''senderWallet'', ''senderAuthorizationMessage'',
     ''senderAuthorizationSignature'', ''senderAuthorizationNonce'', ''senderAuthorizationIssuedAt'',
     ''senderAuthorizationExpiresAt'',
     ''senderFeeAmount'', ''senderSignedFundingTransaction'', ''senderFundingMode'',
     ''destinationNetwork'', ''destinationExecutor'', ''destinationToken'', ''settlementRouteId'',
     ''source'']"

fun INTERNAL_KEYS :: "work_kind \<Rightarrow> string list" where
  "INTERNAL_KEYS AUTHORIZED_FUNDING =
     [''paymentId'', ''recipientHash'', ''tokenMintAddress'', ''amount'', ''nodeEncryptedPayload'']"
| "INTERNAL_KEYS SETTLEMENT =
     [''paymentId'', ''intentId'', ''recipientHash'', ''source'', ''nodeEncryptedPayload'']"
| "INTERNAL_KEYS TIN_OPERATION = [
     ''intentType'', ''intentId'', ''ownerPubkey'', ''ownerSignature'',
     ''ownerIntentHash'', ''ownerIntentMessage'', ''nonce'', ''expiry'',
     ''lookupCommitment'', ''lookupIssuanceProof'', ''encryptedIdentityEnvelope'',
     ''encryptedTinRecovery'', ''encryptedMasterSeed'', ''encryptedMetadataHash'',
     ''routeVersion'', ''routeNonce'', ''tipRouteVersion'',
     ''gpruElgamalKeyVersion'', ''gpruElgamalPublicKey'', ''gpruElgamalKeyCommitment'',
     ''gpruBalanceScanKeyVersion'', ''gpruBalanceScanPublicKeyX'', ''gpruBalanceScanPublicKeyY'',
     ''policyCommitment'']"

definition assertAllowlisted :: "obj \<Rightarrow> string list \<Rightarrow> string \<Rightarrow> unit result" where
  "assertAllowlisted v allowed ctxt =
     (case List.find (\<lambda>k. k \<notin> set allowed) (map fst v) of
        None \<Rightarrow> Inr ()
      | Some k \<Rightarrow> Inl (''UNSUPPORTED_PAYLOAD_FIELD:'' @ ctxt @ ''.'' @ k))"

definition has_text :: "obj \<Rightarrow> string \<Rightarrow> bool" where
  "has_text p k = (case map_of p k of Some (JStr s) \<Rightarrow> js_trim s \<noteq> [] | _ \<Rightarrow> False)"

definition required_funding_fields :: "string list" where
  "required_funding_fields =
     [''paymentId'', ''recipientHash'', ''recipientTin'', ''tokenMintAddress'', ''senderWallet'',
      ''senderAuthorizationMessage'', ''senderAuthorizationSignature'', ''senderAuthorizationNonce'']"

text \<open>
  The body of the \<open>try\<close>: the signature is read as base 64 after the URL alphabet is mapped back,
  the wallet text gives the key, and Ed25519 is checked over the message. Every failure is turned
  into the same error.
\<close>

definition check_sender_signature :: "host \<Rightarrow> obj \<Rightarrow> unit result" where
  "check_sender_signature h p =
     (let signature = base64_decode h
            (map from_url_char (str_or_empty (map_of p ''senderAuthorizationSignature'')))
      in if length signature \<noteq> 64 then Inl ''INVALID_SENDER_SIGNATURE''
         else (case decodeBase58 ''INVALID_SENDER_WALLET'' (str_or_empty (map_of p ''senderWallet'')) of
                 Inl e \<Rightarrow> Inl ''INVALID_SENDER_SIGNATURE''
               | Inr key \<Rightarrow>
                   if ed25519_verify h key (utf8 (str_or_empty (map_of p ''senderAuthorizationMessage''))) signature
                   then Inr () else Inl ''INVALID_SENDER_SIGNATURE''))"

definition amount_present :: "obj \<Rightarrow> bool" where
  "amount_present p = (case map_of p ''amount'' of Some (JNum _) \<Rightarrow> True | Some (JStr _) \<Rightarrow> True | _ \<Rightarrow> False)"

definition assertAuthorizedFundingIngress :: "host \<Rightarrow> obj \<Rightarrow> unit result" where
  "assertAuthorizedFundingIngress h p =
     and_then (assertAllowlisted p AUTHORIZED_FUNDING_KEYS ''authorizedFunding'') (\<lambda>_.
     and_then (require (map_of p ''senderFundingMode'' = Some (JStr ''tcap_deposit_v2''))
                 ''LEGACY_FUNDING_MODE_RETIRED_TCAP_DEPOSIT_V2_REQUIRED'') (\<lambda>_.
     and_then (require (has_text p ''senderSignedFundingTransaction'')
                 ''OWNER_SIGNED_TCAP_DEPOSIT_REQUIRED'') (\<lambda>_.
     and_then (case List.find (\<lambda>k. \<not> has_text p k) required_funding_fields of
                 Some k \<Rightarrow> Inl (''PAYMENT_AUTH_FIELD_REQUIRED:'' @ k) | None \<Rightarrow> Inr ()) (\<lambda>_.
     and_then (require (amount_present p) ''PAYMENT_AUTH_FIELD_REQUIRED:amount'') (\<lambda>_.
     check_sender_signature h p)))))"

definition assertDurablePayload :: "work_kind \<Rightarrow> obj \<Rightarrow> unit result" where
  "assertDurablePayload kind p = assertAllowlisted p (INTERNAL_KEYS kind) (kind_text kind)"

section \<open>Compact verification records\<close>

text \<open>
  \<open>key in object\<close> also finds the members of \<open>Object.prototype\<close>. Those are functions, which
  \<open>JSON.stringify\<close> renders as \<open>undefined\<close>, unequal to every text.
\<close>

definition object_prototype_keys :: "string list" where
  "object_prototype_keys =
     [''constructor'', ''__defineGetter__'', ''__defineSetter__'', ''hasOwnProperty'',
      ''__lookupGetter__'', ''__lookupSetter__'', ''isPrototypeOf'', ''propertyIsEnumerable'',
      ''toString'', ''valueOf'', ''__proto__'', ''toLocaleString'']"

definition key_in :: "string \<Rightarrow> obj \<Rightarrow> bool" where
  "key_in k ob \<longleftrightarrow> map_of ob k \<noteq> None \<or> k \<in> set object_prototype_keys"

definition diffPayload :: "host \<Rightarrow> obj \<Rightarrow> obj \<Rightarrow> payload_delta" where
  "diffPayload h base nxt =
     \<lparr>addedFields = filter (\<lambda>(k, v). \<not> key_in k base) nxt,
      changedFields = filter (\<lambda>(k, v). key_in k base \<and> k \<noteq> ''__proto__''
          \<and> map_option (stable h) (map_of base k) \<noteq> Some (stable h v)) nxt,
      removedFields = filter (\<lambda>k. \<not> key_in k nxt) (map fst base)\<rparr>"

definition delta_json :: "payload_delta \<Rightarrow> json" where
  "delta_json d = JObj [(''addedFields'', JObj (addedFields d)),
                        (''changedFields'', JObj (changedFields d)),
                        (''removedFields'', JArr (map JStr (removedFields d)))]"

definition compactVerificationPayload :: "host \<Rightarrow> obj \<Rightarrow> obj option \<Rightarrow> obj" where
  "compactVerificationPayload h p verification =
     (case verification of
        None \<Rightarrow> []
      | Some ver \<Rightarrow>
          (case map_of ver ''verifiedPayload'' of
             Some (JObj verified) \<Rightarrow>
               AList.update ''payloadDelta'' (delta_json (diffPayload h p verified))
                 (AList.delete ''verifiedPayload'' ver)
           | _ \<Rightarrow> ver))"

definition funding_evidence_fields :: "string list" where
  "funding_evidence_fields =
     [''paymentId'', ''recipientHash'', ''tokenMintAddress'', ''amount'',
      ''senderSignedFundingTransaction'', ''senderFundingMode'']"

definition compactAuthorizedFundingVerification :: "host \<Rightarrow> obj \<Rightarrow> obj \<Rightarrow> obj" where
  "compactAuthorizedFundingVerification h p evidence =
     (let verifiedPayload = (case map_of evidence ''verifiedPayload'' of
            Some (JObj verified) \<Rightarrow> take_keys funding_evidence_fields verified
          | _ \<Rightarrow> [])
      in compactVerificationPayload h p (Some
           (take_keys [''verificationType'', ''nodeAttestation'', ''programSimulation''] evidence
            @ [(''verifiedPayload'', JObj verifiedPayload)])))"

definition obj_field :: "obj \<Rightarrow> string \<Rightarrow> obj" where
  "obj_field ob k = (case map_of ob k of Some (JObj v) \<Rightarrow> v | _ \<Rightarrow> [])"

definition str_list_field :: "obj \<Rightarrow> string \<Rightarrow> string list" where
  "str_list_field ob k = (case map_of ob k of Some (JArr vs) \<Rightarrow> map js_string vs | _ \<Rightarrow> [])"

definition apply_delta :: "obj \<Rightarrow> obj \<Rightarrow> obj" where
  "apply_delta p delta =
     js_assign (js_assign (fold AList.delete (str_list_field delta ''removedFields'') p)
                  (obj_field delta ''addedFields''))
       (obj_field delta ''changedFields'')"

definition resolve_verified :: "obj \<Rightarrow> obj \<Rightarrow> obj option" where
  "resolve_verified p ver =
     (case map_of ver ''verifiedPayload'' of
        Some (JObj legacy) \<Rightarrow> Some legacy
      | _ \<Rightarrow>
          (case map_of ver ''payloadDelta'' of
             Some (JObj delta) \<Rightarrow> Some (apply_delta p delta)
           | Some (JArr _) \<Rightarrow> Some p
           | _ \<Rightarrow> None))"

definition verifiedPayloadForWork :: "work \<Rightarrow> obj option" where
  "verifiedPayloadForWork wk = Option.bind (w_verification wk) (resolve_verified (w_payload wk))"

section \<open>Views\<close>

fun cranker_fields :: "work_kind \<Rightarrow> string list" where
  "cranker_fields AUTHORIZED_FUNDING = [''senderSignedFundingTransaction'', ''senderFundingMode'']"
| "cranker_fields SETTLEMENT = [''tcapCreditTransition'']"
| "cranker_fields TIN_OPERATION = [
     ''intentId'', ''intentType'', ''ownerPubkey'', ''ownerSignature'', ''ownerIntentHash'',
     ''ownerIntentMessage'', ''ownerSignatureMessageFormat'', ''expiry'',
     ''nonce'', ''lookupCommitment'', ''encryptedIdentityEnvelope'', ''encryptedTinRecovery'',
     ''encryptedMasterSeed'', ''encryptedMetadataHash'',
     ''routeVersion'', ''routeNonce'', ''tipRouteVersion'',
     ''gpruElgamalKeyVersion'', ''gpruElgamalPublicKey'', ''gpruElgamalKeyCommitment'',
     ''gpruBalanceScanKeyVersion'', ''gpruBalanceScanPublicKeyX'', ''gpruBalanceScanPublicKeyY'',
     ''policyCommitment'']"

definition transition_fields :: "string list" where
  "transition_fields = [
     ''commitmentRoot'', ''previousTcapRoot'', ''tcapRootSequence'', ''tokenId'', ''amountBaseUnits'', ''nullifier'',
     ''validAfterSlot'', ''expiresAtSlot'', ''authorizationDigest'', ''proof'', ''memoPayload'', ''memoBodyPayload'',
     ''memoLedgerSlots'',
     ''memoDocument'', ''memoCommitment'', ''successorBalancePoint'', ''assetEntry'', ''tcapConfig'', ''reserveState'']"

definition crankerExecutionPayload :: "work_kind \<Rightarrow> obj \<Rightarrow> obj" where
  "crankerExecutionPayload kind p =
     (let filtered = pick (cranker_fields kind) p in
      if kind = SETTLEMENT then
        (case map_of filtered ''tcapCreditTransition'' of
           Some (JObj t) \<Rightarrow>
             AList.update ''tcapCreditTransition'' (JObj (pick transition_fields t)) filtered
         | Some (JArr _) \<Rightarrow> AList.update ''tcapCreditTransition'' (JObj []) filtered
         | _ \<Rightarrow> filtered)
      else filtered)"

definition payloadCommitment :: "host \<Rightarrow> json \<Rightarrow> string" where
  "payloadCommitment h v = sha256_hex h (stable h v)"

text \<open>\<open>uuid\<close> is the fresh identifier of \<open>randomUUID()\<close>, \<open>now\<close> the clock.\<close>

definition createReceivedWork ::
  "host \<Rightarrow> int \<Rightarrow> string \<Rightarrow> string option \<Rightarrow> work_kind \<Rightarrow> obj \<Rightarrow> string option \<Rightarrow> work result" where
  "createReceivedWork h now uuid id' kind p commitment =
     and_then (assertDurablePayload kind p) (\<lambda>_. Inr
       \<lparr>w_id = (case id' of None \<Rightarrow> uuid | Some s \<Rightarrow> if js_trim s = [] then uuid else js_trim s),
        w_kind = kind,
        w_status = RECEIVED,
        w_stateVersion = 1,
        w_payloadCommitment = (case commitment of None \<Rightarrow> payloadCommitment h (JObj p) | Some c \<Rightarrow> c),
        w_payload = p,
        w_receivedAt = now,
        w_updatedAt = now,
        w_nodeLease = None,
        w_crankerLease = None,
        w_verification = None,
        w_result = None,
        w_authorization = None,
        w_retryHistory = []\<rparr>)"

definition coordination_fields :: "string list" where
  "coordination_fields =
     [''paymentId'', ''intentId'', ''recipientHash'', ''source'', ''tokenMintAddress'', ''amount'']"

definition publicCoordinationPayload :: "work \<Rightarrow> obj" where
  "publicCoordinationPayload wk =
     pick coordination_fields (case verifiedPayloadForWork wk of Some p \<Rightarrow> p | None \<Rightarrow> w_payload wk)"

section \<open>Allow-lists\<close>

lemma find_in: "List.find P xs = Some x \<Longrightarrow> x \<in> set xs \<and> P x"
  by (induction xs) (auto split: if_splits)

lemma assertAllowlisted_Inr [simp]:
  "assertAllowlisted v allowed c = Inr u \<longleftrightarrow> fst ` set v \<subseteq> set allowed"
proof (cases "List.find (\<lambda>k. k \<notin> set allowed) (map fst v)")
  case (Some k)
  then have "k \<in> fst ` set v" "k \<notin> set allowed" by (auto dest!: find_in)
  with Some show ?thesis by (auto simp: assertAllowlisted_def)
next
  case None
  then have "fst ` set v \<subseteq> set allowed" by (auto simp: find_None_iff)
  with None show ?thesis by (simp add: assertAllowlisted_def)
qed

lemma assertAllowlisted_Inl:
  "assertAllowlisted v allowed c = Inl e \<Longrightarrow>
     \<exists>k \<in> fst ` set v. k \<notin> set allowed \<and> e = ''UNSUPPORTED_PAYLOAD_FIELD:'' @ c @ ''.'' @ k"
  by (auto simp: assertAllowlisted_def split: option.splits dest!: find_in)

section \<open>Deltas\<close>

definition plain_keys :: "obj \<Rightarrow> bool" where
  "plain_keys ob \<longleftrightarrow> distinct (map fst ob) \<and> fst ` set ob \<inter> set object_prototype_keys = {}"

lemma proto_key: "''__proto__'' \<in> set object_prototype_keys"
  by (simp add: object_prototype_keys_def)

lemma plain_keysD:
  assumes "plain_keys ob"
  shows "distinct (map fst ob)" "k \<in> set object_prototype_keys \<Longrightarrow> map_of ob k = None"
    "''__proto__'' \<notin> fst ` set ob"
  using assms proto_key by (auto simp: plain_keys_def map_of_eq_None_iff)

lemma plain_keys_filter: "plain_keys ob \<Longrightarrow> plain_keys (filter P ob)"
  by (auto simp: plain_keys_def distinct_map_filter)

lemma map_of_filter_entries:
  "distinct (map fst ob) \<Longrightarrow>
   map_of (filter P ob) k = (case map_of ob k of Some v \<Rightarrow> if P (k, v) then Some v else None | None \<Rightarrow> None)"
  by (induction ob) (auto split: option.splits simp: map_of_eq_None_iff image_iff)

lemma map_of_delete_all: "map_of (fold AList.delete ks ob) k = (if k \<in> set ks then None else map_of ob k)"
  by (induction ks arbitrary: ob) (auto simp: delete_conv)

lemma distinct_delete_all: "distinct (map fst ob) \<Longrightarrow> distinct (map fst (fold AList.delete ks ob))"
  by (induction ks arbitrary: ob) (auto simp: distinct_delete)

lemma distinct_js_assign: "distinct (map fst ob) \<Longrightarrow> distinct (map fst (js_assign ob es))"
proof (induction es arbitrary: ob)
  case (Cons e es)
  obtain k v where "e = (k, v)" by (cases e)
  with Cons show ?case by (auto simp: js_assign_def distinct_update)
qed simp

lemma delta_fields:
  assumes "delta_json d = JObj dj"
  shows "obj_field dj ''addedFields'' = addedFields d" "obj_field dj ''changedFields'' = changedFields d"
    "str_list_field dj ''removedFields'' = removedFields d"
  using assms by (auto simp: delta_json_def obj_field_def str_list_field_def comp_def)

text \<open>Applying the difference rebuilds every member, up to the order of nested entries.\<close>

lemma apply_diff_lookup:
  assumes base: "plain_keys p" and nxt: "plain_keys v" and dj: "delta_json (diffPayload h p v) = JObj dj"
  shows "map_option (stable h) (map_of (apply_delta p dj) k) = map_option (stable h) (map_of v k)"
proof -
  let ?a = "addedFields (diffPayload h p v)" and ?c = "changedFields (diffPayload h p v)"
    and ?r = "removedFields (diffPayload h p v)"
  have added: "map_of ?a k = (case map_of v k of Some x \<Rightarrow> if key_in k p then None else Some x | None \<Rightarrow> None)"
    using plain_keysD(1) [OF nxt] by (auto simp: diffPayload_def map_of_filter_entries split: option.splits)
  have changed: "map_of ?c k = (case map_of v k of
      Some x \<Rightarrow> if key_in k p \<and> k \<noteq> ''__proto__'' \<and> map_option (stable h) (map_of p k) \<noteq> Some (stable h x)
                then Some x else None | None \<Rightarrow> None)"
    using plain_keysD(1) [OF nxt] by (auto simp: diffPayload_def map_of_filter_entries split: option.splits)
  have removed: "k \<in> set ?r \<longleftrightarrow> map_of p k \<noteq> None \<and> \<not> key_in k v"
    by (auto simp: diffPayload_def map_of_eq_None_iff)
  have plain: "plain_keys ?a" "plain_keys ?c"
    using nxt by (auto simp: diffPayload_def plain_keys_filter)
  have "map_of (apply_delta p dj) k =
      (case map_of ?c k of Some x \<Rightarrow> Some x
       | None \<Rightarrow> (case map_of ?a k of Some x \<Rightarrow> Some x | None \<Rightarrow> if k \<in> set ?r then None else map_of p k))"
    using plain_keysD(1,3) [OF plain(1)] plain_keysD(1,3) [OF plain(2)]
    by (simp add: apply_delta_def delta_fields [OF dj] map_of_js_assign map_of_delete_all
        split: option.splits)
  with added changed removed plain_keysD(2) [OF nxt, of k] plain_keysD(2) [OF base, of k] proto_key show ?thesis
    by (auto simp: key_in_def split: option.splits if_splits)
qed

lemma distinct_apply_delta: "distinct (map fst p) \<Longrightarrow> distinct (map fst (apply_delta p dj))"
  by (simp add: apply_delta_def distinct_js_assign distinct_delete_all)

lemma compact_has_delta:
  assumes "map_of ver ''verifiedPayload'' = Some (JObj v)"
  shows "map_of (compactVerificationPayload h p (Some ver)) ''payloadDelta'' = Some (delta_json (diffPayload h p v))"
    "map_of (compactVerificationPayload h p (Some ver)) ''verifiedPayload'' = None"
  using assms by (simp_all add: compactVerificationPayload_def update_conv delete_conv)

lemma resolve_compact:
  assumes "map_of ver ''verifiedPayload'' = Some (JObj v)" "plain_keys p" "plain_keys v"
  shows "\<exists>q. resolve_verified p (compactVerificationPayload h p (Some ver)) = Some q \<and> distinct (map fst q) \<and>
             (\<forall>k. map_option (stable h) (map_of q k) = map_option (stable h) (map_of v k))"
proof -
  obtain dj where dj: "delta_json (diffPayload h p v) = JObj dj"
    by (simp add: delta_json_def)
  with assms show ?thesis
    using apply_diff_lookup [OF assms(2,3) dj] distinct_apply_delta plain_keysD(1)
    by (auto simp: resolve_verified_def compact_has_delta)
qed

lemma resolve_compact_commitment:
  assumes "collation (collate h)" "map_of ver ''verifiedPayload'' = Some (JObj v)" "plain_keys p" "plain_keys v"
  shows "\<exists>q. resolve_verified p (compactVerificationPayload h p (Some ver)) = Some q \<and>
             payloadCommitment h (JObj q) = payloadCommitment h (JObj v)"
proof -
  from resolve_compact [OF assms(2-4)] obtain q where
    q: "resolve_verified p (compactVerificationPayload h p (Some ver)) = Some q" "distinct (map fst q)"
    and same: "\<And>k. map_option (stable h) (map_of q k) = map_option (stable h) (map_of v k)"
    by blast
  have "stable h (JObj q) = stable h (JObj v)"
    using assms(1,4) q(2) same by (intro stable_obj_cong) (auto dest: plain_keysD)
  with q(1) show ?thesis by (auto simp: payloadCommitment_def)
qed

section \<open>What the contract guarantees\<close>

lemma check_sender_signature_Inr:
  "check_sender_signature h p = Inr u \<Longrightarrow>
     (\<exists>key. decodeBase58 ''INVALID_SENDER_WALLET'' (str_or_empty (map_of p ''senderWallet'')) = Inr key \<and>
        ed25519_verify h key (utf8 (str_or_empty (map_of p ''senderAuthorizationMessage'')))
          (base64_decode h (map from_url_char (str_or_empty (map_of p ''senderAuthorizationSignature'')))))"
  by (auto simp: check_sender_signature_def Let_def split: if_splits sum.splits)

lemma required_fields_Inr:
  "(case List.find (\<lambda>k. \<not> has_text p k) ks of Some k \<Rightarrow> Inl (f k) | None \<Rightarrow> Inr ()) = Inr u
     \<longleftrightarrow> (\<forall>k \<in> set ks. has_text p k)"
  by (auto simp: find_None_iff split: option.splits dest!: find_in)

text \<open>
  C11: Ingress accepts a sender-signed funding request only when every field is allow-listed, it is
  in the TCAP deposit mode with a signed deposit transaction, every required text field is present,
  and the Ed25519 signature verifies over the authorization message under the key that the
  sender wallet denotes.
\<close>

theorem funding_ingress_authentic:
  assumes "assertAuthorizedFundingIngress h p = Inr u"
  shows "fst ` set p \<subseteq> set AUTHORIZED_FUNDING_KEYS \<and>
         map_of p ''senderFundingMode'' = Some (JStr ''tcap_deposit_v2'') \<and>
         has_text p ''senderSignedFundingTransaction'' \<and>
         (\<forall>k \<in> set required_funding_fields. has_text p k) \<and> amount_present p \<and>
         (\<exists>key. decodeBase58 ''INVALID_SENDER_WALLET'' (str_or_empty (map_of p ''senderWallet'')) = Inr key \<and>
            length key = 32 \<and>
            ed25519_verify h key (utf8 (str_or_empty (map_of p ''senderAuthorizationMessage'')))
              (base64_decode h (map from_url_char (str_or_empty (map_of p ''senderAuthorizationSignature'')))))"
proof -
  from assms have "check_sender_signature h p = Inr u"
    by (auto simp: assertAuthorizedFundingIngress_def)
  from check_sender_signature_Inr [OF this] obtain key where
    "decodeBase58 ''INVALID_SENDER_WALLET'' (str_or_empty (map_of p ''senderWallet'')) = Inr key"
    "ed25519_verify h key (utf8 (str_or_empty (map_of p ''senderAuthorizationMessage'')))
      (base64_decode h (map from_url_char (str_or_empty (map_of p ''senderAuthorizationSignature''))))"
    by blast
  with assms decodeBase58_length show ?thesis
    by (simp add: assertAuthorizedFundingIngress_def required_fields_Inr)
qed

definition sample_funding :: obj where
  "sample_funding =
     [(''paymentId'', JStr ''pay-1''), (''recipientHash'', JStr ''rh''), (''recipientTin'', JStr ''12345''),
      (''tokenMintAddress'', JStr ''mint''), (''amount'', JNum 25),
      (''senderWallet'', JStr ''11111111111111111111111111111111''),
      (''senderAuthorizationMessage'', JStr ''pay''),
      (''senderAuthorizationSignature'', JStr (bytesToBase64Url (replicate 32 0 @ utf8 ''pay'' @ replicate 29 0))),
      (''senderAuthorizationNonce'', JStr ''n1''),
      (''senderSignedFundingTransaction'', JStr ''tx''),
      (''senderFundingMode'', JStr ''tcap_deposit_v2'')]"

lemma sample_signature_accepted: "check_sender_signature sample_host sample_funding = Inr ()"
proof -
  let ?bs = "replicate 32 0 @ utf8 ''pay'' @ replicate 29 0"
  have "list_all (\<lambda>b. b < 256) ?bs" "length ?bs = 64" by code_simp+
  moreover have "decodeBase58 ''INVALID_SENDER_WALLET'' ''11111111111111111111111111111111'' = Inr (replicate 32 0)"
    by code_simp
  moreover have "take 64 (replicate 32 0 @ utf8 ''pay'' @ replicate 64 0) = ?bs" by code_simp
  moreover have "map_of sample_funding ''senderAuthorizationSignature'' = Some (JStr (bytesToBase64Url ?bs))"
    "map_of sample_funding ''senderWallet'' = Some (JStr ''11111111111111111111111111111111'')"
    "map_of sample_funding ''senderAuthorizationMessage'' = Some (JStr ''pay'')"
    by (simp_all add: sample_funding_def)
  ultimately show ?thesis by (simp add: check_sender_signature_def)
qed

lemma sample_funding_accepted: "assertAuthorizedFundingIngress sample_host sample_funding = Inr ()"
proof -
  have "fst ` set sample_funding \<subseteq> set AUTHORIZED_FUNDING_KEYS"
    by (simp add: sample_funding_def AUTHORIZED_FUNDING_KEYS_def)
  moreover have "has_text sample_funding ''senderSignedFundingTransaction'' \<and> amount_present sample_funding
      \<and> map_of sample_funding ''senderFundingMode'' = Some (JStr ''tcap_deposit_v2'')"
    by (simp add: sample_funding_def has_text_def amount_present_def js_trim_id is_space_def)
  moreover have "\<forall>k \<in> set required_funding_fields. has_text sample_funding k"
  proof -
    have "bytesToBase64Url (replicate 32 0 @ utf8 ''pay'' @ replicate 29 0) \<noteq> []
        \<and> js_trim (bytesToBase64Url (replicate 32 0 @ utf8 ''pay'' @ replicate 29 0)) \<noteq> []" by code_simp
    then show ?thesis
      by (simp add: required_funding_fields_def has_text_def sample_funding_def js_trim_id is_space_def)
  qed
  ultimately show ?thesis
    using sample_signature_accepted by (simp add: assertAuthorizedFundingIngress_def required_fields_Inr)
qed

theorem funding_ingress_authentic_witness:
  "has_text sample_funding ''recipientTin''"
  using funding_ingress_authentic [OF sample_funding_accepted]
  by (simp add: required_funding_fields_def)

text \<open>
  Storing a Node decision in compact form loses nothing: the payload rebuilt from the work
  payload and the stored difference has the commitment of the payload the Node verified. The
  collation of the runtime is assumed to be a total order; keys are distinct and are not those of
  \<open>Object.prototype\<close>.
\<close>

theorem compact_verification_roundtrip:
  assumes "collation (collate h)"
    and "map_of ver ''verifiedPayload'' = Some (JObj v)" "plain_keys (w_payload wk)" "plain_keys v"
    and "w_verification wk = Some (compactVerificationPayload h (w_payload wk) (Some ver))"
  shows "\<exists>q. verifiedPayloadForWork wk = Some q \<and>
             payloadCommitment h (JObj q) = payloadCommitment h (JObj v)"
  using resolve_compact_commitment [OF assms(1-4)] assms(5) by (simp add: verifiedPayloadForWork_def)

definition sample_work :: work where
  "sample_work =
     \<lparr>w_id = ''w1'', w_kind = TIN_OPERATION, w_status = VERIFIED, w_stateVersion = 3, w_payloadCommitment = ''c'',
      w_payload = [(''nonce'', JNum 1), (''expiry'', JNum 9), (''routeVersion'', JNum 2)],
      w_receivedAt = 0, w_updatedAt = 0, w_nodeLease = None, w_crankerLease = None,
      w_verification = Some (compactVerificationPayload sample_host
        [(''nonce'', JNum 1), (''expiry'', JNum 9), (''routeVersion'', JNum 2)]
        (Some [(''verificationType'', JStr ''T''),
               (''verifiedPayload'', JObj [(''expiry'', JNum 9), (''nonce'', JNum 5), (''intentId'', JStr ''i'')])])),
      w_result = None, w_authorization = None, w_retryHistory = []\<rparr>"

theorem compact_verification_roundtrip_witness:
  "\<exists>q. verifiedPayloadForWork sample_work = Some q \<and>
       payloadCommitment sample_host (JObj q) =
       payloadCommitment sample_host (JObj [(''expiry'', JNum 9), (''nonce'', JNum 5), (''intentId'', JStr ''i'')])"
  by (rule compact_verification_roundtrip [OF sample_collation, where ver =
        "[(''verificationType'', JStr ''T''),
          (''verifiedPayload'', JObj [(''expiry'', JNum 9), (''nonce'', JNum 5), (''intentId'', JStr ''i'')])]"])
    (simp_all add: sample_work_def plain_keys_def object_prototype_keys_def)

lemma pick_update:
  "k \<in> set ks \<Longrightarrow> pick ks (AList.update k v ob) = AList.update k v (pick ks ob)"
  by (induction ob) (auto simp: pick_def)

lemma update_update_same: "AList.update k w (AList.update k v ob) = AList.update k w ob"
  by (induction ob) auto

lemma update_same: "map_of ob k = Some v \<Longrightarrow> AList.update k v ob = ob"
  by (induction ob) (auto split: if_splits)

lemma pick_idem [simp]: "pick ks (pick ks ob) = pick ks ob"
  by (rule pick_pick) simp


lemma settlement_transition_fields:
  "map_of (crankerExecutionPayload SETTLEMENT p) ''tcapCreditTransition'' = Some (JObj t) \<Longrightarrow>
     fst ` set t \<subseteq> set transition_fields"
  by (auto simp: crankerExecutionPayload_def update_conv keys_pick Let_def
      split: option.splits json.splits) (auto simp: pick_def)

lemma crankerExecutionPayload_keys: "fst ` set (crankerExecutionPayload kind p) \<subseteq> set (cranker_fields kind)"
proof -
  have "map_of (crankerExecutionPayload kind p) k = None" if "k \<notin> set (cranker_fields kind)" for k
    using that by (auto simp: crankerExecutionPayload_def Let_def update_conv split: option.splits json.splits)
  then show ?thesis by (force simp: map_of_eq_None_iff)
qed

lemma crankerExecutionPayload_idem:
  "crankerExecutionPayload kind (crankerExecutionPayload kind p) = crankerExecutionPayload kind p"
proof (cases kind)
  case SETTLEMENT
  have "pick [''tcapCreditTransition''] (AList.update ''tcapCreditTransition'' v (pick [''tcapCreditTransition''] p))
      = AList.update ''tcapCreditTransition'' v (pick [''tcapCreditTransition''] p)" for v
    by (simp add: pick_update)
  then show ?thesis
    by (auto simp: crankerExecutionPayload_def Let_def SETTLEMENT update_conv update_update_same pick_def[of _ "[]"]
        split: option.splits json.splits)
qed (simp_all add: crankerExecutionPayload_def)

text \<open>
  What a Cranker is given: only the allow-listed members for the kind of work, and inside a
  settlement's credit transition only the allow-listed members of that; filtering again changes
  nothing, so the payload commitment that the Node signs is that of exactly this view.
\<close>

theorem cranker_view_minimal:
  "fst ` set (crankerExecutionPayload kind p) \<subseteq> set (cranker_fields kind) \<and>
   (map_of (crankerExecutionPayload SETTLEMENT p) ''tcapCreditTransition'' = Some (JObj t) \<longrightarrow>
      fst ` set t \<subseteq> set transition_fields) \<and>
   crankerExecutionPayload kind (crankerExecutionPayload kind p) = crankerExecutionPayload kind p"
  using crankerExecutionPayload_keys settlement_transition_fields crankerExecutionPayload_idem by blast

theorem cranker_view_minimal_witness:
  "crankerExecutionPayload SETTLEMENT
     [(''recipientTin'', JStr ''9''),
      (''tcapCreditTransition'', JObj [(''proof'', JStr ''p''), (''recipientWallet'', JStr ''w'')])]
   = [(''tcapCreditTransition'', JObj [(''proof'', JStr ''p'')])] \<and>
   fst ` set [(''proof'', JStr ''p'')] \<subseteq> set transition_fields"
  using cranker_view_minimal [of SETTLEMENT "[(''recipientTin'', JStr ''9''),
      (''tcapCreditTransition'', JObj [(''proof'', JStr ''p''), (''recipientWallet'', JStr ''w'')])]"
      "[(''proof'', JStr ''p'')]"]
  by (simp add: crankerExecutionPayload_def pick_def transition_fields_def)

lemma to_hex_inject:
  "list_all (\<lambda>b. b < 256) xs \<Longrightarrow> list_all (\<lambda>b. b < 256) ys \<Longrightarrow> to_hex xs = to_hex ys \<longleftrightarrow> xs = ys"
  using from_to_hex by metis

text \<open>
  Payload commitments identify payloads up to the order of object members, and nothing more,
  as long as the hash has no collision on the two canonical texts.
\<close>

theorem payload_commitment_canonical:
  assumes "list_all (\<lambda>b. b < 256) (sha256 h (utf8 (stable h v)))" "list_all (\<lambda>b. b < 256) (sha256 h (utf8 (stable h w)))"
    and "sha256 h (utf8 (stable h v)) = sha256 h (utf8 (stable h w)) \<Longrightarrow> stable h v = stable h w"
  shows "payloadCommitment h v = payloadCommitment h w \<longleftrightarrow> canon (collate h) v = canon (collate h) w"
  unfolding payloadCommitment_def sha256_hex_def to_hex_inject [OF assms(1,2)]
  using assms(3) stable_eq_iff [of h v w] by metis

theorem payload_commitment_canonical_witness:
  "payloadCommitment sample_host (JObj [(''b'', JNum 1), (''a'', JNum 2)])
     = payloadCommitment sample_host (JObj [(''a'', JNum 2), (''b'', JNum 1)])"
proof -
  let ?v = "JObj [(''b'', JNum 1), (''a'', JNum 2)]" and ?w = "JObj [(''a'', JNum 2), (''b'', JNum 1)]"
  have "list_all (\<lambda>b. b < 256) (sha256 sample_host (utf8 (stable sample_host ?v)))" by code_simp
  moreover have "list_all (\<lambda>b. b < 256) (sha256 sample_host (utf8 (stable sample_host ?w)))" by code_simp
  moreover have "stable sample_host ?v = stable sample_host ?w" by code_simp
  moreover have "canon (collate sample_host) ?v = canon (collate sample_host) ?w" by code_simp
  ultimately show ?thesis using payload_commitment_canonical [of sample_host ?v ?w] by simp
qed

end
