(* ===== verification/Local_Firestore.thy ===== *)
theory Local_Firestore
  imports Work_Contract
begin

text \<open>
  \<open>services/tsn-receiver/lib/local-firestore.ts\<close>: the document store behind the Receiver. A
  collection is an association list from document ids to rows in insertion order, the database
  one from collection paths to collections, and the JSON file on disk one of three states:
  absent, readable, or unreadable. \<open>mutate\<close> runs an operation on the parsed database and writes
  the result only when the operation does not throw.

  The contract that the services rely on is the locale \<open>doc_store\<close>; it is interpreted on the
  association lists of this theory.
\<close>

section \<open>Collections and their contract\<close>

type_synonym 'r collection = "(string \<times> 'r) list"
type_synonym row = obj
type_synonym local_db = "(string \<times> row collection) list"

locale doc_store =
  fixes lookup :: "'c \<Rightarrow> string \<Rightarrow> 'r option"
    and put :: "string \<Rightarrow> 'r \<Rightarrow> 'c \<Rightarrow> 'c"
    and remove :: "string \<Rightarrow> 'c \<Rightarrow> 'c"
    and inv :: "'c \<Rightarrow> bool"
  assumes lookup_put: "lookup (put i r c) j = (if j = i then Some r else lookup c j)"
    and lookup_remove: "lookup (remove i c) j = (if j = i then None else lookup c j)"
    and inv_put: "inv c \<Longrightarrow> inv (put i r c)"
    and inv_remove: "inv c \<Longrightarrow> inv (remove i c)"
begin

lemma lookup_put_all:
  "lookup (fold (\<lambda>(i, r). put i r) ws c) j = (case map_of (rev ws) j of Some r \<Rightarrow> Some r | None \<Rightarrow> lookup c j)"
proof (induction ws arbitrary: c)
  case (Cons w ws)
  obtain i r where "w = (i, r)" by (cases w)
  with Cons show ?case by (auto simp: lookup_put map_add_def split: option.splits)
qed simp

lemma lookup_remove_all: "lookup (fold remove is c) j = (if j \<in> set is then None else lookup c j)"
  by (induction "is" arbitrary: c) (auto simp: lookup_remove)

lemma inv_put_all: "inv c \<Longrightarrow> inv (fold (\<lambda>(i, r). put i r) ws c)"
  by (induction ws arbitrary: c) (auto simp: inv_put)

lemma inv_remove_all: "inv c \<Longrightarrow> inv (fold remove is c)"
  by (induction "is" arbitrary: c) (auto simp: inv_remove)

end

definition unique_ids :: "'r collection \<Rightarrow> bool" where
  "unique_ids c \<longleftrightarrow> distinct (map fst c)"

interpretation docs: doc_store map_of AList.update AList.delete unique_ids
  by unfold_locales (auto simp: update_conv delete_conv unique_ids_def distinct_update distinct_delete)

lemmas docs_simps [store_simps] = docs.lookup_put docs.lookup_remove

section \<open>Rows and references\<close>

text \<open>A reference is the path of a collection and a document id.\<close>

type_synonym ref = "string \<times> string"

definition coll :: "local_db \<Rightarrow> string \<Rightarrow> row collection" where
  "coll db path = (case map_of db path of None \<Rightarrow> [] | Some c \<Rightarrow> c)"

text \<open>\<open>{ ...a, ...b }\<close>.\<close>

definition spread :: "row \<Rightarrow> row \<Rightarrow> row" where
  "spread a b = foldl (\<lambda>r (k, v). AList.update k v r) a b"

definition tx_get :: "local_db \<Rightarrow> ref \<Rightarrow> row option" where
  "tx_get db r = map_of (coll db (fst r)) (snd r)"

definition put_row :: "ref \<Rightarrow> row \<Rightarrow> local_db \<Rightarrow> local_db" where
  "put_row r v db = AList.update (fst r) (AList.update (snd r) v (coll db (fst r))) db"

definition tx_create :: "ref \<Rightarrow> row \<Rightarrow> local_db \<Rightarrow> local_db result" where
  "tx_create r v db = (if tx_get db r \<noteq> None then Inl ''ALREADY_EXISTS'' else Inr (put_row r v db))"

definition tx_set :: "ref \<Rightarrow> row \<Rightarrow> bool \<Rightarrow> local_db \<Rightarrow> local_db" where
  "tx_set r v merge db =
     put_row r (if merge then spread (case tx_get db r of None \<Rightarrow> [] | Some old \<Rightarrow> old) v else v) db"

definition tx_update :: "ref \<Rightarrow> row \<Rightarrow> local_db \<Rightarrow> local_db" where
  "tx_update r patch db = put_row r (spread (case tx_get db r of None \<Rightarrow> [] | Some old \<Rightarrow> old) patch) db"

definition ref_delete :: "ref \<Rightarrow> local_db \<Rightarrow> local_db" where
  "ref_delete r db =
     (case map_of db (fst r) of
        None \<Rightarrow> db
      | Some c \<Rightarrow> AList.update (fst r) (AList.delete (snd r) c) db)"

definition subcollection :: "ref \<Rightarrow> string \<Rightarrow> string" where
  "subcollection r name = fst r @ ''/'' @ snd r @ ''/'' @ name"

section \<open>Queries\<close>

text \<open>
  Comparison of row members: \<open>===\<close> on primitives (objects read from the file are never identical
  to another), and \<open><\<close> on two texts by code units, otherwise on numbers.
\<close>

fun strict_equal :: "json option \<Rightarrow> json option \<Rightarrow> bool" where
  "strict_equal None None = True"
| "strict_equal (Some (JArr _)) b = False"
| "strict_equal (Some (JObj _)) b = False"
| "strict_equal a b = (a = b)"

fun to_primitive :: "json \<Rightarrow> json" where
  "to_primitive (JArr vs) = JStr (js_string (JArr vs))"
| "to_primitive (JObj ob) = JStr (js_string (JObj ob))"
| "to_primitive v = v"

definition js_less :: "host \<Rightarrow> json option \<Rightarrow> json option \<Rightarrow> bool" where
  "js_less h a b =
     (case (map_option to_primitive a, map_option to_primitive b) of
        (Some (JStr s), Some (JStr t)) \<Rightarrow> \<not> str_le t s
      | (a', b') \<Rightarrow> (case (js_number h a', js_number h b') of (Some m, Some n) \<Rightarrow> m < n | _ \<Rightarrow> False))"

definition js_less_eq :: "host \<Rightarrow> json option \<Rightarrow> json option \<Rightarrow> bool" where
  "js_less_eq h a b =
     (case (map_option to_primitive a, map_option to_primitive b) of
        (Some (JStr s), Some (JStr t)) \<Rightarrow> str_le s t
      | (a', b') \<Rightarrow> (case (js_number h a', js_number h b') of (Some m, Some n) \<Rightarrow> m \<le> n | _ \<Rightarrow> False))"

type_synonym query_filter = "string \<times> string \<times> json"

fun filter_holds :: "host \<Rightarrow> row \<Rightarrow> query_filter \<Rightarrow> bool result" where
  "filter_holds h r (field, operator, expected) =
     (let actual = map_of r field; e = Some expected in
      if operator = ''=='' then Inr (strict_equal actual e)
      else if operator = ''!='' then Inr (\<not> strict_equal actual e)
      else if operator = ''<'' then Inr (js_less h actual e)
      else if operator = ''<='' then Inr (js_less_eq h actual e)
      else if operator = ''>'' then Inr (js_less h e actual)
      else if operator = ''>='' then Inr (js_less_eq h e actual)
      else Inl (''LOCAL_QUERY_OPERATOR_UNSUPPORTED: '' @ operator))"

text \<open>\<open>every\<close> stops at the first filter that fails.\<close>

fun every_filter :: "host \<Rightarrow> row \<Rightarrow> query_filter list \<Rightarrow> bool result" where
  "every_filter h r [] = Inr True"
| "every_filter h r (f # fs) = and_then (filter_holds h r f) (\<lambda>b. if b then every_filter h r fs else Inr False)"

fun filter_rows :: "host \<Rightarrow> query_filter list \<Rightarrow> row collection \<Rightarrow> row collection result" where
  "filter_rows h fs [] = Inr []"
| "filter_rows h fs ((i, r) # rows) =
     and_then (every_filter h r fs) (\<lambda>b. and_then (filter_rows h fs rows) (\<lambda>rest.
       Inr (if b then (i, r) # rest else rest)))"

record query =
  q_collection :: string
  q_filters :: "query_filter list"
  q_order :: "(string \<times> string) option"
  q_max :: "nat option"

definition q_where :: "query \<Rightarrow> string \<Rightarrow> string \<Rightarrow> json \<Rightarrow> query" where
  "q_where q field operator v = q\<lparr>q_filters := q_filters q @ [(field, operator, v)]\<rparr>"

definition q_orderBy :: "query \<Rightarrow> string \<Rightarrow> string \<Rightarrow> query" where
  "q_orderBy q field direction = q\<lparr>q_order := Some (field, direction)\<rparr>"

definition q_limit :: "query \<Rightarrow> nat \<Rightarrow> query" where
  "q_limit q n = q\<lparr>q_max := Some n\<rparr>"

text \<open>Ordering by the text of a member; \<open>desc\<close> negates the comparison. A limit of 0 is no limit.\<close>

definition row_le :: "host \<Rightarrow> string \<Rightarrow> string \<Rightarrow> string \<times> row \<Rightarrow> string \<times> row \<Rightarrow> bool" where
  "row_le h field direction a b =
     (let x = str_or_empty (map_of (snd a) field); y = str_or_empty (map_of (snd b) field)
      in if direction = ''desc'' then collate h y x else collate h x y)"

definition limit_rows :: "nat option \<Rightarrow> 'a list \<Rightarrow> 'a list" where
  "limit_rows m rows = (case m of None \<Rightarrow> rows | Some n \<Rightarrow> if n = 0 then rows else take n rows)"

definition query_get :: "host \<Rightarrow> local_db \<Rightarrow> query \<Rightarrow> row collection result" where
  "query_get h db q =
     and_then (filter_rows h (q_filters q) (coll db (q_collection q))) (\<lambda>rows.
       Inr (limit_rows (q_max q)
             (case q_order q of None \<Rightarrow> rows | Some (field, direction) \<Rightarrow> sort_by (row_le h field direction) rows)))"

section \<open>The file, transactions and batches\<close>

datatype store_file = Absent | Readable local_db | Unreadable

fun readRaw :: "store_file \<Rightarrow> local_db result" where
  "readRaw Absent = Inr []"
| "readRaw (Readable db) = Inr db"
| "readRaw Unreadable = Inl ''TSN_RECEIVER_LOCAL_STORE_INVALID: refusing to replace unreadable local state''"

definition mutate :: "(local_db \<Rightarrow> ('a \<times> local_db) result) \<Rightarrow> store_file \<Rightarrow> 'a result \<times> store_file" where
  "mutate operation f =
     (case and_then (readRaw f) operation of
        Inl e \<Rightarrow> (Inl e, f)
      | Inr (x, db) \<Rightarrow> (Inr x, Readable db))"

datatype batch_write = BatchSet ref row bool | BatchDelete ref

text \<open>A batch deletes through \<open>??=\<close>, which creates an empty collection when there is none.\<close>

fun apply_write :: "batch_write \<Rightarrow> local_db \<Rightarrow> local_db" where
  "apply_write (BatchSet r v merge) db = tx_set r v merge db"
| "apply_write (BatchDelete r) db = AList.update (fst r) (AList.delete (snd r) (coll db (fst r))) db"

definition batch_commit :: "batch_write list \<Rightarrow> store_file \<Rightarrow> unit result \<times> store_file" where
  "batch_commit ws = mutate (\<lambda>db. Inr ((), fold apply_write ws db))"

definition ref_set :: "ref \<Rightarrow> row \<Rightarrow> store_file \<Rightarrow> unit result \<times> store_file" where
  "ref_set r v = mutate (\<lambda>db. Inr ((), put_row r v db))"

definition ref_create :: "ref \<Rightarrow> row \<Rightarrow> store_file \<Rightarrow> unit result \<times> store_file" where
  "ref_create r v = mutate (\<lambda>db. and_then (tx_create r v db) (\<lambda>db'. Inr ((), db')))"

text \<open>
  \<open>migrateLegacyTinRecords\<close>: rows that still hold the verified payload are compacted. A row whose
  payload is not an object makes the difference throw, and nothing is written.
\<close>

definition migrate_row :: "host \<Rightarrow> row \<Rightarrow> (bool \<times> row) result" where
  "migrate_row h r =
     (case map_of r ''verification'' of
        Some (JObj ver) \<Rightarrow>
          if truthy (map_of ver ''verifiedPayload'') \<and> truthy (map_of r ''payload'') then
            (case (map_of ver ''verifiedPayload'', map_of r ''payload'') of
               (Some (JObj _), Some (JObj p)) \<Rightarrow>
                 Inr (True, AList.update ''verification'' (JObj (compactVerificationPayload h p (Some ver))) r)
             | (Some (JObj _), _) \<Rightarrow> Inl ''TypeError''
             | _ \<Rightarrow> Inr (True, r))
          else Inr (False, r)
      | _ \<Rightarrow> Inr (False, r))"

fun migrate_rows :: "host \<Rightarrow> row collection \<Rightarrow> (nat \<times> row collection) result" where
  "migrate_rows h [] = Inr (0, [])"
| "migrate_rows h ((i, r) # rows) =
     and_then (migrate_row h r) (\<lambda>(changed, r'). and_then (migrate_rows h rows) (\<lambda>(n, rest).
       Inr ((if changed then Suc n else n), (i, r') # rest)))"

definition migrateLegacyTinRecords :: "host \<Rightarrow> string \<Rightarrow> store_file \<Rightarrow> store_file" where
  "migrateLegacyTinRecords h path f =
     (case readRaw f of
        Inl _ \<Rightarrow> f
      | Inr db \<Rightarrow>
          (case map_of db path of
             None \<Rightarrow> f
           | Some c \<Rightarrow>
               (case migrate_rows h c of
                  Inl _ \<Rightarrow> f
                | Inr (n, c') \<Rightarrow> if n = 0 then f else Readable (AList.update path c' db))))"

section \<open>Laws\<close>

lemma coll_put_row: "coll (put_row r v db) p = (if p = fst r then AList.update (snd r) v (coll db p) else coll db p)"
  by (auto simp: coll_def put_row_def update_conv)

lemma tx_get_put_row [store_simps]: "tx_get (put_row r v db) s = (if s = r then Some v else tx_get db s)"
  by (cases r; cases s) (auto simp: tx_get_def coll_put_row update_conv)

lemma tx_get_delete [store_simps]: "tx_get (ref_delete r db) s = (if s = r then None else tx_get db s)"
  by (cases r; cases s) (auto simp: tx_get_def ref_delete_def coll_def update_conv delete_conv split: option.splits)

lemma tx_get_apply_delete: "tx_get (apply_write (BatchDelete r) db) s = (if s = r then None else tx_get db s)"
  by (cases r; cases s) (auto simp: tx_get_def coll_def update_conv delete_conv split: option.splits)

lemma map_of_spread:
  "map_of (spread a b) k = (case map_of (rev b) k of Some v \<Rightarrow> Some v | None \<Rightarrow> map_of a k)"
proof (induction b arbitrary: a)
  case (Cons e b)
  obtain x v where "e = (x, v)" by (cases e)
  with Cons [of "AList.update x v a"] show ?case
    by (auto simp: spread_def update_conv map_add_def split: option.splits)
qed (simp add: spread_def)

text \<open>
  A transaction is all or nothing: when its body throws, or the file is unreadable, the file
  is exactly what it was; otherwise the file holds the whole result of the body, computed from the
  database that was there. In particular an unreadable file is never replaced.
\<close>

theorem mutate_atomic:
  "(\<forall>e f'. mutate operation f = (Inl e, f') \<longrightarrow> f' = f) \<and>
   (\<forall>x f'. mutate operation f = (Inr x, f') \<longrightarrow>
      (\<exists>db db'. readRaw f = Inr db \<and> operation db = Inr (x, db') \<and> f' = Readable db')) \<and>
   snd (mutate operation Unreadable) = Unreadable"
  by (auto simp: mutate_def split: sum.splits)

theorem mutate_atomic_witness:
  "snd (mutate (\<lambda>db. and_then (tx_create (''c'', ''a'') [] db) (\<lambda>db'. and_then (tx_create (''c'', ''a'') [] db') (\<lambda>d. Inr ((), d))))
      Absent) = Absent"
proof -
  let ?op = "\<lambda>db. and_then (tx_create (''c'', ''a'') [] db) (\<lambda>db'. and_then (tx_create (''c'', ''a'') [] db') (\<lambda>d. Inr ((), d)))"
  have "mutate ?op Absent = (Inl ''ALREADY_EXISTS'', Absent)" by code_simp
  with mutate_atomic [of ?op Absent] show ?thesis by simp
qed

lemma migrate_rows_lookup:
  "migrate_rows h c = Inr (n, c') \<Longrightarrow> map_of c i = Some r \<Longrightarrow>
     \<exists>changed r'. migrate_row h r = Inr (changed, r') \<and> map_of c' i = Some r'"
proof (induction c arbitrary: n c')
  case (Cons e c)
  obtain j s where "e = (j, s)" by (cases e)
  with Cons show ?case by (auto split: if_splits)
qed simp

text \<open>
  C12: The start-up migration of legacy records changes their representation only: a migrated row
  keeps its payload, and the verified payload that consumers resolve from it has the commitment of
  the one that was stored.
\<close>

theorem migration_preserves_verified_payload:
  assumes "collation (collate h)" "migrate_rows h c = Inr (n, c')" "map_of c i = Some r"
    and "map_of r ''payload'' = Some (JObj p)" "map_of r ''verification'' = Some (JObj ver)"
    and "map_of ver ''verifiedPayload'' = Some (JObj v)" "plain_keys p" "plain_keys v"
  shows "\<exists>r' ver' q. map_of c' i = Some r' \<and> map_of r' ''payload'' = Some (JObj p) \<and>
           map_of r' ''verification'' = Some (JObj ver') \<and> map_of ver' ''verifiedPayload'' = None \<and>
           resolve_verified p ver' = Some q \<and> payloadCommitment h (JObj q) = payloadCommitment h (JObj v)"
proof -
  let ?ver = "compactVerificationPayload h p (Some ver)"
  obtain q where q: "resolve_verified p ?ver = Some q" "payloadCommitment h (JObj q) = payloadCommitment h (JObj v)"
    using resolve_compact_commitment [OF assms(1,6,7,8)] by blast
  have "map_of c' i = Some (AList.update ''verification'' (JObj ?ver) r)"
    using migrate_rows_lookup [OF assms(2,3)] assms(4-6) by (auto simp: migrate_row_def)
  with q assms(4) compact_has_delta(2) [OF assms(6)] show ?thesis by (auto simp: update_conv)
qed

theorem migration_preserves_verified_payload_witness:
  "\<exists>n c'. migrate_rows sample_host
     [(''w1'', [(''payload'', JObj [(''nonce'', JNum 1)]),
                (''verification'', JObj [(''verifiedPayload'', JObj [(''nonce'', JNum 2)])])])] = Inr (n, c') \<and>
     (\<exists>r' ver' q. map_of c' ''w1'' = Some r' \<and> map_of r' ''payload'' = Some (JObj [(''nonce'', JNum 1)]) \<and>
        map_of r' ''verification'' = Some (JObj ver') \<and> map_of ver' ''verifiedPayload'' = None \<and>
        resolve_verified [(''nonce'', JNum 1)] ver' = Some q \<and>
        payloadCommitment sample_host (JObj q) = payloadCommitment sample_host (JObj [(''nonce'', JNum 2)]))"
proof -
  let ?r = "[(''payload'', JObj [(''nonce'', JNum 1)]),
             (''verification'', JObj [(''verifiedPayload'', JObj [(''nonce'', JNum 2)])])]"
  obtain n c' where m: "migrate_rows sample_host [(''w1'', ?r)] = Inr (n, c')"
    by (simp add: migrate_row_def)
  show ?thesis
    by (rule exI [of _ n], rule exI [of _ c'], rule conjI [OF m])
      (rule migration_preserves_verified_payload [OF sample_collation m, where r = ?r],
        auto simp: plain_keys_def object_prototype_keys_def)
qed

end
