(* ===== verification/Node_Envelope.thy ===== *)
theory Node_Envelope
  imports Work_Contract
begin

text \<open>
  \<open>services/tsn-receiver/lib/node-envelope.ts\<close>: the AES-256-GCM envelope in which the Receiver
  stores the complete ingress payload for the Node. The environment variables that the Receiver
  reads are the record \<open>environment\<close>; the cipher is a parameter (\<open>host\<close>).
\<close>

record environment =
  RECEIVER_NODE_PAYLOAD_KEY :: "string option"
  NODE_VERIFICATION_PUBLIC_KEY :: "string option"
  RECEIVER_NODE_API_KEY :: "string option"

definition env_trim :: "string option \<Rightarrow> string" where
  "env_trim v = (case v of None \<Rightarrow> [] | Some s \<Rightarrow> js_trim s)"

definition node_key :: "host \<Rightarrow> environment \<Rightarrow> byte_list result" where
  "node_key h env =
     (let v = env_trim (RECEIVER_NODE_PAYLOAD_KEY env) in
      if v = [] then Inl ''NODE_PAYLOAD_ENCRYPTION_KEY_REQUIRED''
      else (let bytes = (if is_hex64 v then from_hex v else base64_decode h v) in
            if length bytes \<noteq> 32 then Inl ''NODE_PAYLOAD_ENCRYPTION_KEY_INVALID'' else Inr bytes))"

text \<open>\<open>iv\<close> is the result of \<open>randomBytes(12)\<close>.\<close>

definition encryptPayloadForNode :: "host \<Rightarrow> environment \<Rightarrow> byte_list \<Rightarrow> obj \<Rightarrow> json result" where
  "encryptPayloadForNode h env iv p =
     and_then (node_key h env) (\<lambda>key.
       let (ciphertext, tag) = gcm_seal h key iv [] (utf8 (json_stringify (JObj p)))
       in Inr (JObj [(''version'', JNum 1), (''iv'', JStr (bytesToBase64Url iv)),
                     (''ciphertext'', JStr (bytesToBase64Url ciphertext)), (''tag'', JStr (bytesToBase64Url tag))]))"

text \<open>
  \<open>Buffer.from(x, "base64url")\<close> throws a type error unless \<open>x\<close> is text (the declared type of the
  three members). A wrong tag makes \<open>final()\<close> throw.
\<close>

definition buffer_base64url :: "host \<Rightarrow> json option \<Rightarrow> byte_list result" where
  "buffer_base64url h v = (case v of Some (JStr s) \<Rightarrow> Inr (base64_decode h s) | _ \<Rightarrow> Inl ''ERR_INVALID_ARG_TYPE'')"

definition decryptPayloadForNode :: "host \<Rightarrow> environment \<Rightarrow> obj \<Rightarrow> obj result" where
  "decryptPayloadForNode h env envelope =
     and_then (require (map_of envelope ''version'' = Some (JNum 1)) ''NODE_PAYLOAD_ENVELOPE_VERSION_UNSUPPORTED'') (\<lambda>_.
     and_then (node_key h env) (\<lambda>key.
     and_then (buffer_base64url h (map_of envelope ''iv'')) (\<lambda>iv.
     and_then (buffer_base64url h (map_of envelope ''tag'')) (\<lambda>tag.
     and_then (buffer_base64url h (map_of envelope ''ciphertext'')) (\<lambda>ciphertext.
     (case gcm_open h key iv [] ciphertext tag of
        None \<Rightarrow> Inl ''Unsupported state or unable to authenticate data''
      | Some plaintext \<Rightarrow>
          (case Option.bind (utf8_decode plaintext) json_parse of
             None \<Rightarrow> Inl ''SyntaxError''
           | Some (JObj payload) \<Rightarrow> Inr payload
           | Some _ \<Rightarrow> Inl ''NODE_PAYLOAD_ENVELOPE_INVALID'')))))))"

section \<open>The envelope is a round trip\<close>

abbreviation octets :: "byte_list \<Rightarrow> bool" where
  "octets bs \<equiv> list_all (\<lambda>b. b < 256) bs"

text \<open>What the Receiver relies on: authenticated decryption inverts encryption, and
  \<open>Buffer.from(_, "base64url")\<close> inverts \<open>toString("base64url")\<close>.\<close>

definition gcm_law :: "host \<Rightarrow> bool" where
  "gcm_law h \<longleftrightarrow> (\<forall>key iv aad pt ct tag. octets key \<longrightarrow> octets iv \<longrightarrow> octets aad \<longrightarrow> octets pt \<longrightarrow>
     gcm_seal h key iv aad pt = (ct, tag) \<longrightarrow>
     octets ct \<and> octets tag \<and> gcm_open h key iv aad ct tag = Some pt)"

definition tag_law :: "host \<Rightarrow> bool" where
  "tag_law h \<longleftrightarrow> (\<forall>key iv aad pt. length (snd (gcm_seal h key iv aad pt)) = 16)"

definition base64_law :: "host \<Rightarrow> bool" where
  "base64_law h \<longleftrightarrow> (\<forall>bs. octets bs \<longrightarrow> base64_decode h (bytesToBase64Url bs) = bs)"

text \<open>SHA-256 gives 32 bytes.\<close>

definition hash_law :: "host \<Rightarrow> bool" where
  "hash_law h \<longleftrightarrow> (\<forall>bs. octets (sha256 h bs) \<and> length (sha256 h bs) = 32)"

lemma hash_lawD: "hash_law h \<Longrightarrow> octets (sha256 h bs)" "hash_law h \<Longrightarrow> length (sha256 h bs) = 32"
  by (simp_all add: hash_law_def)

lemma gcm_lawD:
  assumes "gcm_law h" "octets key" "octets iv" "octets aad" "octets pt" "gcm_seal h key iv aad pt = (ct, tag)"
  shows "octets ct" "octets tag" "gcm_open h key iv aad ct tag = Some pt"
  using assms unfolding gcm_law_def by blast+

lemma base64_lawD: "base64_law h \<Longrightarrow> octets bs \<Longrightarrow> base64_decode h (bytesToBase64Url bs) = bs"
  unfolding base64_law_def by blast

lemma octets_utf8 [simp]: "octets (utf8 s)"
proof -
  have "octets (utf8_char c)" for c
  proof -
    have "code c div 64 < 4" "code c mod 64 < 64" using code_less_256 [of c] by (auto simp: div_less_iff_less_mult)
    then show ?thesis by (auto simp: utf8_char_def)
  qed
  then show ?thesis by (induction s) (auto simp: utf8_def)
qed

lemma octets_replicate: "b < 256 \<Longrightarrow> octets (replicate n b)"
  by (simp add: list_all_iff)

lemma sample_laws: "gcm_law sample_host" "base64_law sample_host"
  by (auto simp: gcm_law_def base64_law_def sample_tag_def list_all_iff dest!: in_set_takeD)

lemma sample_hash_octets [simp]: "octets (sha256 sample_host bs)"
  by (auto simp: list_all_iff dest!: in_set_takeD)

lemma sample_hash_law: "hash_law sample_host"
  unfolding hash_law_def using sample_hash_octets by (auto simp: min_def)

lemma decrypt_encrypt:
  assumes "gcm_law h" "base64_law h" "node_key h env = Inr key" "octets key" "octets iv" "wf_json (JObj p)"
  shows "\<exists>envelope. encryptPayloadForNode h env iv p = Inr (JObj envelope) \<and>
                    decryptPayloadForNode h env envelope = Inr p"
proof -
  let ?pt = "utf8 (json_stringify (JObj p))"
  obtain ct tag where seal: "gcm_seal h key iv [] ?pt = (ct, tag)" by (cases "gcm_seal h key iv [] ?pt")
  have "octets []" by simp
  note opened = gcm_lawD [OF assms(1,4,5) this octets_utf8 seal]
  show ?thesis
    using assms(3) seal opened base64_lawD [OF assms(2)] assms(5) json_parse_stringify [OF assms(6)]
    by (simp add: encryptPayloadForNode_def decryptPayloadForNode_def buffer_base64url_def)
qed

text \<open>
  The Node reads back the payload that was accepted: opening a stored envelope with the same
  configured key returns exactly the payload that was sealed, for every payload with distinct
  keys.
\<close>

theorem node_envelope_roundtrip:
  assumes "gcm_law h" "base64_law h" "node_key h env = Inr key" "octets key" "octets iv" "wf_json (JObj p)"
  shows "\<exists>envelope. encryptPayloadForNode h env iv p = Inr (JObj envelope) \<and>
                    decryptPayloadForNode h env envelope = Inr p"
  using assms by (rule decrypt_encrypt)

definition sample_env :: environment where
  "sample_env =
     \<lparr>RECEIVER_NODE_PAYLOAD_KEY = Some (concat (replicate 32 ''0a'')),
      NODE_VERIFICATION_PUBLIC_KEY = Some (concat (replicate 32 ''07'')),
      RECEIVER_NODE_API_KEY = Some ''secret''\<rparr>"

lemma sample_node_key: "node_key sample_host sample_env = Inr (replicate 32 10)"
  by code_simp

theorem node_envelope_roundtrip_witness:
  "\<exists>envelope. encryptPayloadForNode sample_host sample_env (replicate 12 1) [(''amount'', JNum 5), (''tin'', JStr ''x'')]
       = Inr (JObj envelope) \<and>
     decryptPayloadForNode sample_host sample_env envelope = Inr [(''amount'', JNum 5), (''tin'', JStr ''x'')]"
  by (rule node_envelope_roundtrip [OF sample_laws sample_node_key]) (auto simp: wf_JObj list_all_iff)

end
