(* ===== verification/Node_Verification.thy ===== *)
theory Node_Verification
  imports Node_Envelope
begin

text \<open>
  \<open>services/tsn-receiver/lib/node-verification.ts\<close>: the Ed25519 attestation with which a Node
  signs its decision on a piece of work, and the check the Receiver makes before it commits a
  VERIFIED or REJECTED transition. An attestation is a JSON object; a missing member is absent
  from it.
\<close>

section \<open>Definitions\<close>

definition MESSAGE_FIELDS :: "string list" where
  "MESSAGE_FIELDS =
     [''version'', ''workId'', ''workKind'', ''decision'', ''inputPayloadCommitment'',
      ''evidenceCommitment'', ''executionPayloadCommitment'', ''verificationType'', ''leaseId'', ''leaseVersion'',
      ''nodeId'', ''keyId'', ''signedAt'']"

definition nodeCommitment :: "host \<Rightarrow> json \<Rightarrow> string" where
  "nodeCommitment h v = sha256_hex h (stableNodeValue v)"

definition newline :: char where
  "newline = CHR 0x0A"

definition carriage_return :: char where
  "carriage_return = CHR 0x0D"

definition message_values :: "obj \<Rightarrow> string list" where
  "message_values attestation = map (\<lambda>f. str_or_empty (map_of attestation f)) MESSAGE_FIELDS"

definition attestationMessage :: "obj \<Rightarrow> byte_list result" where
  "attestationMessage attestation =
     (let values = message_values attestation in
      if \<exists>v \<in> set values. newline \<in> set v \<or> carriage_return \<in> set v
      then Inl ''NODE_ATTESTATION_INVALID_FIELD''
      else Inr (utf8 (''TSN_NODE_VERIFICATION_V1'' @ [newline] @ js_join [newline] values)))"

definition configuredPublicKey :: "host \<Rightarrow> environment \<Rightarrow> byte_list result" where
  "configuredPublicKey h env =
     (let encoded = env_trim (NODE_VERIFICATION_PUBLIC_KEY env) in
      if encoded = [] then Inl ''NODE_VERIFICATION_PUBLIC_KEY_NOT_CONFIGURED''
      else if is_hex64 encoded then Inr (from_hex encoded)
      else (let raw = base64_decode h encoded in
            if length raw \<noteq> 32 \<or> drop_equals (btoa raw) \<noteq> drop_equals encoded
            then Inl ''NODE_VERIFICATION_PUBLIC_KEY_INVALID'' else Inr raw))"

definition node_key_id :: "host \<Rightarrow> byte_list \<Rightarrow> string" where
  "node_key_id h raw = take 24 (to_hex (sha256 h raw))"

definition verified_evidence :: "obj \<Rightarrow> bool" where
  "verified_evidence evidence \<longleftrightarrow>
     is_plain_object (map_of evidence ''verifiedPayload'') \<and>
     js_trim (str_or_empty (map_of evidence ''verificationType'')) \<noteq> []"

definition execution_payload :: "work_kind \<Rightarrow> work_status \<Rightarrow> obj \<Rightarrow> obj" where
  "execution_payload kind status evidence =
     (case map_of evidence ''verifiedPayload'' of
        Some (JObj p) \<Rightarrow> if status = VERIFIED then crankerExecutionPayload kind p else []
      | _ \<Rightarrow> [])"

definition attestation_in_context ::
  "host \<Rightarrow> work \<Rightarrow> lease_info \<Rightarrow> string \<Rightarrow> int \<Rightarrow> work_status \<Rightarrow> obj \<Rightarrow> byte_list \<Rightarrow> obj \<Rightarrow> bool" where
  "attestation_in_context h wk lease owner expectedVersion status evidence raw attestation \<longleftrightarrow>
     map_of attestation ''version'' = Some (JNum 1)
     \<and> map_of attestation ''algorithm'' = Some (JStr ''Ed25519'')
     \<and> map_of attestation ''workId'' = Some (JStr (w_id wk))
     \<and> map_of attestation ''workKind'' = Some (JStr (kind_text (w_kind wk)))
     \<and> map_of attestation ''decision'' = Some (JStr (status_text status))
     \<and> map_of attestation ''inputPayloadCommitment'' = Some (JStr (w_payloadCommitment wk))
     \<and> map_of attestation ''evidenceCommitment''
         = Some (JStr (nodeCommitment h (JObj (AList.delete ''nodeAttestation'' evidence))))
     \<and> map_of attestation ''executionPayloadCommitment''
         = Some (JStr (nodeCommitment h (JObj (execution_payload (w_kind wk) status evidence))))
     \<and> map_of attestation ''leaseId'' = Some (JStr (case l_leaseId lease of Some l \<Rightarrow> l | None \<Rightarrow> w_id wk))
     \<and> js_number h (map_of attestation ''leaseVersion'')
         = Some (case l_version lease of Some n \<Rightarrow> n | None \<Rightarrow> expectedVersion)
     \<and> map_of attestation ''nodeId'' = Some (JStr owner)
     \<and> map_of attestation ''keyId'' = Some (JStr (node_key_id h raw))
     \<and> (status = VERIFIED \<longrightarrow>
          map_of attestation ''verificationType'' = Some (JStr (str_or_empty (map_of evidence ''verificationType''))))
     \<and> truthy (map_of attestation ''signedAt'')
     \<and> date_parse h (str_or_empty (map_of attestation ''signedAt'')) \<noteq> None"

text \<open>The three disjuncts of the last check, in order: the message is only built when the
  signature is canonical base 64 of 64 bytes.\<close>

definition check_attestation_signature :: "host \<Rightarrow> byte_list \<Rightarrow> obj \<Rightarrow> unit result" where
  "check_attestation_signature h raw attestation =
     (let text = str_or_empty (map_of attestation ''signatureBase64'');
          signature = base64_decode h text
      in if length signature \<noteq> 64 \<or> drop_equals (btoa signature) \<noteq> drop_equals text
         then Inl ''NODE_ATTESTATION_SIGNATURE_INVALID''
         else and_then (attestationMessage attestation) (\<lambda>msg.
                require (ed25519_verify h raw msg signature) ''NODE_ATTESTATION_SIGNATURE_INVALID''))"

definition attestation_of :: "obj option \<Rightarrow> (obj \<times> obj) option" where
  "attestation_of evidence =
     (case evidence of
        None \<Rightarrow> None
      | Some ev \<Rightarrow>
          (case map_of ev ''nodeAttestation'' of
             Some (JObj a) \<Rightarrow> Some (ev, a)
           | Some (JArr _) \<Rightarrow> Some (ev, [])
           | _ \<Rightarrow> None))"

definition assertNodeVerificationAttestation ::
  "host \<Rightarrow> environment \<Rightarrow> work \<Rightarrow> string \<Rightarrow> int \<Rightarrow> work_status \<Rightarrow> obj option \<Rightarrow> unit result" where
  "assertNodeVerificationAttestation h env wk owner expectedVersion status evidence =
     (case attestation_of evidence of
        None \<Rightarrow> Inl ''NODE_ATTESTATION_REQUIRED''
      | Some (ev, attestation) \<Rightarrow>
          and_then (require (status = VERIFIED \<longrightarrow> verified_evidence ev) ''NODE_VERIFIED_EVIDENCE_REQUIRED'') (\<lambda>_.
          (case w_nodeLease wk of
             None \<Rightarrow> Inl ''NODE_ATTESTATION_LEASE_MISSING''
           | Some lease \<Rightarrow>
               and_then (configuredPublicKey h env) (\<lambda>raw.
               and_then (require (attestation_in_context h wk lease owner expectedVersion status ev raw attestation)
                           ''NODE_ATTESTATION_CONTEXT_MISMATCH'') (\<lambda>_.
               check_attestation_signature h raw attestation)))))"

definition node_lease_version :: "work \<Rightarrow> int \<Rightarrow> int" where
  "node_lease_version wk expectedVersion =
     (case Option.bind (w_nodeLease wk) l_version of Some n \<Rightarrow> n | None \<Rightarrow> expectedVersion)"

section \<open>The signed message is unambiguous\<close>

lemma message_values_length: "length (message_values a) = 13"
  by (simp add: message_values_def MESSAGE_FIELDS_def)

lemma attestationMessage_Inr:
  "attestationMessage a = Inr m \<Longrightarrow>
     (\<forall>v \<in> set (message_values a). newline \<notin> set v) \<and>
     m = utf8 (''TSN_NODE_VERIFICATION_V1'' @ [newline] @ js_join [newline] (message_values a))"
  by (auto simp: attestationMessage_def Let_def split: if_splits)

lemma attestationMessage_inject:
  assumes "attestationMessage a = Inr m" "attestationMessage b = Inr m"
  shows "message_values a = message_values b"
proof -
  have nonempty: "message_values x \<noteq> []" for x using message_values_length [of x] by auto
  have "js_join [newline] (message_values a) = js_join [newline] (message_values b)"
    using attestationMessage_Inr [OF assms(1)] attestationMessage_Inr [OF assms(2)] by simp
  with nonempty attestationMessage_Inr [OF assms(1)] attestationMessage_Inr [OF assms(2)]
  show ?thesis by (intro js_join_inject [of newline]) auto
qed

lemma message_values_field:
  assumes "message_values a = message_values b" "f \<in> set MESSAGE_FIELDS"
  shows "str_or_empty (map_of a f) = str_or_empty (map_of b f)"
  using assms by (auto simp: message_values_def)

lemma attestation_accepted:
  assumes "assertNodeVerificationAttestation h env wk owner ver status evidence = Inr u"
  obtains ev a lease raw where
    "attestation_of evidence = Some (ev, a)" "status = VERIFIED \<longrightarrow> verified_evidence ev" "w_nodeLease wk = Some lease"
    "configuredPublicKey h env = Inr raw"
    "attestation_in_context h wk lease owner ver status ev raw a" "check_attestation_signature h raw a = Inr u"
  using assms
  by (auto simp: assertNodeVerificationAttestation_def split: option.splits prod.splits)

lemma check_attestation_signature_Inr:
  assumes "check_attestation_signature h raw a = Inr u"
  obtains m where "attestationMessage a = Inr m"
    "ed25519_verify h raw m (base64_decode h (str_or_empty (map_of a ''signatureBase64'')))"
  using assms by (auto simp: check_attestation_signature_def Let_def split: if_splits)

text \<open>
  C7: A decision is committed only with a signature of the configured Node key over a message
  that determines it: two accepted decisions that were signed as the same message are about the
  same work, kind, outcome, input payload commitment and Node, and commit to the same evidence and
  the same Cranker payload; one attestation is never accepted under two lease versions.
\<close>

theorem attestation_binds_decision:
  assumes "assertNodeVerificationAttestation h env wk owner ver status (Some ev) = Inr u"
    and "assertNodeVerificationAttestation h env wk' owner' ver' status' (Some ev') = Inr u'"
    and "attestation_of (Some ev) = Some (ev, a)" "attestation_of (Some ev') = Some (ev', a')"
    and "attestationMessage a = attestationMessage a'"
  shows "(\<exists>raw m. configuredPublicKey h env = Inr raw \<and> attestationMessage a = Inr m \<and>
            ed25519_verify h raw m (base64_decode h (str_or_empty (map_of a ''signatureBase64''))))
         \<and> w_id wk = w_id wk' \<and> w_kind wk = w_kind wk' \<and> status = status'
         \<and> w_payloadCommitment wk = w_payloadCommitment wk' \<and> owner = owner'
         \<and> nodeCommitment h (JObj (AList.delete ''nodeAttestation'' ev))
             = nodeCommitment h (JObj (AList.delete ''nodeAttestation'' ev'))
         \<and> nodeCommitment h (JObj (execution_payload (w_kind wk) status ev))
             = nodeCommitment h (JObj (execution_payload (w_kind wk') status' ev'))
         \<and> (a = a' \<longrightarrow> node_lease_version wk ver = node_lease_version wk' ver')"
proof -
  obtain lease raw where l: "w_nodeLease wk = Some lease" "configuredPublicKey h env = Inr raw"
    and c: "attestation_in_context h wk lease owner ver status ev raw a" and s: "check_attestation_signature h raw a = Inr u"
    using assms(1,3) by (auto elim!: attestation_accepted)
  obtain lease' raw' where l': "w_nodeLease wk' = Some lease'"
    and c': "attestation_in_context h wk' lease' owner' ver' status' ev' raw' a'"
    using assms(2,4) by (auto elim!: attestation_accepted)
  obtain m where m: "attestationMessage a = Inr m"
    "ed25519_verify h raw m (base64_decode h (str_or_empty (map_of a ''signatureBase64'')))"
    using s by (rule check_attestation_signature_Inr)
  have same: "message_values a = message_values a'"
    using attestationMessage_inject m(1) assms(5) by metis
  note field = message_values_field [OF same]
  have kinds: "kind_text k = kind_text k' \<Longrightarrow> k = k'" for k k' by (cases k; cases k'; simp)
  have statuses: "status_text k = status_text k' \<Longrightarrow> k = k'" for k k' by (cases k; cases k'; simp)
  have version: "a = a' \<longrightarrow> node_lease_version wk ver = node_lease_version wk' ver'"
    using l(1) l' c c' by (clarsimp simp: attestation_in_context_def node_lease_version_def)
  show ?thesis
    using l m c c' version field [of "''workId''"] field [of "''workKind''"] field [of "''decision''"]
      field [of "''inputPayloadCommitment''"] field [of "''nodeId''"] field [of "''evidenceCommitment''"]
      field [of "''executionPayloadCommitment''"]
    by (simp add: attestation_in_context_def MESSAGE_FIELDS_def) (metis kinds statuses)
qed

section \<open>Attestations of the sample runtime\<close>

text \<open>The attestation that a Node holding the sample key makes for a leased piece of work.\<close>

definition sample_key :: byte_list where
  "sample_key = replicate 32 7"

definition sample_fields :: "work \<Rightarrow> string \<Rightarrow> int \<Rightarrow> work_status \<Rightarrow> obj \<Rightarrow> obj" where
  "sample_fields wk owner version status body =
     [(''version'', JNum 1), (''algorithm'', JStr ''Ed25519''), (''workId'', JStr (w_id wk)),
      (''workKind'', JStr (kind_text (w_kind wk))), (''decision'', JStr (status_text status)),
      (''inputPayloadCommitment'', JStr (w_payloadCommitment wk)),
      (''evidenceCommitment'', JStr (nodeCommitment sample_host (JObj body))),
      (''executionPayloadCommitment'', JStr (nodeCommitment sample_host (JObj (execution_payload (w_kind wk) status body)))),
      (''verificationType'', JStr (str_or_empty (map_of body ''verificationType''))),
      (''leaseId'', JStr (w_id wk)), (''leaseVersion'', JNum version), (''nodeId'', JStr owner),
      (''keyId'', JStr (node_key_id sample_host sample_key)), (''signedAt'', JStr ''5Z'')]"

definition sample_message :: "obj \<Rightarrow> byte_list" where
  "sample_message fs = utf8 (''TSN_NODE_VERIFICATION_V1'' @ [newline] @ js_join [newline] (message_values fs))"

definition sample_signature :: "obj \<Rightarrow> byte_list" where
  "sample_signature fs = take 64 (sample_key @ sample_message fs @ replicate 64 0)"

definition sample_attestation :: "work \<Rightarrow> string \<Rightarrow> int \<Rightarrow> work_status \<Rightarrow> obj \<Rightarrow> obj" where
  "sample_attestation wk owner version status body =
     (let fs = sample_fields wk owner version status body
      in (''signatureBase64'', JStr (btoa (sample_signature fs))) # fs)"

definition sample_evidence :: "work \<Rightarrow> string \<Rightarrow> int \<Rightarrow> work_status \<Rightarrow> obj \<Rightarrow> obj" where
  "sample_evidence wk owner version status body =
     (''nodeAttestation'', JObj (sample_attestation wk owner version status body)) # body"

definition one_line :: "string \<Rightarrow> bool" where
  "one_line s \<longleftrightarrow> newline \<notin> set s \<and> carriage_return \<notin> set s"

lemma one_line_hex: "octets bs \<Longrightarrow> one_line (to_hex bs)"
  using to_hex_lower_hex [of bs]
  by (auto simp: one_line_def list_all_iff is_lower_hex_def is_digit_def newline_def carriage_return_def)

lemma one_line_commitment [simp]: "one_line (nodeCommitment sample_host v)"
  unfolding nodeCommitment_def sha256_hex_def by (rule one_line_hex) (rule sample_hash_octets)

lemma one_line_key [simp]: "one_line (node_key_id sample_host sample_key)"
proof -
  have "one_line (to_hex (sha256 sample_host sample_key))"
    by (rule one_line_hex) (rule sample_hash_octets)
  then show ?thesis by (auto simp: node_key_id_def one_line_def dest!: in_set_takeD)
qed

lemma one_line_int [simp]: "one_line (int_str n)"
  using int_str_chars [of newline n] int_str_chars [of carriage_return n]
  by (auto simp: one_line_def is_digit_def newline_def carriage_return_def)

lemma one_line_kind [simp]: "one_line (kind_text k)"
  by (cases k) (simp_all add: one_line_def newline_def carriage_return_def)

lemma one_line_status [simp]: "one_line (status_text s)"
  by (cases s) (simp_all add: one_line_def newline_def carriage_return_def)

lemma one_line_signedAt [simp]: "one_line ''5Z''"
  by (simp add: one_line_def newline_def carriage_return_def)

lemma sample_attestation_signed:
  assumes "one_line (w_id wk)" "one_line (w_payloadCommitment wk)" "one_line owner"
    "one_line (str_or_empty (map_of body ''verificationType''))"
  shows "check_attestation_signature sample_host sample_key (sample_attestation wk owner version status body) = Inr ()"
proof -
  let ?f = "sample_fields wk owner version status body" and ?a = "sample_attestation wk owner version status body"
  have vals: "message_values ?a = message_values ?f"
    by (simp add: sample_attestation_def message_values_def MESSAGE_FIELDS_def Let_def)
  have "\<forall>v \<in> set (message_values ?f). one_line v"
    using assms by (simp add: message_values_def MESSAGE_FIELDS_def sample_fields_def)
      (simp add: str_or_empty_def)
  then have msg: "attestationMessage ?a = Inr (sample_message ?f)"
    unfolding attestationMessage_def vals sample_message_def by (auto simp: one_line_def Let_def)
  have "octets (sample_key @ sample_message ?f @ replicate 64 0)"
    by (simp add: sample_key_def sample_message_def octets_replicate)
  then have bytes: "octets (sample_signature ?f)" "length (sample_signature ?f) = 64"
    by (auto simp: sample_signature_def list_all_iff dest: in_set_takeD)
  have "map_of ?a ''signatureBase64'' = Some (JStr (btoa (sample_signature ?f)))"
    by (simp add: sample_attestation_def Let_def)
  with bytes msg show ?thesis by (simp add: check_attestation_signature_def sample_signature_def)
qed

lemma sample_evidence_accepted:
  assumes "w_nodeLease wk = Some \<lparr>l_owner = owner, l_expiresAt = e, l_leaseId = Some (w_id wk), l_version = Some version\<rparr>"
    and "one_line (w_id wk)" "one_line (w_payloadCommitment wk)" "one_line owner"
    and "one_line (str_or_empty (map_of body ''verificationType''))"
    and "''nodeAttestation'' \<notin> fst ` set body" "status = VERIFIED \<longrightarrow> verified_evidence body"
  shows "assertNodeVerificationAttestation sample_host sample_env wk owner version status
           (Some (sample_evidence wk owner version status body)) = Inr ()"
proof -
  let ?a = "sample_attestation wk owner version status body" and ?ev = "sample_evidence wk owner version status body"
  have key: "configuredPublicKey sample_host sample_env = Inr sample_key" by code_simp
  have date: "date_parse sample_host ''5Z'' = Some 5" by code_simp
  have body: "AList.delete ''nodeAttestation'' ?ev = body"
    using assms(6) by (simp add: sample_evidence_def delete_idem)
  have same: "map_of ?ev ''verifiedPayload'' = map_of body ''verifiedPayload''"
    "map_of ?ev ''verificationType'' = map_of body ''verificationType''"
    by (simp_all add: sample_evidence_def)
  have "attestation_in_context sample_host wk
      \<lparr>l_owner = owner, l_expiresAt = e, l_leaseId = Some (w_id wk), l_version = Some version\<rparr> owner version status
      ?ev sample_key ?a"
    unfolding attestation_in_context_def body execution_payload_def same
    by (simp add: sample_attestation_def sample_fields_def date execution_payload_def Let_def)
  moreover have "status = VERIFIED \<longrightarrow> verified_evidence ?ev"
    using assms(7) unfolding verified_evidence_def same .
  ultimately show ?thesis
    using key assms(1) sample_attestation_signed [OF assms(2-5)]
    by (simp add: assertNodeVerificationAttestation_def attestation_of_def sample_evidence_def)
qed

definition sample_leased :: work where
  "sample_leased = sample_work\<lparr>w_status := NODE_VERIFYING, w_verification := None,
     w_nodeLease := Some \<lparr>l_owner = ''n1'', l_expiresAt = 100, l_leaseId = Some ''w1'', l_version = Some 3\<rparr>\<rparr>"

lemma sample_leased_accepted:
  "assertNodeVerificationAttestation sample_host sample_env sample_leased ''n1'' 3 REJECTED
     (Some (sample_evidence sample_leased ''n1'' 3 REJECTED [(''reason'', JStr ''expired'')])) = Inr ()"
  by (rule sample_evidence_accepted)
    (auto simp: sample_leased_def sample_work_def one_line_def newline_def carriage_return_def)

theorem attestation_binds_decision_witness:
  "\<exists>raw m. configuredPublicKey sample_host sample_env = Inr raw \<and>
     attestationMessage (sample_attestation sample_leased ''n1'' 3 REJECTED [(''reason'', JStr ''expired'')]) = Inr m"
  using attestation_binds_decision [OF sample_leased_accepted sample_leased_accepted
      , of "sample_attestation sample_leased ''n1'' 3 REJECTED [(''reason'', JStr ''expired'')]"
        "sample_attestation sample_leased ''n1'' 3 REJECTED [(''reason'', JStr ''expired'')]"]
  by (simp add: attestation_of_def sample_evidence_def) blast

end
