(* ===== verification/Receiver_Store.thy ===== *)
theory Receiver_Store
  imports Local_Firestore Node_Verification
begin

text \<open>
  \<open>services/tsn-receiver/lib/store.ts\<close> and \<open>lib/settlement-retry.ts\<close>: the work queue. The state is
  the work collection and the notifications sent so far. Each \<open>runTransaction\<close> body of the source
  is one function on the collection (\<open>_tx\<close>); the exported functions compose them. \<open>now\<close> is the
  clock, \<open>uuid\<close> and \<open>iv\<close> the random values a call draws. A call that throws leaves the state as it
  was before its transaction (see \<open>mutate_atomic\<close>).
\<close>

section \<open>State\<close>

datatype notice = WakeNode string | WakeCranker string

record receiver =
  works :: "work collection"
  sent :: "notice list"

definition workspace :: receiver where
  "workspace = \<lparr>works = [], sent = []\<rparr>"

definition work_create :: "string \<Rightarrow> work \<Rightarrow> work collection \<Rightarrow> work collection result" where
  "work_create i wk db = (if map_of db i \<noteq> None then Inl ''ALREADY_EXISTS'' else Inr (AList.update i wk db))"

definition work_update :: "string \<Rightarrow> work \<Rightarrow> work collection \<Rightarrow> work collection" where
  "work_update i wk db = AList.update i wk db"

section \<open>Redaction\<close>

definition redactedPaymentPayload :: "obj \<Rightarrow> obj" where
  "redactedPaymentPayload p =
     [(''paymentId'', JStr (str_or_empty (map_of p ''paymentId''))),
      (''recipientHash'', JStr (str_or_empty (map_of p ''recipientHash'')))]"

definition paymentReceiptVerification :: "host \<Rightarrow> work \<Rightarrow> obj" where
  "paymentReceiptVerification h wk =
     (let ver = (case w_verification wk of None \<Rightarrow> [] | Some v \<Rightarrow> v) in
      (case verifiedPayloadForWork wk of
         None \<Rightarrow> ver
       | Some verified \<Rightarrow>
           compactVerificationPayload h (w_payload wk) (Some (
             [(''verificationType'', nullish (map_of ver ''verificationType'') (JStr ''TSN_AUTHORIZED_FUNDING''))]
             @ (if truthy (map_of ver ''nodeAttestation'') then [(''nodeAttestation'', the (map_of ver ''nodeAttestation''))] else [])
             @ [(''verifiedPayload'', JObj (take_keys [''paymentId'', ''tokenMintAddress'', ''amount''] verified))]))))"

section \<open>Receiving work\<close>

definition settlementId :: "host \<Rightarrow> string \<Rightarrow> string \<Rightarrow> string" where
  "settlementId h id' commitment = ''settlement-'' @ take 32 (sha256_hex h (id' @ '':'' @ commitment))"

definition js_text :: "json option \<Rightarrow> string" where
  "js_text v = (case v of None \<Rightarrow> ''undefined'' | Some x \<Rightarrow> js_string x)"

definition durable_funding_payload :: "obj \<Rightarrow> json \<Rightarrow> obj" where
  "durable_funding_payload p envelope =
     [(''paymentId'', JStr (js_text (map_of p ''paymentId''))),
      (''recipientHash'', JStr (js_text (map_of p ''recipientHash''))),
      (''tokenMintAddress'', nullish (map_of p ''tokenMintAddress'') JNull),
      (''amount'', nullish (map_of p ''amount'') JNull),
      (''nodeEncryptedPayload'', envelope)]"

definition settlement_work :: "host \<Rightarrow> int \<Rightarrow> work \<Rightarrow> string \<Rightarrow> work result" where
  "settlement_work h now funding sid =
     createReceivedWork h now [] (Some sid) SETTLEMENT
       [(''paymentId'', nullish (map_of (w_payload funding) ''paymentId'') (JStr (w_id funding))),
        (''intentId'', JStr (w_id funding)), (''source'', JStr ''tsn-receiver-at-ingress'')] None"

text \<open>The transaction: \<open>wk\<close> is the new record, \<open>sid\<close> the settlement id when there is one.\<close>

definition receive_tx ::
  "host \<Rightarrow> int \<Rightarrow> work \<Rightarrow> string option \<Rightarrow> work collection \<Rightarrow> ((work \<times> bool) \<times> work collection) result" where
  "receive_tx h now wk sid db =
     (case map_of db (w_id wk) of
        Some current \<Rightarrow>
          if w_payloadCommitment current \<noteq> w_payloadCommitment wk \<or> w_kind current \<noteq> w_kind wk
          then Inl ''IDEMPOTENCY_CONFLICT''
          else (case sid of
                  Some s \<Rightarrow>
                    if map_of db s = None
                    then and_then (settlement_work h now current s) (\<lambda>sw.
                         and_then (work_create s sw db) (\<lambda>db'. Inr ((current, False), db')))
                    else Inr ((current, False), db)
                | None \<Rightarrow> Inr ((current, False), db))
      | None \<Rightarrow>
          and_then (work_create (w_id wk) wk db) (\<lambda>db'.
            (case sid of
               Some s \<Rightarrow> and_then (settlement_work h now wk s) (\<lambda>sw.
                         and_then (work_create s sw db') (\<lambda>db''. Inr ((wk, True), db'')))
             | None \<Rightarrow> Inr ((wk, True), db'))))"

definition prepare_received ::
  "host \<Rightarrow> environment \<Rightarrow> int \<Rightarrow> string \<Rightarrow> byte_list \<Rightarrow> string option \<Rightarrow> work_kind \<Rightarrow> obj \<Rightarrow> (work \<times> string option) result" where
  "prepare_received h env now uuid iv id' kind p =
     and_then (assertExternalWorkKind kind) (\<lambda>_.
     and_then (if kind = AUTHORIZED_FUNDING then assertAuthorizedFundingIngress h p else Inr ()) (\<lambda>_.
     and_then (if kind = AUTHORIZED_FUNDING
               then and_then (encryptPayloadForNode h env iv p) (\<lambda>envelope. Inr (durable_funding_payload p envelope))
               else Inr p) (\<lambda>durable.
     and_then (createReceivedWork h now uuid id' kind durable (Some (payloadCommitment h (JObj p)))) (\<lambda>wk.
       Inr (wk, if kind = AUTHORIZED_FUNDING then Some (settlementId h (w_id wk) (w_payloadCommitment wk)) else None)))))"

definition receive ::
  "host \<Rightarrow> environment \<Rightarrow> int \<Rightarrow> string \<Rightarrow> byte_list \<Rightarrow> string option \<Rightarrow> work_kind \<Rightarrow> obj \<Rightarrow> receiver \<Rightarrow> work result \<times> receiver" where
  "receive h env now uuid iv id' kind p st =
     (case and_then (prepare_received h env now uuid iv id' kind p) (\<lambda>(wk, sid). receive_tx h now wk sid (works st)) of
        Inl e \<Rightarrow> (Inl e, st)
      | Inr ((wk, created), db) \<Rightarrow>
          (Inr wk, st\<lparr>works := db, sent := sent st @ (if created then [WakeNode (kind_text kind)] else [])\<rparr>))"

section \<open>Reading the queue\<close>

text \<open>\<open>receivedAt\<close> is an ISO text of fixed width, so ordering the texts is ordering the instants.\<close>

definition by_received :: "work \<Rightarrow> work \<Rightarrow> bool" where
  "by_received a b \<longleftrightarrow> w_receivedAt a \<le> w_receivedAt b"

definition clamp :: "int \<Rightarrow> int \<Rightarrow> nat" where
  "clamp limit hi = nat (min (max limit 1) hi)"

definition list_status :: "work_status \<Rightarrow> int \<Rightarrow> work collection \<Rightarrow> work list" where
  "list_status status limit db =
     limit_rows (Some (clamp limit 100)) (sort_by by_received (filter (\<lambda>w. w_status w = status) (map snd db)))"

definition listKind :: "work_kind \<Rightarrow> work collection \<Rightarrow> work list" where
  "listKind kind db = sort_by by_received (limit_rows (Some 200) (filter (\<lambda>w. w_kind w = kind) (map snd db)))"

definition listRecent :: "int \<Rightarrow> work collection \<Rightarrow> work list" where
  "listRecent limit db = limit_rows (Some (clamp limit 200)) (sort_by (\<lambda>a b. by_received b a) (map snd db))"

definition getWork :: "string \<Rightarrow> work collection \<Rightarrow> work option" where
  "getWork i db = map_of db i"

text \<open>The envelope test \<open>typeof envelope !== "object"\<close> lets arrays through; they have no version.\<close>

definition open_envelope :: "host \<Rightarrow> environment \<Rightarrow> work \<Rightarrow> work result" where
  "open_envelope h env wk =
     (let opened = (\<lambda>e. and_then (decryptPayloadForNode h env e) (\<lambda>p. Inr (wk\<lparr>w_payload := p\<rparr>))) in
      (case map_of (w_payload wk) ''nodeEncryptedPayload'' of
         Some (JObj e) \<Rightarrow> opened e
       | Some (JArr _) \<Rightarrow> opened []
       | v \<Rightarrow> Inl ''NODE_PAYLOAD_ENVELOPE_INVALID''))"

definition getWorkForNode :: "host \<Rightarrow> environment \<Rightarrow> string \<Rightarrow> work collection \<Rightarrow> work option result" where
  "getWorkForNode h env i db =
     (case getWork i db of
        None \<Rightarrow> Inr None
      | Some wk \<Rightarrow>
          if w_kind wk \<noteq> AUTHORIZED_FUNDING then Inr (Some wk)
          else if \<not> truthy (map_of (w_payload wk) ''nodeEncryptedPayload'') then Inr (Some wk)
          else and_then (open_envelope h env wk) (\<lambda>w. Inr (Some w)))"

section \<open>Retrying a rejected settlement\<close>

definition safe_integer :: "int \<Rightarrow> bool" where
  "safe_integer n \<longleftrightarrow> \<bar>n\<bar> \<le> max_safe_integer"

definition retryable_reason :: "string \<Rightarrow> bool" where
  "retryable_reason reason \<longleftrightarrow>
     js_starts_with reason ''GPRU_HIDDEN_HEAD_WITNESS_UNAVAILABLE:'' \<or>
     reason = ''TCAP settlement asset is unavailable or its reserve binding is invalid''"

definition obj_or_empty :: "obj option \<Rightarrow> obj" where
  "obj_or_empty v = (case v of None \<Rightarrow> [] | Some ob \<Rightarrow> ob)"

definition snapshotRetryPatch :: "host \<Rightarrow> int \<Rightarrow> work \<Rightarrow> work \<Rightarrow> int \<Rightarrow> string \<Rightarrow> work result" where
  "snapshotRetryPatch h now current funding expectedVersion requestedBy' =
     and_then (require (safe_integer expectedVersion \<and> w_stateVersion current = expectedVersion) ''STALE_STATE_VERSION'') (\<lambda>_.
     and_then (require (w_kind current = SETTLEMENT \<and> w_status current = REJECTED) ''SETTLEMENT_RETRY_NOT_REJECTED'') (\<lambda>_.
     and_then (require (retryable_reason (str_or_empty (map_of (obj_or_empty (w_verification current)) ''reason'')))
                 ''SETTLEMENT_RETRY_REASON_NOT_ALLOWED'') (\<lambda>_.
     and_then (require (w_nodeLease current = None \<and> w_crankerLease current = None \<and> w_authorization current = None
                        \<and> obj_or_empty (w_result current) = []) ''SETTLEMENT_RETRY_HAS_EXECUTION_STATE'') (\<lambda>_.
     and_then (require (w_kind funding = AUTHORIZED_FUNDING \<and> w_status funding = CONFIRMED
                        \<and> truthy (map_of (obj_or_empty (w_result funding)) ''signature'')) ''SETTLEMENT_FUNDING_NOT_CONFIRMED'') (\<lambda>_.
     and_then (require (w_id current = settlementId h (w_id funding) (w_payloadCommitment funding)
                        \<and> map_of (w_payload current) ''intentId'' = Some (JStr (w_id funding))
                        \<and> payloadCommitment h (JObj (w_payload current)) = w_payloadCommitment current)
                 ''SETTLEMENT_FUNDING_REFERENCE_MISMATCH'') (\<lambda>_.
     Inr (current\<lparr>w_status := RECEIVED, w_stateVersion := w_stateVersion current + 1, w_updatedAt := now,
            w_verification := None, w_nodeLease := None, w_crankerLease := None, w_authorization := None,
            w_retryHistory := w_retryHistory current @
              [\<lparr>rejectedStateVersion = w_stateVersion current, retriedAt = now, requestedBy = requestedBy',
                rejection = w_verification current, fundingWorkId = w_id funding,
                fundingStateVersion = w_stateVersion funding,
                fundingSignature = map_of (obj_or_empty (w_result funding)) ''signature''\<rparr>]\<rparr>)))))))"

definition retry_tx ::
  "host \<Rightarrow> int \<Rightarrow> string \<Rightarrow> int \<Rightarrow> string \<Rightarrow> work collection \<Rightarrow> (work \<times> work collection) result" where
  "retry_tx h now i expectedVersion by db =
     (case map_of db i of
        None \<Rightarrow> Inl ''WORK_NOT_FOUND''
      | Some current \<Rightarrow>
          (let fundingId = str_or_empty (map_of (w_payload current) ''intentId'') in
           if fundingId = [] then Inl ''SETTLEMENT_FUNDING_REFERENCE_MISMATCH''
           else (case map_of db fundingId of
                   None \<Rightarrow> Inl ''SETTLEMENT_FUNDING_NOT_CONFIRMED''
                 | Some funding \<Rightarrow>
                     and_then (snapshotRetryPatch h now current funding expectedVersion by) (\<lambda>w.
                       Inr (w, work_update i w db)))))"

definition retrySettlementSnapshot ::
  "host \<Rightarrow> int \<Rightarrow> string \<Rightarrow> int \<Rightarrow> string \<Rightarrow> receiver \<Rightarrow> (string \<times> work_status \<times> int) result \<times> receiver" where
  "retrySettlementSnapshot h now i expectedVersion by st =
     (case retry_tx h now i expectedVersion by (works st) of
        Inl e \<Rightarrow> (Inl e, st)
      | Inr (w, db) \<Rightarrow>
          (Inr (w_id w, w_status w, w_stateVersion w),
           st\<lparr>works := db, sent := sent st @ [WakeNode ''SETTLEMENT_SNAPSHOT_RETRY'']\<rparr>))"

section \<open>Authorising a Cranker\<close>

definition lease_version :: "lease_info \<Rightarrow> work \<Rightarrow> int" where
  "lease_version lease current = (case l_version lease of Some v \<Rightarrow> v | None \<Rightarrow> w_stateVersion current)"

definition authorization_matches :: "host \<Rightarrow> int \<Rightarrow> work \<Rightarrow> lease_info \<Rightarrow> obj \<Rightarrow> bool" where
  "authorization_matches h now current lease auth \<longleftrightarrow>
     str_or_empty (map_of auth ''leaseId'') = (case l_leaseId lease of Some l \<Rightarrow> l | None \<Rightarrow> w_id current)
     \<and> js_number h (Some (nullish (map_of auth ''leaseVersion'') (JNum 0))) = Some (lease_version lease current)
     \<and> str_or_empty (map_of auth ''leaseExpiresAt'') = to_iso h (l_expiresAt lease)
     \<and> (case js_number h (Some (nullish (map_of auth ''expiresAtTs'') (JNum 0))) of
          None \<Rightarrow> False
        | Some ts \<Rightarrow> now div 1000 < ts \<and> ts \<le> l_expiresAt lease div 1000)"

definition attach_tx ::
  "host \<Rightarrow> int \<Rightarrow> string \<Rightarrow> string \<Rightarrow> int \<Rightarrow> obj \<Rightarrow> work collection \<Rightarrow> (work \<times> work collection) result" where
  "attach_tx h now i owner expectedVersion auth db =
     (case map_of db i of
        None \<Rightarrow> Inl ''WORK_NOT_FOUND''
      | Some current \<Rightarrow>
          (case w_crankerLease current of
             None \<Rightarrow> Inl ''LEASE_INVALID''
           | Some lease \<Rightarrow>
               and_then (require (w_status current = CRANKER_LEASED \<and> l_owner lease = owner) ''LEASE_INVALID'') (\<lambda>_.
               and_then (require (w_stateVersion current = expectedVersion) ''STALE_STATE_VERSION'') (\<lambda>_.
               and_then (require (now < l_expiresAt lease) ''LEASE_EXPIRED'') (\<lambda>_.
               and_then (require (authorization_matches h now current lease auth) ''LEASE_AUTHORIZATION_MISMATCH'') (\<lambda>_.
               (let w = current\<lparr>w_authorization := Some auth, w_stateVersion := w_stateVersion current + 1, w_updatedAt := now\<rparr>
                in Inr (w, work_update i w db))))))))"

definition attachCrankerAuthorization ::
  "host \<Rightarrow> int \<Rightarrow> string \<Rightarrow> string \<Rightarrow> int \<Rightarrow> obj \<Rightarrow> receiver \<Rightarrow> work result \<times> receiver" where
  "attachCrankerAuthorization h now i owner expectedVersion auth st =
     (case attach_tx h now i owner expectedVersion auth (works st) of
        Inl e \<Rightarrow> (Inl e, st)
      | Inr (w, db) \<Rightarrow> (Inr w, st\<lparr>works := db\<rparr>))"

section \<open>Leasing\<close>

datatype actor = Node | Cranker

fun ready_status :: "actor \<Rightarrow> work_status" where
  "ready_status Node = RECEIVED"
| "ready_status Cranker = VERIFIED"

fun leased_status :: "actor \<Rightarrow> work_status" where
  "leased_status Node = NODE_VERIFYING"
| "leased_status Cranker = CRANKER_LEASED"

fun actor_lease :: "actor \<Rightarrow> work \<Rightarrow> lease_info option" where
  "actor_lease Node w = w_nodeLease w"
| "actor_lease Cranker w = w_crankerLease w"

fun set_lease :: "actor \<Rightarrow> lease_info option \<Rightarrow> work \<Rightarrow> work" where
  "set_lease Node l w = w\<lparr>w_nodeLease := l\<rparr>"
| "set_lease Cranker l w = w\<lparr>w_crankerLease := l\<rparr>"

definition LEASE_MS :: int where
  "LEASE_MS = 60000"

definition requeue_tx :: "actor \<Rightarrow> int \<Rightarrow> string \<Rightarrow> work collection \<Rightarrow> work collection" where
  "requeue_tx a now i db =
     (case map_of db i of
        None \<Rightarrow> db
      | Some current \<Rightarrow>
          if w_status current \<noteq> leased_status a then db
          else (case actor_lease a current of
                  Some l \<Rightarrow> if now < l_expiresAt l then db else
                    work_update i (current\<lparr>w_status := ready_status a, w_stateVersion := w_stateVersion current + 1,
                      w_updatedAt := now, w_nodeLease := None, w_crankerLease := None\<rparr>) db
                | None \<Rightarrow>
                    work_update i (current\<lparr>w_status := ready_status a, w_stateVersion := w_stateVersion current + 1,
                      w_updatedAt := now, w_nodeLease := None, w_crankerLease := None\<rparr>) db))"

text \<open>The loop over the snapshot of abandoned leases; a record without a lease is passed over.\<close>

fun requeue_all :: "actor \<Rightarrow> int \<Rightarrow> (string \<times> work) list \<Rightarrow> work collection \<Rightarrow> work collection" where
  "requeue_all a now [] db = db"
| "requeue_all a now ((i, w) # ws) db =
     (case actor_lease a w of
        None \<Rightarrow> requeue_all a now ws db
      | Some l \<Rightarrow> requeue_all a now ws (if now < l_expiresAt l then db else requeue_tx a now i db))"

definition status_snapshot :: "work_status \<Rightarrow> work collection \<Rightarrow> (string \<times> work) list" where
  "status_snapshot s db = limit_rows (Some 50) (filter (\<lambda>(i, w). w_status w = s) db)"

definition funding_confirmed :: "string \<Rightarrow> work collection \<Rightarrow> bool" where
  "funding_confirmed i db =
     (case map_of db i of None \<Rightarrow> False | Some f \<Rightarrow> w_kind f = AUTHORIZED_FUNDING \<and> w_status f = CONFIRMED)"

text \<open>The conditions under which the loop goes on to the next candidate.\<close>

fun settlement_gate :: "actor \<Rightarrow> work \<Rightarrow> work collection \<Rightarrow> bool" where
  "settlement_gate Cranker w db =
     (w_kind w = SETTLEMENT \<and> truthy (map_of (w_payload w) ''intentId'') \<longrightarrow>
        funding_confirmed (js_text (map_of (w_payload w) ''intentId'')) db)"
| "settlement_gate Node w db =
     (w_kind w = SETTLEMENT \<longrightarrow>
        str_or_empty (map_of (w_payload w) ''intentId'') \<noteq> [] \<and>
        funding_confirmed (str_or_empty (map_of (w_payload w) ''intentId'')) db)"

definition eligible :: "actor \<Rightarrow> work_kind list option \<Rightarrow> work \<Rightarrow> work collection \<Rightarrow> bool" where
  "eligible a kinds w db \<longleftrightarrow>
     (case kinds of None \<Rightarrow> True | Some ks \<Rightarrow> ks = [] \<or> w_kind w \<in> set ks) \<and> settlement_gate a w db"

definition lease_tx :: "actor \<Rightarrow> string \<Rightarrow> int \<Rightarrow> string \<Rightarrow> work collection \<Rightarrow> (work \<times> work collection) option" where
  "lease_tx a owner now i db =
     (case map_of db i of
        None \<Rightarrow> None
      | Some current \<Rightarrow>
          if w_status current \<noteq> ready_status a then None
          else (let w = set_lease a (Some \<lparr>l_owner = owner, l_expiresAt = now + LEASE_MS, l_leaseId = Some i,
                                          l_version = Some (w_stateVersion current + 1)\<rparr>)
                          (current\<lparr>w_status := leased_status a, w_stateVersion := w_stateVersion current + 1,
                             w_updatedAt := now\<rparr>)
                in Some (w, work_update i w db)))"

fun lease_first ::
  "actor \<Rightarrow> string \<Rightarrow> work_kind list option \<Rightarrow> int \<Rightarrow> (string \<times> work) list \<Rightarrow> work collection \<Rightarrow> (work \<times> work collection) option" where
  "lease_first a owner kinds now [] db = None"
| "lease_first a owner kinds now ((i, w) # ws) db =
     (if \<not> eligible a kinds w db then lease_first a owner kinds now ws db
      else (case lease_tx a owner now i db of
              Some r \<Rightarrow> Some r
            | None \<Rightarrow> lease_first a owner kinds now ws db))"

definition lease :: "actor \<Rightarrow> string \<Rightarrow> work_kind list option \<Rightarrow> int \<Rightarrow> receiver \<Rightarrow> work option \<times> receiver" where
  "lease a owner kinds now st =
     (let db = requeue_all a now (status_snapshot (leased_status a) (works st)) (works st);
          candidates = sort_by (\<lambda>x y. by_received (snd x) (snd y)) (status_snapshot (ready_status a) db)
      in (case lease_first a owner kinds now candidates db of
            None \<Rightarrow> (None, st\<lparr>works := db\<rparr>)
          | Some (w, db') \<Rightarrow> (Some w, st\<lparr>works := db'\<rparr>)))"

definition leaseForNode ::
  "host \<Rightarrow> environment \<Rightarrow> string \<Rightarrow> work_kind list option \<Rightarrow> int \<Rightarrow> receiver \<Rightarrow> work option result \<times> receiver" where
  "leaseForNode h env owner kinds now st =
     (case lease Node owner kinds now st of
        (None, st') \<Rightarrow> (Inr None, st')
      | (Some w, st') \<Rightarrow>
          ((if w_kind w = SETTLEMENT then getWorkForNode h env (w_id w) (works st')
            else if w_kind w \<noteq> AUTHORIZED_FUNDING then Inr (Some w)
            else (case map_of (w_payload w) ''nodeEncryptedPayload'' of
                    Some (JObj e) \<Rightarrow> and_then (open_envelope h env w) (\<lambda>x. Inr (Some x))
                  | Some (JArr e) \<Rightarrow> and_then (open_envelope h env w) (\<lambda>x. Inr (Some x))
                  | _ \<Rightarrow> Inl ''NODE_PAYLOAD_ENVELOPE_MISSING'')), st'))"

definition leaseForCranker :: "string \<Rightarrow> work_kind list option \<Rightarrow> int \<Rightarrow> receiver \<Rightarrow> work option \<times> receiver" where
  "leaseForCranker owner kinds now st = lease Cranker owner kinds now st"

section \<open>Reporting a result\<close>

definition result_signature :: "obj option \<Rightarrow> string" where
  "result_signature r = str_or_empty (map_of (obj_or_empty r) ''signature'')"

definition replayed_report :: "actor \<Rightarrow> work_status \<Rightarrow> obj option \<Rightarrow> work \<Rightarrow> bool" where
  "replayed_report a status evidence current \<longleftrightarrow>
     a = Cranker \<and> w_status current = status \<and> result_signature (w_result current) \<noteq> [] \<and>
     result_signature evidence \<noteq> [] \<and> result_signature (w_result current) = result_signature evidence"

fun allowed_reports :: "actor \<Rightarrow> work_status list" where
  "allowed_reports Node = [VERIFIED, REJECTED]"
| "allowed_reports Cranker = [SUBMITTED, CONFIRMED, FAILED]"

definition node_verification :: "host \<Rightarrow> work \<Rightarrow> work_status \<Rightarrow> obj option \<Rightarrow> obj" where
  "node_verification h current status evidence =
     (let ev = obj_or_empty evidence in
      if status = VERIFIED \<and> truthy (map_of ev ''verifiedPayload'')
      then (if w_kind current = AUTHORIZED_FUNDING
            then compactAuthorizedFundingVerification h (redactedPaymentPayload (w_payload current)) ev
            else compactVerificationPayload h (w_payload current) evidence)
      else ev)"

definition retained_payload :: "work \<Rightarrow> obj" where
  "retained_payload current =
     (if w_kind current = AUTHORIZED_FUNDING
      then redactedPaymentPayload (w_payload current) @
           (if truthy (map_of (w_payload current) ''nodeEncryptedPayload'')
            then [(''nodeEncryptedPayload'', the (map_of (w_payload current) ''nodeEncryptedPayload''))] else [])
      else w_payload current)"

fun report_patch :: "host \<Rightarrow> actor \<Rightarrow> int \<Rightarrow> work_status \<Rightarrow> obj option \<Rightarrow> work \<Rightarrow> work" where
  "report_patch h Node now status evidence current =
     current\<lparr>w_status := status, w_stateVersion := w_stateVersion current + 1, w_updatedAt := now,
       w_verification := Some (node_verification h current status evidence), w_nodeLease := None,
       w_payload := retained_payload current\<rparr>"
| "report_patch h Cranker now status evidence current =
     current\<lparr>w_status := status, w_stateVersion := w_stateVersion current + 1, w_updatedAt := now,
       w_result := Some (obj_or_empty evidence), w_crankerLease := None,
       w_verification := (if status = CONFIRMED \<and> w_kind current = AUTHORIZED_FUNDING
                          then Some (paymentReceiptVerification h current) else w_verification current),
       w_authorization := (if status = CONFIRMED \<and> w_kind current = SETTLEMENT then None else w_authorization current)\<rparr>"

definition transition_tx ::
  "host \<Rightarrow> environment \<Rightarrow> actor \<Rightarrow> int \<Rightarrow> string \<Rightarrow> string \<Rightarrow> int \<Rightarrow> work_status \<Rightarrow> obj option \<Rightarrow> work collection
   \<Rightarrow> ((work \<times> bool) \<times> work collection) result" where
  "transition_tx h env a now i owner expectedVersion status evidence db =
     (case map_of db i of
        None \<Rightarrow> Inl ''WORK_NOT_FOUND''
      | Some current \<Rightarrow>
          if replayed_report a status evidence current then Inr ((current, False), db)
          else (case actor_lease a current of
                  None \<Rightarrow> Inl ''LEASE_INVALID''
                | Some l \<Rightarrow>
                    and_then (require (l_owner l = owner \<and> now < l_expiresAt l) ''LEASE_INVALID'') (\<lambda>_.
                    and_then (require (w_stateVersion current = expectedVersion) ''STALE_STATE_VERSION'') (\<lambda>_.
                    and_then (if a = Node \<and> (status = VERIFIED \<or> status = REJECTED)
                              then assertNodeVerificationAttestation h env current owner expectedVersion status evidence
                              else Inr ()) (\<lambda>_.
                    and_then (require (status \<in> set (allowed_reports a)) ''INVALID_TRANSITION'') (\<lambda>_.
                    (let w = report_patch h a now status evidence current
                     in Inr ((w, a = Cranker \<and> w_kind current = AUTHORIZED_FUNDING \<and> status = CONFIRMED),
                             work_update i w db))))))))"

definition transition ::
  "host \<Rightarrow> environment \<Rightarrow> actor \<Rightarrow> int \<Rightarrow> string \<Rightarrow> string \<Rightarrow> int \<Rightarrow> work_status \<Rightarrow> obj option \<Rightarrow> receiver \<Rightarrow> work result \<times> receiver" where
  "transition h env a now i owner expectedVersion status evidence st =
     (case transition_tx h env a now i owner expectedVersion status evidence (works st) of
        Inl e \<Rightarrow> (Inl e, st)
      | Inr ((w, confirmed), db) \<Rightarrow>
          (Inr w, st\<lparr>works := db, sent := sent st
             @ (if a = Node \<and> status = VERIFIED then [WakeCranker ''VERIFIED''] else [])
             @ (if confirmed then [WakeNode ''AUTHORIZED_FUNDING''] else [])\<rparr>))"

section \<open>What each transaction does to a record\<close>

lemma work_update_lookup [store_simps]: "map_of (work_update i w db) j = (if j = i then Some w else map_of db j)"
  by (simp add: work_update_def docs.lookup_put)

lemma work_create_Inr:
  "work_create i w db = Inr db' \<longleftrightarrow> map_of db i = None \<and> db' = work_update i w db"
  by (auto simp: work_create_def work_update_def)

definition leases_ok :: "work \<Rightarrow> bool" where
  "leases_ok w \<longleftrightarrow> (w_nodeLease w \<noteq> None \<longleftrightarrow> w_status w = NODE_VERIFYING)
                 \<and> (w_crankerLease w \<noteq> None \<longleftrightarrow> w_status w = CRANKER_LEASED)"

definition status_edge :: "work_kind \<Rightarrow> work_status \<Rightarrow> work_status \<Rightarrow> bool" where
  "status_edge k s t \<longleftrightarrow>
     (s, t) \<in> set [(RECEIVED, NODE_VERIFYING), (NODE_VERIFYING, RECEIVED), (NODE_VERIFYING, VERIFIED),
                  (NODE_VERIFYING, REJECTED), (VERIFIED, CRANKER_LEASED), (CRANKER_LEASED, VERIFIED),
                  (CRANKER_LEASED, CRANKER_LEASED), (CRANKER_LEASED, SUBMITTED), (CRANKER_LEASED, CONFIRMED),
                  (CRANKER_LEASED, FAILED)]
     \<or> k = SETTLEMENT \<and> s = REJECTED \<and> t = RECEIVED"

text \<open>A record moves one edge, one version on, and keeps its identity.\<close>

definition advances :: "work \<Rightarrow> work \<Rightarrow> bool" where
  "advances w w' \<longleftrightarrow>
     w_id w' = w_id w \<and> w_kind w' = w_kind w \<and> w_payloadCommitment w' = w_payloadCommitment w
     \<and> w_receivedAt w' = w_receivedAt w \<and> w_stateVersion w' = w_stateVersion w + 1
     \<and> (w_kind w = AUTHORIZED_FUNDING \<or> w_payload w' = w_payload w)
     \<and> status_edge (w_kind w) (w_status w) (w_status w') \<and> leases_ok w'"

lemma transition_tx_Inr:
  assumes "transition_tx h env a now i owner ver status evidence db = Inr ((w, c), db')"
  shows "\<exists>cur. map_of db i = Some cur \<and>
    (w = cur \<and> db' = db \<and> \<not> c \<and> replayed_report a status evidence cur \<or>
     (\<exists>l. actor_lease a cur = Some l \<and> l_owner l = owner \<and> now < l_expiresAt l \<and> w_stateVersion cur = ver \<and>
        status \<in> set (allowed_reports a) \<and>
        (a = Node \<longrightarrow> assertNodeVerificationAttestation h env cur owner ver status evidence = Inr ()) \<and>
        w = report_patch h a now status evidence cur \<and> db' = work_update i w db))"
  using assms
  by (auto simp: transition_tx_def Let_def split: option.splits if_splits)

lemma report_patch_advances:
  assumes "leases_ok cur" "actor_lease a cur = Some l" "status \<in> set (allowed_reports a)"
  shows "advances cur (report_patch h a now status evidence cur)"
  using assms by (cases a) (auto simp: advances_def leases_ok_def status_edge_def retained_payload_def)

lemma retry_tx_Inr:
  assumes "retry_tx h now i ver by db = Inr (w, db')"
  shows "\<exists>cur f. map_of db i = Some cur \<and> map_of db (str_or_empty (map_of (w_payload cur) ''intentId'')) = Some f \<and>
           snapshotRetryPatch h now cur f ver by = Inr w \<and> db' = work_update i w db"
  using assms by (auto simp: retry_tx_def Let_def split: option.splits if_splits)

lemma snapshotRetryPatch_Inr:
  assumes "snapshotRetryPatch h now cur f ver by = Inr w"
  shows "w_kind cur = SETTLEMENT" "w_status cur = REJECTED" "w_stateVersion cur = ver"
    "w_nodeLease cur = None" "w_crankerLease cur = None" "w_authorization cur = None"
    "w_kind f = AUTHORIZED_FUNDING" "w_status f = CONFIRMED"
    "w_id cur = settlementId h (w_id f) (w_payloadCommitment f)"
    "map_of (w_payload cur) ''intentId'' = Some (JStr (w_id f))"
    "w_status w = RECEIVED" "advances cur w" "w_verification w = None"
    "\<exists>e. w_retryHistory w = w_retryHistory cur @ [e] \<and> rejection e = w_verification cur \<and>
         rejectedStateVersion e = w_stateVersion cur \<and> fundingWorkId e = w_id f"
  using assms by (auto simp: snapshotRetryPatch_def advances_def status_edge_def leases_ok_def)

lemma attach_tx_Inr:
  assumes "attach_tx h now i owner ver auth db = Inr (w, db')"
  shows "\<exists>cur l. map_of db i = Some cur \<and> w_crankerLease cur = Some l \<and> w_status cur = CRANKER_LEASED \<and> l_owner l = owner \<and>
           w_stateVersion cur = ver \<and> now < l_expiresAt l \<and> authorization_matches h now cur l auth \<and>
           w = cur\<lparr>w_authorization := Some auth, w_stateVersion := ver + 1, w_updatedAt := now\<rparr> \<and>
           db' = work_update i w db"
  using assms by (auto simp: attach_tx_def Let_def split: option.splits)

lemma attach_advances:
  assumes "leases_ok cur" "w_status cur = CRANKER_LEASED"
  shows "advances cur (cur\<lparr>w_authorization := x, w_stateVersion := w_stateVersion cur + 1, w_updatedAt := now\<rparr>)"
  using assms by (simp add: advances_def leases_ok_def status_edge_def)

lemma lease_tx_Some:
  assumes "lease_tx a owner now i db = Some (w, db')"
  shows "\<exists>cur. map_of db i = Some cur \<and> w_status cur = ready_status a \<and>
     w = set_lease a (Some \<lparr>l_owner = owner, l_expiresAt = now + LEASE_MS, l_leaseId = Some i,
                            l_version = Some (w_stateVersion cur + 1)\<rparr>)
           (cur\<lparr>w_status := leased_status a, w_stateVersion := w_stateVersion cur + 1, w_updatedAt := now\<rparr>) \<and>
     db' = work_update i w db"
  using assms by (auto simp: lease_tx_def Let_def split: option.splits if_splits)

lemma lease_advances:
  assumes "leases_ok cur" "w_status cur = ready_status a"
  shows "advances cur (set_lease a (Some l)
           (cur\<lparr>w_status := leased_status a, w_stateVersion := w_stateVersion cur + 1, w_updatedAt := now\<rparr>))"
  using assms by (cases a) (auto simp: advances_def leases_ok_def status_edge_def)

definition requeued :: "actor \<Rightarrow> int \<Rightarrow> work \<Rightarrow> work" where
  "requeued a now cur = cur\<lparr>w_status := ready_status a, w_stateVersion := w_stateVersion cur + 1,
     w_updatedAt := now, w_nodeLease := None, w_crankerLease := None\<rparr>"

lemma requeue_tx_cases:
  "requeue_tx a now i db = db \<or>
   (\<exists>cur. map_of db i = Some cur \<and> w_status cur = leased_status a \<and>
      (\<forall>l. actor_lease a cur = Some l \<longrightarrow> l_expiresAt l \<le> now) \<and>
      requeue_tx a now i db = work_update i (requeued a now cur) db)"
  by (auto simp: requeue_tx_def requeued_def split: option.splits)

lemma requeued_advances: "w_status cur = leased_status a \<Longrightarrow> advances cur (requeued a now cur)"
  by (cases a) (auto simp: advances_def requeued_def leases_ok_def status_edge_def)

section \<open>Receiving\<close>

definition fresh_work :: "work \<Rightarrow> bool" where
  "fresh_work w \<longleftrightarrow> w_status w = RECEIVED \<and> w_stateVersion w = 1 \<and> w_nodeLease w = None \<and> w_crankerLease w = None
     \<and> w_verification w = None \<and> w_result w = None \<and> w_authorization w = None \<and> w_retryHistory w = []"

lemma createReceivedWork_Inr:
  assumes "createReceivedWork h now uuid id' kind p c = Inr w"
  shows "fresh_work w" "w_kind w = kind" "w_payload w = p" "w_receivedAt w = now" "w_updatedAt w = now"
    "w_payloadCommitment w = (case c of None \<Rightarrow> payloadCommitment h (JObj p) | Some x \<Rightarrow> x)"
    "w_id w = (case id' of None \<Rightarrow> uuid | Some s \<Rightarrow> if js_trim s = [] then uuid else js_trim s)"
    "fst ` set p \<subseteq> set (INTERNAL_KEYS kind)"
  using assms by (auto simp: createReceivedWork_def fresh_work_def assertDurablePayload_def)

lemma fresh_leases_ok: "fresh_work w \<Longrightarrow> leases_ok w"
  by (simp add: fresh_work_def leases_ok_def)

lemma settlementId_trim:
  assumes "hash_law h"
  shows "js_trim (settlementId h a b) = settlementId h a b"
proof -
  let ?t = "take 32 (sha256_hex h (a @ '':'' @ b))"
  have "list_all is_lower_hex (sha256_hex h (a @ '':'' @ b))"
    using to_hex_lower_hex hash_lawD(1) [OF assms] by (simp add: sha256_hex_def)
  then have hex: "list_all is_lower_hex ?t" by (auto simp: list_all_iff dest: in_set_takeD)
  have "?t \<noteq> []" using hash_lawD(2) [OF assms] by (simp add: sha256_hex_def flip: length_0_conv)
  with hex have "is_lower_hex (last ?t)" by (auto simp: list_all_iff)
  then have "\<not> is_space (last ?t)" by (auto simp: is_lower_hex_def is_digit_def is_space_def)
  then show ?thesis
    using \<open>?t \<noteq> []\<close> unfolding settlementId_def by (intro js_trim_id) (auto simp: is_space_def)
qed

lemma settlementId_nonempty [simp]: "settlementId h a b \<noteq> []"
  by (simp add: settlementId_def)

lemma settlement_work_Inr:
  assumes "settlement_work h now f (settlementId h a b) = Inr w" "hash_law h"
  shows "fresh_work w" "w_kind w = SETTLEMENT" "w_id w = settlementId h a b"
    "map_of (w_payload w) ''intentId'' = Some (JStr (w_id f))"
    "w_payloadCommitment w = payloadCommitment h (JObj (w_payload w))"
  using createReceivedWork_Inr [OF assms(1) [unfolded settlement_work_def]] settlementId_trim [OF assms(2)]
  by auto

lemma settlement_work_total: "\<exists>w. settlement_work h now f sid = Inr w"
  by (simp add: settlement_work_def createReceivedWork_def assertDurablePayload_def)

lemma prepare_received_Inr:
  assumes "prepare_received h env now uuid iv id' kind p = Inr (wk, sid)"
  shows "fresh_work wk" "w_kind wk = kind" "kind \<noteq> SETTLEMENT" "w_payloadCommitment wk = payloadCommitment h (JObj p)"
    "kind = AUTHORIZED_FUNDING \<longrightarrow> assertAuthorizedFundingIngress h p = Inr () \<and>
       (\<exists>e. encryptPayloadForNode h env iv p = Inr e \<and> w_payload wk = durable_funding_payload p e)"
    "sid = (if kind = AUTHORIZED_FUNDING then Some (settlementId h (w_id wk) (w_payloadCommitment wk)) else None)"
    "uuid \<noteq> [] \<Longrightarrow> w_id wk \<noteq> []"
  using assms
  by (auto simp: prepare_received_def assertExternalWorkKind_def createReceivedWork_Inr split: if_splits option.splits)

lemma receive_tx_Inr:
  assumes "receive_tx h now wk sid db = Inr ((w, created), db')"
  shows "(\<exists>cur. map_of db (w_id wk) = Some cur \<and> w = cur \<and> \<not> created \<and>
            w_payloadCommitment cur = w_payloadCommitment wk \<and> w_kind cur = w_kind wk \<and>
            (db' = db \<and> (\<forall>s. sid = Some s \<longrightarrow> map_of db s \<noteq> None) \<or>
             (\<exists>s sw. sid = Some s \<and> map_of db s = None \<and> settlement_work h now cur s = Inr sw \<and> db' = work_update s sw db)))
       \<or> (map_of db (w_id wk) = None \<and> w = wk \<and> created \<and>
            (sid = None \<and> db' = work_update (w_id wk) wk db \<or>
             (\<exists>s sw. sid = Some s \<and> s \<noteq> w_id wk \<and> map_of db s = None \<and> settlement_work h now wk s = Inr sw \<and>
                db' = work_update s sw (work_update (w_id wk) wk db))))"
  using assms
  by (auto simp: receive_tx_def work_create_Inr work_update_lookup split: option.splits if_splits)

end
