(* ===== verification/Receiver_Protocol.thy ===== *)
theory Receiver_Protocol
  imports Receiver_Store
begin

text \<open>
  The Receiver as a concurrent system. Requests run interleaved; each \<open>runTransaction\<close> of
  \<open>store.ts\<close> is one atomic step, and the reads that \<open>lease\<close> makes outside its transaction (the
  snapshot of candidates, then the check that the funding of a settlement is confirmed) are steps
  of their own, so that anything may happen between a check and the transaction that relies on it.
  The results hold in every state reachable from the empty store.
\<close>

section \<open>The step relation\<close>

record net =
  n_db :: "work collection"
  n_clock :: int
  n_snap :: "(actor \<times> string \<times> work) set"
  n_checked :: "(actor \<times> string) set"

inductive net_step :: "host \<Rightarrow> environment \<Rightarrow> net \<Rightarrow> net \<Rightarrow> bool" for h :: host and env :: environment where
  tick: "n_clock s \<le> t \<Longrightarrow> net_step h env s (s\<lparr>n_clock := t\<rparr>)"
| receive: "prepare_received h env t uuid iv id' kind p = Inr (wk, sid) \<Longrightarrow> uuid \<noteq> [] \<Longrightarrow>
    receive_tx h (n_clock s) wk sid (n_db s) = Inr (r, db) \<Longrightarrow> net_step h env s (s\<lparr>n_db := db\<rparr>)"
| snapshot: "map_of (n_db s) i = Some w \<Longrightarrow> net_step h env s (s\<lparr>n_snap := insert (a, i, w) (n_snap s)\<rparr>)"
| check: "(a, i, w) \<in> n_snap s \<Longrightarrow> eligible a kinds w (n_db s) \<Longrightarrow>
    net_step h env s (s\<lparr>n_checked := insert (a, i) (n_checked s)\<rparr>)"
| take_lease: "(a, i) \<in> n_checked s \<Longrightarrow> lease_tx a owner (n_clock s) i (n_db s) = Some (w, db) \<Longrightarrow>
    net_step h env s (s\<lparr>n_db := db\<rparr>)"
| requeue: "net_step h env s (s\<lparr>n_db := requeue_tx a (n_clock s) i (n_db s)\<rparr>)"
| attach: "attach_tx h (n_clock s) i owner ver auth (n_db s) = Inr (w, db) \<Longrightarrow> net_step h env s (s\<lparr>n_db := db\<rparr>)"
| report: "transition_tx h env a (n_clock s) i owner ver status evidence (n_db s) = Inr (r, db) \<Longrightarrow>
    net_step h env s (s\<lparr>n_db := db\<rparr>)"
| retry: "retry_tx h (n_clock s) i ver by (n_db s) = Inr (w, db) \<Longrightarrow> net_step h env s (s\<lparr>n_db := db\<rparr>)"

definition net_init :: net where
  "net_init = \<lparr>n_db = [], n_clock = 0, n_snap = {}, n_checked = {}\<rparr>"

abbreviation reachable :: "host \<Rightarrow> environment \<Rightarrow> net \<Rightarrow> bool" where
  "reachable h env s \<equiv> (net_step h env)\<^sup>*\<^sup>* net_init s"

section \<open>The invariant\<close>

text \<open>A settlement points at the funding it was created for; once it has left RECEIVED, that
  funding is confirmed.\<close>

definition linked :: "host \<Rightarrow> work collection \<Rightarrow> work \<Rightarrow> bool" where
  "linked h db w \<longleftrightarrow> (\<exists>f. map_of db (w_id f) = Some f \<and> w_id f \<noteq> [] \<and> w_kind f = AUTHORIZED_FUNDING \<and>
     map_of (w_payload w) ''intentId'' = Some (JStr (w_id f)) \<and>
     w_id w = settlementId h (w_id f) (w_payloadCommitment f) \<and>
     (w_status w \<noteq> RECEIVED \<longrightarrow> w_status f = CONFIRMED))"

definition past_verification :: "work_status \<Rightarrow> bool" where
  "past_verification s \<longleftrightarrow> s \<in> {VERIFIED, CRANKER_LEASED, SUBMITTED, CONFIRMED, FAILED}"

definition attested :: "host \<Rightarrow> environment \<Rightarrow> work \<Rightarrow> bool" where
  "attested h env w \<longleftrightarrow> (\<exists>wk owner ver ev.
     assertNodeVerificationAttestation h env wk owner ver VERIFIED (Some ev) = Inr () \<and>
     w_id wk = w_id w \<and> w_kind wk = w_kind w \<and> w_payloadCommitment wk = w_payloadCommitment w)"

definition good_record :: "host \<Rightarrow> environment \<Rightarrow> work collection \<Rightarrow> string \<Rightarrow> work \<Rightarrow> bool" where
  "good_record h env db i w \<longleftrightarrow> w_id w = i \<and> i \<noteq> [] \<and> 1 \<le> w_stateVersion w \<and> leases_ok w \<and>
     (w_kind w = SETTLEMENT \<longrightarrow> linked h db w) \<and> (past_verification (w_status w) \<longrightarrow> attested h env w)"

definition good :: "host \<Rightarrow> environment \<Rightarrow> work collection \<Rightarrow> bool" where
  "good h env db \<longleftrightarrow> (\<forall>i w. map_of db i = Some w \<longrightarrow> good_record h env db i w)"

lemma goodD: "good h env db \<Longrightarrow> map_of db i = Some w \<Longrightarrow> good_record h env db i w"
  by (simp add: good_def)

definition same_task :: "work \<Rightarrow> work \<Rightarrow> bool" where
  "same_task w w' \<longleftrightarrow> w_kind w' = w_kind w \<and> (w_kind w \<noteq> AUTHORIZED_FUNDING \<longrightarrow> w_payload w' = w_payload w)"

definition snap_ok :: "work collection \<Rightarrow> actor \<times> string \<times> work \<Rightarrow> bool" where
  "snap_ok db x = (case x of (a, i, w) \<Rightarrow> \<exists>w'. map_of db i = Some w' \<and> same_task w w')"

definition checked_ok :: "work collection \<Rightarrow> actor \<times> string \<Rightarrow> bool" where
  "checked_ok db x = (case x of (a, i) \<Rightarrow> \<exists>w. map_of db i = Some w \<and>
     (w_kind w = SETTLEMENT \<longrightarrow> funding_confirmed (str_or_empty (map_of (w_payload w) ''intentId'')) db))"

definition net_inv :: "host \<Rightarrow> environment \<Rightarrow> net \<Rightarrow> bool" where
  "net_inv h env s \<longleftrightarrow> good h env (n_db s) \<and> (\<forall>x \<in> n_snap s. snap_ok (n_db s) x) \<and> (\<forall>x \<in> n_checked s. checked_ok (n_db s) x)"

text \<open>How a step may change the collection: records are never dropped and move by \<open>advances\<close>.\<close>

definition evolves :: "work collection \<Rightarrow> work collection \<Rightarrow> bool" where
  "evolves db db' \<longleftrightarrow> (\<forall>i w. map_of db i = Some w \<longrightarrow>
     (\<exists>w'. map_of db' i = Some w' \<and> (w' = w \<or> advances w w')))"

lemma evolves_refl: "evolves db db"
  by (auto simp: evolves_def)

lemma evolves_advance: "map_of db i = Some cur \<Longrightarrow> advances cur w \<Longrightarrow> evolves db (work_update i w db)"
  by (auto simp: evolves_def work_update_lookup)

lemma evolves_create: "map_of db i = None \<Longrightarrow> evolves db (work_update i w db)"
  by (auto simp: evolves_def work_update_lookup)

lemma confirmed_final: "advances w w' \<Longrightarrow> w_status w \<noteq> CONFIRMED"
  by (auto simp: advances_def status_edge_def)

lemma evolves_confirmed:
  assumes "evolves db db'" "map_of db i = Some f" "w_status f = CONFIRMED"
  shows "map_of db' i = Some f"
  using assms confirmed_final unfolding evolves_def by blast

lemma evolves_same_task: "evolves db db' \<Longrightarrow> snap_ok db x \<Longrightarrow> snap_ok db' x"
  unfolding snap_ok_def evolves_def same_task_def advances_def by (cases x) (fastforce split: prod.splits)

lemma evolves_funding_confirmed: "evolves db db' \<Longrightarrow> funding_confirmed i db \<Longrightarrow> funding_confirmed i db'"
  by (auto simp: funding_confirmed_def split: option.splits dest: evolves_confirmed)

lemma evolves_checked:
  assumes "evolves db db'" "checked_ok db x"
  shows "checked_ok db' x"
proof -
  obtain a i where x: "x = (a, i)" by (cases x)
  with assms(2) obtain w where w: "map_of db i = Some w"
    "w_kind w = SETTLEMENT \<longrightarrow> funding_confirmed (str_or_empty (map_of (w_payload w) ''intentId'')) db"
    by (auto simp: checked_ok_def)
  with assms(1) obtain w' where "map_of db' i = Some w'" "w' = w \<or> advances w w'" by (auto simp: evolves_def)
  with w evolves_funding_confirmed [OF assms(1)] show ?thesis by (auto simp: checked_ok_def x advances_def)
qed

lemma evolves_linked:
  assumes ev: "evolves db db'" and w: "linked h db w"
    and "w_id w' = w_id w" "w_payload w' = w_payload w"
    and confirmed: "w_status w' \<noteq> RECEIVED \<Longrightarrow>
      w_status w \<noteq> RECEIVED \<or> funding_confirmed (str_or_empty (map_of (w_payload w) ''intentId'')) db"
  shows "linked h db' w'"
proof -
  from w obtain f where f: "map_of db (w_id f) = Some f" "w_id f \<noteq> []" "w_kind f = AUTHORIZED_FUNDING"
      "map_of (w_payload w) ''intentId'' = Some (JStr (w_id f))"
      "w_id w = settlementId h (w_id f) (w_payloadCommitment f)" "w_status w \<noteq> RECEIVED \<longrightarrow> w_status f = CONFIRMED"
    by (auto simp: linked_def)
  from ev f(1) obtain f' where f': "map_of db' (w_id f) = Some f'" "f' = f \<or> advances f f'" by (auto simp: evolves_def)
  then have same: "w_id f' = w_id f" "w_kind f' = w_kind f" "w_payloadCommitment f' = w_payloadCommitment f"
    by (auto simp: advances_def)
  have "w_status f = CONFIRMED" if "w_status w' \<noteq> RECEIVED"
    using confirmed [OF that] f(1,4,6) by (auto simp: funding_confirmed_def)
  then have "w_status f' = CONFIRMED" if "w_status w' \<noteq> RECEIVED"
    using that evolves_confirmed [OF ev f(1)] f'(1) by auto
  with f f' same assms(3,4) show ?thesis unfolding linked_def by (intro exI [of _ f']) simp
qed

text \<open>One record advances: the invariant survives when a settlement only leaves RECEIVED with its
  funding confirmed, and verification is only reached with an attestation.\<close>

lemma good_advance:
  assumes good: "good h env db" and cur: "map_of db i = Some cur" and adv: "advances cur w"
    and funding: "w_kind cur = SETTLEMENT \<Longrightarrow> w_status cur = RECEIVED \<Longrightarrow>
      funding_confirmed (str_or_empty (map_of (w_payload cur) ''intentId'')) db"
    and att: "past_verification (w_status w) \<Longrightarrow> \<not> past_verification (w_status cur) \<Longrightarrow> attested h env w"
  shows "good h env (work_update i w db)"
  unfolding good_def
proof (intro allI impI)
  let ?db = "work_update i w db"
  have ev: "evolves db ?db" using cur adv by (rule evolves_advance)
  fix j x assume x: "map_of ?db j = Some x"
  show "good_record h env ?db j x"
  proof (cases "j = i")
    case True
    then have xw: "x = w" using x by (simp add: work_update_lookup)
    have gc: "good_record h env db i cur" using good cur by (simp add: good_def)
    have "linked h ?db w" if "w_kind w = SETTLEMENT"
    proof (rule evolves_linked [OF ev, of h cur])
      show "linked h db cur" using gc that adv by (simp add: good_record_def advances_def)
    qed (use adv that funding in \<open>auto simp: advances_def\<close>)
    moreover have "attested h env w" if "past_verification (w_status w)"
    proof (cases "past_verification (w_status cur)")
      case True
      with gc have "attested h env cur" by (simp add: good_record_def)
      with adv show ?thesis by (simp add: attested_def advances_def)
    qed (use att that in blast)
    ultimately show ?thesis using gc adv True xw by (simp add: good_record_def advances_def)
  next
    case False
    then have "map_of db j = Some x" using x by (simp add: work_update_lookup)
    then have gx: "good_record h env db j x" using good by (simp add: good_def)
    then have "linked h ?db x" if "w_kind x = SETTLEMENT"
      using evolves_linked [OF ev, of h x x] that by (auto simp: good_record_def)
    with gx show ?thesis by (simp add: good_record_def)
  qed
qed

lemma good_create:
  assumes good: "good h env db" and new: "map_of db i = None" and w: "fresh_work w" "w_id w = i" "i \<noteq> []"
    and settlement: "w_kind w = SETTLEMENT \<Longrightarrow> linked h (work_update i w db) w"
  shows "good h env (work_update i w db)"
  unfolding good_def
proof (intro allI impI)
  fix j x assume x: "map_of (work_update i w db) j = Some x"
  show "good_record h env (work_update i w db) j x"
  proof (cases "j = i")
    case True
    with x w settlement show ?thesis
      by (auto simp: work_update_lookup good_record_def fresh_leases_ok) (auto simp: fresh_work_def past_verification_def)
  next
    case False
    then have "good_record h env db j x" using x good by (simp add: work_update_lookup good_def)
    then show ?thesis
      using evolves_linked [OF evolves_create [OF new], of h x x] by (auto simp: good_record_def)
  qed
qed

text \<open>Creating the settlement of a funding record that is in the store.\<close>

lemma good_create_settlement:
  assumes "good h env db" "hash_law h" "map_of db (w_id f) = Some f" "w_kind f = AUTHORIZED_FUNDING"
    and sid: "sid = settlementId h (w_id f) (w_payloadCommitment f)" and "map_of db sid = None"
    and sw: "settlement_work h now f sid = Inr sw"
  shows "good h env (work_update sid sw db)"
proof (rule good_create)
  have f: "w_id f \<noteq> []" using goodD [OF assms(1,3)] by (simp add: good_record_def)
  note facts = settlement_work_Inr [OF sw [unfolded sid] assms(2)]
  show "w_kind sw = SETTLEMENT \<Longrightarrow> linked h (work_update sid sw db) sw"
    unfolding linked_def using facts(1,3,4) assms(3,4,6) f sid
    by (intro exI [of _ f]) (simp add: work_update_lookup fresh_work_def, metis option.distinct(1))
  show "fresh_work sw" "w_id sw = sid" using facts(1,3) sid by simp_all
  show "sid \<noteq> []" using sid by simp
qed (use assms(1,6) in simp_all)

lemma receive_preserves:
  assumes "good h env db" "hash_law h" "prepare_received h env t uuid iv id' kind p = Inr (wk, sid)" "uuid \<noteq> []"
    and "receive_tx h now wk sid db = Inr ((w, created), db')"
  shows "good h env db' \<and> evolves db db'"
proof -
  note wk = prepare_received_Inr [OF assms(3)]
  from receive_tx_Inr [OF assms(5)] show ?thesis
  proof (elim disjE exE conjE)
    fix cur s sw
    assume cur: "map_of db (w_id wk) = Some cur" "w_payloadCommitment cur = w_payloadCommitment wk" "w_kind cur = w_kind wk"
      and s: "sid = Some s" "map_of db s = None" "settlement_work h now cur s = Inr sw" "db' = work_update s sw db"
    have id: "w_id cur = w_id wk" using goodD [OF assms(1) cur(1)] by (simp add: good_record_def)
    have "kind = AUTHORIZED_FUNDING" "s = settlementId h (w_id cur) (w_payloadCommitment cur)"
      using wk(6) s(1) cur(2) id by (auto split: if_splits)
    with cur s(2,3) id wk(2) assms(1,2) have "good h env (work_update s sw db)"
      by (intro good_create_settlement [of _ _ _ cur]) simp_all
    with evolves_create [OF s(2)] s(4) show ?thesis by simp
  next
    assume "map_of db (w_id wk) = None" "sid = None" "db' = work_update (w_id wk) wk db"
    with wk assms(1,4) show ?thesis by (auto intro!: good_create evolves_create)
  next
    fix s sw
    assume new: "map_of db (w_id wk) = None"
      and s: "sid = Some s" "s \<noteq> w_id wk" "map_of db s = None" "settlement_work h now wk s = Inr sw"
        "db' = work_update s sw (work_update (w_id wk) wk db)"
    let ?db = "work_update (w_id wk) wk db"
    have af: "kind = AUTHORIZED_FUNDING" "s = settlementId h (w_id wk) (w_payloadCommitment wk)"
      using wk(6) s(1) by (auto split: if_splits)
    have g: "good h env ?db" using new wk assms(1,4) by (auto intro!: good_create)
    have "good h env db'"
      unfolding s(5) by (rule good_create_settlement [of h env ?db wk s now sw])
        (use g assms(2) wk(2) af s in \<open>simp_all add: work_update_lookup\<close>)
    moreover have "evolves db db'"
      unfolding s(5) using new s(2,3) by (auto simp: evolves_def work_update_lookup)
    ultimately show ?thesis ..
  qed (use assms(1) evolves_refl in auto)
qed

section \<open>Every step keeps the invariant\<close>

lemma transition_preserves:
  assumes good: "good h env db" and tx: "transition_tx h env a now i owner ver status evidence db = Inr ((w, c), db')"
  shows "good h env db' \<and> evolves db db'"
proof -
  from transition_tx_Inr [OF tx] obtain cur where cur: "map_of db i = Some cur" and
    "w = cur \<and> db' = db \<or> (\<exists>l. actor_lease a cur = Some l \<and> status \<in> set (allowed_reports a) \<and>
        (a = Node \<longrightarrow> assertNodeVerificationAttestation h env cur owner ver status evidence = Inr ()) \<and>
        w = report_patch h a now status evidence cur \<and> db' = work_update i w db)"
    by blast
  then show ?thesis
  proof (elim disjE exE conjE)
    fix l
    assume l: "actor_lease a cur = Some l" "status \<in> set (allowed_reports a)"
      and att: "a = Node \<longrightarrow> assertNodeVerificationAttestation h env cur owner ver status evidence = Inr ()"
      and w: "w = report_patch h a now status evidence cur" "db' = work_update i w db"
    have ok: "leases_ok cur" using goodD [OF good cur] by (simp add: good_record_def)
    have adv: "advances cur w" unfolding w(1) using ok l by (rule report_patch_advances)
    have left: "w_status cur = leased_status a" using ok l(1) by (cases a) (auto simp: leases_ok_def)
    have "good h env db'" unfolding w(2)
    proof (rule good_advance [OF good cur adv])
      assume "past_verification (w_status w)" "\<not> past_verification (w_status cur)"
      with left l w(1) have "a = Node" "status = VERIFIED"
        by (cases a; auto simp: past_verification_def)+
      moreover from this att obtain ev where "evidence = Some ev"
        by (cases evidence) (auto simp: assertNodeVerificationAttestation_def attestation_of_def)
      ultimately show "attested h env w"
        using att adv by (auto simp: attested_def advances_def)
    qed (use left in \<open>cases a; simp\<close>)
    with evolves_advance [OF cur adv] w(2) show ?thesis by simp
  qed (use good evolves_refl in auto)
qed

lemma retry_preserves:
  assumes good: "good h env db" and tx: "retry_tx h now i ver by db = Inr (w, db')"
  shows "good h env db' \<and> evolves db db'"
proof -
  from retry_tx_Inr [OF tx] obtain cur f where cur: "map_of db i = Some cur"
    and patch: "snapshotRetryPatch h now cur f ver by = Inr w" and db': "db' = work_update i w db" by blast
  note facts = snapshotRetryPatch_Inr [OF patch]
  have "good h env db'"
    unfolding db' by (rule good_advance [OF good cur facts(12)]) (use facts in \<open>simp_all add: past_verification_def\<close>)
  with evolves_advance [OF cur facts(12)] db' show ?thesis by simp
qed

lemma attach_preserves:
  assumes good: "good h env db" and tx: "attach_tx h now i owner ver auth db = Inr (w, db')"
  shows "good h env db' \<and> evolves db db'"
proof -
  from attach_tx_Inr [OF tx] obtain cur where cur: "map_of db i = Some cur" "w_status cur = CRANKER_LEASED"
      "w_stateVersion cur = ver"
    and w: "w = cur\<lparr>w_authorization := Some auth, w_stateVersion := ver + 1, w_updatedAt := now\<rparr>"
      "db' = work_update i w db" by blast
  have "leases_ok cur" using goodD [OF good cur(1)] by (simp add: good_record_def)
  with cur have adv: "advances cur w" unfolding w(1) using attach_advances by blast
  have "good h env db'"
    unfolding w(2) by (rule good_advance [OF good cur(1) adv]) (use cur w in \<open>simp_all add: past_verification_def\<close>)
  with evolves_advance [OF cur(1) adv] w(2) show ?thesis by simp
qed

lemma requeue_preserves:
  assumes good: "good h env db"
  shows "good h env (requeue_tx a now i db) \<and> evolves db (requeue_tx a now i db)"
proof -
  consider "requeue_tx a now i db = db"
    | cur where "map_of db i = Some cur" "w_status cur = leased_status a"
        "requeue_tx a now i db = work_update i (requeued a now cur) db"
    using requeue_tx_cases [of a now i db] by blast
  then show ?thesis
  proof cases
    case 2
    have adv: "advances cur (requeued a now cur)" using 2(2) by (rule requeued_advances)
    have "good h env (work_update i (requeued a now cur) db)"
      by (rule good_advance [OF good 2(1) adv])
        (use 2(2) in \<open>cases a; simp add: requeued_def past_verification_def\<close>)+
    with evolves_advance [OF 2(1) adv] 2(3) show ?thesis by simp
  qed (use good evolves_refl in simp)
qed

lemma lease_preserves:
  assumes good: "good h env db" and checked: "checked_ok db (a, i)" and tx: "lease_tx a owner now i db = Some (w, db')"
  shows "good h env db' \<and> evolves db db'"
proof -
  from lease_tx_Some [OF tx] obtain cur l where cur: "map_of db i = Some cur" "w_status cur = ready_status a"
    and w: "w = set_lease a (Some l) (cur\<lparr>w_status := leased_status a, w_stateVersion := w_stateVersion cur + 1, w_updatedAt := now\<rparr>)"
      "db' = work_update i w db" by blast
  have "leases_ok cur" using goodD [OF good cur(1)] by (simp add: good_record_def)
  then have adv: "advances cur w" unfolding w(1) using cur(2) by (rule lease_advances)
  have "good h env db'"
    unfolding w(2)
  proof (rule good_advance [OF good cur(1) adv])
    assume "w_kind cur = SETTLEMENT"
    with checked cur(1) show "funding_confirmed (str_or_empty (map_of (w_payload cur) ''intentId'')) db"
      by (auto simp: checked_ok_def)
  qed (use cur(2) w(1) in \<open>cases a; simp add: past_verification_def\<close>)
  with evolves_advance [OF cur(1) adv] w(2) show ?thesis by simp
qed

text \<open>A check on a snapshot stands for a check on the record itself: kind and funding reference of
  a settlement do not change.\<close>

lemma eligible_checked:
  assumes good: "good h env db" and snap: "snap_ok db (a, i, w)" and el: "eligible a kinds w db"
  shows "checked_ok db (a, i)"
proof -
  from snap obtain w' where w': "map_of db i = Some w'" "same_task w w'" by (auto simp: snap_ok_def)
  have "funding_confirmed (str_or_empty (map_of (w_payload w') ''intentId'')) db" if k: "w_kind w' = SETTLEMENT"
  proof -
    have "linked h db w'" using goodD [OF good w'(1)] k by (simp add: good_record_def)
    then have "\<exists>g. map_of (w_payload w') ''intentId'' = Some (JStr g) \<and> g \<noteq> []"
      unfolding linked_def by blast
    then obtain g where "map_of (w_payload w') ''intentId'' = Some (JStr g)" "g \<noteq> []" by blast
    moreover have "w_kind w = SETTLEMENT" "w_payload w' = w_payload w" using w'(2) k by (auto simp: same_task_def)
    ultimately show ?thesis using el by (cases a) (auto simp: eligible_def js_text_def)
  qed
  with w'(1) show ?thesis by (auto simp: checked_ok_def)
qed

lemma net_inv_db:
  assumes "net_inv h env s" "good h env db \<and> evolves (n_db s) db"
  shows "net_inv h env (s\<lparr>n_db := db\<rparr>)"
  using assms evolves_same_task evolves_checked by (auto simp: net_inv_def)

lemma net_inv_step:
  assumes "net_step h env s s'" "net_inv h env s" "hash_law h"
  shows "net_inv h env s' \<and> evolves (n_db s) (n_db s')"
  using assms(1)
proof cases
  case (receive t uuid iv id' kind p wk sid r db)
  then have "good h env db \<and> evolves (n_db s) db"
    using receive_preserves [of h env "n_db s"] assms(2,3) by (cases r) (auto simp: net_inv_def)
  with net_inv_db [OF assms(2)] receive show ?thesis by simp
next
  case (take_lease a i owner w db)
  then have "good h env db \<and> evolves (n_db s) db"
    using lease_preserves [of h env "n_db s" a i] assms(2) by (auto simp: net_inv_def)
  with net_inv_db [OF assms(2)] take_lease show ?thesis by simp
next
  case (requeue a i)
  then show ?thesis
    using net_inv_db [OF assms(2)] requeue_preserves [of h env "n_db s"] assms(2) by (simp add: net_inv_def)
next
  case (attach i owner ver auth w db)
  then have "good h env db \<and> evolves (n_db s) db"
    using attach_preserves assms(2) by (simp add: net_inv_def) blast
  with net_inv_db [OF assms(2)] attach show ?thesis by simp
next
  case (report a i owner ver status evidence r db)
  then have "good h env db \<and> evolves (n_db s) db"
    using transition_preserves [of h env "n_db s"] assms(2) by (cases r) (auto simp: net_inv_def)
  with net_inv_db [OF assms(2)] report show ?thesis by simp
next
  case (retry i ver "by" w db)
  then have "good h env db \<and> evolves (n_db s) db"
    using retry_preserves [of h env "n_db s" "n_clock s" i ver "by" w db] assms(2) by (simp add: net_inv_def)
  with net_inv_db [OF assms(2)] retry show ?thesis by simp
next
  case (snapshot i w a)
  then show ?thesis using assms(2) evolves_refl by (auto simp: net_inv_def snap_ok_def same_task_def)
next
  case (check a i w kinds)
  then have "checked_ok (n_db s) (a, i)"
    using eligible_checked [of h env "n_db s" a i w kinds] assms(2) by (auto simp: net_inv_def)
  with check assms(2) evolves_refl show ?thesis by (auto simp: net_inv_def)
qed (use assms(2) evolves_refl in \<open>auto simp: net_inv_def\<close>)

lemma net_inv_init: "net_inv h env net_init"
  by (simp add: net_inv_def net_init_def good_def)

lemma net_inv_reachable: "reachable h env s \<Longrightarrow> hash_law h \<Longrightarrow> net_inv h env s"
  by (induction rule: rtranclp_induct) (auto simp: net_inv_init dest: net_inv_step)

lemma reachable_record:
  "reachable h env s \<Longrightarrow> hash_law h \<Longrightarrow> map_of (n_db s) i = Some w \<Longrightarrow> good_record h env (n_db s) i w"
  using net_inv_reachable goodD by (simp add: net_inv_def)

end
