(* ===== verification/Receiver_Safety.thy ===== *)
theory Receiver_Safety
  imports Receiver_Protocol
begin

text \<open>
  What the Receiver guarantees in every reachable state, and a complete run of it on the sample
  runtime: a funding request is received, verified, executed and confirmed, and its settlement is
  leased.
\<close>

section \<open>A complete run\<close>

text \<open>Steps that are always possible: leasing eligible work, and reporting under a live lease.\<close>

definition leased :: "actor \<Rightarrow> string \<Rightarrow> int \<Rightarrow> string \<Rightarrow> work \<Rightarrow> work" where
  "leased a owner now i w =
     set_lease a (Some \<lparr>l_owner = owner, l_expiresAt = now + LEASE_MS, l_leaseId = Some i,
                        l_version = Some (w_stateVersion w + 1)\<rparr>)
       (w\<lparr>w_status := leased_status a, w_stateVersion := w_stateVersion w + 1, w_updatedAt := now\<rparr>)"

lemma run_lease:
  assumes "reachable h env s" "map_of (n_db s) i = Some w" "w_status w = ready_status a" "eligible a kinds w (n_db s)"
  shows "\<exists>s'. reachable h env s' \<and> n_clock s' = n_clock s \<and>
           n_db s' = work_update i (leased a owner (n_clock s) i w) (n_db s)"
proof -
  let ?s1 = "s\<lparr>n_snap := insert (a, i, w) (n_snap s)\<rparr>"
  let ?s2 = "?s1\<lparr>n_checked := insert (a, i) (n_checked ?s1)\<rparr>"
  let ?db = "work_update i (leased a owner (n_clock s) i w) (n_db s)"
  have "net_step h env s ?s1" using assms(2) by (rule net_step.snapshot)
  moreover have "net_step h env ?s1 ?s2" by (rule net_step.check [where w = w and kinds = kinds]) (use assms(4) in simp_all)
  moreover have "net_step h env ?s2 (?s2\<lparr>n_db := ?db\<rparr>)"
    by (rule net_step.take_lease [where a = a and i = i and owner = owner and w = "leased a owner (n_clock s) i w"])
      (use assms(2,3) in \<open>simp_all add: lease_tx_def leased_def Let_def\<close>)
  ultimately have "reachable h env (?s2\<lparr>n_db := ?db\<rparr>)"
    using assms(1) by (meson rtranclp.rtrancl_into_rtrancl)
  then show ?thesis by (intro exI [of _ "?s2\<lparr>n_db := ?db\<rparr>"]) simp
qed

lemma run_report:
  assumes "reachable h env s" "map_of (n_db s) i = Some w" "actor_lease a w = Some l" "n_clock s < l_expiresAt l"
    "status \<in> set (allowed_reports a)" "\<not> replayed_report a status evidence w"
    "a = Node \<longrightarrow> assertNodeVerificationAttestation h env w (l_owner l) (w_stateVersion w) status evidence = Inr ()"
  shows "\<exists>s'. reachable h env s' \<and> n_clock s' = n_clock s \<and>
           n_db s' = work_update i (report_patch h a (n_clock s) status evidence w) (n_db s)"
proof -
  let ?w = "report_patch h a (n_clock s) status evidence w"
  have "transition_tx h env a (n_clock s) i (l_owner l) (w_stateVersion w) status evidence (n_db s)
      = Inr ((?w, a = Cranker \<and> w_kind w = AUTHORIZED_FUNDING \<and> status = CONFIRMED), work_update i ?w (n_db s))"
    using assms(2-7) by (simp add: transition_tx_def Let_def)
  then have "net_step h env s (s\<lparr>n_db := work_update i ?w (n_db s)\<rparr>)" by (rule net_step.report)
  with assms(1) have "reachable h env (s\<lparr>n_db := work_update i ?w (n_db s)\<rparr>)"
    by (meson rtranclp.rtrancl_into_rtrancl)
  then show ?thesis by (intro exI [of _ "s\<lparr>n_db := work_update i ?w (n_db s)\<rparr>"]) simp
qed


lemma one_line_payloadCommitment: "one_line (payloadCommitment sample_host v)"
  unfolding payloadCommitment_def sha256_hex_def by (rule one_line_hex) (rule sample_hash_octets)

lemma sample_prepared:
  "\<exists>wk. prepare_received sample_host sample_env 0 ''u'' (replicate 12 1) (Some ''w1'') AUTHORIZED_FUNDING sample_funding
      = Inr (wk, Some (settlementId sample_host ''w1'' (w_payloadCommitment wk))) \<and> w_id wk = ''w1'' \<and>
      w_payloadCommitment wk = payloadCommitment sample_host (JObj sample_funding)"
proof -
  obtain e where e: "encryptPayloadForNode sample_host sample_env (replicate 12 1) sample_funding = Inr e"
    by (simp add: encryptPayloadForNode_def sample_node_key)
  have "assertDurablePayload AUTHORIZED_FUNDING (durable_funding_payload sample_funding e) = Inr ()"
    by (simp add: assertDurablePayload_def durable_funding_payload_def)
  moreover have "js_trim ''w1'' = ''w1''" by (rule js_trim_id) (simp add: is_space_def)
  ultimately show ?thesis
    using sample_funding_accepted e
    by (simp add: prepare_received_def assertExternalWorkKind_def createReceivedWork_def)
qed

definition sample_decision :: obj where
  "sample_decision = [(''verificationType'', JStr ''TSN_AUTHORIZED_FUNDING''),
     (''verifiedPayload'', JObj [(''paymentId'', JStr ''pay-1'')])]"

text \<open>Funding is received, verified by a Node, executed and confirmed by a Cranker; then a Node
  leases its settlement.\<close>

lemma sample_received:
  "\<exists>s f w. reachable sample_host sample_env s \<and> n_clock s = 0 \<and> map_of (n_db s) ''w1'' = Some f \<and> fresh_work f \<and>
     w_kind f = AUTHORIZED_FUNDING \<and> w_id f = ''w1'' \<and> one_line (w_payloadCommitment f) \<and>
     w_id w \<noteq> ''w1'' \<and> map_of (n_db s) (w_id w) = Some w \<and> fresh_work w \<and> w_kind w = SETTLEMENT \<and>
     map_of (w_payload w) ''intentId'' = Some (JStr ''w1'')"
proof -
  obtain wk where prep: "prepare_received sample_host sample_env 0 ''u'' (replicate 12 1) (Some ''w1'') AUTHORIZED_FUNDING
      sample_funding = Inr (wk, Some (settlementId sample_host ''w1'' (w_payloadCommitment wk)))" and id: "w_id wk = ''w1''"
    and c: "w_payloadCommitment wk = payloadCommitment sample_host (JObj sample_funding)"
    using sample_prepared by blast
  let ?sid = "settlementId sample_host ''w1'' (w_payloadCommitment wk)"
  obtain sw where sw: "settlement_work sample_host 0 wk ?sid = Inr sw" using settlement_work_total by blast
  note swf = settlement_work_Inr [OF sw sample_hash_law] and wkf = prepare_received_Inr [OF prep]
  let ?db = "work_update ?sid sw (work_update ''w1'' wk [])"
  have ne: "?sid \<noteq> ''w1''" by (simp add: settlementId_def)
  have "receive_tx sample_host 0 wk (Some ?sid) [] = Inr ((wk, True), ?db)"
    using sw ne by (simp add: receive_tx_def id work_create_def work_update_def)
  then have "net_step sample_host sample_env net_init (net_init\<lparr>n_db := ?db\<rparr>)"
    using net_step.receive [OF prep, of net_init] by (simp add: net_init_def)
  then have "reachable sample_host sample_env (net_init\<lparr>n_db := ?db\<rparr>)" by auto
  then show ?thesis
    using swf wkf id ne c one_line_payloadCommitment
    by (intro exI [of _ "net_init\<lparr>n_db := ?db\<rparr>"] exI [of _ wk] exI [of _ sw])
      (simp add: work_update_lookup net_init_def)
qed

lemma sample_confirmed:
  "\<exists>s f w. reachable sample_host sample_env s \<and> n_clock s = 0 \<and> map_of (n_db s) ''w1'' = Some f \<and>
     w_status f = CONFIRMED \<and> w_kind f = AUTHORIZED_FUNDING \<and> w_id w \<noteq> ''w1'' \<and>
     map_of (n_db s) (w_id w) = Some w \<and> fresh_work w \<and> w_kind w = SETTLEMENT \<and>
     map_of (w_payload w) ''intentId'' = Some (JStr ''w1'')"
proof -
  obtain s f w where s: "reachable sample_host sample_env s" "n_clock s = 0" "map_of (n_db s) ''w1'' = Some f"
    and f: "fresh_work f" "w_kind f = AUTHORIZED_FUNDING" "w_id f = ''w1''" "one_line (w_payloadCommitment f)"
    and w: "w_id w \<noteq> ''w1''" "map_of (n_db s) (w_id w) = Some w" "fresh_work w" "w_kind w = SETTLEMENT"
      "map_of (w_payload w) ''intentId'' = Some (JStr ''w1'')"
    using sample_received by blast
  let ?f1 = "leased Node ''n1'' 0 ''w1'' f"
  have "w_status f = ready_status Node" "eligible Node None f (n_db s)"
    using f by (simp_all add: fresh_work_def eligible_def)
  from run_lease [OF s(1) s(3) this, where owner = "''n1''"] obtain s1 where
    s1: "reachable sample_host sample_env s1" "n_clock s1 = 0" "n_db s1 = work_update ''w1'' ?f1 (n_db s)"
    using s(2) by auto
  let ?ev = "sample_evidence ?f1 ''n1'' 2 VERIFIED sample_decision"
  have v1: "w_stateVersion f = 1" using f(1) by (simp add: fresh_work_def)
  have "assertNodeVerificationAttestation sample_host sample_env ?f1 ''n1'' 2 VERIFIED (Some ?ev) = Inr ()"
  proof (rule sample_evidence_accepted)
    show "w_nodeLease ?f1 = Some \<lparr>l_owner = ''n1'', l_expiresAt = LEASE_MS, l_leaseId = Some (w_id ?f1), l_version = Some 2\<rparr>"
      using f v1 by (simp add: leased_def)
    have "js_trim ''TSN_AUTHORIZED_FUNDING'' \<noteq> []" by (subst js_trim_id) (simp_all add: is_space_def)
    then show "VERIFIED = VERIFIED \<longrightarrow> verified_evidence sample_decision"
      by (simp add: verified_evidence_def sample_decision_def is_plain_object_def)
  qed (use f in \<open>simp_all add: leased_def sample_decision_def one_line_def newline_def carriage_return_def\<close>)
  then obtain s2 where s2: "reachable sample_host sample_env s2" "n_clock s2 = 0"
      "n_db s2 = work_update ''w1'' (report_patch sample_host Node 0 VERIFIED (Some ?ev) ?f1) (n_db s1)"
    using run_report [OF s1(1), of "''w1''" ?f1 Node "\<lparr>l_owner = ''n1'', l_expiresAt = LEASE_MS, l_leaseId = Some ''w1'', l_version = Some 2\<rparr>"
        VERIFIED "Some ?ev"] s1 v1
    by (auto simp: work_update_lookup leased_def LEASE_MS_def replayed_report_def)
  let ?f2 = "report_patch sample_host Node 0 VERIFIED (Some ?ev) ?f1"
  have "map_of (n_db s2) ''w1'' = Some ?f2" "w_status ?f2 = ready_status Cranker" "eligible Cranker None ?f2 (n_db s2)"
    using s2 f by (simp_all add: work_update_lookup eligible_def leased_def)
  from run_lease [OF s2(1) this, where owner = "''k1''"] obtain s3 where
    s3: "reachable sample_host sample_env s3" "n_clock s3 = 0" "n_db s3 = work_update ''w1'' (leased Cranker ''k1'' 0 ''w1'' ?f2) (n_db s2)"
    using s2(2) by auto
  let ?f3 = "leased Cranker ''k1'' 0 ''w1'' ?f2" and ?r = "Some [(''signature'', JStr ''sig'')]"
  obtain s4 where s4: "reachable sample_host sample_env s4" "n_clock s4 = 0"
      "n_db s4 = work_update ''w1'' (report_patch sample_host Cranker 0 CONFIRMED ?r ?f3) (n_db s3)"
    using run_report [OF s3(1), of "''w1''" ?f3 Cranker "the (w_crankerLease ?f3)" CONFIRMED ?r] s3
    by (auto simp: work_update_lookup leased_def LEASE_MS_def replayed_report_def)
  let ?f4 = "report_patch sample_host Cranker 0 CONFIRMED ?r ?f3"
  have "map_of (n_db s4) ''w1'' = Some ?f4" "w_status ?f4 = CONFIRMED" "w_kind ?f4 = AUTHORIZED_FUNDING"
    using s4(3) f(2) by (simp_all add: work_update_lookup leased_def)
  moreover have "map_of (n_db s4) (w_id w) = Some w"
    using s4(3) s3(3) s2(3) s1(3) w(1,2) by (simp add: work_update_lookup)
  ultimately show ?thesis using s4(1,2) w by (intro exI [of _ s4] exI [of _ ?f4] exI [of _ w]) simp
qed

lemma sample_run:
  "\<exists>s i w. reachable sample_host sample_env s \<and> map_of (n_db s) i = Some w \<and> w_kind w = SETTLEMENT \<and>
     w_status w = NODE_VERIFYING"
proof -
  obtain s f w where s: "reachable sample_host sample_env s" "n_clock s = 0" "map_of (n_db s) ''w1'' = Some f"
      "w_status f = CONFIRMED" "w_kind f = AUTHORIZED_FUNDING"
    and w: "map_of (n_db s) (w_id w) = Some w" "fresh_work w" "w_kind w = SETTLEMENT"
      "map_of (w_payload w) ''intentId'' = Some (JStr ''w1'')"
    using sample_confirmed by blast
  have "w_status w = ready_status Node" "eligible Node None w (n_db s)"
    using s w by (simp_all add: fresh_work_def eligible_def funding_confirmed_def)
  from run_lease [OF s(1) w(1) this, where owner = "''n1''"] obtain s' where
    "reachable sample_host sample_env s'" "n_db s' = work_update (w_id w) (leased Node ''n1'' 0 (w_id w) w) (n_db s)"
    using s(2) by auto
  then show ?thesis
    using w(3) by (intro exI [of _ s'] exI [of _ "w_id w"] exI [of _ "leased Node ''n1'' 0 (w_id w) w"])
      (simp add: work_update_lookup leased_def)
qed

section \<open>Guarantees\<close>

lemma evolves_trans:
  assumes "evolves a b" "evolves b c" "map_of a i = Some w"
  shows "\<exists>w'. map_of c i = Some w' \<and> w_stateVersion w \<le> w_stateVersion w'"
proof -
  from assms(1,3) obtain x where x: "map_of b i = Some x" "x = w \<or> advances w x" by (auto simp: evolves_def)
  with assms(2) obtain y where "map_of c i = Some y" "y = x \<or> advances x y" by (auto simp: evolves_def)
  with x show ?thesis by (auto simp: advances_def)
qed

lemma later_inv:
  assumes "(net_step h env)\<^sup>*\<^sup>* s s'" "net_inv h env s" "hash_law h"
  shows "net_inv h env s' \<and> (\<forall>i w. map_of (n_db s) i = Some w \<longrightarrow>
     (\<exists>w'. map_of (n_db s') i = Some w' \<and> w_stateVersion w \<le> w_stateVersion w' \<and>
           (w_status w \<in> {SUBMITTED, CONFIRMED, FAILED} \<longrightarrow> w' = w)))"
  using assms(1)
proof induction
  case base
  then show ?case using assms(2) by simp
next
  case (step s1 s2)
  have ev: "net_inv h env s2" "evolves (n_db s1) (n_db s2)"
    using net_inv_step [OF step.hyps(2) _ assms(3)] step.IH by auto
  show ?case
  proof (intro conjI allI impI)
    fix i w assume "map_of (n_db s) i = Some w"
    with step.IH obtain x where x: "map_of (n_db s1) i = Some x" "w_stateVersion w \<le> w_stateVersion x"
      "w_status w \<in> {SUBMITTED, CONFIRMED, FAILED} \<longrightarrow> x = w" by blast
    with ev(2) obtain y where y: "map_of (n_db s2) i = Some y" "y = x \<or> advances x y" by (auto simp: evolves_def)
    have "\<not> advances x y" if "w_status x \<in> {SUBMITTED, CONFIRMED, FAILED}"
      using that by (auto simp: advances_def status_edge_def)
    with x y show "\<exists>w'. map_of (n_db s2) i = Some w' \<and> w_stateVersion w \<le> w_stateVersion w' \<and>
        (w_status w \<in> {SUBMITTED, CONFIRMED, FAILED} \<longrightarrow> w' = w)"
      by (intro exI [of _ y]) (auto simp: advances_def)
  qed (rule ev(1))
qed

text \<open>
  C1: No settlement moves before its money is there. In every reachable state, each settlement
  points at an authorized-funding record from whose id and payload commitment its own id is
  derived, and if the settlement has ever left RECEIVED that funding is CONFIRMED; this holds
  although the funding is checked outside the transaction that grants the lease.
\<close>

theorem settlement_only_after_funding:
  assumes "reachable h env s" "hash_law h" "map_of (n_db s) i = Some w" "w_kind w = SETTLEMENT"
  shows "\<exists>f. map_of (n_db s) (w_id f) = Some f \<and> w_kind f = AUTHORIZED_FUNDING \<and>
     map_of (w_payload w) ''intentId'' = Some (JStr (w_id f)) \<and>
     w_id w = settlementId h (w_id f) (w_payloadCommitment f) \<and>
     (w_status w \<noteq> RECEIVED \<longrightarrow> w_status f = CONFIRMED)"
  using reachable_record [OF assms(1-3)] assms(4) unfolding good_record_def linked_def by blast

theorem settlement_only_after_funding_witness:
  "\<exists>s i w f. reachable sample_host sample_env s \<and> map_of (n_db s) i = Some w \<and> w_kind w = SETTLEMENT \<and>
     w_status w = NODE_VERIFYING \<and>
     map_of (n_db s) (w_id f) = Some f \<and> w_kind f = AUTHORIZED_FUNDING \<and> w_status f = CONFIRMED"
proof -
  obtain s i w where "reachable sample_host sample_env s" "map_of (n_db s) i = Some w" "w_kind w = SETTLEMENT"
      "w_status w = NODE_VERIFYING"
    using sample_run by blast
  moreover from settlement_only_after_funding [OF this(1) sample_hash_law this(2,3)] this(4) obtain f where
    "map_of (n_db s) (w_id f) = Some f" "w_kind f = AUTHORIZED_FUNDING" "w_status f = CONFIRMED" by auto
  ultimately show ?thesis by (intro exI [of _ s] exI [of _ i] exI [of _ w] exI [of _ f]) simp
qed

text \<open>
  C5: Leases are exactly the leased states: in every reachable state a Node lease exists if and only
  if the work is NODE_VERIFYING, a Cranker lease if and only if it is CRANKER_LEASED; the record is
  stored under its own id and its version is at least 1. So no work is held by a Node and a Cranker
  at once, and none is leased without an owner and an expiry.
\<close>

theorem lease_matches_status:
  assumes "reachable h env s" "hash_law h" "map_of (n_db s) i = Some w"
  shows "(w_nodeLease w \<noteq> None \<longleftrightarrow> w_status w = NODE_VERIFYING) \<and>
         (w_crankerLease w \<noteq> None \<longleftrightarrow> w_status w = CRANKER_LEASED) \<and> w_id w = i \<and> 1 \<le> w_stateVersion w"
  using reachable_record [OF assms] by (simp add: good_record_def leases_ok_def)

theorem lease_matches_status_witness:
  "\<exists>s i w. reachable sample_host sample_env s \<and> map_of (n_db s) i = Some w \<and> w_nodeLease w \<noteq> None \<and> w_crankerLease w = None"
proof -
  obtain s i w where "reachable sample_host sample_env s" "map_of (n_db s) i = Some w" "w_status w = NODE_VERIFYING"
    using sample_run by blast
  with lease_matches_status [OF this(1) sample_hash_law this(2)] show ?thesis by auto
qed

text \<open>
  C3: A step never loses work and changes a record only in order: a record that is there stays
  there; if it changes, it keeps id, kind, payload commitment and receipt time, its version grows by
  exactly one, and its status follows an edge of the life cycle.
\<close>

theorem work_follows_life_cycle:
  assumes "reachable h env s" "hash_law h" "net_step h env s s'" "map_of (n_db s) i = Some w"
  shows "\<exists>w'. map_of (n_db s') i = Some w' \<and>
     (w' = w \<or> w_id w' = w_id w \<and> w_kind w' = w_kind w \<and> w_payloadCommitment w' = w_payloadCommitment w \<and>
        w_receivedAt w' = w_receivedAt w \<and> w_stateVersion w' = w_stateVersion w + 1 \<and>
        status_edge (w_kind w) (w_status w) (w_status w'))"
proof -
  have "evolves (n_db s) (n_db s')"
    using net_inv_step [OF assms(3) net_inv_reachable [OF assms(1,2)] assms(2)] by blast
  with assms(4) show ?thesis unfolding evolves_def advances_def by blast
qed

theorem work_follows_life_cycle_witness:
  "\<exists>s s' i w w'. reachable sample_host sample_env s \<and> net_step sample_host sample_env s s' \<and>
     map_of (n_db s) i = Some w \<and> map_of (n_db s') i = Some w' \<and> w_kind w' = w_kind w \<and>
     w_payloadCommitment w' = w_payloadCommitment w"
proof -
  obtain s i w where s: "reachable sample_host sample_env s" "map_of (n_db s) i = Some w"
    using sample_run by blast
  have step: "net_step sample_host sample_env s (s\<lparr>n_db := requeue_tx Node (n_clock s) i (n_db s)\<rparr>)"
    by (rule net_step.requeue)
  from work_follows_life_cycle [OF s(1) sample_hash_law step s(2)] s step show ?thesis by blast
qed

text \<open>
  C2: A Cranker only ever executes what a Node has attested: in every reachable state, a record that
  is VERIFIED or beyond has an accepted VERIFIED attestation, under the configured Node key, for its
  id, kind and payload commitment.
\<close>

theorem executed_work_is_attested:
  assumes "reachable h env s" "hash_law h" "map_of (n_db s) i = Some w"
    and "w_status w \<in> {VERIFIED, CRANKER_LEASED, SUBMITTED, CONFIRMED, FAILED}"
  shows "\<exists>wk owner ver ev. assertNodeVerificationAttestation h env wk owner ver VERIFIED (Some ev) = Inr () \<and>
     w_id wk = i \<and> w_kind wk = w_kind w \<and> w_payloadCommitment wk = w_payloadCommitment w"
  using reachable_record [OF assms(1-3)] assms(4)
  unfolding good_record_def past_verification_def attested_def by blast

theorem executed_work_is_attested_witness:
  "\<exists>wk owner ver ev. assertNodeVerificationAttestation sample_host sample_env wk owner ver VERIFIED (Some ev) = Inr () \<and>
     w_id wk = ''w1'' \<and> w_kind wk = AUTHORIZED_FUNDING"
proof -
  obtain s f where s: "reachable sample_host sample_env s" "map_of (n_db s) ''w1'' = Some f" "w_status f = CONFIRMED"
      "w_kind f = AUTHORIZED_FUNDING"
    using sample_confirmed by blast
  from executed_work_is_attested [OF s(1) sample_hash_law s(2)] s(3,4) show ?thesis by auto
qed



text \<open>
  C6: SUBMITTED, CONFIRMED and FAILED are final: from any reachable state on, such a record is never
  changed again. (A report of SUBMITTED releases the Cranker lease, so the record cannot go on to
  CONFIRMED.)
\<close>

theorem terminal_records_are_final:
  assumes "reachable h env s" "hash_law h" "(net_step h env)\<^sup>*\<^sup>* s s'" "map_of (n_db s) i = Some w"
    and "w_status w \<in> {SUBMITTED, CONFIRMED, FAILED}"
  shows "map_of (n_db s') i = Some w"
  using later_inv [OF assms(3) net_inv_reachable [OF assms(1,2)] assms(2)] assms(4,5) by blast

theorem terminal_records_are_final_witness:
  "\<exists>s f. map_of (n_db s) ''w1'' = Some f \<and> w_status f = CONFIRMED \<and>
     (\<forall>s'. (net_step sample_host sample_env)\<^sup>*\<^sup>* s s' \<longrightarrow> map_of (n_db s') ''w1'' = Some f)"
proof -
  obtain s f where s: "reachable sample_host sample_env s" "map_of (n_db s) ''w1'' = Some f" "w_status f = CONFIRMED"
    using sample_confirmed by blast
  then have "w_status f \<in> {SUBMITTED, CONFIRMED, FAILED}" by simp
  with terminal_records_are_final [OF s(1) sample_hash_law _ s(2)] s show ?thesis by blast
qed

end
