(* ===== verification/Receiver_Queue.thy ===== *)
theory Receiver_Queue
  imports Receiver_Safety
begin

text \<open>
  The queue operations of \<open>store.ts\<close> as functions: submitting is idempotent, leasing hands out the
  oldest eligible work of the window it looks at and recovers abandoned leases, and the window can
  starve work behind it.
\<close>

section \<open>Submitting twice\<close>

lemma encrypt_again: "encryptPayloadForNode h env iv p = Inr e \<Longrightarrow> \<exists>e'. encryptPayloadForNode h env iv' p = Inr e'"
  by (cases "node_key h env") (auto simp: encryptPayloadForNode_def case_prod_unfold Let_def)

lemma durable_funding_payload_ok: "assertDurablePayload AUTHORIZED_FUNDING (durable_funding_payload p e) = Inr ()"
  by (simp add: assertDurablePayload_def durable_funding_payload_def)

lemma prepare_again:
  assumes "prepare_received h env now uuid iv (Some i) kind p = Inr (wk, sid)" "js_trim i \<noteq> []"
  shows "\<exists>wk'. prepare_received h env now' uuid' iv' (Some i) kind p = Inr (wk', sid) \<and> w_id wk' = w_id wk \<and>
           w_kind wk' = w_kind wk \<and> w_payloadCommitment wk' = w_payloadCommitment wk"
proof (cases "kind = AUTHORIZED_FUNDING")
  case True
  with assms(1) obtain e where "encryptPayloadForNode h env iv p = Inr e" by (auto simp: prepare_received_def)
  from encrypt_again [OF this, of iv'] obtain e' where "encryptPayloadForNode h env iv' p = Inr e'" by blast
  with True assms durable_funding_payload_ok show ?thesis
    by (auto simp: prepare_received_def createReceivedWork_def)
qed (use assms in \<open>auto simp: prepare_received_def createReceivedWork_def\<close>)

lemma receive_tx_stored:
  assumes "receive_tx h now wk sid db = Inr ((w, created), db')"
  shows "map_of db' (w_id wk) = Some w" "w_payloadCommitment w = w_payloadCommitment wk" "w_kind w = w_kind wk"
    "sid = Some s \<Longrightarrow> map_of db' s \<noteq> None"
  using receive_tx_Inr [OF assms] by (auto simp: work_update_lookup)

text \<open>
  C8: Submitting is idempotent. When a submission under a given id has been accepted, submitting
  the same payload again returns the same stored record and leaves the store and the notifications
  as they are; submitting another payload or kind under that id is refused as a conflict, and
  changes nothing.
\<close>

theorem receive_idempotent:
  assumes "receive h env now uuid iv (Some i) kind p st = (Inr w, st')" "js_trim i \<noteq> []"
  shows "receive h env now' uuid' iv' (Some i) kind p st' = (Inr w, st') \<and>
    (\<forall>wk sid. prepare_received h env now' uuid' iv' (Some i) kind' p' = Inr (wk, sid) \<longrightarrow>
       payloadCommitment h (JObj p') \<noteq> payloadCommitment h (JObj p) \<or> kind' \<noteq> kind \<longrightarrow>
       receive h env now' uuid' iv' (Some i) kind' p' st' = (Inl ''IDEMPOTENCY_CONFLICT'', st'))"
proof -
  from assms(1) obtain wk sid created db where prep: "prepare_received h env now uuid iv (Some i) kind p = Inr (wk, sid)"
    and tx: "receive_tx h now wk sid (works st) = Inr ((w, created), db)" and db: "works st' = db"
    by (auto simp: receive_def split: sum.splits prod.splits)
  note stored = receive_tx_stored [OF tx] and wk = prepare_received_Inr [OF prep]
  obtain wk' where prep': "prepare_received h env now' uuid' iv' (Some i) kind p = Inr (wk', sid)"
    and wk': "w_id wk' = w_id wk" "w_kind wk' = w_kind wk" "w_payloadCommitment wk' = w_payloadCommitment wk"
    using prepare_again [OF prep assms(2)] by blast
  have "receive_tx h now' wk' sid db = Inr ((w, False), db)"
    using stored wk' by (auto simp: receive_tx_def split: option.splits)
  with prep' db have "receive h env now' uuid' iv' (Some i) kind p st' = (Inr w, st')"
    by (simp add: receive_def)
  moreover have "receive h env now' uuid' iv' (Some i) kind' p' st' = (Inl ''IDEMPOTENCY_CONFLICT'', st')"
    if prep2: "prepare_received h env now' uuid' iv' (Some i) kind' p' = Inr (wk2, sid2)"
      and diff: "payloadCommitment h (JObj p') \<noteq> payloadCommitment h (JObj p) \<or> kind' \<noteq> kind" for wk2 sid2
  proof -
    note wk2 = prepare_received_Inr [OF prep2]
    have "w_id wk2 = w_id wk"
      using prep prep2 assms(2) by (auto simp: prepare_received_def createReceivedWork_def)
    with stored wk wk2 diff have "receive_tx h now' wk2 sid2 db = Inl ''IDEMPOTENCY_CONFLICT''"
      by (auto simp: receive_tx_def)
    with prep2 db show ?thesis by (simp add: receive_def)
  qed
  ultimately show ?thesis by blast
qed

theorem receive_idempotent_witness:
  "\<exists>w st'. receive sample_host sample_env 0 ''u'' (replicate 12 1) (Some ''w1'') AUTHORIZED_FUNDING sample_funding workspace
       = (Inr w, st') \<and>
     receive sample_host sample_env 9 ''v'' (replicate 12 2) (Some ''w1'') AUTHORIZED_FUNDING sample_funding st' = (Inr w, st')"
proof -
  have trim: "js_trim ''w1'' \<noteq> []" by (subst js_trim_id) (simp_all add: is_space_def)
  obtain wk where prep: "prepare_received sample_host sample_env 0 ''u'' (replicate 12 1) (Some ''w1'') AUTHORIZED_FUNDING
      sample_funding = Inr (wk, Some (settlementId sample_host ''w1'' (w_payloadCommitment wk)))" and id: "w_id wk = ''w1''"
    using sample_prepared by blast
  obtain sw where sw: "settlement_work sample_host 0 wk (settlementId sample_host ''w1'' (w_payloadCommitment wk)) = Inr sw"
    using settlement_work_total by blast
  have "settlementId sample_host ''w1'' (w_payloadCommitment wk) \<noteq> ''w1''" by (simp add: settlementId_def)
  with sw obtain db where "receive_tx sample_host 0 wk (Some (settlementId sample_host ''w1'' (w_payloadCommitment wk))) []
      = Inr ((wk, True), db)"
    by (simp add: receive_tx_def id work_create_def work_update_def)
  with prep obtain st' where "receive sample_host sample_env 0 ''u'' (replicate 12 1) (Some ''w1'') AUTHORIZED_FUNDING
      sample_funding workspace = (Inr wk, st')"
    by (simp add: receive_def workspace_def)
  with receive_idempotent [OF this trim] show ?thesis by blast
qed

section \<open>Leasing\<close>

interpretation received: comparator by_received
  by unfold_locales (auto simp: by_received_def)

interpretation received_entry: comparator "\<lambda>x y. by_received (snd x) (snd y)"
  by unfold_locales (auto simp: by_received_def)

lemma unique_update [simp]: "unique_ids db \<Longrightarrow> unique_ids (work_update i w db)"
  by (simp add: work_update_def docs.inv_put)

lemma unique_requeue: "unique_ids db \<Longrightarrow> unique_ids (requeue_tx a now i db)"
  using requeue_tx_cases [of a now i db] by auto

lemma unique_requeue_all: "unique_ids db \<Longrightarrow> unique_ids (requeue_all a now ws db)"
  by (induction a now ws db rule: requeue_all.induct) (auto simp: unique_requeue split: option.splits)

definition ready_window :: "actor \<Rightarrow> work collection \<Rightarrow> (string \<times> work) list" where
  "ready_window a db = sort_by (\<lambda>x y. by_received (snd x) (snd y)) (status_snapshot (ready_status a) db)"

definition after_requeue :: "actor \<Rightarrow> int \<Rightarrow> receiver \<Rightarrow> work collection" where
  "after_requeue a now st = requeue_all a now (status_snapshot (leased_status a) (works st)) (works st)"

lemma set_limit_rows: "set (limit_rows m xs) \<subseteq> set xs"
  by (auto simp: limit_rows_def split: option.splits dest: in_set_takeD)

lemma ready_window_member:
  assumes "(i, w) \<in> set (ready_window a db)" "unique_ids db"
  shows "map_of db i = Some w \<and> w_status w = ready_status a"
proof -
  have "(i, w) \<in> set db" "w_status w = ready_status a"
    using assms(1) set_limit_rows by (fastforce simp: ready_window_def status_snapshot_def)+
  with assms(2) show ?thesis by (simp add: unique_ids_def)
qed

lemma lease_first_cases:
  assumes "\<And>i w. (i, w) \<in> set cs \<Longrightarrow> map_of db i = Some w \<and> w_status w = ready_status a"
    and "sorted_wrt (\<lambda>x y. by_received (snd x) (snd y)) cs"
  shows "(lease_first a owner kinds now cs db = None \<and> (\<forall>(i, w) \<in> set cs. \<not> eligible a kinds w db)) \<or>
    (\<exists>i w. (i, w) \<in> set cs \<and> eligible a kinds w db \<and>
       (\<forall>(j, v) \<in> set cs. eligible a kinds v db \<longrightarrow> w_receivedAt w \<le> w_receivedAt v) \<and>
       lease_first a owner kinds now cs db = Some (leased a owner now i w, work_update i (leased a owner now i w) db))"
  using assms
proof (induction cs)
  case (Cons c cs)
  obtain i w where c: "c = (i, w)" by (cases c)
  show ?case
  proof (cases "eligible a kinds w db")
    case True
    have "lease_tx a owner now i db = Some (leased a owner now i w, work_update i (leased a owner now i w) db)"
      using Cons.prems(1) [of i w] c by (simp add: lease_tx_def leased_def Let_def)
    moreover have "\<forall>(j, v) \<in> set (c # cs). w_receivedAt w \<le> w_receivedAt v"
      using Cons.prems(2) c by (auto simp: by_received_def)
    ultimately show ?thesis using True c by (intro disjI2 exI [of _ i] exI [of _ w]) auto
  next
    case False
    have step: "lease_first a owner kinds now (c # cs) db = lease_first a owner kinds now cs db" using False c by simp
    have "(lease_first a owner kinds now cs db = None \<and> (\<forall>(i, w) \<in> set cs. \<not> eligible a kinds w db)) \<or>
      (\<exists>i w. (i, w) \<in> set cs \<and> eligible a kinds w db \<and>
         (\<forall>(j, v) \<in> set cs. eligible a kinds v db \<longrightarrow> w_receivedAt w \<le> w_receivedAt v) \<and>
         lease_first a owner kinds now cs db = Some (leased a owner now i w, work_update i (leased a owner now i w) db))"
      by (rule Cons.IH) (use Cons.prems in auto)
    then show ?thesis
    proof (elim disjE conjE exE)
      fix j v
      assume "(j, v) \<in> set cs" "eligible a kinds v db" "\<forall>(j, x) \<in> set cs. eligible a kinds x db \<longrightarrow> w_receivedAt v \<le> w_receivedAt x"
        "lease_first a owner kinds now cs db = Some (leased a owner now j v, work_update j (leased a owner now j v) db)"
      with False c step show ?thesis by (intro disjI2 exI [of _ j] exI [of _ v]) simp
    qed (use False c step in simp)
  qed
qed simp

lemma lease_cases:
  assumes "unique_ids (works st)" and db: "db = after_requeue a now st"
  shows "(lease a owner kinds now st = (None, st\<lparr>works := db\<rparr>) \<and> (\<forall>(i, w) \<in> set (ready_window a db). \<not> eligible a kinds w db)) \<or>
    (\<exists>i w. (i, w) \<in> set (ready_window a db) \<and> eligible a kinds w db \<and>
       (\<forall>(j, v) \<in> set (ready_window a db). eligible a kinds v db \<longrightarrow> w_receivedAt w \<le> w_receivedAt v) \<and>
       lease a owner kinds now st = (Some (leased a owner now i w), st\<lparr>works := work_update i (leased a owner now i w) db\<rparr>))"
proof -
  let ?cs = "ready_window a db"
  have u: "unique_ids db" using assms by (simp add: after_requeue_def unique_requeue_all)
  have "(lease_first a owner kinds now ?cs db = None \<and> (\<forall>(i, w) \<in> set ?cs. \<not> eligible a kinds w db)) \<or>
    (\<exists>i w. (i, w) \<in> set ?cs \<and> eligible a kinds w db \<and>
       (\<forall>(j, v) \<in> set ?cs. eligible a kinds v db \<longrightarrow> w_receivedAt w \<le> w_receivedAt v) \<and>
       lease_first a owner kinds now ?cs db = Some (leased a owner now i w, work_update i (leased a owner now i w) db))"
    by (rule lease_first_cases) (use ready_window_member [OF _ u] received_entry.sorted_sort_by in \<open>auto simp: ready_window_def\<close>)
  moreover have l: "lease a owner kinds now st = (case lease_first a owner kinds now ?cs db of
      None \<Rightarrow> (None, st\<lparr>works := db\<rparr>) | Some (w, db') \<Rightarrow> (Some w, st\<lparr>works := db'\<rparr>))"
    unfolding lease_def db after_requeue_def ready_window_def Let_def ..
  ultimately show ?thesis
  proof (elim disjE exE conjE)
    fix i w
    assume "(i, w) \<in> set ?cs" "eligible a kinds w db"
      "\<forall>(j, v) \<in> set ?cs. eligible a kinds v db \<longrightarrow> w_receivedAt w \<le> w_receivedAt v"
      "lease_first a owner kinds now ?cs db = Some (leased a owner now i w, work_update i (leased a owner now i w) db)"
    then show ?thesis unfolding l by (intro disjI2 exI [of _ i] exI [of _ w]) simp
  qed simp
qed

lemma leased_shape:
  "w_status (leased a owner now i w) = leased_status a"
  "actor_lease a (leased a owner now i w) = Some \<lparr>l_owner = owner, l_expiresAt = now + 60000, l_leaseId = Some i,
     l_version = Some (w_stateVersion (leased a owner now i w))\<rparr>"
  "w_stateVersion (leased a owner now i w) = w_stateVersion w + 1"
  by (cases a; simp add: leased_def LEASE_MS_def)+

text \<open>
  C9: Leasing is first come, first served and misses nothing in its window. Among the (at most 50)
  ready records it looks at, after abandoned leases have been requeued, it leases an eligible one
  with the earliest receipt time, to the caller, for exactly 60 seconds and with the version of the
  lease; it returns nothing only if none of them is eligible.
\<close>

theorem lease_oldest_eligible:
  assumes "unique_ids (works st)" "db = after_requeue a now st"
  shows "(lease a owner kinds now st = (None, st\<lparr>works := db\<rparr>) \<and> (\<forall>(i, w) \<in> set (ready_window a db). \<not> eligible a kinds w db)) \<or>
    (\<exists>i w w'. (i, w) \<in> set (ready_window a db) \<and> eligible a kinds w db \<and>
       (\<forall>(j, v) \<in> set (ready_window a db). eligible a kinds v db \<longrightarrow> w_receivedAt w \<le> w_receivedAt v) \<and>
       lease a owner kinds now st = (Some w', st\<lparr>works := work_update i w' db\<rparr>) \<and>
       w_status w' = leased_status a \<and> w_stateVersion w' = w_stateVersion w + 1 \<and>
       actor_lease a w' = Some \<lparr>l_owner = owner, l_expiresAt = now + 60000, l_leaseId = Some i,
         l_version = Some (w_stateVersion w')\<rparr>)"
  using lease_cases [OF assms, of owner kinds]
proof (elim disjE exE conjE)
  fix i w
  assume "(i, w) \<in> set (ready_window a db)" "eligible a kinds w db"
    "\<forall>(j, v) \<in> set (ready_window a db). eligible a kinds v db \<longrightarrow> w_receivedAt w \<le> w_receivedAt v"
    "lease a owner kinds now st = (Some (leased a owner now i w), st\<lparr>works := work_update i (leased a owner now i w) db\<rparr>)"
  then show ?thesis
    by (intro disjI2 exI [of _ i] exI [of _ w] exI [of _ "leased a owner now i w"]) (simp add: leased_shape)
qed simp

theorem lease_oldest_eligible_witness:
  "fst (lease Cranker ''k1'' None 5 \<lparr>works = [(''w1'', sample_work)], sent = []\<rparr>) \<noteq> None"
proof -
  let ?st = "\<lparr>works = [(''w1'', sample_work)], sent = []\<rparr>"
  have db: "[(''w1'', sample_work)] = after_requeue Cranker 5 ?st"
    by (simp add: after_requeue_def status_snapshot_def limit_rows_def sample_work_def)
  have "(''w1'', sample_work) \<in> set (ready_window Cranker [(''w1'', sample_work)])"
    "eligible Cranker None sample_work [(''w1'', sample_work)]"
    by (simp_all add: ready_window_def status_snapshot_def limit_rows_def eligible_def sample_work_def)
  moreover have "unique_ids (works ?st)" by (simp add: unique_ids_def)
  ultimately show ?thesis using lease_oldest_eligible [OF _ db, of "''k1''" None] by force
qed

section \<open>Abandoned leases\<close>

lemma requeue_tx_other: "j \<noteq> i \<Longrightarrow> map_of (requeue_tx a now j db) i = map_of db i"
  using requeue_tx_cases [of a now j db] by (auto simp: work_update_lookup)

lemma requeue_all_other: "i \<notin> fst ` set ws \<Longrightarrow> map_of (requeue_all a now ws db) i = map_of db i"
  by (induction a now ws db rule: requeue_all.induct) (auto simp: requeue_tx_other split: option.splits)

lemma requeue_tx_expired:
  assumes "map_of db i = Some w" "w_status w = leased_status a" "actor_lease a w = Some l" "l_expiresAt l \<le> now"
  shows "requeue_tx a now i db = work_update i (requeued a now w) db"
  using assms by (simp add: requeue_tx_def requeued_def)

lemma requeue_all_expired:
  assumes "(i, w) \<in> set ws" "distinct (map fst ws)" "map_of db i = Some w"
    and "w_status w = leased_status a" "actor_lease a w = Some l" "l_expiresAt l \<le> now"
  shows "map_of (requeue_all a now ws db) i = Some (requeued a now w)"
  using assms
proof (induction ws arbitrary: db)
  case (Cons x ws)
  obtain j v where x: "x = (j, v)" by (cases x)
  show ?case
  proof (cases "j = i")
    case True
    with Cons.prems x have "v = w" "i \<notin> fst ` set ws" by force+
    with True x Cons.prems show ?thesis
      by (simp add: requeue_all_other requeue_tx_expired work_update_lookup)
  next
    case False
    with Cons.prems x have "(i, w) \<in> set ws" by auto
    with Cons x False show ?thesis by (simp add: requeue_tx_other split: option.splits)
  qed
qed simp

text \<open>
  C10: An abandoned lease does not strand work: once a lease has expired, the next call of \<open>lease\<close>
  by anyone for that stage takes the work back, provided it is among the first 50 leased records: it
  is ready again with no lease, or already leased afresh to the caller, with a higher version, so
  that the former holder's reports are stale.
\<close>

theorem expired_lease_is_recovered:
  assumes "unique_ids (works st)" "(i, w) \<in> set (status_snapshot (leased_status a) (works st))"
    and "actor_lease a w = Some l" "l_expiresAt l \<le> now"
  shows "\<exists>w'. map_of (works (snd (lease a owner kinds now st))) i = Some w' \<and> w_stateVersion w < w_stateVersion w' \<and>
    (w_status w' = ready_status a \<and> actor_lease a w' = None \<or>
     (\<exists>l'. actor_lease a w' = Some l' \<and> l_owner l' = owner \<and> l_expiresAt l' = now + 60000))"
proof -
  let ?db = "after_requeue a now st" and ?s = "status_snapshot (leased_status a) (works st)"
  have "set ?s \<subseteq> set (filter (\<lambda>(i, w). w_status w = leased_status a) (works st))"
    unfolding status_snapshot_def by (rule set_limit_rows)
  with assms(1,2) have w: "map_of (works st) i = Some w" "w_status w = leased_status a"
    by (auto simp: unique_ids_def)
  have "distinct (map fst (filter P (works st)))" for P
    using assms(1) by (simp add: unique_ids_def distinct_map_filter)
  then have "distinct (map fst ?s)"
    by (simp add: status_snapshot_def limit_rows_def take_map [symmetric])
  from requeue_all_expired [OF assms(2) this w assms(3,4)]
  have base: "map_of ?db i = Some (requeued a now w)" by (simp add: after_requeue_def)
  have shape: "w_status (requeued a now w) = ready_status a" "actor_lease a (requeued a now w) = None"
    "w_stateVersion (requeued a now w) = w_stateVersion w + 1"
    by (cases a; simp add: requeued_def)+
  from lease_cases [where a = a and now = now and owner = owner and kinds = kinds, OF assms(1) refl] show ?thesis
  proof (elim disjE exE conjE)
    fix j v
    assume j: "(j, v) \<in> set (ready_window a ?db)"
      and lease: "lease a owner kinds now st = (Some (leased a owner now j v), st\<lparr>works := work_update j (leased a owner now j v) ?db\<rparr>)"
    have "map_of ?db j = Some v"
      using ready_window_member [OF j] assms(1) by (simp add: after_requeue_def unique_requeue_all)
    with base lease shape show ?thesis
      by (cases "j = i") (auto simp: work_update_lookup leased_shape)
  qed (use base shape in simp)
qed

theorem expired_lease_is_recovered_witness:
  "\<exists>w'. map_of (works (snd (lease Node ''n2'' None 500 \<lparr>works = [(''w1'', sample_leased)], sent = []\<rparr>))) ''w1'' = Some w' \<and>
     3 < w_stateVersion w'"
proof -
  let ?st = "\<lparr>works = [(''w1'', sample_leased)], sent = []\<rparr>"
  have "unique_ids (works ?st)" by (simp add: unique_ids_def)
  moreover have "(''w1'', sample_leased) \<in> set (status_snapshot (leased_status Node) (works ?st))"
    by (simp add: status_snapshot_def limit_rows_def sample_leased_def)
  moreover have "actor_lease Node sample_leased = Some \<lparr>l_owner = ''n1'', l_expiresAt = 100, l_leaseId = Some ''w1'', l_version = Some 3\<rparr>"
    by (simp add: sample_leased_def)
  ultimately obtain w' where "map_of (works (snd (lease Node ''n2'' None 500 ?st))) ''w1'' = Some w'"
      "w_stateVersion sample_leased < w_stateVersion w'"
    using expired_lease_is_recovered [where st = ?st and i = "''w1''" and w = sample_leased and a = Node and now = 500
        and owner = "''n2''" and kinds = None] by force
  then show ?thesis by (auto simp: sample_leased_def sample_work_def)
qed

section \<open>The window starves work behind it\<close>

definition blocked_settlement :: "nat \<Rightarrow> work" where
  "blocked_settlement n = sample_work\<lparr>w_id := dec n, w_kind := SETTLEMENT, w_status := RECEIVED, w_verification := None,
     w_payload := [(''intentId'', JStr ''rejected-funding'')]\<rparr>"

definition blocked_store :: "work collection" where
  "blocked_store = map (\<lambda>n. (dec n, blocked_settlement n)) [0..<50] @ [(''tin'', sample_work\<lparr>w_id := ''tin'', w_status := RECEIVED\<rparr>)]"

lemma dec_ne_word: "c \<in> set s \<Longrightarrow> \<not> is_digit c \<Longrightarrow> dec n \<noteq> s"
  using dec_digits by blast

lemma dec_ne [simp]: "dec n \<noteq> ''tin''" "dec n \<noteq> ''rejected-funding''"
  by (rule dec_ne_word [of "CHR ''t''"], simp, simp) (rule dec_ne_word [of "CHR ''t''"], simp, simp)

lemma map_of_blocked: "map_of (map (\<lambda>n. (dec n, g n)) ns) s = None" if "\<And>n. dec n \<noteq> s"
  using that by (induction ns) auto

lemma lease_first_none: "\<forall>(i, w) \<in> set cs. \<not> eligible a kinds w db \<Longrightarrow> lease_first a owner kinds now cs db = None"
  by (induction cs) auto

text \<open>
  The window of 50 candidates is taken before eligibility is checked, so it can hide eligible
  work: with 50 settlements queued whose funding never confirms, a Node is never given the
  eligible work behind them, however often and whenever it asks.
\<close>

theorem lease_window_starves:
  "\<exists>st i w. unique_ids (works st) \<and> map_of (works st) i = Some w \<and> w_status w = ready_status Node \<and>
     eligible Node None w (works st) \<and> (\<forall>owner now. lease Node owner None now st = (None, st))"
proof -
  let ?st = "\<lparr>works = blocked_store, sent = []\<rparr>" and ?w = "sample_work\<lparr>w_id := ''tin'', w_status := RECEIVED\<rparr>"
  have tin: "map_of blocked_store ''tin'' = Some ?w"
    by (simp add: blocked_store_def map_of_blocked map_add_def)
  have none: "map_of blocked_store ''rejected-funding'' = None"
    by (simp add: blocked_store_def map_of_blocked map_add_def)
  have inj: "inj_on dec S" for S by (simp add: inj_on_def)
  have uniq: "unique_ids blocked_store"
    by (simp add: unique_ids_def blocked_store_def distinct_map comp_def inj image_iff dec_ne [symmetric])
  have all: "filter (\<lambda>(i, w). w_status w = RECEIVED) blocked_store = blocked_store"
    by (auto simp: blocked_store_def blocked_settlement_def filter_id_conv)
  have "filter (\<lambda>(i, w). w_status w = NODE_VERIFYING) blocked_store = []"
    by (auto simp: blocked_store_def blocked_settlement_def filter_empty_conv)
  then have requeue: "requeue_all Node now (status_snapshot NODE_VERIFYING blocked_store) blocked_store = blocked_store" for now
    by (simp add: status_snapshot_def limit_rows_def)
  have window: "status_snapshot RECEIVED blocked_store = map (\<lambda>n. (dec n, blocked_settlement n)) [0..<50]"
    unfolding status_snapshot_def all by (simp add: limit_rows_def blocked_store_def)
  have "\<not> eligible Node None (blocked_settlement n) blocked_store" for n
    using none by (simp add: eligible_def blocked_settlement_def funding_confirmed_def)
  then have "lease Node owner None now ?st = (None, ?st)" for owner now
    unfolding lease_def Let_def leased_status.simps ready_status.simps receiver.simps requeue window
    by (subst lease_first_none) auto
  moreover have "eligible Node None ?w blocked_store" by (simp add: eligible_def sample_work_def)
  ultimately show ?thesis using tin uniq by (intro exI [of _ ?st] exI [of _ "''tin''"] exI [of _ ?w]) simp
qed

end
