(* ===== verification/Local_Lock.thy ===== *)
theory Local_Lock
  imports TSN_Prelude
begin

text \<open>
  \<open>withFileLock\<close> of \<open>services/tsn-receiver/lib/local-firestore.ts\<close> as a step relation over the
  processes that compete for the lock file. The file is its modification time while it exists.
  One iteration of the loop is two or three steps, because other processes run between the failing
  \<open>open\<close>, the \<open>stat\<close> and the \<open>unlink\<close>.
\<close>

section \<open>Steps\<close>

datatype lock_pc =
    Outside
  | Opening int    \<comment> \<open>about to \<open>open(lockFile, "wx")\<close>; \<open>startedAt\<close>\<close>
  | Stating int    \<comment> \<open>\<open>open\<close> failed with \<open>EEXIST\<close>\<close>
  | Unlinking int  \<comment> \<open>the lock was judged stale\<close>
  | Inside

record lock_state =
  lock_file :: "int option"
  pc :: "nat \<Rightarrow> lock_pc"
  clock :: int

definition STALE_MS :: int where
  "STALE_MS = 30000"

definition BUSY_MS :: int where
  "BUSY_MS = 10000"

inductive lock_step :: "lock_state \<Rightarrow> lock_state \<Rightarrow> bool" where
  tick: "clock s \<le> t \<Longrightarrow> lock_step s (s\<lparr>clock := t\<rparr>)"
| start: "pc s p = Outside \<Longrightarrow> lock_step s (s\<lparr>pc := (pc s)(p := Opening (clock s))\<rparr>)"
| open_ok: "pc s p = Opening t0 \<Longrightarrow> lock_file s = None \<Longrightarrow>
    lock_step s (s\<lparr>lock_file := Some (clock s), pc := (pc s)(p := Inside)\<rparr>)"
| open_exists: "pc s p = Opening t0 \<Longrightarrow> lock_file s = Some m \<Longrightarrow>
    lock_step s (s\<lparr>pc := (pc s)(p := Stating t0)\<rparr>)"
| stat_stale: "pc s p = Stating t0 \<Longrightarrow> lock_file s = Some m \<Longrightarrow> STALE_MS < clock s - m \<Longrightarrow>
    lock_step s (s\<lparr>pc := (pc s)(p := Unlinking t0)\<rparr>)"
| unlink: "pc s p = Unlinking t0 \<Longrightarrow>
    lock_step s (s\<lparr>lock_file := None, pc := (pc s)(p := Opening t0)\<rparr>)"
| give_up: "pc s p = Stating t0 \<Longrightarrow> (\<forall>m. lock_file s = Some m \<longrightarrow> clock s - m \<le> STALE_MS) \<Longrightarrow>
    BUSY_MS < clock s - t0 \<Longrightarrow> lock_step s (s\<lparr>pc := (pc s)(p := Outside)\<rparr>)"
| retry: "pc s p = Stating t0 \<Longrightarrow> (\<forall>m. lock_file s = Some m \<longrightarrow> clock s - m \<le> STALE_MS) \<Longrightarrow>
    clock s - t0 \<le> BUSY_MS \<Longrightarrow> lock_step s (s\<lparr>pc := (pc s)(p := Opening t0)\<rparr>)"
| leave: "pc s p = Inside \<Longrightarrow> lock_step s (s\<lparr>lock_file := None, pc := (pc s)(p := Outside)\<rparr>)"

text \<open>Steps in which every critical section ends within the stale limit of the lock.\<close>

definition timely :: "lock_state \<Rightarrow> bool" where
  "timely s \<longleftrightarrow> (\<forall>m. lock_file s = Some m \<longrightarrow> clock s - m \<le> STALE_MS)"

definition timely_step :: "lock_state \<Rightarrow> lock_state \<Rightarrow> bool" where
  "timely_step s s' \<longleftrightarrow> lock_step s s' \<and> timely s'"

definition lock_init :: lock_state where
  "lock_init = \<lparr>lock_file = None, pc = (\<lambda>_. Outside), clock = 0\<rparr>"

section \<open>Mutual exclusion\<close>

definition inside :: "lock_state \<Rightarrow> nat set" where
  "inside s = {p. pc s p = Inside}"

definition lock_inv :: "lock_state \<Rightarrow> bool" where
  "lock_inv s \<longleftrightarrow>
     (case lock_file s of None \<Rightarrow> inside s = {} | Some m \<Rightarrow> (\<exists>p. inside s = {p}) \<and> clock s - m \<le> STALE_MS) \<and>
     (\<forall>p t. pc s p \<noteq> Unlinking t)"

lemma inside_upd [simp]:
  "inside (s\<lparr>pc := (pc s)(p := v)\<rparr>) = (if v = Inside then insert p (inside s) else inside s - {p})"
  "inside (s\<lparr>lock_file := f, pc := (pc s)(p := v)\<rparr>) = (if v = Inside then insert p (inside s) else inside s - {p})"
  "inside (s\<lparr>clock := t\<rparr>) = inside s"
  by (auto simp: inside_def)

lemma not_inside: "pc s p \<noteq> Inside \<Longrightarrow> inside s - {p} = inside s"
  by (auto simp: inside_def)

lemma lock_inv_init: "lock_inv lock_init"
  by (simp add: lock_inv_def lock_init_def inside_def)

text \<open>A process that is not inside moves on without touching the file.\<close>

lemma lock_inv_move:
  assumes "lock_inv s" "pc s p \<noteq> Inside" "v \<noteq> Inside" "\<And>t. v \<noteq> Unlinking t"
  shows "lock_inv (s\<lparr>pc := (pc s)(p := v)\<rparr>)"
  using assms by (simp add: lock_inv_def not_inside split: option.splits)

lemma lock_inv_step:
  assumes step: "lock_step s s'" and "timely s'" "lock_inv s"
  shows "lock_inv s'"
  using step
proof cases
  case (stat_stale p t0 m)
  with assms(3) show ?thesis by (simp add: lock_inv_def)
next
  case (open_ok p t0)
  with assms(3) show ?thesis by (simp add: lock_inv_def STALE_MS_def)
next
  case (leave p)
  then have "p \<in> inside s" by (simp add: inside_def)
  with leave assms(3) show ?thesis by (auto simp: lock_inv_def split: option.splits)
next
  case (tick t)
  with assms(2,3) show ?thesis by (auto simp: lock_inv_def timely_def split: option.splits)
next
  case (unlink p t0)
  with assms(3) show ?thesis by (simp add: lock_inv_def)
qed (simp_all add: lock_inv_move assms(3))

lemma lock_inv_reachable: "timely_step\<^sup>*\<^sup>* lock_init s \<Longrightarrow> lock_inv s"
  by (induction rule: rtranclp_induct) (auto simp: lock_inv_init timely_step_def intro: lock_inv_step)

text \<open>
  C13: As long as no critical section outlives the stale limit of 30 seconds, the lock file gives
  mutual exclusion: in every reachable state at most one process is between acquiring and
  releasing the lock, and the lock file exists exactly while one is.
\<close>

theorem file_lock_mutual_exclusion:
  assumes "timely_step\<^sup>*\<^sup>* lock_init s"
  shows "(pc s p = Inside \<longrightarrow> pc s q = Inside \<longrightarrow> p = q) \<and> ((\<exists>p. pc s p = Inside) \<longleftrightarrow> lock_file s \<noteq> None)"
proof -
  have "inside s = {} \<and> lock_file s = None \<or> (\<exists>r. inside s = {r}) \<and> lock_file s \<noteq> None"
    using lock_inv_reachable [OF assms] by (auto simp: lock_inv_def split: option.splits)
  moreover have "pc s r = Inside \<longleftrightarrow> r \<in> inside s" for r by (simp add: inside_def)
  ultimately show ?thesis by auto
qed

lemma timely_run:
  "timely_step\<^sup>*\<^sup>* lock_init
     \<lparr>lock_file = Some 0, pc = ((\<lambda>_. Outside)(1 := Opening 0))(1 := Inside), clock = 0\<rparr>"
proof -
  let ?a = "lock_init\<lparr>pc := (pc lock_init)(1 := Opening 0)\<rparr>"
  have "timely_step lock_init ?a"
    using lock_step.start [of lock_init 1] by (simp add: timely_step_def timely_def lock_init_def)
  moreover have "timely_step ?a (?a\<lparr>lock_file := Some 0, pc := (pc ?a)(1 := Inside)\<rparr>)"
    using lock_step.open_ok [of ?a 1 0] by (simp add: timely_step_def timely_def lock_init_def STALE_MS_def)
  ultimately have "timely_step\<^sup>*\<^sup>* lock_init (?a\<lparr>lock_file := Some 0, pc := (pc ?a)(1 := Inside)\<rparr>)" by auto
  then show ?thesis by (simp add: lock_init_def)
qed

theorem file_lock_mutual_exclusion_witness:
  "(\<exists>p. pc \<lparr>lock_file = Some 0, pc = ((\<lambda>_. Outside)(1 := Opening 0))(1 := Inside), clock = 0\<rparr> p = Inside)"
  by (rule iffD2 [OF conjunct2 [OF file_lock_mutual_exclusion [OF timely_run]]]) simp

section \<open>The stale take-over\<close>

text \<open>
  Two waiting processes may both judge the lock of a dead process stale. The second \<open>unlink\<close> then
  removes the lock that the first has just acquired.
\<close>

definition three :: "int option \<Rightarrow> lock_pc \<Rightarrow> lock_pc \<Rightarrow> lock_pc \<Rightarrow> int \<Rightarrow> lock_state" where
  "three f a b c t =
     \<lparr>lock_file = f, pc = (\<lambda>p. if p = 0 then a else if p = 1 then b else if p = 2 then c else Outside), clock = t\<rparr>"

lemma three_simps [simp]:
  "lock_file (three f a b c t) = f" "clock (three f a b c t) = t"
  "pc (three f a b c t) 0 = a" "pc (three f a b c t) (Suc 0) = b" "pc (three f a b c t) 2 = c"
  "(three f a b c t)\<lparr>clock := u\<rparr> = three f a b c u"
  "(three f a b c t)\<lparr>pc := (pc (three f a b c t))(0 := v)\<rparr> = three f v b c t"
  "(three f a b c t)\<lparr>pc := (pc (three f a b c t))(Suc 0 := v)\<rparr> = three f a v c t"
  "(three f a b c t)\<lparr>pc := (pc (three f a b c t))(2 := v)\<rparr> = three f a b v t"
  "(three f a b c t)\<lparr>lock_file := g, pc := (pc (three f a b c t))(0 := v)\<rparr> = three g v b c t"
  "(three f a b c t)\<lparr>lock_file := g, pc := (pc (three f a b c t))(Suc 0 := v)\<rparr> = three g a v c t"
  "(three f a b c t)\<lparr>lock_file := g, pc := (pc (three f a b c t))(2 := v)\<rparr> = three g a b v t"
  by (auto simp: three_def fun_eq_iff)

lemma takeover_run:
  "lock_step\<^sup>*\<^sup>* (three None Outside Outside Outside 0) (three (Some 30001) Inside Inside Inside 30001)"
proof -
  let ?s = lock_step
  have s1: "?s (three None Outside Outside Outside 0) (three None (Opening 0) Outside Outside 0)"
    using lock_step.start [of "three None Outside Outside Outside 0" 0] by simp
  have s2: "?s (three None (Opening 0) Outside Outside 0) (three (Some 0) Inside Outside Outside 0)"
    using lock_step.open_ok [of "three None (Opening 0) Outside Outside 0" 0] by simp
  have s3: "?s (three (Some 0) Inside Outside Outside 0) (three (Some 0) Inside Outside Outside 30001)"
    using lock_step.tick [of "three (Some 0) Inside Outside Outside 0" 30001] by simp
  have s4: "?s (three (Some 0) Inside Outside Outside 30001) (three (Some 0) Inside (Opening 30001) Outside 30001)"
    using lock_step.start [of "three (Some 0) Inside Outside Outside 30001" "Suc 0"] by simp
  have s5: "?s (three (Some 0) Inside (Opening 30001) Outside 30001) (three (Some 0) Inside (Stating 30001) Outside 30001)"
    using lock_step.open_exists [of "three (Some 0) Inside (Opening 30001) Outside 30001" "Suc 0"] by simp
  have s6: "?s (three (Some 0) Inside (Stating 30001) Outside 30001) (three (Some 0) Inside (Unlinking 30001) Outside 30001)"
    using lock_step.stat_stale [of "three (Some 0) Inside (Stating 30001) Outside 30001" "Suc 0"]
    by (simp add: STALE_MS_def)
  have s7: "?s (three (Some 0) Inside (Unlinking 30001) Outside 30001) (three (Some 0) Inside (Unlinking 30001) (Opening 30001) 30001)"
    using lock_step.start [of "three (Some 0) Inside (Unlinking 30001) Outside 30001" 2] by simp
  have s8: "?s (three (Some 0) Inside (Unlinking 30001) (Opening 30001) 30001) (three (Some 0) Inside (Unlinking 30001) (Stating 30001) 30001)"
    using lock_step.open_exists [of "three (Some 0) Inside (Unlinking 30001) (Opening 30001) 30001" 2] by simp
  have s9: "?s (three (Some 0) Inside (Unlinking 30001) (Stating 30001) 30001) (three (Some 0) Inside (Unlinking 30001) (Unlinking 30001) 30001)"
    using lock_step.stat_stale [of "three (Some 0) Inside (Unlinking 30001) (Stating 30001) 30001" 2]
    by (simp add: STALE_MS_def)
  have s10: "?s (three (Some 0) Inside (Unlinking 30001) (Unlinking 30001) 30001) (three None Inside (Opening 30001) (Unlinking 30001) 30001)"
    using lock_step.unlink [of "three (Some 0) Inside (Unlinking 30001) (Unlinking 30001) 30001" "Suc 0"] by simp
  have s11: "?s (three None Inside (Opening 30001) (Unlinking 30001) 30001) (three (Some 30001) Inside Inside (Unlinking 30001) 30001)"
    using lock_step.open_ok [of "three None Inside (Opening 30001) (Unlinking 30001) 30001" "Suc 0"] by simp
  have s12: "?s (three (Some 30001) Inside Inside (Unlinking 30001) 30001) (three None Inside Inside (Opening 30001) 30001)"
    using lock_step.unlink [of "three (Some 30001) Inside Inside (Unlinking 30001) 30001" 2] by simp
  have s13: "?s (three None Inside Inside (Opening 30001) 30001) (three (Some 30001) Inside Inside Inside 30001)"
    using lock_step.open_ok [of "three None Inside Inside (Opening 30001) 30001" 2] by simp
  note step = converse_rtranclp_into_rtranclp [of lock_step]
  show ?thesis
    by (rule step [OF s1], rule step [OF s2], rule step [OF s3], rule step [OF s4], rule step [OF s5], rule step [OF s6], rule step [OF s7], rule step [OF s8], rule step [OF s9], rule step [OF s10], rule step [OF s11], rule step [OF s12], rule step [OF s13], rule rtranclp.rtrancl_refl)
qed

text \<open>
  The stale take-over is not exclusive: there is a run in which a process leaves a lock behind
  for more than 30 seconds and two other processes, both of which had judged it stale, hold the
  lock at the same time.
\<close>

theorem stale_takeover_not_exclusive:
  "\<exists>s. lock_step\<^sup>*\<^sup>* lock_init s \<and> pc s 1 = Inside \<and> pc s 2 = Inside"
proof -
  have "lock_init = three None Outside Outside Outside 0" by (auto simp: lock_init_def three_def)
  with takeover_run show ?thesis by (intro exI [of _ "three (Some 30001) Inside Inside Inside 30001"]) simp
qed

end
