(* ===== verification/Cranker_Auth.thy ===== *)
theory Cranker_Auth
  imports Receiver_Store
begin

text \<open>
  \<open>services/tsn-receiver/lib/cranker-auth.ts\<close>: admission of Crankers by their Mother-DNA accounts,
  one-time challenges, sessions with strictly increasing request counters, and the lease rate limit.
  Each transaction of the source is one function; \<open>now\<close> is the clock, \<open>nonce\<close>, \<open>sessionId\<close> and
  \<open>token\<close> are the random texts a call draws. The Solana client is the record \<open>chain\<close>.
\<close>

section \<open>State\<close>

record challenge_row =
  c_publicKey :: string
  c_nonce :: string
  c_expiresAt :: int
  c_used :: bool

record session_row =
  s_publicKey :: string
  s_tokenHash :: string
  s_createdAt :: int
  s_expiresAt :: int
  s_lastSeenAt :: int
  s_lastCounter :: int

record rate_row =
  r_publicKey :: string
  r_bucket :: string
  r_count :: int
  r_updatedAt :: int

record auth_db =
  challenges :: "challenge_row collection"
  sessions :: "session_row collection"
  rates :: "rate_row collection"

definition CHALLENGE_TTL_MS :: int where "CHALLENGE_TTL_MS = 60000"
definition CRANKER_SESSION_TTL_MS :: int where "CRANKER_SESSION_TTL_MS = 30 * 60000"
definition CRANKER_SESSION_IDLE_TTL_MS :: int where "CRANKER_SESSION_IDLE_TTL_MS = 5 * 60000"
definition MAX_LEASE_ATTEMPTS_PER_MINUTE :: int where "MAX_LEASE_ATTEMPTS_PER_MINUTE = 30"

section \<open>Mother-DNA admission\<close>

record account_info =
  a_owner :: byte_list
  a_data :: byte_list

text \<open>
  The Solana client: parsing a public key, program-derived addresses, and the outcome of reading
  the two accounts in an attempt at an endpoint (the pair, or the name and message of an error).
\<close>

record chain =
  ch_public_key :: "string \<Rightarrow> byte_list option"
  ch_program_address :: "byte_list list \<Rightarrow> byte_list \<Rightarrow> byte_list"
  ch_accounts :: "nat \<Rightarrow> string \<Rightarrow> byte_list \<Rightarrow> byte_list \<Rightarrow> (account_info option \<times> account_info option) result"

definition VERIFIED_TSN_PROGRAM_ID :: string where
  "VERIFIED_TSN_PROGRAM_ID = ''TSN31jddtsmUg4D5aEdhY31nwB1e53VJJg9X8NoRP8V''"

definition transient_error :: "string \<Rightarrow> bool" where
  "transient_error message \<longleftrightarrow> list_ex (\<lambda>w. js_includes (lower message) (lower w))
     [''fetch failed'', ''timeout'', ''timed out'', ''ECONNRESET'', ''EAI_AGAIN'', ''UND_ERR_CONNECT'']"

text \<open>The endpoints in turn until one answers; the last error counts.\<close>

fun try_endpoints ::
  "(string \<Rightarrow> (account_info option \<times> account_info option) result) \<Rightarrow> string list \<Rightarrow> (account_info option \<times> account_info option) result" where
  "try_endpoints ask [] = Inr (None, None)"
| "try_endpoints ask [url] = ask url"
| "try_endpoints ask (url # u # us) = (case ask url of Inr r \<Rightarrow> Inr r | Inl e \<Rightarrow> try_endpoints ask (u # us))"

text \<open>Up to three attempts; a failure that is not transient ends them.\<close>

fun lookup_attempts ::
  "nat \<Rightarrow> (nat \<Rightarrow> (account_info option \<times> account_info option) result) \<Rightarrow> nat \<Rightarrow> (account_info option \<times> account_info option) option" where
  "lookup_attempts 0 attempt n = None"
| "lookup_attempts (Suc k) attempt n =
     (case attempt n of
        Inr r \<Rightarrow> Some r
      | Inl e \<Rightarrow> if transient_error e then lookup_attempts k attempt (Suc n) else None)"

definition subarray :: "byte_list \<Rightarrow> nat \<Rightarrow> nat \<Rightarrow> byte_list" where
  "subarray bs i j = take (j - i) (drop i bs)"

definition check_dna :: "host \<Rightarrow> byte_list \<Rightarrow> byte_list \<Rightarrow> byte_list \<Rightarrow> byte_list \<Rightarrow> unit result" where
  "check_dna h mother operator motherData crankerData =
     and_then (require (\<not> (length motherData < 104 \<or> length crankerData < 104)) ''CRANKER_ACCOUNT_LAYOUT_INVALID'') (\<lambda>_.
     and_then (require (subarray crankerData 8 40 = mother) ''CRANKER_MOTHER_DNA_MISMATCH'') (\<lambda>_.
     and_then (require (subarray crankerData 40 72 = operator) ''CRANKER_OPERATOR_MISMATCH'') (\<lambda>_.
     require (subarray crankerData 72 104
                = sha256 h (utf8 ''tsn_dna'' @ mother @ operator @ subarray motherData 72 104))
       ''CRANKER_MOTHER_DNA_MISMATCH'')))"

definition assertMotherDnaCranker :: "host \<Rightarrow> chain \<Rightarrow> string list \<Rightarrow> string \<Rightarrow> unit result" where
  "assertMotherDnaCranker h ch urls operatorText =
     (case ch_public_key ch operatorText of
        None \<Rightarrow> Inl ''CRANKER_PUBLIC_KEY_INVALID''
      | Some operator \<Rightarrow>
          (let program = the (ch_public_key ch VERIFIED_TSN_PROGRAM_ID);
               mother = ch_program_address ch [utf8 ''tsn_mother_escrow''] program;
               cranker = ch_program_address ch [utf8 ''tsn_cranker'', mother, operator] program
           in (case lookup_attempts 3 (\<lambda>n. try_endpoints (\<lambda>url. ch_accounts ch n url mother cranker) urls) 1 of
                 None \<Rightarrow> Inl ''CRANKER_RPC_UNAVAILABLE: Mother-DNA lookup failed at the configured RPC endpoint after retries''
               | Some (Some m, Some c) \<Rightarrow>
                   if a_owner m = program \<and> a_owner c = program
                   then check_dna h mother operator (a_data m) (a_data c)
                   else Inl ''CRANKER_MOTHER_DNA_NOT_FOUND''
               | Some _ \<Rightarrow> Inl ''CRANKER_MOTHER_DNA_NOT_FOUND'')))"

section \<open>Challenges\<close>

definition challengeId :: "host \<Rightarrow> string \<Rightarrow> string \<Rightarrow> string" where
  "challengeId h publicKey nonce = sha256_hex h (publicKey @ ''|'' @ nonce)"

definition matching_ids :: "('r \<Rightarrow> bool) \<Rightarrow> 'r collection \<Rightarrow> string list" where
  "matching_ids P c = map fst (limit_rows (Some 100) (filter (\<lambda>(i, r). P r) c))"

definition pruneCrankerChallenges :: "int \<Rightarrow> challenge_row collection \<Rightarrow> challenge_row collection" where
  "pruneCrankerChallenges now c =
     fold AList.delete (js_uniq (matching_ids c_used c @ matching_ids (\<lambda>r. c_expiresAt r \<le> now) c)) c"

definition pruneCrankerSessions :: "int \<Rightarrow> session_row collection \<Rightarrow> session_row collection" where
  "pruneCrankerSessions now c =
     fold AList.delete (js_uniq (matching_ids (\<lambda>r. s_expiresAt r \<le> now) c
       @ matching_ids (\<lambda>r. s_lastSeenAt r \<le> now - CRANKER_SESSION_IDLE_TTL_MS) c)) c"

definition issueCrankerChallenge ::
  "host \<Rightarrow> chain \<Rightarrow> string list \<Rightarrow> int \<Rightarrow> string \<Rightarrow> string \<Rightarrow> auth_db \<Rightarrow> (string \<times> int) result \<times> auth_db" where
  "issueCrankerChallenge h ch urls now nonce publicKey db =
     (case assertMotherDnaCranker h ch urls publicKey of
        Inl e \<Rightarrow> (Inl e, db)
      | Inr _ \<Rightarrow>
          (let db' = db\<lparr>challenges := pruneCrankerChallenges now (challenges db), sessions := pruneCrankerSessions now (sessions db)\<rparr>;
               i = challengeId h publicKey nonce
           in if map_of (challenges db') i \<noteq> None then (Inl ''ALREADY_EXISTS'', db')
              else (Inr (nonce, now + CHALLENGE_TTL_MS),
                    db'\<lparr>challenges := AList.update i
                      \<lparr>c_publicKey = publicKey, c_nonce = nonce, c_expiresAt = now + CHALLENGE_TTL_MS, c_used = False\<rparr>
                      (challenges db')\<rparr>)))"

section \<open>Request texts\<close>

definition canonicalSessionRequest :: "host \<Rightarrow> string \<Rightarrow> string \<Rightarrow> string \<Rightarrow> string \<Rightarrow> string \<Rightarrow> string \<Rightarrow> string" where
  "canonicalSessionRequest h method path timestamp sessionId counter body =
     ''TSN_RECEIVER_CRANKER_SESSION_REQUEST_V1|'' @ upper method @ ''|'' @ path @ ''|'' @ timestamp @ ''|''
       @ sessionId @ ''|'' @ counter @ ''|'' @ sha256_hex h body"

definition sessionChallengeMessage :: "string \<Rightarrow> string \<Rightarrow> string \<Rightarrow> string" where
  "sessionChallengeMessage publicKey timestamp nonce =
     ''TSN_RECEIVER_CRANKER_SESSION_V1|'' @ publicKey @ ''|'' @ timestamp @ ''|'' @ nonce"

definition validTimestamp :: "int \<Rightarrow> string \<Rightarrow> bool" where
  "validTimestamp now timestamp \<longleftrightarrow> \<bar>now - int (dec_val timestamp) * 1000\<bar> \<le> CHALLENGE_TTL_MS"

definition url_token_char :: "char \<Rightarrow> bool" where
  "url_token_char c \<longleftrightarrow> is_digit c \<or> 65 \<le> code c \<and> code c \<le> 90 \<or> 97 \<le> code c \<and> code c \<le> 122 \<or> c = CHR ''_'' \<or> c = CHR ''-''"

definition signature_char :: "char \<Rightarrow> bool" where
  "signature_char c \<longleftrightarrow> url_token_char c \<or> c = CHR ''+'' \<or> c = CHR ''/''"

definition is_public_key_text :: "string \<Rightarrow> bool" where
  "is_public_key_text s \<longleftrightarrow> 32 \<le> length s \<and> length s \<le> 44 \<and> list_all (\<lambda>c. b58_index c \<noteq> None) s"

definition is_url_token :: "nat \<Rightarrow> string \<Rightarrow> bool" where
  "is_url_token n s \<longleftrightarrow> length s = n \<and> list_all url_token_char s"

definition is_digits :: "nat \<Rightarrow> string \<Rightarrow> bool" where
  "is_digits n s \<longleftrightarrow> 1 \<le> length s \<and> length s \<le> n \<and> list_all is_digit s"

text \<open>\<open>/^[A-Za-z0-9+/_-]{86,88}={0,2}$/\<close>: the class does not contain the padding character.\<close>

definition decodeSignature :: "host \<Rightarrow> string \<Rightarrow> byte_list result" where
  "decodeSignature h signature =
     (let head = takeWhile (\<lambda>c. c \<noteq> CHR ''='') signature; tail = dropWhile (\<lambda>c. c \<noteq> CHR ''='') signature in
      if \<not> (86 \<le> length head \<and> length head \<le> 88 \<and> list_all signature_char head \<and> length tail \<le> 2 \<and> list_all (\<lambda>c. c = CHR ''='') tail)
      then Inl ''CRANKER_SIGNATURE_INVALID''
      else (let bytes = base64_decode h (map from_url_char signature) in
            if length bytes \<noteq> 64 then Inl ''CRANKER_SIGNATURE_INVALID'' else Inr bytes))"

definition verify_text :: "host \<Rightarrow> string \<Rightarrow> string \<Rightarrow> string \<Rightarrow> unit result" where
  "verify_text h publicKey message signature =
     and_then (decodeBase58 ''CRANKER_PUBLIC_KEY_INVALID'' publicKey) (\<lambda>key.
     and_then (decodeSignature h signature) (\<lambda>sig.
       require (ed25519_verify h key (utf8 message) sig) ''CRANKER_SIGNATURE_INVALID''))"

section \<open>Sessions\<close>

definition consume_challenge_tx :: "int \<Rightarrow> string \<Rightarrow> string \<Rightarrow> challenge_row collection \<Rightarrow> challenge_row collection option" where
  "consume_challenge_tx now publicKey i c =
     (case map_of c i of
        None \<Rightarrow> None
      | Some r \<Rightarrow> if c_used r \<or> c_publicKey r \<noteq> publicKey \<or> c_expiresAt r \<le> now then None
                  else Some (AList.update i (r\<lparr>c_used := True\<rparr>) c))"

definition check_session_input :: "host \<Rightarrow> int \<Rightarrow> string \<Rightarrow> string \<Rightarrow> string \<Rightarrow> string \<Rightarrow> unit result" where
  "check_session_input h now publicKey nonce timestamp signature =
     and_then (require (is_public_key_text publicKey \<and> is_url_token 43 nonce \<and> is_digits 13 timestamp \<and> signature \<noteq> [])
                 ''CRANKER_SESSION_INPUT_INVALID'') (\<lambda>_.
     and_then (require (validTimestamp now timestamp) ''CRANKER_REQUEST_EXPIRED'') (\<lambda>_.
     verify_text h publicKey (sessionChallengeMessage publicKey timestamp nonce) signature))"

definition issueCrankerSession ::
  "host \<Rightarrow> int \<Rightarrow> string \<Rightarrow> string \<Rightarrow> string \<Rightarrow> string \<Rightarrow> string \<Rightarrow> string \<Rightarrow> auth_db \<Rightarrow> (string \<times> string \<times> int) result \<times> auth_db" where
  "issueCrankerSession h now sessionId token publicKey nonce timestamp signature db =
     (case check_session_input h now publicKey nonce timestamp signature of
        Inl e \<Rightarrow> (Inl e, db)
      | Inr _ \<Rightarrow>
          (case consume_challenge_tx now publicKey (challengeId h publicKey nonce) (challenges db) of
             None \<Rightarrow> (Inl ''CRANKER_CHALLENGE_INVALID_OR_REPLAYED'', db)
           | Some c \<Rightarrow>
               (let db' = db\<lparr>challenges := c\<rparr> in
                if map_of (sessions db) sessionId \<noteq> None then (Inl ''ALREADY_EXISTS'', db')
                else (Inr (sessionId, token, now + CRANKER_SESSION_TTL_MS),
                      db'\<lparr>sessions := AList.update sessionId
                        \<lparr>s_publicKey = publicKey, s_tokenHash = sha256_hex h token, s_createdAt = now,
                         s_expiresAt = now + CRANKER_SESSION_TTL_MS, s_lastSeenAt = now, s_lastCounter = 0\<rparr>
                        (sessions db')\<rparr>))))"

definition session_tx ::
  "host \<Rightarrow> int \<Rightarrow> string \<Rightarrow> string \<Rightarrow> string \<Rightarrow> int \<Rightarrow> session_row collection \<Rightarrow> session_row collection result" where
  "session_tx h now publicKey sessionId token counter c =
     (case map_of c sessionId of
        None \<Rightarrow> Inl ''CRANKER_SESSION_INVALID''
      | Some r \<Rightarrow>
          and_then (require (s_publicKey r = publicKey) ''CRANKER_SESSION_INVALID'') (\<lambda>_.
          and_then (require (is_hex64 (s_tokenHash r) \<and> from_hex (s_tokenHash r) = sha256 h (utf8 token)) ''CRANKER_SESSION_INVALID'') (\<lambda>_.
          and_then (require (now < s_expiresAt r \<and> now - s_lastSeenAt r \<le> CRANKER_SESSION_IDLE_TTL_MS) ''CRANKER_SESSION_EXPIRED'') (\<lambda>_.
          and_then (require (safe_integer (s_lastCounter r) \<and> 0 \<le> s_lastCounter r \<and> s_lastCounter r < counter) ''CRANKER_REQUEST_REPLAYED'') (\<lambda>_.
          Inr (AList.update sessionId (r\<lparr>s_lastCounter := counter, s_lastSeenAt := now\<rparr>) c))))))"

record auth_headers =
  x_public_key :: "string option"
  x_session_id :: "string option"
  x_session_token :: "string option"
  x_counter :: "string option"
  x_timestamp :: "string option"
  x_signature :: "string option"

definition check_request :: "host \<Rightarrow> int \<Rightarrow> auth_headers \<Rightarrow> string \<Rightarrow> string \<Rightarrow> string \<Rightarrow> unit result" where
  "check_request h now hdrs body method path =
     (let publicKey = env_trim (x_public_key hdrs); sessionId = env_trim (x_session_id hdrs);
          token = env_trim (x_session_token hdrs); counter = env_trim (x_counter hdrs);
          timestamp = env_trim (x_timestamp hdrs); signature = env_trim (x_signature hdrs)
      in and_then (require (is_public_key_text publicKey \<and> is_url_token 32 sessionId \<and> is_url_token 43 token
                            \<and> is_digits 16 counter \<and> is_digits 13 timestamp \<and> signature \<noteq> []) ''CRANKER_SESSION_INPUT_INVALID'') (\<lambda>_.
         and_then (require (validTimestamp now timestamp) ''CRANKER_REQUEST_EXPIRED'') (\<lambda>_.
         and_then (require (safe_integer (int (dec_val counter)) \<and> 1 \<le> dec_val counter) ''CRANKER_REQUEST_COUNTER_INVALID'') (\<lambda>_.
         verify_text h publicKey (canonicalSessionRequest h method path timestamp sessionId counter body) signature))))"

definition authenticateCrankerRequest ::
  "host \<Rightarrow> int \<Rightarrow> auth_headers \<Rightarrow> string \<Rightarrow> string \<Rightarrow> string \<Rightarrow> auth_db \<Rightarrow> string result \<times> auth_db" where
  "authenticateCrankerRequest h now hdrs body method path db =
     (case and_then (check_request h now hdrs body method path) (\<lambda>_.
             session_tx h now (env_trim (x_public_key hdrs)) (env_trim (x_session_id hdrs)) (env_trim (x_session_token hdrs))
               (int (dec_val (env_trim (x_counter hdrs)))) (sessions db)) of
        Inl e \<Rightarrow> (Inl e, db)
      | Inr c \<Rightarrow> (Inr (env_trim (x_public_key hdrs)), db\<lparr>sessions := c\<rparr>))"

section \<open>Rate limit\<close>

definition pruneCrankerRateLimits :: "int \<Rightarrow> rate_row collection \<Rightarrow> rate_row collection" where
  "pruneCrankerRateLimits before c = fold AList.delete (matching_ids (\<lambda>r. r_updatedAt r \<le> before) c) c"

definition rate_bucket :: "string \<Rightarrow> int \<Rightarrow> string" where
  "rate_bucket publicKey now = publicKey @ ''|'' @ int_str (now div 60000)"

definition rate_tx :: "host \<Rightarrow> int \<Rightarrow> string \<Rightarrow> rate_row collection \<Rightarrow> rate_row collection option" where
  "rate_tx h now publicKey c =
     (let bucket = rate_bucket publicKey now; i = sha256_hex h bucket;
          count = (case map_of c i of None \<Rightarrow> 0 | Some r \<Rightarrow> r_count r)
      in if MAX_LEASE_ATTEMPTS_PER_MINUTE \<le> count then None
         else Some (AList.update i \<lparr>r_publicKey = publicKey, r_bucket = bucket, r_count = count + 1, r_updatedAt = now\<rparr> c))"

definition enforceCrankerLeaseRateLimit :: "host \<Rightarrow> int \<Rightarrow> string \<Rightarrow> auth_db \<Rightarrow> unit result \<times> auth_db" where
  "enforceCrankerLeaseRateLimit h now publicKey db =
     (let c = pruneCrankerRateLimits (now - 60000) (rates db) in
      (case rate_tx h now publicKey c of
         None \<Rightarrow> (Inl ''CRANKER_LEASE_RATE_LIMITED'', db\<lparr>rates := c\<rparr>)
       | Some c' \<Rightarrow> (Inr (), db\<lparr>rates := c'\<rparr>)))"

section \<open>Sequences of requests\<close>

datatype auth_op =
    OpChallenge int string string
  | OpSession int string string string string string string
  | OpRequest int auth_headers string string string
  | OpLease int string

fun exec_auth :: "host \<Rightarrow> chain \<Rightarrow> string list \<Rightarrow> auth_op \<Rightarrow> auth_db \<Rightarrow> auth_db" where
  "exec_auth h ch urls (OpChallenge now nonce pk) db = snd (issueCrankerChallenge h ch urls now nonce pk db)"
| "exec_auth h ch urls (OpSession now sid token pk nonce ts sig) db = snd (issueCrankerSession h now sid token pk nonce ts sig db)"
| "exec_auth h ch urls (OpRequest now hdrs body method path) db = snd (authenticateCrankerRequest h now hdrs body method path db)"
| "exec_auth h ch urls (OpLease now pk) db = snd (enforceCrankerLeaseRateLimit h now pk db)"

definition exec_auths :: "host \<Rightarrow> chain \<Rightarrow> string list \<Rightarrow> auth_op list \<Rightarrow> auth_db \<Rightarrow> auth_db" where
  "exec_auths h ch urls ops db = fold (exec_auth h ch urls) ops db"

fun opens_session :: "string \<Rightarrow> auth_op \<Rightarrow> bool" where
  "opens_session sid (OpSession now s token pk nonce ts sig) = (s = sid)"
| "opens_session sid _ = False"

definition counter_at_least :: "string \<Rightarrow> int \<Rightarrow> session_row collection \<Rightarrow> bool" where
  "counter_at_least sid c ss = (case map_of ss sid of None \<Rightarrow> True | Some r \<Rightarrow> c \<le> s_lastCounter r)"

lemma counter_prune: "counter_at_least sid c ss \<Longrightarrow> counter_at_least sid c (pruneCrankerSessions now ss)"
  by (auto simp: counter_at_least_def pruneCrankerSessions_def docs.lookup_remove_all split: option.splits)

lemma session_tx_Inr:
  assumes "session_tx h now pk sid token counter ss = Inr ss'"
  shows "\<exists>r. map_of ss sid = Some r \<and> s_publicKey r = pk \<and> s_lastCounter r < counter \<and> now < s_expiresAt r \<and>
    now - s_lastSeenAt r \<le> CRANKER_SESSION_IDLE_TTL_MS \<and> from_hex (s_tokenHash r) = sha256 h (utf8 token) \<and>
    ss' = AList.update sid (r\<lparr>s_lastCounter := counter, s_lastSeenAt := now\<rparr>) ss"
  using assms by (auto simp: session_tx_def split: option.splits)

lemma counter_session_tx:
  assumes "session_tx h now pk s token counter ss = Inr ss'" "counter_at_least sid c ss"
  shows "counter_at_least sid c ss'"
  using session_tx_Inr [OF assms(1)] assms(2)
  by (auto simp: counter_at_least_def docs.lookup_put split: option.splits)

lemma counter_exec:
  assumes "counter_at_least sid c (sessions db)" "\<not> opens_session sid op"
  shows "counter_at_least sid c (sessions (exec_auth h ch urls op db))"
proof (cases op)
  case (OpChallenge now nonce pk)
  then show ?thesis
    using assms counter_prune by (auto simp: issueCrankerChallenge_def Let_def split: sum.splits)
next
  case (OpSession now s token pk nonce ts sig)
  then show ?thesis
    using assms
    by (auto simp: issueCrankerSession_def Let_def counter_at_least_def docs.lookup_put split: sum.splits option.splits)
next
  case (OpRequest now hdrs body meth path)
  then show ?thesis
    using assms counter_session_tx
    by (auto simp: authenticateCrankerRequest_def split: sum.splits)
next
  case (OpLease now pk)
  then show ?thesis using assms by (auto simp: enforceCrankerLeaseRateLimit_def Let_def split: option.splits)
qed

lemma counter_execs:
  "counter_at_least sid c (sessions db) \<Longrightarrow> \<forall>op \<in> set ops. \<not> opens_session sid op \<Longrightarrow>
     counter_at_least sid c (sessions (exec_auths h ch urls ops db))"
  unfolding exec_auths_def by (induction ops arbitrary: db) (auto simp: counter_exec)

text \<open>
  C14: A signed request is accepted at most once. After a request with some counter has been
  accepted in a session, then whatever other challenges, sessions, requests and leases follow, every
  request in that session with the same or a smaller counter is refused and changes nothing.
\<close>

theorem request_counter_prevents_replay:
  assumes "authenticateCrankerRequest h now hdrs body method path db = (Inr pk, db1)"
    and "\<forall>op \<in> set ops. \<not> opens_session (env_trim (x_session_id hdrs)) op"
    and "env_trim (x_session_id hdrs') = env_trim (x_session_id hdrs)"
    and "dec_val (env_trim (x_counter hdrs')) \<le> dec_val (env_trim (x_counter hdrs))"
    and "db2 = exec_auths h ch urls ops db1"
  shows "\<exists>e. authenticateCrankerRequest h now' hdrs' body' method' path' db2 = (Inl e, db2)"
proof -
  let ?sid = "env_trim (x_session_id hdrs)" and ?c = "int (dec_val (env_trim (x_counter hdrs)))"
  from assms(1) obtain ss where "session_tx h now (env_trim (x_public_key hdrs)) ?sid (env_trim (x_session_token hdrs)) ?c
      (sessions db) = Inr ss" and db1: "db1 = db\<lparr>sessions := ss\<rparr>"
    by (auto simp: authenticateCrankerRequest_def split: sum.splits)
  then have "counter_at_least ?sid ?c (sessions db1)"
    by (auto simp: counter_at_least_def docs.lookup_put dest!: session_tx_Inr)
  then have later: "counter_at_least ?sid ?c (sessions db2)"
    unfolding assms(5) using assms(2) by (rule counter_execs)
  have "session_tx h now' pk' ?sid token (int (dec_val (env_trim (x_counter hdrs')))) (sessions db2) \<noteq> Inr x" for pk' token x
  proof
    assume "session_tx h now' pk' ?sid token (int (dec_val (env_trim (x_counter hdrs')))) (sessions db2) = Inr x"
    from session_tx_Inr [OF this] later assms(4) show False by (auto simp: counter_at_least_def)
  qed
  then show ?thesis
    using assms(3) by (auto simp: authenticateCrankerRequest_def split: sum.splits)
qed

section \<open>Challenges are used once\<close>

fun issues_challenge :: "host \<Rightarrow> string \<Rightarrow> auth_op \<Rightarrow> bool" where
  "issues_challenge h i (OpChallenge now nonce pk) = (challengeId h pk nonce = i)"
| "issues_challenge h i _ = False"

definition challenge_spent :: "string \<Rightarrow> challenge_row collection \<Rightarrow> bool" where
  "challenge_spent i c = (case map_of c i of None \<Rightarrow> True | Some r \<Rightarrow> c_used r)"

lemma spent_prune: "challenge_spent i c \<Longrightarrow> challenge_spent i (pruneCrankerChallenges now c)"
  by (auto simp: challenge_spent_def pruneCrankerChallenges_def docs.lookup_remove_all split: option.splits)

lemma consume_challenge_Some:
  assumes "consume_challenge_tx now pk j c = Some c'"
  shows "\<exists>r. map_of c j = Some r \<and> \<not> c_used r \<and> c_publicKey r = pk \<and> now < c_expiresAt r \<and>
           c' = AList.update j (r\<lparr>c_used := True\<rparr>) c"
  using assms by (auto simp: consume_challenge_tx_def split: option.splits if_splits)

lemma spent_consume: "consume_challenge_tx now pk j c = Some c' \<Longrightarrow> challenge_spent i c \<Longrightarrow> challenge_spent i c'"
  by (auto simp: challenge_spent_def docs.lookup_put dest!: consume_challenge_Some)

lemma spent_exec:
  assumes "challenge_spent i (challenges db)" "\<not> issues_challenge h i op"
  shows "challenge_spent i (challenges (exec_auth h ch urls op db))"
proof (cases op)
  case (OpChallenge now nonce pk)
  then show ?thesis
    using assms spent_prune
    by (auto simp: issueCrankerChallenge_def Let_def challenge_spent_def docs.lookup_put split: sum.splits)
next
  case (OpSession now s token pk nonce ts sig)
  then show ?thesis
    using assms
    by (auto simp: issueCrankerSession_def Let_def spent_consume split: sum.splits option.splits)
qed (use assms in \<open>auto simp: authenticateCrankerRequest_def enforceCrankerLeaseRateLimit_def Let_def split: sum.splits option.splits\<close>)

lemma spent_execs:
  "challenge_spent i (challenges db) \<Longrightarrow> \<forall>op \<in> set ops. \<not> issues_challenge h i op \<Longrightarrow>
     challenge_spent i (challenges (exec_auths h ch urls ops db))"
  unfolding exec_auths_def by (induction ops arbitrary: db) (auto simp: spent_exec)

text \<open>
  A challenge opens at most one session. A session is issued only against an unused, unexpired
  challenge of the same public key, with a signature of that key over the challenge; afterwards, as
  long as the same challenge is not issued anew, no second session is issued for it.
\<close>

theorem challenge_opens_one_session:
  assumes "issueCrankerSession h now sid token pk nonce ts sig db = (Inr x, db1)"
    and "\<forall>op \<in> set ops. \<not> issues_challenge h (challengeId h pk nonce) op" "db2 = exec_auths h ch urls ops db1"
  shows "(\<exists>r. map_of (challenges db) (challengeId h pk nonce) = Some r \<and> \<not> c_used r \<and> c_publicKey r = pk \<and> now < c_expiresAt r) \<and>
    verify_text h pk (sessionChallengeMessage pk ts nonce) sig = Inr () \<and>
    (\<exists>e. issueCrankerSession h now' sid' token' pk nonce ts' sig' db2 = (Inl e, db2))"
proof -
  let ?i = "challengeId h pk nonce"
  from assms(1) obtain c where sig: "check_session_input h now pk nonce ts sig = Inr ()"
    and tx: "consume_challenge_tx now pk ?i (challenges db) = Some c" and db1: "challenges db1 = c"
    by (auto simp: issueCrankerSession_def Let_def split: sum.splits option.splits if_splits)
  then have "challenge_spent ?i (challenges db1)"
    by (auto simp: challenge_spent_def docs.lookup_put dest!: consume_challenge_Some)
  then have "challenge_spent ?i (challenges db2)" unfolding assms(3) using assms(2) by (rule spent_execs)
  then have "consume_challenge_tx now' pk ?i (challenges db2) = None"
    by (auto simp: challenge_spent_def consume_challenge_tx_def split: option.splits)
  then have "\<exists>e. issueCrankerSession h now' sid' token' pk nonce ts' sig' db2 = (Inl e, db2)"
    by (auto simp: issueCrankerSession_def split: sum.splits)
  moreover have "verify_text h pk (sessionChallengeMessage pk ts nonce) sig = Inr ()"
    using sig by (auto simp: check_session_input_def)
  ultimately show ?thesis using consume_challenge_Some [OF tx] by auto
qed

section \<open>The rate limit\<close>

fun admitted :: "host \<Rightarrow> string \<Rightarrow> int list \<Rightarrow> auth_db \<Rightarrow> nat" where
  "admitted h pk [] db = 0"
| "admitted h pk (t # ts) db =
     (case enforceCrankerLeaseRateLimit h t pk db of
        (Inr _, db') \<Rightarrow> Suc (admitted h pk ts db')
      | (Inl _, db') \<Rightarrow> admitted h pk ts db')"

definition bucket_count :: "string \<Rightarrow> int \<Rightarrow> rate_row collection \<Rightarrow> int \<Rightarrow> bool" where
  "bucket_count i m c k \<longleftrightarrow> unique_ids c \<and>
     (case map_of c i of None \<Rightarrow> k = 0 | Some r \<Rightarrow> r_count r = k \<and> r_updatedAt r div 60000 = m)"

lemma matching_ids_member: "i \<in> set (matching_ids P c) \<Longrightarrow> \<exists>r. (i, r) \<in> set c \<and> P r"
  by (auto simp: matching_ids_def limit_rows_def dest!: in_set_takeD)

lemma bucket_prune:
  assumes "bucket_count i m c k" "t div 60000 = m"
  shows "bucket_count i m (pruneCrankerRateLimits (t - 60000) c) k"
proof -
  let ?ids = "matching_ids (\<lambda>r. r_updatedAt r \<le> t - 60000) c"
  have "map_of (pruneCrankerRateLimits (t - 60000) c) i = map_of c i"
  proof (cases "i \<in> set ?ids")
    case True
    then obtain r where "(i, r) \<in> set c" "r_updatedAt r \<le> t - 60000" using matching_ids_member by blast
    moreover from this(1) assms(1) have "r_updatedAt r div 60000 = m"
      by (auto simp: bucket_count_def unique_ids_def)
    ultimately show ?thesis using assms(2) by linarith
  qed (simp add: pruneCrankerRateLimits_def docs.lookup_remove_all)
  with assms(1) docs.inv_remove_all [of c ?ids] show ?thesis
    by (simp add: bucket_count_def pruneCrankerRateLimits_def)
qed

lemma admitted_from:
  assumes "\<forall>t \<in> set ts. t div 60000 = m" "bucket_count (sha256_hex h (pk @ ''|'' @ int_str m)) m (rates db) k" "0 \<le> k" "k \<le> 30"
  shows "int (admitted h pk ts db) = min (int (length ts)) (30 - k)"
  using assms
proof (induction ts arbitrary: db k)
  case (Cons t ts)
  let ?i = "sha256_hex h (pk @ ''|'' @ int_str m)" and ?c = "pruneCrankerRateLimits (t - 60000) (rates db)"
  have c: "bucket_count ?i m ?c k" using Cons.prems by (intro bucket_prune) auto
  have t: "t div 60000 = m" using Cons.prems(1) by simp
  have count: "(case map_of ?c ?i of None \<Rightarrow> 0 | Some r \<Rightarrow> r_count r) = k"
    using c by (auto simp: bucket_count_def split: option.splits)
  show ?case
  proof (cases "k = 30")
    case True
    then have "enforceCrankerLeaseRateLimit h t pk db = (Inl ''CRANKER_LEASE_RATE_LIMITED'', db\<lparr>rates := ?c\<rparr>)"
      using count t by (simp add: enforceCrankerLeaseRateLimit_def rate_tx_def rate_bucket_def Let_def
          MAX_LEASE_ATTEMPTS_PER_MINUTE_def)
    with Cons.IH [of "db\<lparr>rates := ?c\<rparr>" k] Cons.prems c True show ?thesis by simp
  next
    case False
    let ?c' = "AList.update ?i \<lparr>r_publicKey = pk, r_bucket = pk @ ''|'' @ int_str m, r_count = k + 1, r_updatedAt = t\<rparr> ?c"
    have "enforceCrankerLeaseRateLimit h t pk db = (Inr (), db\<lparr>rates := ?c'\<rparr>)"
      using count t False Cons.prems(4) by (simp add: enforceCrankerLeaseRateLimit_def rate_tx_def rate_bucket_def Let_def
          MAX_LEASE_ATTEMPTS_PER_MINUTE_def)
    moreover have "bucket_count ?i m ?c' (k + 1)"
      using c t by (simp add: bucket_count_def docs.lookup_put docs.inv_put)
    ultimately show ?thesis using Cons.IH [of "db\<lparr>rates := ?c'\<rparr>" "k + 1"] Cons.prems False by simp
  qed
qed simp

text \<open>
  C15: The lease rate limit admits exactly the first 30 attempts of a key in a clock minute: of any
  number of attempts within one minute that starts with no count for the key, min(n, 30) are
  admitted, and pruning old counts never loses the current one.
\<close>

theorem rate_limit_admits_30_per_minute:
  assumes "\<forall>t \<in> set ts. t div 60000 = m" "unique_ids (rates db)"
    and "map_of (rates db) (sha256_hex h (rate_bucket pk (60000 * m))) = None"
  shows "admitted h pk ts db = min (length ts) 30"
proof -
  have "bucket_count (sha256_hex h (pk @ ''|'' @ int_str m)) m (rates db) 0"
    using assms(2,3) by (simp add: bucket_count_def rate_bucket_def)
  from admitted_from [OF assms(1) this] show ?thesis by (simp add: min_def split: if_splits)
qed

theorem rate_limit_admits_30_per_minute_witness:
  "admitted sample_host ''k1'' (map (\<lambda>n. 120000 + int n) [0..<45]) \<lparr>challenges = [], sessions = [], rates = []\<rparr> = 30"
proof -
  have "\<forall>t \<in> set (map (\<lambda>n. 120000 + int n) [0..<45]). t div 60000 = 2" by auto
  from rate_limit_admits_30_per_minute [OF this, of "\<lparr>challenges = [], sessions = [], rates = []\<rparr>" sample_host "''k1''"]
  show ?thesis by (simp add: unique_ids_def)
qed

section \<open>Sample requests\<close>

text \<open>Signatures of the sample runtime over a text, by the all-zero key.\<close>

definition zero_key :: string where
  "zero_key = replicate 32 (CHR ''1'')"

definition zero_signature :: "string \<Rightarrow> string" where
  "zero_signature msg = bytesToBase64Url (take 64 (replicate 32 0 @ utf8 msg @ replicate 64 0))"

lemma zero_key_text: "is_public_key_text zero_key" "decodeBase58 e zero_key = Inr (replicate 32 0)"
  by code_simp (simp add: zero_key_def, code_simp)

lemma b64_val_signature_char: "b64_val c = Some n \<Longrightarrow> signature_char (to_url_char c)"
  by (auto simp: b64_val_def signature_char_def url_token_char_def to_url_char_def split: if_splits)

lemma b64_url_signature_char:
  "n < 64 \<Longrightarrow> signature_char (to_url_char (b64_char n)) \<and> to_url_char (b64_char n) \<noteq> CHR ''=''"
  using b64_val_signature_char [OF b64_val_char] by simp

lemma signature_char_not_space: "signature_char c \<Longrightarrow> \<not> is_space c"
  by (auto simp: signature_char_def url_token_char_def is_digit_def is_space_def)

lemma decodeSignature_url:
  assumes "octets bs" "length bs = 64"
  shows "decodeSignature sample_host (bytesToBase64Url bs) = Inr bs"
proof -
  let ?s = "bytesToBase64Url bs"
  have s: "?s = map (to_url_char \<circ> b64_char) (sextets bs)" using assms(1) by (rule bytesToBase64Url_sextets)
  have chars: "\<forall>c \<in> set ?s. signature_char c \<and> c \<noteq> CHR ''=''"
    unfolding s using sextets_bound [OF assms(1)] b64_url_signature_char by (auto simp: list_all_iff)
  have "length (sextets xs) = (length xs * 4 + 2) div 3" for xs
    by (induction xs rule: sextets.induct) auto
  then have "length ?s = 86" using assms(2) unfolding s by simp
  moreover have tw: "takeWhile (\<lambda>c. c \<noteq> CHR ''='') ?s = ?s" and dw: "dropWhile (\<lambda>c. c \<noteq> CHR ''='') ?s = []"
    using chars by (auto simp: takeWhile_eq_all_conv dropWhile_eq_Nil_conv)
  moreover have "list_all signature_char ?s" using chars by (simp add: list_all_iff)
  ultimately show ?thesis using assms unfolding decodeSignature_def Let_def tw dw by simp
qed

lemma zero_signature_ok: "verify_text sample_host zero_key msg (zero_signature msg) = Inr ()"
proof -
  let ?bs = "take 64 (replicate 32 0 @ utf8 msg @ replicate 64 0)"
  have "octets (replicate 32 0 @ utf8 msg @ replicate 64 0)" by (simp add: octets_replicate)
  then have "octets ?bs" "length ?bs = 64" by (auto simp: list_all_iff dest: in_set_takeD)
  then have "decodeSignature sample_host (zero_signature msg) = Inr ?bs"
    unfolding zero_signature_def by (rule decodeSignature_url)
  then show ?thesis by (simp add: verify_text_def zero_key_text)
qed

lemma zero_signature_nonempty: "zero_signature msg \<noteq> []"
  using zero_signature_ok [of msg] by (auto simp: verify_text_def zero_key_text decodeSignature_def)

definition sample_nonce :: string where
  "sample_nonce = replicate 43 (CHR ''n'')"

definition sample_auth_db :: auth_db where
  "sample_auth_db = \<lparr>challenges = [(challengeId sample_host zero_key sample_nonce,
       \<lparr>c_publicKey = zero_key, c_nonce = sample_nonce, c_expiresAt = 60000, c_used = False\<rparr>)],
     sessions = [(replicate 32 (CHR ''s''), \<lparr>s_publicKey = zero_key, s_tokenHash = sha256_hex sample_host (replicate 43 (CHR ''t'')),
       s_createdAt = 0, s_expiresAt = 100000, s_lastSeenAt = 0, s_lastCounter = 0\<rparr>)],
     rates = []\<rparr>"

lemma sample_session_input:
  "check_session_input sample_host 7000 zero_key sample_nonce ''7''
     (zero_signature (sessionChallengeMessage zero_key ''7'' sample_nonce)) = Inr ()"
proof -
  have "is_url_token 43 sample_nonce" "is_digits 13 ''7''" "validTimestamp 7000 ''7''" by code_simp+
  with zero_key_text zero_signature_ok zero_signature_nonempty show ?thesis by (simp add: check_session_input_def)
qed

lemma sample_session_issued:
  "\<exists>x db1. issueCrankerSession sample_host 7000 ''s'' ''t'' zero_key sample_nonce ''7''
     (zero_signature (sessionChallengeMessage zero_key ''7'' sample_nonce)) sample_auth_db = (Inr x, db1)"
proof -
  have "\<exists>c. consume_challenge_tx 7000 zero_key (challengeId sample_host zero_key sample_nonce) (challenges sample_auth_db) = Some c"
    by (simp add: consume_challenge_tx_def sample_auth_db_def)
  moreover have "map_of (sessions sample_auth_db) ''s'' = None" by (simp add: sample_auth_db_def) code_simp
  ultimately show ?thesis using sample_session_input by (auto simp: issueCrankerSession_def Let_def)
qed

theorem challenge_opens_one_session_witness:
  "\<exists>db1 e. challenges db1 \<noteq> [] \<and>
     issueCrankerSession sample_host 8000 ''s2'' ''t2'' zero_key sample_nonce ''8'' ''sig'' db1 = (Inl e, db1)"
proof -
  obtain x db1 where issued: "issueCrankerSession sample_host 7000 ''s'' ''t'' zero_key sample_nonce ''7''
      (zero_signature (sessionChallengeMessage zero_key ''7'' sample_nonce)) sample_auth_db = (Inr x, db1)"
    using sample_session_issued by blast
  have "\<exists>e. issueCrankerSession sample_host 8000 ''s2'' ''t2'' zero_key sample_nonce ''8'' ''sig'' db1 = (Inl e, db1)"
    by (rule challenge_opens_one_session [OF issued, of "[]", THEN conjunct2, THEN conjunct2]) (simp_all add: exec_auths_def)
  moreover have "challenges db1 \<noteq> []"
    using issued by (auto simp: issueCrankerSession_def Let_def sample_auth_db_def split: sum.splits option.splits if_splits
        dest!: consume_challenge_Some)
  ultimately show ?thesis by blast
qed

definition sample_headers :: auth_headers where
  "sample_headers = \<lparr>x_public_key = Some zero_key, x_session_id = Some (replicate 32 (CHR ''s'')),
     x_session_token = Some (replicate 43 (CHR ''t'')), x_counter = Some ''5'', x_timestamp = Some ''7'',
     x_signature = Some (zero_signature (canonicalSessionRequest sample_host ''POST'' ''/api/cranker/work'' ''7''
       (replicate 32 (CHR ''s'')) ''5'' []))\<rparr>"

lemma js_trim_signature: "js_trim (zero_signature msg) = zero_signature msg"
proof -
  let ?bs = "take 64 (replicate 32 0 @ utf8 msg @ replicate 64 0)"
  have "octets (replicate 32 0 @ utf8 msg @ replicate 64 0)" by (simp add: octets_replicate)
  then have bytes: "octets ?bs" by (auto simp: list_all_iff dest: in_set_takeD)
  have "signature_char c" if "c \<in> set (zero_signature msg)" for c
    using that sextets_bound [OF bytes] b64_url_signature_char
    unfolding zero_signature_def bytesToBase64Url_sextets [OF bytes] by (auto simp: list_all_iff)
  then have "\<not> is_space c" if "c \<in> set (zero_signature msg)" for c
    using that signature_char_not_space by blast
  then show ?thesis by (intro js_trim_id) auto
qed

lemma sample_header_texts:
  "env_trim (x_public_key sample_headers) = zero_key" "env_trim (x_session_id sample_headers) = replicate 32 (CHR ''s'')"
  "env_trim (x_session_token sample_headers) = replicate 43 (CHR ''t'')" "env_trim (x_counter sample_headers) = ''5''"
  "env_trim (x_timestamp sample_headers) = ''7''"
  "env_trim (x_signature sample_headers) = zero_signature (canonicalSessionRequest sample_host ''POST'' ''/api/cranker/work'' ''7''
     (replicate 32 (CHR ''s'')) ''5'' [])"
  by (simp_all add: sample_headers_def env_trim_def js_trim_signature) (code_simp+)

lemma sample_request_accepted:
  "\<exists>db1. authenticateCrankerRequest sample_host 7000 sample_headers [] ''POST'' ''/api/cranker/work'' sample_auth_db = (Inr zero_key, db1)"
proof -
  have "is_url_token 32 (replicate 32 (CHR ''s''))" "is_url_token 43 (replicate 43 (CHR ''t''))" "is_digits 16 ''5''"
    "is_digits 13 ''7''" "validTimestamp 7000 ''7''" "safe_integer (int (dec_val ''5''))" "1 \<le> dec_val ''5''"
    by code_simp+
  then have check: "check_request sample_host 7000 sample_headers [] ''POST'' ''/api/cranker/work'' = Inr ()"
    using zero_key_text zero_signature_ok zero_signature_nonempty
    by (simp add: check_request_def sample_header_texts Let_def)
  let ?t = "utf8 (replicate 43 (CHR ''t''))"
  have "octets (sha256 sample_host ?t)" "length (sha256 sample_host ?t) = 32"
    using sample_hash_octets by auto
  then have "from_hex (sha256_hex sample_host (replicate 43 (CHR ''t''))) = sha256 sample_host ?t"
    "is_hex64 (sha256_hex sample_host (replicate 43 (CHR ''t'')))"
    using to_hex_lower_hex [of "sha256 sample_host ?t"]
    by (simp_all add: sha256_hex_def from_to_hex is_hex64_def is_hex_def list_all_iff del: sample_host_simps)
  moreover have "dec_val ''5'' = 5" by code_simp
  ultimately have "\<exists>ss. session_tx sample_host 7000 zero_key (replicate 32 (CHR ''s'')) (replicate 43 (CHR ''t'')) 5
      (sessions sample_auth_db) = Inr ss"
    by (simp add: session_tx_def sample_auth_db_def CRANKER_SESSION_IDLE_TTL_MS_def safe_integer_def max_safe_integer_def
        del: sample_host_simps)
  with check \<open>dec_val ''5'' = 5\<close> show ?thesis
    by (auto simp: authenticateCrankerRequest_def sample_header_texts)
qed

theorem request_counter_prevents_replay_witness:
  "\<exists>db1 e. authenticateCrankerRequest sample_host 7000 sample_headers [] ''POST'' ''/api/cranker/work'' sample_auth_db
       = (Inr zero_key, db1) \<and>
     authenticateCrankerRequest sample_host 7500 sample_headers [] ''POST'' ''/api/cranker/work'' db1 = (Inl e, db1)"
proof -
  obtain db1 where a: "authenticateCrankerRequest sample_host 7000 sample_headers [] ''POST'' ''/api/cranker/work'' sample_auth_db
      = (Inr zero_key, db1)"
    using sample_request_accepted by blast
  have "\<exists>e. authenticateCrankerRequest sample_host 7500 sample_headers [] ''POST'' ''/api/cranker/work'' db1 = (Inl e, db1)"
    by (rule request_counter_prevents_replay [OF a, of "[]"]) (simp_all add: exec_auths_def)
  with a show ?thesis by blast
qed

end
