(* ===== verification/Node_State_Store.thy ===== *)
theory Node_State_Store
  imports Local_Firestore
begin

text \<open>
  \<open>services/tsn-receiver/lib/node-state-store.ts\<close>: the key-value state that the Receiver keeps for
  the Node (\<open>executeStateOperation\<close>), on the document store. \<open>root\<close> is the name of the state
  collection.
\<close>

section \<open>Definitions\<close>

definition state_id :: "host \<Rightarrow> string \<Rightarrow> string" where
  "state_id h v = sha256_hex h v"

definition bucket :: "host \<Rightarrow> string \<Rightarrow> string \<Rightarrow> ref" where
  "bucket h root key = (root, state_id h key)"

definition items :: "host \<Rightarrow> string \<Rightarrow> string \<Rightarrow> string" where
  "items h root key = subcollection (bucket h root key) ''items''"

definition item :: "host \<Rightarrow> string \<Rightarrow> string \<Rightarrow> string \<Rightarrow> ref" where
  "item h root key field = (items h root key, state_id h field)"

text \<open>\<open>Object.entries\<close>: members, indexed elements, or the characters of a text.\<close>

fun object_entries :: "json \<Rightarrow> (string \<times> json) list" where
  "object_entries (JObj es) = es"
| "object_entries (JArr vs) = zip (map dec [0..<length vs]) vs"
| "object_entries (JStr s) = zip (map dec [0..<length s]) (map (\<lambda>c. JStr [c]) s)"
| "object_entries _ = []"

definition field_row :: "string \<Rightarrow> string \<Rightarrow> row" where
  "field_row field v = [(''field'', JStr field), (''value'', JStr v)]"

definition read_value :: "row option \<Rightarrow> json" where
  "read_value r = (case r of None \<Rightarrow> JNull | Some x \<Rightarrow> nullish (map_of x ''value'') JNull)"

definition body_field :: "obj \<Rightarrow> string option" where
  "body_field body =
     (case map_of body ''field'' of None \<Rightarrow> None | Some JNull \<Rightarrow> None | Some v \<Rightarrow> Some (js_string v))"

definition need_field :: "obj \<Rightarrow> string result" where
  "need_field body =
     (case body_field body of
        Some f \<Rightarrow> if f = [] then Inl ''STATE_FIELD_REQUIRED'' else Inr f
      | None \<Rightarrow> Inl ''STATE_FIELD_REQUIRED'')"

definition reply :: "string \<Rightarrow> json \<Rightarrow> json" where
  "reply k v = JObj [(k, v)]"

definition with_reply :: "json \<Rightarrow> unit result \<times> store_file \<Rightarrow> json result \<times> store_file" where
  "with_reply v x = (map_sum id (\<lambda>_. v) (fst x), snd x)"

definition consume_tx :: "ref \<Rightarrow> row \<Rightarrow> local_db \<Rightarrow> (bool \<times> local_db) result" where
  "consume_tx r v db =
     (if tx_get db r \<noteq> None then Inr (False, db)
      else and_then (tx_create r v db) (\<lambda>db'. Inr (True, db')))"

definition all_values :: "row collection \<Rightarrow> obj" where
  "all_values rows =
     foldl (\<lambda>ob (i, r). AList.update (case map_of r ''field'' of None \<Rightarrow> ''undefined'' | Some f \<Rightarrow> js_string f)
                          (case map_of r ''value'' of None \<Rightarrow> JNull | Some v \<Rightarrow> v) ob) [] rows"

text \<open>Deleting a key: its children are read, then removed together with the bucket in one batch.\<close>

definition delete_writes :: "host \<Rightarrow> string \<Rightarrow> string \<Rightarrow> local_db \<Rightarrow> batch_write list" where
  "delete_writes h root key db =
     map (\<lambda>(i, r). BatchDelete (items h root key, i)) (coll db (items h root key)) @ [BatchDelete (bucket h root key)]"

fun delete_keys :: "host \<Rightarrow> string \<Rightarrow> string list \<Rightarrow> store_file \<Rightarrow> unit result \<times> store_file" where
  "delete_keys h root [] f = (Inr (), f)"
| "delete_keys h root (k # ks) f =
     (case readRaw f of
        Inl e \<Rightarrow> (Inl e, f)
      | Inr db \<Rightarrow>
          (case batch_commit (delete_writes h root k db) f of
             (Inl e, f') \<Rightarrow> (Inl e, f')
           | (Inr _, f') \<Rightarrow> delete_keys h root ks f'))"

definition executeStateOperation :: "host \<Rightarrow> string \<Rightarrow> obj \<Rightarrow> store_file \<Rightarrow> json result \<times> store_file" where
  "executeStateOperation h root body f =
     (let operation = str_or_empty (map_of body ''operation'');
          key = str_or_empty (map_of body ''key'');
          v = str_or_empty (map_of body ''value'')
      in if key = [] then (Inl ''STATE_KEY_REQUIRED'', f)
         else if operation = ''get'' then
           (and_then (readRaw f) (\<lambda>db. Inr (reply ''value'' (read_value (tx_get db (bucket h root key))))), f)
         else if operation = ''set'' then
           with_reply (reply ''ok'' (JBool True))
             (ref_set (bucket h root key) [(''key'', JStr key), (''value'', JStr v)] f)
         else if operation = ''hget'' then
           (and_then (need_field body) (\<lambda>field. and_then (readRaw f) (\<lambda>db.
              Inr (reply ''value'' (read_value (tx_get db (item h root key field)))))), f)
         else if operation = ''hgetall'' then
           (and_then (readRaw f) (\<lambda>db. Inr (reply ''values'' (JObj (all_values (coll db (items h root key)))))), f)
         else if operation = ''hset'' then
           (if truthy (map_of body ''mapping'')
            then with_reply (reply ''ok'' (JBool True))
                   (batch_commit (map (\<lambda>(k, x). BatchSet (item h root key k) (field_row k (js_string x)) False)
                                   (object_entries (the (map_of body ''mapping'')))) f)
            else (case need_field body of
                    Inl e \<Rightarrow> (Inl e, f)
                  | Inr field \<Rightarrow> with_reply (reply ''ok'' (JBool True)) (ref_set (item h root key field) (field_row field v) f)))
         else if operation = ''consume_once'' then
           (case need_field body of
              Inl e \<Rightarrow> (Inl e, f)
            | Inr field \<Rightarrow>
                (let (r, f') = mutate (consume_tx (item h root key field) (field_row field v)) f
                 in (map_sum id (\<lambda>b. reply ''consumed'' (JBool b)) r, f')))
         else if operation = ''delete'' then
           with_reply (reply ''ok'' (JBool True))
             (delete_keys h root (case map_of body ''keys'' of Some (JArr ks) \<Rightarrow> map js_string ks | _ \<Rightarrow> [key]) f)
         else (Inl ''STATE_OPERATION_INVALID'', f))"

section \<open>Consuming once\<close>

definition holds :: "store_file \<Rightarrow> ref \<Rightarrow> bool" where
  "holds f r = (case readRaw f of Inr db \<Rightarrow> tx_get db r \<noteq> None | Inl _ \<Rightarrow> False)"

definition present :: "local_db \<Rightarrow> ref \<Rightarrow> bool" where
  "present db r \<longleftrightarrow> tx_get db r \<noteq> None"

lemma present_put [simp]: "present (put_row s v db) r \<longleftrightarrow> s = r \<or> present db r"
  by (auto simp: present_def tx_get_put_row)

lemma present_set: "present db r \<Longrightarrow> present (tx_set s v m db) r"
  by (simp add: tx_set_def)

lemma sets_keep:
  "present db r \<Longrightarrow> present (fold apply_write (map (\<lambda>(k, x). BatchSet (g k) (c k x) m) es) db) r"
  by (induction es arbitrary: db) (auto simp: present_set)

lemma holds_present: "holds f r \<longleftrightarrow> (case readRaw f of Inr db \<Rightarrow> present db r | Inl _ \<Rightarrow> False)"
  unfolding holds_def present_def ..

lemma mutate_keeps:
  assumes "holds f r" "\<And>db x db'. present db r \<Longrightarrow> operation db = Inr (x, db') \<Longrightarrow> present db' r"
  shows "holds (snd (mutate operation f)) r"
  using assms by (auto simp: mutate_def holds_present split: sum.splits prod.splits)

lemma consume_keeps: "consume_tx s v db = Inr (x, db') \<Longrightarrow> present db r \<Longrightarrow> present db' r"
  by (auto simp: consume_tx_def tx_create_def split: if_splits)

lemma operation_keeps:
  assumes "holds f r" "str_or_empty (map_of body ''operation'') \<noteq> ''delete''"
  shows "holds (snd (executeStateOperation h root body f)) r"
proof -
  have set: "holds (snd (ref_set s v f)) r" for s v
    unfolding ref_set_def by (rule mutate_keeps [OF assms(1)]) auto
  have batch: "holds (snd (batch_commit (map (\<lambda>(k, x). BatchSet (g k) (c k x) m) es) f)) r" for g c m es
    unfolding batch_commit_def by (rule mutate_keeps [OF assms(1)]) (auto simp: sets_keep)
  have consume: "holds (snd (mutate (consume_tx s v) f)) r" for s v
    by (rule mutate_keeps [OF assms(1)]) (auto dest: consume_keeps)
  show ?thesis
    using assms set batch consume
    by (auto simp: executeStateOperation_def Let_def with_reply_def case_prod_unfold split: sum.splits)
qed

fun execute_all :: "host \<Rightarrow> string \<Rightarrow> obj list \<Rightarrow> store_file \<Rightarrow> store_file" where
  "execute_all h root [] f = f"
| "execute_all h root (b # bs) f = execute_all h root bs (snd (executeStateOperation h root b f))"

lemma all_keep:
  "holds f r \<Longrightarrow> \<forall>b \<in> set bs. str_or_empty (map_of b ''operation'') \<noteq> ''delete'' \<Longrightarrow> holds (execute_all h root bs f) r"
  by (induction bs arbitrary: f) (auto simp: operation_keeps)

definition consume_body :: "string \<Rightarrow> string \<Rightarrow> string \<Rightarrow> obj" where
  "consume_body key field v =
     [(''operation'', JStr ''consume_once''), (''key'', JStr key), (''field'', JStr field), (''value'', JStr v)]"

lemma execute_consume:
  assumes "key \<noteq> []" "field \<noteq> []"
  shows "executeStateOperation h root (consume_body key field v) f =
    (let (r, f') = mutate (consume_tx (item h root key field) (field_row field v)) f
     in (map_sum id (\<lambda>b. reply ''consumed'' (JBool b)) r, f'))"
  using assms by (simp add: executeStateOperation_def consume_body_def need_field_def body_field_def)

text \<open>
  A marker is consumed at most once. After \<open>consume_once\<close> has answered for a key and field,
  every later \<open>consume_once\<close> for them answers false and writes nothing new, whatever operations
  other than \<open>delete\<close> ran in between.
\<close>

theorem consume_once_at_most_once:
  assumes "executeStateOperation h root (consume_body key field v) f = (Inr x, f1)" "key \<noteq> []" "field \<noteq> []"
    and "\<forall>b \<in> set bs. str_or_empty (map_of b ''operation'') \<noteq> ''delete''"
    and "f2 = execute_all h root bs f1"
  shows "executeStateOperation h root (consume_body key field v') f2 = (Inr (reply ''consumed'' (JBool False)), f2)"
proof -
  let ?r = "item h root key field"
  have "holds f1 ?r"
    using assms(1) unfolding execute_consume [OF assms(2,3)]
    by (auto simp: mutate_def holds_def consume_tx_def tx_create_def tx_get_put_row split: sum.splits if_splits)
  with all_keep assms(4,5) have "holds f2 ?r" by blast
  moreover have "f2 \<noteq> Absent"
    using \<open>holds f2 ?r\<close> by (auto simp: holds_def tx_get_def coll_def)
  ultimately obtain db where "f2 = Readable db" "tx_get db ?r \<noteq> None"
    by (cases f2) (auto simp: holds_def)
  then show ?thesis
    unfolding execute_consume [OF assms(2,3)] by (simp add: mutate_def consume_tx_def)
qed

theorem consume_once_at_most_once_witness:
  "\<exists>f1. executeStateOperation sample_host ''state'' (consume_body ''k'' ''n'' ''1'') Absent
       = (Inr (reply ''consumed'' (JBool True)), f1) \<and>
     executeStateOperation sample_host ''state'' (consume_body ''k'' ''n'' ''2'') f1
       = (Inr (reply ''consumed'' (JBool False)), f1)"
proof -
  obtain f1 where f1: "executeStateOperation sample_host ''state'' (consume_body ''k'' ''n'' ''1'') Absent
      = (Inr (reply ''consumed'' (JBool True)), f1)"
    by (simp add: execute_consume mutate_def consume_tx_def tx_create_def tx_get_def coll_def)
  with consume_once_at_most_once [OF f1, of "[]" f1 "''2''"] show ?thesis by simp
qed

end
