(* ===== verification/Receiver_Routes.thy ===== *)
theory Receiver_Routes
  imports Receiver_Config Node_State_Store
begin

text \<open>
  The HTTP routes of the Receiver, \<open>services/tsn-receiver/app/**/route.ts\<close>. A handler takes the
  request, at the types the source declares for its body, and the state of the service: the work
  queue, the Cranker admission tables and the Node's key-value file. \<open>Inl\<close> as a body stands for
  the error that reading the JSON text throws.
\<close>

section \<open>State, requests and replies\<close>

record service =
  queue :: receiver
  admission :: auth_db
  kv :: store_file

record answer =
  r_status :: nat
  r_body :: json

definition ok_with :: "json \<Rightarrow> answer" where
  "ok_with v = \<lparr>r_status = 200, r_body = v\<rparr>"

definition fail_with :: "nat \<Rightarrow> string \<Rightarrow> answer" where
  "fail_with s message = \<lparr>r_status = s, r_body = JObj [(''error'', JStr message)]\<rparr>"

section \<open>Views of a record\<close>

definition opt_obj :: "obj option \<Rightarrow> json" where
  "opt_obj v = (case v of None \<Rightarrow> JNull | Some ob \<Rightarrow> JObj ob)"

definition lease_json :: "host \<Rightarrow> lease_info \<Rightarrow> json" where
  "lease_json h l = JObj ([(''owner'', JStr (l_owner l)), (''expiresAt'', JStr (to_iso h (l_expiresAt l)))]
     @ (case l_leaseId l of None \<Rightarrow> [] | Some i \<Rightarrow> [(''leaseId'', JStr i)])
     @ (case l_version l of None \<Rightarrow> [] | Some v \<Rightarrow> [(''version'', JNum v)]))"

definition coordination_head :: "work \<Rightarrow> obj" where
  "coordination_head w =
     [(''id'', JStr (w_id w)), (''kind'', JStr (kind_text (w_kind w))), (''status'', JStr (status_text (w_status w))),
      (''stateVersion'', JNum (w_stateVersion w)), (''payloadCommitment'', JStr (w_payloadCommitment w))]"

definition times :: "host \<Rightarrow> work \<Rightarrow> obj" where
  "times h w = [(''receivedAt'', JStr (to_iso h (w_receivedAt w))), (''updatedAt'', JStr (to_iso h (w_updatedAt w)))]"

definition opt_lease :: "host \<Rightarrow> lease_info option \<Rightarrow> json" where
  "opt_lease h l = (case l of None \<Rightarrow> JNull | Some x \<Rightarrow> lease_json h x)"

definition retry_json :: "host \<Rightarrow> retry_entry \<Rightarrow> json" where
  "retry_json h e = JObj ([(''rejectedStateVersion'', JNum (rejectedStateVersion e)), (''retriedAt'', JStr (to_iso h (retriedAt e))),
     (''requestedBy'', JStr (requestedBy e)), (''rejection'', opt_obj (rejection e)), (''fundingWorkId'', JStr (fundingWorkId e)),
     (''fundingStateVersion'', JNum (fundingStateVersion e))]
     @ (case fundingSignature e of None \<Rightarrow> [] | Some s \<Rightarrow> [(''fundingSignature'', s)]))"

text \<open>The complete record, as \<open>NextResponse.json(work)\<close> prints it.\<close>

definition work_json :: "host \<Rightarrow> work \<Rightarrow> json" where
  "work_json h w = JObj (coordination_head w @ [(''payload'', JObj (w_payload w))] @ times h w
     @ [(''nodeLease'', opt_lease h (w_nodeLease w)), (''crankerLease'', opt_lease h (w_crankerLease w)),
        (''verification'', opt_obj (w_verification w)), (''result'', opt_obj (w_result w)),
        (''authorization'', opt_obj (w_authorization w))]
     @ (if w_retryHistory w = [] then [] else [(''retryHistory'', JArr (map (retry_json h) (w_retryHistory w)))]))"

fun public_status :: "work_status \<Rightarrow> string" where
  "public_status RECEIVED = ''pending''"
| "public_status NODE_VERIFYING = ''pending''"
| "public_status VERIFIED = ''pending''"
| "public_status CRANKER_LEASED = ''pending''"
| "public_status REJECTED = ''canceled''"
| "public_status CONFIRMED = ''executed''"
| "public_status s = lower (status_text s)"

definition publicIntent :: "host \<Rightarrow> work \<Rightarrow> json" where
  "publicIntent h w =
     JObj (spread (spread (publicCoordinationPayload w)
       [(''id'', JStr (w_id w)), (''status'', JStr (public_status (w_status w))),
        (''postedAt'', JStr (to_iso h (w_receivedAt w))), (''updatedAt'', JStr (to_iso h (w_updatedAt w))),
        (''receiverStatus'', JStr (status_text (w_status w))), (''receiverStateVersion'', JNum (w_stateVersion w))])
       (obj_or_empty (w_result w)))"

definition crankerWorkView :: "host \<Rightarrow> work option \<Rightarrow> json" where
  "crankerWorkView h wk =
     (case wk of
        None \<Rightarrow> JNull
      | Some w \<Rightarrow>
          (let executionPayload = (case verifiedPayloadForWork w of
                                     None \<Rightarrow> [] | Some p \<Rightarrow> crankerExecutionPayload (w_kind w) p)
           in JObj (coordination_head w @ [(''payload'', JObj [])] @ times h w
                @ [(''crankerLease'', opt_lease h (w_crankerLease w)),
                   (''verification'', (case w_verification w of
                        None \<Rightarrow> JNull
                      | Some v \<Rightarrow> JObj ([(''verificationType'', nullish (map_of v ''verificationType'') JNull),
                                          (''nodeAttestation'', nullish (map_of v ''nodeAttestation'') JNull)]
                                    @ (if executionPayload \<noteq> [] then [(''verifiedPayload'', JObj executionPayload)] else [])))),
                   (''authorization'', opt_obj (w_authorization w)), (''result'', opt_obj (w_result w))])))"

text \<open>\<open>app/api/work-status/[id]\<close> and the monitoring list of \<open>app/api/work\<close>.\<close>

definition result_view :: "string list \<Rightarrow> work \<Rightarrow> json" where
  "result_view names w =
     (case w_result w of None \<Rightarrow> JNull | Some r \<Rightarrow> JObj (map (\<lambda>n. (n, nullish (map_of r n) JNull)) names))"

definition verification_member :: "work \<Rightarrow> string \<Rightarrow> json" where
  "verification_member w n = nullish (map_of (obj_or_empty (w_verification w)) n) JNull"

definition decision_reason :: "work \<Rightarrow> json" where
  "decision_reason w = (if w_status w = REJECTED then verification_member w ''reason'' else JNull)"

definition status_head :: "host \<Rightarrow> work \<Rightarrow> obj" where
  "status_head h w =
     [(''operationId'', JStr (w_id w)), (''kind'', JStr (kind_text (w_kind w))), (''status'', JStr (status_text (w_status w)))]
     @ times h w @ [(''verificationType'', verification_member w ''verificationType'')]"

definition work_status_GET :: "host \<Rightarrow> string \<Rightarrow> service \<Rightarrow> answer" where
  "work_status_GET h i st =
     (case getWork i (works (queue st)) of
        None \<Rightarrow> fail_with 404 ''RECEIVER_WORK_NOT_FOUND''
      | Some w \<Rightarrow>
          (case w_kind w of
             AUTHORIZED_FUNDING \<Rightarrow>
               ok_with (JObj (status_head h w @ [(''nodeDecisionReason'', decision_reason w),
                 (''result'', result_view [''signature'', ''stage''] w),
                 (''settlement'',
                   (case getWork (settlementId h (w_id w) (w_payloadCommitment w)) (works (queue st)) of
                      None \<Rightarrow> JNull
                    | Some s \<Rightarrow> JObj [(''operationId'', JStr (w_id s)), (''status'', JStr (status_text (w_status s))),
                        (''verificationType'', verification_member s ''verificationType''),
                        (''nodeDecisionReason'', decision_reason s), (''result'', result_view [''signature'', ''stage''] s)]))]))
           | TIN_OPERATION \<Rightarrow> ok_with (JObj (status_head h w @ [(''result'', result_view [''signature'', ''stage''] w)]))
           | SETTLEMENT \<Rightarrow> fail_with 404 ''WORK_STATUS_UNSUPPORTED''))"

definition monitor_row :: "host \<Rightarrow> work \<Rightarrow> json" where
  "monitor_row h w =
     JObj (coordination_head w @ times h w @
       [(''verification'',
          (case w_verification w of
             None \<Rightarrow> JNull
           | Some v \<Rightarrow> JObj [(''verificationType'', nullish (map_of v ''verificationType'') (JStr ''TSN_NODE'')),
               (''reason'', (case map_of v ''reason'' of
                   Some (JStr s) \<Rightarrow> if w_status w = REJECTED then JStr (take 500 s) else JNull | _ \<Rightarrow> JNull))])),
        (''result'', result_view [''signature'', ''stage'', ''reason''] w)])"

definition work_GET :: "host \<Rightarrow> service \<Rightarrow> answer" where
  "work_GET h st = ok_with (JArr (map (monitor_row h) (listRecent 200 (works (queue st)))))"


section \<open>Submitting work\<close>

definition submit_status :: "string \<Rightarrow> nat" where
  "submit_status message = (if message = ''IDEMPOTENCY_CONFLICT'' then 409 else 400)"

text \<open>The random values and the clock that a call draws.\<close>

record draws =
  d_now :: int
  d_uuid :: string
  d_iv :: byte_list

definition receive_in ::
  "host \<Rightarrow> environment \<Rightarrow> draws \<Rightarrow> string option \<Rightarrow> work_kind \<Rightarrow> obj \<Rightarrow> service \<Rightarrow> work result \<times> service" where
  "receive_in h env d i kind p st =
     (case receive h env (d_now d) (d_uuid d) (d_iv d) i kind p (queue st) of (r, q) \<Rightarrow> (r, st\<lparr>queue := q\<rparr>))"

definition submitted :: "(work \<Rightarrow> answer) \<Rightarrow> work result \<times> service \<Rightarrow> answer \<times> service" where
  "submitted view = (\<lambda>(r, st). case r of Inl e \<Rightarrow> (fail_with (submit_status e) e, st) | Inr w \<Rightarrow> (view w, st))"

definition intents_POST ::
  "host \<Rightarrow> environment \<Rightarrow> draws \<Rightarrow> string option \<Rightarrow> obj result \<Rightarrow> service \<Rightarrow> answer \<times> service" where
  "intents_POST h env d apiKey body st =
     (case and_then (requireService env apiKey) (\<lambda>_. body) of
        Inl e \<Rightarrow> (fail_with (submit_status e) e, st)
      | Inr payload \<Rightarrow>
          (let i = str_or_empty (map_of payload ''paymentId'') in
           if i = [] then (fail_with 422 ''paymentId is required'', st)
           else (case assertAuthorizedFundingIngress h payload of
                   Inl e \<Rightarrow> (fail_with (submit_status e) e, st)
                 | Inr _ \<Rightarrow> submitted (\<lambda>w. \<lparr>r_status = 202, r_body = publicIntent h w\<rparr>)
                              (receive_in h env d (Some i) AUTHORIZED_FUNDING payload st))))"

definition intents_GET :: "host \<Rightarrow> environment \<Rightarrow> string option \<Rightarrow> service \<Rightarrow> answer" where
  "intents_GET h env apiKey st =
     (case requireService env apiKey of
        Inl e \<Rightarrow> fail_with 401 ''Unauthorized''
      | Inr _ \<Rightarrow> ok_with (JArr (map (publicIntent h) (listKind AUTHORIZED_FUNDING (works (queue st))))))"

record submit_body =
  b_id :: "string option"
  b_kind :: "work_kind option"
  b_payload :: "obj option"

definition work_POST :: "host \<Rightarrow> environment \<Rightarrow> draws \<Rightarrow> submit_body result \<Rightarrow> service \<Rightarrow> answer \<times> service" where
  "work_POST h env d body st =
     (case body of
        Inl e \<Rightarrow> (fail_with (submit_status e) e, st)
      | Inr b \<Rightarrow>
          (case (b_kind b, b_payload b) of
             (Some kind, Some payload) \<Rightarrow>
               (case assertExternalWorkKind kind of
                  Inl e \<Rightarrow> (fail_with (submit_status e) e, st)
                | Inr _ \<Rightarrow> submitted (\<lambda>w. \<lparr>r_status = 201, r_body = JObj (coordination_head w
                               @ [(''payload'', JObj (publicCoordinationPayload w))] @ times h w)\<rparr>)
                             (receive_in h env d (b_id b) kind payload st))
           | _ \<Rightarrow> (fail_with 422 ''kind and payload are required'', st)))"

definition tin_operations_POST :: "host \<Rightarrow> environment \<Rightarrow> draws \<Rightarrow> obj result \<Rightarrow> service \<Rightarrow> answer \<times> service" where
  "tin_operations_POST h env d body st =
     (case body of
        Inl e \<Rightarrow> (fail_with (submit_status e) e, st)
      | Inr payload \<Rightarrow>
          submitted (\<lambda>w. \<lparr>r_status = 201, r_body = JObj
              ([(''intentId'', JStr (js_string (nullish (map_of payload ''intentId'')
                   (nullish (map_of payload ''ownerIntentHash'') (JStr (w_id w)))))),
                (''operationId'', JStr (w_id w))] @ tl (coordination_head w)
               @ [(''payload'', JObj (publicCoordinationPayload w))] @ times h w)\<rparr>)
            (receive_in h env d None TIN_OPERATION payload st))"

section \<open>The Node's routes\<close>

definition node_error_status :: "string \<Rightarrow> nat" where
  "node_error_status message =
     (if message = ''UNAUTHORIZED_SERVICE'' then 401 else if js_includes message ''required'' then 400 else 500)"

record lease_body =
  b_nodeId :: "string option"
  b_supportedKinds :: "work_kind list option"

definition opt_work :: "host \<Rightarrow> work option \<Rightarrow> json" where
  "opt_work h w = (case w of None \<Rightarrow> JNull | Some x \<Rightarrow> work_json h x)"

definition node_work_POST :: "host \<Rightarrow> environment \<Rightarrow> int \<Rightarrow> string option \<Rightarrow> lease_body result \<Rightarrow> service \<Rightarrow> answer \<times> service" where
  "node_work_POST h env now apiKey body st =
     (case and_then (requireService env apiKey) (\<lambda>_. and_then body (\<lambda>b.
             case b_nodeId b of
               Some n \<Rightarrow> if n = [] then Inl ''nodeId is required'' else Inr (n, b_supportedKinds b)
             | None \<Rightarrow> Inl ''nodeId is required'')) of
        Inl e \<Rightarrow> (fail_with (node_error_status e) e, st)
      | Inr (n, kinds) \<Rightarrow>
          (case leaseForNode h env n kinds now (queue st) of
             (Inl e, q) \<Rightarrow> (fail_with (node_error_status e) e, st\<lparr>queue := q\<rparr>)
           | (Inr w, q) \<Rightarrow> (ok_with (JObj [(''work'', opt_work h w)]), st\<lparr>queue := q\<rparr>)))"

definition node_work_GET :: "host \<Rightarrow> environment \<Rightarrow> string option \<Rightarrow> string option \<Rightarrow> service \<Rightarrow> answer" where
  "node_work_GET h env apiKey i st =
     (case and_then (requireService env apiKey) (\<lambda>_.
             case i of None \<Rightarrow> Inl ''id is required''
             | Some x \<Rightarrow> if x = [] then Inl ''id is required'' else getWorkForNode h env x (works (queue st))) of
        Inl e \<Rightarrow> fail_with (node_error_status e) e
      | Inr None \<Rightarrow> fail_with 404 ''WORK_NOT_FOUND''
      | Inr (Some w) \<Rightarrow> ok_with (JObj [(''work'', work_json h w)]))"

record report_body =
  b_workId :: string
  b_owner :: string
  b_expectedVersion :: int
  b_reported :: work_status
  b_evidence :: "obj option"

definition report_in ::
  "host \<Rightarrow> environment \<Rightarrow> actor \<Rightarrow> int \<Rightarrow> string \<Rightarrow> report_body \<Rightarrow> service \<Rightarrow> work result \<times> service" where
  "report_in h env a now owner b st =
     (case transition h env a now (b_workId b) owner (b_expectedVersion b) (b_reported b) (b_evidence b) (queue st) of
        (r, q) \<Rightarrow> (r, st\<lparr>queue := q\<rparr>))"

definition node_work_PATCH :: "host \<Rightarrow> environment \<Rightarrow> int \<Rightarrow> string option \<Rightarrow> report_body result \<Rightarrow> service \<Rightarrow> answer \<times> service" where
  "node_work_PATCH h env now apiKey body st =
     (case and_then (requireService env apiKey) (\<lambda>_. body) of
        Inl e \<Rightarrow> (fail_with 409 e, st)
      | Inr b \<Rightarrow>
          (case report_in h env Node now (b_owner b) b st of
             (Inl e, st') \<Rightarrow> (fail_with 409 e, st')
           | (Inr w, st') \<Rightarrow> (ok_with (work_json h w), st')))"

definition node_retry_POST ::
  "host \<Rightarrow> environment \<Rightarrow> int \<Rightarrow> string option \<Rightarrow> (json option \<times> json option) result \<Rightarrow> service \<Rightarrow> answer \<times> service" where
  "node_retry_POST h env now apiKey body st =
     (let refuse = (\<lambda>e. (fail_with (if e = ''UNAUTHORIZED_SERVICE'' then 401 else if e = ''WORK_NOT_FOUND'' then 404 else 409) e)) in
      (case and_then (requireService env apiKey) (\<lambda>_. body) of
         Inl e \<Rightarrow> (refuse e, st)
       | Inr (Some (JStr i), Some (JNum v)) \<Rightarrow>
           if js_trim i = [] \<or> \<not> safe_integer v then (fail_with 400 ''id and integer expectedVersion are required'', st)
           else (case retrySettlementSnapshot h now i v ''authenticated-node-service'' (queue st) of
                   (Inl e, q) \<Rightarrow> (refuse e, st\<lparr>queue := q\<rparr>)
                 | (Inr (i', s, v'), q) \<Rightarrow>
                     (ok_with (JObj [(''id'', JStr i'), (''status'', JStr (status_text s)), (''stateVersion'', JNum v')]), st\<lparr>queue := q\<rparr>))
       | Inr _ \<Rightarrow> (fail_with 400 ''id and integer expectedVersion are required'', st)))"

definition node_state_POST :: "host \<Rightarrow> environment \<Rightarrow> string \<Rightarrow> string option \<Rightarrow> obj result \<Rightarrow> service \<Rightarrow> answer \<times> service" where
  "node_state_POST h env root apiKey body st =
     (let refuse = (\<lambda>e. if e = ''UNAUTHORIZED_SERVICE'' then fail_with 401 e
                        else if e \<in> set [''STATE_KEY_REQUIRED'', ''STATE_FIELD_REQUIRED'', ''STATE_OPERATION_INVALID''] then fail_with 400 e
                        else fail_with 500 ''STATE_STORAGE_UNAVAILABLE'') in
      (case and_then (requireService env apiKey) (\<lambda>_. body) of
         Inl e \<Rightarrow> (refuse e, st)
       | Inr b \<Rightarrow>
           (case executeStateOperation h root b (kv st) of
              (Inl e, f) \<Rightarrow> (refuse e, st\<lparr>kv := f\<rparr>)
            | (Inr v, f) \<Rightarrow> (ok_with v, st\<lparr>kv := f\<rparr>))))"


section \<open>The Crankers' routes\<close>

definition cranker_error_status :: "string \<Rightarrow> nat" where
  "cranker_error_status message =
     (if message = ''UNAUTHORIZED_SERVICE'' then 401
      else if list_ex (js_includes message)
        [''CRANKER_SIGNATURE'', ''CRANKER_PUBLIC_KEY'', ''CRANKER_MOTHER'', ''CRANKER_OPERATOR'', ''CRANKER_ACCOUNT'',
         ''CRANKER_SESSION'', ''CRANKER_REQUEST'', ''CHALLENGE'', ''REQUEST_EXPIRED''] then 401
      else if js_includes message ''RATE_LIMITED'' then 429
      else if list_ex (\<lambda>w. js_includes (lower message) (lower w))
        [''fetch failed'', ''ECONNRESET'', ''network'', ''timeout'', ''temporarily unavailable''] then 503
      else if js_includes message ''authorization service is unavailable'' then 503
      else if js_includes message ''TSN Node authorization failed'' then 502
      else 409)"

definition authenticate_in ::
  "host \<Rightarrow> int \<Rightarrow> auth_headers \<Rightarrow> string \<Rightarrow> string \<Rightarrow> string \<Rightarrow> service \<Rightarrow> string result \<times> service" where
  "authenticate_in h now hdrs bodyText method path st =
     (case authenticateCrankerRequest h now hdrs bodyText method path (admission st) of
        (r, a) \<Rightarrow> (r, st\<lparr>admission := a\<rparr>))"

definition limit_in :: "host \<Rightarrow> int \<Rightarrow> string \<Rightarrow> service \<Rightarrow> unit result \<times> service" where
  "limit_in h now operator st =
     (case enforceCrankerLeaseRateLimit h now operator (admission st) of (r, a) \<Rightarrow> (r, st\<lparr>admission := a\<rparr>))"

definition members_of :: "json \<Rightarrow> obj result" where
  "members_of v = (case v of JObj ob \<Rightarrow> Inr ob | JNull \<Rightarrow> Inl ''TypeError'' | _ \<Rightarrow> Inr [])"

text \<open>The authorization the Node gives for a leased settlement.\<close>

definition fetch_authorization ::
  "environment \<Rightarrow> deployment \<Rightarrow> (string \<Rightarrow> string \<Rightarrow> http_response result) \<Rightarrow> string \<Rightarrow> work \<Rightarrow> obj result" where
  "fetch_authorization env dep ask operator w =
     (if (case RECEIVER_NODE_API_KEY env of None \<Rightarrow> True | Some k \<Rightarrow> k = []) \<or> node_urls dep = []
      then Inl ''TSN Node authorization service is not configured''
      else (case node_call (\<lambda>u. ask (u @ ''/internal/settlement-authorizations/settlement'')
                   (json_stringify (JObj [(''workId'', JStr (w_id w)), (''crankerPubkey'', JStr operator)]))) [] (node_urls dep) of
              Inl e \<Rightarrow> Inl (''TSN Node authorization service is unavailable ('' @ (if e = [] then ''fetch failed'' else e) @ '')'')
            | Inr r \<Rightarrow>
                if \<not> http_ok r then Inl (''TSN Node authorization failed ('' @ dec (h_status r) @ ''): '' @ take 500 (h_body r))
                else (case json_parse (h_body r) of None \<Rightarrow> Inl ''SyntaxError'' | Some v \<Rightarrow> members_of v)))"

definition attach_in ::
  "host \<Rightarrow> int \<Rightarrow> string \<Rightarrow> work \<Rightarrow> obj result \<Rightarrow> service \<Rightarrow> work result \<times> service" where
  "attach_in h now operator w auth st =
     (case auth of
        Inl e \<Rightarrow> (Inl e, st)
      | Inr a \<Rightarrow>
          (case attachCrankerAuthorization h now (w_id w) operator (w_stateVersion w) a (queue st) of
             (r, q) \<Rightarrow> (r, st\<lparr>queue := q\<rparr>)))"

definition cranker_failure :: "string \<Rightarrow> answer" where
  "cranker_failure e = fail_with (cranker_error_status e) e"

definition cranker_reply :: "host \<Rightarrow> work option \<Rightarrow> answer" where
  "cranker_reply h w = ok_with (JObj [(''work'', crankerWorkView h w)])"

definition lease_for_operator ::
  "host \<Rightarrow> environment \<Rightarrow> deployment \<Rightarrow> (string \<Rightarrow> string \<Rightarrow> http_response result) \<Rightarrow> int \<Rightarrow> string \<Rightarrow> work_kind list option
     \<Rightarrow> service \<Rightarrow> answer \<times> service" where
  "lease_for_operator h env dep ask now operator kinds st =
     (case leaseForCranker operator kinds now (queue st) of
        (None, q) \<Rightarrow> (cranker_reply h None, st\<lparr>queue := q\<rparr>)
      | (Some w, q) \<Rightarrow>
          (let st' = st\<lparr>queue := q\<rparr> in
           if w_kind w = SETTLEMENT
           then (case attach_in h now operator w (fetch_authorization env dep ask operator w) st' of
                   (Inl e, st'') \<Rightarrow> (cranker_failure e, st'')
                 | (Inr w', st'') \<Rightarrow> (cranker_reply h (Some w'), st''))
           else (cranker_reply h (Some w), st')))"

definition cranker_work_POST ::
  "host \<Rightarrow> environment \<Rightarrow> deployment \<Rightarrow> (string \<Rightarrow> string \<Rightarrow> http_response result) \<Rightarrow> int \<Rightarrow> auth_headers \<Rightarrow> string
     \<Rightarrow> work_kind list option result \<Rightarrow> service \<Rightarrow> answer \<times> service" where
  "cranker_work_POST h env dep ask now hdrs bodyText body st =
     (case authenticate_in h now hdrs bodyText ''POST'' ''/api/cranker/work'' st of
        (Inl e, st1) \<Rightarrow> (cranker_failure e, st1)
      | (Inr operator, st1) \<Rightarrow>
          (case limit_in h now operator st1 of
             (Inl e, st2) \<Rightarrow> (cranker_failure e, st2)
           | (Inr _, st2) \<Rightarrow>
               (case body of
                  Inl e \<Rightarrow> (cranker_failure e, st2)
                | Inr kinds \<Rightarrow> lease_for_operator h env dep ask now operator kinds st2)))"

definition cranker_work_PATCH ::
  "host \<Rightarrow> environment \<Rightarrow> int \<Rightarrow> auth_headers \<Rightarrow> string \<Rightarrow> report_body result \<Rightarrow> service \<Rightarrow> answer \<times> service" where
  "cranker_work_PATCH h env now hdrs bodyText body st =
     (case authenticate_in h now hdrs bodyText ''PATCH'' ''/api/cranker/work'' st of
        (Inl e, st1) \<Rightarrow> (cranker_failure e, st1)
      | (Inr operator, st1) \<Rightarrow>
          (case body of
             Inl e \<Rightarrow> (cranker_failure e, st1)
           | Inr b \<Rightarrow>
               (case report_in h env Cranker now operator b st1 of
                  (Inl e, st2) \<Rightarrow> (cranker_failure e, st2)
                | (Inr w, st2) \<Rightarrow> (ok_with (work_json h w), st2))))"

definition signature_error_status :: "string \<Rightarrow> nat" where
  "signature_error_status message =
     (if list_ex (js_includes message)
        [''UNAUTHORIZED_SERVICE'', ''CRANKER_SIGNATURE'', ''CRANKER_PUBLIC_KEY'', ''CRANKER_MOTHER'', ''CRANKER_OPERATOR'',
         ''CRANKER_SESSION'', ''CRANKER_REQUEST'', ''CHALLENGE'', ''REQUEST_EXPIRED''] then 401
      else if js_includes message ''RATE_LIMITED'' then 429 else 409)"

text \<open>The Node's reply is passed on as text, so the answer here is an \<open>http_response\<close>.\<close>

definition json_answer :: "nat \<Rightarrow> obj \<Rightarrow> http_response" where
  "json_answer s ob = \<lparr>h_status = s, h_type = Some ''application/json'', h_body = json_stringify (JObj ob)\<rparr>"

definition request_signature ::
  "environment \<Rightarrow> deployment \<Rightarrow> (string \<Rightarrow> string \<Rightarrow> http_response result) \<Rightarrow> string \<Rightarrow> string \<Rightarrow> string \<Rightarrow> http_response" where
  "request_signature env dep ask operator workId messageBase64 =
     (if (case RECEIVER_NODE_API_KEY env of None \<Rightarrow> True | Some k \<Rightarrow> k = []) \<or> node_urls dep = []
      then json_answer 503 [(''error'', JStr ''TSN Node signing service is not configured'')]
      else (case node_call (\<lambda>u. ask (u @ ''/internal/settlement-authorizations/signature'')
                   (json_stringify (JObj [(''workId'', JStr workId), (''crankerPubkey'', JStr operator),
                      (''messageBase64'', JStr messageBase64)]))) [] (node_urls dep) of
              Inl e \<Rightarrow> json_answer 503 [(''error'', JStr ''TSN Node signing service is unavailable''), (''detail'', JStr e)]
            | Inr r \<Rightarrow> \<lparr>h_status = h_status r, h_type = Some (case h_type r of Some t \<Rightarrow> t | None \<Rightarrow> ''application/json''),
                         h_body = h_body r\<rparr>))"

definition settlement_signature_POST ::
  "host \<Rightarrow> environment \<Rightarrow> deployment \<Rightarrow> (string \<Rightarrow> string \<Rightarrow> http_response result) \<Rightarrow> int \<Rightarrow> auth_headers \<Rightarrow> string
     \<Rightarrow> service \<Rightarrow> http_response \<times> service" where
  "settlement_signature_POST h env dep ask now hdrs bodyText st =
     (let refuse = (\<lambda>e. json_answer (signature_error_status e) [(''error'', JStr e)]) in
      (case authenticate_in h now hdrs bodyText ''POST'' ''/api/cranker/settlement-signature'' st of
         (Inl e, st1) \<Rightarrow> (refuse e, st1)
       | (Inr operator, st1) \<Rightarrow>
           (case limit_in h now operator st1 of
              (Inl e, st2) \<Rightarrow> (refuse e, st2)
            | (Inr _, st2) \<Rightarrow>
                (case (case json_parse bodyText of None \<Rightarrow> Inl ''SyntaxError'' | Some v \<Rightarrow> members_of v) of
                   Inl e \<Rightarrow> (refuse e, st2)
                 | Inr b \<Rightarrow>
                     (let workId = js_trim (str_or_empty (map_of b ''workId''));
                          messageBase64 = js_trim (str_or_empty (map_of b ''messageBase64''))
                      in if workId = [] \<or> messageBase64 = []
                         then (json_answer 422 [(''error'', JStr ''workId and messageBase64 are required'')], st2)
                         else (request_signature env dep ask operator workId messageBase64, st2))))))"

section \<open>Admission routes\<close>

definition js_or_empty :: "string option \<Rightarrow> string" where
  "js_or_empty v = (case v of None \<Rightarrow> [] | Some s \<Rightarrow> js_trim s)"

definition challenge_POST ::
  "host \<Rightarrow> chain \<Rightarrow> string list \<Rightarrow> int \<Rightarrow> string \<Rightarrow> string option result \<Rightarrow> service \<Rightarrow> answer \<times> service" where
  "challenge_POST h ch urls now nonce body st =
     (let refuse = (\<lambda>e. fail_with (if js_starts_with e ''CRANKER_RPC_UNAVAILABLE'' then 503
                                    else if js_starts_with e ''CRANKER_'' then 403 else 400) e) in
      (case body of
         Inl e \<Rightarrow> (refuse e, st)
       | Inr k \<Rightarrow>
           if js_or_empty k = [] then (fail_with 422 ''publicKey is required'', st)
           else (case issueCrankerChallenge h ch urls now nonce (js_or_empty k) (admission st) of
                   (Inl e, a) \<Rightarrow> (refuse e, st\<lparr>admission := a\<rparr>)
                 | (Inr (n, t), a) \<Rightarrow>
                     (ok_with (JObj [(''nonce'', JStr n), (''expiresAt'', JStr (to_iso h t))]), st\<lparr>admission := a\<rparr>))))"

record session_body =
  b_publicKey :: "string option"
  b_nonce :: "string option"
  b_timestamp :: "string option"
  b_signature :: "string option"

definition session_POST ::
  "host \<Rightarrow> int \<Rightarrow> string \<Rightarrow> string \<Rightarrow> session_body result \<Rightarrow> service \<Rightarrow> answer \<times> service" where
  "session_POST h now sessionId token body st =
     (let refuse = (\<lambda>e. fail_with (if js_starts_with e ''CRANKER_'' then 401 else 400) e) in
      (case body of
         Inl e \<Rightarrow> (refuse e, st)
       | Inr b \<Rightarrow>
           (case issueCrankerSession h now sessionId token (js_or_empty (b_publicKey b)) (js_or_empty (b_nonce b))
                   (js_or_empty (b_timestamp b)) (js_or_empty (b_signature b)) (admission st) of
              (Inl e, a) \<Rightarrow> (refuse e, st\<lparr>admission := a\<rparr>)
            | (Inr (sid, tok, t), a) \<Rightarrow>
                (ok_with (JObj [(''sessionId'', JStr sid), (''token'', JStr tok), (''expiresAt'', JStr (to_iso h t))]),
                 st\<lparr>admission := a\<rparr>))))"

text \<open>
  \<open>api/cranker/wake-token\<close>: \<open>mint\<close> stands for the Firebase custom token and its exchange (the
  parsed reply, or the status of a refusal), and throws as \<open>Inl\<close>.
\<close>

definition wake_token_POST ::
  "host \<Rightarrow> string option \<Rightarrow> bool \<Rightarrow> (string \<Rightarrow> (nat + string option \<times> string option) result) \<Rightarrow> int \<Rightarrow> auth_headers \<Rightarrow> string
     \<Rightarrow> string option result \<Rightarrow> service \<Rightarrow> answer \<times> service" where
  "wake_token_POST h webApiKey has_app mint now hdrs bodyText body st =
     (let refuse = (\<lambda>e. if js_includes e ''CRANKER'' then fail_with 401 e
                        else fail_with 503 ''Realtime Database wake token unavailable'') in
      (case authenticate_in h now hdrs bodyText ''POST'' ''/api/cranker/wake-token'' st of
         (Inl e, st1) \<Rightarrow> (refuse e, st1)
       | (Inr crankerId, st1) \<Rightarrow>
           ((case body of
               Inl e \<Rightarrow> refuse e
             | Inr claimed \<Rightarrow>
                 if (case claimed of None \<Rightarrow> False | Some c \<Rightarrow> c \<noteq> [] \<and> c \<noteq> crankerId) then fail_with 403 ''operator identity mismatch''
                 else if crankerId = [] \<or> 128 < length crankerId then fail_with 400 ''crankerId is required''
                 else if env_trim webApiKey = [] then fail_with 503 ''Realtime Database wake authentication is not configured''
                 else if \<not> has_app then fail_with 503 ''Realtime Database wake authentication is unavailable with the local JSON store''
                 else (case mint crankerId of
                         Inl e \<Rightarrow> refuse e
                       | Inr (Inl s) \<Rightarrow> fail_with 503 ''Realtime Database wake authentication failed''
                       | Inr (Inr (idToken, expiresIn)) \<Rightarrow>
                           (case idToken of
                              Some t \<Rightarrow> if t = [] then fail_with 503 ''Realtime Database wake token was empty''
                                else ok_with (JObj [(''idToken'', JStr t), (''expiresIn'', JStr (case expiresIn of None \<Rightarrow> ''3600'' | Some x \<Rightarrow> x))])
                            | None \<Rightarrow> fail_with 503 ''Realtime Database wake token was empty''))), st1)))"

text \<open>\<open>api/health\<close>: \<open>probe\<close> is the outcome of the one-row query; on failure, the code it carries.\<close>

definition health_GET :: "deployment \<Rightarrow> unit result \<Rightarrow> answer" where
  "health_GET dep probe =
     (let storage = JStr (if localMode dep then ''FILE'' else ''FIREBASE'') in
      (case probe of
         Inr _ \<Rightarrow> ok_with (JObj [(''service'', JStr ''TSN_RECEIVER''), (''storage'', storage), (''status'', JStr ''READY'')])
       | Inl c \<Rightarrow> \<lparr>r_status = 503, r_body = JObj [(''service'', JStr ''TSN_RECEIVER''), (''storage'', storage),
                     (''status'', JStr ''DEGRADED''), (''errorCode'', JStr (if c = [] then ''FIREBASE_STORAGE_ERROR'' else c))]\<rparr>))"

definition tin_operations_forward where
  "tin_operations_forward env dep ask q path = proxyNode env dep ask q (''tin-operations/'' @ js_join ''/'' path)"

definition network_forward where
  "network_forward env dep ask q path = proxyNode env dep ask q (''network/'' @ js_join ''/'' path)"

definition tin_routes_forward where
  "tin_routes_forward env dep ask q path = proxyNode env dep ask q (''tin-routes/'' @ js_join ''/'' path)"

section \<open>Who may change the queue, and what a Cranker sees\<close>

lemma and_then_unauthorized: "requireService env apiKey \<noteq> Inr () \<Longrightarrow> and_then (requireService env apiKey) f = Inl ''UNAUTHORIZED_SERVICE''"
  using requireService_Inl [of env apiKey] by (cases "requireService env apiKey") auto

text \<open>
  Without the Node's service key no route of the Node and no funding submission changes
  anything, and each of them answers with an error.
\<close>

theorem node_routes_need_service_key:
  assumes "RECEIVER_NODE_API_KEY env = None \<or> RECEIVER_NODE_API_KEY env = Some [] \<or> apiKey \<noteq> RECEIVER_NODE_API_KEY env"
  shows "intents_POST h env d apiKey b1 st = (fail_with 400 ''UNAUTHORIZED_SERVICE'', st) \<and>
    intents_GET h env apiKey st = fail_with 401 ''Unauthorized'' \<and>
    node_work_POST h env now apiKey b2 st = (fail_with 401 ''UNAUTHORIZED_SERVICE'', st) \<and>
    node_work_GET h env apiKey i st = fail_with 401 ''UNAUTHORIZED_SERVICE'' \<and>
    node_work_PATCH h env now apiKey b3 st = (fail_with 409 ''UNAUTHORIZED_SERVICE'', st) \<and>
    node_retry_POST h env now apiKey b4 st = (fail_with 401 ''UNAUTHORIZED_SERVICE'', st) \<and>
    node_state_POST h env root apiKey b5 st = (fail_with 401 ''UNAUTHORIZED_SERVICE'', st)"
proof -
  have no: "requireService env apiKey \<noteq> Inr ()" using assms by (auto simp: requireService_iff)
  then obtain e where "requireService env apiKey = Inl e" by (cases "requireService env apiKey") auto
  then show ?thesis
    using and_then_unauthorized [OF no]
    by (simp add: intents_POST_def intents_GET_def node_work_POST_def node_work_GET_def node_work_PATCH_def node_retry_POST_def
        node_state_POST_def submit_status_def node_error_status_def)
qed

theorem node_routes_need_service_key_witness:
  "node_work_PATCH sample_host (sample_env\<lparr>RECEIVER_NODE_API_KEY := Some ''key''\<rparr>) 0 (Some ''other'') (Inl ''x'')
     \<lparr>queue = workspace, admission = sample_auth_db, kv = Absent\<rparr>
   = (fail_with 409 ''UNAUTHORIZED_SERVICE'', \<lparr>queue = workspace, admission = sample_auth_db, kv = Absent\<rparr>)"
  by (rule node_routes_need_service_key [THEN conjunct2, THEN conjunct2, THEN conjunct2, THEN conjunct2, THEN conjunct1]) simp

definition minimal_view :: "work_kind \<Rightarrow> obj \<Rightarrow> bool" where
  "minimal_view kind ob \<longleftrightarrow>
     map_of ob ''payload'' = Some (JObj []) \<and>
     (\<forall>v. map_of ob ''verification'' = Some (JObj v) \<longrightarrow>
        fst ` set v \<subseteq> {''verificationType'', ''nodeAttestation'', ''verifiedPayload''} \<and>
        (\<forall>p. map_of v ''verifiedPayload'' = Some (JObj p) \<longrightarrow> fst ` set p \<subseteq> set (cranker_fields kind)))"

lemma view_minimal: "\<exists>ob. crankerWorkView h (Some w) = JObj ob \<and> minimal_view (w_kind w) ob"
proof -
  have "fst ` set (crankerExecutionPayload (w_kind w) p) \<subseteq> set (cranker_fields (w_kind w))" for p
    by (rule crankerExecutionPayload_keys)
  then show ?thesis
    by (auto simp: crankerWorkView_def Let_def minimal_view_def coordination_head_def times_def split: option.splits if_splits)
qed

definition held :: "actor \<Rightarrow> string \<Rightarrow> int \<Rightarrow> work \<Rightarrow> bool" where
  "held a owner now w \<longleftrightarrow> w_status w = leased_status a \<and> (\<exists>l. actor_lease a w = Some l \<and> l_owner l = owner \<and> now < l_expiresAt l)"

lemma lease_tx_held: "lease_tx a owner now i db = Some (w, db') \<Longrightarrow> map_of db' i = Some w \<and> held a owner now w"
  by (drule lease_tx_Some) (cases a, auto simp: held_def work_update_lookup LEASE_MS_def)

lemma lease_first_held:
  "lease_first a owner kinds now ws db = Some (w, db') \<Longrightarrow> \<exists>i. map_of db' i = Some w \<and> held a owner now w"
  by (induction a owner kinds now ws db rule: lease_first.induct)
    (auto split: if_splits option.splits dest!: lease_tx_held)

lemma lease_held:
  "lease a owner kinds now st = (Some w, st') \<Longrightarrow> \<exists>i. map_of (works st') i = Some w \<and> held a owner now w"
  by (auto simp: lease_def Let_def split: option.splits dest!: lease_first_held)

lemma attach_in_Inr:
  assumes "attach_in h now operator w auth st = (Inr w', st')"
  shows "\<exists>a l. auth = Inr a \<and> map_of (works (queue st')) (w_id w) = Some w' \<and> held Cranker operator now w' \<and>
    w_crankerLease w' = Some l \<and> w_authorization w' = Some a \<and>
    authorization_matches h now (w'\<lparr>w_stateVersion := w_stateVersion w' - 1\<rparr>) l a"
  using assms
  by (auto simp: attach_in_def attachCrankerAuthorization_def held_def work_update_lookup authorization_matches_def lease_version_def
      split: sum.splits prod.splits option.splits dest!: attach_tx_Inr)


definition authenticated ::
  "host \<Rightarrow> int \<Rightarrow> auth_headers \<Rightarrow> string \<Rightarrow> string \<Rightarrow> string \<Rightarrow> service \<Rightarrow> string \<Rightarrow> bool" where
  "authenticated h now hdrs bodyText method path st operator \<longleftrightarrow>
     operator = env_trim (x_public_key hdrs) \<and>
     (\<exists>r. map_of (sessions (admission st)) (env_trim (x_session_id hdrs)) = Some r \<and> s_publicKey r = operator \<and>
        now < s_expiresAt r \<and> s_lastCounter r < int (dec_val (env_trim (x_counter hdrs)))) \<and>
     verify_text h operator (canonicalSessionRequest h method path (env_trim (x_timestamp hdrs)) (env_trim (x_session_id hdrs))
       (env_trim (x_counter hdrs)) bodyText) (env_trim (x_signature hdrs)) = Inr ()"

lemma authenticate_in_Inr:
  assumes "authenticate_in h now hdrs bodyText method path st = (Inr operator, st1)"
  shows "authenticated h now hdrs bodyText method path st operator \<and> queue st1 = queue st \<and> kv st1 = kv st"
  using assms
  by (auto simp: authenticate_in_def authenticateCrankerRequest_def authenticated_def check_request_def Let_def
      split: sum.splits prod.splits dest!: session_tx_Inr)

lemma authenticate_in_Inl:
  "authenticate_in h now hdrs bodyText method path st = (Inl e, st1) \<Longrightarrow> st1 = st"
  by (auto simp: authenticate_in_def authenticateCrankerRequest_def split: sum.splits prod.splits)

lemma limit_in_queue: "limit_in h now operator st = (r, st1) \<Longrightarrow> queue st1 = queue st \<and> kv st1 = kv st"
  by (auto simp: limit_in_def split: prod.splits)

definition shows_lease :: "host \<Rightarrow> int \<Rightarrow> string \<Rightarrow> answer \<Rightarrow> service \<Rightarrow> bool" where
  "shows_lease h now operator a st \<longleftrightarrow>
     (\<exists>i w ob. map_of (works (queue st)) i = Some w \<and> held Cranker operator now w \<and>
        r_body a = JObj [(''work'', JObj ob)] \<and> crankerWorkView h (Some w) = JObj ob \<and> minimal_view (w_kind w) ob \<and>
        (w_kind w = SETTLEMENT \<longrightarrow> (\<exists>l auth. w_crankerLease w = Some l \<and> w_authorization w = Some auth \<and>
           authorization_matches h now (w\<lparr>w_stateVersion := w_stateVersion w - 1\<rparr>) l auth)))"

lemma shows_lease_reply:
  assumes "map_of (works (queue st)) i = Some w" "held Cranker operator now w"
    and "w_kind w = SETTLEMENT \<Longrightarrow> \<exists>l auth. w_crankerLease w = Some l \<and> w_authorization w = Some auth \<and>
           authorization_matches h now (w\<lparr>w_stateVersion := w_stateVersion w - 1\<rparr>) l auth"
  shows "shows_lease h now operator (cranker_reply h (Some w)) st"
  using assms view_minimal [of h w] unfolding shows_lease_def by (fastforce simp: cranker_reply_def ok_with_def)

lemma cranker_failure_status: "r_status (cranker_failure e) \<noteq> 200"
  by (simp add: cranker_failure_def fail_with_def cranker_error_status_def)

lemma lease_for_operator_reply:
  assumes "lease_for_operator h env dep ask now operator kinds st = (a, st')" "r_status a = 200"
  shows "a = cranker_reply h None \<or> shows_lease h now operator a st'"
proof (cases "leaseForCranker operator kinds now (queue st)")
  case (Pair r q)
  show ?thesis
  proof (cases r)
    case None
    then show ?thesis using assms Pair by (auto simp: lease_for_operator_def)
  next
    case (Some w)
    then obtain i where w: "map_of (works q) i = Some w" "held Cranker operator now w"
      using Pair lease_held unfolding leaseForCranker_def by blast
    show ?thesis
    proof (cases "w_kind w = SETTLEMENT")
      case False
      with assms Pair Some have "a = cranker_reply h (Some w)" "st' = st\<lparr>queue := q\<rparr>"
        by (auto simp: lease_for_operator_def Let_def)
      with w False show ?thesis by (auto intro: shows_lease_reply)
    next
      case True
      with assms Pair Some obtain w' where "attach_in h now operator w (fetch_authorization env dep ask operator w) (st\<lparr>queue := q\<rparr>)
          = (Inr w', st')" and a: "a = cranker_reply h (Some w')"
        by (auto simp: lease_for_operator_def Let_def cranker_failure_status split: prod.splits sum.splits)
      from attach_in_Inr [OF this(1)] show ?thesis unfolding a by (auto intro: shows_lease_reply)
    qed
  qed
qed

lemma cranker_post_cases:
  assumes "cranker_work_POST h env dep ask now hdrs bodyText body st = (a, st')"
  shows "r_status a \<noteq> 200 \<and> queue st' = queue st \<or>
    (\<exists>operator kinds st2. authenticated h now hdrs bodyText ''POST'' ''/api/cranker/work'' st operator \<and>
       lease_for_operator h env dep ask now operator kinds st2 = (a, st') \<and> queue st2 = queue st)"
  using assms
  by (auto simp: cranker_work_POST_def cranker_failure_status split: prod.splits sum.splits
      dest!: authenticate_in_Inr authenticate_in_Inl limit_in_queue)


text \<open>
  The queue changes on a Cranker's request only if the request is authenticated.
\<close>

theorem cranker_changes_are_authenticated:
  "(cranker_work_POST h env dep ask now hdrs bodyText b1 st = (a, st') \<and> queue st' \<noteq> queue st \<longrightarrow>
      (\<exists>operator. authenticated h now hdrs bodyText ''POST'' ''/api/cranker/work'' st operator)) \<and>
   (cranker_work_PATCH h env now hdrs bodyText b2 st = (a, st') \<and> queue st' \<noteq> queue st \<longrightarrow>
      (\<exists>operator. authenticated h now hdrs bodyText ''PATCH'' ''/api/cranker/work'' st operator))"
proof (intro conjI impI)
  assume "cranker_work_POST h env dep ask now hdrs bodyText b1 st = (a, st') \<and> queue st' \<noteq> queue st"
  then show "\<exists>operator. authenticated h now hdrs bodyText ''POST'' ''/api/cranker/work'' st operator"
    using cranker_post_cases by blast
next
  assume "cranker_work_PATCH h env now hdrs bodyText b2 st = (a, st') \<and> queue st' \<noteq> queue st"
  then show "\<exists>operator. authenticated h now hdrs bodyText ''PATCH'' ''/api/cranker/work'' st operator"
    by (auto simp: cranker_work_PATCH_def split: prod.splits sum.splits dest!: authenticate_in_Inr authenticate_in_Inl)
qed


section \<open>A sample request\<close>

definition sample_service :: service where
  "sample_service = \<lparr>queue = \<lparr>works = [(''w1'', sample_work)], sent = []\<rparr>, admission = sample_auth_db, kv = Absent\<rparr>"

definition sample_deployment :: deployment where
  "sample_deployment = \<lparr>FIREBASE_PROJECT_ID = None, FIREBASE_CLIENT_EMAIL = None, FIREBASE_PRIVATE_KEY = None,
     TSN_RECEIVER_STORE = None, TSN_ALLOW_LOCAL_JSON_STORE = None, TSN_NODE_URL = None, TSN_NODE_FALLBACK_URL = None,
     TSN_NODE_WAKE_TIMEOUT_MS = None, FIREBASE_DATABASE_URL = None\<rparr>"

lemma sample_lease:
  "\<exists>w q. leaseForCranker op None 7000 (queue sample_service) = (Some w, q) \<and> w_kind w = TIN_OPERATION \<and> q \<noteq> queue sample_service"
  by (simp add: leaseForCranker_def lease_def Let_def sample_service_def status_snapshot_def limit_rows_def sample_work_def
      sort_by_def eligible_def lease_tx_def work_update_def)

lemma sample_limit: "\<exists>ad. enforceCrankerLeaseRateLimit sample_host 7000 zero_key ad0 = (Inr (), ad)" if "rates ad0 = []" for ad0
  using that by (simp add: enforceCrankerLeaseRateLimit_def rate_tx_def pruneCrankerRateLimits_def matching_ids_def limit_rows_def
      MAX_LEASE_ATTEMPTS_PER_MINUTE_def Let_def del: sample_host_simps)

lemma sample_post:
  "\<exists>a st'. cranker_work_POST sample_host sample_env sample_deployment (\<lambda>u b. Inl ''down'') 7000 sample_headers [] (Inr None) sample_service
     = (a, st') \<and> r_status a = 200 \<and> queue st' \<noteq> queue sample_service"
proof -
  obtain db1 where auth: "authenticateCrankerRequest sample_host 7000 sample_headers [] ''POST'' ''/api/cranker/work'' sample_auth_db
      = (Inr zero_key, db1)" using sample_request_accepted by blast
  then have "rates db1 = []"
    by (auto simp: authenticateCrankerRequest_def sample_auth_db_def split: sum.splits)
  from sample_limit [OF this] obtain ad where lim: "enforceCrankerLeaseRateLimit sample_host 7000 zero_key db1 = (Inr (), ad)" by blast
  obtain w q where "leaseForCranker zero_key None 7000 (queue sample_service) = (Some w, q)" "w_kind w = TIN_OPERATION"
    "q \<noteq> queue sample_service" using sample_lease by blast
  with auth lim show ?thesis
    by (simp add: cranker_work_POST_def authenticate_in_def limit_in_def sample_service_def lease_for_operator_def
        cranker_reply_def ok_with_def)
qed


theorem cranker_changes_are_authenticated_witness:
  "\<exists>operator. authenticated sample_host 7000 sample_headers [] ''POST'' ''/api/cranker/work'' sample_service operator"
  using sample_post cranker_changes_are_authenticated by blast

end
