(* ===== verification/Token_Amount.thy ===== *)
theory Token_Amount
  imports Json_Parse Sample_Host
begin

text \<open>
  Token amounts of \<open>sdks/tsn-sdk/src/canonical-message.ts\<close>: decimal text to integer base units and
  back. \<open>BigInt\<close> is \<open>int\<close>; its division truncates towards zero.
\<close>

section \<open>Decimal text\<close>

text \<open>\<open>/^(\d+)(?:\.(\d+))?$/\<close>: the whole digits and, after a point, the fractional digits.\<close>

definition decimal_parts :: "string \<Rightarrow> (string \<times> string option) option" where
  "decimal_parts s =
     (let w = takeWhile is_digit s; r = dropWhile is_digit s in
      if w = [] then None
      else (case r of
              [] \<Rightarrow> Some (w, None)
            | c # f \<Rightarrow> if c = CHR ''.'' \<and> f \<noteq> [] \<and> list_all is_digit f then Some (w, Some f) else None))"

definition fraction_of :: "string option \<Rightarrow> string" where
  "fraction_of f = (case f of None \<Rightarrow> [] | Some x \<Rightarrow> x)"

definition padEnd :: "nat \<Rightarrow> string \<Rightarrow> string" where
  "padEnd n s = s @ replicate (n - length s) (CHR ''0'')"

definition padStart :: "nat \<Rightarrow> string \<Rightarrow> string" where
  "padStart n s = replicate (n - length s) (CHR ''0'') @ s"

definition strip_zeros :: "string \<Rightarrow> string" where
  "strip_zeros s = rev (dropWhile (\<lambda>c. c = CHR ''0'') (rev s))"

definition base_units :: "nat \<Rightarrow> string \<Rightarrow> string option \<Rightarrow> nat" where
  "base_units decimals whole f = dec_val whole * 10 ^ decimals + dec_val (padEnd decimals (fraction_of f))"

section \<open>Operations\<close>

definition U64_MAX :: nat where
  "U64_MAX = 0xffffffffffffffff"

definition valid_decimals :: "int \<Rightarrow> bool" where
  "valid_decimals d \<longleftrightarrow> 0 \<le> d \<and> d \<le> 18"

definition parseTokenAmountToBaseUnits :: "string \<Rightarrow> int \<Rightarrow> bool \<Rightarrow> nat result" where
  "parseTokenAmountToBaseUnits value decimals allowZero =
     and_then (require (valid_decimals decimals) ''Token decimals must be an integer from 0 through 18'') (\<lambda>_.
       (case decimal_parts (js_trim value) of
          Some (whole, f) \<Rightarrow>
            and_then (require (length (fraction_of f) \<le> nat decimals)
              (''Amount must be a plain decimal with at most '' @ int_str decimals @ '' fractional digits'')) (\<lambda>_.
            let baseUnits = base_units (nat decimals) whole f in
            and_then (require (allowZero \<or> baseUnits \<noteq> 0) ''Amount must be positive'') (\<lambda>_.
            and_then (require (baseUnits \<le> U64_MAX) ''Amount is outside the u64 range'') (\<lambda>_.
            Inr baseUnits)))
        | None \<Rightarrow> Inl (''Amount must be a plain decimal with at most '' @ int_str decimals @ '' fractional digits'')))"

definition parseTokenAmount :: "string \<Rightarrow> string \<Rightarrow> nat \<Rightarrow> nat result" where
  "parseTokenAmount value label decimals =
     (case decimal_parts value of
        Some (whole, f) \<Rightarrow>
          and_then (require (length (fraction_of f) \<le> decimals)
            (label @ '' must be a decimal token amount with at most '' @ dec decimals @ '' fractional digits'')) (\<lambda>_.
          Inr (base_units decimals whole f))
      | None \<Rightarrow> Inl (label @ '' must be a decimal token amount with at most '' @ dec decimals @ '' fractional digits''))"

definition bigint_div :: "int \<Rightarrow> int \<Rightarrow> int" where
  "bigint_div a b = sgn a * sgn b * (\<bar>a\<bar> div \<bar>b\<bar>)"

definition bigint_mod :: "int \<Rightarrow> int \<Rightarrow> int" where
  "bigint_mod a b = sgn a * (\<bar>a\<bar> mod \<bar>b\<bar>)"

definition point_text :: "int \<Rightarrow> nat \<Rightarrow> string" where
  "point_text baseUnits decimals =
     (let scale = 10 ^ decimals;
          fraction = strip_zeros (padStart decimals (int_str (bigint_mod baseUnits scale)))
      in int_str (bigint_div baseUnits scale) @ (if fraction \<noteq> [] then ''.'' @ fraction else ''.00''))"

definition formatTokenBaseUnits :: "int \<Rightarrow> int \<Rightarrow> string result" where
  "formatTokenBaseUnits baseUnits decimals =
     and_then (require (valid_decimals decimals) ''Token decimals must be an integer from 0 through 18'') (\<lambda>_.
       Inr (if decimals = 0 then int_str baseUnits else point_text baseUnits (nat decimals)))"

definition parseUsdc :: "string \<Rightarrow> string \<Rightarrow> nat result" where
  "parseUsdc value label =
     (let n = length value - 5; body = take n value in
      (case decimal_parts body of
         Some (whole, f) \<Rightarrow>
           and_then (require (5 \<le> length value \<and> drop n value = '' USDC'' \<and> length (fraction_of f) \<le> 6)
             (label @ '' must be a decimal USDC amount'')) (\<lambda>_.
           Inr (base_units 6 whole f))
       | None \<Rightarrow> Inl (label @ '' must be a decimal USDC amount'')))"

definition formatUsdcBaseUnits :: "int \<Rightarrow> string" where
  "formatUsdcBaseUnits baseUnits = point_text baseUnits 6 @ '' USDC''"

section \<open>Printing and reading\<close>

lemma decimal_parts_point:
  "w \<noteq> [] \<Longrightarrow> list_all is_digit w \<Longrightarrow> f \<noteq> [] \<Longrightarrow> list_all is_digit f \<Longrightarrow> decimal_parts (w @ ''.'' @ f) = Some (w, Some f)"
proof -
  assume a: "w \<noteq> []" "list_all is_digit w" "f \<noteq> []" "list_all is_digit f"
  have "\<not> is_digit (CHR ''.'')" by (simp add: is_digit_def)
  with a have "takeWhile is_digit (w @ CHR ''.'' # f) = w" "dropWhile is_digit (w @ CHR ''.'' # f) = CHR ''.'' # f"
    by (auto simp: list_all_iff)
  with a show ?thesis by (simp add: decimal_parts_def Let_def)
qed

lemma decimal_parts_whole:
  "w \<noteq> [] \<Longrightarrow> list_all is_digit w \<Longrightarrow> decimal_parts w = Some (w, None)"
proof -
  assume w: "w \<noteq> []" "list_all is_digit w"
  then have tw: "takeWhile is_digit w = w" and dw: "dropWhile is_digit w = []" by (simp_all add: list_all_iff)
  show ?thesis using w(1) unfolding decimal_parts_def Let_def tw dw by simp
qed

lemma digit_val_0 [simp]: "digit_val (CHR ''0'') = 0" "is_digit (CHR ''0'')"
  by (simp_all add: digit_val_def is_digit_def)

lemma dec_val_zeros [simp]: "dec_val (replicate n (CHR ''0'')) = 0"
  by (induction n) (auto simp: dec_val_Cons)

lemma dec_val_padStart [simp]: "dec_val (padStart n s) = dec_val s"
  by (simp add: padStart_def dec_val_append)

text \<open>Stripping trailing zeros and padding again gives the digits back.\<close>

lemma padEnd_strip: "length s = n \<Longrightarrow> padEnd n (strip_zeros s) = s"
proof -
  assume n: "length s = n"
  let ?k = "length (takeWhile (\<lambda>c. c = CHR ''0'') (rev s))"
  have z: "takeWhile (\<lambda>c. c = CHR ''0'') (rev s) = replicate ?k (CHR ''0'')"
    by (rule replicate_length_same [symmetric]) (auto dest: set_takeWhileD)
  have "rev s = takeWhile (\<lambda>c. c = CHR ''0'') (rev s) @ dropWhile (\<lambda>c. c = CHR ''0'') (rev s)" by simp
  then have "s = strip_zeros s @ rev (takeWhile (\<lambda>c. c = CHR ''0'') (rev s))"
    unfolding strip_zeros_def by (metis rev_append rev_rev_ident)
  then have s: "s = strip_zeros s @ replicate ?k (CHR ''0'')" by (metis z rev_replicate)
  then have "length s = length (strip_zeros s) + ?k" by (metis length_append length_replicate)
  with n s show ?thesis unfolding padEnd_def by (metis diff_add_inverse)
qed

lemma strip_zeros_digits: "list_all is_digit s \<Longrightarrow> list_all is_digit (strip_zeros s)"
  by (auto simp: strip_zeros_def list_all_iff dest: set_dropWhileD)

lemma strip_zeros_length: "length (strip_zeros s) \<le> length s"
  by (simp add: strip_zeros_def) (metis length_dropWhile_le length_rev)

lemma strip_zeros_Nil: "strip_zeros s = [] \<Longrightarrow> dec_val s = 0"
proof -
  assume "strip_zeros s = []"
  then have "padEnd (length s) [] = s" using padEnd_strip [of s "length s"] by simp
  then show ?thesis by (metis append_Nil dec_val_zeros padEnd_def)
qed

lemma length_dec: "n < 10 ^ k \<Longrightarrow> 0 < k \<Longrightarrow> length (dec n) \<le> k"
proof (induction n arbitrary: k rule: dec.induct)
  case (1 n)
  show ?case
  proof (cases "n < 10")
    case True
    with "1.prems" show ?thesis by (subst dec.simps) simp
  next
    case False
    then obtain j where k: "k = Suc (Suc j)" using "1.prems" by (metis One_nat_def Suc_pred less_Suc0 neq0_conv not_less_eq power_one_right zero_less_Suc gr0_conv_Suc)
    with "1.prems" have "n div 10 < 10 ^ Suc j" by (simp add: div_less_iff_less_mult mult.commute)
    with 1(1) [OF False] k have "length (dec (n div 10)) \<le> Suc j" by blast
    with False k show ?thesis by (subst dec.simps) simp
  qed
qed


lemma point_text_parts:
  assumes "0 < d"
  obtains f where "decimal_parts (point_text (int n) d) = Some (dec (n div 10 ^ d), Some f)"
    "length f \<le> d \<or> f = ''00'' \<and> n mod 10 ^ d = 0" "dec_val (padEnd d f) = n mod 10 ^ d"
proof -
  let ?m = "n mod 10 ^ d" and ?p = "padStart d (dec (n mod 10 ^ d))"
  have "int n div 10 ^ d = int (n div 10 ^ d)" "int n mod 10 ^ d = int ?m"
    by (simp_all add: zdiv_int zmod_int)
  then have q: "int_str (bigint_div (int n) (10 ^ d)) = dec (n div 10 ^ d)" "int_str (bigint_mod (int n) (10 ^ d)) = dec ?m"
    by (cases "n = 0"; simp add: bigint_div_def bigint_mod_def int_str_def)+
  have len: "length ?p = d" using length_dec [OF _ assms, of ?m] by (simp add: padStart_def)
  have dig: "list_all is_digit ?p" by (auto simp: padStart_def list_all_iff)
  show thesis
  proof (cases "strip_zeros ?p = []")
    case True
    then have m: "?m = 0" using strip_zeros_Nil by fastforce
    have z: "dec_val (padEnd d ''00'') = 0" by (simp add: padEnd_def dec_val_Cons)
    have "point_text (int n) d = dec (n div 10 ^ d) @ ''.'' @ ''00''" using True q by (simp add: point_text_def Let_def)
    with m z decimal_parts_point [of "dec (n div 10 ^ d)" "''00''"] show thesis by (intro that [of "''00''"]) (simp_all add: is_digit_def)
  next
    case False
    have "point_text (int n) d = dec (n div 10 ^ d) @ ''.'' @ strip_zeros ?p" using False q by (simp add: point_text_def Let_def)
    moreover have "dec_val (padEnd d (strip_zeros ?p)) = ?m" by (simp add: padEnd_strip [OF len])
    ultimately show thesis
      using decimal_parts_point [of "dec (n div 10 ^ d)" "strip_zeros ?p"] False strip_zeros_digits [OF dig] strip_zeros_length [of ?p] len
      by (intro that [of "strip_zeros ?p"]) simp_all
  qed
qed

lemma base_units_split: "dec_val (padEnd d f) = n mod 10 ^ d \<Longrightarrow> base_units d (dec (n div 10 ^ d)) (Some f) = n"
  using div_mult_mod_eq [of n "10 ^ d"] by (simp add: base_units_def fraction_of_def)

lemma point_text_round:
  assumes "2 \<le> d \<or> d = 1 \<and> n mod 10 \<noteq> 0"
  shows "parseTokenAmount (point_text (int n) d) label d = Inr n"
proof -
  have d: "0 < d" using assms by auto
  obtain f where f: "decimal_parts (point_text (int n) d) = Some (dec (n div 10 ^ d), Some f)"
    "length f \<le> d \<or> f = ''00'' \<and> n mod 10 ^ d = 0" "dec_val (padEnd d f) = n mod 10 ^ d"
    by (rule point_text_parts [OF d])
  have "length f \<le> d"
  proof (cases "d = 1")
    case True
    then have "n mod 10 ^ d \<noteq> 0" using assms by simp
    with f(2) show ?thesis by blast
  next
    case False
    with assms have "2 \<le> d" by blast
    with f(2) show ?thesis by (elim disjE conjE) simp_all
  qed
  then show ?thesis unfolding parseTokenAmount_def f(1) using base_units_split [OF f(3)] by (simp add: fraction_of_def)
qed

lemma format_round:
  assumes "valid_decimals d" "d \<noteq> 1 \<or> n mod 10 \<noteq> 0"
  shows "\<exists>s. formatTokenBaseUnits (int n) d = Inr s \<and> parseTokenAmount s label (nat d) = Inr n"
proof (cases "d = 0")
  case True
  then show ?thesis
    by (simp add: formatTokenBaseUnits_def valid_decimals_def int_str_def parseTokenAmount_def decimal_parts_whole
        base_units_def fraction_of_def padEnd_def)
next
  case False
  with assms have "2 \<le> nat d \<or> nat d = 1 \<and> n mod 10 \<noteq> 0" by (auto simp: valid_decimals_def)
  with False assms(1) show ?thesis using point_text_round by (simp add: formatTokenBaseUnits_def)
qed

text \<open>
  Token amounts survive printing and reading: for every number of decimals from 0 to 18 other
  than 1, the text \<open>formatTokenBaseUnits\<close> prints is read back by \<open>parseTokenAmount\<close> as the same
  number of base units.
\<close>

theorem token_amount_roundtrip:
  assumes "0 \<le> d" "d \<le> 18" "d \<noteq> 1"
  shows "\<exists>s. formatTokenBaseUnits (int n) d = Inr s \<and> parseTokenAmount s label (nat d) = Inr n"
  by (rule format_round) (use assms in \<open>auto simp: valid_decimals_def\<close>)

theorem token_amount_roundtrip_witness:
  "\<exists>s. formatTokenBaseUnits 1500000 6 = Inr s \<and> parseTokenAmount s ''Amount'' 6 = Inr 1500000"
  using token_amount_roundtrip [of 6 1500000 "''Amount''"] by simp

text \<open>
  With one decimal the two functions disagree: every whole amount is printed with two
  fractional zeros, which the reader of the same message refuses.
\<close>

theorem one_decimal_amount_unreadable:
  assumes "n mod 10 = 0"
  shows "\<exists>s e. formatTokenBaseUnits (int n) 1 = Inr s \<and> parseTokenAmount s label 1 = Inl e"
proof -
  have "int n mod 10 = 0" using assms by presburger
  then have "bigint_mod (int n) 10 = 0" by (simp add: bigint_mod_def)
  moreover have "strip_zeros (padStart 1 (int_str 0)) = []" by code_simp
  ultimately have "strip_zeros (padStart 1 (int_str (bigint_mod (int n) 10))) = []" by simp
  then have "point_text (int n) 1 = dec (n div 10) @ ''.'' @ ''00''"
    by (cases "n = 0") (simp_all add: point_text_def Let_def bigint_div_def int_str_def nat_div_distrib)
  then have "decimal_parts (point_text (int n) 1) = Some (dec (n div 10), Some ''00'')"
    using decimal_parts_point [of "dec (n div 10)" "''00''"] by (simp add: is_digit_def)
  then show ?thesis by (simp add: formatTokenBaseUnits_def valid_decimals_def parseTokenAmount_def fraction_of_def)
qed

theorem one_decimal_amount_unreadable_witness:
  "\<exists>s e. formatTokenBaseUnits 50 1 = Inr s \<and> parseTokenAmount s ''Amount'' 1 = Inl e"
  using one_decimal_amount_unreadable [of 50 "''Amount''"] by simp

text \<open>
  An amount a user types is accepted only as a positive number (or zero where allowed) of base
  units within 64 bits, never rounded: the accepted text denotes exactly the returned value.
\<close>

theorem user_amount_bounds:
  assumes "parseTokenAmountToBaseUnits value d allowZero = Inr n"
  shows "n < 2 ^ 64 \<and> (allowZero \<or> 0 < n) \<and> 0 \<le> d \<and> d \<le> 18 \<and>
    (\<exists>whole f. decimal_parts (js_trim value) = Some (whole, f) \<and> length (fraction_of f) \<le> nat d \<and>
       n * 10 ^ length (fraction_of f) = (dec_val whole * 10 ^ length (fraction_of f) + dec_val (fraction_of f)) * 10 ^ nat d)"
proof -
  from assms obtain whole f where p: "decimal_parts (js_trim value) = Some (whole, f)" "length (fraction_of f) \<le> nat d"
    "n = base_units (nat d) whole f" "allowZero \<or> n \<noteq> 0" "n \<le> U64_MAX" "valid_decimals d"
    by (auto simp: parseTokenAmountToBaseUnits_def Let_def split: option.splits)
  let ?l = "length (fraction_of f)"
  have "dec_val (padEnd (nat d) (fraction_of f)) = dec_val (fraction_of f) * 10 ^ (nat d - ?l)"
    by (simp add: padEnd_def dec_val_append)
  moreover have "(10::nat) ^ (nat d - ?l) * 10 ^ ?l = 10 ^ nat d" using p(2) by (simp flip: power_add)
  ultimately have "n * 10 ^ ?l = (dec_val whole * 10 ^ ?l + dec_val (fraction_of f)) * 10 ^ nat d"
    unfolding p(3) base_units_def by (simp add: algebra_simps)
  with p show ?thesis by (auto simp: U64_MAX_def valid_decimals_def)
qed

theorem user_amount_bounds_witness:
  "parseTokenAmountToBaseUnits '' 1.25 '' 6 False = Inr 1250000 \<and> (1250000::nat) < 2 ^ 64"
proof -
  have pad: "padEnd 6 ''25'' = ''250000''" by code_simp
  have "dec_val ''1'' = 1" "dec_val ''250000'' = 250000" by (simp_all add: dec_val_def digit_val_def)
  moreover have "decimal_parts (js_trim '' 1.25 '') = Some (''1'', Some ''25'')" by code_simp
  ultimately have "parseTokenAmountToBaseUnits '' 1.25 '' 6 False = Inr 1250000"
    using pad by (simp add: parseTokenAmountToBaseUnits_def valid_decimals_def fraction_of_def base_units_def U64_MAX_def)
  with user_amount_bounds [OF this] show ?thesis by blast
qed

end
