(* ===== verification/Canonical_Message.thy ===== *)
theory Canonical_Message
  imports Token_Amount
begin

text \<open>
  \<open>sdks/tsn-sdk/src/canonical-message.ts\<close>: the texts users sign. A message is a title line, a
  separator, one line per field and the domain line; the parser reads it back into a map of labels
  to values. Dates are instants in milliseconds, printed by \<open>to_iso\<close>.
\<close>

section \<open>Messages\<close>

abbreviation nl :: char where "nl \<equiv> CHR 0x0A"

definition TSN_CANONICAL_DOMAIN_HASH :: "host \<Rightarrow> string" where
  "TSN_CANONICAL_DOMAIN_HASH h = sha256_hex h ''trustlink-pay:tsn:canonical-signing:v1''"

definition js_slice_end :: "nat \<Rightarrow> string \<Rightarrow> string" where
  "js_slice_end n s = drop (length s - n) s"

definition TSN_CANONICAL_DOMAIN_DISPLAY :: "host \<Rightarrow> string" where
  "TSN_CANONICAL_DOMAIN_DISPLAY h = ''...'' @ js_slice_end 8 (TSN_CANONICAL_DOMAIN_HASH h)"

definition field_line :: "string \<times> string \<Rightarrow> string" where
  "field_line f = fst f @ '': '' @ snd f"

definition buildMessage :: "host \<Rightarrow> string \<Rightarrow> (string \<times> string) list \<Rightarrow> string" where
  "buildMessage h action fs =
     js_join [nl] ((''TSN '' @ action) # ''---'' # map field_line fs @ [''Domain: '' @ TSN_CANONICAL_DOMAIN_DISPLAY h])"

text \<open>\<open>indexOf(": ")\<close>: the text before and after the first occurrence.\<close>

fun split_field :: "string \<Rightarrow> (string \<times> string) option" where
  "split_field (a # b # s) =
     (if a = CHR '':'' \<and> b = CHR '' '' then Some ([], s) else map_option (\<lambda>(l, v). (a # l, v)) (split_field (b # s)))"
| "split_field _ = None"

fun read_fields :: "string list \<Rightarrow> (string \<times> string) list \<Rightarrow> (string \<times> string) list result" where
  "read_fields [] fs = Inr fs"
| "read_fields (line # ls) fs =
     (case split_field line of
        None \<Rightarrow> Inl (''canonical field is malformed: '' @ line)
      | Some (label, v) \<Rightarrow>
          if label = [] then Inl (''canonical field is malformed: '' @ line)
          else if map_of fs label \<noteq> None then Inl (''canonical field is duplicated: '' @ label)
          else read_fields ls (fs @ [(label, v)]))"

definition parseMessage :: "host \<Rightarrow> string \<Rightarrow> string \<Rightarrow> (string \<times> string) list result" where
  "parseMessage h message action =
     and_then (require (js_starts_with message ''TSN '') ''canonical message must start with TSN '') (\<lambda>_.
     (let ls = map js_trim_end (js_split nl message) in
      and_then (require (hd ls = ''TSN '' @ action) (''expected TSN '' @ action @ '' message'')) (\<lambda>_.
      and_then (require (2 \<le> length ls \<and> ls ! 1 = ''---'') ''canonical message is missing separator line'') (\<lambda>_.
      and_then (read_fields (drop 2 ls) []) (\<lambda>fs.
      and_then (require (map_of fs ''Domain'' = Some (TSN_CANONICAL_DOMAIN_DISPLAY h)) ''canonical domain does not match TSN'') (\<lambda>_.
      Inr fs))))))"

definition requireField :: "(string \<times> string) list \<Rightarrow> string \<Rightarrow> string result" where
  "requireField fs label =
     (case map_of fs label of
        None \<Rightarrow> Inl (''canonical field is missing: '' @ label)
      | Some v \<Rightarrow> if v = [] then Inl (''canonical field is missing: '' @ label) else Inr v)"

definition isCanonicalTsnMessage :: "string \<Rightarrow> bool" where
  "isCanonicalTsnMessage message \<longleftrightarrow> js_starts_with message ''TSN '' \<and> sublist ([nl] @ ''---'' @ [nl]) message"

section \<open>Values\<close>

definition parseTin :: "string \<Rightarrow> string \<Rightarrow> string result" where
  "parseTin v label = (if v \<noteq> [] \<and> list_all is_digit v then Inr v else Inl (label @ '' must be plain digits''))"

definition parseHash32 :: "string \<Rightarrow> string \<Rightarrow> string result" where
  "parseHash32 v label =
     (let n = lower (js_trim v) in
      if length n = 64 \<and> list_all is_lower_hex n then Inr n
      else Inl (label @ '' must be a 32-byte hexadecimal commitment''))"

definition parseRouteVersion :: "string \<Rightarrow> nat result" where
  "parseRouteVersion v =
     (let n = js_trim v in
      and_then (require (n \<noteq> [] \<and> list_all is_digit n \<and> hd n \<noteq> CHR ''0'')
        ''Recipient Route Version must be a positive integer'') (\<lambda>_.
      and_then (require (int (dec_val n) \<le> max_safe_integer)
        ''Recipient Route Version is outside the safe integer range'') (\<lambda>_.
      Inr (dec_val n))))"

definition parseExpiry :: "host \<Rightarrow> string \<Rightarrow> int result" where
  "parseExpiry h v =
     (case date_parse h v of
        Some t \<Rightarrow> if to_iso h t = v then Inr t else Inl ''Expires must be an ISO 8601 UTC timestamp''
      | None \<Rightarrow> Inl ''Expires must be an ISO 8601 UTC timestamp'')"

section \<open>Recipient credentials and display names\<close>

record credential_claim =
  credentialType :: string
  issuer :: string
  claims :: "(string \<times> string) list"

definition normal_credential :: "host \<Rightarrow> credential_claim \<Rightarrow> credential_claim result" where
  "normal_credential h c =
     and_then (require (js_trim (credentialType c) \<noteq> [] \<and> js_trim (issuer c) \<noteq> [])
       ''Verified recipient credentials must include a type, issuer, and claims'') (\<lambda>_.
     and_then (require (list_all (\<lambda>(k, v). js_trim k \<noteq> []) (claims c))
       ''Verified recipient credential claims must be named strings'') (\<lambda>_.
     Inr (c\<lparr>claims := sort_by (by_key (collate h)) (claims c)\<rparr>)))"

definition claims_json :: "credential_claim \<Rightarrow> json" where
  "claims_json c = JObj (map (\<lambda>(k, v). (k, JStr v)) (claims c))"

definition credential_json :: "credential_claim \<Rightarrow> json" where
  "credential_json c = JObj [(''credentialType'', JStr (credentialType c)), (''issuer'', JStr (issuer c)), (''claims'', claims_json c)]"

text \<open>\<open>a.localeCompare(b) || rest\<close> as an order.\<close>

definition then_by :: "(string \<Rightarrow> string \<Rightarrow> bool) \<Rightarrow> string \<Rightarrow> string \<Rightarrow> bool \<Rightarrow> bool" where
  "then_by le a b rest \<longleftrightarrow> (if le a b \<and> le b a then rest else le a b)"

definition credential_le :: "host \<Rightarrow> credential_claim \<Rightarrow> credential_claim \<Rightarrow> bool" where
  "credential_le h a b =
     then_by (collate h) (credentialType a) (credentialType b)
       (then_by (collate h) (issuer a) (issuer b)
         (collate h (json_stringify (claims_json a)) (json_stringify (claims_json b))))"

definition canonicalRecipientCredentials :: "host \<Rightarrow> credential_claim list \<Rightarrow> string result" where
  "canonicalRecipientCredentials h cs =
     and_then (map_result (normal_credential h) cs) (\<lambda>ns.
       Inr (json_stringify (JArr (map credential_json (sort_by (credential_le h) ns)))))"

definition control_char :: "char \<Rightarrow> bool" where
  "control_char c \<longleftrightarrow> code c \<le> 31 \<or> code c = 127"

definition canonicalDisplayName :: "string option \<Rightarrow> string result" where
  "canonicalDisplayName v =
     (let n = (case v of None \<Rightarrow> [] | Some s \<Rightarrow> js_trim s) in
      and_then (require (\<not> list_ex control_char n) ''Recipient display name must not contain control characters'') (\<lambda>_.
      Inr (if n = [] then ''(not provided)'' else n)))"

section \<open>Payment intents\<close>

record payment_params =
  p_amountBaseUnits :: int
  p_tokenMintAddress :: string
  p_tokenDecimals :: int
  p_recipientTin :: string
  p_recipientDisplayName :: "string option"
  p_recipientDisplayNameSource :: "string option"
  p_credentials :: "credential_claim list"
  p_feeBaseUnits :: int
  p_sender :: string
  p_nonce :: string
  p_expires :: int

definition display_source :: "payment_params \<Rightarrow> string" where
  "display_source p =
     (case p_recipientDisplayName p of
        None \<Rightarrow> ''not provided''
      | Some n \<Rightarrow> if js_trim n = [] then ''not provided''
                  else (case p_recipientDisplayNameSource p of None \<Rightarrow> ''owner-provided'' | Some s \<Rightarrow> s))"

definition buildPaymentIntentMessage :: "host \<Rightarrow> payment_params \<Rightarrow> string result" where
  "buildPaymentIntentMessage h p =
     and_then (require (js_trim (p_tokenMintAddress p) \<noteq> []) ''Token Mint is required'') (\<lambda>_.
     and_then (formatTokenBaseUnits (p_amountBaseUnits p) (p_tokenDecimals p)) (\<lambda>amount.
     and_then (parseTin (p_recipientTin p) ''Recipient TIN'') (\<lambda>tin.
     and_then (canonicalDisplayName (p_recipientDisplayName p)) (\<lambda>name.
     and_then (canonicalRecipientCredentials h (p_credentials p)) (\<lambda>creds.
     and_then (formatTokenBaseUnits (p_feeBaseUnits p) (p_tokenDecimals p)) (\<lambda>fee.
     Inr (buildMessage h ''Payment Intent''
       [(''Token Mint'', js_trim (p_tokenMintAddress p)), (''Token Decimals'', int_str (p_tokenDecimals p)), (''Amount'', amount),
        (''Recipient TIN'', tin), (''Recipient Display Name'', name), (''Recipient Display Name Source'', display_source p),
        (''Recipient Verified Credentials'', creds), (''Fee'', fee), (''Sender'', p_sender p), (''Nonce'', p_nonce p),
        (''Expires'', to_iso h (p_expires p))])))))))"

record payment_intent =
  tokenMintAddress :: string
  tokenDecimals :: int
  amountBaseUnits :: nat
  recipientTin :: string
  recipientDisplayName :: string
  recipientDisplayNameSource :: string
  recipientVerifiedCredentials :: json
  feeBaseUnits :: nat
  pi_sender :: string
  pi_nonce :: string
  pi_expires :: int

definition parsePaymentIntentMessage :: "host \<Rightarrow> string \<Rightarrow> payment_intent result" where
  "parsePaymentIntentMessage h message =
     and_then (parseMessage h message ''Payment Intent'') (\<lambda>fs.
     and_then (requireField fs ''Token Decimals'') (\<lambda>dt.
     (case number_of h dt of
        None \<Rightarrow> Inl ''Token Decimals must be an integer from 0 through 18''
      | Some d \<Rightarrow>
          and_then (require (valid_decimals d) ''Token Decimals must be an integer from 0 through 18'') (\<lambda>_.
          and_then (requireField fs ''Token Mint'') (\<lambda>mint.
          and_then (and_then (requireField fs ''Amount'') (\<lambda>v. parseTokenAmount v ''Amount'' (nat d))) (\<lambda>amount.
          and_then (and_then (requireField fs ''Recipient TIN'') (\<lambda>v. parseTin v ''Recipient TIN'')) (\<lambda>tin.
          and_then (requireField fs ''Recipient Display Name'') (\<lambda>name.
          and_then (requireField fs ''Recipient Display Name Source'') (\<lambda>source.
          and_then (and_then (requireField fs ''Recipient Verified Credentials'')
                      (\<lambda>v. case json_parse v of None \<Rightarrow> Inl ''SyntaxError'' | Some j \<Rightarrow> Inr j)) (\<lambda>creds.
          and_then (and_then (requireField fs ''Fee'') (\<lambda>v. parseTokenAmount v ''Fee'' (nat d))) (\<lambda>fee.
          and_then (requireField fs ''Sender'') (\<lambda>sender.
          and_then (requireField fs ''Nonce'') (\<lambda>nonce.
          and_then (and_then (requireField fs ''Expires'') (parseExpiry h)) (\<lambda>expires.
          Inr \<lparr>tokenMintAddress = mint, tokenDecimals = d, amountBaseUnits = amount, recipientTin = tin,
               recipientDisplayName = name, recipientDisplayNameSource = source, recipientVerifiedCredentials = creds,
               feeBaseUnits = fee, pi_sender = sender, pi_nonce = nonce, pi_expires = expires\<rparr>))))))))))))))"


section \<open>Cross-chain intents\<close>

definition is_evm_address :: "string \<Rightarrow> bool" where
  "is_evm_address s \<longleftrightarrow> length s = 42 \<and> take 2 s = ''0x'' \<and> list_all is_hex (drop 2 s)"

definition strip_0x :: "string \<Rightarrow> string" where
  "strip_0x s = (if lower (take 2 s) = ''0x'' then drop 2 s else s)"

record cross_chain_params =
  x_intentId :: string
  x_amountBaseUnits :: int
  x_destinationToken :: string
  x_recipientTin :: string
  x_feeBaseUnits :: int
  x_sender :: string
  x_nonce :: string
  x_expires :: int
  x_destinationNetwork :: string
  x_destinationExecutor :: string
  x_settlementRouteId :: string

definition buildCrossChainPaymentIntentMessage :: "host \<Rightarrow> cross_chain_params \<Rightarrow> string result" where
  "buildCrossChainPaymentIntentMessage h p =
     and_then (require (js_trim (x_intentId p) \<noteq> [] \<and> js_trim (x_destinationToken p) \<noteq> [] \<and> js_trim (x_destinationNetwork p) \<noteq> [])
       ''cross-chain intent fields must not be empty'') (\<lambda>_.
     and_then (require (is_evm_address (x_destinationExecutor p)) ''Destination Executor must be a 20-byte EVM address'') (\<lambda>_.
     and_then (parseTin (x_recipientTin p) ''Recipient TIN'') (\<lambda>tin.
     and_then (parseHash32 (strip_0x (x_settlementRouteId p)) ''Settlement Route ID'') (\<lambda>route.
     Inr (buildMessage h ''Cross-Chain Payment Intent''
       [(''Intent ID'', x_intentId p), (''Amount'', formatUsdcBaseUnits (x_amountBaseUnits p)),
        (''Asset'', lower (x_destinationToken p)), (''Recipient TIN'', tin), (''Fee'', formatUsdcBaseUnits (x_feeBaseUnits p)),
        (''Sender'', x_sender p), (''Nonce'', x_nonce p), (''Expires'', to_iso h (x_expires p)),
        (''Destination Network'', x_destinationNetwork p), (''Destination Executor'', lower (x_destinationExecutor p)),
        (''Settlement Route ID'', route)])))))"

record cross_chain_intent =
  xi_intentId :: string
  xi_amountBaseUnits :: nat
  xi_destinationToken :: string
  xi_recipientTin :: string
  xi_feeBaseUnits :: nat
  xi_sender :: string
  xi_nonce :: string
  xi_expires :: int
  xi_destinationNetwork :: string
  xi_destinationExecutor :: string
  xi_settlementRouteId :: string

definition parseCrossChainPaymentIntentMessage :: "host \<Rightarrow> string \<Rightarrow> cross_chain_intent result" where
  "parseCrossChainPaymentIntentMessage h message =
     and_then (parseMessage h message ''Cross-Chain Payment Intent'') (\<lambda>fs.
     and_then (requireField fs ''Destination Executor'') (\<lambda>ex0.
     (let ex1 = lower ex0 in
     and_then (require (is_evm_address ex1) ''Destination Executor must be a 20-byte EVM address'') (\<lambda>_.
     and_then (requireField fs ''Intent ID'') (\<lambda>intentId.
     and_then (and_then (requireField fs ''Amount'') (\<lambda>v. parseUsdc v ''Amount'')) (\<lambda>amount.
     and_then (requireField fs ''Asset'') (\<lambda>asset.
     and_then (and_then (requireField fs ''Recipient TIN'') (\<lambda>v. parseTin v ''Recipient TIN'')) (\<lambda>tin.
     and_then (and_then (requireField fs ''Fee'') (\<lambda>v. parseUsdc v ''Fee'')) (\<lambda>fee.
     and_then (requireField fs ''Sender'') (\<lambda>sender.
     and_then (requireField fs ''Nonce'') (\<lambda>nonce.
     and_then (and_then (requireField fs ''Expires'') (parseExpiry h)) (\<lambda>expires.
     and_then (requireField fs ''Destination Network'') (\<lambda>network.
     and_then (and_then (requireField fs ''Settlement Route ID'') (\<lambda>v. parseHash32 v ''Settlement Route ID'')) (\<lambda>route.
     Inr \<lparr>xi_intentId = intentId, xi_amountBaseUnits = amount, xi_destinationToken = lower asset, xi_recipientTin = tin,
          xi_feeBaseUnits = fee, xi_sender = sender, xi_nonce = nonce, xi_expires = expires, xi_destinationNetwork = network,
          xi_destinationExecutor = ex1, xi_settlementRouteId = route\<rparr>))))))))))))))"

section \<open>TIN messages\<close>

record tin_creation =
  tc_tin :: string
  tc_displayName :: string
  tc_privacy :: string
  tc_nonce :: string
  tc_expires :: int

definition buildTinCreationMessage :: "host \<Rightarrow> string \<Rightarrow> string \<Rightarrow> string option \<Rightarrow> string \<Rightarrow> int \<Rightarrow> string result" where
  "buildTinCreationMessage h tin displayName privacy nonce expires =
     and_then (parseTin tin ''TIN'') (\<lambda>t.
     Inr (buildMessage h ''TIN Creation''
       [(''TIN'', t), (''Display Name'', displayName), (''Privacy'', (case privacy of None \<Rightarrow> ''30 PRUs'' | Some p \<Rightarrow> p)),
        (''Nonce'', nonce), (''Expires'', to_iso h expires)]))"

definition parseTinCreationMessage :: "host \<Rightarrow> string \<Rightarrow> tin_creation result" where
  "parseTinCreationMessage h message =
     and_then (parseMessage h message ''TIN Creation'') (\<lambda>fs.
     and_then (and_then (requireField fs ''TIN'') (\<lambda>v. parseTin v ''TIN'')) (\<lambda>tin.
     and_then (requireField fs ''Display Name'') (\<lambda>name.
     and_then (requireField fs ''Privacy'') (\<lambda>privacy.
     and_then (requireField fs ''Nonce'') (\<lambda>nonce.
     and_then (and_then (requireField fs ''Expires'') (parseExpiry h)) (\<lambda>expires.
     Inr \<lparr>tc_tin = tin, tc_displayName = name, tc_privacy = privacy, tc_nonce = nonce, tc_expires = expires\<rparr>))))))"

record tin_wallet_binding =
  wb_tin :: string
  wb_walletPublicKey :: string
  wb_identityPublicKey :: string
  wb_programId :: string
  wb_issuedAt :: int

definition buildTinWalletBindingMessage :: "host \<Rightarrow> tin_wallet_binding \<Rightarrow> string result" where
  "buildTinWalletBindingMessage h b =
     and_then (parseTin (wb_tin b) ''TIN'') (\<lambda>t.
     Inr (buildMessage h ''TIN Wallet Binding''
       [(''TIN'', t), (''Wallet'', wb_walletPublicKey b), (''Identity'', wb_identityPublicKey b), (''Program'', wb_programId b),
        (''Issued At'', to_iso h (wb_issuedAt b))]))"

definition parseTinWalletBindingMessage :: "host \<Rightarrow> string \<Rightarrow> tin_wallet_binding result" where
  "parseTinWalletBindingMessage h message =
     and_then (parseMessage h message ''TIN Wallet Binding'') (\<lambda>fs.
     and_then (and_then (requireField fs ''TIN'') (\<lambda>v. parseTin v ''TIN'')) (\<lambda>tin.
     and_then (requireField fs ''Wallet'') (\<lambda>wallet.
     and_then (requireField fs ''Identity'') (\<lambda>identity.
     and_then (requireField fs ''Program'') (\<lambda>program.
     and_then (and_then (requireField fs ''Issued At'') (parseExpiry h)) (\<lambda>issuedAt.
     Inr \<lparr>wb_tin = tin, wb_walletPublicKey = wallet, wb_identityPublicKey = identity, wb_programId = program, wb_issuedAt = issuedAt\<rparr>))))))"

section \<open>Reading back a message\<close>

text \<open>Labels and values that survive the line format.\<close>

definition plain_label :: "string \<Rightarrow> bool" where
  "plain_label l \<longleftrightarrow> l \<noteq> [] \<and> CHR '':'' \<notin> set l \<and> nl \<notin> set l"

definition plain_value :: "string \<Rightarrow> bool" where
  "plain_value v \<longleftrightarrow> v \<noteq> [] \<and> nl \<notin> set v \<and> \<not> is_space (last v)"

lemma split_field_label: "CHR '':'' \<notin> set l \<Longrightarrow> split_field (l @ '': '' @ v) = Some (l, v)"
proof (induction l)
  case (Cons a l)
  then show ?case by (cases l) auto
qed simp

lemma split_field_line: "plain_label (fst f) \<Longrightarrow> split_field (field_line f) = Some f"
  using split_field_label [of "fst f" "snd f"] by (simp add: plain_label_def field_line_def)

lemma read_fields_lines:
  assumes "\<forall>f \<in> set fs. plain_label (fst f)" "distinct (map fst (acc @ fs))"
  shows "read_fields (map field_line fs) acc = Inr (acc @ fs)"
  using assms
proof (induction fs arbitrary: acc)
  case (Cons f fs)
  then have "map_of acc (fst f) = None" by (auto simp: map_of_eq_None_iff)
  moreover have "fst f \<noteq> []" using Cons.prems(1) by (simp add: plain_label_def)
  moreover have "read_fields (map field_line fs) (acc @ [f]) = Inr ((acc @ [f]) @ fs)"
    using Cons.prems by (intro Cons.IH) auto
  ultimately show ?case using Cons.prems(1) split_field_line [of f] by (cases f) simp
qed simp

lemma field_line_ends:
  assumes "plain_label (fst f)" "plain_value (snd f)"
  shows "js_trim_end (field_line f) = field_line f" "nl \<notin> set (field_line f)"
  using assms by (auto simp: field_line_def plain_label_def plain_value_def js_trim_end_id)

definition domain_law :: "host \<Rightarrow> bool" where
  "domain_law h \<longleftrightarrow> plain_value (TSN_CANONICAL_DOMAIN_DISPLAY h)"

lemma domain_line: "''Domain: '' @ TSN_CANONICAL_DOMAIN_DISPLAY h = field_line (''Domain'', TSN_CANONICAL_DOMAIN_DISPLAY h)"
  by (simp add: field_line_def)

lemma parse_build:
  assumes "plain_value action" "domain_law h" "distinct (map fst fs)" "''Domain'' \<notin> fst ` set fs"
    and "\<forall>f \<in> set fs. plain_label (fst f) \<and> plain_value (snd f)"
  shows "parseMessage h (buildMessage h action fs) action = Inr (fs @ [(''Domain'', TSN_CANONICAL_DOMAIN_DISPLAY h)])"
proof -
  let ?fs = "fs @ [(''Domain'', TSN_CANONICAL_DOMAIN_DISPLAY h)]"
  let ?ls = "(''TSN '' @ action) # ''---'' # map field_line ?fs"
  have all: "\<forall>f \<in> set ?fs. plain_label (fst f) \<and> plain_value (snd f)"
    using assms(2,5) by (auto simp: domain_law_def plain_label_def)
  have "nl \<notin> set (''TSN '' @ action)" "js_trim_end (''TSN '' @ action) = ''TSN '' @ action"
    using assms(1) by (auto simp: plain_value_def js_trim_end_id)
  moreover have "js_trim_end ''---'' = ''---''" by code_simp
  moreover have "map (js_trim_end \<circ> field_line) ?fs = map field_line ?fs" using all field_line_ends by (auto intro!: map_cong)
  ultimately have trim: "map js_trim_end ?ls = ?ls" by (simp only: list.map map_map)
  have "\<forall>l \<in> set ?ls. nl \<notin> set l" using all field_line_ends(2) assms(1) by (auto simp: plain_value_def)
  then have split: "js_split nl (js_join [nl] ?ls) = ?ls" by (intro js_split_join) auto
  have msg: "buildMessage h action fs = js_join [nl] ?ls" unfolding buildMessage_def domain_line by simp
  have start: "js_starts_with (js_join [nl] ?ls) ''TSN ''" by (simp add: js_starts_with_def)
  have "read_fields (map field_line ?fs) [] = Inr ?fs"
    using all assms(3,4) read_fields_lines [of ?fs "[]"] by auto
  moreover have "map_of ?fs ''Domain'' = Some (TSN_CANONICAL_DOMAIN_DISPLAY h)"
    using assms(4) map_of_eq_None_iff [of fs "''Domain''"] by (simp add: map_add_def)
  ultimately show ?thesis
    unfolding msg parseMessage_def Let_def split trim using start by (simp del: js_join.simps list.map(2) map_append)
qed


lemma requireField_hit: "map_of fs l = Some v \<Longrightarrow> v \<noteq> [] \<Longrightarrow> requireField fs l = Inr v"
  by (simp add: requireField_def)

lemma last_js_trim: "js_trim s \<noteq> [] \<Longrightarrow> \<not> is_space (last (js_trim s))"
  unfolding js_trim_def js_trim_end_def
  by (metis hd_dropWhile last_rev rev_is_Nil_conv)

text \<open>Printed JSON is one line.\<close>

lemma esc_char_printable: "c \<in> set (esc_char a) \<Longrightarrow> 32 \<le> code c"
proof -
  assume c: "c \<in> set (esc_char a)"
  have hex: "32 \<le> code (hex_digit n)" if "n < 16" for n
    using that by (auto simp: hex_digit_def)
  show ?thesis
    using c hex [of "code a div 16"] hex [of "code a mod 16"] code_less_256 [of a]
    by (auto simp: esc_char_def hex_byte_def split: if_splits)
qed

lemma json_quote_printable: "c \<in> set (json_quote s) \<Longrightarrow> 32 \<le> code c"
  by (auto simp: json_quote_def dest: esc_char_printable)

lemma join_chars: "c \<in> set (js_join sep xs) \<Longrightarrow> c \<in> set sep \<or> (\<exists>x \<in> set xs. c \<in> set x)"
  by (induction sep xs rule: js_join.induct) auto

lemma int_str_printable: "c \<in> set (int_str n) \<Longrightarrow> 32 \<le> code c"
  by (auto simp: int_str_def is_digit_def dest!: dec_digits split: if_splits)

lemma render_printable: "c \<in> set (render as_is v) \<Longrightarrow> 32 \<le> code c"
proof (induction v arbitrary: c)
  case (JArr vs)
  then show ?case by (auto dest!: join_chars)
next
  case (JObj ob)
  then show ?case
    by (auto simp: as_is_def entry_text_def on_snd_def dest!: join_chars json_quote_printable)
qed (auto dest: int_str_printable json_quote_printable split: if_splits)

lemma json_line: "nl \<notin> set (json_stringify v)"
  unfolding json_stringify_def using render_printable [of nl v] by auto

lemma array_plain: "plain_value (json_stringify (JArr vs))"
  using json_line [of "JArr vs"] by (simp add: plain_value_def json_stringify_def is_space_def)

text \<open>What the runtime prints for instants and numbers it reads back.\<close>

definition text_law :: "host \<Rightarrow> bool" where
  "text_law h \<longleftrightarrow> (\<forall>t. date_parse h (to_iso h t) = Some t) \<and> (\<forall>t. plain_value (to_iso h t)) \<and>
     (\<forall>n. number_of h (int_str n) = Some n) \<and> domain_law h"

lemma text_lawD:
  "text_law h \<Longrightarrow> parseExpiry h (to_iso h t) = Inr t" "text_law h \<Longrightarrow> plain_value (to_iso h t)"
  "text_law h \<Longrightarrow> number_of h (int_str n) = Some n" "text_law h \<Longrightarrow> domain_law h"
  by (simp_all add: text_law_def parseExpiry_def)

lemma digits_plain: "s \<noteq> [] \<Longrightarrow> list_all is_digit s \<Longrightarrow> plain_value s"
  by (auto simp: plain_value_def list_all_iff digit_not_space is_digit_def)

lemma parseTin_Inr: "parseTin v l = Inr t \<longleftrightarrow> t = v \<and> v \<noteq> [] \<and> list_all is_digit v"
  by (auto simp: parseTin_def)

lemma point_text_plain: "0 < d \<Longrightarrow> plain_value (point_text (int n) d)"
proof -
  assume "0 < d"
  then obtain f where "decimal_parts (point_text (int n) d) = Some (dec (n div 10 ^ d), Some f)"
    by (rule point_text_parts)
  then have "dropWhile is_digit (point_text (int n) d) = ''.'' @ f" and f: "f \<noteq> []" "list_all is_digit f"
    by (auto simp: decimal_parts_def Let_def split: list.splits if_splits)
  then have s: "point_text (int n) d = takeWhile is_digit (point_text (int n) d) @ ''.'' @ f"
    by (metis takeWhile_dropWhile_id)
  have "nl \<notin> set (takeWhile is_digit s)" for s by (auto simp: is_digit_def dest: set_takeWhileD)
  with f show ?thesis
    by (subst s) (auto simp: plain_value_def list_all_iff digit_not_space is_digit_def)
qed

lemma format_plain:
  assumes "formatTokenBaseUnits (int n) d = Inr s"
  shows "plain_value s"
proof (cases "d = 0")
  case True
  with assms show ?thesis by (auto simp: formatTokenBaseUnits_def int_str_def intro: digits_plain)
next
  case False
  with assms show ?thesis
    by (auto simp: formatTokenBaseUnits_def valid_decimals_def intro!: point_text_plain)
qed

lemma format_decimals: "formatTokenBaseUnits n d = Inr s \<Longrightarrow> valid_decimals d"
  by (simp add: formatTokenBaseUnits_def)

lemma canonicalDisplayName_plain: "canonicalDisplayName v = Inr n \<Longrightarrow> plain_value n"
proof -
  assume n: "canonicalDisplayName v = Inr n"
  have "control_char nl" by (simp add: control_char_def)
  moreover have "plain_value ''(not provided)''" by code_simp
  ultimately show ?thesis
    using n last_js_trim
    by (auto simp: canonicalDisplayName_def Let_def plain_value_def list_ex_iff split: if_splits option.splits)
qed

section \<open>Signed texts determine what was signed\<close>

lemma map_result_Inr: "map_result f xs = Inr ys \<Longrightarrow> y \<in> set ys \<Longrightarrow> \<exists>x \<in> set xs. f x = Inr y"
  by (induction xs arbitrary: ys) auto

lemma normal_credential_Inr:
  "normal_credential h c = Inr n \<Longrightarrow> n = c\<lparr>claims := sort_by (by_key (collate h)) (claims c)\<rparr>"
  by (auto simp: normal_credential_def)

lemma distinct_fst_sort: "distinct (map fst (sort_by le xs)) \<longleftrightarrow> distinct (map fst xs)"
  by (metis mset_map mset_sort_by mset_eq_imp_distinct_iff)

lemma credential_json_wf: "distinct (map fst (claims c)) \<Longrightarrow> wf_json (credential_json c)"
  by (auto simp: credential_json_def claims_json_def wf_JObj o_def case_prod_unfold)

lemma credentials_json:
  assumes "canonicalRecipientCredentials h cs = Inr t" "\<forall>c \<in> set cs. distinct (map fst (claims c))"
  shows "\<exists>vs. t = json_stringify (JArr vs) \<and> wf_json (JArr vs)"
proof -
  from assms(1) obtain ns where ns: "map_result (normal_credential h) cs = Inr ns"
    and t: "t = json_stringify (JArr (map credential_json (sort_by (credential_le h) ns)))"
    by (auto simp: canonicalRecipientCredentials_def)
  have "distinct (map fst (claims n))" if "n \<in> set ns" for n
    using map_result_Inr [OF ns that] assms(2) by (auto simp: distinct_fst_sort dest!: normal_credential_Inr)
  then have "wf_json (JArr (map credential_json (sort_by (credential_le h) ns)))"
    by (auto simp: wf_JArr credential_json_wf)
  with t show ?thesis by blast
qed

lemma requireField_Cons:
  "plain_value v \<Longrightarrow> requireField ((l, v) # fs) l = Inr v"
  "k \<noteq> l \<Longrightarrow> requireField ((l, v) # fs) k = requireField fs k"
  by (simp_all add: requireField_def plain_value_def)

lemma buildPaymentIntent_Inr:
  assumes "buildPaymentIntentMessage h p = Inr m"
  obtains amount name creds fee where
    "formatTokenBaseUnits (p_amountBaseUnits p) (p_tokenDecimals p) = Inr amount"
    "formatTokenBaseUnits (p_feeBaseUnits p) (p_tokenDecimals p) = Inr fee"
    "canonicalDisplayName (p_recipientDisplayName p) = Inr name" "canonicalRecipientCredentials h (p_credentials p) = Inr creds"
    "js_trim (p_tokenMintAddress p) \<noteq> []" "p_recipientTin p \<noteq> []" "list_all is_digit (p_recipientTin p)"
    "m = buildMessage h ''Payment Intent''
       [(''Token Mint'', js_trim (p_tokenMintAddress p)), (''Token Decimals'', int_str (p_tokenDecimals p)), (''Amount'', amount),
        (''Recipient TIN'', p_recipientTin p), (''Recipient Display Name'', name), (''Recipient Display Name Source'', display_source p),
        (''Recipient Verified Credentials'', creds), (''Fee'', fee), (''Sender'', p_sender p), (''Nonce'', p_nonce p),
        (''Expires'', to_iso h (p_expires p))]"
  using assms by (auto simp: buildPaymentIntentMessage_def parseTin_Inr)

lemma int_str_plain: "plain_value (int_str n)"
proof -
  have "last (int_str n) \<in> set (dec (nat \<bar>n\<bar>))" by (auto simp: int_str_def)
  then have "\<not> is_space (last (int_str n))" by (rule digit_not_space [OF dec_digits])
  moreover have "nl \<notin> set (int_str n)" using int_str_printable [of nl n] by auto
  ultimately show ?thesis by (simp add: plain_value_def int_str_def)
qed

lemma trim_plain: "js_trim s \<noteq> [] \<Longrightarrow> nl \<notin> set s \<Longrightarrow> plain_value (js_trim s)"
  using set_js_trim [of s] last_js_trim [of s] by (auto simp: plain_value_def)

lemma payment_text_parsed:
  assumes "text_law h" "buildPaymentIntentMessage h p = Inr m"
    and "p_amountBaseUnits p = int amount" "p_feeBaseUnits p = int fee" "p_tokenDecimals p \<noteq> 1"
    and "nl \<notin> set (p_tokenMintAddress p)" "plain_value (display_source p)" "plain_value (p_sender p)" "plain_value (p_nonce p)"
    and "\<forall>c \<in> set (p_credentials p). distinct (map fst (claims c))"
  shows "\<exists>name j. canonicalDisplayName (p_recipientDisplayName p) = Inr name \<and>
    canonicalRecipientCredentials h (p_credentials p) = Inr (json_stringify j) \<and>
    parsePaymentIntentMessage h m =
      Inr \<lparr>tokenMintAddress = js_trim (p_tokenMintAddress p), tokenDecimals = p_tokenDecimals p, amountBaseUnits = amount,
           recipientTin = p_recipientTin p, recipientDisplayName = name, recipientDisplayNameSource = display_source p,
           recipientVerifiedCredentials = j, feeBaseUnits = fee, pi_sender = p_sender p, pi_nonce = p_nonce p,
           pi_expires = p_expires p\<rparr>"
proof -
  from assms(2) obtain a name creds f where b:
    "formatTokenBaseUnits (p_amountBaseUnits p) (p_tokenDecimals p) = Inr a"
    "formatTokenBaseUnits (p_feeBaseUnits p) (p_tokenDecimals p) = Inr f"
    "canonicalDisplayName (p_recipientDisplayName p) = Inr name" "canonicalRecipientCredentials h (p_credentials p) = Inr creds"
    "js_trim (p_tokenMintAddress p) \<noteq> []" "p_recipientTin p \<noteq> []" "list_all is_digit (p_recipientTin p)"
    and m: "m = buildMessage h ''Payment Intent''
       [(''Token Mint'', js_trim (p_tokenMintAddress p)), (''Token Decimals'', int_str (p_tokenDecimals p)), (''Amount'', a),
        (''Recipient TIN'', p_recipientTin p), (''Recipient Display Name'', name), (''Recipient Display Name Source'', display_source p),
        (''Recipient Verified Credentials'', creds), (''Fee'', f), (''Sender'', p_sender p), (''Nonce'', p_nonce p),
        (''Expires'', to_iso h (p_expires p))]"
    (is "m = buildMessage h _ ?fs")
    by (rule buildPaymentIntent_Inr)
  obtain vs where creds: "creds = json_stringify (JArr vs)" "wf_json (JArr vs)"
    using credentials_json [OF b(4) assms(10)] by blast
  have d: "valid_decimals (p_tokenDecimals p)" using format_decimals [OF b(1)] .
  have plain: "plain_value a" "plain_value f" "plain_value name" "plain_value creds" "plain_value (p_recipientTin p)"
    "plain_value (js_trim (p_tokenMintAddress p))" "plain_value (int_str (p_tokenDecimals p))" "plain_value (to_iso h (p_expires p))"
    using b assms(3,4,6) format_plain canonicalDisplayName_plain digits_plain trim_plain int_str_plain text_lawD(2) [OF assms(1)]
    by (auto simp: creds array_plain)
  have parsed: "parseMessage h m ''Payment Intent'' = Inr (?fs @ [(''Domain'', TSN_CANONICAL_DOMAIN_DISPLAY h)])"
    unfolding m by (rule parse_build) (use assms(7-9) plain text_lawD(4) [OF assms(1)] in
      \<open>simp_all add: plain_label_def, simp_all add: plain_value_def is_space_def\<close>)
  have amounts: "parseTokenAmount a ''Amount'' (nat (p_tokenDecimals p)) = Inr amount"
    "parseTokenAmount f ''Fee'' (nat (p_tokenDecimals p)) = Inr fee"
    using format_round [OF d, of amount "''Amount''"] format_round [OF d, of fee "''Fee''"] b(1,2) assms(3-5) by auto
  have "parsePaymentIntentMessage h m =
      Inr \<lparr>tokenMintAddress = js_trim (p_tokenMintAddress p), tokenDecimals = p_tokenDecimals p, amountBaseUnits = amount,
           recipientTin = p_recipientTin p, recipientDisplayName = name, recipientDisplayNameSource = display_source p,
           recipientVerifiedCredentials = JArr vs, feeBaseUnits = fee, pi_sender = p_sender p, pi_nonce = p_nonce p,
           pi_expires = p_expires p\<rparr>"
    unfolding parsePaymentIntentMessage_def parsed
    using plain assms(7-9) d amounts b(6,7)
    by (simp add: requireField_Cons text_lawD [OF assms(1)] parseTin_def creds(1) json_parse_stringify [OF creds(2)])
  with b(3,4) creds show ?thesis by blast
qed


section \<open>TIN messages and cross-chain intents\<close>

lemma tin_round:
  assumes "text_law h"
  shows "buildTinWalletBindingMessage h b = Inr m \<Longrightarrow>
      plain_value (wb_walletPublicKey b) \<and> plain_value (wb_identityPublicKey b) \<and> plain_value (wb_programId b) \<Longrightarrow>
      parseTinWalletBindingMessage h m = Inr b"
    and "buildTinCreationMessage h tin name privacy nonce t = Inr m' \<Longrightarrow>
      plain_value name \<and> plain_value nonce \<and> (case privacy of None \<Rightarrow> True | Some v \<Rightarrow> plain_value v) \<Longrightarrow>
      parseTinCreationMessage h m' = Inr \<lparr>tc_tin = tin, tc_displayName = name,
        tc_privacy = (case privacy of None \<Rightarrow> ''30 PRUs'' | Some v \<Rightarrow> v), tc_nonce = nonce, tc_expires = t\<rparr>"
proof -
  note law = text_lawD [OF assms]
  {
    assume b: "buildTinWalletBindingMessage h b = Inr m"
      and v: "plain_value (wb_walletPublicKey b) \<and> plain_value (wb_identityPublicKey b) \<and> plain_value (wb_programId b)"
    let ?fs = "[(''TIN'', wb_tin b), (''Wallet'', wb_walletPublicKey b), (''Identity'', wb_identityPublicKey b),
      (''Program'', wb_programId b), (''Issued At'', to_iso h (wb_issuedAt b))]"
    from b have m: "m = buildMessage h ''TIN Wallet Binding'' ?fs" and tin: "wb_tin b \<noteq> []" "list_all is_digit (wb_tin b)"
      by (auto simp: buildTinWalletBindingMessage_def parseTin_Inr)
    have parsed: "parseMessage h m ''TIN Wallet Binding'' = Inr (?fs @ [(''Domain'', TSN_CANONICAL_DOMAIN_DISPLAY h)])"
      unfolding m by (rule parse_build) (use v law digits_plain [OF tin] in
        \<open>simp_all add: plain_label_def, simp_all add: plain_value_def is_space_def\<close>)
    show "parseTinWalletBindingMessage h m = Inr b"
      unfolding parseTinWalletBindingMessage_def parsed
      using v tin digits_plain [OF tin] by (simp add: requireField_Cons law parseTin_def)
  next
    assume b: "buildTinCreationMessage h tin name privacy nonce t = Inr m'"
      and v: "plain_value name \<and> plain_value nonce \<and> (case privacy of None \<Rightarrow> True | Some v \<Rightarrow> plain_value v)"
    let ?p = "case privacy of None \<Rightarrow> ''30 PRUs'' | Some v \<Rightarrow> v"
    let ?fs = "[(''TIN'', tin), (''Display Name'', name), (''Privacy'', ?p), (''Nonce'', nonce), (''Expires'', to_iso h t)]"
    have p: "plain_value ?p" using v by (cases privacy) (simp_all add: plain_value_def is_space_def)
    from b have m: "m' = buildMessage h ''TIN Creation'' ?fs" and tin: "tin \<noteq> []" "list_all is_digit tin"
      by (auto simp: buildTinCreationMessage_def parseTin_Inr)
    have parsed: "parseMessage h m' ''TIN Creation'' = Inr (?fs @ [(''Domain'', TSN_CANONICAL_DOMAIN_DISPLAY h)])"
      unfolding m by (rule parse_build) (use v p law digits_plain [OF tin] in
        \<open>simp_all add: plain_label_def, simp_all add: plain_value_def is_space_def\<close>)
    show "parseTinCreationMessage h m' = Inr \<lparr>tc_tin = tin, tc_displayName = name, tc_privacy = ?p, tc_nonce = nonce, tc_expires = t\<rparr>"
      unfolding parseTinCreationMessage_def parsed
      using v p tin digits_plain [OF tin] by (simp add: requireField_Cons law parseTin_def)
  }
qed

text \<open>
  TIN creation and wallet binding texts determine their contents: parsing a built text gives
  back the TIN and every other member.
\<close>

theorem tin_messages_roundtrip:
  assumes "text_law h"
  shows "(buildTinWalletBindingMessage h b = Inr m \<and>
      plain_value (wb_walletPublicKey b) \<and> plain_value (wb_identityPublicKey b) \<and> plain_value (wb_programId b) \<longrightarrow>
      parseTinWalletBindingMessage h m = Inr b) \<and>
    (buildTinCreationMessage h tin name privacy nonce t = Inr m' \<and>
      plain_value name \<and> plain_value nonce \<and> (case privacy of None \<Rightarrow> True | Some v \<Rightarrow> plain_value v) \<longrightarrow>
      parseTinCreationMessage h m' = Inr \<lparr>tc_tin = tin, tc_displayName = name,
        tc_privacy = (case privacy of None \<Rightarrow> ''30 PRUs'' | Some v \<Rightarrow> v), tc_nonce = nonce, tc_expires = t\<rparr>)"
  using tin_round [OF assms] by blast

lemma domain_lawI:
  assumes "list_all (\<lambda>b. b < 256) (sha256 h (utf8 ''trustlink-pay:tsn:canonical-signing:v1''))"
    and "length (sha256 h (utf8 ''trustlink-pay:tsn:canonical-signing:v1'')) = 32"
  shows "domain_law h"
proof -
  let ?x = "TSN_CANONICAL_DOMAIN_HASH h"
  have len: "length ?x = 64" using assms(2) by (simp add: TSN_CANONICAL_DOMAIN_HASH_def sha256_hex_def)
  have hex: "\<forall>c \<in> set ?x. is_lower_hex c"
    using to_hex_lower_hex [OF assms(1)] by (simp add: TSN_CANONICAL_DOMAIN_HASH_def sha256_hex_def list_all_iff)
  let ?e = "drop (length ?x - 8) ?x"
  have ne: "?e \<noteq> []" using len by simp
  have "is_lower_hex (last ?e)" using hex ne by (metis in_set_dropD last_in_set)
  then have "\<not> is_space (last ?e)" by (auto simp: is_lower_hex_def is_digit_def is_space_def)
  moreover have "\<not> is_lower_hex nl" by (simp add: is_lower_hex_def is_digit_def)
  then have "nl \<notin> set ?e" using hex in_set_dropD by fast
  ultimately show ?thesis using ne by (simp add: domain_law_def TSN_CANONICAL_DOMAIN_DISPLAY_def js_slice_end_def plain_value_def)
qed

lemma sample_text_law: "text_law sample_host"
proof -
  have "nl \<notin> set (int_str t)" for t using int_str_printable [of nl t] by auto
  then have "plain_value (to_iso sample_host t)" for t by (simp add: sample_host_def plain_value_def is_space_def)
  moreover have "domain_law sample_host"
    by (rule domain_lawI) (auto simp: list_all_iff dest!: in_set_takeD)
  ultimately show ?thesis by (simp add: text_law_def) (simp add: sample_host_def)
qed

theorem tin_messages_roundtrip_witness:
  "\<exists>m. buildTinWalletBindingMessage sample_host
      \<lparr>wb_tin = ''123'', wb_walletPublicKey = ''W'', wb_identityPublicKey = ''I'', wb_programId = ''P'', wb_issuedAt = 5\<rparr> = Inr m \<and>
    parseTinWalletBindingMessage sample_host m =
      Inr \<lparr>wb_tin = ''123'', wb_walletPublicKey = ''W'', wb_identityPublicKey = ''I'', wb_programId = ''P'', wb_issuedAt = 5\<rparr>"
proof -
  let ?b = "\<lparr>wb_tin = ''123'', wb_walletPublicKey = ''W'', wb_identityPublicKey = ''I'', wb_programId = ''P'', wb_issuedAt = 5\<rparr>"
  obtain m where m: "buildTinWalletBindingMessage sample_host ?b = Inr m"
    by (simp add: buildTinWalletBindingMessage_def parseTin_def is_digit_def)
  have "parseTinWalletBindingMessage sample_host m = Inr ?b"
    by (rule tin_messages_roundtrip [OF sample_text_law, THEN conjunct1, rule_format]) (simp add: m plain_value_def is_space_def)
  with m show ?thesis by blast
qed

definition sample_payment :: payment_params where
  "sample_payment = \<lparr>p_amountBaseUnits = int 1500000, p_tokenMintAddress = ''Mint'', p_tokenDecimals = 6, p_recipientTin = ''42'',
     p_recipientDisplayName = Some '' Ada '', p_recipientDisplayNameSource = None, p_credentials = [], p_feeBaseUnits = int 20,
     p_sender = ''S'', p_nonce = ''n1'', p_expires = 1000\<rparr>"



section \<open>Cross-chain intents\<close>

lemma lower_lower_hex: "is_lower_hex c \<Longrightarrow> to_lower c = c"
  by (auto simp: is_lower_hex_def is_digit_def to_lower_def)

lemma is_evm_address_lower: "is_evm_address s \<Longrightarrow> is_evm_address (lower s)"
proof -
  assume s: "is_evm_address s"
  have "lower (take 2 s) = ''0x''" using s unfolding is_evm_address_def by (simp add: lower_def) code_simp
  then have "take 2 (lower s) = ''0x''" by (simp add: lower_def take_map)
  with s show ?thesis by (auto simp: is_evm_address_def lower_def drop_map list_all_iff lower_hex)
qed

lemma to_lower_space: "is_space (to_lower c) \<longleftrightarrow> is_space c"
  by (auto simp: to_lower_def is_space_def)

lemma to_lower_nl: "to_lower c = nl \<Longrightarrow> c = nl"
proof -
  assume n: "to_lower c = nl"
  then have "code (to_lower c) = 10" by simp
  moreover have "code (to_lower c) = code c + 32" if "65 \<le> code c \<and> code c \<le> 90" using that by (simp add: to_lower_def)
  ultimately have "\<not> (65 \<le> code c \<and> code c \<le> 90)" by linarith
  with n show ?thesis unfolding to_lower_def by simp
qed

lemma lower_plain: "plain_value s \<Longrightarrow> plain_value (lower s)"
proof -
  assume s: "plain_value s"
  have "nl \<notin> to_lower ` set s"
  proof
    assume "nl \<in> to_lower ` set s"
    then obtain c where "c \<in> set s" "to_lower c = nl" by (metis imageE)
    with s to_lower_nl [of c] show False by (simp add: plain_value_def)
  qed
  with s show ?thesis by (simp add: plain_value_def lower_def last_map to_lower_space)
qed

lemma hash32_again:
  assumes "parseHash32 v l = Inr r"
  shows "parseHash32 r l' = Inr r" "plain_value r"
proof -
  from assms have r: "length r = 64" "list_all is_lower_hex r" by (auto simp: parseHash32_def Let_def split: if_splits)
  have hex: "\<not> is_space c \<and> c \<noteq> nl" if "is_lower_hex c" for c
    using that by (auto simp: is_lower_hex_def is_digit_def is_space_def)
  have ne: "r \<noteq> []" using r(1) by auto
  then have ends: "\<not> is_space (hd r)" "\<not> is_space (last r)" using r(2) hex by (auto simp: list_all_iff)
  then have "js_trim r = r" by (intro js_trim_id) simp
  moreover have "lower r = r" using r(2) lower_lower_hex by (auto simp: lower_def list_all_iff intro: map_idI)
  ultimately show "parseHash32 r l' = Inr r" using r by (simp add: parseHash32_def Let_def)
  show "plain_value r" using ne ends r(2) hex by (auto simp: plain_value_def list_all_iff)
qed

lemma usdc_round: "parseUsdc (formatUsdcBaseUnits (int n)) l = Inr n" "plain_value (formatUsdcBaseUnits (int n))"
proof -
  have six: "(0::nat) < 6" by simp
  obtain f where f: "decimal_parts (point_text (int n) 6) = Some (dec (n div 10 ^ 6), Some f)"
    "length f \<le> 6 \<or> f = ''00'' \<and> n mod 10 ^ 6 = 0" "dec_val (padEnd 6 f) = n mod 10 ^ 6"
    by (rule point_text_parts [OF six])
  have "length f \<le> 6" using f(2) by (elim disjE conjE) simp_all
  then show "parseUsdc (formatUsdcBaseUnits (int n)) l = Inr n"
    using base_units_split [OF f(3)] by (simp add: parseUsdc_def formatUsdcBaseUnits_def Let_def f(1) fraction_of_def)
  show "plain_value (formatUsdcBaseUnits (int n))"
    using point_text_plain [OF six, of n] by (simp add: formatUsdcBaseUnits_def plain_value_def is_space_def)
qed

text \<open>
  A signed cross-chain intent determines the destination: network, executor address, asset and
  route id, together with amount, fee, recipient, sender, nonce and expiry, are recovered exactly
  (addresses and the route id in lower case).
\<close>

theorem cross_chain_intent_roundtrip:
  assumes "text_law h" "buildCrossChainPaymentIntentMessage h p = Inr m"
    and "x_amountBaseUnits p = int amount" "x_feeBaseUnits p = int fee"
    and "plain_value (x_intentId p)" "plain_value (x_destinationToken p)" "plain_value (x_sender p)" "plain_value (x_nonce p)"
      "plain_value (x_destinationNetwork p)" "plain_value (x_destinationExecutor p)"
  shows "\<exists>route. parseHash32 (strip_0x (x_settlementRouteId p)) ''Settlement Route ID'' = Inr route \<and>
    parseCrossChainPaymentIntentMessage h m =
      Inr \<lparr>xi_intentId = x_intentId p, xi_amountBaseUnits = amount, xi_destinationToken = lower (x_destinationToken p),
           xi_recipientTin = x_recipientTin p, xi_feeBaseUnits = fee, xi_sender = x_sender p, xi_nonce = x_nonce p,
           xi_expires = x_expires p, xi_destinationNetwork = x_destinationNetwork p,
           xi_destinationExecutor = lower (x_destinationExecutor p), xi_settlementRouteId = route\<rparr>"
proof -
  note law = text_lawD [OF assms(1)]
  from assms(2) obtain route where evm: "is_evm_address (x_destinationExecutor p)"
    and tin: "x_recipientTin p \<noteq> []" "list_all is_digit (x_recipientTin p)"
    and route: "parseHash32 (strip_0x (x_settlementRouteId p)) ''Settlement Route ID'' = Inr route"
    and m: "m = buildMessage h ''Cross-Chain Payment Intent''
       [(''Intent ID'', x_intentId p), (''Amount'', formatUsdcBaseUnits (x_amountBaseUnits p)),
        (''Asset'', lower (x_destinationToken p)), (''Recipient TIN'', x_recipientTin p), (''Fee'', formatUsdcBaseUnits (x_feeBaseUnits p)),
        (''Sender'', x_sender p), (''Nonce'', x_nonce p), (''Expires'', to_iso h (x_expires p)),
        (''Destination Network'', x_destinationNetwork p), (''Destination Executor'', lower (x_destinationExecutor p)),
        (''Settlement Route ID'', route)]" (is "m = buildMessage h _ ?fs")
    by (auto simp: buildCrossChainPaymentIntentMessage_def parseTin_Inr)
  have plain: "plain_value (lower (x_destinationToken p))" "plain_value (lower (x_destinationExecutor p))" "plain_value route"
    "plain_value (x_recipientTin p)" "plain_value (formatUsdcBaseUnits (int amount))" "plain_value (formatUsdcBaseUnits (int fee))"
    using assms(6,10) lower_plain hash32_again(2) [OF route] digits_plain [OF tin] usdc_round(2) by auto
  have parsed: "parseMessage h m ''Cross-Chain Payment Intent'' = Inr (?fs @ [(''Domain'', TSN_CANONICAL_DOMAIN_DISPLAY h)])"
    unfolding m by (rule parse_build) (use assms(3-10) plain law in
      \<open>simp_all add: plain_label_def, simp_all add: plain_value_def is_space_def\<close>)
  show ?thesis
    unfolding parseCrossChainPaymentIntentMessage_def parsed
    using assms(3-10) plain route tin is_evm_address_lower [OF evm]
    by (simp add: requireField_Cons law parseTin_def usdc_round hash32_again(1) [OF route] Let_def)
qed


definition sample_cross_chain :: cross_chain_params where
  "sample_cross_chain = \<lparr>x_intentId = ''i1'', x_amountBaseUnits = int 2500000, x_destinationToken = ''USDC'', x_recipientTin = ''42'',
     x_feeBaseUnits = int 0, x_sender = ''S'', x_nonce = ''n'', x_expires = 9, x_destinationNetwork = ''base'',
     x_destinationExecutor = ''0x'' @ replicate 40 (CHR ''A''), x_settlementRouteId = ''0X'' @ replicate 64 (CHR ''B'')\<rparr>"

theorem cross_chain_intent_roundtrip_witness:
  "\<exists>m x. buildCrossChainPaymentIntentMessage sample_host sample_cross_chain = Inr m \<and>
     parseCrossChainPaymentIntentMessage sample_host m = Inr x \<and> xi_amountBaseUnits x = 2500000 \<and>
     xi_destinationExecutor x = ''0x'' @ replicate 40 (CHR ''a'')"
proof -
  have "parseHash32 (strip_0x (''0X'' @ replicate 64 (CHR ''B''))) l = Inr (replicate 64 (CHR ''b''))" for l
    by (simp add: parseHash32_def strip_0x_def) code_simp
  moreover have "is_evm_address (''0x'' @ replicate 40 (CHR ''A''))" "js_trim ''i1'' \<noteq> []" "js_trim ''USDC'' \<noteq> []"
    "js_trim ''base'' \<noteq> []" by code_simp+
  ultimately have "\<exists>m. buildCrossChainPaymentIntentMessage sample_host sample_cross_chain = Inr m"
    by (simp add: buildCrossChainPaymentIntentMessage_def sample_cross_chain_def parseTin_def is_digit_def)
  then obtain m where m: "buildCrossChainPaymentIntentMessage sample_host sample_cross_chain = Inr m" by blast
  have "lower (''0x'' @ replicate 40 (CHR ''A'')) = ''0x'' @ replicate 40 (CHR ''a'')" by code_simp
  moreover have "\<exists>route x. parseCrossChainPaymentIntentMessage sample_host m = Inr x \<and> xi_amountBaseUnits x = 2500000 \<and>
      xi_destinationExecutor x = lower (x_destinationExecutor sample_cross_chain) \<and> xi_settlementRouteId x = route"
    using cross_chain_intent_roundtrip [OF sample_text_law m, of 2500000 0]
    by (auto simp: sample_cross_chain_def plain_value_def is_space_def)
  ultimately show ?thesis using m by (auto simp: sample_cross_chain_def)
qed

end
