(* ===== verification/Session_Proof.thy ===== *)
theory Session_Proof
  imports Node_State_Store Node_Envelope
begin

text \<open>
  Proof of possession for private requests: \<open>sdks/tsn-sdk/src/sessions/proof-of-possession.ts\<close>,
  \<open>sessions/private-session-request.ts\<close> and \<open>sessions/server/private-request-verifier.ts\<close>. A
  verifier's callbacks (session and device lookup, nonce consumption) are arguments; the nonce
  store's contract is the locale \<open>nonce_store\<close>. Web Crypto is the record \<open>web_crypto\<close>.
\<close>

section \<open>Proofs\<close>

record web_crypto =
  import_ed25519 :: "obj \<Rightarrow> byte_list option"
  subtle_sign :: "byte_list \<Rightarrow> byte_list \<Rightarrow> byte_list"

definition TSN_SESSION_PROOF_VERSION :: string where
  "TSN_SESSION_PROOF_VERSION = ''tsn-session-proof-v1''"

definition TSN_SESSION_PROOF_DOMAIN :: string where
  "TSN_SESSION_PROOF_DOMAIN = ''TSN_PRIVATE_REQUEST_PROOF''"

record session_proof =
  sp_protocolVersion :: string
  sp_domain :: string
  sp_sessionId :: string
  sp_deviceId :: string
  sp_deviceSigningKeyFingerprint :: string
  sp_permission :: string
  sp_method :: string
  sp_resource :: string
  sp_bodyCommitment :: string
  sp_nonce :: string
  sp_issuedAt :: string
  sp_expiresAt :: string
  sp_audience :: string
  sp_signatureBase64Url :: string

definition proof_fields :: "session_proof \<Rightarrow> string list" where
  "proof_fields c =
     [sp_domain c, sp_protocolVersion c, sp_sessionId c, sp_deviceId c, sp_deviceSigningKeyFingerprint c, sp_permission c,
      upper (sp_method c), sp_resource c, sp_bodyCommitment c, sp_nonce c, sp_issuedAt c, sp_expiresAt c, sp_audience c]"

definition serializeSessionProof :: "session_proof \<Rightarrow> byte_list" where
  "serializeSessionProof c = canonicalFields (proof_fields c)"

definition createRequestBodyCommitment :: "host \<Rightarrow> byte_list \<Rightarrow> string" where
  "createRequestBodyCommitment h body = sha256Hex (sha256 h) body"

definition signSessionProof :: "web_crypto \<Rightarrow> byte_list \<Rightarrow> session_proof \<Rightarrow> session_proof" where
  "signSessionProof wc key c = c\<lparr>sp_signatureBase64Url := bytesToBase64Url (subtle_sign wc key (serializeSessionProof c))\<rparr>"

datatype device_status = DeviceActive | DeviceRevoked | DeviceExpired

record proof_expectation =
  e_deviceSigningPublicKey :: obj
  e_sessionId :: string
  e_deviceId :: string
  e_permission :: string
  e_method :: string
  e_resource :: string
  e_bodyCommitment :: string
  e_audience :: string
  e_sessionExpiresAt :: string
  e_deviceStatus :: device_status

text \<open>
  The checks before the signature; \<open>Date.parse(...) <= now\<close> is false for a text that is no date.
\<close>

definition parsed_by :: "host \<Rightarrow> int \<Rightarrow> string \<Rightarrow> bool" where
  "parsed_by h now t \<longleftrightarrow> (case date_parse h t of None \<Rightarrow> False | Some x \<Rightarrow> x \<le> now)"

definition check_proof_claims :: "host \<Rightarrow> int \<Rightarrow> session_proof \<Rightarrow> proof_expectation \<Rightarrow> string option" where
  "check_proof_claims h now p e =
     (if sp_protocolVersion p \<noteq> TSN_SESSION_PROOF_VERSION \<or> sp_domain p \<noteq> TSN_SESSION_PROOF_DOMAIN then Some ''unsupported-proof-domain''
      else if e_deviceStatus e \<noteq> DeviceActive then Some ''device-not-active''
      else if sp_sessionId p \<noteq> e_sessionId e \<or> sp_deviceId p \<noteq> e_deviceId e then Some ''session-device-mismatch''
      else if sp_permission p \<noteq> e_permission e then Some ''permission-mismatch''
      else if upper (sp_method p) \<noteq> upper (e_method e) \<or> sp_resource p \<noteq> e_resource e then Some ''request-target-mismatch''
      else if sp_bodyCommitment p \<noteq> e_bodyCommitment e then Some ''body-mismatch''
      else if sp_audience p \<noteq> e_audience e then Some ''audience-mismatch''
      else (case (date_parse h (sp_issuedAt p), date_parse h (sp_expiresAt p)) of
              (Some issuedAt, Some expiresAt) \<Rightarrow>
                if now < issuedAt \<or> expiresAt \<le> now \<or> parsed_by h now (e_sessionExpiresAt e)
                then Some ''proof-or-session-expired'' else None
            | _ \<Rightarrow> Some ''proof-or-session-expired''))"

text \<open>The value is the reason of a refusal, if any; an import or decoding error is thrown.\<close>

definition verifySessionProof ::
  "host \<Rightarrow> web_crypto \<Rightarrow> int \<Rightarrow> session_proof \<Rightarrow> proof_expectation \<Rightarrow> (string \<Rightarrow> 's \<Rightarrow> bool \<times> 's) \<Rightarrow> 's
     \<Rightarrow> string option result \<times> 's" where
  "verifySessionProof h wc now p e consumeNonce s =
     (case check_proof_claims h now p e of
        Some reason \<Rightarrow> (Inr (Some reason), s)
      | None \<Rightarrow>
          (case import_ed25519 wc (e_deviceSigningPublicKey e) of
             None \<Rightarrow> (Inl ''DataError'', s)
           | Some key \<Rightarrow>
               (case base64UrlToBytes (sp_signatureBase64Url p) of
                  Inl x \<Rightarrow> (Inl x, s)
                | Inr sig \<Rightarrow>
                    if \<not> ed25519_verify h key (serializeSessionProof p) sig then (Inr (Some ''invalid-device-signature''), s)
                    else (case consumeNonce (sp_nonce p) s of
                            (True, s') \<Rightarrow> (Inr None, s')
                          | (False, s') \<Rightarrow> (Inr (Some ''nonce-reused''), s')))))"

section \<open>Creating a session\<close>

record session_creation =
  sc_sessionId :: string
  sc_deviceId :: string
  sc_sessionToken :: string
  sc_permissions :: "string list"
  sc_audience :: string
  sc_issuedAt :: string
  sc_expiresAt :: string

definition sorted_set :: "string list \<Rightarrow> string list" where
  "sorted_set xs = sort_by str_le (js_uniq xs)"

definition serializePrivateSessionCreationRequest :: "session_creation \<Rightarrow> byte_list" where
  "serializePrivateSessionCreationRequest r =
     canonicalFields [''TSN_PRIVATE_SESSION_CREATION_V1'', sc_sessionId r, sc_deviceId r, sc_sessionToken r,
       js_join '','' (sorted_set (sc_permissions r)), sc_audience r, sc_issuedAt r, sc_expiresAt r]"

definition createPrivateSessionRequestCommitment :: "host \<Rightarrow> session_creation \<Rightarrow> string" where
  "createPrivateSessionRequestCommitment h r = sha256Hex (sha256 h) (serializePrivateSessionCreationRequest r)"

record device_record =
  dr_deviceId :: string
  dr_tinCommitment :: string
  dr_signingKeyFingerprint :: string
  dr_signingPublicKey :: obj
  dr_encryptionKeyFingerprint :: string
  dr_permissions :: "string list"
  dr_status :: device_status

record session_record =
  sr_sessionId :: string
  sr_tinCommitment :: string
  sr_deviceId :: string
  sr_permissions :: "string list"
  sr_audience :: string
  sr_expiresAt :: string
  sr_status :: device_status

record nonce_use =
  nu_nonce :: string
  nu_deviceId :: string
  nu_sessionId :: string
  nu_purpose :: string
  nu_expiresAt :: string

definition creation_timing :: "host \<Rightarrow> int \<Rightarrow> int \<Rightarrow> session_creation \<Rightarrow> bool" where
  "creation_timing h now maxTtlMs r \<longleftrightarrow>
     (case (date_parse h (sc_issuedAt r), date_parse h (sc_expiresAt r)) of
        (Some i, Some x) \<Rightarrow> i \<le> now \<and> now < x \<and> x - i \<le> maxTtlMs
      | _ \<Rightarrow> False)"

definition check_creation ::
  "host \<Rightarrow> int \<Rightarrow> int \<Rightarrow> string \<Rightarrow> session_creation \<Rightarrow> session_proof \<Rightarrow> device_record \<Rightarrow> unit result" where
  "check_creation h now maxTtlMs expectedAudience r p d =
     and_then (require (dr_status d = DeviceActive) ''Authorized device is not active'') (\<lambda>_.
     and_then (require (''private-session:create'' \<in> set (dr_permissions d)) ''Device is not permitted to create private sessions'') (\<lambda>_.
     and_then (require (sc_deviceId r = dr_deviceId d) ''Private session device mismatch'') (\<lambda>_.
     and_then (require (sc_audience r = expectedAudience) ''Private session audience mismatch'') (\<lambda>_.
     and_then (require (sp_deviceSigningKeyFingerprint p = dr_signingKeyFingerprint d)
       ''Private session proof uses an unregistered signing key'') (\<lambda>_.
     and_then (require (sorted_set (sc_permissions r) \<noteq> [] \<and> list_all (\<lambda>x. x \<in> set (dr_permissions d)) (sorted_set (sc_permissions r)))
       ''Private session requests a permission not granted to this device'') (\<lambda>_.
     require (creation_timing h now maxTtlMs r) ''Private session timing is invalid''))))))"

definition use_of :: "session_proof \<Rightarrow> string \<Rightarrow> string \<Rightarrow> string \<Rightarrow> nonce_use" where
  "use_of p deviceId sessionId purpose =
     \<lparr>nu_nonce = sp_nonce p, nu_deviceId = deviceId, nu_sessionId = sessionId, nu_purpose = purpose, nu_expiresAt = sp_expiresAt p\<rparr>"

text \<open>Both verifiers end the same way: the proof, then the nonce. The inner check consumes nothing.\<close>

definition proof_then_nonce ::
  "host \<Rightarrow> web_crypto \<Rightarrow> int \<Rightarrow> string \<times> string \<Rightarrow> session_proof \<Rightarrow> proof_expectation \<Rightarrow> nonce_use \<Rightarrow> (nonce_use \<Rightarrow> 's \<Rightarrow> bool \<times> 's) \<Rightarrow> 's
     \<Rightarrow> unit result \<times> 's" where
  "proof_then_nonce h wc now what p e u consume s =
     (case fst (verifySessionProof h wc now p e (\<lambda>_ s. (True, s)) s) of
        Inl x \<Rightarrow> (Inl x, s)
      | Inr (Some reason) \<Rightarrow> (Inl (fst what @ '' rejected: '' @ reason), s)
      | Inr None \<Rightarrow>
          (case consume u s of
             (True, s') \<Rightarrow> (Inr (), s')
           | (False, s') \<Rightarrow> (Inl (snd what @ '' nonce has already been consumed''), s')))"

definition verifyTsnPrivateSessionCreation ::
  "host \<Rightarrow> web_crypto \<Rightarrow> int \<Rightarrow> int \<Rightarrow> string \<Rightarrow> string \<Rightarrow> session_creation \<Rightarrow> session_proof \<Rightarrow> device_record
     \<Rightarrow> (nonce_use \<Rightarrow> 's \<Rightarrow> bool \<times> 's) \<Rightarrow> 's \<Rightarrow> string list result \<times> 's" where
  "verifyTsnPrivateSessionCreation h wc now maxTtlMs expectedAudience expectedResource r p d consume s =
     (case check_creation h now maxTtlMs expectedAudience r p d of
        Inl e \<Rightarrow> (Inl e, s)
      | Inr _ \<Rightarrow>
          (let permissions = sorted_set (sc_permissions r);
               e = \<lparr>e_deviceSigningPublicKey = dr_signingPublicKey d, e_sessionId = sc_sessionId r, e_deviceId = dr_deviceId d,
                    e_permission = ''private-session:create'', e_method = ''POST'', e_resource = expectedResource,
                    e_bodyCommitment = createPrivateSessionRequestCommitment h (r\<lparr>sc_permissions := permissions\<rparr>),
                    e_audience = expectedAudience, e_sessionExpiresAt = sc_expiresAt r, e_deviceStatus = dr_status d\<rparr>
           in (case proof_then_nonce h wc now (''Private session'', ''Private session proof'') p e (use_of p (dr_deviceId d) (sc_sessionId r) ''private-session:create'') consume s of
                 (Inl x, s') \<Rightarrow> (Inl x, s')
               | (Inr _, s') \<Rightarrow> (Inr permissions, s'))))"

section \<open>Private requests\<close>

record private_request =
  pr_sessionToken :: string
  pr_proof :: session_proof
  pr_permission :: string
  pr_method :: string
  pr_resource :: string
  pr_bodyCommitment :: string
  pr_expectedAudience :: string

definition check_private_request ::
  "(string \<Rightarrow> session_record option) \<Rightarrow> (string \<Rightarrow> device_record option) \<Rightarrow> private_request \<Rightarrow> (session_record \<times> device_record) result" where
  "check_private_request findSessionByToken findDevice q =
     (case findSessionByToken (pr_sessionToken q) of
        None \<Rightarrow> Inl ''Private session is invalid or expired''
      | Some s \<Rightarrow>
          and_then (require (sr_status s = DeviceActive) ''Private session is invalid or expired'') (\<lambda>_.
          and_then (require (sr_audience s = pr_expectedAudience q) ''Private session audience mismatch'') (\<lambda>_.
          and_then (require (pr_permission q \<in> set (sr_permissions s)) ''Private session permission denied'') (\<lambda>_.
          (case findDevice (sr_deviceId s) of
             None \<Rightarrow> Inl ''Authorized device was not found''
           | Some d \<Rightarrow>
               and_then (require (pr_permission q \<in> set (dr_permissions d)) ''Authorized device permission denied'') (\<lambda>_.
               and_then (require (dr_tinCommitment d = sr_tinCommitment s) ''Private session TIN binding mismatch'') (\<lambda>_.
               and_then (require (sp_deviceSigningKeyFingerprint (pr_proof q) = dr_signingKeyFingerprint d)
                 ''Private request uses an unregistered signing key'') (\<lambda>_.
               Inr (s, d)))))))))"

definition request_expectation :: "private_request \<Rightarrow> session_record \<Rightarrow> device_record \<Rightarrow> proof_expectation" where
  "request_expectation q s d =
     \<lparr>e_deviceSigningPublicKey = dr_signingPublicKey d, e_sessionId = sr_sessionId s, e_deviceId = dr_deviceId d,
      e_permission = pr_permission q, e_method = pr_method q, e_resource = pr_resource q, e_bodyCommitment = pr_bodyCommitment q,
      e_audience = pr_expectedAudience q, e_sessionExpiresAt = sr_expiresAt s, e_deviceStatus = dr_status d\<rparr>"

definition verifyTsnAuthorizedPrivateRequest ::
  "host \<Rightarrow> web_crypto \<Rightarrow> int \<Rightarrow> (string \<Rightarrow> session_record option) \<Rightarrow> (string \<Rightarrow> device_record option) \<Rightarrow> private_request
     \<Rightarrow> (nonce_use \<Rightarrow> 's \<Rightarrow> bool \<times> 's) \<Rightarrow> 's \<Rightarrow> (session_record \<times> device_record) result \<times> 's" where
  "verifyTsnAuthorizedPrivateRequest h wc now findSessionByToken findDevice q consume st =
     (case check_private_request findSessionByToken findDevice q of
        Inl e \<Rightarrow> (Inl e, st)
      | Inr (s, d) \<Rightarrow>
          (case proof_then_nonce h wc now (''Private request'', ''Private request'') (pr_proof q) (request_expectation q s d)
                  (use_of (pr_proof q) (dr_deviceId d) (sr_sessionId s) (pr_permission q)) consume st of
             (Inl x, st') \<Rightarrow> (Inl x, st')
           | (Inr _, st') \<Rightarrow> (Inr (s, d), st')))"


section \<open>Nonces are used once\<close>

text \<open>What the verifiers rely on: a consumed nonce stays consumed and is never handed out again.\<close>

locale nonce_store =
  fixes consume :: "nonce_use \<Rightarrow> 's \<Rightarrow> bool \<times> 's" and used :: "nonce_use \<Rightarrow> 's \<Rightarrow> bool"
  assumes consume_marks: "consume k s = (True, s') \<Longrightarrow> used k s'"
    and consume_refuses: "used k s \<Longrightarrow> \<not> fst (consume k s)"
    and consume_keeps_used: "used k s \<Longrightarrow> used k (snd (consume k' s))"
begin

lemma not_again: "used k s \<Longrightarrow> consume k s \<noteq> (True, s')"
  using consume_refuses by fastforce

end

text \<open>The accepted requests of a run, whoever sends them.\<close>

datatype private_call =
    CreateCall int int string string session_creation session_proof device_record
  | RequestCall int "string \<Rightarrow> session_record option" "string \<Rightarrow> device_record option" private_request

fun call_proof :: "private_call \<Rightarrow> session_proof" where
  "call_proof (CreateCall now ttl aud res r p d) = p"
| "call_proof (RequestCall now fs fd q) = pr_proof q"

fun run_call :: "host \<Rightarrow> web_crypto \<Rightarrow> (nonce_use \<Rightarrow> 's \<Rightarrow> bool \<times> 's) \<Rightarrow> private_call \<Rightarrow> 's \<Rightarrow> bool \<times> 's" where
  "run_call h wc consume (CreateCall now ttl aud res r p d) s =
     (case verifyTsnPrivateSessionCreation h wc now ttl aud res r p d consume s of (x, s') \<Rightarrow> (\<not> isl x, s'))"
| "run_call h wc consume (RequestCall now fs fd q) s =
     (case verifyTsnAuthorizedPrivateRequest h wc now fs fd q consume s of (x, s') \<Rightarrow> (\<not> isl x, s'))"

definition proof_use :: "session_proof \<Rightarrow> nonce_use" where
  "proof_use p = use_of p (sp_deviceId p) (sp_sessionId p) (sp_permission p)"

lemma check_proof_claims_None:
  assumes "check_proof_claims h now p e = None"
  shows "e_deviceStatus e = DeviceActive \<and> sp_sessionId p = e_sessionId e \<and> sp_deviceId p = e_deviceId e \<and>
    sp_permission p = e_permission e \<and> upper (sp_method p) = upper (e_method e) \<and> sp_resource p = e_resource e \<and>
    sp_bodyCommitment p = e_bodyCommitment e \<and> sp_audience p = e_audience e \<and>
    (\<exists>i x. date_parse h (sp_issuedAt p) = Some i \<and> date_parse h (sp_expiresAt p) = Some x \<and> i \<le> now \<and> now < x)"
  using assms by (auto simp: check_proof_claims_def split: if_splits option.splits)

lemma proof_then_nonce_Inr:
  assumes "proof_then_nonce h wc now what p e u consume s = (Inr (), s')"
  shows "check_proof_claims h now p e = None \<and> consume u s = (True, s') \<and>
    (\<exists>key sig. import_ed25519 wc (e_deviceSigningPublicKey e) = Some key \<and>
       base64UrlToBytes (sp_signatureBase64Url p) = Inr sig \<and> ed25519_verify h key (serializeSessionProof p) sig)"
  using assms
  by (auto simp: proof_then_nonce_def verifySessionProof_def split: option.splits sum.splits if_splits prod.splits bool.splits)

lemma proof_then_nonce_state:
  "proof_then_nonce h wc now what p e u consume s = (r, s') \<Longrightarrow> s' = s \<or> s' = snd (consume u s)"
  by (auto simp: proof_then_nonce_def split: option.splits sum.splits prod.splits bool.splits)

lemma run_call_accepted:
  assumes "run_call h wc consume c s = (True, s')"
  shows "consume (proof_use (call_proof c)) s = (True, s')"
proof (cases c)
  case (CreateCall now ttl aud res r p d)
  with assms show ?thesis
    by (auto simp: verifyTsnPrivateSessionCreation_def Let_def proof_use_def split: sum.splits prod.splits
        dest!: proof_then_nonce_Inr check_proof_claims_None)
next
  case (RequestCall now fs fd q)
  with assms show ?thesis
    by (auto simp: verifyTsnAuthorizedPrivateRequest_def request_expectation_def proof_use_def split: sum.splits prod.splits
        dest!: proof_then_nonce_Inr check_proof_claims_None)
qed

lemma run_call_state: "run_call h wc consume c s = (b, s') \<Longrightarrow> s' = s \<or> (\<exists>u. s' = snd (consume u s))"
  by (cases c)
    (auto simp: verifyTsnPrivateSessionCreation_def verifyTsnAuthorizedPrivateRequest_def Let_def split: sum.splits prod.splits
      dest!: proof_then_nonce_state)

context nonce_store
begin

lemma run_call_keeps: "used k s \<Longrightarrow> used k (snd (run_call h wc consume c s))"
  using run_call_state [of h wc consume c s] consume_keeps_used by (cases "run_call h wc consume c s") auto

lemma runs_keep: "used k s \<Longrightarrow> used k (fold (\<lambda>c s. snd (run_call h wc consume c s)) cs s)"
  by (induction cs arbitrary: s) (auto simp: run_call_keeps)

lemma proof_once:
  assumes "run_call h wc consume c s = (True, s1)" "call_proof c' = call_proof c"
  shows "\<not> fst (run_call h wc consume c' (fold (\<lambda>c s. snd (run_call h wc consume c s)) cs s1))"
proof -
  have "used (proof_use (call_proof c)) s1" using run_call_accepted [OF assms(1)] consume_marks by blast
  then have u: "used (proof_use (call_proof c')) (fold (\<lambda>c s. snd (run_call h wc consume c s)) cs s1)"
    unfolding assms(2) by (rule runs_keep)
  obtain b s3 where run: "run_call h wc consume c' (fold (\<lambda>c s. snd (run_call h wc consume c s)) cs s1) = (b, s3)"
    by (cases "run_call h wc consume c' (fold (\<lambda>c s. snd (run_call h wc consume c s)) cs s1)")
  have "\<not> b"
  proof
    assume b
    with run have "run_call h wc consume c' (fold (\<lambda>c s. snd (run_call h wc consume c s)) cs s1) = (True, s3)" by simp
    from run_call_accepted [OF this] show False using not_again [OF u] by simp
  qed
  with run show ?thesis by simp
qed

end

section \<open>The Receiver's state store as a nonce store\<close>

text \<open>A deployment that keeps nonces in the Receiver: bucket the device, field the nonce.\<close>

definition kv_consume :: "host \<Rightarrow> string \<Rightarrow> nonce_use \<Rightarrow> store_file \<Rightarrow> bool \<times> store_file" where
  "kv_consume h root u f =
     (case executeStateOperation h root (consume_body (''n'' @ nu_deviceId u) (''n'' @ nu_nonce u) ''1'') f of
        (r, f') \<Rightarrow> (r = Inr (reply ''consumed'' (JBool True)), f'))"

definition kv_used :: "host \<Rightarrow> string \<Rightarrow> nonce_use \<Rightarrow> store_file \<Rightarrow> bool" where
  "kv_used h root u f = holds f (item h root (''n'' @ nu_deviceId u) (''n'' @ nu_nonce u))"

interpretation kv_nonces: nonce_store "kv_consume h root" "kv_used h root" for h root
proof
  fix k s s' k'
  show "kv_consume h root k s = (True, s') \<Longrightarrow> kv_used h root k s'"
    by (auto simp: kv_consume_def kv_used_def execute_consume reply_def mutate_def holds_def consume_tx_def tx_create_def tx_get_put_row
        split: sum.splits if_splits)
  show "kv_used h root k s \<Longrightarrow> \<not> fst (kv_consume h root k s)"
    by (auto simp: kv_consume_def kv_used_def execute_consume reply_def mutate_def holds_def consume_tx_def split: sum.splits)
  show "kv_used h root k s \<Longrightarrow> kv_used h root k (snd (kv_consume h root k' s))"
    unfolding kv_consume_def kv_used_def
    by (auto simp: case_prod_unfold consume_body_def intro!: operation_keeps)
qed


section \<open>What the verifiers guarantee\<close>

lemma serializeSessionProof_inject:
  "serializeSessionProof p = serializeSessionProof q \<longleftrightarrow> proof_fields p = proof_fields q"
  by (simp add: serializeSessionProof_def canonicalFields_inject)

lemma check_private_request_Inr:
  assumes "check_private_request findS findD q = Inr (s, d)"
  shows "findS (pr_sessionToken q) = Some s \<and> sr_status s = DeviceActive \<and> findD (sr_deviceId s) = Some d \<and>
    pr_permission q \<in> set (sr_permissions s) \<and> pr_permission q \<in> set (dr_permissions d) \<and> dr_tinCommitment d = sr_tinCommitment s \<and>
    sp_deviceSigningKeyFingerprint (pr_proof q) = dr_signingKeyFingerprint d"
  using assms by (auto simp: check_private_request_def split: option.splits)

text \<open>
  C18: A private request is accepted only for an active session and an active device of the same
  TIN that both hold the permission, inside the proof's validity, and with a device signature over
  bytes that fix the session, device, permission, method, resource, body, nonce and audience of
  this very request: a signature for any other request does not serialise to the same bytes.
\<close>

theorem private_request_authorized:
  assumes "verifyTsnAuthorizedPrivateRequest h wc now findS findD q consume st = (Inr (s, d), st')"
  shows "findS (pr_sessionToken q) = Some s \<and> sr_status s = DeviceActive \<and> findD (sr_deviceId s) = Some d \<and>
    dr_status d = DeviceActive \<and> dr_tinCommitment d = sr_tinCommitment s \<and>
    pr_permission q \<in> set (sr_permissions s) \<inter> set (dr_permissions d) \<and>
    (\<exists>i x. date_parse h (sp_issuedAt (pr_proof q)) = Some i \<and> date_parse h (sp_expiresAt (pr_proof q)) = Some x \<and> i \<le> now \<and> now < x) \<and>
    (\<exists>key sig. import_ed25519 wc (dr_signingPublicKey d) = Some key \<and> base64UrlToBytes (sp_signatureBase64Url (pr_proof q)) = Inr sig \<and>
       ed25519_verify h key (serializeSessionProof (pr_proof q)) sig) \<and>
    (\<forall>p. serializeSessionProof p = serializeSessionProof (pr_proof q) \<longrightarrow>
       sp_sessionId p = sr_sessionId s \<and> sp_deviceId p = dr_deviceId d \<and> sp_permission p = pr_permission q \<and>
       upper (sp_method p) = upper (pr_method q) \<and> sp_resource p = pr_resource q \<and> sp_bodyCommitment p = pr_bodyCommitment q \<and>
       sp_audience p = pr_expectedAudience q \<and> sp_nonce p = sp_nonce (pr_proof q))"
proof -
  from assms have c: "check_private_request findS findD q = Inr (s, d)"
    and p: "proof_then_nonce h wc now (''Private request'', ''Private request'') (pr_proof q) (request_expectation q s d)
              (use_of (pr_proof q) (dr_deviceId d) (sr_sessionId s) (pr_permission q)) consume st = (Inr (), st')"
    by (auto simp: verifyTsnAuthorizedPrivateRequest_def split: sum.splits prod.splits)
  note claims = check_proof_claims_None [OF proof_then_nonce_Inr [OF p, THEN conjunct1]]
  have "\<exists>key sig. import_ed25519 wc (dr_signingPublicKey d) = Some key \<and> base64UrlToBytes (sp_signatureBase64Url (pr_proof q)) = Inr sig \<and>
      ed25519_verify h key (serializeSessionProof (pr_proof q)) sig"
    using proof_then_nonce_Inr [OF p] by (auto simp: request_expectation_def)
  with check_private_request_Inr [OF c] claims show ?thesis
    by (simp add: request_expectation_def serializeSessionProof_inject proof_fields_def)
qed

text \<open>
  C19: A signed proof is good for one use. Given a nonce store that keeps its contract, once any
  session creation or private request with a proof was accepted, no later one with that proof is,
  whatever calls run in between and whatever else the later call claims.
\<close>

theorem session_proof_single_use:
  assumes "nonce_store consume used" "run_call h wc consume c s = (True, s1)" "call_proof c' = call_proof c"
  shows "\<not> fst (run_call h wc consume c' (fold (\<lambda>c s. snd (run_call h wc consume c s)) cs s1))"
  using assms by (rule nonce_store.proof_once)

definition sample_crypto :: web_crypto where
  "sample_crypto = \<lparr>import_ed25519 = (\<lambda>_. Some []), subtle_sign = (\<lambda>key m. take 64 (key @ m @ replicate 64 0))\<rparr>"

definition sample_proof :: session_proof where
  "sample_proof = signSessionProof sample_crypto []
     \<lparr>sp_protocolVersion = TSN_SESSION_PROOF_VERSION, sp_domain = TSN_SESSION_PROOF_DOMAIN, sp_sessionId = ''s1'', sp_deviceId = ''d1'',
      sp_deviceSigningKeyFingerprint = ''fp'', sp_permission = ''view'', sp_method = ''get'', sp_resource = ''/r'', sp_bodyCommitment = ''b'',
      sp_nonce = ''n1'', sp_issuedAt = to_iso sample_host 5, sp_expiresAt = to_iso sample_host 50, sp_audience = ''aud'',
      sp_signatureBase64Url = []\<rparr>"

definition sample_device :: device_record where
  "sample_device = \<lparr>dr_deviceId = ''d1'', dr_tinCommitment = ''t'', dr_signingKeyFingerprint = ''fp'', dr_signingPublicKey = [],
     dr_encryptionKeyFingerprint = ''ef'', dr_permissions = [''view''], dr_status = DeviceActive\<rparr>"

definition sample_session :: session_record where
  "sample_session = \<lparr>sr_sessionId = ''s1'', sr_tinCommitment = ''t'', sr_deviceId = ''d1'', sr_permissions = [''view''],
     sr_audience = ''aud'', sr_expiresAt = to_iso sample_host 90, sr_status = DeviceActive\<rparr>"

definition sample_private_request :: private_request where
  "sample_private_request = \<lparr>pr_sessionToken = ''tok'', pr_proof = sample_proof, pr_permission = ''view'', pr_method = ''GET'',
     pr_resource = ''/r'', pr_bodyCommitment = ''b'', pr_expectedAudience = ''aud''\<rparr>"

lemma sample_proof_signature:
  "\<exists>sig. base64UrlToBytes (sp_signatureBase64Url sample_proof) = Inr sig \<and> ed25519_verify sample_host [] (serializeSessionProof sample_proof) sig"
proof -
  let ?bs = "take 64 (serializeSessionProof sample_proof @ replicate 64 0)"
  have "octets (utf8 x @ replicate 64 0)" for x by (simp add: octets_replicate)
  then have o: "octets ?bs" by (auto simp: serializeSessionProof_def canonicalFields_def list_all_iff dest!: in_set_takeD)
  have "sp_signatureBase64Url sample_proof = bytesToBase64Url ?bs"
    by (simp add: sample_proof_def signSessionProof_def sample_crypto_def serializeSessionProof_def proof_fields_def)
  with base64Url_round [OF o] show ?thesis by simp
qed

lemma sample_request_ok:
  "\<exists>f1. verifyTsnAuthorizedPrivateRequest sample_host sample_crypto 20 (\<lambda>_. Some sample_session) (\<lambda>_. Some sample_device)
      sample_private_request (kv_consume sample_host ''state'') Absent = (Inr (sample_session, sample_device), f1)"
proof -
  obtain sig where sig: "base64UrlToBytes (sp_signatureBase64Url sample_proof) = Inr sig"
    "ed25519_verify sample_host [] (serializeSessionProof sample_proof) sig" using sample_proof_signature by blast
  have c: "check_private_request (\<lambda>_. Some sample_session) (\<lambda>_. Some sample_device) sample_private_request = Inr (sample_session, sample_device)"
    by (simp add: check_private_request_def sample_session_def sample_device_def sample_private_request_def sample_proof_def signSessionProof_def)
  have up: "upper ''get'' = upper ''GET''" by code_simp
  have p: "check_proof_claims sample_host 20 sample_proof (request_expectation sample_private_request sample_session sample_device) = None"
    using up by (simp add: check_proof_claims_def request_expectation_def sample_session_def sample_device_def
        sample_private_request_def sample_proof_def signSessionProof_def parsed_by_def)
  let ?u = "use_of sample_proof (dr_deviceId sample_device) (sr_sessionId sample_session) ''view''"
  have "\<exists>f1. kv_consume sample_host ''state'' ?u Absent = (True, f1)"
    by (simp add: kv_consume_def execute_consume mutate_def consume_tx_def tx_create_def tx_get_def coll_def reply_def)
  then obtain f1 where k: "kv_consume sample_host ''state'' ?u Absent = (True, f1)" by blast
  have "proof_then_nonce sample_host sample_crypto 20 w sample_proof (request_expectation sample_private_request sample_session sample_device)
      ?u (kv_consume sample_host ''state'') Absent = (Inr (), f1)" for w
    using sig k p by (simp add: proof_then_nonce_def verifySessionProof_def sample_crypto_def del: sample_host_simps)
  then show ?thesis
    using c by (simp add: verifyTsnAuthorizedPrivateRequest_def sample_private_request_def)
qed

theorem private_request_authorized_witness:
  "dr_tinCommitment sample_device = sr_tinCommitment sample_session \<and> sr_status sample_session = DeviceActive \<and>
   (\<exists>key sig. import_ed25519 sample_crypto (dr_signingPublicKey sample_device) = Some key \<and>
      ed25519_verify sample_host key (serializeSessionProof (pr_proof sample_private_request)) sig)"
proof -
  obtain f1 where "verifyTsnAuthorizedPrivateRequest sample_host sample_crypto 20 (\<lambda>_. Some sample_session) (\<lambda>_. Some sample_device)
      sample_private_request (kv_consume sample_host ''state'') Absent = (Inr (sample_session, sample_device), f1)"
    using sample_request_ok by blast
  from private_request_authorized [OF this] show ?thesis by blast
qed

theorem session_proof_single_use_witness:
  "\<exists>f1. run_call sample_host sample_crypto (kv_consume sample_host ''state'')
       (RequestCall 20 (\<lambda>_. Some sample_session) (\<lambda>_. Some sample_device) sample_private_request) Absent = (True, f1) \<and>
     \<not> fst (run_call sample_host sample_crypto (kv_consume sample_host ''state'')
       (RequestCall 30 (\<lambda>_. Some sample_session) (\<lambda>_. Some sample_device) sample_private_request) f1)"
proof -
  obtain f1 where f1: "run_call sample_host sample_crypto (kv_consume sample_host ''state'')
       (RequestCall 20 (\<lambda>_. Some sample_session) (\<lambda>_. Some sample_device) sample_private_request) Absent = (True, f1)"
    using sample_request_ok by auto
  have "\<not> fst (run_call sample_host sample_crypto (kv_consume sample_host ''state'')
       (RequestCall 30 (\<lambda>_. Some sample_session) (\<lambda>_. Some sample_device) sample_private_request) f1)"
    using session_proof_single_use [OF kv_nonces.nonce_store_axioms f1, of
        "RequestCall 30 (\<lambda>_. Some sample_session) (\<lambda>_. Some sample_device) sample_private_request" "[]"] by simp
  with f1 show ?thesis by blast
qed

end
