(* ===== verification/Device_Authorization.thy ===== *)
theory Device_Authorization
  imports Session_Proof
begin

text \<open>
  Owner authorization of devices: \<open>sdks/tsn-sdk/src/authorization\<close> (claims, commitments, the
  registration challenge, the client) and its \<open>server\<close> part (the verifiers). Solana's \<open>PublicKey\<close>
  is an argument \<open>pk\<close> from text to bytes that throws as \<open>None\<close>.
\<close>

section \<open>Claims\<close>

definition TSN_DEVICE_AUTHORIZATION_VERSION :: string where
  "TSN_DEVICE_AUTHORIZATION_VERSION = ''tsn-device-authorization-v1''"

definition TSN_DEVICE_AUTHORIZATION_DOMAIN :: string where
  "TSN_DEVICE_AUTHORIZATION_DOMAIN = ''TSN_OWNER_DEVICE_AUTHORIZATION''"

datatype recovery_scope = ScopeAll | ScopeRecent | ScopeSelected | ScopeFutureOnly

fun scope_text :: "recovery_scope \<Rightarrow> string" where
  "scope_text ScopeAll = ''all''"
| "scope_text ScopeRecent = ''recent''"
| "scope_text ScopeSelected = ''selected''"
| "scope_text ScopeFutureOnly = ''future-only''"

record device_claims =
  dc_protocolVersion :: string
  dc_domain :: string
  dc_network :: string
  dc_tinCommitment :: string
  dc_ownerIdentityCommitment :: string
  dc_deviceSigningKeyFingerprint :: string
  dc_deviceEncryptionKeyFingerprint :: string
  dc_permissions :: "string list"
  dc_historyRecoveryScope :: recovery_scope
  dc_selectedReceiptIds :: "string list option"
  dc_nonce :: string
  dc_issuedAt :: string
  dc_expiresAt :: string
  dc_audience :: string

definition normalizedValues :: "host \<Rightarrow> string list \<Rightarrow> string list" where
  "normalizedValues h vs = sort_by (collate h) (js_uniq vs)"

definition list_or_empty :: "string list option \<Rightarrow> string list" where
  "list_or_empty v = (case v of None \<Rightarrow> [] | Some xs \<Rightarrow> xs)"

definition canonicalizeDeviceAuthorizationClaims :: "host \<Rightarrow> device_claims \<Rightarrow> device_claims" where
  "canonicalizeDeviceAuthorizationClaims h c =
     c\<lparr>dc_permissions := normalizedValues h (dc_permissions c),
       dc_selectedReceiptIds := (if dc_historyRecoveryScope c = ScopeSelected
                                 then Some (normalizedValues h (list_or_empty (dc_selectedReceiptIds c))) else None)\<rparr>"

definition claim_fields :: "device_claims \<Rightarrow> string list" where
  "claim_fields c =
     [dc_domain c, dc_protocolVersion c, dc_network c, dc_tinCommitment c, dc_ownerIdentityCommitment c,
      dc_deviceSigningKeyFingerprint c, dc_deviceEncryptionKeyFingerprint c, js_join '','' (dc_permissions c),
      scope_text (dc_historyRecoveryScope c), js_join '','' (list_or_empty (dc_selectedReceiptIds c)),
      dc_nonce c, dc_issuedAt c, dc_expiresAt c, dc_audience c]"

definition serializeDeviceAuthorization :: "host \<Rightarrow> device_claims \<Rightarrow> byte_list" where
  "serializeDeviceAuthorization h c = canonicalFields (claim_fields (canonicalizeDeviceAuthorizationClaims h c))"

section \<open>Permissions, fingerprints, commitments\<close>

definition TSN_DEVICE_PERMISSION_SCOPES :: "string list" where
  "TSN_DEVICE_PERMISSION_SCOPES =
     [''private-session:create'', ''private-receipt:read'', ''private-history:read'', ''private-balance:read'',
      ''private-settlement:read'', ''private-history:recover'', ''recovery:approve'', ''device:revoke'']"

definition validateTsnDevicePermissions :: "string list \<Rightarrow> string list result" where
  "validateTsnDevicePermissions ps =
     (let n = sorted_set ps in
      if n = [] \<or> \<not> list_all (\<lambda>p. p \<in> set TSN_DEVICE_PERMISSION_SCOPES) n
      then Inl ''Device authorization contains an unsupported TSN permission scope'' else Inr n)"

definition jwk_text :: "obj \<Rightarrow> string \<Rightarrow> string" where
  "jwk_text k n = (case map_of k n of Some (JStr s) \<Rightarrow> s | _ \<Rightarrow> [])"

definition fingerprintDeviceSigningPublicKey :: "host \<Rightarrow> obj \<Rightarrow> string" where
  "fingerprintDeviceSigningPublicKey h k =
     sha256Hex (sha256 h) (canonicalFields [''TSN_DEVICE_SIGNING_KEY_V1'', jwk_text k ''kty'', jwk_text k ''crv'', jwk_text k ''x''])"

definition fingerprintEncryptionPublicKey :: "host \<Rightarrow> obj \<Rightarrow> string \<Rightarrow> string" where
  "fingerprintEncryptionPublicKey h k purpose =
     sha256Hex (sha256 h) (canonicalFields [''TSN_OWNER_CONTROLLED_ENCRYPTION_KEY_V1'', purpose, jwk_text k ''kty'', jwk_text k ''crv'',
       jwk_text k ''x''])"

definition createTinCommitment :: "host \<Rightarrow> string \<Rightarrow> string" where
  "createTinCommitment h tin = sha256Hex (sha256 h) (canonicalFields [''TSN_TIN_COMMITMENT_V1'', tin])"

definition createOwnerIdentityCommitment :: "host \<Rightarrow> (string \<Rightarrow> byte_list option) \<Rightarrow> string \<Rightarrow> string result" where
  "createOwnerIdentityCommitment h pk owner =
     (case pk owner of None \<Rightarrow> Inl ''Invalid public key input'' | Some bs \<Rightarrow> Inr (sha256Hex (sha256 h) bs))"

definition createAuthorizationCommitment :: "host \<Rightarrow> byte_list \<Rightarrow> string" where
  "createAuthorizationCommitment h bs =
     sha256Hex (sha256 h) (canonicalFields [''TSN_DEVICE_AUTHORIZATION_COMMITMENT_V1'', bytesToBase64Url bs])"

text \<open>The argument is the material in hexadecimal; bytes are given as \<open>bytesToHex\<close> of them.\<close>

definition derivePrivacyReceivingRootCommitment :: "host \<Rightarrow> string \<Rightarrow> string result" where
  "derivePrivacyReceivingRootCommitment h material =
     (let m = lower material in
      if length m < 64 \<or> \<not> list_all is_lower_hex m \<or> odd (length m)
      then Inl ''privacy_receiving_root_material_must_be_nonempty_hex''
      else Inr (sha256Hex (sha256 h) (canonicalFields [''TSN_PRIVACY_RECEIVING_ROOT_COMMITMENT_V1'', m])))"

definition deriveDevnetTestPrivacyReceivingRootCommitment :: "host \<Rightarrow> string \<Rightarrow> string \<Rightarrow> string result" where
  "deriveDevnetTestPrivacyReceivingRootCommitment h owner label =
     derivePrivacyReceivingRootCommitment h
       (sha256Hex (sha256 h) (canonicalFields [''TSN_DEVNET_TEST_PRIVACY_ROOT_MATERIAL_V1'', owner, label]))"

definition deriveDevnetTestPolicyCommitment :: "host \<Rightarrow> string \<Rightarrow> string \<Rightarrow> string" where
  "deriveDevnetTestPolicyCommitment h owner label =
     sha256Hex (sha256 h) (canonicalFields [''TSN_DEVNET_TEST_POLICY_COMMITMENT_V1'', owner, label])"

definition deriveDevnetTestTcapGenesisCommitment :: "host \<Rightarrow> string \<Rightarrow> string \<Rightarrow> string \<Rightarrow> string" where
  "deriveDevnetTestTcapGenesisCommitment h owner policy label =
     sha256Hex (sha256 h) (canonicalFields [''TSN_DEVNET_TEST_TCAP_GENESIS_COMMITMENT_V1'', owner, label, policy])"

section \<open>The registration challenge\<close>

definition TSN_DEVICE_REGISTRATION_CHALLENGE_VERSION :: string where
  "TSN_DEVICE_REGISTRATION_CHALLENGE_VERSION = ''tsn-device-registration-challenge-v1''"

record registration_challenge =
  rc_protocolVersion :: string
  rc_nonce :: string
  rc_tinCommitment :: string
  rc_network :: string
  rc_audience :: string
  rc_issuedAt :: string
  rc_expiresAt :: string

definition createDeviceRegistrationChallenge ::
  "host \<Rightarrow> int \<Rightarrow> int \<Rightarrow> byte_list \<Rightarrow> string \<Rightarrow> string \<Rightarrow> string \<Rightarrow> registration_challenge result" where
  "createDeviceRegistrationChallenge h now ttlMs random tinCommitment network audience =
     and_then (require (0 < ttlMs \<and> ttlMs \<le> 10 * 60 * 1000)
       ''Device registration challenge TTL must be between one millisecond and ten minutes'') (\<lambda>_.
     Inr \<lparr>rc_protocolVersion = TSN_DEVICE_REGISTRATION_CHALLENGE_VERSION, rc_nonce = bytesToBase64Url random,
          rc_tinCommitment = tinCommitment, rc_network = network, rc_audience = audience, rc_issuedAt = to_iso h now,
          rc_expiresAt = to_iso h (now + ttlMs)\<rparr>)"

section \<open>The client\<close>

record device_offer =
  do_tin :: string
  do_deviceId :: string
  do_signingPublicKey :: obj
  do_encryptionPublicKey :: obj
  do_permissions :: "string list"
  do_scope :: recovery_scope
  do_selectedReceiptIds :: "string list option"
  do_owner :: string

definition authorization_claims ::
  "host \<Rightarrow> (string \<Rightarrow> byte_list option) \<Rightarrow> device_offer \<Rightarrow> registration_challenge \<Rightarrow> device_claims result" where
  "authorization_claims h pk d c =
     and_then (require (rc_protocolVersion c = TSN_DEVICE_REGISTRATION_CHALLENGE_VERSION)
       ''TSN authorization service returned an unsupported challenge'') (\<lambda>_.
     and_then (require (rc_tinCommitment c = createTinCommitment h (do_tin d))
       ''TSN registration challenge is bound to another TIN'') (\<lambda>_.
     and_then (createOwnerIdentityCommitment h pk (do_owner d)) (\<lambda>owner.
     and_then (validateTsnDevicePermissions (do_permissions d)) (\<lambda>permissions.
     Inr \<lparr>dc_protocolVersion = TSN_DEVICE_AUTHORIZATION_VERSION, dc_domain = TSN_DEVICE_AUTHORIZATION_DOMAIN,
          dc_network = rc_network c, dc_tinCommitment = createTinCommitment h (do_tin d), dc_ownerIdentityCommitment = owner,
          dc_deviceSigningKeyFingerprint = fingerprintDeviceSigningPublicKey h (do_signingPublicKey d),
          dc_deviceEncryptionKeyFingerprint = fingerprintEncryptionPublicKey h (do_encryptionPublicKey d) ''device'',
          dc_permissions = permissions, dc_historyRecoveryScope = do_scope d,
          dc_selectedReceiptIds = (if do_scope d = ScopeSelected then Some (list_or_empty (do_selectedReceiptIds d)) else None),
          dc_nonce = rc_nonce c, dc_issuedAt = rc_issuedAt c, dc_expiresAt = rc_expiresAt c, dc_audience = rc_audience c\<rparr>))))"

definition verifyOwnerAuthorization :: "json \<Rightarrow> unit result" where
  "verifyOwnerAuthorization v =
     (case v of
        JObj ob \<Rightarrow> require (map_of ob ''ownerVerified'' = Some (JBool True) \<and> map_of ob ''deviceAuthorized'' = Some (JBool True))
          ''TSN authorization service did not confirm owner and device authorization''
      | _ \<Rightarrow> Inl ''TSN authorization service did not confirm owner and device authorization'')"

text \<open>
  \<open>authorizeDevice\<close>: ask for a challenge, sign the claims, register, and read the confirmation. The
  service is the pair of functions \<open>challenge\<close> and \<open>register\<close>; the wallet is \<open>sign\<close>.
\<close>

definition authorizeDevice ::
  "host \<Rightarrow> (string \<Rightarrow> byte_list option) \<Rightarrow> (string \<Rightarrow> registration_challenge result) \<Rightarrow> (byte_list \<Rightarrow> byte_list)
     \<Rightarrow> (device_offer \<Rightarrow> device_claims \<Rightarrow> string \<Rightarrow> json result) \<Rightarrow> device_offer \<Rightarrow> unit result" where
  "authorizeDevice h pk challenge sign register d =
     and_then (challenge (do_tin d)) (\<lambda>c.
     and_then (authorization_claims h pk d c) (\<lambda>claims.
     and_then (register d claims (btoa (sign (serializeDeviceAuthorization h claims)))) (\<lambda>reply.
     verifyOwnerAuthorization reply)))"

section \<open>The server\<close>

text \<open>\<open>nacl.sign.detached.verify\<close> throws on a signature or key of the wrong size.\<close>

definition nacl_verify :: "host \<Rightarrow> byte_list \<Rightarrow> byte_list \<Rightarrow> byte_list \<Rightarrow> bool result" where
  "nacl_verify h message signature key =
     and_then (require (length signature = 64) ''bad signature size'') (\<lambda>_.
     and_then (require (length key = 32) ''bad public key size'') (\<lambda>_.
     Inr (ed25519_verify h key message signature)))"

record owner_proof =
  op_signerPublicKey :: string
  op_signatureBase64 :: string

record claim_expectation =
  ce_network :: string
  ce_tinCommitment :: string
  ce_audience :: string
  ce_signingKeyFingerprint :: string
  ce_encryptionKeyFingerprint :: string

definition check_claims :: "host \<Rightarrow> int \<Rightarrow> device_claims \<Rightarrow> claim_expectation \<Rightarrow> string option" where
  "check_claims h now c e =
     (if dc_protocolVersion c \<noteq> TSN_DEVICE_AUTHORIZATION_VERSION \<or> dc_domain c \<noteq> TSN_DEVICE_AUTHORIZATION_DOMAIN
      then Some ''unsupported-authorization-domain''
      else if dc_network c \<noteq> ce_network e then Some ''network-mismatch''
      else if dc_tinCommitment c \<noteq> ce_tinCommitment e then Some ''tin-mismatch''
      else if dc_audience c \<noteq> ce_audience e then Some ''audience-mismatch''
      else if dc_deviceSigningKeyFingerprint c \<noteq> ce_signingKeyFingerprint e then Some ''device-signing-key-mismatch''
      else if dc_deviceEncryptionKeyFingerprint c \<noteq> ce_encryptionKeyFingerprint e then Some ''device-encryption-key-mismatch''
      else (case (date_parse h (dc_issuedAt c), date_parse h (dc_expiresAt c)) of
              (Some i, Some x) \<Rightarrow> if now < i \<or> x \<le> now \<or> x \<le> i then Some ''authorization-expired-or-invalid'' else None
            | _ \<Rightarrow> Some ''authorization-expired-or-invalid''))"

text \<open>The value is the reason of a refusal, if any.\<close>

definition verifyTransientOwnerAuthorization ::
  "host \<Rightarrow> (string \<Rightarrow> byte_list option) \<Rightarrow> int \<Rightarrow> device_claims \<Rightarrow> owner_proof \<Rightarrow> claim_expectation \<Rightarrow> string option result" where
  "verifyTransientOwnerAuthorization h pk now authorization proof e =
     (let claims = canonicalizeDeviceAuthorizationClaims h authorization in
      (case check_claims h now claims e of
         Some reason \<Rightarrow> Inr (Some reason)
       | None \<Rightarrow>
           (case pk (op_signerPublicKey proof) of
              None \<Rightarrow> Inl ''Invalid public key input''
            | Some key \<Rightarrow>
                and_then (nacl_verify h (serializeDeviceAuthorization h claims) (base64_decode h (op_signatureBase64 proof)) key) (\<lambda>ok.
                Inr (if ok then None else Some ''invalid-owner-signature'')))))"

record registered_device =
  rd_deviceId :: string
  rd_tinCommitment :: string
  rd_ownerIdentityCommitment :: string
  rd_signingKeyFingerprint :: string
  rd_signingPublicKey :: obj
  rd_encryptionKeyFingerprint :: string
  rd_encryptionPublicKey :: obj
  rd_permissions :: "string list"
  rd_historyRecoveryScope :: recovery_scope
  rd_network :: string
  rd_audience :: string
  rd_authorizationCommitment :: string
  rd_authorizedAt :: string
  rd_authorizationExpiresAt :: string

record registration_request =
  rr_tin :: string
  rr_deviceId :: string
  rr_signingPublicKey :: obj
  rr_encryptionPublicKey :: obj
  rr_authorization :: device_claims
  rr_ownerVerification :: owner_proof

record challenge_use =
  cu_nonce :: string
  cu_tinCommitment :: string
  cu_network :: string
  cu_audience :: string
  cu_issuedAt :: string
  cu_expiresAt :: string

definition registered :: "host \<Rightarrow> registration_request \<Rightarrow> string list \<Rightarrow> string \<Rightarrow> registered_device" where
  "registered h r permissions owner =
     (let a = rr_authorization r in
      \<lparr>rd_deviceId = rr_deviceId r, rd_tinCommitment = createTinCommitment h (rr_tin r), rd_ownerIdentityCommitment = owner,
       rd_signingKeyFingerprint = fingerprintDeviceSigningPublicKey h (rr_signingPublicKey r),
       rd_signingPublicKey = rr_signingPublicKey r,
       rd_encryptionKeyFingerprint = fingerprintEncryptionPublicKey h (rr_encryptionPublicKey r) ''device'',
       rd_encryptionPublicKey = rr_encryptionPublicKey r, rd_permissions = permissions,
       rd_historyRecoveryScope = dc_historyRecoveryScope a, rd_network = dc_network a, rd_audience = dc_audience a,
       rd_authorizationCommitment = createAuthorizationCommitment h (serializeDeviceAuthorization h a),
       rd_authorizedAt = dc_issuedAt a, rd_authorizationExpiresAt = dc_expiresAt a\<rparr>)"

definition registration_expectation :: "host \<Rightarrow> registration_request \<Rightarrow> string \<Rightarrow> string \<Rightarrow> claim_expectation" where
  "registration_expectation h r network audience =
     \<lparr>ce_network = network, ce_tinCommitment = createTinCommitment h (rr_tin r), ce_audience = audience,
      ce_signingKeyFingerprint = fingerprintDeviceSigningPublicKey h (rr_signingPublicKey r),
      ce_encryptionKeyFingerprint = fingerprintEncryptionPublicKey h (rr_encryptionPublicKey r) ''device''\<rparr>"

definition verifyTsnDeviceRegistration ::
  "host \<Rightarrow> (string \<Rightarrow> byte_list option) \<Rightarrow> int \<Rightarrow> string \<Rightarrow> string \<Rightarrow> (string \<Rightarrow> string \<Rightarrow> string result)
     \<Rightarrow> (challenge_use \<Rightarrow> 's \<Rightarrow> bool \<times> 's) \<Rightarrow> registration_request \<Rightarrow> 's \<Rightarrow> registered_device result \<times> 's" where
  "verifyTsnDeviceRegistration h pk now network audience verifyOwner consume r s =
     (let a = rr_authorization r in
      (case and_then (validateTsnDevicePermissions (dc_permissions a)) (\<lambda>permissions.
              and_then (verifyTransientOwnerAuthorization h pk now a (rr_ownerVerification r)
                (registration_expectation h r network audience)) (\<lambda>verdict.
              (case verdict of
                 Some reason \<Rightarrow> Inl (''Device authorization rejected: '' @ reason)
               | None \<Rightarrow>
                   and_then (verifyOwner (rr_tin r) (op_signerPublicKey (rr_ownerVerification r))) (\<lambda>owner.
                   and_then (require (owner = dc_ownerIdentityCommitment a)
                     ''Device authorization owner commitment does not match the on-chain TINS owner'') (\<lambda>_.
                   Inr (permissions, owner)))))) of
         Inl e \<Rightarrow> (Inl e, s)
       | Inr (permissions, owner) \<Rightarrow>
           (case consume \<lparr>cu_nonce = dc_nonce a, cu_tinCommitment = createTinCommitment h (rr_tin r), cu_network = dc_network a,
                          cu_audience = dc_audience a, cu_issuedAt = dc_issuedAt a, cu_expiresAt = dc_expiresAt a\<rparr> s of
              (False, s') \<Rightarrow> (Inl ''Device authorization challenge is invalid, expired, or already consumed'', s')
            | (True, s') \<Rightarrow> (Inr (registered h r permissions owner), s'))))"

section \<open>Normal forms\<close>

lemma sort_by_sorted_id: "sorted_wrt le xs \<Longrightarrow> sort_by le xs = xs"
proof (induction xs)
  case (Cons x xs)
  then show ?case by (cases xs) (auto simp: sort_by_Cons)
qed simp

lemma distinct_sort_by: "distinct (sort_by le xs) \<longleftrightarrow> distinct xs"
  by (metis mset_sort_by mset_eq_imp_distinct_iff)

lemma sorted_set_idem: "sorted_set (sorted_set xs) = sorted_set xs"
  unfolding sorted_set_def
  by (simp add: js_uniq_id distinct_sort_by distinct_js_uniq sort_by_sorted_id code_units.sorted_sort_by)

lemma set_sorted_set [simp]: "set (sorted_set xs) = set xs"
  by (simp add: sorted_set_def)

lemma set_normalizedValues [simp]: "set (normalizedValues h xs) = set xs"
  by (simp add: normalizedValues_def)

lemma normalizedValues_idem: "comparator (collate h) \<Longrightarrow> normalizedValues h (normalizedValues h xs) = normalizedValues h xs"
  unfolding normalizedValues_def
  by (simp add: js_uniq_id distinct_sort_by distinct_js_uniq sort_by_sorted_id comparator.sorted_sort_by)

lemma canonicalize_idem:
  "comparator (collate h) \<Longrightarrow>
   canonicalizeDeviceAuthorizationClaims h (canonicalizeDeviceAuthorizationClaims h c) = canonicalizeDeviceAuthorizationClaims h c"
  by (simp add: canonicalizeDeviceAuthorizationClaims_def normalizedValues_idem list_or_empty_def)

lemma serialize_canonical:
  "comparator (collate h) \<Longrightarrow> serializeDeviceAuthorization h (canonicalizeDeviceAuthorizationClaims h c) = serializeDeviceAuthorization h c"
  by (simp add: serializeDeviceAuthorization_def canonicalize_idem)

lemma scope_text_inject: "scope_text a = scope_text b \<longleftrightarrow> a = b"
  by (cases a; cases b) simp_all

lemma scopes_no_comma: "p \<in> set TSN_DEVICE_PERMISSION_SCOPES \<Longrightarrow> CHR '','' \<notin> set p"
  by (auto simp: TSN_DEVICE_PERMISSION_SCOPES_def)

lemma validate_Inr:
  "validateTsnDevicePermissions ps = Inr n \<longleftrightarrow> n = sorted_set ps \<and> ps \<noteq> [] \<and> set ps \<subseteq> set TSN_DEVICE_PERMISSION_SCOPES"
proof -
  have "sorted_set ps = [] \<longleftrightarrow> ps = []" by (metis set_sorted_set set_empty)
  then show ?thesis by (auto simp: validateTsnDevicePermissions_def Let_def list_all_iff)
qed

text \<open>What the signed bytes fix.\<close>

definition same_grant :: "device_claims \<Rightarrow> device_claims \<Rightarrow> bool" where
  "same_grant a b \<longleftrightarrow>
     dc_network a = dc_network b \<and> dc_tinCommitment a = dc_tinCommitment b \<and>
     dc_ownerIdentityCommitment a = dc_ownerIdentityCommitment b \<and>
     dc_deviceSigningKeyFingerprint a = dc_deviceSigningKeyFingerprint b \<and>
     dc_deviceEncryptionKeyFingerprint a = dc_deviceEncryptionKeyFingerprint b \<and>
     set (dc_permissions a) = set (dc_permissions b) \<and> dc_historyRecoveryScope a = dc_historyRecoveryScope b \<and>
     dc_nonce a = dc_nonce b \<and> dc_issuedAt a = dc_issuedAt b \<and> dc_expiresAt a = dc_expiresAt b \<and> dc_audience a = dc_audience b"

lemma serialize_same_grant:
  assumes "serializeDeviceAuthorization h a = serializeDeviceAuthorization h b"
    and "dc_permissions a \<noteq> []" "set (dc_permissions a) \<subseteq> set TSN_DEVICE_PERMISSION_SCOPES"
    and "dc_permissions b \<noteq> []" "set (dc_permissions b) \<subseteq> set TSN_DEVICE_PERMISSION_SCOPES"
  shows "same_grant a b"
proof -
  from assms(1) have f: "claim_fields (canonicalizeDeviceAuthorizationClaims h a) = claim_fields (canonicalizeDeviceAuthorizationClaims h b)"
    by (simp add: serializeDeviceAuthorization_def canonicalFields_inject)
  then have "js_join '','' (normalizedValues h (dc_permissions a)) = js_join '','' (normalizedValues h (dc_permissions b))"
    by (simp add: claim_fields_def canonicalizeDeviceAuthorizationClaims_def)
  moreover have "normalizedValues h (dc_permissions a) \<noteq> []" "normalizedValues h (dc_permissions b) \<noteq> []"
    using assms(2,4) by (metis set_normalizedValues set_empty)+
  ultimately have "normalizedValues h (dc_permissions a) = normalizedValues h (dc_permissions b)"
    using assms(3,5) scopes_no_comma by (intro js_join_inject) auto
  then have "set (dc_permissions a) = set (dc_permissions b)" by (metis set_normalizedValues)
  with f show ?thesis
    by (simp add: same_grant_def claim_fields_def canonicalizeDeviceAuthorizationClaims_def scope_text_inject)
qed

lemma verifyTransient_valid:
  assumes "verifyTransientOwnerAuthorization h pk now a p e = Inr None" "comparator (collate h)"
  shows "check_claims h now (canonicalizeDeviceAuthorizationClaims h a) e = None \<and>
    (\<exists>key. pk (op_signerPublicKey p) = Some key \<and> length key = 32 \<and>
       ed25519_verify h key (serializeDeviceAuthorization h a) (base64_decode h (op_signatureBase64 p)))"
  using assms
  by (auto simp: verifyTransientOwnerAuthorization_def Let_def nacl_verify_def serialize_canonical split: option.splits if_splits)

lemma check_claims_None:
  assumes "check_claims h now c e = None"
  shows "dc_network c = ce_network e \<and> dc_tinCommitment c = ce_tinCommitment e \<and> dc_audience c = ce_audience e \<and>
    dc_deviceSigningKeyFingerprint c = ce_signingKeyFingerprint e \<and> dc_deviceEncryptionKeyFingerprint c = ce_encryptionKeyFingerprint e \<and>
    (\<exists>i x. date_parse h (dc_issuedAt c) = Some i \<and> date_parse h (dc_expiresAt c) = Some x \<and> i \<le> now \<and> now < x)"
  using assms by (auto simp: check_claims_def split: if_splits option.splits)

lemma canonicalize_fields [simp]:
  "dc_network (canonicalizeDeviceAuthorizationClaims h c) = dc_network c"
  "dc_tinCommitment (canonicalizeDeviceAuthorizationClaims h c) = dc_tinCommitment c"
  "dc_audience (canonicalizeDeviceAuthorizationClaims h c) = dc_audience c"
  "dc_deviceSigningKeyFingerprint (canonicalizeDeviceAuthorizationClaims h c) = dc_deviceSigningKeyFingerprint c"
  "dc_deviceEncryptionKeyFingerprint (canonicalizeDeviceAuthorizationClaims h c) = dc_deviceEncryptionKeyFingerprint c"
  "dc_issuedAt (canonicalizeDeviceAuthorizationClaims h c) = dc_issuedAt c"
  "dc_expiresAt (canonicalizeDeviceAuthorizationClaims h c) = dc_expiresAt c"
  "dc_protocolVersion (canonicalizeDeviceAuthorizationClaims h c) = dc_protocolVersion c"
  "dc_domain (canonicalizeDeviceAuthorizationClaims h c) = dc_domain c"
  by (simp_all add: canonicalizeDeviceAuthorizationClaims_def)

text \<open>
  C20: A device is registered only with its TIN owner's signature over bytes that fix the TIN, both
  device keys, the set of permissions, the challenge and its validity: the signer's key is the one
  the on-chain owner check confirmed, and no other grant with supported permissions has the same
  bytes. The registered permissions are exactly those of the signed grant, all of them supported.
\<close>

theorem device_registration_authorized:
  assumes "verifyTsnDeviceRegistration h pk now network audience verifyOwner consume r s = (Inr rd, s')" "comparator (collate h)"
  shows "verifyOwner (rr_tin r) (op_signerPublicKey (rr_ownerVerification r)) = Inr (dc_ownerIdentityCommitment (rr_authorization r)) \<and>
    (\<exists>key. pk (op_signerPublicKey (rr_ownerVerification r)) = Some key \<and>
       ed25519_verify h key (serializeDeviceAuthorization h (rr_authorization r))
         (base64_decode h (op_signatureBase64 (rr_ownerVerification r)))) \<and>
    dc_tinCommitment (rr_authorization r) = createTinCommitment h (rr_tin r) \<and>
    dc_deviceSigningKeyFingerprint (rr_authorization r) = fingerprintDeviceSigningPublicKey h (rr_signingPublicKey r) \<and>
    dc_deviceEncryptionKeyFingerprint (rr_authorization r) = fingerprintEncryptionPublicKey h (rr_encryptionPublicKey r) ''device'' \<and>
    set (rd_permissions rd) = set (dc_permissions (rr_authorization r)) \<and> set (rd_permissions rd) \<subseteq> set TSN_DEVICE_PERMISSION_SCOPES \<and>
    (\<forall>b. serializeDeviceAuthorization h (rr_authorization r) = serializeDeviceAuthorization h b \<and>
       dc_permissions b \<noteq> [] \<and> set (dc_permissions b) \<subseteq> set TSN_DEVICE_PERMISSION_SCOPES \<longrightarrow> same_grant (rr_authorization r) b)"
proof -
  let ?a = "rr_authorization r"
  from assms(1) obtain ps owner where ps: "validateTsnDevicePermissions (dc_permissions ?a) = Inr ps"
    and v: "verifyTransientOwnerAuthorization h pk now ?a (rr_ownerVerification r) (registration_expectation h r network audience) = Inr None"
    and o: "verifyOwner (rr_tin r) (op_signerPublicKey (rr_ownerVerification r)) = Inr owner" "owner = dc_ownerIdentityCommitment ?a"
    and rd: "rd = registered h r ps owner"
    by (auto simp: verifyTsnDeviceRegistration_def Let_def split: sum.splits option.splits prod.splits bool.splits)
  have "\<forall>b. serializeDeviceAuthorization h ?a = serializeDeviceAuthorization h b \<and>
       dc_permissions b \<noteq> [] \<and> set (dc_permissions b) \<subseteq> set TSN_DEVICE_PERMISSION_SCOPES \<longrightarrow> same_grant ?a b"
    using ps serialize_same_grant by (auto simp: validate_Inr)
  moreover have "set (rd_permissions rd) = set (dc_permissions ?a) \<and> set (rd_permissions rd) \<subseteq> set TSN_DEVICE_PERMISSION_SCOPES"
    using ps unfolding rd by (auto simp: registered_def Let_def validate_Inr)
  moreover note verifyTransient_valid [OF v assms(2)]
  ultimately show ?thesis using o by (auto simp: registration_expectation_def dest!: check_claims_None)
qed

section \<open>Client and server agree\<close>

text \<open>What a wallet and the runtime promise: signatures verify, and dates and padded base 64 read back.\<close>

definition wallet_law :: "host \<Rightarrow> byte_list \<Rightarrow> (byte_list \<Rightarrow> byte_list) \<Rightarrow> bool" where
  "wallet_law h key sign \<longleftrightarrow> length key = 32 \<and>
     (\<forall>m. length (sign m) = 64 \<and> base64_decode h (btoa (sign m)) = sign m \<and> ed25519_verify h key m (sign m))"

definition dates_law :: "host \<Rightarrow> bool" where
  "dates_law h \<longleftrightarrow> (\<forall>t. date_parse h (to_iso h t) = Some t)"

definition client_request :: "host \<Rightarrow> (byte_list \<Rightarrow> byte_list) \<Rightarrow> device_offer \<Rightarrow> device_claims \<Rightarrow> registration_request" where
  "client_request h sign d claims =
     \<lparr>rr_tin = do_tin d, rr_deviceId = do_deviceId d, rr_signingPublicKey = do_signingPublicKey d,
      rr_encryptionPublicKey = do_encryptionPublicKey d, rr_authorization = claims,
      rr_ownerVerification = \<lparr>op_signerPublicKey = do_owner d, op_signatureBase64 = btoa (sign (serializeDeviceAuthorization h claims))\<rparr>\<rparr>"

lemma authorization_claims_Inr:
  assumes "authorization_claims h pk d c = Inr claims"
  shows "\<exists>key. pk (do_owner d) = Some key \<and> dc_ownerIdentityCommitment claims = sha256Hex (sha256 h) key \<and>
    validateTsnDevicePermissions (do_permissions d) = Inr (dc_permissions claims) \<and> dc_network claims = rc_network c \<and>
    dc_tinCommitment claims = createTinCommitment h (do_tin d) \<and> dc_audience claims = rc_audience c \<and>
    dc_deviceSigningKeyFingerprint claims = fingerprintDeviceSigningPublicKey h (do_signingPublicKey d) \<and>
    dc_deviceEncryptionKeyFingerprint claims = fingerprintEncryptionPublicKey h (do_encryptionPublicKey d) ''device'' \<and>
    dc_protocolVersion claims = TSN_DEVICE_AUTHORIZATION_VERSION \<and> dc_domain claims = TSN_DEVICE_AUTHORIZATION_DOMAIN \<and>
    dc_issuedAt claims = rc_issuedAt c \<and> dc_expiresAt claims = rc_expiresAt c"
  using assms by (auto simp: authorization_claims_def createOwnerIdentityCommitment_def split: option.splits)

lemma client_accepted:
  assumes "comparator (collate h)" "dates_law h" "pk (do_owner d) = Some key" "wallet_law h key sign"
    and "createDeviceRegistrationChallenge h t0 ttl random (createTinCommitment h (do_tin d)) network audience = Inr c"
    and "authorization_claims h pk d c = Inr claims" "t0 \<le> now" "now < t0 + ttl"
    and "verifyOwner (do_tin d) (do_owner d) = Inr (sha256Hex (sha256 h) key)" "\<And>u. consume u s = (True, s')"
  shows "\<exists>rd. verifyTsnDeviceRegistration h pk now network audience verifyOwner consume (client_request h sign d claims) s = (Inr rd, s') \<and>
    set (rd_permissions rd) = set (do_permissions d) \<and> rd_tinCommitment rd = createTinCommitment h (do_tin d)"
proof -
  note cl = authorization_claims_Inr [OF assms(6)]
  have c: "rc_network c = network" "rc_audience c = audience" "rc_issuedAt c = to_iso h t0" "rc_expiresAt c = to_iso h (t0 + ttl)" "0 < ttl"
    using assms(5) by (auto simp: createDeviceRegistrationChallenge_def)
  have perms: "validateTsnDevicePermissions (do_permissions d) = Inr (dc_permissions claims)" using cl by blast
  then have perms': "validateTsnDevicePermissions (dc_permissions claims) = Inr (dc_permissions claims)"
    by (auto simp: validate_Inr sorted_set_idem) (metis set_empty set_sorted_set)
  let ?r = "client_request h sign d claims"
  have "check_claims h now (canonicalizeDeviceAuthorizationClaims h claims) (registration_expectation h ?r network audience) = None"
    using cl c assms(2,7,8) by (auto simp: check_claims_def registration_expectation_def client_request_def dates_law_def)
  moreover have "nacl_verify h (serializeDeviceAuthorization h claims) (base64_decode h (btoa (sign (serializeDeviceAuthorization h claims)))) key
      = Inr True" using assms(4) by (simp add: nacl_verify_def wallet_law_def)
  ultimately have "verifyTransientOwnerAuthorization h pk now claims (rr_ownerVerification ?r) (registration_expectation h ?r network audience)
      = Inr None"
    using assms(3) by (simp add: verifyTransientOwnerAuthorization_def client_request_def serialize_canonical [OF assms(1)])
  moreover have "sha256Hex (sha256 h) key = dc_ownerIdentityCommitment claims" using cl assms(3) by auto
  ultimately have "verifyTsnDeviceRegistration h pk now network audience verifyOwner consume ?r s =
      (Inr (registered h ?r (dc_permissions claims) (dc_ownerIdentityCommitment claims)), s')"
    using perms' assms(9,10) by (simp add: verifyTsnDeviceRegistration_def client_request_def)
  moreover have "set (dc_permissions claims) = set (do_permissions d)" using perms by (auto simp: validate_Inr)
  ultimately show ?thesis by (simp add: registered_def client_request_def)
qed

definition sample_offer :: device_offer where
  "sample_offer = \<lparr>do_tin = ''42'', do_deviceId = ''d1'', do_signingPublicKey = [(''x'', JStr ''s'')], do_encryptionPublicKey = [(''x'', JStr ''e'')],
     do_permissions = [''device:revoke'', ''private-balance:read''], do_scope = ScopeAll, do_selectedReceiptIds = None, do_owner = ''O''\<rparr>"

definition sample_pk :: "string \<Rightarrow> byte_list option" where
  "sample_pk = (\<lambda>_. Some (replicate 32 0))"

definition sample_sign :: "byte_list \<Rightarrow> byte_list" where
  "sample_sign m = take 64 (replicate 32 0 @ map (\<lambda>b. b mod 256) m @ replicate 64 0)"

text \<open>A runtime whose signatures are over the bytes of the message.\<close>

definition sample_host2 :: host where
  "sample_host2 = sample_host\<lparr>ed25519_verify := (\<lambda>key m sig. sig = take 64 (key @ map (\<lambda>b. b mod 256) m @ replicate 64 0))\<rparr>"

lemma sample_host2_laws:
  "comparator (collate sample_host2)" "dates_law sample_host2" "wallet_law sample_host2 (replicate 32 0) sample_sign"
proof -
  show "comparator (collate sample_host2)"
    using sample_collation by (simp add: sample_host2_def collation_def)
  show "dates_law sample_host2"
    by (simp add: dates_law_def sample_host2_def)
  have "octets (sample_sign m)" for m by (auto simp: sample_sign_def list_all_iff dest!: in_set_takeD)
  then have "base64_decode sample_host2 (btoa (sample_sign m)) = sample_sign m" for m
    using sample_base64_padded by (simp add: sample_host2_def)
  moreover have "length (sample_sign m) = 64" for m by (simp add: sample_sign_def)
  ultimately show "wallet_law sample_host2 (replicate 32 0) sample_sign"
    by (simp add: wallet_law_def) (simp add: sample_host2_def sample_sign_def)
qed

lemma sample_registration:
  "\<exists>c claims. createDeviceRegistrationChallenge sample_host2 100 1000 [7] (createTinCommitment sample_host2 (do_tin sample_offer)) ''devnet'' ''aud'' = Inr c \<and>
     authorization_claims sample_host2 sample_pk sample_offer c = Inr claims"
proof -
  have "validateTsnDevicePermissions (do_permissions sample_offer) = Inr (sorted_set (do_permissions sample_offer))"
    by (simp add: validate_Inr sample_offer_def TSN_DEVICE_PERMISSION_SCOPES_def)
  then show ?thesis
    by (simp add: createDeviceRegistrationChallenge_def authorization_claims_def createOwnerIdentityCommitment_def sample_pk_def)
qed

lemma sample_accepted:
  "\<exists>claims rd. verifyTsnDeviceRegistration sample_host2 sample_pk 500 ''devnet'' ''aud'' (\<lambda>_ _. Inr (sha256Hex (sha256 sample_host2) (replicate 32 0)))
     (\<lambda>_ s. (True, s)) (client_request sample_host2 sample_sign sample_offer claims) (0::nat) = (Inr rd, 0)"
proof -
  obtain c claims where c: "createDeviceRegistrationChallenge sample_host2 100 1000 [7] (createTinCommitment sample_host2 (do_tin sample_offer))
      ''devnet'' ''aud'' = Inr c" and cl: "authorization_claims sample_host2 sample_pk sample_offer c = Inr claims"
    using sample_registration by blast
  have pk: "sample_pk (do_owner sample_offer) = Some (replicate 32 0)" by (simp add: sample_pk_def)
  have "\<exists>rd. verifyTsnDeviceRegistration sample_host2 sample_pk 500 ''devnet'' ''aud''
      (\<lambda>_ _. Inr (sha256Hex (sha256 sample_host2) (replicate 32 0))) (\<lambda>_ s. (True, s))
      (client_request sample_host2 sample_sign sample_offer claims) (0::nat) = (Inr rd, 0) \<and>
      set (rd_permissions rd) = set (do_permissions sample_offer) \<and> rd_tinCommitment rd = createTinCommitment sample_host2 (do_tin sample_offer)"
    by (rule client_accepted [OF sample_host2_laws(1,2) pk sample_host2_laws(3) c cl]) simp_all
  then show ?thesis by blast
qed

theorem device_registration_authorized_witness:
  "\<exists>r rd. verifyTsnDeviceRegistration sample_host2 sample_pk 500 ''devnet'' ''aud'' (\<lambda>_ _. Inr (sha256Hex (sha256 sample_host2) (replicate 32 0)))
     (\<lambda>_ s. (True, s)) r (0::nat) = (Inr rd, 0) \<and> set (rd_permissions rd) = set (dc_permissions (rr_authorization r)) \<and>
     set (rd_permissions rd) \<subseteq> set TSN_DEVICE_PERMISSION_SCOPES"
proof -
  obtain claims rd where r: "verifyTsnDeviceRegistration sample_host2 sample_pk 500 ''devnet'' ''aud''
      (\<lambda>_ _. Inr (sha256Hex (sha256 sample_host2) (replicate 32 0))) (\<lambda>_ s. (True, s))
      (client_request sample_host2 sample_sign sample_offer claims) (0::nat) = (Inr rd, 0)"
    using sample_accepted by blast
  show ?thesis using r device_registration_authorized [OF r sample_host2_laws(1)] by blast
qed

text \<open>
  Registration works end to end: the claims a client builds from a server's challenge and has
  its wallet sign are accepted by the server while the challenge lasts, if the on-chain check
  confirms the owner and the challenge is unused, and register exactly the permissions asked for.
\<close>

theorem client_registration_accepted:
  assumes "comparator (collate h)" "dates_law h" "pk (do_owner d) = Some key" "wallet_law h key sign"
    and "createDeviceRegistrationChallenge h t0 ttl random (createTinCommitment h (do_tin d)) network audience = Inr c"
    and "authorization_claims h pk d c = Inr claims" "t0 \<le> now" "now < t0 + ttl"
    and "verifyOwner (do_tin d) (do_owner d) = Inr (sha256Hex (sha256 h) key)" "\<And>u. consume u s = (True, s')"
  shows "\<exists>rd. verifyTsnDeviceRegistration h pk now network audience verifyOwner consume (client_request h sign d claims) s = (Inr rd, s') \<and>
    set (rd_permissions rd) = set (do_permissions d) \<and> rd_tinCommitment rd = createTinCommitment h (do_tin d)"
  using assms by (rule client_accepted)

theorem client_registration_accepted_witness:
  "\<exists>claims rd. verifyTsnDeviceRegistration sample_host2 sample_pk 500 ''devnet'' ''aud'' (\<lambda>_ _. Inr (sha256Hex (sha256 sample_host2) (replicate 32 0)))
     (\<lambda>_ s. (True, s)) (client_request sample_host2 sample_sign sample_offer claims) (0::nat) = (Inr rd, 0) \<and>
     set (rd_permissions rd) = set (do_permissions sample_offer)"
proof -
  obtain c claims where c: "createDeviceRegistrationChallenge sample_host2 100 1000 [7] (createTinCommitment sample_host2 (do_tin sample_offer))
      ''devnet'' ''aud'' = Inr c" and cl: "authorization_claims sample_host2 sample_pk sample_offer c = Inr claims"
    using sample_registration by blast
  have pk: "sample_pk (do_owner sample_offer) = Some (replicate 32 0)" by (simp add: sample_pk_def)
  have "\<exists>rd. verifyTsnDeviceRegistration sample_host2 sample_pk 500 ''devnet'' ''aud''
      (\<lambda>_ _. Inr (sha256Hex (sha256 sample_host2) (replicate 32 0))) (\<lambda>_ s. (True, s))
      (client_request sample_host2 sample_sign sample_offer claims) (0::nat) = (Inr rd, 0) \<and>
      set (rd_permissions rd) = set (do_permissions sample_offer) \<and> rd_tinCommitment rd = createTinCommitment sample_host2 (do_tin sample_offer)"
    by (rule client_registration_accepted [OF sample_host2_laws(1,2) pk sample_host2_laws(3) c cl]) simp_all
  then show ?thesis by blast
qed

end
