(* ===== verification/Device_Identity.thy ===== *)
theory Device_Identity
  imports Device_Authorization Cranker_Auth
begin

text \<open>
  The device identity module of the SDK, \<open>sdks/tsn-sdk/src/device/index.ts\<close>: keys and proofs of a
  device, built and checked with \<open>tweetnacl\<close> over texts joined by \<open>|\<close>. Verdicts are the reason of
  a refusal, if any; what \<open>tweetnacl\<close> or the base-58 decoder throws is an error of the result type.
  Random bytes and \<open>nacl.sign.detached\<close> are arguments. Permission objects are kept as JSON objects,
  because their text, member order included, is part of the signed message.
\<close>

section \<open>Data\<close>

definition DEVICE_ID_LENGTH :: nat where
  "DEVICE_ID_LENGTH = 16"

definition PROTOCOL_VERSION :: string where
  "PROTOCOL_VERSION = ''1.0''"

definition DEVICE_DOMAIN :: string where
  "DEVICE_DOMAIN = ''tsn_device_identity_v1''"

datatype registry_status = RegistryActive | RegistrySuspended | RegistryRevoked

record device_identity =
  di_deviceId :: string
  di_deviceSigningPublicKey :: string
  di_deviceEncryptionPublicKey :: string
  di_tin :: string
  di_ownerPublicKey :: string
  di_status :: registry_status
  di_createdAt :: string
  di_lastUsedAt :: "string option"

record key_pair =
  kp_publicKey :: byte_list
  kp_secretKey :: byte_list

record authorization_proof =
  ap_deviceId :: string
  ap_deviceSigningPublicKey :: string
  ap_deviceEncryptionPublicKey :: string
  ap_ownerPublicKey :: string
  ap_tin :: string
  ap_permissions :: obj
  ap_nonce :: string
  ap_issuedAt :: int
  ap_expiresAt :: int
  ap_signature :: string

datatype signature_purpose =
  DeviceRegistration | SessionCreation | SessionRefresh | SessionRevocation | DeviceRevocation | ReceiptAccess

fun purpose_text :: "signature_purpose \<Rightarrow> string" where
  "purpose_text DeviceRegistration = ''device_registration''"
| "purpose_text SessionCreation = ''session_creation''"
| "purpose_text SessionRefresh = ''session_refresh''"
| "purpose_text SessionRevocation = ''session_revocation''"
| "purpose_text DeviceRevocation = ''device_revocation''"
| "purpose_text ReceiptAccess = ''receipt_access''"

record signature_proof =
  gp_deviceId :: string
  gp_deviceSigningPublicKey :: string
  gp_purpose :: signature_purpose
  gp_nonce :: string
  gp_timestamp :: int
  gp_signature :: string

section \<open>Messages\<close>

definition generateDeviceId :: "byte_list \<Rightarrow> string" where
  "generateDeviceId random = to_hex random"

definition generateNonce :: "byte_list \<Rightarrow> string" where
  "generateNonce random = btoa random"

definition authorization_parts :: "authorization_proof \<Rightarrow> string list" where
  "authorization_parts p =
     [DEVICE_DOMAIN, PROTOCOL_VERSION, ap_deviceId p, ap_deviceSigningPublicKey p, ap_deviceEncryptionPublicKey p,
      ap_ownerPublicKey p, ap_tin p, json_stringify (JObj (ap_permissions p)), ap_nonce p, int_str (ap_issuedAt p),
      int_str (ap_expiresAt p)]"

definition buildDeviceAuthorizationMessage :: "authorization_proof \<Rightarrow> byte_list" where
  "buildDeviceAuthorizationMessage p = utf8 (js_join ''|'' (authorization_parts p))"

definition signature_parts :: "signature_proof \<Rightarrow> string list" where
  "signature_parts p =
     [DEVICE_DOMAIN, ''signature'', PROTOCOL_VERSION, gp_deviceId p, gp_deviceSigningPublicKey p, purpose_text (gp_purpose p),
      gp_nonce p, int_str (gp_timestamp p)]"

definition buildDeviceSignatureMessage :: "signature_proof \<Rightarrow> byte_list" where
  "buildDeviceSignatureMessage p = utf8 (js_join ''|'' (signature_parts p))"

definition computeDeviceIdentityHash :: "host \<Rightarrow> string \<Rightarrow> string \<Rightarrow> string" where
  "computeDeviceIdentityHash h ownerPublicKey deviceId =
     to_hex (sha256 h (utf8 (DEVICE_DOMAIN @ ''|'' @ ownerPublicKey @ ''|'' @ deviceId)))"

section \<open>Checks\<close>

definition verdict :: "bool result \<Rightarrow> string \<Rightarrow> string option result" where
  "verdict r reason = and_then r (\<lambda>ok. Inr (if ok then None else Some reason))"

definition validateDeviceAuthorization :: "host \<Rightarrow> authorization_proof \<Rightarrow> string \<Rightarrow> string \<Rightarrow> int \<Rightarrow> string option result" where
  "validateDeviceAuthorization h p expectedOwnerPublicKey expectedTin currentTime =
     (if ap_expiresAt p < currentTime then Inr (Some ''Device authorization has expired'')
      else if currentTime < ap_issuedAt p then Inr (Some ''Device authorization issued time is in the future'')
      else if ap_ownerPublicKey p \<noteq> expectedOwnerPublicKey then Inr (Some ''Owner public key mismatch'')
      else if ap_tin p \<noteq> expectedTin then Inr (Some ''TIN mismatch'')
      else and_then (base58Decode (ap_ownerPublicKey p)) (\<lambda>key.
           verdict (nacl_verify h (buildDeviceAuthorizationMessage p) (base64_decode h (ap_signature p)) key)
             ''Invalid authorization signature''))"

definition MAX_TIMESTAMP_DRIFT_MS :: int where
  "MAX_TIMESTAMP_DRIFT_MS = 5 * 60 * 1000"

text \<open>
  The optional nonce validator may keep state, for instance remember the nonces it has seen. The
  parameters \<open>expectedDeviceSigningPublicKey\<close> and \<open>nonce\<close> of the source are not read there.
\<close>

definition run_validator :: "(string \<Rightarrow> 's \<Rightarrow> bool \<times> 's) option \<Rightarrow> string \<Rightarrow> 's \<Rightarrow> bool \<times> 's" where
  "run_validator validator nonce s = (case validator of None \<Rightarrow> (True, s) | Some f \<Rightarrow> f nonce s)"

definition validateDeviceSignature ::
  "host \<Rightarrow> signature_proof \<Rightarrow> string \<Rightarrow> signature_purpose \<Rightarrow> string \<Rightarrow> int \<Rightarrow> (string \<Rightarrow> 's \<Rightarrow> bool \<times> 's) option \<Rightarrow> 's
     \<Rightarrow> string option result \<times> 's" where
  "validateDeviceSignature h p expectedDeviceSigningPublicKey expectedPurpose nonce currentTime validator s =
     (if MAX_TIMESTAMP_DRIFT_MS < \<bar>currentTime - gp_timestamp p\<bar>
      then (Inr (Some ''Device signature timestamp is too old or in the future''), s)
      else if gp_purpose p \<noteq> expectedPurpose then (Inr (Some ''Signature purpose mismatch''), s)
      else (case run_validator validator (gp_nonce p) s of
              (False, s') \<Rightarrow> (Inr (Some ''Invalid nonce''), s')
            | (True, s') \<Rightarrow>
                (and_then (base58Decode (gp_deviceSigningPublicKey p)) (\<lambda>key.
                 verdict (nacl_verify h (buildDeviceSignatureMessage p) (base64_decode h (gp_signature p)) key)
                   ''Invalid device signature''), s')))"

section \<open>Making proofs\<close>

definition DEFAULT_DEVICE_PERMISSIONS :: obj where
  "DEFAULT_DEVICE_PERMISSIONS =
     [(''viewSettlementDetails'', JBool True), (''viewTransactionHistory'', JBool True), (''viewBalance'', JBool True),
      (''decryptReceipts'', JBool True)]"

definition DEVICE_AUTH_EXPIRATION_MS :: int where
  "DEVICE_AUTH_EXPIRATION_MS = 24 * 60 * 60 * 1000"

text \<open>\<open>nacl.sign.detached\<close> throws on a secret key of the wrong size.\<close>

definition nacl_sign :: "(byte_list \<Rightarrow> byte_list \<Rightarrow> byte_list) \<Rightarrow> byte_list \<Rightarrow> byte_list \<Rightarrow> byte_list result" where
  "nacl_sign detached message secretKey =
     and_then (require (length secretKey = 64) ''bad secret key size'') (\<lambda>_. Inr (detached message secretKey))"

text \<open>The request carries the fields of the proof that the caller chooses; permissions may be partial.\<close>

definition createDeviceAuthorization ::
  "(byte_list \<Rightarrow> byte_list \<Rightarrow> byte_list) \<Rightarrow> string \<Rightarrow> string \<Rightarrow> string \<Rightarrow> string \<Rightarrow> key_pair \<Rightarrow> string \<Rightarrow> obj \<Rightarrow> string \<Rightarrow> int
     \<Rightarrow> authorization_proof result" where
  "createDeviceAuthorization detached deviceId signingKey encryptionKey ownerPublicKey ownerKeys tin permissions nonce issuedAt =
     (let p = \<lparr>ap_deviceId = deviceId, ap_deviceSigningPublicKey = signingKey, ap_deviceEncryptionPublicKey = encryptionKey,
               ap_ownerPublicKey = ownerPublicKey, ap_tin = tin,
               ap_permissions = spread DEFAULT_DEVICE_PERMISSIONS permissions, ap_nonce = nonce, ap_issuedAt = issuedAt,
               ap_expiresAt = issuedAt + DEVICE_AUTH_EXPIRATION_MS, ap_signature = []\<rparr>
      in and_then (nacl_sign detached (buildDeviceAuthorizationMessage p) (kp_secretKey ownerKeys)) (\<lambda>signature.
         Inr (p\<lparr>ap_signature := btoa signature\<rparr>)))"

definition createDeviceSignature ::
  "(byte_list \<Rightarrow> byte_list \<Rightarrow> byte_list) \<Rightarrow> string \<Rightarrow> key_pair \<Rightarrow> signature_purpose \<Rightarrow> string \<Rightarrow> int \<Rightarrow> signature_proof result" where
  "createDeviceSignature detached deviceId deviceKeys purpose nonce timestamp =
     (let p = \<lparr>gp_deviceId = deviceId, gp_deviceSigningPublicKey = base58Encode (kp_publicKey deviceKeys), gp_purpose = purpose,
               gp_nonce = nonce, gp_timestamp = timestamp, gp_signature = []\<rparr>
      in and_then (nacl_sign detached (buildDeviceSignatureMessage p) (kp_secretKey deviceKeys)) (\<lambda>signature.
         Inr (p\<lparr>gp_signature := btoa signature\<rparr>)))"

lemma push_carry_eval:
  "push_carry 0 res = res" "push_carry (Suc 0) res = 1 # res"
  "push_carry (numeral k) res = push_carry (numeral k div 256) (numeral k mod 256 # res)"
  by (simp_all add: push_carry.simps)

lemma decode_pass_eval:
  "decode_pass c (b # bs) = (case decode_pass ((c + 58 * b) div 256) bs of (bs', c') \<Rightarrow> ((c + 58 * b) mod 256 # bs', c'))"
  by (simp add: Let_def)

fun decode_digits :: "nat list \<Rightarrow> nat list \<Rightarrow> nat list" where
  "decode_digits res [] = res"
| "decode_digits res (d # ds) = (case decode_pass d res of (res', carry) \<Rightarrow> decode_digits (push_carry carry res') ds)"

lemma decode_chars_digits: "b58_indices s = Some ds \<Longrightarrow> decode_chars res s = Inr (decode_digits res ds)"
  by (induction s arbitrary: ds res) (auto split: option.splits prod.splits)

definition program_digits :: "nat list" where
  "program_digits = [26, 25, 21, 2, 0, 42, 36, 36, 51, 50, 44, 27, 39, 3, 12, 4, 33, 13, 36, 40, 31, 2, 0, 45, 54, 10, 0, 37, 4, 2, 28, 17, 17, 39, 8, 30, 7, 21, 46, 24, 22, 7, 28]"

lemma program_digits: "b58_indices VERIFIED_TSN_PROGRAM_ID = Some program_digits"
  by (simp add: VERIFIED_TSN_PROGRAM_ID_def b58_index_def base58_alphabet_def program_digits_def)

lemma sdk_key_size: "\<exists>bs. base58Decode VERIFIED_TSN_PROGRAM_ID = Inr bs \<and> length bs = 42"
proof -
  have "length (decode_digits [] program_digits) = 42"
    by (simp add: program_digits_def push_carry_eval decode_pass_eval del: decode_pass.simps(2))
  then show ?thesis
    by (simp add: base58Decode_def decode_chars_digits [OF program_digits]) (simp add: VERIFIED_TSN_PROGRAM_ID_def)
qed

definition program_key :: byte_list where
  "program_key = [6, 197, 199, 88, 146, 109, 195, 97, 71, 109, 32, 141, 224, 168, 20, 83, 113, 55, 217, 218, 28, 150, 193, 188, 135, 104, 86, 124, 166, 7, 198, 74]"

lemma receiver_key: "decodeBase58 e VERIFIED_TSN_PROGRAM_ID = Inr program_key"
proof -
  have "foldl (\<lambda>a d. a * 58 + d) 0 program_digits = be_val 256 program_key"
    by (simp add: program_digits_def be_val_def program_key_def)
  moreover have "be_digits 256 (be_val 256 program_key) = program_key"
    by (rule be_digits_val) (simp_all add: program_key_def)
  moreover have "leading_ones VERIFIED_TSN_PROGRAM_ID = 0" "length program_key = 32"
    by (simp_all add: VERIFIED_TSN_PROGRAM_ID_def program_key_def)
  ultimately show ?thesis by (simp add: decodeBase58_def b58_number_indices program_digits)
qed

section \<open>What an accepted proof shows\<close>

definition plain_part :: "string \<Rightarrow> bool" where
  "plain_part s \<longleftrightarrow> CHR ''|'' \<notin> set s"

lemma verdict_None [simp]: "verdict r e = Inr None \<longleftrightarrow> r = Inr True"
  by (auto simp: verdict_def)

lemma nacl_verify_True: "nacl_verify h m sig key = Inr True \<longleftrightarrow> length sig = 64 \<and> length key = 32 \<and> ed25519_verify h key m sig"
  by (auto simp: nacl_verify_def)

lemma validateDeviceAuthorization_valid:
  "validateDeviceAuthorization h p owner tin t = Inr None \<longleftrightarrow>
     ap_issuedAt p \<le> t \<and> t \<le> ap_expiresAt p \<and> ap_ownerPublicKey p = owner \<and> ap_tin p = tin \<and>
     (\<exists>key. base58Decode owner = Inr key \<and>
        nacl_verify h (buildDeviceAuthorizationMessage p) (base64_decode h (ap_signature p)) key = Inr True)"
  by (auto simp: validateDeviceAuthorization_def)

lemma buildDeviceAuthorizationMessage_inject:
  assumes "buildDeviceAuthorizationMessage p = buildDeviceAuthorizationMessage q"
    and "list_all plain_part (authorization_parts p)" "list_all plain_part (authorization_parts q)"
  shows "p\<lparr>ap_signature := s\<rparr> = q\<lparr>ap_signature := s\<rparr>"
proof -
  have "js_join ''|'' (authorization_parts p) = js_join ''|'' (authorization_parts q)"
    using assms(1) by (simp add: buildDeviceAuthorizationMessage_def)
  then have "authorization_parts p = authorization_parts q"
    using assms(2,3) by (intro js_join_inject [where c = "CHR ''|''"]) (auto simp: plain_part_def list_all_iff authorization_parts_def)
  then show ?thesis by (simp add: authorization_parts_def)
qed

text \<open>A proof made with a key whose text reads back is valid for its 24 hours, for its owner and TIN.\<close>

lemma createDeviceAuthorization_valid:
  assumes "createDeviceAuthorization detached d sk ek owner kp tin ps nonce t0 = Inr p"
    and "base58Decode owner = Inr key" "length key = 32"
    and "\<And>m. length (detached m (kp_secretKey kp)) = 64 \<and> base64_decode h (btoa (detached m (kp_secretKey kp))) = detached m (kp_secretKey kp) \<and>
           ed25519_verify h key m (detached m (kp_secretKey kp))"
  shows "validateDeviceAuthorization h p owner tin t = Inr None \<longleftrightarrow> t0 \<le> t \<and> t \<le> t0 + DEVICE_AUTH_EXPIRATION_MS"
  using assms
  by (auto simp: createDeviceAuthorization_def validateDeviceAuthorization_valid nacl_sign_def nacl_verify_True Let_def
      buildDeviceAuthorizationMessage_def authorization_parts_def)

lemma validateDeviceSignature_valid:
  "validateDeviceSignature h p k purpose n t validator s = (Inr None, s') \<longleftrightarrow>
     \<bar>t - gp_timestamp p\<bar> \<le> MAX_TIMESTAMP_DRIFT_MS \<and> gp_purpose p = purpose \<and> run_validator validator (gp_nonce p) s = (True, s') \<and>
     (\<exists>key. base58Decode (gp_deviceSigningPublicKey p) = Inr key \<and>
        nacl_verify h (buildDeviceSignatureMessage p) (base64_decode h (gp_signature p)) key = Inr True)"
  by (auto simp: validateDeviceSignature_def split: prod.splits bool.splits)

text \<open>The key a caller expects is never compared with the key in the proof, nor is the expected nonce.\<close>

lemma expected_key_not_checked:
  "validateDeviceSignature h p k purpose n t validator s = validateDeviceSignature h p k' purpose n' t validator s"
  by (simp add: validateDeviceSignature_def)

text \<open>A nonce is spent before the signature is looked at: a forged proof uses it up as well.\<close>

lemma nonce_spent_before_signature:
  assumes "\<bar>t - gp_timestamp p\<bar> \<le> MAX_TIMESTAMP_DRIFT_MS" "gp_purpose p = purpose"
  shows "snd (validateDeviceSignature h p k purpose n t validator s) = snd (run_validator validator (gp_nonce p) s)"
  using assms by (auto simp: validateDeviceSignature_def split: prod.splits bool.splits)

text \<open>
  C40: The SDK's base-58 decoder does not read real keys. The text of the TSN program key, which the
  Receiver decodes to 32 bytes, is decoded by the SDK to 42 bytes, so a device authorization made
  for that owner key, however it is signed, is not accepted at any time: the check ends in an error
  or a refusal.
\<close>

theorem sdk_owner_key_unreadable:
  "decodeBase58 e VERIFIED_TSN_PROGRAM_ID = Inr program_key \<and> length program_key = 32 \<and>
   (\<exists>bs. base58Decode VERIFIED_TSN_PROGRAM_ID = Inr bs \<and> length bs = 42) \<and>
   validateDeviceAuthorization h p VERIFIED_TSN_PROGRAM_ID tin t \<noteq> Inr None"
proof -
  obtain bs where bs: "base58Decode VERIFIED_TSN_PROGRAM_ID = Inr bs" "length bs = 42" using sdk_key_size by blast
  then have "validateDeviceAuthorization h p VERIFIED_TSN_PROGRAM_ID tin t \<noteq> Inr None"
    unfolding validateDeviceAuthorization_valid nacl_verify_True by auto
  moreover have "length program_key = 32" by (simp add: program_key_def)
  ultimately show ?thesis using bs receiver_key by blast
qed

text \<open>The SDK's encoder differs from base 58: the digits of 1, 2, 3 are \<open>Ldp\<close>.\<close>

lemma sdk_encoder_wrong:
  "base58Encode [1, 2, 3] = ''576zv''" "map ((!) base58_alphabet) (be_digits 58 (be_val 256 [1, 2, 3])) = ''Ldp''"
  by (simp_all add: base58Encode_def push_digits.simps base58_alphabet_def be_val_def be_digits.simps Let_def)

end
