(* ===== verification/Private_Session.thy ===== *)
theory Private_Session
  imports Device_Identity
begin

text \<open>
  The private session manager of the SDK, \<open>sdks/tsn-sdk/src/sessions/index.ts\<close>: creation requests
  signed by a device, session records, their activation and their validation. Random bytes and
  readings of the clock are arguments, one for each call of \<open>Date.now()\<close>; a text that is no date
  has the time \<open>None\<close> (JavaScript's \<open>NaN\<close>), which no comparison finds earlier than now.
\<close>

section \<open>Data\<close>

definition SESSION_DOMAIN :: string where
  "SESSION_DOMAIN = ''tsn_private_session_v1''"

definition SESSION_TOKEN_LENGTH :: nat where
  "SESSION_TOKEN_LENGTH = 32"

definition DEFAULT_SESSION_TTL_MS :: int where
  "DEFAULT_SESSION_TTL_MS = 2 * 60 * 60 * 1000"

datatype session_status = SessionActive | SessionExpired | SessionRevoked

record private_session =
  ps_sessionId :: string
  ps_userId :: string
  ps_tin :: string
  ps_deviceId :: string
  ps_deviceSigningPublicKey :: string
  ps_permissions :: obj
  ps_createdAt :: string
  ps_expiresAt :: string
  ps_lastAccessedAt :: "string option"
  ps_status :: session_status

record active_session = private_session +
  as_sessionToken :: string
  as_remainingTtlMs :: "int option"

record create_request =
  cq_userId :: string
  cq_tin :: string
  cq_deviceId :: string
  cq_deviceSigningPublicKey :: string
  cq_nonce :: string
  cq_timestamp :: int
  cq_signature :: string
  cq_ownerPublicKey :: string
  cq_permissions :: "obj option"

definition generateSessionToken :: "byte_list \<Rightarrow> string" where
  "generateSessionToken random = bytesToBase64Url random"

definition generateSessionId :: "byte_list \<Rightarrow> string" where
  "generateSessionId random = to_hex random"

section \<open>The creation request\<close>

text \<open>The message signed by the device; \<open>expiresAt\<close> is the session's end.\<close>

definition creation_parts :: "create_request \<Rightarrow> int \<Rightarrow> string list" where
  "creation_parts r expiresAt =
     [SESSION_DOMAIN, ''create'', cq_userId r, cq_tin r, cq_deviceId r, cq_deviceSigningPublicKey r, cq_ownerPublicKey r,
      cq_nonce r, int_str (cq_timestamp r), int_str expiresAt]"

definition buildSessionCreationMessage :: "create_request \<Rightarrow> int \<Rightarrow> byte_list" where
  "buildSessionCreationMessage r expiresAt = utf8 (js_join ''|'' (creation_parts r expiresAt))"

definition computeSessionTokenHash :: "host \<Rightarrow> string \<Rightarrow> string" where
  "computeSessionTokenHash h token = to_hex (sha256 h (utf8 (SESSION_DOMAIN @ ''|'' @ token)))"

definition computeSessionIdHash :: "host \<Rightarrow> string \<Rightarrow> string" where
  "computeSessionIdHash h sessionId = to_hex (sha256 h (utf8 (SESSION_DOMAIN @ ''|session|'' @ sessionId)))"

definition validateSessionCreationRequest ::
  "host \<Rightarrow> create_request \<Rightarrow> string \<Rightarrow> string \<Rightarrow> string \<Rightarrow> int \<Rightarrow> (string \<Rightarrow> 's \<Rightarrow> bool \<times> 's) option \<Rightarrow> 's
     \<Rightarrow> string option result \<times> 's" where
  "validateSessionCreationRequest h r expectedOwnerPublicKey expectedTin expectedDeviceSigningPublicKey currentTime validator s =
     (if MAX_TIMESTAMP_DRIFT_MS < \<bar>currentTime - cq_timestamp r\<bar>
      then (Inr (Some ''Session request timestamp is too old or in the future''), s)
      else if cq_deviceSigningPublicKey r \<noteq> expectedDeviceSigningPublicKey then (Inr (Some ''Device signing public key mismatch''), s)
      else if cq_ownerPublicKey r \<noteq> expectedOwnerPublicKey then (Inr (Some ''Owner public key mismatch''), s)
      else if cq_tin r \<noteq> expectedTin then (Inr (Some ''TIN mismatch''), s)
      else (case run_validator validator (cq_nonce r) s of
              (False, s') \<Rightarrow> (Inr (Some ''Invalid or reused nonce''), s')
            | (True, s') \<Rightarrow>
                (and_then (base58Decode (cq_deviceSigningPublicKey r)) (\<lambda>key.
                 verdict (nacl_verify h (buildSessionCreationMessage r (currentTime + DEFAULT_SESSION_TTL_MS))
                            (base64_decode h (cq_signature r)) key)
                   ''Invalid device signature''), s')))"

section \<open>Session records\<close>

definition createSession ::
  "host \<Rightarrow> int \<Rightarrow> byte_list \<Rightarrow> string \<Rightarrow> string \<Rightarrow> string \<Rightarrow> string \<Rightarrow> obj \<Rightarrow> int option \<Rightarrow> private_session" where
  "createSession h now random userId tin deviceId deviceSigningPublicKey permissions ttlMs =
     \<lparr>ps_sessionId = generateSessionId random, ps_userId = userId, ps_tin = tin, ps_deviceId = deviceId,
      ps_deviceSigningPublicKey = deviceSigningPublicKey, ps_permissions = spread DEFAULT_DEVICE_PERMISSIONS permissions,
      ps_createdAt = to_iso h now,
      ps_expiresAt = to_iso h (now + (case ttlMs of None \<Rightarrow> DEFAULT_SESSION_TTL_MS | Some ttl \<Rightarrow> ttl)),
      ps_lastAccessedAt = None, ps_status = SessionActive\<rparr>"

definition getRemainingTtlMs :: "host \<Rightarrow> int \<Rightarrow> string \<Rightarrow> int option" where
  "getRemainingTtlMs h now expiresAt = map_option (\<lambda>t. max 0 (t - now)) (date_parse h expiresAt)"

definition activateSession :: "host \<Rightarrow> int \<Rightarrow> byte_list \<Rightarrow> private_session \<Rightarrow> active_session" where
  "activateSession h now random s =
     private_session.extend (s\<lparr>ps_status := SessionActive\<rparr>)
       \<lparr>as_sessionToken = generateSessionToken random, as_remainingTtlMs = getRemainingTtlMs h now (ps_expiresAt s)\<rparr>"

definition isSessionExpired :: "host \<Rightarrow> int \<Rightarrow> private_session \<Rightarrow> bool" where
  "isSessionExpired h now s \<longleftrightarrow> (case date_parse h (ps_expiresAt s) of None \<Rightarrow> False | Some t \<Rightarrow> t < now)"

text \<open>The clock is read for the expiry (\<open>now\<close>) and again for the remaining time (\<open>now'\<close>).\<close>

definition validateSession ::
  "host \<Rightarrow> int \<Rightarrow> int \<Rightarrow> private_session \<Rightarrow> string \<Rightarrow> string \<Rightarrow> string \<Rightarrow> (private_session \<times> int option) result" where
  "validateSession h now now' s expectedUserId expectedTin expectedDeviceId =
     and_then (require (\<not> isSessionExpired h now s) ''Session has expired'') (\<lambda>_.
     and_then (require (ps_status s \<noteq> SessionRevoked) ''Session has been revoked'') (\<lambda>_.
     and_then (require (ps_userId s = expectedUserId) ''User ID mismatch'') (\<lambda>_.
     and_then (require (ps_tin s = expectedTin) ''TIN mismatch'') (\<lambda>_.
     and_then (require (ps_deviceId s = expectedDeviceId) ''Device ID mismatch'') (\<lambda>_.
     Inr (s, getRemainingTtlMs h now' (ps_expiresAt s)))))))"

definition hasPermission :: "private_session \<Rightarrow> string \<Rightarrow> bool" where
  "hasPermission s permission \<longleftrightarrow> map_of (ps_permissions s) permission = Some (JBool True)"

definition SESSION_TTL :: "(string \<times> int) list" where
  "SESSION_TTL = [(''DEFAULT'', DEFAULT_SESSION_TTL_MS), (''EXTENDED'', 8 * 60 * 60 * 1000), (''SHORT'', 15 * 60 * 1000)]"

definition PERMISSION_SCOPES :: "(string \<times> string) list" where
  "PERMISSION_SCOPES =
     [(''VIEW_SETTLEMENT_DETAILS'', ''viewSettlementDetails''), (''VIEW_TRANSACTION_HISTORY'', ''viewTransactionHistory''),
      (''VIEW_BALANCE'', ''viewBalance''), (''DECRYPT_RECEIPTS'', ''decryptReceipts'')]"

section \<open>Results\<close>

text \<open>A new session is valid for its user, TIN and device until its lifetime is over, and not after.\<close>

lemma createSession_valid:
  assumes "dates_law h" and "s = createSession h t0 random user tin device key ps ttl"
    and "life = (case ttl of None \<Rightarrow> DEFAULT_SESSION_TTL_MS | Some x \<Rightarrow> x)"
  shows "validateSession h t t' s u n d = Inr (s, Some (max 0 (t0 + life - t'))) \<longleftrightarrow>
           u = user \<and> n = tin \<and> d = device \<and> t \<le> t0 + life"
    and "t0 + life < t \<Longrightarrow> validateSession h t t' s u n d = Inl ''Session has expired''"
  using assms by (auto simp: validateSession_def createSession_def isSessionExpired_def getRemainingTtlMs_def dates_law_def)

text \<open>Permissions not mentioned in a request are granted; a permission set to false is refused.\<close>

lemma createSession_permissions:
  assumes "distinct (map fst ps)"
  shows "hasPermission (createSession h t0 random user tin device key ps ttl) k \<longleftrightarrow>
    (case map_of ps k of Some v \<Rightarrow> v = JBool True | None \<Rightarrow> k \<in> snd ` set PERMISSION_SCOPES)"
proof -
  have "map_of (rev ps) = map_of ps"
    using assms by (simp add: map_of_inject_set rev_map [symmetric])
  then show ?thesis
    by (auto simp: hasPermission_def createSession_def map_of_spread DEFAULT_DEVICE_PERMISSIONS_def PERMISSION_SCOPES_def
        split: option.splits)
qed

text \<open>Activation marks every session active: a revoked one validates again afterwards.\<close>

lemma activation_undoes_revocation:
  assumes "ps_status s = SessionRevoked" "\<not> isSessionExpired h t s"
  shows "validateSession h t t' s (ps_userId s) (ps_tin s) (ps_deviceId s) = Inl ''Session has been revoked''"
    and "\<exists>r. validateSession h t t' (private_session.truncate (activateSession h t0 random s)) (ps_userId s) (ps_tin s) (ps_deviceId s) = Inr r"
  using assms
  by (auto simp: validateSession_def activateSession_def isSessionExpired_def private_session.defs active_session.defs split: option.splits)

text \<open>
  The expiry the device signed must equal the verifier's own clock reading plus the default
  lifetime: the messages of two clock readings differ, so a signature made for one says nothing
  at the other.
\<close>

lemma creation_request_bound_to_clock:
  assumes "validateSessionCreationRequest h r owner tin dev t validator s = (Inr None, s')"
  shows "\<exists>key. base58Decode dev = Inr key \<and>
    ed25519_verify h key (buildSessionCreationMessage r (t + DEFAULT_SESSION_TTL_MS)) (base64_decode h (cq_signature r)) \<and>
    cq_ownerPublicKey r = owner \<and> cq_tin r = tin \<and> \<bar>t - cq_timestamp r\<bar> \<le> MAX_TIMESTAMP_DRIFT_MS \<and>
    run_validator validator (cq_nonce r) s = (True, s') \<and>
    (t' \<noteq> t \<longrightarrow> buildSessionCreationMessage r (t' + DEFAULT_SESSION_TTL_MS) \<noteq> buildSessionCreationMessage r (t + DEFAULT_SESSION_TTL_MS))"
proof -
  have "buildSessionCreationMessage r e = buildSessionCreationMessage r e' \<longleftrightarrow> e = e'" for e e'
    by (auto simp: buildSessionCreationMessage_def creation_parts_def)
  then show ?thesis
    using assms by (auto simp: validateSessionCreationRequest_def nacl_verify_True split: if_splits prod.splits bool.splits)
qed

end
