(* ===== verification/Recurring_Mandate.thy ===== *)
theory Recurring_Mandate
  imports Node_Verification
begin

text \<open>
  Recurring payments of the SDK: \<open>sdks/tsn-sdk/src/recurring/feature-flags.ts\<close>, \<open>provider.ts\<close> and
  \<open>mandate.ts\<close>. The validators check the types of what they are given at run time, so their arguments
  are dynamic values: \<open>dyn\<close> has the values a JavaScript expression can have there, big integers and
  \<open>undefined\<close> included. The declared types of the source are the records \<open>recurring_provider\<close> and
  \<open>recurring_mandate\<close>.
\<close>

section \<open>Dynamic values\<close>

datatype dyn =
    DUndef
  | DNull
  | DBool bool
  | DNum int
  | DBig int
  | DStr string
  | DArr "dyn list"
  | DObj "(string \<times> dyn) list"

text \<open>Reading a member by a name that is no array index; anything but an object has none of these.\<close>

fun get :: "dyn \<Rightarrow> string \<Rightarrow> dyn" where
  "get (DObj ob) k = (case map_of ob k of Some v \<Rightarrow> v | None \<Rightarrow> DUndef)"
| "get _ k = DUndef"

fun is_object :: "dyn \<Rightarrow> bool" where
  "is_object (DObj ob) = True"
| "is_object (DArr vs) = True"
| "is_object _ = False"

fun dyn_truthy :: "dyn \<Rightarrow> bool" where
  "dyn_truthy DUndef = False"
| "dyn_truthy DNull = False"
| "dyn_truthy (DBool b) = b"
| "dyn_truthy (DNum n) = (n \<noteq> 0)"
| "dyn_truthy (DBig n) = (n \<noteq> 0)"
| "dyn_truthy (DStr s) = (s \<noteq> [])"
| "dyn_truthy (DArr vs) = True"
| "dyn_truthy (DObj ob) = True"

fun is_string :: "dyn \<Rightarrow> bool" where
  "is_string (DStr s) = True"
| "is_string _ = False"

text \<open>The recurring test \<open>!value || typeof value !== "string"\<close>, negated.\<close>

definition filled :: "dyn \<Rightarrow> bool" where
  "filled v \<longleftrightarrow> dyn_truthy v \<and> is_string v"

definition is_nullish :: "dyn \<Rightarrow> bool" where
  "is_nullish v \<longleftrightarrow> v = DUndef \<or> v = DNull"

lemma filled_iff: "filled v \<longleftrightarrow> (\<exists>s. v = DStr s \<and> s \<noteq> [])"
  by (cases v) (auto simp: filled_def)

section \<open>Feature flags\<close>

record recurring_flags =
  recurringMandatesEnabled :: bool
  verifiedProviderExecutionEnabled :: bool

definition recurringFeatureFlagsFromEnv :: "(string \<Rightarrow> string option) \<Rightarrow> recurring_flags" where
  "recurringFeatureFlagsFromEnv env =
     \<lparr>recurringMandatesEnabled = (env ''RECURRING_MANDATES_ENABLED'' = Some ''true''),
      verifiedProviderExecutionEnabled = (env ''VERIFIED_PROVIDER_EXECUTION_ENABLED'' = Some ''true'')\<rparr>"

definition DEFAULT_RECURRING_FEATURE_FLAGS :: recurring_flags where
  "DEFAULT_RECURRING_FEATURE_FLAGS = \<lparr>recurringMandatesEnabled = False, verifiedProviderExecutionEnabled = False\<rparr>"

definition assertRecurringMandatesEnabled :: "recurring_flags \<Rightarrow> unit result" where
  "assertRecurringMandatesEnabled flags = require (recurringMandatesEnabled flags)
     ''Recurring mandates are disabled. Set recurringMandatesEnabled to true to enable the feature.''"

definition assertVerifiedProviderExecutionEnabled :: "recurring_flags \<Rightarrow> unit result" where
  "assertVerifiedProviderExecutionEnabled flags = require (verifiedProviderExecutionEnabled flags)
     ''Verified provider execution is disabled. Set verifiedProviderExecutionEnabled to true to enable this execution path.''"

section \<open>Providers\<close>

definition TSN_TEST_PROVIDER_ID :: string where
  "TSN_TEST_PROVIDER_ID = ''TSN_TEST_PROVIDER''"

datatype provider_status = ProviderPending | ProviderActive | ProviderSuspended | ProviderRevoked

fun provider_status_text :: "provider_status \<Rightarrow> string" where
  "provider_status_text ProviderPending = ''PENDING''"
| "provider_status_text ProviderActive = ''ACTIVE''"
| "provider_status_text ProviderSuspended = ''SUSPENDED''"
| "provider_status_text ProviderRevoked = ''REVOKED''"

record recurring_provider =
  rp_providerId :: string
  rp_providerPda :: string
  rp_displayName :: string
  rp_status :: provider_status
  rp_recurringEnabled :: bool
  rp_supportedTokenMints :: "string list"
  rp_routeCommitment :: string
  rp_verifiedAt :: string
  rp_network :: string

definition ALLOWED_PROVIDER_STATUSES :: "string list" where
  "ALLOWED_PROVIDER_STATUSES = [''PENDING'', ''ACTIVE'', ''SUSPENDED'', ''REVOKED'']"

fun is_bool :: "dyn \<Rightarrow> bool" where
  "is_bool (DBool b) = True"
| "is_bool _ = False"

fun is_string_array :: "dyn \<Rightarrow> bool" where
  "is_string_array (DArr vs) = list_all is_string vs"
| "is_string_array _ = False"

definition validateRecurringProvider :: "dyn \<Rightarrow> unit result" where
  "validateRecurringProvider p =
     and_then (require (dyn_truthy p \<and> is_object p) ''Provider record must be a valid object.'') (\<lambda>_.
     and_then (require (filled (get p ''providerId'')) ''providerId is required and must be a string.'') (\<lambda>_.
     and_then (require (filled (get p ''providerPda'')) ''providerPda is required and must be a string.'') (\<lambda>_.
     and_then (require (filled (get p ''displayName'')) ''displayName is required and must be a string.'') (\<lambda>_.
     and_then (require (get p ''status'' \<in> set (map DStr ALLOWED_PROVIDER_STATUSES))
       (''status must be one of '' @ js_join '', '' ALLOWED_PROVIDER_STATUSES)) (\<lambda>_.
     and_then (require (is_bool (get p ''recurringEnabled'')) ''recurringEnabled is required and must be a boolean.'') (\<lambda>_.
     and_then (require (is_string_array (get p ''supportedTokenMints''))
       ''supportedTokenMints must be an array of token mint addresses.'') (\<lambda>_.
     and_then (require (filled (get p ''routeCommitment'')) ''routeCommitment is required and must be a string.'') (\<lambda>_.
     and_then (require (filled (get p ''verifiedAt'')) ''verifiedAt is required and must be an ISO timestamp string.'') (\<lambda>_.
     and_then (require (filled (get p ''network'')) ''network is required and must be a string.'') (\<lambda>_.
     require (\<not> (get p ''providerId'' = DStr TSN_TEST_PROVIDER_ID \<and> get p ''network'' = DStr ''mainnet-beta''))
       ''TSN_TEST_PROVIDER is only allowed on Devnet and must not be used on mainnet-beta.''))))))))))"

definition assertVerifiedRecurringProvider :: "dyn \<Rightarrow> unit result" where
  "assertVerifiedRecurringProvider p =
     and_then (validateRecurringProvider p) (\<lambda>_.
     and_then (require (get p ''status'' = DStr ''ACTIVE'') ''Provider must be ACTIVE to support recurring mandates.'') (\<lambda>_.
     require (dyn_truthy (get p ''recurringEnabled'')) ''Provider must have recurring permission enabled.''))"

definition providerSupportsTokenMint :: "dyn \<Rightarrow> dyn \<Rightarrow> bool" where
  "providerSupportsTokenMint p tokenMint \<longleftrightarrow>
     (case get p ''supportedTokenMints'' of DArr vs \<Rightarrow> tokenMint \<in> set vs | _ \<Rightarrow> False)"

section \<open>Mandates\<close>

datatype mandate_status = MandatePending | MandateActive | MandateSuspended | MandateRevoked | MandateExpired

fun mandate_status_text :: "mandate_status \<Rightarrow> string" where
  "mandate_status_text MandatePending = ''PENDING''"
| "mandate_status_text MandateActive = ''ACTIVE''"
| "mandate_status_text MandateSuspended = ''SUSPENDED''"
| "mandate_status_text MandateRevoked = ''REVOKED''"
| "mandate_status_text MandateExpired = ''EXPIRED''"

record recurring_mandate =
  rm_mandateId :: string
  rm_providerId :: string
  rm_subscriberCommitment :: string
  rm_sourceCommitment :: string
  rm_assetCommitment :: string
  rm_policyCommitment :: "string option"
  rm_tokenMintAddress :: string
  rm_maxChargeAmountBaseUnits :: int
  rm_minIntervalSeconds :: int
  rm_maxExecutions :: "int option"
  rm_maxCumulativeAmountBaseUnits :: "int option"
  rm_startTime :: string
  rm_expiryTime :: string
  rm_status :: mandate_status
  rm_executionNonce :: string
  rm_createdAt :: string
  rm_updatedAt :: string

definition ALLOWED_MANDATE_STATUSES :: "string list" where
  "ALLOWED_MANDATE_STATUSES = [''PENDING'', ''ACTIVE'', ''SUSPENDED'', ''REVOKED'', ''EXPIRED'']"

definition assertIsoTimestamp :: "host \<Rightarrow> dyn \<Rightarrow> string \<Rightarrow> int result" where
  "assertIsoTimestamp h v fieldName =
     (case v of
        DStr s \<Rightarrow> (case date_parse h s of
                     None \<Rightarrow> Inl (fieldName @ '' must be a valid ISO timestamp string.'')
                   | Some t \<Rightarrow> Inr t)
      | _ \<Rightarrow> Inl (fieldName @ '' must be an ISO timestamp string.''))"

fun positive_big :: "dyn \<Rightarrow> bool" where
  "positive_big (DBig n) = (0 < n)"
| "positive_big _ = False"

fun positive_integer :: "dyn \<Rightarrow> bool" where
  "positive_integer (DNum n) = (0 < n)"
| "positive_integer _ = False"

fun big_le :: "dyn \<Rightarrow> dyn \<Rightarrow> bool" where
  "big_le (DBig a) (DBig b) = (a \<le> b)"
| "big_le _ _ = True"

text \<open>The checks of the amounts and limits, then those of the times and the rest.\<close>

definition check_limits :: "dyn \<Rightarrow> unit result" where
  "check_limits m =
     and_then (require (positive_big (get m ''maxChargeAmountBaseUnits''))
       ''maxChargeAmountBaseUnits is required and must be a positive bigint.'') (\<lambda>_.
     and_then (require (positive_integer (get m ''minIntervalSeconds''))
       ''minIntervalSeconds is required and must be a positive integer.'') (\<lambda>_.
     and_then (require (is_nullish (get m ''maxExecutions'') \<or> positive_integer (get m ''maxExecutions''))
       ''maxExecutions must be a positive integer when provided.'') (\<lambda>_.
     and_then (require (is_nullish (get m ''maxCumulativeAmountBaseUnits'') \<or> positive_big (get m ''maxCumulativeAmountBaseUnits''))
       ''maxCumulativeAmountBaseUnits must be a positive bigint when provided.'') (\<lambda>_.
     require (is_nullish (get m ''maxCumulativeAmountBaseUnits'') \<or>
         big_le (get m ''maxChargeAmountBaseUnits'') (get m ''maxCumulativeAmountBaseUnits''))
       ''maxChargeAmountBaseUnits must not exceed maxCumulativeAmountBaseUnits.''))))"

definition check_times :: "host \<Rightarrow> dyn \<Rightarrow> unit result" where
  "check_times h m =
     and_then (assertIsoTimestamp h (get m ''startTime'') ''startTime'') (\<lambda>start.
     and_then (assertIsoTimestamp h (get m ''expiryTime'') ''expiryTime'') (\<lambda>expiry.
     and_then (require (start < expiry) ''startTime must be before expiryTime.'') (\<lambda>_.
     and_then (require (get m ''status'' \<in> set (map DStr ALLOWED_MANDATE_STATUSES))
       (''status must be one of '' @ js_join '', '' ALLOWED_MANDATE_STATUSES)) (\<lambda>_.
     and_then (require (filled (get m ''executionNonce'')) ''executionNonce is required and must be a string.'') (\<lambda>_.
     and_then (require (filled (get m ''createdAt'')) ''createdAt is required and must be an ISO timestamp string.'') (\<lambda>_.
     and_then (require (filled (get m ''updatedAt'')) ''updatedAt is required and must be an ISO timestamp string.'') (\<lambda>_.
     and_then (assertIsoTimestamp h (get m ''createdAt'') ''createdAt'') (\<lambda>_.
     and_then (assertIsoTimestamp h (get m ''updatedAt'') ''updatedAt'') (\<lambda>_. Inr ())))))))))"

definition validateRecurringMandate :: "host \<Rightarrow> dyn \<Rightarrow> dyn \<Rightarrow> recurring_flags \<Rightarrow> unit result" where
  "validateRecurringMandate h m p flags =
     and_then (assertRecurringMandatesEnabled flags) (\<lambda>_.
     and_then (assertVerifiedProviderExecutionEnabled flags) (\<lambda>_.
     and_then (assertVerifiedRecurringProvider p) (\<lambda>_.
     and_then (require (dyn_truthy m \<and> is_object m) ''Mandate record must be a valid object.'') (\<lambda>_.
     and_then (require (filled (get m ''mandateId'')) ''mandateId is required and must be a string.'') (\<lambda>_.
     and_then (require (get m ''providerId'' = get p ''providerId'') ''mandate providerId must match the verified provider.'') (\<lambda>_.
     and_then (require (filled (get m ''subscriberCommitment'')) ''subscriberCommitment is required and must be a string.'') (\<lambda>_.
     and_then (require (filled (get m ''sourceCommitment'')) ''sourceCommitment is required and must be a string.'') (\<lambda>_.
     and_then (require (filled (get m ''assetCommitment'')) ''assetCommitment is required and must be a string.'') (\<lambda>_.
     and_then (require (is_nullish (get m ''policyCommitment'') \<or> is_string (get m ''policyCommitment''))
       ''policyCommitment must be a string when provided.'') (\<lambda>_.
     and_then (require (filled (get m ''tokenMintAddress'')) ''tokenMintAddress is required and must be a string.'') (\<lambda>_.
     and_then (require (providerSupportsTokenMint p (get m ''tokenMintAddress''))
       ''Provider does not support the requested token mint.'') (\<lambda>_.
     and_then (check_limits m) (\<lambda>_.
     check_times h m)))))))))))))"

section \<open>The canonical message\<close>

definition mandate_fields :: "recurring_mandate \<Rightarrow> (string \<times> string) list" where
  "mandate_fields m =
     [(''domain'', ''tsn-recurring-mandate-v1''), (''mandateId'', rm_mandateId m), (''providerId'', rm_providerId m),
      (''subscriberCommitment'', rm_subscriberCommitment m), (''sourceCommitment'', rm_sourceCommitment m),
      (''assetCommitment'', rm_assetCommitment m),
      (''policyCommitment'', case rm_policyCommitment m of None \<Rightarrow> [] | Some s \<Rightarrow> s),
      (''tokenMintAddress'', rm_tokenMintAddress m), (''maxChargeAmountBaseUnits'', int_str (rm_maxChargeAmountBaseUnits m)),
      (''minIntervalSeconds'', int_str (rm_minIntervalSeconds m)),
      (''maxExecutions'', case rm_maxExecutions m of None \<Rightarrow> [] | Some n \<Rightarrow> int_str n),
      (''maxCumulativeAmountBaseUnits'', case rm_maxCumulativeAmountBaseUnits m of None \<Rightarrow> [] | Some n \<Rightarrow> int_str n),
      (''startTime'', rm_startTime m), (''expiryTime'', rm_expiryTime m), (''status'', mandate_status_text (rm_status m)),
      (''executionNonce'', rm_executionNonce m), (''createdAt'', rm_createdAt m), (''updatedAt'', rm_updatedAt m)]"

definition buildRecurringMandateCanonicalMessage :: "recurring_mandate \<Rightarrow> string" where
  "buildRecurringMandateCanonicalMessage m = js_join [newline] (map (\<lambda>(key, value). key @ '':'' @ value) (mandate_fields m))"

definition computeRecurringMandateCommitment :: "host \<Rightarrow> recurring_mandate \<Rightarrow> string" where
  "computeRecurringMandateCommitment h m = sha256_hex h (buildRecurringMandateCanonicalMessage m)"

section \<open>The validators accept exactly the declared types\<close>

definition provider_dyn :: "recurring_provider \<Rightarrow> (string \<times> dyn) list" where
  "provider_dyn p =
     [(''providerId'', DStr (rp_providerId p)), (''providerPda'', DStr (rp_providerPda p)), (''displayName'', DStr (rp_displayName p)),
      (''status'', DStr (provider_status_text (rp_status p))), (''recurringEnabled'', DBool (rp_recurringEnabled p)),
      (''supportedTokenMints'', DArr (map DStr (rp_supportedTokenMints p))), (''routeCommitment'', DStr (rp_routeCommitment p)),
      (''verifiedAt'', DStr (rp_verifiedAt p)), (''network'', DStr (rp_network p))]"

fun optional :: "('a \<Rightarrow> dyn) \<Rightarrow> 'a option \<Rightarrow> dyn" where
  "optional f None = DNull"
| "optional f (Some x) = f x"

definition mandate_dyn :: "recurring_mandate \<Rightarrow> (string \<times> dyn) list" where
  "mandate_dyn m =
     [(''mandateId'', DStr (rm_mandateId m)), (''providerId'', DStr (rm_providerId m)),
      (''subscriberCommitment'', DStr (rm_subscriberCommitment m)), (''sourceCommitment'', DStr (rm_sourceCommitment m)),
      (''assetCommitment'', DStr (rm_assetCommitment m)), (''policyCommitment'', optional DStr (rm_policyCommitment m)),
      (''tokenMintAddress'', DStr (rm_tokenMintAddress m)), (''maxChargeAmountBaseUnits'', DBig (rm_maxChargeAmountBaseUnits m)),
      (''minIntervalSeconds'', DNum (rm_minIntervalSeconds m)), (''maxExecutions'', optional DNum (rm_maxExecutions m)),
      (''maxCumulativeAmountBaseUnits'', optional DBig (rm_maxCumulativeAmountBaseUnits m)), (''startTime'', DStr (rm_startTime m)),
      (''expiryTime'', DStr (rm_expiryTime m)), (''status'', DStr (mandate_status_text (rm_status m))),
      (''executionNonce'', DStr (rm_executionNonce m)), (''createdAt'', DStr (rm_createdAt m)), (''updatedAt'', DStr (rm_updatedAt m))]"

text \<open>A value has the members of a record, with \<open>undefined\<close> and \<open>null\<close> not told apart.\<close>

definition same_member :: "dyn \<Rightarrow> dyn \<Rightarrow> bool" where
  "same_member v w \<longleftrightarrow> v = w \<or> is_nullish v \<and> is_nullish w"

definition has_members :: "dyn \<Rightarrow> (string \<times> dyn) list \<Rightarrow> bool" where
  "has_members v ms \<longleftrightarrow> list_all (\<lambda>(k, w). same_member (get v k) w) ms"

definition provider_ok :: "recurring_provider \<Rightarrow> bool" where
  "provider_ok p \<longleftrightarrow> rp_providerId p \<noteq> [] \<and> rp_providerPda p \<noteq> [] \<and> rp_displayName p \<noteq> [] \<and> rp_routeCommitment p \<noteq> [] \<and>
     rp_verifiedAt p \<noteq> [] \<and> rp_network p \<noteq> [] \<and> rp_status p = ProviderActive \<and> rp_recurringEnabled p \<and>
     \<not> (rp_providerId p = TSN_TEST_PROVIDER_ID \<and> rp_network p = ''mainnet-beta'')"

definition limits_ok :: "recurring_mandate \<Rightarrow> bool" where
  "limits_ok m \<longleftrightarrow> 0 < rm_maxChargeAmountBaseUnits m \<and> 0 < rm_minIntervalSeconds m \<and>
     pred_option (\<lambda>n. 0 < n) (rm_maxExecutions m) \<and>
     pred_option (\<lambda>n. rm_maxChargeAmountBaseUnits m \<le> n) (rm_maxCumulativeAmountBaseUnits m)"

definition times_ok :: "host \<Rightarrow> recurring_mandate \<Rightarrow> bool" where
  "times_ok h m \<longleftrightarrow>
     (case (date_parse h (rm_startTime m), date_parse h (rm_expiryTime m)) of (Some a, Some b) \<Rightarrow> a < b | _ \<Rightarrow> False) \<and>
     rm_executionNonce m \<noteq> [] \<and> rm_createdAt m \<noteq> [] \<and> rm_updatedAt m \<noteq> [] \<and>
     date_parse h (rm_createdAt m) \<noteq> None \<and> date_parse h (rm_updatedAt m) \<noteq> None"

definition mandate_ok :: "recurring_provider \<Rightarrow> recurring_mandate \<Rightarrow> bool" where
  "mandate_ok p m \<longleftrightarrow> rm_mandateId m \<noteq> [] \<and> rm_providerId m = rp_providerId p \<and> rm_subscriberCommitment m \<noteq> [] \<and>
     rm_sourceCommitment m \<noteq> [] \<and> rm_assetCommitment m \<noteq> [] \<and> rm_tokenMintAddress m \<noteq> [] \<and>
     rm_tokenMintAddress m \<in> set (rp_supportedTokenMints p)"

lemma same_member_simps [simp]:
  "same_member v (DStr s) \<longleftrightarrow> v = DStr s" "same_member v (DBool b) \<longleftrightarrow> v = DBool b" "same_member v (DArr vs) \<longleftrightarrow> v = DArr vs"
  "same_member v (DNum n) \<longleftrightarrow> v = DNum n" "same_member v (DBig n) \<longleftrightarrow> v = DBig n" "same_member v DNull \<longleftrightarrow> is_nullish v"
  by (auto simp: same_member_def is_nullish_def)

lemma is_object_get: "get v k \<noteq> DUndef \<Longrightarrow> dyn_truthy v \<and> is_object v"
  by (cases v) auto

lemma string_array_iff: "is_string_array v \<longleftrightarrow> (\<exists>ss. v = DArr (map DStr ss))"
proof (cases v)
  case (DArr vs)
  have "list_all is_string vs \<longleftrightarrow> (\<exists>ss. vs = map DStr ss)"
  proof (induction vs)
    case (Cons v vs)
    then show ?case by (cases v) (auto simp: Cons_eq_map_conv)
  qed simp
  with DArr show ?thesis by simp
qed auto

lemma is_bool_iff: "is_bool v \<longleftrightarrow> (\<exists>b. v = DBool b)"
  by (cases v) auto

lemma mandate_statuses: "set ALLOWED_MANDATE_STATUSES = range mandate_status_text"
proof -
  have u: "(UNIV :: mandate_status set) = {MandatePending, MandateActive, MandateSuspended, MandateRevoked, MandateExpired}"
    using mandate_status.exhaust by blast
  show ?thesis unfolding u ALLOWED_MANDATE_STATUSES_def by simp
qed

lemma provider_accepted:
  "assertVerifiedRecurringProvider v = Inr () \<longleftrightarrow> (\<exists>p. has_members v (provider_dyn p) \<and> provider_ok p)"
  (is "?l \<longleftrightarrow> ?r")
proof
  assume ?l
  then obtain a b c d e f g i ss where "get v ''providerId'' = DStr a" "get v ''providerPda'' = DStr b" "get v ''displayName'' = DStr c"
      "get v ''status'' = DStr ''ACTIVE''" "get v ''recurringEnabled'' = DBool True" "get v ''supportedTokenMints'' = DArr (map DStr ss)"
      "get v ''routeCommitment'' = DStr e" "get v ''verifiedAt'' = DStr f" "get v ''network'' = DStr g"
      "a \<noteq> []" "b \<noteq> []" "c \<noteq> []" "e \<noteq> []" "f \<noteq> []" "g \<noteq> []" "\<not> (a = TSN_TEST_PROVIDER_ID \<and> g = ''mainnet-beta'')"
    by (auto simp: assertVerifiedRecurringProvider_def validateRecurringProvider_def filled_iff string_array_iff is_bool_iff)
  then show ?r
    by (intro exI [of _ "\<lparr>rp_providerId = a, rp_providerPda = b, rp_displayName = c, rp_status = ProviderActive, rp_recurringEnabled = True,
          rp_supportedTokenMints = ss, rp_routeCommitment = e, rp_verifiedAt = f, rp_network = g\<rparr>"])
      (simp add: has_members_def provider_dyn_def provider_ok_def)
next
  assume ?r
  then obtain p where p: "has_members v (provider_dyn p)" "provider_ok p" by blast
  then have "dyn_truthy v \<and> is_object v" by (intro is_object_get [of v "''network''"]) (auto simp: has_members_def provider_dyn_def)
  with p show ?l
    by (simp add: assertVerifiedRecurringProvider_def validateRecurringProvider_def has_members_def provider_dyn_def provider_ok_def
        filled_iff list_all_iff ALLOWED_PROVIDER_STATUSES_def)
qed


lemma nullish_or: "is_nullish v \<or> (\<exists>x. v = f x \<and> P x) \<longleftrightarrow> (\<exists>x. same_member v (optional f x) \<and> pred_option P x)"
  if "\<And>x. \<not> is_nullish (f x)"
proof -
  have "same_member v (f x) \<longleftrightarrow> v = f x" for x using that by (auto simp: same_member_def)
  then show ?thesis by (auto simp: split_option_ex)
qed

lemma positive_iffs:
  "positive_big v \<longleftrightarrow> (\<exists>n. v = DBig n \<and> 0 < n)" "positive_integer v \<longleftrightarrow> (\<exists>n. v = DNum n \<and> 0 < n)" "is_string v \<longleftrightarrow> (\<exists>s. v = DStr s)"
  by (cases v; auto)+

lemma limits_accepted:
  "check_limits v = Inr () \<longleftrightarrow>
     (\<exists>charge interval execs cumulative. get v ''maxChargeAmountBaseUnits'' = DBig charge \<and> get v ''minIntervalSeconds'' = DNum interval \<and>
        same_member (get v ''maxExecutions'') (optional DNum execs) \<and>
        same_member (get v ''maxCumulativeAmountBaseUnits'') (optional DBig cumulative) \<and>
        0 < charge \<and> 0 < interval \<and> pred_option (\<lambda>n. 0 < n) execs \<and> pred_option (\<lambda>n. charge \<le> n) cumulative)"
proof -
  have cumulative: "(is_nullish w \<or> positive_big w) \<and> (is_nullish w \<or> big_le (DBig charge) w) \<longleftrightarrow>
      (\<exists>cumulative. same_member w (optional DBig cumulative) \<and> pred_option (\<lambda>n. charge \<le> n) cumulative)" if "0 < charge" for w charge
    using nullish_or [of DBig w "\<lambda>n. charge \<le> n"] that by (cases w) (auto simp: is_nullish_def)
  have execs: "is_nullish w \<or> positive_integer w \<longleftrightarrow> (\<exists>execs. same_member w (optional DNum execs) \<and> pred_option (\<lambda>n. 0 < n) execs)" for w
    using nullish_or [of DNum w "\<lambda>n. 0 < n"] by (simp add: positive_iffs is_nullish_def)
  have "check_limits v = Inr () \<longleftrightarrow> (\<exists>charge interval. get v ''maxChargeAmountBaseUnits'' = DBig charge \<and> 0 < charge \<and>
      get v ''minIntervalSeconds'' = DNum interval \<and> 0 < interval \<and>
      (is_nullish (get v ''maxExecutions'') \<or> positive_integer (get v ''maxExecutions'')) \<and>
      (is_nullish (get v ''maxCumulativeAmountBaseUnits'') \<or> positive_big (get v ''maxCumulativeAmountBaseUnits'')) \<and>
      (is_nullish (get v ''maxCumulativeAmountBaseUnits'') \<or> big_le (DBig charge) (get v ''maxCumulativeAmountBaseUnits'')))"
    by (auto simp: check_limits_def positive_iffs(1) [of "get v ''maxChargeAmountBaseUnits''"]
        positive_iffs(2) [of "get v ''minIntervalSeconds''"])
  then show ?thesis unfolding execs using cumulative by blast
qed

lemma iso_accepted: "assertIsoTimestamp h v f = Inr t \<longleftrightarrow> (\<exists>s. v = DStr s \<and> date_parse h s = Some t)"
  by (auto simp: assertIsoTimestamp_def split: dyn.splits option.splits)

lemma times_accepted:
  "check_times h v = Inr () \<longleftrightarrow>
     (\<exists>start expiry status nonce created updated a b. get v ''startTime'' = DStr start \<and> get v ''expiryTime'' = DStr expiry \<and>
        get v ''status'' = DStr (mandate_status_text status) \<and> get v ''executionNonce'' = DStr nonce \<and>
        get v ''createdAt'' = DStr created \<and> get v ''updatedAt'' = DStr updated \<and>
        date_parse h start = Some a \<and> date_parse h expiry = Some b \<and> a < b \<and> nonce \<noteq> [] \<and> created \<noteq> [] \<and> updated \<noteq> [] \<and>
        date_parse h created \<noteq> None \<and> date_parse h updated \<noteq> None)"
  by (auto simp: check_times_def iso_accepted filled_iff mandate_statuses)

lemma supported_iff:
  "has_members pv (provider_dyn p) \<Longrightarrow> providerSupportsTokenMint pv (DStr s) \<longleftrightarrow> s \<in> set (rp_supportedTokenMints p)"
  by (auto simp: has_members_def provider_dyn_def providerSupportsTokenMint_def)

lemma policy_accepted: "is_nullish w \<or> is_string w \<longleftrightarrow> (\<exists>x. same_member w (optional DStr x))"
  using nullish_or [of DStr w "\<lambda>_. True"] by (simp add: positive_iffs is_nullish_def option.pred_True)

lemma mandate_typed:
  assumes "has_members pv (provider_dyn p)" "provider_ok p" "validateRecurringMandate h v pv flags = Inr ()"
  shows "\<exists>m. has_members v (mandate_dyn m) \<and> mandate_ok p m \<and> limits_ok m \<and> times_ok h m"
proof -
  have prov: "get pv ''providerId'' = DStr (rp_providerId p)" using assms(1) by (simp add: has_members_def provider_dyn_def)
  from assms(3) have l: "filled (get v ''mandateId'')" "get v ''providerId'' = DStr (rp_providerId p)" "filled (get v ''subscriberCommitment'')"
      "filled (get v ''sourceCommitment'')" "filled (get v ''assetCommitment'')"
      "is_nullish (get v ''policyCommitment'') \<or> is_string (get v ''policyCommitment'')" "filled (get v ''tokenMintAddress'')"
      "providerSupportsTokenMint pv (get v ''tokenMintAddress'')" "check_limits v = Inr ()" "check_times h v = Inr ()"
    by (auto simp: validateRecurringMandate_def prov)
  obtain mid sub src ass mint where texts: "get v ''mandateId'' = DStr mid" "get v ''subscriberCommitment'' = DStr sub"
      "get v ''sourceCommitment'' = DStr src" "get v ''assetCommitment'' = DStr ass" "get v ''tokenMintAddress'' = DStr mint"
      "mid \<noteq> []" "sub \<noteq> []" "src \<noteq> []" "ass \<noteq> []" "mint \<noteq> []"
    using l(1,3-5,7) unfolding filled_iff by blast
  obtain policy where policy: "same_member (get v ''policyCommitment'') (optional DStr policy)" using l(6) policy_accepted by blast
  obtain charge interval execs cum where limits: "get v ''maxChargeAmountBaseUnits'' = DBig charge" "get v ''minIntervalSeconds'' = DNum interval"
      "same_member (get v ''maxExecutions'') (optional DNum execs)"
      "same_member (get v ''maxCumulativeAmountBaseUnits'') (optional DBig cum)"
      "0 < charge" "0 < interval" "pred_option (\<lambda>n. 0 < n) execs" "pred_option (\<lambda>n. charge \<le> n) cum"
    using l(9) unfolding limits_accepted by blast
  obtain start expiry status nonce created updated a b where times: "get v ''startTime'' = DStr start" "get v ''expiryTime'' = DStr expiry"
      "get v ''status'' = DStr (mandate_status_text status)" "get v ''executionNonce'' = DStr nonce"
      "get v ''createdAt'' = DStr created" "get v ''updatedAt'' = DStr updated" "date_parse h start = Some a" "date_parse h expiry = Some b"
      "a < b" "nonce \<noteq> []" "created \<noteq> []" "updated \<noteq> []" "date_parse h created \<noteq> None" "date_parse h updated \<noteq> None"
    using l(10) unfolding times_accepted by blast
  let ?m = "\<lparr>rm_mandateId = mid, rm_providerId = rp_providerId p, rm_subscriberCommitment = sub, rm_sourceCommitment = src,
    rm_assetCommitment = ass, rm_policyCommitment = policy, rm_tokenMintAddress = mint, rm_maxChargeAmountBaseUnits = charge,
    rm_minIntervalSeconds = interval, rm_maxExecutions = execs, rm_maxCumulativeAmountBaseUnits = cum, rm_startTime = start,
    rm_expiryTime = expiry, rm_status = status, rm_executionNonce = nonce, rm_createdAt = created, rm_updatedAt = updated\<rparr>"
  have "mint \<in> set (rp_supportedTokenMints p)" using l(8) supported_iff [OF assms(1)] texts(5) by simp
  then have "has_members v (mandate_dyn ?m) \<and> mandate_ok p ?m \<and> limits_ok ?m \<and> times_ok h ?m"
    using texts policy limits times l(2) by (simp add: has_members_def mandate_dyn_def mandate_ok_def limits_ok_def times_ok_def)
  then show ?thesis by blast
qed

lemma typed_mandate_accepted:
  assumes "has_members pv (provider_dyn p)" "provider_ok p" "recurringMandatesEnabled flags" "verifiedProviderExecutionEnabled flags"
    and "has_members v (mandate_dyn m)" "mandate_ok p m" "limits_ok m" "times_ok h m"
  shows "validateRecurringMandate h v pv flags = Inr ()"
proof -
  have prov: "assertVerifiedRecurringProvider pv = Inr ()" "get pv ''providerId'' = DStr (rp_providerId p)"
    using assms(1,2) by (auto simp: provider_accepted has_members_def provider_dyn_def)
  note members = assms(5) [unfolded has_members_def mandate_dyn_def, simplified]
  have "dyn_truthy v \<and> is_object v" using members by (intro is_object_get [of v "''mandateId''"]) auto
  moreover have "is_nullish (get v ''policyCommitment'') \<or> is_string (get v ''policyCommitment'')"
    using members policy_accepted by blast
  moreover have "check_limits v = Inr ()" using members assms(7) unfolding limits_accepted limits_ok_def by blast
  moreover have "check_times h v = Inr ()"
    using members assms(8) unfolding times_accepted times_ok_def by (auto split: option.splits)
  ultimately show ?thesis
    using members assms(6) assms(2-4) supported_iff [OF assms(1), of "rm_tokenMintAddress m"]
    by (simp add: validateRecurringMandate_def prov assertRecurringMandatesEnabled_def assertVerifiedProviderExecutionEnabled_def
        filled_iff mandate_ok_def)
qed


section \<open>What a commitment fixes\<close>

definition one_line :: "recurring_mandate \<Rightarrow> bool" where
  "one_line m \<longleftrightarrow> list_all (\<lambda>(k, v). newline \<notin> set v) (mandate_fields m)"

lemma message_fields:
  assumes "buildRecurringMandateCanonicalMessage m = buildRecurringMandateCanonicalMessage m'" "one_line m" "one_line m'"
  shows "mandate_fields m = mandate_fields m'"
proof -
  let ?line = "\<lambda>(key, value). key @ '':'' @ value"
  have keys: "newline \<notin> set k" if "(k, v) \<in> set (mandate_fields x)" for k v x
    using that by (auto simp: mandate_fields_def newline_def)
  have lines: "newline \<notin> set l" if "l \<in> set (map ?line (mandate_fields x))" "one_line x" for l x
    using that keys by (auto simp: one_line_def list_all_iff newline_def)
  have "map ?line (mandate_fields m) = map ?line (mandate_fields m')"
    using assms lines by (intro js_join_inject [where c = newline]) (auto simp: buildRecurringMandateCanonicalMessage_def mandate_fields_def)
  then show ?thesis by (simp add: mandate_fields_def)
qed

lemma mandate_fields_inject:
  "mandate_fields m = mandate_fields m' \<longleftrightarrow>
     m\<lparr>rm_policyCommitment := Some (case rm_policyCommitment m of None \<Rightarrow> [] | Some s \<Rightarrow> s)\<rparr> =
     m'\<lparr>rm_policyCommitment := Some (case rm_policyCommitment m' of None \<Rightarrow> [] | Some s \<Rightarrow> s)\<rparr>"
proof -
  have "mandate_status_text a = mandate_status_text b \<longleftrightarrow> a = b" for a b by (cases a; cases b) auto
  moreover have "(case x of None \<Rightarrow> [] | Some n \<Rightarrow> int_str n) = (case y of None \<Rightarrow> [] | Some n \<Rightarrow> int_str n) \<longleftrightarrow> x = y" for x y
    by (cases x; cases y) (auto dest: sym)
  ultimately show ?thesis by (cases m; cases m') (auto simp: mandate_fields_def)
qed

lemma ambiguous_message:
  "buildRecurringMandateCanonicalMessage (m\<lparr>rm_subscriberCommitment := x @ newline # ''sourceCommitment:'' @ y, rm_sourceCommitment := z\<rparr>) =
   buildRecurringMandateCanonicalMessage (m\<lparr>rm_subscriberCommitment := x, rm_sourceCommitment := y @ newline # ''sourceCommitment:'' @ z\<rparr>)"
  by (simp add: buildRecurringMandateCanonicalMessage_def mandate_fields_def)

text \<open>
  Given no hash collision, mandates whose texts hold no line feed have the same commitment only if
  they are the same mandate, an empty policy commitment counting as none. Nothing in the validation
  forbids line feeds, and with them the commitment is not binding: two mandates that differ in the
  subscriber and source commitments, both acceptable or not to the same validation, share one.
\<close>

theorem mandate_commitment_binding:
  assumes "inj_on (sha256 h) {utf8 (buildRecurringMandateCanonicalMessage m), utf8 (buildRecurringMandateCanonicalMessage m')}"
    and "one_line m" "one_line m'" "list_all (\<lambda>b. b < 256) (sha256 h (utf8 (buildRecurringMandateCanonicalMessage m)))"
    and "list_all (\<lambda>b. b < 256) (sha256 h (utf8 (buildRecurringMandateCanonicalMessage m')))" "x \<noteq> []" "z \<noteq> []"
  shows "(computeRecurringMandateCommitment h m = computeRecurringMandateCommitment h m' \<longleftrightarrow>
      m\<lparr>rm_policyCommitment := Some (case rm_policyCommitment m of None \<Rightarrow> [] | Some s \<Rightarrow> s)\<rparr> =
      m'\<lparr>rm_policyCommitment := Some (case rm_policyCommitment m' of None \<Rightarrow> [] | Some s \<Rightarrow> s)\<rparr>) \<and>
    (let a = m\<lparr>rm_subscriberCommitment := x @ newline # ''sourceCommitment:'' @ y, rm_sourceCommitment := z\<rparr>;
         b = m\<lparr>rm_subscriberCommitment := x, rm_sourceCommitment := y @ newline # ''sourceCommitment:'' @ z\<rparr>
     in a \<noteq> b \<and> computeRecurringMandateCommitment h a = computeRecurringMandateCommitment h b \<and>
        (mandate_ok p a \<longleftrightarrow> mandate_ok p b) \<and> (limits_ok a \<longleftrightarrow> limits_ok b) \<and> (times_ok h a \<longleftrightarrow> times_ok h b))"
proof -
  let ?M = buildRecurringMandateCanonicalMessage
  have "computeRecurringMandateCommitment h m = computeRecurringMandateCommitment h m' \<longleftrightarrow> ?M m = ?M m'"
    unfolding computeRecurringMandateCommitment_def sha256_hex_def to_hex_inject [OF assms(4,5)]
    using inj_on_eq_iff [OF assms(1), of "utf8 (?M m)" "utf8 (?M m')"] by simp
  also have "\<dots> \<longleftrightarrow> mandate_fields m = mandate_fields m'"
    using message_fields [OF _ assms(2,3)] by (auto simp: buildRecurringMandateCanonicalMessage_def)
  finally have binds: "computeRecurringMandateCommitment h m = computeRecurringMandateCommitment h m' \<longleftrightarrow> mandate_fields m = mandate_fields m'" .
  let ?a = "m\<lparr>rm_subscriberCommitment := x @ newline # ''sourceCommitment:'' @ y, rm_sourceCommitment := z\<rparr>"
  let ?b = "m\<lparr>rm_subscriberCommitment := x, rm_sourceCommitment := y @ newline # ''sourceCommitment:'' @ z\<rparr>"
  have "rm_subscriberCommitment ?a \<noteq> rm_subscriberCommitment ?b" by simp
  then have "?a \<noteq> ?b" by metis
  moreover have "computeRecurringMandateCommitment h ?a = computeRecurringMandateCommitment h ?b"
    unfolding computeRecurringMandateCommitment_def ambiguous_message ..
  moreover have "mandate_ok p ?a \<longleftrightarrow> mandate_ok p ?b" "limits_ok ?a \<longleftrightarrow> limits_ok ?b" "times_ok h ?a \<longleftrightarrow> times_ok h ?b"
    using assms(6,7) by (simp_all add: mandate_ok_def limits_ok_def times_ok_def)
  ultimately show ?thesis unfolding binds mandate_fields_inject Let_def by blast
qed

definition sample_mandate :: recurring_mandate where
  "sample_mandate = \<lparr>rm_mandateId = ''m'', rm_providerId = ''p'', rm_subscriberCommitment = ''s'', rm_sourceCommitment = ''c'',
     rm_assetCommitment = ''a'', rm_policyCommitment = None, rm_tokenMintAddress = ''t'', rm_maxChargeAmountBaseUnits = 5,
     rm_minIntervalSeconds = 60, rm_maxExecutions = None, rm_maxCumulativeAmountBaseUnits = Some 9, rm_startTime = ''1Z'',
     rm_expiryTime = ''9Z'', rm_status = MandateActive, rm_executionNonce = ''n'', rm_createdAt = ''1Z'', rm_updatedAt = ''1Z''\<rparr>"

text \<open>A hash that keeps the end of the text, where the two sample mandates differ.\<close>

definition tail_host :: host where
  "tail_host = sample_host\<lparr>sha256 := (\<lambda>bs. take 32 (rev bs))\<rparr>"

lemma tail_host_hash:
  "sha256 tail_host (utf8 (buildRecurringMandateCanonicalMessage sample_mandate)) \<noteq>
     sha256 tail_host (utf8 (buildRecurringMandateCanonicalMessage (sample_mandate\<lparr>rm_updatedAt := ''2Z''\<rparr>)))"
  "list_all (\<lambda>b. b < 256) (sha256 tail_host (utf8 (buildRecurringMandateCanonicalMessage sample_mandate)))"
  "list_all (\<lambda>b. b < 256) (sha256 tail_host (utf8 (buildRecurringMandateCanonicalMessage (sample_mandate\<lparr>rm_updatedAt := ''2Z''\<rparr>))))"
  by code_simp+

theorem mandate_commitment_binding_witness:
  "computeRecurringMandateCommitment tail_host sample_mandate \<noteq>
     computeRecurringMandateCommitment tail_host (sample_mandate\<lparr>rm_updatedAt := ''2Z''\<rparr>)"
proof -
  let ?m = sample_mandate and ?m' = "sample_mandate\<lparr>rm_updatedAt := ''2Z''\<rparr>"
  have i: "inj_on (sha256 tail_host) {utf8 (buildRecurringMandateCanonicalMessage ?m), utf8 (buildRecurringMandateCanonicalMessage ?m')}"
    using tail_host_hash(1) by auto
  have "one_line ?m" "one_line ?m'" by code_simp+
  from mandate_commitment_binding [OF i this tail_host_hash(2,3), of "''x''" "''z''"]
  have "computeRecurringMandateCommitment tail_host ?m = computeRecurringMandateCommitment tail_host ?m' \<longleftrightarrow>
      ?m\<lparr>rm_policyCommitment := Some []\<rparr> = ?m'\<lparr>rm_policyCommitment := Some []\<rparr>"
    by (simp add: sample_mandate_def)
  also have "\<not> \<dots>" by (simp add: sample_mandate_def)
  finally show ?thesis .
qed

end
