(* ===== verification/Tcap_Contracts.thy ===== *)
theory Tcap_Contracts
  imports Node_Envelope
begin

text \<open>
  The TCap contract library, \<open>programs/tcap-protocol/tcap-sdk/src\<close>: reserve accounting
  (\<open>contracts.ts\<close>, \<open>validation.ts\<close> over the records of \<open>models.ts\<close>), the deterministic accumulator and
  the nullifier registry (\<open>roots.ts\<close>). Big integers are \<open>int\<close>; the hash function is an argument, as in
  the source.
\<close>

section \<open>Assets and reserves\<close>

record tcap_asset_id =
  ta_tokenProgram :: string
  ta_mint :: string
  ta_registryVersion :: int
  ta_assetCommitment :: string

record funding_breakdown =
  fb_principal :: int
  fb_settlementFee :: int
  fb_protocolFee :: int

record reserve_liabilities =
  rl_settledClaims :: int
  rl_pendingClaims :: int
  rl_withdrawalLiabilities :: int
  rl_reservedRefundLiabilities :: int

record fee_liabilities =
  fl_unpaidCrankerRewards :: int
  fl_refundableSettlementFees :: int
  fl_otherCommittedFees :: int

definition requireNonNegative :: "string \<Rightarrow> int \<Rightarrow> unit result" where
  "requireNonNegative label v = require (0 \<le> v) (label @ '' must not be negative'')"

definition totalFunding :: "funding_breakdown \<Rightarrow> int result" where
  "totalFunding v =
     and_then (requireNonNegative ''principal'' (fb_principal v)) (\<lambda>_.
     and_then (requireNonNegative ''settlementFee'' (fb_settlementFee v)) (\<lambda>_.
     and_then (requireNonNegative ''protocolFee'' (fb_protocolFee v)) (\<lambda>_.
     Inr (fb_principal v + fb_settlementFee v + fb_protocolFee v))))"

definition assertTcapReserveBacked :: "int \<Rightarrow> reserve_liabilities \<Rightarrow> unit result" where
  "assertTcapReserveBacked vaultAssets l =
     and_then (requireNonNegative ''vaultAssets'' vaultAssets) (\<lambda>_.
     and_then (requireNonNegative ''settledClaims'' (rl_settledClaims l)) (\<lambda>_.
     and_then (requireNonNegative ''pendingClaims'' (rl_pendingClaims l)) (\<lambda>_.
     and_then (requireNonNegative ''withdrawalLiabilities'' (rl_withdrawalLiabilities l)) (\<lambda>_.
     and_then (requireNonNegative ''reservedRefundLiabilities'' (rl_reservedRefundLiabilities l)) (\<lambda>_.
     require (rl_settledClaims l + rl_pendingClaims l + rl_withdrawalLiabilities l + rl_reservedRefundLiabilities l \<le> vaultAssets)
       ''tcap_reserve_underbacked'')))))"

definition assertTsnFeeReserveBacked :: "int \<Rightarrow> fee_liabilities \<Rightarrow> unit result" where
  "assertTsnFeeReserveBacked vaultAssets l =
     and_then (requireNonNegative ''vaultAssets'' vaultAssets) (\<lambda>_.
     and_then (requireNonNegative ''unpaidCrankerRewards'' (fl_unpaidCrankerRewards l)) (\<lambda>_.
     and_then (requireNonNegative ''refundableSettlementFees'' (fl_refundableSettlementFees l)) (\<lambda>_.
     and_then (requireNonNegative ''otherCommittedFees'' (fl_otherCommittedFees l)) (\<lambda>_.
     require (fl_unpaidCrankerRewards l + fl_refundableSettlementFees l + fl_otherCommittedFees l \<le> vaultAssets)
       ''tsn_fee_reserve_underbacked''))))"

definition safe_number :: "int \<Rightarrow> bool" where
  "safe_number n \<longleftrightarrow> \<bar>n\<bar> \<le> max_safe_integer"

definition assertCanonicalAssetId :: "tcap_asset_id \<Rightarrow> unit result" where
  "assertCanonicalAssetId a =
     and_then (require (ta_tokenProgram a \<noteq> [] \<and> ta_mint a \<noteq> [] \<and> ta_assetCommitment a \<noteq> []) ''invalid_tcap_asset_id'') (\<lambda>_.
     require (safe_number (ta_registryVersion a) \<and> 1 \<le> ta_registryVersion a) ''invalid_tcap_registry_version'')"

datatype transfer_fee_policy = FeeReject | FeeExactNetReceived

datatype authority_risk = NoneDeclared | RiskFreeze | RiskClawback | RiskFreezeAndClawback

datatype admission_status = Proposed | AssetActive | DepositsPaused | WithdrawalsOnly | Deprecated

record tcap_asset_entry =
  te_version :: int
  te_asset :: tcap_asset_id
  te_reserveVault :: string
  te_reserveAuthority :: string
  te_decimals :: int
  te_depositsEnabled :: bool
  te_withdrawalsEnabled :: bool
  te_transferFeePolicy :: transfer_fee_policy
  te_authorityRisk :: authority_risk
  te_governanceApproval :: string
  te_riskStatus :: admission_status
  te_deprecated :: bool

record tcap_reserve_state =
  rs_version :: int
  rs_asset :: tcap_asset_id
  rs_assetState :: string
  rs_vault :: string
  rs_authority :: string
  rs_actualReserveAssets :: int
  rs_pendingLiabilities :: int
  rs_settledLiabilities :: int
  rs_withdrawalLiabilities :: int
  rs_reservedRefundLiabilities :: int
  rs_accountingEpoch :: int
  rs_paused :: bool

record fee_reserve_state =
  fs_version :: int
  fs_asset :: tcap_asset_id
  fs_vault :: string
  fs_authority :: string
  fs_fundedFeeAssets :: int
  fs_refundableFeeLiabilities :: int
  fs_unpaidCrankerRewards :: int
  fs_protocolFeeAllocations :: int
  fs_carryForwardFeeLiabilities :: int
  fs_claimedRewards :: int
  fs_paused :: bool

record epoch_intent_leaf =
  el_version :: int
  el_blindedFundedCommitment :: string
  el_fundingValidityCommitment :: string
  el_admissibleEpochCommitment :: string

record funding_plan =
  fp_version :: int
  fp_asset :: tcap_asset_id
  fp_payerTokenAccount :: string
  fp_tcapReserve :: string
  fp_tsnFeeReserve :: string
  fp_protocolFeeDestination :: "string option"
  fp_principal :: int
  fp_settlementFee :: int
  fp_protocolFee :: int
  fp_expectedDecimals :: int
  fp_exactNetReceived :: bool
  fp_pendingLiabilityCommitment :: string
  fp_paymentIntentDigest :: string
  fp_fundedIntentLeaf :: epoch_intent_leaf

definition assertAssetEntry :: "tcap_asset_entry \<Rightarrow> unit result" where
  "assertAssetEntry e =
     and_then (assertCanonicalAssetId (te_asset e)) (\<lambda>_.
     and_then (require (te_reserveVault e \<noteq> [] \<and> te_reserveAuthority e \<noteq> []) ''invalid_tcap_reserve_derivation'') (\<lambda>_.
     require (safe_number (te_decimals e) \<and> 0 \<le> te_decimals e \<and> te_decimals e \<le> 255) ''invalid_asset_decimals''))"

definition assertReserveState :: "tcap_reserve_state \<Rightarrow> unit result" where
  "assertReserveState s =
     and_then (assertCanonicalAssetId (rs_asset s)) (\<lambda>_.
     assertTcapReserveBacked (rs_actualReserveAssets s)
       \<lparr>rl_settledClaims = rs_settledLiabilities s, rl_pendingClaims = rs_pendingLiabilities s,
        rl_withdrawalLiabilities = rs_withdrawalLiabilities s, rl_reservedRefundLiabilities = rs_reservedRefundLiabilities s\<rparr>)"

definition assertFeeReserveState :: "fee_reserve_state \<Rightarrow> unit result" where
  "assertFeeReserveState s =
     and_then (assertCanonicalAssetId (fs_asset s)) (\<lambda>_.
     and_then (assertTsnFeeReserveBacked (fs_fundedFeeAssets s)
       \<lparr>fl_unpaidCrankerRewards = fs_unpaidCrankerRewards s, fl_refundableSettlementFees = fs_refundableFeeLiabilities s,
        fl_otherCommittedFees = fs_protocolFeeAllocations s + fs_carryForwardFeeLiabilities s\<rparr>) (\<lambda>_.
     requireNonNegative ''claimedRewards'' (fs_claimedRewards s)))"

definition assertAtomicFundingPlan :: "funding_plan \<Rightarrow> tcap_asset_entry \<Rightarrow> unit result" where
  "assertAtomicFundingPlan p e =
     and_then (assertAssetEntry e) (\<lambda>_.
     and_then (assertCanonicalAssetId (fp_asset p)) (\<lambda>_.
     and_then (require (ta_mint (fp_asset p) = ta_mint (te_asset e) \<and> ta_tokenProgram (fp_asset p) = ta_tokenProgram (te_asset e))
       ''wrong_funding_asset'') (\<lambda>_.
     and_then (require (fp_expectedDecimals p = te_decimals e) ''wrong_funding_decimals'') (\<lambda>_.
     and_then (require (fp_tcapReserve p = te_reserveVault e) ''wrong_tcap_reserve'') (\<lambda>_.
     and_then (require (0 < fp_principal p \<and> 0 \<le> fp_settlementFee p \<and> 0 \<le> fp_protocolFee p) ''partial_funding'') (\<lambda>_.
     and_then (require (te_transferFeePolicy e = FeeExactNetReceived \<longrightarrow> fp_exactNetReceived p) ''net_received_verification_required'') (\<lambda>_.
     require (fp_tcapReserve p \<noteq> fp_tsnFeeReserve p) ''principal_fee_reserve_collision'')))))))"

section \<open>The accumulator\<close>

text \<open>One level: neighbours are hashed together, a last odd entry with itself.\<close>

fun next_level :: "byte_list \<Rightarrow> (byte_list \<Rightarrow> byte_list) \<Rightarrow> byte_list list \<Rightarrow> byte_list list" where
  "next_level d hash [] = []"
| "next_level d hash [l] = [hash (d @ [1] @ l @ l)]"
| "next_level d hash (l # r # ls) = hash (d @ [1] @ l @ r) # next_level d hash ls"

lemma length_next_level [simp]: "length (next_level d hash ls) = (length ls + 1) div 2"
  by (induction d hash ls rule: next_level.induct) auto

function climb :: "byte_list \<Rightarrow> (byte_list \<Rightarrow> byte_list) \<Rightarrow> byte_list list \<Rightarrow> byte_list list" where
  "climb d hash ls = (if 1 < length ls then climb d hash (next_level d hash ls) else ls)"
  by auto
termination by (relation "measure (\<lambda>(d, hash, ls). length ls)") auto

declare climb.simps [simp del]

definition buildDeterministicRoot :: "string \<Rightarrow> byte_list list \<Rightarrow> (byte_list \<Rightarrow> byte_list) \<Rightarrow> string result" where
  "buildDeterministicRoot domain leaves hash =
     and_then (require (leaves \<noteq> []) ''empty_accumulator'') (\<lambda>_.
     and_then (require (length (js_uniq leaves) = length leaves) ''duplicate_accumulator_leaf'') (\<lambda>_.
     Inr (to_hex (hd (climb (utf8 domain) hash (map (\<lambda>leaf. hash (utf8 domain @ [0] @ leaf)) leaves))))))"

section \<open>The nullifier registry\<close>

definition consume_nullifier :: "string \<Rightarrow> string set \<Rightarrow> unit result \<times> string set" where
  "consume_nullifier nullifier seen =
     (if \<not> is_hex64 nullifier then (Inl ''invalid_nullifier_encoding'', seen)
      else if nullifier \<in> seen then (Inl ''nullifier_already_consumed'', seen)
      else (Inr (), insert nullifier seen))"

definition has_nullifier :: "string \<Rightarrow> string set \<Rightarrow> bool" where
  "has_nullifier nullifier seen \<longleftrightarrow> nullifier \<in> seen"

section \<open>A root determines its leaves\<close>

datatype hash_tree = HLeaf byte_list | HNode hash_tree hash_tree

fun tree_input :: "byte_list \<Rightarrow> (byte_list \<Rightarrow> byte_list) \<Rightarrow> hash_tree \<Rightarrow> byte_list" where
  "tree_input d hash (HLeaf x) = d @ [0] @ x"
| "tree_input d hash (HNode l r) = d @ [1] @ hash (tree_input d hash l) @ hash (tree_input d hash r)"

fun tree_inputs :: "byte_list \<Rightarrow> (byte_list \<Rightarrow> byte_list) \<Rightarrow> hash_tree \<Rightarrow> byte_list set" where
  "tree_inputs d hash (HLeaf x) = {tree_input d hash (HLeaf x)}"
| "tree_inputs d hash (HNode l r) = insert (tree_input d hash (HNode l r)) (tree_inputs d hash l \<union> tree_inputs d hash r)"

fun tree_leaves :: "hash_tree \<Rightarrow> byte_list list" where
  "tree_leaves (HLeaf x) = [x]"
| "tree_leaves (HNode l r) = tree_leaves l @ tree_leaves r"

fun next_trees :: "hash_tree list \<Rightarrow> hash_tree list" where
  "next_trees [] = []"
| "next_trees [t] = [HNode t t]"
| "next_trees (t # u # ts) = HNode t u # next_trees ts"

lemma length_next_trees [simp]: "length (next_trees ts) = (length ts + 1) div 2"
  by (induction ts rule: next_trees.induct) auto

function climb_trees :: "hash_tree list \<Rightarrow> hash_tree list" where
  "climb_trees ts = (if 1 < length ts then climb_trees (next_trees ts) else ts)"
  by auto
termination by (relation "measure length") auto

declare climb_trees.simps [simp del]

lemma next_level_trees:
  "next_level d hash (map (\<lambda>t. hash (tree_input d hash t)) ts) = map (\<lambda>t. hash (tree_input d hash t)) (next_trees ts)"
  by (induction ts rule: next_trees.induct) auto

lemma climb_climb_trees:
  "climb d hash (map (\<lambda>t. hash (tree_input d hash t)) ts) = map (\<lambda>t. hash (tree_input d hash t)) (climb_trees ts)"
proof (induction ts rule: climb_trees.induct)
  case (1 ts)
  let ?vals = "map (\<lambda>t. hash (tree_input d hash t))"
  show ?case
  proof (cases "1 < length ts")
    case True
    then have "climb d hash (?vals ts) = climb d hash (?vals (next_trees ts))"
      by (subst climb.simps) (simp add: next_level_trees)
    also have "\<dots> = ?vals (climb_trees (next_trees ts))" using 1 True by blast
    also have "\<dots> = ?vals (climb_trees ts)" using True by (simp add: climb_trees.simps [of ts])
    finally show ?thesis .
  next
    case False
    then have "climb d hash (?vals ts) = ?vals ts" "climb_trees ts = ts"
      by (simp_all add: climb.simps [of d hash "?vals ts"] climb_trees.simps [of ts])
    then show ?thesis by (simp only:)
  qed
qed

definition root_tree :: "byte_list list \<Rightarrow> hash_tree" where
  "root_tree leaves = hd (climb_trees (map HLeaf leaves))"

lemma length_climb_trees: "ts \<noteq> [] \<Longrightarrow> length (climb_trees ts) = 1"
proof (induction ts rule: climb_trees.induct)
  case (1 ts)
  show ?case
  proof (cases "1 < length ts")
    case True
    then have "next_trees ts \<noteq> []" by (auto simp flip: length_0_conv)
    with 1 True show ?thesis by (simp add: climb_trees.simps [of ts])
  qed (use 1 in \<open>cases ts; simp add: climb_trees.simps\<close>)
qed

lemma root_hash:
  assumes "leaves \<noteq> []"
  shows "hd (climb d hash (map (\<lambda>leaf. hash (d @ [0] @ leaf)) leaves)) = hash (tree_input d hash (root_tree leaves))"
proof -
  have "map (\<lambda>leaf. hash (d @ [0] @ leaf)) leaves = map (\<lambda>t. hash (tree_input d hash t)) (map HLeaf leaves)" by simp
  then show ?thesis
    using length_climb_trees [of "map HLeaf leaves"] assms
    by (simp only: climb_climb_trees) (auto simp: hd_map root_tree_def length_Suc_conv)
qed

text \<open>Repeating the last entry adds no new leaf, so the first occurrences are the leaves.\<close>

lemma js_uniq_Nil [simp]: "js_uniq [] = []"
  by (simp add: js_uniq_def)

lemma js_uniq_append: "js_uniq (xs @ ys) = js_uniq xs @ filter (\<lambda>y. y \<notin> set xs) (js_uniq ys)"
  by (induction ys rule: rev_induct) (auto simp: js_uniq_def)

lemma uniq_next_trees:
  "js_uniq (xs @ concat (map tree_leaves (next_trees ts))) = js_uniq (xs @ concat (map tree_leaves ts))"
proof (induction ts arbitrary: xs rule: next_trees.induct)
  case (2 t)
  show ?case by (simp add: js_uniq_append)
next
  case (3 t u ts)
  show ?case using 3 [of "xs @ tree_leaves t @ tree_leaves u"] by simp
qed simp

lemma uniq_climb_trees: "js_uniq (concat (map tree_leaves (climb_trees ts))) = js_uniq (concat (map tree_leaves ts))"
proof (induction ts rule: climb_trees.induct)
  case (1 ts)
  then show ?case using uniq_next_trees [of "[]" ts] by (simp add: climb_trees.simps [of ts])
qed

lemma root_tree_leaves: "leaves \<noteq> [] \<Longrightarrow> distinct leaves \<Longrightarrow> js_uniq (tree_leaves (root_tree leaves)) = leaves"
proof -
  assume leaves: "leaves \<noteq> []" "distinct leaves"
  then obtain t where t: "climb_trees (map HLeaf leaves) = [t]"
    using length_climb_trees [of "map HLeaf leaves"] by (auto simp: length_Suc_conv)
  have "concat (map tree_leaves (map HLeaf leaves)) = leaves" by (induction leaves) auto
  with uniq_climb_trees [of "map HLeaf leaves"] t leaves show ?thesis by (simp add: root_tree_def js_uniq_id)
qed

text \<open>Without a collision among the hashed inputs, and with digests of one length, equal roots are equal trees.\<close>

lemma tree_input_inject:
  assumes "inj_on hash A" "\<And>x. x \<in> A \<Longrightarrow> length (hash x) = n" "tree_inputs d hash t \<subseteq> A" "tree_inputs d hash u \<subseteq> A"
    and "tree_input d hash t = tree_input d hash u"
  shows "t = u"
  using assms(3-5)
proof (induction t arbitrary: u)
  case (HLeaf x)
  then show ?case by (cases u) auto
next
  case (HNode l r)
  then obtain l' r' where u: "u = HNode l' r'" by (cases u) auto
  have mem: "tree_input d hash v \<in> tree_inputs d hash v" for v by (cases v) auto
  have "length (hash (tree_input d hash l)) = length (hash (tree_input d hash l'))"
    using HNode.prems u mem assms(2) by (metis Un_subset_iff insert_subset subsetD tree_inputs.simps(2))
  then have "hash (tree_input d hash l) = hash (tree_input d hash l')" "hash (tree_input d hash r) = hash (tree_input d hash r')"
    using HNode.prems(3) u by auto
  moreover have "tree_input d hash v \<in> A" if "v \<in> {l, r, l', r'}" for v
    using that HNode.prems(1,2) u mem by auto
  ultimately have "tree_input d hash l = tree_input d hash l'" "tree_input d hash r = tree_input d hash r'"
    using assms(1) by (auto dest: inj_onD)
  then show ?case using HNode.IH HNode.prems(1,2) u by simp
qed

definition hashed_inputs :: "string \<Rightarrow> (byte_list \<Rightarrow> byte_list) \<Rightarrow> byte_list list \<Rightarrow> byte_list set" where
  "hashed_inputs domain hash leaves = tree_inputs (utf8 domain) hash (root_tree leaves)"

lemma buildDeterministicRoot_distinct:
  assumes "leaves \<noteq> []" "distinct leaves"
  shows "buildDeterministicRoot domain leaves hash = Inr (to_hex (hash (tree_input (utf8 domain) hash (root_tree leaves))))"
  using assms root_hash [OF assms(1)] by (simp add: buildDeterministicRoot_def js_uniq_id)

lemma tree_input_mem: "tree_input d hash t \<in> tree_inputs d hash t"
  by (cases t) auto

text \<open>
  The accumulator root is binding: if no two of the byte strings hashed for two lists of distinct
  leaves collide, the lists have the same root only if they are equal, in length and order. The
  repetition of a last odd entry does not let a longer list imitate a shorter one, because
  repeated leaves are refused.
\<close>

theorem accumulator_root_binding:
  assumes "xs \<noteq> []" "distinct xs" "ys \<noteq> []" "distinct ys"
    and "inj_on hash (hashed_inputs domain hash xs \<union> hashed_inputs domain hash ys)"
    and "\<And>x. x \<in> hashed_inputs domain hash xs \<union> hashed_inputs domain hash ys \<Longrightarrow> length (hash x) = 32 \<and> octets (hash x)"
  shows "buildDeterministicRoot domain xs hash = buildDeterministicRoot domain ys hash \<longleftrightarrow> xs = ys"
proof
  let ?d = "utf8 domain" and ?t = "root_tree xs" and ?u = "root_tree ys"
  note hashed = hashed_inputs_def
  assume "buildDeterministicRoot domain xs hash = buildDeterministicRoot domain ys hash"
  then have "to_hex (hash (tree_input ?d hash ?t)) = to_hex (hash (tree_input ?d hash ?u))"
    by (simp add: buildDeterministicRoot_distinct assms(1-4))
  moreover have mem: "tree_input ?d hash ?t \<in> hashed_inputs domain hash xs \<union> hashed_inputs domain hash ys"
    "tree_input ?d hash ?u \<in> hashed_inputs domain hash xs \<union> hashed_inputs domain hash ys"
    using tree_input_mem by (auto simp: hashed)
  ultimately have "hash (tree_input ?d hash ?t) = hash (tree_input ?d hash ?u)"
    using assms(6) to_hex_inject by blast
  then have "tree_input ?d hash ?t = tree_input ?d hash ?u" using assms(5) mem by (auto dest: inj_onD)
  then have "?t = ?u"
    using assms(6) by (intro tree_input_inject [OF assms(5), of 32]) (auto simp: hashed)
  then show "xs = ys" using root_tree_leaves assms(1-4) by metis
qed simp

definition sample_digest :: "byte_list \<Rightarrow> byte_list" where
  "sample_digest bs = replicate 31 0 @ [(length bs + last bs) mod 256]"

lemma sample_trees:
  "root_tree [[4], [2]] = HNode (HLeaf [4]) (HLeaf [2])"
  "root_tree [[4], [2], [3]] = HNode (HNode (HLeaf [4]) (HLeaf [2])) (HNode (HLeaf [3]) (HLeaf [3]))"
  by (simp_all add: root_tree_def climb_trees.simps)

theorem accumulator_root_binding_witness:
  "buildDeterministicRoot ''d'' [[4], [2]] sample_digest \<noteq> buildDeterministicRoot ''d'' [[4], [2], [3]] sample_digest"
proof -
  let ?A = "hashed_inputs ''d'' sample_digest [[4], [2]] \<union> hashed_inputs ''d'' sample_digest [[4], [2], [3]]"
  have "utf8 ''d'' = [100]" by code_simp
  then have A: "?A = {[100, 0, 4], [100, 0, 2], [100, 0, 3],
      [100, 1] @ sample_digest [100, 0, 4] @ sample_digest [100, 0, 2],
      [100, 1] @ sample_digest [100, 0, 3] @ sample_digest [100, 0, 3],
      [100, 1] @ sample_digest ([100, 1] @ sample_digest [100, 0, 4] @ sample_digest [100, 0, 2])
         @ sample_digest ([100, 1] @ sample_digest [100, 0, 3] @ sample_digest [100, 0, 3])}"
    by (auto simp: hashed_inputs_def sample_trees)
  have "inj_on sample_digest ?A" unfolding A by (simp add: sample_digest_def)
  moreover have "length (sample_digest x) = 32 \<and> octets (sample_digest x)" if "x \<in> ?A" for x
    by (simp add: sample_digest_def list_all_iff)
  ultimately show ?thesis
    using accumulator_root_binding [of "[[4], [2]]" "[[4], [2], [3]]" sample_digest "''d''"] by simp
qed

section \<open>Nullifiers\<close>

lemma consume_marks_seen: "consume_nullifier n s = (Inr (), s') \<Longrightarrow> n \<in> s' \<and> s \<subseteq> s'"
  by (auto simp: consume_nullifier_def split: if_splits)

lemma consume_keeps_seen: "s \<subseteq> snd (consume_nullifier n s)"
  by (auto simp: consume_nullifier_def)

fun consume_all :: "string list \<Rightarrow> string set \<Rightarrow> string set" where
  "consume_all [] s = s"
| "consume_all (n # ns) s = consume_all ns (snd (consume_nullifier n s))"

lemma consume_all_keeps: "s \<subseteq> consume_all ns s"
  using consume_keeps_seen by (induction ns arbitrary: s) (auto simp: subset_iff)

text \<open>A text is consumed at most once, whatever is consumed in between.\<close>

lemma nullifier_text_once:
  assumes "consume_nullifier n s = (Inr (), s')"
  shows "\<not> (\<exists>s''. consume_nullifier n (consume_all ns s') = (Inr (), s''))"
  using consume_marks_seen [OF assms] consume_all_keeps [of s' ns] by (auto simp: consume_nullifier_def split: if_splits)

text \<open>
  But a nullifier is 32 bytes, and the registry accepts both cases of a hexadecimal digit and keeps
  the text: the same bytes are consumed twice.
\<close>

lemma nullifier_consumed_twice:
  fixes n m :: string
  defines "n \<equiv> replicate 64 (CHR ''a'')" and "m \<equiv> replicate 64 (CHR ''A'')"
  shows "consume_nullifier n {} = (Inr (), {n}) \<and> consume_nullifier m {n} = (Inr (), {m, n}) \<and> from_hex n = from_hex m"
proof -
  have "from_hex n = from_hex m" unfolding n_def m_def by code_simp
  moreover have "is_hex64 n" "is_hex64 m" unfolding n_def m_def by code_simp+
  moreover have "m \<noteq> n" by (simp add: n_def m_def)
  ultimately show ?thesis by (auto simp: consume_nullifier_def)
qed

end
