(* ===== verification/Tcap_Snapshot.thy ===== *)
theory Tcap_Snapshot
  imports Tcap_Contracts
begin

text \<open>
  Private TCap balances, \<open>programs/tcap-protocol/tcap-sdk/src\<close>: the canonical encoding, commitment and
  encryption of balance snapshots and the walk along their history (\<open>snapshots.ts\<close>), the account
  decoder (\<open>tip-rpc.ts\<close>) and the sealed tip (\<open>tip-seal.ts\<close>). AES-GCM, SHA-256 and random bytes come
  from \<open>host\<close> and arguments; \<open>td\<close> is \<open>TextDecoder.decode\<close>. The history loop follows links that a store
  supplies, so it may run forever: \<open>None\<close> is a run that does not return.
\<close>

section \<open>Fixed-width integers\<close>

fun be_bytes :: "nat \<Rightarrow> nat \<Rightarrow> byte_list" where
  "be_bytes 0 v = []"
| "be_bytes (Suc n) v = (v div 256 ^ n) mod 256 # be_bytes n v"

definition le_bytes :: "nat \<Rightarrow> nat \<Rightarrow> byte_list" where
  "le_bytes n v = rev (be_bytes n v)"

definition le_val :: "byte_list \<Rightarrow> nat" where
  "le_val bs = be_val 256 (rev bs)"

lemma length_be_bytes [simp]: "length (be_bytes n v) = n"
  by (induction n) auto

lemma be_val_Cons: "be_val B (d # ds) = d * B ^ length ds + be_val B ds"
proof (induction ds rule: rev_induct)
  case (snoc x xs)
  have "be_val B (d # xs @ [x]) = be_val B ((d # xs) @ [x])" by simp
  with snoc show ?case by (simp only: be_val_snoc) (simp add: algebra_simps)
qed (simp add: be_val_def)

lemma be_val_be_bytes: "v < 256 ^ n \<Longrightarrow> be_val 256 (be_bytes n v) = v"
proof -
  have "be_val 256 (be_bytes n v) = v mod 256 ^ n" for v
  proof (induction n)
    case (Suc n)
    have "v mod (256 * 256 ^ n) = 256 ^ n * (v div 256 ^ n mod 256) + v mod 256 ^ n"
      by (metis mod_mult2_eq mult.commute)
    with Suc show ?case by (simp add: be_val_Cons)
  qed simp
  then show "v < 256 ^ n \<Longrightarrow> ?thesis" by simp
qed

lemma octets_be_bytes: "octets (be_bytes n v)"
  by (induction n) auto

lemma length_le_bytes [simp]: "length (le_bytes n v) = n"
  by (simp add: le_bytes_def)

lemma le_val_le_bytes: "v < 256 ^ n \<Longrightarrow> le_val (le_bytes n v) = v"
  by (simp add: le_val_def le_bytes_def be_val_be_bytes)

section \<open>Snapshots\<close>

record token_balance =
  tb_token_id :: int
  tb_native_amount :: int
  tb_stable_units :: int
  tb_stable_rate_version :: int

record balance_snapshot =
  sn_version :: int
  sn_sequence :: int
  sn_previous_commitment :: string
  sn_new_commitment :: string
  sn_token_balances :: "token_balance list"
  sn_policy_commitment :: string
  sn_transition_nullifier :: string
  sn_tsn_settlement_commitment :: string
  sn_created_at :: int
  sn_encrypted_record_locator :: string

record encrypted_snapshot =
  en_version :: int
  en_sequence :: int
  en_previous_commitment :: string
  en_new_commitment :: string
  en_policy_commitment :: string
  en_transition_nullifier :: string
  en_tsn_settlement_commitment :: string
  en_created_at :: int
  en_encrypted_record_locator :: string
  en_nonce :: byte_list
  en_ciphertext :: byte_list

datatype commitment_value = HexText string | RawBytes byte_list

record tip_state =
  tip_current_commitment :: commitment_value
  tip_sequence :: int

definition SNAPSHOT_DOMAIN :: string where
  "SNAPSHOT_DOMAIN = ''TCAP_BALANCE_SNAPSHOT_V1''"

definition ZERO_COMMITMENT :: string where
  "ZERO_COMMITMENT = replicate 64 (CHR ''0'')"

definition bytesFromHex :: "string \<Rightarrow> string \<Rightarrow> byte_list result" where
  "bytesFromHex v label = and_then (require (is_hex64 v) (label @ ''_must_be_32_byte_hex'')) (\<lambda>_. Inr (from_hex v))"

definition hexFromBytes :: "byte_list \<Rightarrow> string result" where
  "hexFromBytes v = and_then (require (length v = 32) ''commitment_must_be_32_bytes'') (\<lambda>_. Inr (to_hex v))"

fun normalizeCommitment :: "commitment_value \<Rightarrow> string \<Rightarrow> string result" where
  "normalizeCommitment (RawBytes bs) label = hexFromBytes bs"
| "normalizeCommitment (HexText v) label = and_then (bytesFromHex v label) (\<lambda>_. Inr (lower v))"

definition u32 :: "int \<Rightarrow> string \<Rightarrow> byte_list result" where
  "u32 v label = and_then (require (safe_number v \<and> 0 \<le> v \<and> v \<le> 4294967295) (label @ ''_invalid'')) (\<lambda>_. Inr (be_bytes 4 (nat v)))"

definition u64 :: "int \<Rightarrow> string \<Rightarrow> byte_list result" where
  "u64 v label = and_then (require (0 \<le> v \<and> v \<le> 18446744073709551615) (label @ ''_invalid'')) (\<lambda>_. Inr (be_bytes 8 (nat v)))"

definition frame :: "byte_list \<Rightarrow> byte_list result" where
  "frame v = and_then (u32 (int (length v)) ''field_length'') (\<lambda>l. Inr (l @ v))"

text \<open>\<open>concat(...)\<close> of arguments that are evaluated in order and may throw.\<close>

fun concat_all :: "byte_list result list \<Rightarrow> byte_list result" where
  "concat_all [] = Inr []"
| "concat_all (r # rs) = and_then r (\<lambda>a. and_then (concat_all rs) (\<lambda>b. Inr (a @ b)))"

fun check_balances :: "int list \<Rightarrow> token_balance list \<Rightarrow> unit result" where
  "check_balances seen [] = Inr ()"
| "check_balances seen (b # bs) =
     and_then (require (safe_number (tb_token_id b) \<and> 1 \<le> tb_token_id b) ''token_id_invalid'') (\<lambda>_.
     and_then (require (tb_token_id b \<notin> set seen) ''duplicate_token_id'') (\<lambda>_.
     and_then (require (0 \<le> tb_native_amount b \<and> 0 \<le> tb_stable_units b) ''negative_balance'') (\<lambda>_.
     and_then (require (safe_number (tb_stable_rate_version b) \<and> 1 \<le> tb_stable_rate_version b) ''stable_rate_version_invalid'') (\<lambda>_.
     check_balances (tb_token_id b # seen) bs))))"

definition validateSnapshot :: "balance_snapshot \<Rightarrow> unit result" where
  "validateSnapshot s =
     and_then (require (sn_version s = 1) ''unsupported_snapshot_version'') (\<lambda>_.
     and_then (bytesFromHex (sn_previous_commitment s) ''previous_commitment'') (\<lambda>_.
     and_then (bytesFromHex (sn_new_commitment s) ''new_commitment'') (\<lambda>_.
     and_then (bytesFromHex (sn_policy_commitment s) ''policy_commitment'') (\<lambda>_.
     and_then (bytesFromHex (sn_transition_nullifier s) ''transition_nullifier'') (\<lambda>_.
     and_then (bytesFromHex (sn_tsn_settlement_commitment s) ''tsn_settlement_commitment'') (\<lambda>_.
     and_then (require (0 \<le> sn_sequence s \<and> 0 \<le> sn_created_at s) ''snapshot_number_invalid'') (\<lambda>_.
     and_then (require (sn_encrypted_record_locator s \<noteq> []) ''encrypted_record_locator_empty'') (\<lambda>_.
     check_balances [] (sn_token_balances s)))))))))"

definition balance_bytes :: "token_balance \<Rightarrow> byte_list result" where
  "balance_bytes b =
     concat_all [u32 (tb_token_id b) ''token_id'', u64 (tb_native_amount b) ''native_amount'', u64 (tb_stable_units b) ''stable_units'',
       u32 (tb_stable_rate_version b) ''stable_rate_version'']"

definition sorted_balances :: "token_balance list \<Rightarrow> token_balance list" where
  "sorted_balances bs = sort_by (\<lambda>l r. tb_token_id l \<le> tb_token_id r) bs"

definition record_parts :: "balance_snapshot \<Rightarrow> byte_list result list" where
  "record_parts s =
     [frame (utf8 SNAPSHOT_DOMAIN), u32 (sn_version s) ''version'', u64 (sn_sequence s) ''sequence'',
      bytesFromHex (sn_previous_commitment s) ''previous_commitment'', bytesFromHex (sn_policy_commitment s) ''policy_commitment'',
      bytesFromHex (sn_transition_nullifier s) ''transition_nullifier'',
      bytesFromHex (sn_tsn_settlement_commitment s) ''tsn_settlement_commitment'', u64 (sn_created_at s) ''created_at'',
      frame (utf8 (sn_encrypted_record_locator s)),
      u32 (int (length (sn_token_balances s))) ''balance_count''] @ map balance_bytes (sorted_balances (sn_token_balances s))"

definition serializeTcapBalanceCommitmentRecordV1 :: "balance_snapshot \<Rightarrow> byte_list result" where
  "serializeTcapBalanceCommitmentRecordV1 s = and_then (validateSnapshot s) (\<lambda>_. concat_all (record_parts s))"

definition serializeTcapBalanceSnapshotV1 :: "balance_snapshot \<Rightarrow> byte_list result" where
  "serializeTcapBalanceSnapshotV1 s =
     concat_all [and_then (bytesFromHex (sn_new_commitment s) ''new_commitment'') frame, serializeTcapBalanceCommitmentRecordV1 s]"

definition computeTcapBalanceSnapshotCommitment :: "host \<Rightarrow> balance_snapshot \<Rightarrow> string result" where
  "computeTcapBalanceSnapshotCommitment h s =
     and_then (serializeTcapBalanceCommitmentRecordV1 s) (\<lambda>bs. hexFromBytes (sha256 h bs))"

definition assertSnapshotMatchesTip :: "balance_snapshot \<Rightarrow> tip_state \<Rightarrow> unit result" where
  "assertSnapshotMatchesTip s tip =
     and_then (normalizeCommitment (tip_current_commitment tip) ''tip_commitment'') (\<lambda>c.
     and_then (require (lower (sn_new_commitment s) = c) ''snapshot_commitment_mismatch'') (\<lambda>_.
     require (sn_sequence s = tip_sequence tip) ''snapshot_sequence_mismatch''))"

section \<open>Decoding\<close>

definition take_bytes :: "nat \<Rightarrow> byte_list \<Rightarrow> (byte_list \<times> byte_list) result" where
  "take_bytes n bs = (if length bs < n then Inl ''snapshot_encoding_truncated'' else Inr (take n bs, drop n bs))"

definition readU :: "nat \<Rightarrow> byte_list \<Rightarrow> (nat \<times> byte_list) result" where
  "readU n bs = and_then (take_bytes n bs) (\<lambda>(v, rest). Inr (be_val 256 v, rest))"

definition readFrame :: "byte_list \<Rightarrow> (byte_list \<times> byte_list) result" where
  "readFrame bs = and_then (readU 4 bs) (\<lambda>(n, rest). take_bytes n rest)"

definition read_commitment :: "byte_list \<Rightarrow> (string \<times> byte_list) result" where
  "read_commitment bs = and_then (take_bytes 32 bs) (\<lambda>(v, rest). and_then (hexFromBytes v) (\<lambda>c. Inr (c, rest)))"

fun read_balances :: "nat \<Rightarrow> byte_list \<Rightarrow> (token_balance list \<times> byte_list) result" where
  "read_balances 0 bs = Inr ([], bs)"
| "read_balances (Suc n) bs =
     and_then (readU 4 bs) (\<lambda>(i, bs). and_then (readU 8 bs) (\<lambda>(native, bs). and_then (readU 8 bs) (\<lambda>(stable, bs).
     and_then (readU 4 bs) (\<lambda>(rate, bs). and_then (read_balances n bs) (\<lambda>(rest, bs).
     Inr (\<lparr>tb_token_id = int i, tb_native_amount = int native, tb_stable_units = int stable, tb_stable_rate_version = int rate\<rparr> # rest, bs))))))"

definition decode_record :: "(byte_list \<Rightarrow> string) \<Rightarrow> string \<Rightarrow> byte_list \<Rightarrow> balance_snapshot result" where
  "decode_record td new_commitment bs =
     and_then (readFrame bs) (\<lambda>(domain, bs).
     and_then (require (td domain = SNAPSHOT_DOMAIN) ''snapshot_domain_mismatch'') (\<lambda>_.
     and_then (readU 4 bs) (\<lambda>(version, bs).
     and_then (readU 8 bs) (\<lambda>(sequence, bs).
     and_then (read_commitment bs) (\<lambda>(previous, bs).
     and_then (read_commitment bs) (\<lambda>(policy, bs).
     and_then (read_commitment bs) (\<lambda>(nullifier, bs).
     and_then (read_commitment bs) (\<lambda>(settlement, bs).
     and_then (readU 8 bs) (\<lambda>(created, bs).
     and_then (readFrame bs) (\<lambda>(locator, bs).
     and_then (readU 4 bs) (\<lambda>(count, bs).
     and_then (read_balances count bs) (\<lambda>(balances, bs).
     and_then (require (bs = []) ''snapshot_encoding_trailing_bytes'') (\<lambda>_.
     Inr \<lparr>sn_version = int version, sn_sequence = int sequence, sn_previous_commitment = previous, sn_new_commitment = new_commitment,
          sn_token_balances = balances, sn_policy_commitment = policy, sn_transition_nullifier = nullifier,
          sn_tsn_settlement_commitment = settlement, sn_created_at = int created, sn_encrypted_record_locator = td locator\<rparr>)))))))))))))"

definition decodeCanonicalTcapBalanceSnapshotV1 :: "(byte_list \<Rightarrow> string) \<Rightarrow> byte_list \<Rightarrow> balance_snapshot result" where
  "decodeCanonicalTcapBalanceSnapshotV1 td payload =
     and_then (readFrame payload) (\<lambda>(prefix, bs). and_then (hexFromBytes prefix) (\<lambda>new_commitment. decode_record td new_commitment bs))"

section \<open>Encryption\<close>

text \<open>Web Crypto's AES-GCM puts the tag of 16 bytes behind the ciphertext.\<close>

definition subtle_seal :: "host \<Rightarrow> byte_list \<Rightarrow> byte_list \<Rightarrow> byte_list \<Rightarrow> byte_list" where
  "subtle_seal h key iv plaintext = (case gcm_seal h key iv [] plaintext of (ct, tag) \<Rightarrow> ct @ tag)"

definition subtle_open :: "host \<Rightarrow> byte_list \<Rightarrow> byte_list \<Rightarrow> byte_list \<Rightarrow> byte_list result" where
  "subtle_open h key iv c =
     (if length c < 16 then Inl ''OperationError''
      else (case gcm_open h key iv [] (take (length c - 16) c) (drop (length c - 16) c) of
              None \<Rightarrow> Inl ''OperationError''
            | Some plaintext \<Rightarrow> Inr plaintext))"

definition importTcapSnapshotKey :: "byte_list \<Rightarrow> byte_list result" where
  "importTcapSnapshotKey rawKey =
     and_then (require (length rawKey \<in> {16, 24, 32}) ''snapshot_key_must_be_128_192_or_256_bits'') (\<lambda>_. Inr rawKey)"

definition encryptTcapBalanceSnapshotV1 :: "host \<Rightarrow> byte_list \<Rightarrow> balance_snapshot \<Rightarrow> byte_list \<Rightarrow> encrypted_snapshot result" where
  "encryptTcapBalanceSnapshotV1 h nonce s key =
     and_then (serializeTcapBalanceSnapshotV1 s) (\<lambda>bs.
     Inr \<lparr>en_version = sn_version s, en_sequence = sn_sequence s, en_previous_commitment = sn_previous_commitment s,
          en_new_commitment = sn_new_commitment s, en_policy_commitment = sn_policy_commitment s,
          en_transition_nullifier = sn_transition_nullifier s, en_tsn_settlement_commitment = sn_tsn_settlement_commitment s,
          en_created_at = sn_created_at s, en_encrypted_record_locator = sn_encrypted_record_locator s, en_nonce = nonce,
          en_ciphertext = subtle_seal h key nonce bs\<rparr>)"

definition envelope_matches :: "balance_snapshot \<Rightarrow> encrypted_snapshot \<Rightarrow> bool" where
  "envelope_matches s e \<longleftrightarrow> sn_version s = en_version e \<and> sn_sequence s = en_sequence e \<and> sn_new_commitment s = en_new_commitment e \<and>
     sn_previous_commitment s = en_previous_commitment e \<and> sn_policy_commitment s = en_policy_commitment e \<and>
     sn_transition_nullifier s = en_transition_nullifier e \<and> sn_tsn_settlement_commitment s = en_tsn_settlement_commitment e \<and>
     sn_created_at s = en_created_at e \<and> sn_encrypted_record_locator s = en_encrypted_record_locator e"

definition decryptAndVerifyTcapBalanceSnapshotV1 ::
  "host \<Rightarrow> encrypted_snapshot \<Rightarrow> byte_list \<Rightarrow> (byte_list \<Rightarrow> balance_snapshot result) \<Rightarrow> balance_snapshot result" where
  "decryptAndVerifyTcapBalanceSnapshotV1 h e key decode =
     and_then (subtle_open h key (en_nonce e) (en_ciphertext e)) (\<lambda>plaintext.
     and_then (decode plaintext) (\<lambda>s.
     and_then (require (envelope_matches s e) ''snapshot_envelope_binding_mismatch'') (\<lambda>_.
     and_then (computeTcapBalanceSnapshotCommitment h s) (\<lambda>c.
     and_then (require (c = lower (sn_new_commitment s)) ''snapshot_commitment_mismatch'') (\<lambda>_. Inr s)))))"

definition decryptTcapBalanceSnapshotV1 ::
  "host \<Rightarrow> (byte_list \<Rightarrow> string) \<Rightarrow> encrypted_snapshot \<Rightarrow> byte_list \<Rightarrow> balance_snapshot result" where
  "decryptTcapBalanceSnapshotV1 h td e key =
     and_then (require (en_version e = 1 \<and> length (en_nonce e) = 12) ''invalid_encrypted_snapshot_envelope'') (\<lambda>_.
     decryptAndVerifyTcapBalanceSnapshotV1 h e key (decodeCanonicalTcapBalanceSnapshotV1 td))"

section \<open>The history\<close>

definition prior_snapshot ::
  "host \<Rightarrow> (string \<Rightarrow> encrypted_snapshot option) \<Rightarrow> byte_list \<Rightarrow> (byte_list \<Rightarrow> balance_snapshot result) \<Rightarrow> string \<Rightarrow> balance_snapshot result" where
  "prior_snapshot h load key decode previous =
     (case load previous of
        None \<Rightarrow> Inl ''private_snapshot_history_gap''
      | Some e \<Rightarrow>
          and_then (decryptAndVerifyTcapBalanceSnapshotV1 h e key decode) (\<lambda>prior.
          and_then (require (sn_new_commitment prior = previous) ''private_snapshot_history_link_mismatch'') (\<lambda>_. Inr prior)))"

partial_function (option) read_history ::
  "(string \<Rightarrow> balance_snapshot result) \<Rightarrow> string \<Rightarrow> balance_snapshot list \<Rightarrow> balance_snapshot list result option" where
  "read_history step previous history =
     (if previous = ZERO_COMMITMENT then Some (Inr history)
      else (case step previous of
              Inl e \<Rightarrow> Some (Inl e)
            | Inr prior \<Rightarrow> read_history step (sn_previous_commitment prior) (history @ [prior])))"

text \<open>A caller's decoder is optional; the default is the canonical one.\<close>

definition decoder_of :: "(byte_list \<Rightarrow> string) \<Rightarrow> (byte_list \<Rightarrow> balance_snapshot result) option \<Rightarrow> byte_list \<Rightarrow> balance_snapshot result" where
  "decoder_of td decode = (case decode of None \<Rightarrow> decodeCanonicalTcapBalanceSnapshotV1 td | Some f \<Rightarrow> f)"

definition tip_snapshot ::
  "host \<Rightarrow> tip_state \<Rightarrow> (string \<Rightarrow> encrypted_snapshot option) \<Rightarrow> byte_list \<Rightarrow> (byte_list \<Rightarrow> balance_snapshot result) \<Rightarrow> balance_snapshot result" where
  "tip_snapshot h tip load key decode =
     and_then (normalizeCommitment (tip_current_commitment tip) ''tip_commitment'') (\<lambda>c.
     (case load c of
        None \<Rightarrow> Inl ''private_snapshot_not_found''
      | Some e \<Rightarrow>
          and_then (decryptAndVerifyTcapBalanceSnapshotV1 h e key decode) (\<lambda>s.
          and_then (assertSnapshotMatchesTip s tip) (\<lambda>_. Inr s))))"

definition readPrivateTcapBalance ::
  "host \<Rightarrow> (byte_list \<Rightarrow> string) \<Rightarrow> tip_state \<Rightarrow> (string \<Rightarrow> encrypted_snapshot option) \<Rightarrow> byte_list
     \<Rightarrow> (byte_list \<Rightarrow> balance_snapshot result) option \<Rightarrow> bool \<Rightarrow> (balance_snapshot \<times> balance_snapshot list) result option" where
  "readPrivateTcapBalance h td tip load key decode includeHistory =
     (case tip_snapshot h tip load key (decoder_of td decode) of
        Inl e \<Rightarrow> Some (Inl e)
      | Inr s \<Rightarrow>
          if \<not> includeHistory then Some (Inr (s, []))
          else map_option (\<lambda>r. and_then r (\<lambda>history. Inr (s, history)))
                 (read_history (prior_snapshot h load key (decoder_of td decode)) (sn_previous_commitment s) []))"

section \<open>Encoding and decoding\<close>

lemma hex_digit_val: "is_hex c \<Longrightarrow> hex_digit (hex_val c) = to_lower c \<and> hex_val c < 16"
proof -
  assume "is_hex c"
  then have "code c \<in> {48..57} \<union> {97..102} \<union> {65..70}" by (auto simp: is_hex_def is_lower_hex_def is_digit_def)
  then show ?thesis
    by (auto simp: hex_digit_def hex_val_def to_lower_def)
qed

lemma to_hex_from_hex: "list_all is_hex s \<Longrightarrow> even (length s) \<Longrightarrow> to_hex (from_hex s) = lower s"
proof (induction s rule: from_hex.induct)
  case (1 a b s)
  then show ?case using hex_digit_val [of a] hex_digit_val [of b] by (simp add: to_hex_def hex_byte_def lower_def)
qed (auto simp: to_hex_def lower_def)

lemma length_from_hex [simp]: "length (from_hex s) = length s div 2"
  by (induction s rule: from_hex.induct) auto

lemma bytesFromHex_Inr: "bytesFromHex v l = Inr bs \<Longrightarrow> length bs = 32 \<and> hexFromBytes bs = Inr (lower v)"
  by (auto simp: bytesFromHex_def hexFromBytes_def is_hex64_def to_hex_from_hex)

lemma u32_Inr: "u32 v l = Inr bs \<Longrightarrow> 0 \<le> v \<and> nat v < 256 ^ 4 \<and> bs = be_bytes 4 (nat v)"
  by (auto simp: u32_def nat_less_iff)

lemma u64_Inr: "u64 v l = Inr bs \<Longrightarrow> 0 \<le> v \<and> nat v < 256 ^ 8 \<and> bs = be_bytes 8 (nat v)"
  by (auto simp: u64_def nat_less_iff)

lemma take_bytes_append [simp]: "length xs = n \<Longrightarrow> take_bytes n (xs @ rest) = Inr (xs, rest)"
  by (simp add: take_bytes_def)

lemma readU_append: "v < 256 ^ n \<Longrightarrow> readU n (be_bytes n v @ rest) = Inr (v, rest)"
  by (simp add: readU_def be_val_be_bytes)

lemma readU_u32: "u32 v l = Inr bs \<Longrightarrow> readU 4 (bs @ rest) = Inr (nat v, rest) \<and> int (nat v) = v"
  using u32_Inr [of v l bs] readU_append [of "nat v" 4 rest] by simp

lemma readU_u64: "u64 v l = Inr bs \<Longrightarrow> readU 8 (bs @ rest) = Inr (nat v, rest) \<and> int (nat v) = v"
  using u64_Inr [of v l bs] readU_append [of "nat v" 8 rest] by simp

lemma readFrame_frame: "frame v = Inr bs \<Longrightarrow> readFrame (bs @ rest) = Inr (v, rest)"
  by (auto simp: frame_def readFrame_def readU_u32)

lemma read_commitment_bytes: "bytesFromHex v l = Inr bs \<Longrightarrow> read_commitment (bs @ rest) = Inr (lower v, rest)"
  using bytesFromHex_Inr [of v l bs] by (simp add: read_commitment_def)

lemma concat_all_append: "concat_all (xs @ ys) = and_then (concat_all xs) (\<lambda>a. and_then (concat_all ys) (\<lambda>b. Inr (a @ b)))"
proof (induction xs)
  case (Cons x xs)
  then show ?case by (cases x; cases "concat_all xs"; cases "concat_all ys") auto
qed (cases "concat_all ys"; simp)

lemma read_balances_bytes:
  "concat_all (map balance_bytes bs) = Inr out \<Longrightarrow> read_balances (length bs) (out @ rest) = Inr (bs, rest)"
proof (induction bs arbitrary: out)
  case (Cons b bs)
  then obtain i n st r out' where parts: "u32 (tb_token_id b) ''token_id'' = Inr i" "u64 (tb_native_amount b) ''native_amount'' = Inr n"
      "u64 (tb_stable_units b) ''stable_units'' = Inr st" "u32 (tb_stable_rate_version b) ''stable_rate_version'' = Inr r"
      and rest: "concat_all (map balance_bytes bs) = Inr out'" and out: "out = i @ n @ st @ r @ out'"
    by (auto simp: balance_bytes_def [of b])
  show ?case
    using readU_u32 [OF parts(1)] readU_u64 [OF parts(2)] readU_u64 [OF parts(3)] readU_u32 [OF parts(4)] Cons.IH [OF rest]
    by (simp add: out)
qed simp

definition canonical_snapshot :: "balance_snapshot \<Rightarrow> balance_snapshot" where
  "canonical_snapshot s =
     s\<lparr>sn_previous_commitment := lower (sn_previous_commitment s), sn_new_commitment := lower (sn_new_commitment s),
       sn_policy_commitment := lower (sn_policy_commitment s), sn_transition_nullifier := lower (sn_transition_nullifier s),
       sn_tsn_settlement_commitment := lower (sn_tsn_settlement_commitment s),
       sn_token_balances := sorted_balances (sn_token_balances s)\<rparr>"

definition decoder_law :: "(byte_list \<Rightarrow> string) \<Rightarrow> bool" where
  "decoder_law td \<longleftrightarrow> (\<forall>s. td (utf8 s) = s)"

lemma length_sorted_balances [simp]: "length (sorted_balances bs) = length bs"
  by (simp add: sorted_balances_def)

lemma decode_record_parts:
  assumes "decoder_law td" "concat_all (record_parts s) = Inr bs"
  shows "decode_record td (lower (sn_new_commitment s)) bs = Inr (canonical_snapshot s)"
proof -
  obtain a b c d e f g i j k out where parts: "frame (utf8 SNAPSHOT_DOMAIN) = Inr a" "u32 (sn_version s) ''version'' = Inr b"
      "u64 (sn_sequence s) ''sequence'' = Inr c" "bytesFromHex (sn_previous_commitment s) ''previous_commitment'' = Inr d"
      "bytesFromHex (sn_policy_commitment s) ''policy_commitment'' = Inr e"
      "bytesFromHex (sn_transition_nullifier s) ''transition_nullifier'' = Inr f"
      "bytesFromHex (sn_tsn_settlement_commitment s) ''tsn_settlement_commitment'' = Inr g" "u64 (sn_created_at s) ''created_at'' = Inr i"
      "frame (utf8 (sn_encrypted_record_locator s)) = Inr j" "u32 (int (length (sn_token_balances s))) ''balance_count'' = Inr k"
      and out: "concat_all (map balance_bytes (sorted_balances (sn_token_balances s))) = Inr out"
      and bs: "bs = a @ b @ c @ d @ e @ f @ g @ i @ j @ k @ out"
    using assms(2) by (auto simp: record_parts_def)
  note steps = readFrame_frame [OF parts(1)] readU_u32 [OF parts(2)] readU_u64 [OF parts(3)] read_commitment_bytes [OF parts(4)]
    read_commitment_bytes [OF parts(5)] read_commitment_bytes [OF parts(6)] read_commitment_bytes [OF parts(7)] readU_u64 [OF parts(8)]
    readFrame_frame [OF parts(9)] readU_u32 [OF parts(10)]
  have "read_balances (length (sn_token_balances s)) out = Inr (sorted_balances (sn_token_balances s), [])"
    using read_balances_bytes [OF out, of "[]"] by simp
  moreover have "td (utf8 x) = x" for x using assms(1) by (simp add: decoder_law_def)
  ultimately show ?thesis
    using steps by (simp add: decode_record_def bs canonical_snapshot_def)
qed

lemma decode_serialize:
  assumes "decoder_law td" "serializeTcapBalanceSnapshotV1 s = Inr bs"
  shows "decodeCanonicalTcapBalanceSnapshotV1 td bs = Inr (canonical_snapshot s)"
proof -
  from assms(2) obtain v a r where v: "bytesFromHex (sn_new_commitment s) ''new_commitment'' = Inr v" and a: "frame v = Inr a"
      and r: "concat_all (record_parts s) = Inr r" and bs: "bs = a @ r"
    by (auto simp: serializeTcapBalanceSnapshotV1_def serializeTcapBalanceCommitmentRecordV1_def)
  show ?thesis
    using readFrame_frame [OF a, of r] bytesFromHex_Inr [OF v] decode_record_parts [OF assms(1) r]
    by (simp add: decodeCanonicalTcapBalanceSnapshotV1_def bs)
qed

section \<open>Commitments do not depend on the order of balances\<close>

definition balance_ok :: "token_balance \<Rightarrow> bool" where
  "balance_ok b \<longleftrightarrow> safe_number (tb_token_id b) \<and> 1 \<le> tb_token_id b \<and> 0 \<le> tb_native_amount b \<and> 0 \<le> tb_stable_units b \<and>
     safe_number (tb_stable_rate_version b) \<and> 1 \<le> tb_stable_rate_version b"

lemma check_balances_iff:
  "check_balances seen bs = Inr () \<longleftrightarrow> (\<forall>b \<in> set bs. balance_ok b) \<and> distinct (map tb_token_id bs) \<and> tb_token_id ` set bs \<inter> set seen = {}"
  by (induction bs arbitrary: seen) (auto simp: balance_ok_def)

interpretation token_order: comparator "\<lambda>l r. tb_token_id l \<le> tb_token_id r"
  by unfold_locales auto

lemma sort_by_sorted: "sorted_wrt le xs \<Longrightarrow> sort_by le xs = xs"
proof (induction xs)
  case (Cons x xs)
  then show ?case by (cases xs) (auto simp: sort_by_Cons)
qed simp

lemma sorted_balances_idem [simp]: "sorted_balances (sorted_balances bs) = sorted_balances bs"
  unfolding sorted_balances_def by (rule sort_by_sorted) (rule token_order.sorted_sort_by)

lemma check_sorted_balances: "check_balances [] (sorted_balances bs) = Inr () \<longleftrightarrow> check_balances [] bs = Inr ()"
proof -
  have "mset (map tb_token_id (sorted_balances bs)) = mset (map tb_token_id bs)" by (simp add: sorted_balances_def)
  then have "distinct (map tb_token_id (sorted_balances bs)) \<longleftrightarrow> distinct (map tb_token_id bs)" by (rule mset_eq_imp_distinct_iff)
  then show ?thesis by (simp add: check_balances_iff) (simp add: sorted_balances_def)
qed

lemma serialize_sorted:
  "serializeTcapBalanceCommitmentRecordV1 s = Inr bs \<Longrightarrow>
     serializeTcapBalanceCommitmentRecordV1 (s\<lparr>sn_token_balances := sorted_balances (sn_token_balances s)\<rparr>) = Inr bs"
  by (auto simp: serializeTcapBalanceCommitmentRecordV1_def validateSnapshot_def record_parts_def check_sorted_balances)

section \<open>What the owner reads\<close>

lemma subtle_open_seal:
  assumes "gcm_law h" "tag_law h" "octets key" "octets iv" "octets pt"
  shows "subtle_open h key iv (subtle_seal h key iv pt) = Inr pt"
proof -
  obtain ct tag where seal: "gcm_seal h key iv [] pt = (ct, tag)" by (cases "gcm_seal h key iv [] pt")
  have "length (snd (gcm_seal h key iv [] pt)) = 16" using assms(2) unfolding tag_law_def by blast
  then have "length tag = 16" using seal by simp
  moreover have "gcm_open h key iv [] ct tag = Some pt"
    using gcm_lawD(3) [OF assms(1,3,4) _ assms(5) seal] by simp
  ultimately show ?thesis using seal by (simp add: subtle_open_def subtle_seal_def)
qed

lemma octets_from_hex: "list_all is_hex s \<Longrightarrow> octets (from_hex s)"
  by (induction s rule: from_hex.induct) (auto dest!: hex_digit_val)

lemma octets_parts:
  "u32 v l = Inr bs \<Longrightarrow> octets bs" "u64 v l = Inr bs \<Longrightarrow> octets bs" "bytesFromHex x l = Inr bs \<Longrightarrow> octets bs"
  "octets y \<Longrightarrow> frame y = Inr bs \<Longrightarrow> octets bs"
  by (auto simp: u32_def u64_def bytesFromHex_def is_hex64_def frame_def octets_be_bytes octets_from_hex)

lemma octets_concat_all:
  "concat_all rs = Inr bs \<Longrightarrow> (\<And>r x. r \<in> set rs \<Longrightarrow> r = Inr x \<Longrightarrow> octets x) \<Longrightarrow> octets bs"
proof (induction rs arbitrary: bs)
  case (Cons r rs)
  then obtain a b where "r = Inr a" "concat_all rs = Inr b" "bs = a @ b" by auto
  with Cons show ?case by (metis list.set_intros list_all_append)
qed simp

lemma octets_balance: "balance_bytes b = Inr bs \<Longrightarrow> octets bs"
  unfolding balance_bytes_def by (erule octets_concat_all) (auto intro: octets_parts)

lemma octets_record: "serializeTcapBalanceCommitmentRecordV1 s = Inr bs \<Longrightarrow> octets bs"
  unfolding serializeTcapBalanceCommitmentRecordV1_def and_then_Inr_iff
  by (elim exE conjE, erule octets_concat_all) (auto simp: record_parts_def intro: octets_parts octets_parts(4) [OF octets_utf8] octets_balance dest: sym)

lemma octets_snapshot:
  assumes "serializeTcapBalanceSnapshotV1 s = Inr bs"
  shows "octets bs"
proof -
  from assms obtain v a r where "bytesFromHex (sn_new_commitment s) ''new_commitment'' = Inr v" "frame v = Inr a"
      "serializeTcapBalanceCommitmentRecordV1 s = Inr r" "bs = a @ r"
    by (auto simp: serializeTcapBalanceSnapshotV1_def)
  moreover from this have "octets a" by (blast intro: octets_parts)
  ultimately show ?thesis using octets_record by simp
qed

text \<open>Commitments of a snapshot written in lower case.\<close>

definition lower_case :: "balance_snapshot \<Rightarrow> bool" where
  "lower_case s \<longleftrightarrow> list_all (\<lambda>c. lower c = c) [sn_previous_commitment s, sn_new_commitment s, sn_policy_commitment s,
     sn_transition_nullifier s, sn_tsn_settlement_commitment s]"

lemma decrypted_payload:
  assumes "gcm_law h" "tag_law h" "decoder_law td" "octets key" "octets nonce" "encryptTcapBalanceSnapshotV1 h nonce s key = Inr e"
  shows "decryptAndVerifyTcapBalanceSnapshotV1 h e key (decodeCanonicalTcapBalanceSnapshotV1 td) =
    and_then (require (envelope_matches (canonical_snapshot s) e) ''snapshot_envelope_binding_mismatch'') (\<lambda>_.
    and_then (computeTcapBalanceSnapshotCommitment h (canonical_snapshot s)) (\<lambda>c.
    and_then (require (c = lower (sn_new_commitment (canonical_snapshot s))) ''snapshot_commitment_mismatch'') (\<lambda>_.
    Inr (canonical_snapshot s))))"
proof -
  from assms(6) obtain bs where bs: "serializeTcapBalanceSnapshotV1 s = Inr bs"
      and e: "en_nonce e = nonce" "en_ciphertext e = subtle_seal h key nonce bs"
    by (auto simp: encryptTcapBalanceSnapshotV1_def)
  show ?thesis
    using subtle_open_seal [OF assms(1,2,4,5) octets_snapshot [OF bs]] decode_serialize [OF assms(3) bs]
    by (simp add: decryptAndVerifyTcapBalanceSnapshotV1_def e)
qed

lemma canonical_lower: "lower_case s \<Longrightarrow> canonical_snapshot s = s\<lparr>sn_token_balances := sorted_balances (sn_token_balances s)\<rparr>"
  by (simp add: lower_case_def canonical_snapshot_def)

lemma snapshot_reopened:
  assumes "gcm_law h" "tag_law h" "decoder_law td" "octets key" "octets nonce" "encryptTcapBalanceSnapshotV1 h nonce s key = Inr e"
  shows "sn_version s = 1 \<and> en_version e = 1 \<and> en_nonce e = nonce"
    and "lower_case s \<Longrightarrow> computeTcapBalanceSnapshotCommitment h s = Inr (sn_new_commitment s) \<Longrightarrow>
      decryptAndVerifyTcapBalanceSnapshotV1 h e key (decodeCanonicalTcapBalanceSnapshotV1 td) =
      Inr (s\<lparr>sn_token_balances := sorted_balances (sn_token_balances s)\<rparr>)"
    and "\<not> lower_case s \<Longrightarrow> decryptAndVerifyTcapBalanceSnapshotV1 h e key (decodeCanonicalTcapBalanceSnapshotV1 td) =
      Inl ''snapshot_envelope_binding_mismatch''"
proof -
  from assms(6) obtain bs r where s1: "sn_version s = 1" and r: "serializeTcapBalanceCommitmentRecordV1 s = Inr r"
      and e: "e = \<lparr>en_version = sn_version s, en_sequence = sn_sequence s, en_previous_commitment = sn_previous_commitment s,
          en_new_commitment = sn_new_commitment s, en_policy_commitment = sn_policy_commitment s,
          en_transition_nullifier = sn_transition_nullifier s, en_tsn_settlement_commitment = sn_tsn_settlement_commitment s,
          en_created_at = sn_created_at s, en_encrypted_record_locator = sn_encrypted_record_locator s, en_nonce = nonce,
          en_ciphertext = subtle_seal h key nonce bs\<rparr>"
    by (auto simp: encryptTcapBalanceSnapshotV1_def serializeTcapBalanceSnapshotV1_def serializeTcapBalanceCommitmentRecordV1_def
        validateSnapshot_def)
  show "sn_version s = 1 \<and> en_version e = 1 \<and> en_nonce e = nonce" by (simp add: e s1)
  have matches: "envelope_matches (canonical_snapshot s) e \<longleftrightarrow> lower_case s"
    by (auto simp: envelope_matches_def canonical_snapshot_def e lower_case_def)
  note payload = decrypted_payload [OF assms]
  show "decryptAndVerifyTcapBalanceSnapshotV1 h e key (decodeCanonicalTcapBalanceSnapshotV1 td) = Inl ''snapshot_envelope_binding_mismatch''"
    if "\<not> lower_case s" using that by (simp add: payload matches)
  assume that: "lower_case s" "computeTcapBalanceSnapshotCommitment h s = Inr (sn_new_commitment s)"
  have "computeTcapBalanceSnapshotCommitment h (canonical_snapshot s) = Inr (sn_new_commitment s)"
    using that r serialize_sorted [OF r] by (simp add: canonical_lower computeTcapBalanceSnapshotCommitment_def)
  moreover have "lower (sn_new_commitment s) = sn_new_commitment s" using that(1) by (simp add: lower_case_def)
  ultimately show "decryptAndVerifyTcapBalanceSnapshotV1 h e key (decodeCanonicalTcapBalanceSnapshotV1 td) =
      Inr (s\<lparr>sn_token_balances := sorted_balances (sn_token_balances s)\<rparr>)"
    using that(1) by (simp add: payload matches) (simp add: canonical_lower)
qed

text \<open>
  A sealed balance snapshot is read back by its owner: if the snapshot carries its own commitment
  and its commitments are written in lower case, opening what encryption produced returns the
  snapshot with its balances in token order. A snapshot with an upper-case digit in a commitment is
  encrypted without complaint and can never be opened.
\<close>

theorem private_snapshot_roundtrip:
  assumes "gcm_law h" "tag_law h" "decoder_law td" "octets key" "octets nonce" "length nonce = 12"
    and "encryptTcapBalanceSnapshotV1 h nonce s key = Inr e"
  shows "(lower_case s \<and> computeTcapBalanceSnapshotCommitment h s = Inr (sn_new_commitment s) \<longrightarrow>
      decryptTcapBalanceSnapshotV1 h td e key = Inr (s\<lparr>sn_token_balances := sorted_balances (sn_token_balances s)\<rparr>)) \<and>
    (\<not> lower_case s \<longrightarrow> decryptTcapBalanceSnapshotV1 h td e key = Inl ''snapshot_envelope_binding_mismatch'')"
  using snapshot_reopened [OF assms(1-5,7)] assms(6) by (simp add: decryptTcapBalanceSnapshotV1_def)

section \<open>The history is the chain below the tip\<close>

fun linked :: "host \<Rightarrow> string \<Rightarrow> balance_snapshot list \<Rightarrow> bool" where
  "linked h previous [] \<longleftrightarrow> previous = ZERO_COMMITMENT"
| "linked h previous (x # xs) \<longleftrightarrow> previous \<noteq> ZERO_COMMITMENT \<and> sn_new_commitment x = previous \<and>
     computeTcapBalanceSnapshotCommitment h x = Inr (lower previous) \<and> linked h (sn_previous_commitment x) xs"

lemma decrypted_committed:
  "decryptAndVerifyTcapBalanceSnapshotV1 h e key decode = Inr s \<Longrightarrow> computeTcapBalanceSnapshotCommitment h s = Inr (lower (sn_new_commitment s))"
  by (auto simp: decryptAndVerifyTcapBalanceSnapshotV1_def)

lemma prior_snapshot_committed:
  "prior_snapshot h load key decode c = Inr x \<Longrightarrow> sn_new_commitment x = c \<and> computeTcapBalanceSnapshotCommitment h x = Inr (lower c)"
  by (auto simp: prior_snapshot_def dest: decrypted_committed split: option.splits)

lemma read_history_linked:
  assumes "read_history (prior_snapshot h load key decode) c acc = Some (Inr out)"
  shows "\<exists>xs. out = acc @ xs \<and> linked h c xs"
proof -
  let ?step = "prior_snapshot h load key decode"
  have "step = ?step \<longrightarrow> r = Inr out \<longrightarrow> (\<exists>xs. out = acc @ xs \<and> linked h c xs)"
    if read: "read_history step c acc = Some r" for step c acc r
  proof (rule read_history.raw_induct [OF _ read], intro impI, goal_cases)
    case (1 rec step c acc r)
    show ?case
    proof (cases "c = ZERO_COMMITMENT")
      case True
      with 1(2,4) show ?thesis by simp
    next
      case False
      with 1(2,4) obtain x where x: "step c = Inr x" and rec: "rec step (sn_previous_commitment x) (acc @ [x]) = Some r"
        by (cases "step c") auto
      from 1(1) [OF rec] 1(3,4) obtain xs where "out = (acc @ [x]) @ xs" "linked h (sn_previous_commitment x) xs" by blast
      then have "out = acc @ x # xs \<and> linked h c (x # xs)"
        using x 1(3) False prior_snapshot_committed [of h load key decode c x] by simp
      then show ?thesis by blast
    qed
  qed
  with assms show ?thesis by blast
qed

lemma tip_snapshot_Inr:
  assumes "tip_snapshot h tip load key decode = Inr s"
  shows "normalizeCommitment (tip_current_commitment tip) ''tip_commitment'' = Inr (lower (sn_new_commitment s)) \<and>
    sn_sequence s = tip_sequence tip \<and> computeTcapBalanceSnapshotCommitment h s = Inr (lower (sn_new_commitment s))"
  using assms by (auto simp: tip_snapshot_def assertSnapshotMatchesTip_def dest: decrypted_committed split: option.splits)

text \<open>Equal records are equal snapshots, up to the case of digits, the order of balances and the commitment itself.\<close>

lemma record_determines:
  assumes "serializeTcapBalanceCommitmentRecordV1 s = Inr bs" "serializeTcapBalanceCommitmentRecordV1 s' = Inr bs"
  shows "canonical_snapshot (s\<lparr>sn_new_commitment := c\<rparr>) = canonical_snapshot (s'\<lparr>sn_new_commitment := c\<rparr>)"
proof -
  let ?td = "\<lambda>bs. the (utf8_decode bs)"
  have td: "decoder_law ?td" by (simp add: decoder_law_def)
  have "decode_record ?td (lower c) bs = Inr (canonical_snapshot (x\<lparr>sn_new_commitment := c\<rparr>))"
    if "serializeTcapBalanceCommitmentRecordV1 x = Inr bs" for x
    using decode_record_parts [OF td, of "x\<lparr>sn_new_commitment := c\<rparr>" bs] that
    by (simp add: serializeTcapBalanceCommitmentRecordV1_def record_parts_def)
  from this [OF assms(1)] this [OF assms(2)] show ?thesis by simp
qed

definition history_complete :: "host \<Rightarrow> bool \<Rightarrow> balance_snapshot \<Rightarrow> balance_snapshot list \<Rightarrow> bool" where
  "history_complete h includeHistory s history \<longleftrightarrow>
     (if includeHistory then linked h (sn_previous_commitment s) history else history = [])"

definition same_balances :: "balance_snapshot \<Rightarrow> balance_snapshot \<Rightarrow> bool" where
  "same_balances s s' \<longleftrightarrow> canonical_snapshot (s\<lparr>sn_new_commitment := []\<rparr>) = canonical_snapshot (s'\<lparr>sn_new_commitment := []\<rparr>)"

text \<open>
  C22: What the owner reads is what the chain commits to. The snapshot returned has the commitment and
  sequence number of the on-chain tip, whatever the store delivers; any snapshot committed to under
  that value, if the two records do not collide, has the same balances, policy, nullifier and
  predecessor; and a history, when asked for, is the complete chain of predecessors down to the
  zero commitment, each with its own commitment recomputed.
\<close>

theorem private_balance_matches_tip:
  assumes "readPrivateTcapBalance h td tip load key decode includeHistory = Some (Inr (s, history))"
  shows "normalizeCommitment (tip_current_commitment tip) ''tip_commitment'' = Inr (lower (sn_new_commitment s)) \<and>
    sn_sequence s = tip_sequence tip \<and> history_complete h includeHistory s history \<and>
    (\<exists>bs. serializeTcapBalanceCommitmentRecordV1 s = Inr bs \<and> hexFromBytes (sha256 h bs) = Inr (lower (sn_new_commitment s)) \<and>
       (\<forall>s' bs'. serializeTcapBalanceCommitmentRecordV1 s' = Inr bs' \<and> hexFromBytes (sha256 h bs') = Inr (lower (sn_new_commitment s)) \<and>
          inj_on (to_hex \<circ> sha256 h) {bs, bs'} \<longrightarrow> same_balances s s'))"
proof -
  obtain r where tip: "tip_snapshot h tip load key (decoder_of td decode) = Inr r"
    using assms by (cases "tip_snapshot h tip load key (decoder_of td decode)") (auto simp: readPrivateTcapBalance_def)
  let ?step = "prior_snapshot h load key (decoder_of td decode)"
  have read: "if includeHistory then read_history ?step (sn_previous_commitment r) [] = Some (Inr history) \<and> s = r else s = r \<and> history = []"
    using assms tip by (auto simp: readPrivateTcapBalance_def split: if_splits)
  then have s: "r = s" by (simp split: if_splits)
  have "history_complete h includeHistory s history"
  proof (cases includeHistory)
    case True
    with read s have "read_history ?step (sn_previous_commitment s) [] = Some (Inr history)" by simp
    from read_history_linked [OF this] True show ?thesis by (auto simp: history_complete_def)
  qed (use read in \<open>simp add: history_complete_def\<close>)
  moreover obtain bs where bs: "serializeTcapBalanceCommitmentRecordV1 s = Inr bs" "hexFromBytes (sha256 h bs) = Inr (lower (sn_new_commitment s))"
    using tip_snapshot_Inr [OF tip] by (auto simp: s computeTcapBalanceSnapshotCommitment_def)
  moreover have "same_balances s s'" if "serializeTcapBalanceCommitmentRecordV1 s' = Inr bs'"
      "hexFromBytes (sha256 h bs') = Inr (lower (sn_new_commitment s))" "inj_on (to_hex \<circ> sha256 h) {bs, bs'}" for s' bs'
  proof -
    have "(to_hex \<circ> sha256 h) bs = (to_hex \<circ> sha256 h) bs'" using that(2) bs(2) by (simp add: hexFromBytes_def)
    then have "bs = bs'" by (rule inj_onD [OF that(3)]) simp_all
    then show ?thesis using record_determines [OF bs(1)] that(1) by (simp add: same_balances_def)
  qed
  ultimately show ?thesis using tip_snapshot_Inr [OF tip, unfolded s] by blast
qed

section \<open>The walk returns\<close>

lemma committed_nonneg: "computeTcapBalanceSnapshotCommitment h x = Inr c \<Longrightarrow> 0 \<le> sn_sequence x"
  by (auto simp: computeTcapBalanceSnapshotCommitment_def serializeTcapBalanceCommitmentRecordV1_def validateSnapshot_def)

lemma read_history_returns:
  assumes "\<And>c p q. step c = Inr p \<Longrightarrow> sn_previous_commitment p \<noteq> ZERO_COMMITMENT \<Longrightarrow> step (sn_previous_commitment p) = Inr q \<Longrightarrow>
      sn_sequence q < sn_sequence p"
    and "\<And>c p. step c = Inr p \<Longrightarrow> 0 \<le> sn_sequence p"
  shows "\<exists>r. read_history step c acc = Some r"
proof -
  have "\<exists>r. read_history step c acc = Some r" if "step c = Inr p" "nat (sn_sequence p) = n" for c p n acc
    using that
  proof (induction n arbitrary: c p acc rule: less_induct)
    case (less n)
    let ?d = "sn_previous_commitment p"
    have "\<exists>r. read_history step ?d (acc @ [p]) = Some r"
    proof (cases "?d = ZERO_COMMITMENT")
      case True
      then show ?thesis by (subst read_history.simps) simp
    next
      case False
      show ?thesis
      proof (cases "step ?d")
        case (Inl e)
        with False show ?thesis by (subst read_history.simps) simp
      next
        case (Inr q)
        then have "nat (sn_sequence q) < n" using assms(1) [OF less.prems(1) False Inr] assms(2) [OF Inr] less.prems(2) by simp
        from less.IH [OF this Inr refl] show ?thesis .
      qed
    qed
    then show ?case using less.prems(1) by (subst read_history.simps) simp
  qed
  then show ?thesis
  proof (cases "step c")
    case (Inl e)
    then show ?thesis by (subst read_history.simps) simp
  qed blast
qed


definition sample_snapshot :: balance_snapshot where
  "sample_snapshot =
     \<lparr>sn_version = 1, sn_sequence = 7, sn_previous_commitment = ZERO_COMMITMENT,
      sn_new_commitment = to_hex ([0, 0, 0, 24] @ utf8 SNAPSHOT_DOMAIN @ [0, 0, 0, 1]),
      sn_token_balances = [\<lparr>tb_token_id = 2, tb_native_amount = 5, tb_stable_units = 6, tb_stable_rate_version = 1\<rparr>,
        \<lparr>tb_token_id = 1, tb_native_amount = 3, tb_stable_units = 4, tb_stable_rate_version = 1\<rparr>],
      sn_policy_commitment = ZERO_COMMITMENT, sn_transition_nullifier = ZERO_COMMITMENT, sn_tsn_settlement_commitment = ZERO_COMMITMENT,
      sn_created_at = 9, sn_encrypted_record_locator = ''loc''\<rparr>"

definition sample_td :: "byte_list \<Rightarrow> string" where
  "sample_td bs = the (utf8_decode bs)"

lemma sample_snapshot_laws: "gcm_law sample_host" "tag_law sample_host" "decoder_law sample_td"
  by (simp_all add: sample_laws tag_law_def decoder_law_def sample_td_def)

lemma be_bytes_numeral: "be_bytes (numeral k) v = (v div 256 ^ pred_numeral k) mod 256 # be_bytes (pred_numeral k) v"
  using be_bytes.simps(2) [of "pred_numeral k" v] by (simp only: numeral_eq_Suc [of k, symmetric])

lemma hex_text: "octets bs \<Longrightarrow> length bs = 32 \<Longrightarrow> is_hex64 (to_hex bs) \<and> lower (to_hex bs) = to_hex bs"
proof -
  assume bs: "octets bs" "length bs = 32"
  then have hex: "list_all is_hex (to_hex bs)" using to_hex_lower_hex [of bs] by (auto simp: list_all_iff is_hex_def)
  from to_hex_from_hex [OF this] bs have "lower (to_hex bs) = to_hex bs" by (simp add: from_to_hex)
  with hex bs show ?thesis by (simp add: is_hex64_def)
qed

lemma zero_hex: "is_hex64 ZERO_COMMITMENT \<and> lower ZERO_COMMITMENT = ZERO_COMMITMENT"
proof -
  have "ZERO_COMMITMENT = to_hex (replicate 32 0)" unfolding ZERO_COMMITMENT_def by code_simp
  then show ?thesis using hex_text [of "replicate 32 0"] by (simp add: octets_replicate)
qed

lemma concat_all_Inr: "(\<And>r. r \<in> set rs \<Longrightarrow> \<exists>x. r = Inr x) \<Longrightarrow> \<exists>bs. concat_all rs = Inr bs"
  by (induction rs) fastforce+

lemma parts_Inr:
  "0 \<le> v \<Longrightarrow> v \<le> 1000 \<Longrightarrow> \<exists>bs. u32 v l = Inr bs" "0 \<le> v \<Longrightarrow> v \<le> 1000 \<Longrightarrow> \<exists>bs. u64 v l = Inr bs"
  "is_hex64 x \<Longrightarrow> \<exists>bs. bytesFromHex x l = Inr bs" "length y \<le> 1000 \<Longrightarrow> \<exists>bs. frame y = Inr bs"
  by (auto simp: u32_def u64_def bytesFromHex_def frame_def safe_number_def max_safe_integer_def)

abbreviation sample_head :: byte_list where
  "sample_head \<equiv> [0, 0, 0, 24] @ utf8 SNAPSHOT_DOMAIN @ [0, 0, 0, 1]"

lemma domain_length: "length (utf8 SNAPSHOT_DOMAIN) = 24"
  by code_simp

lemma sample_new: "is_hex64 (sn_new_commitment sample_snapshot) \<and> lower (sn_new_commitment sample_snapshot) = sn_new_commitment sample_snapshot"
  using hex_text [of sample_head] by (simp add: sample_snapshot_def domain_length)

lemma sample_valid: "validateSnapshot sample_snapshot = Inr ()"
proof -
  have "check_balances [] (sn_token_balances sample_snapshot) = Inr ()"
    by (simp add: sample_snapshot_def safe_number_def max_safe_integer_def)
  then show ?thesis using zero_hex sample_new
    by (simp add: validateSnapshot_def bytesFromHex_def) (simp add: sample_snapshot_def)
qed

lemma sample_balance_parts:
  "balance_bytes \<lparr>tb_token_id = i, tb_native_amount = n, tb_stable_units = m, tb_stable_rate_version = 1\<rparr> = Inr
     (be_bytes 4 (nat i) @ be_bytes 8 (nat n) @ be_bytes 8 (nat m) @ be_bytes 4 1)"
  if "1 \<le> i" "i \<le> 1000" "0 \<le> n" "n \<le> 1000" "0 \<le> m" "m \<le> 1000"
  using that by (simp add: balance_bytes_def u32_def u64_def safe_number_def max_safe_integer_def)

lemma sample_record: "\<exists>rest. serializeTcapBalanceCommitmentRecordV1 sample_snapshot = Inr (sample_head @ rest)"
proof -
  have parts: "frame (utf8 SNAPSHOT_DOMAIN) = Inr ([0, 0, 0, 24] @ utf8 SNAPSHOT_DOMAIN)" "u32 1 l = Inr [0, 0, 0, 1]" for l
    by (simp_all add: frame_def domain_length u32_def safe_number_def max_safe_integer_def be_bytes_numeral)
  have split: "record_parts sample_snapshot = frame (utf8 SNAPSHOT_DOMAIN) # u32 1 ''version'' # drop 2 (record_parts sample_snapshot)"
    by (simp add: record_parts_def sample_snapshot_def)
  have "\<exists>bs. concat_all (drop 2 (record_parts sample_snapshot)) = Inr bs"
  proof (rule concat_all_Inr)
    fix r assume "r \<in> set (drop 2 (record_parts sample_snapshot))"
    moreover have "length (utf8 ''loc'') \<le> 1000" by code_simp
    ultimately show "\<exists>x. r = Inr x"
      using zero_hex by (auto simp: record_parts_def sample_snapshot_def sorted_balances_def sort_by_def sample_balance_parts intro: parts_Inr)
  qed
  then obtain bs where bs: "concat_all (drop 2 (record_parts sample_snapshot)) = Inr bs" by blast
  have "concat_all (record_parts sample_snapshot) = Inr (sample_head @ bs)" by (subst split) (simp add: parts bs)
  then show ?thesis using sample_valid by (simp add: serializeTcapBalanceCommitmentRecordV1_def)
qed

lemma sample_commitment: "computeTcapBalanceSnapshotCommitment sample_host sample_snapshot = Inr (sn_new_commitment sample_snapshot)"
proof -
  obtain rest where rest: "serializeTcapBalanceCommitmentRecordV1 sample_snapshot = Inr (sample_head @ rest)" using sample_record by blast
  have "map (\<lambda>b. b mod 256) sample_head = sample_head"
    using octets_utf8 [of SNAPSHOT_DOMAIN] by (auto simp: list_all_iff intro: map_idI)
  then have "sha256 sample_host (sample_head @ rest) = sample_head" by (simp add: domain_length)
  then show ?thesis using rest
    by (simp add: computeTcapBalanceSnapshotCommitment_def hexFromBytes_def domain_length del: sample_host_simps) (simp add: sample_snapshot_def)
qed

lemma sample_lower: "lower_case sample_snapshot"
  using zero_hex sample_new by (simp add: lower_case_def) (simp add: sample_snapshot_def)

abbreviation sample_key :: byte_list where
  "sample_key \<equiv> replicate 32 2"

lemma sample_encrypted: "\<exists>e. encryptTcapBalanceSnapshotV1 sample_host (replicate 12 1) sample_snapshot sample_key = Inr e"
proof -
  obtain rest where "serializeTcapBalanceCommitmentRecordV1 sample_snapshot = Inr (sample_head @ rest)" using sample_record by blast
  moreover have "\<exists>a. and_then (bytesFromHex (sn_new_commitment sample_snapshot) ''new_commitment'') frame = Inr a"
    using sample_new by (simp add: bytesFromHex_def) (auto intro!: parts_Inr(4) simp: is_hex64_def)
  ultimately show ?thesis by (auto simp: encryptTcapBalanceSnapshotV1_def serializeTcapBalanceSnapshotV1_def)
qed

lemma sample_octets: "octets sample_key" "octets (replicate 12 1)"
  by (simp_all add: octets_replicate)

abbreviation sample_sorted :: balance_snapshot where
  "sample_sorted \<equiv> sample_snapshot\<lparr>sn_token_balances := rev (sn_token_balances sample_snapshot)\<rparr>"

lemma sample_sorting: "sorted_balances (sn_token_balances sample_snapshot) = rev (sn_token_balances sample_snapshot)"
  by (simp add: sample_snapshot_def sorted_balances_def sort_by_def)

theorem private_snapshot_roundtrip_witness:
  "\<exists>e. encryptTcapBalanceSnapshotV1 sample_host (replicate 12 1) sample_snapshot sample_key = Inr e \<and>
     decryptTcapBalanceSnapshotV1 sample_host sample_td e sample_key = Inr sample_sorted"
proof -
  obtain e where e: "encryptTcapBalanceSnapshotV1 sample_host (replicate 12 1) sample_snapshot sample_key = Inr e"
    using sample_encrypted by blast
  show ?thesis
    using private_snapshot_roundtrip [OF sample_snapshot_laws sample_octets _ e] sample_lower sample_commitment e
    by (simp add: sample_sorting)
qed

definition sample_tip :: tip_state where
  "sample_tip = \<lparr>tip_current_commitment = HexText (sn_new_commitment sample_snapshot), tip_sequence = 7\<rparr>"

definition sample_load :: "encrypted_snapshot \<Rightarrow> string \<Rightarrow> encrypted_snapshot option" where
  "sample_load e c = (if c = sn_new_commitment sample_snapshot then Some e else None)"

lemma sample_read:
  "\<exists>e. readPrivateTcapBalance sample_host sample_td sample_tip (sample_load e) sample_key None True = Some (Inr (sample_sorted, []))"
proof -
  obtain e where e: "encryptTcapBalanceSnapshotV1 sample_host (replicate 12 1) sample_snapshot sample_key = Inr e"
    using sample_encrypted by blast
  have "decryptAndVerifyTcapBalanceSnapshotV1 sample_host e sample_key (decodeCanonicalTcapBalanceSnapshotV1 sample_td) = Inr sample_sorted"
    using snapshot_reopened(2) [OF sample_snapshot_laws sample_octets e sample_lower sample_commitment] by (simp add: sample_sorting)
  moreover have "sn_sequence sample_snapshot = 7" "sn_previous_commitment sample_snapshot = ZERO_COMMITMENT"
    by (simp_all add: sample_snapshot_def)
  ultimately have "tip_snapshot sample_host sample_tip (sample_load e) sample_key (decodeCanonicalTcapBalanceSnapshotV1 sample_td) = Inr sample_sorted"
    using sample_new by (simp add: tip_snapshot_def sample_tip_def bytesFromHex_def sample_load_def assertSnapshotMatchesTip_def)
  moreover have "read_history step ZERO_COMMITMENT [] = Some (Inr [])" for step by (subst read_history.simps) simp
  ultimately show ?thesis
    by (intro exI [of _ e]) (simp add: readPrivateTcapBalance_def decoder_of_def, simp add: sample_snapshot_def)
qed

theorem private_balance_matches_tip_witness:
  "normalizeCommitment (tip_current_commitment sample_tip) ''tip_commitment'' = Inr (lower (sn_new_commitment sample_sorted)) \<and>
   sn_sequence sample_sorted = tip_sequence sample_tip"
proof -
  obtain e where "readPrivateTcapBalance sample_host sample_td sample_tip (sample_load e) sample_key None True = Some (Inr (sample_sorted, []))"
    using sample_read by blast
  from private_balance_matches_tip [OF this] show ?thesis by blast
qed


end
