(* ===== verification/Tcap_Tip.thy ===== *)
theory Tcap_Tip
  imports Tcap_Snapshot
begin

text \<open>
  The tip of a TIN's private balance, \<open>programs/tcap-protocol/tcap-sdk/src\<close>: the decoder of the
  on-chain account and its request (\<open>tip-rpc.ts\<close>), and the sealed balance (\<open>tip-seal.ts\<close>). The answer
  of the Solana endpoint is an argument.
\<close>

section \<open>The account\<close>

record account_info =
  ai_owner :: string
  ai_lamports :: int
  ai_data :: "string \<times> string"

record decoded_tip =
  dt_address :: string
  dt_owner :: string
  dt_lamports :: int
  dt_version :: nat
  dt_current_commitment :: string
  dt_sequence :: nat
  dt_policy_commitment :: string
  dt_last_transition_nullifier :: string
  dt_frozen :: bool
  dt_bump :: nat

definition slice :: "nat \<Rightarrow> nat \<Rightarrow> byte_list \<Rightarrow> byte_list" where
  "slice a b bs = take (b - a) (drop a bs)"

definition tip_hex :: "byte_list \<Rightarrow> string result" where
  "tip_hex bs = and_then (require (length bs = 32) ''tip_commitment_length_invalid'') (\<lambda>_. Inr (to_hex bs))"

definition accountDiscriminator :: "host \<Rightarrow> byte_list" where
  "accountDiscriminator h = take 8 (sha256 h (utf8 ''account:TCapTinTipV1''))"

text \<open>An empty expected owner is skipped as an absent one is.\<close>

definition decodeTcapTinTipV1Account ::
  "string \<Rightarrow> account_info \<Rightarrow> string option \<Rightarrow> byte_list option \<Rightarrow> decoded_tip result" where
  "decodeTcapTinTipV1Account address info expectedOwner expectedDiscriminator =
     and_then (require (case expectedOwner of None \<Rightarrow> True | Some p \<Rightarrow> p = [] \<or> ai_owner info = p) ''tip_account_owner_mismatch'') (\<lambda>_.
     and_then (require (snd (ai_data info) = ''base64'') ''tip_account_encoding_unsupported'') (\<lambda>_.
     and_then (atob (fst (ai_data info))) (\<lambda>bs.
     and_then (require (length bs = 116) ''tip_account_length_invalid'') (\<lambda>_.
     and_then (require (case expectedDiscriminator of None \<Rightarrow> True | Some d \<Rightarrow> slice 0 8 bs = d) ''tip_account_discriminator_mismatch'') (\<lambda>_.
     and_then (require (le_val (slice 8 10 bs) = 1) ''tip_account_version_unsupported'') (\<lambda>_.
     and_then (tip_hex (slice 10 42 bs)) (\<lambda>commitment.
     and_then (tip_hex (slice 50 82 bs)) (\<lambda>policy.
     and_then (tip_hex (slice 82 114 bs)) (\<lambda>nullifier.
     Inr \<lparr>dt_address = address, dt_owner = ai_owner info, dt_lamports = ai_lamports info, dt_version = le_val (slice 8 10 bs),
          dt_current_commitment = commitment, dt_sequence = le_val (slice 42 50 bs), dt_policy_commitment = policy,
          dt_last_transition_nullifier = nullifier, dt_frozen = (bs ! 114 \<noteq> 0), dt_bump = bs ! 115\<rparr>)))))))))"

text \<open>The endpoint's answer: an HTTP status, an RPC error, or the account, which may be missing.\<close>

datatype rpc_answer = HttpStatus int | RpcError int string | AccountAnswer "account_info option"

definition fetchTcapTinTipV1 :: "host \<Rightarrow> (string \<Rightarrow> string \<Rightarrow> rpc_answer) \<Rightarrow> string \<Rightarrow> string \<Rightarrow> string option \<Rightarrow> decoded_tip result" where
  "fetchTcapTinTipV1 h rpc rpcUrl address expectedProgramId =
     (case rpc rpcUrl address of
        HttpStatus n \<Rightarrow> Inl (''solana_rpc_http_'' @ int_str n)
      | RpcError c m \<Rightarrow> Inl (''solana_rpc_'' @ int_str c @ '':'' @ m)
      | AccountAnswer None \<Rightarrow> Inl ''tip_account_not_found''
      | AccountAnswer (Some info) \<Rightarrow> decodeTcapTinTipV1Account address info expectedProgramId (Some (accountDiscriminator h)))"

section \<open>The sealed balance\<close>

definition TIP_SEALED_BYTES :: nat where
  "TIP_SEALED_BYTES = 48"

definition TIP_PLAINTEXT_BYTES :: nat where
  "TIP_PLAINTEXT_BYTES = 32"

definition deriveTipViewKey :: "host \<Rightarrow> byte_list \<Rightarrow> byte_list" where
  "deriveTipViewKey h masterSeed = sha256 h (utf8 ''TCAP_VIEW_V1'' @ masterSeed)"

definition deriveTipSealNonce :: "host \<Rightarrow> byte_list \<Rightarrow> byte_list \<Rightarrow> byte_list result" where
  "deriveTipSealNonce h tipPda previousCommitment =
     and_then (require (length tipPda = 32 \<and> length previousCommitment = 32) ''tip PDA and commitment must be 32 bytes'') (\<lambda>_.
     Inr (take 12 (sha256 h (utf8 ''TCAP_SEAL_V1'' @ tipPda @ previousCommitment))))"

definition encodeTipPlaintext :: "int \<Rightarrow> int \<Rightarrow> byte_list result" where
  "encodeTipPlaintext available tokenId =
     and_then (require (0 \<le> available \<and> available \<le> 18446744073709551615) ''available out of range'') (\<lambda>_.
     and_then (require (0 \<le> tokenId \<and> tokenId \<le> 4294967295) ''token id out of range'') (\<lambda>_.
     Inr (le_bytes 8 (nat available) @ le_bytes 4 (nat tokenId) @ replicate (TIP_PLAINTEXT_BYTES - 12) 0)))"

definition decodeTipPlaintext :: "byte_list \<Rightarrow> (int \<times> int) result" where
  "decodeTipPlaintext plain =
     and_then (require (length plain = TIP_PLAINTEXT_BYTES) ''invalid TIP plaintext length'') (\<lambda>_.
     Inr (int (le_val (slice 0 8 plain)), int (le_val (slice 8 12 plain))))"

definition sealTipBalance ::
  "host \<Rightarrow> byte_list \<Rightarrow> byte_list \<Rightarrow> byte_list \<Rightarrow> int \<Rightarrow> int \<Rightarrow> (byte_list \<times> byte_list \<times> byte_list) result" where
  "sealTipBalance h masterSeed tipPda previousCommitment available tokenId =
     and_then (encodeTipPlaintext available tokenId) (\<lambda>plaintext.
     and_then (deriveTipSealNonce h tipPda previousCommitment) (\<lambda>nonce.
     (let sealed = subtle_seal h (deriveTipViewKey h masterSeed) nonce plaintext in
      and_then (require (length sealed = TIP_SEALED_BYTES) ''unexpected AES-GCM output length'') (\<lambda>_.
      Inr (sealed, nonce, plaintext)))))"

definition openTipBalance :: "host \<Rightarrow> byte_list \<Rightarrow> byte_list \<Rightarrow> byte_list \<Rightarrow> byte_list \<Rightarrow> (int \<times> int) result" where
  "openTipBalance h masterSeed tipPda previousCommitment sealed =
     and_then (require (length sealed = TIP_SEALED_BYTES) ''invalid TIP sealed length'') (\<lambda>_.
     and_then (deriveTipSealNonce h tipPda previousCommitment) (\<lambda>nonce.
     and_then (subtle_open h (deriveTipViewKey h masterSeed) nonce sealed) (\<lambda>plain.
     decodeTipPlaintext plain)))"

text \<open>\<open>setBigUint64\<close> keeps the low 64 bits of the sequence number.\<close>

definition computeTipSealCommitment :: "host \<Rightarrow> byte_list \<Rightarrow> int \<Rightarrow> byte_list \<Rightarrow> byte_list \<Rightarrow> byte_list result" where
  "computeTipSealCommitment h sealed sequence previousCommitment policy =
     and_then (require (length sealed = TIP_SEALED_BYTES \<and> length previousCommitment = 32 \<and> length policy = 32)
       ''invalid TIP seal input length'') (\<lambda>_.
     Inr (sha256 h (utf8 ''TCAP_COMMIT_V1'' @ sealed @ le_bytes 8 (nat (sequence mod 2 ^ 64)) @ previousCommitment @ policy)))"

section \<open>Results\<close>

lemma octets_le_bytes: "octets (le_bytes n v)"
  using octets_be_bytes [of n v] by (simp add: le_bytes_def)

lemma decode_tip_plaintext: "encodeTipPlaintext available tokenId = Inr p \<Longrightarrow> octets p \<and> decodeTipPlaintext p = Inr (available, tokenId)"
proof -
  assume p: "encodeTipPlaintext available tokenId = Inr p"
  then have "nat available < 256 ^ 8" "nat tokenId < 256 ^ 4" by (auto simp: encodeTipPlaintext_def nat_less_iff)
  with p show ?thesis
    by (auto simp: encodeTipPlaintext_def decodeTipPlaintext_def slice_def TIP_PLAINTEXT_BYTES_def le_val_le_bytes octets_le_bytes
        octets_replicate)
qed

text \<open>A sealed tip opens to the balance and token it was made of.\<close>

lemma open_sealed_tip:
  assumes "gcm_law h" "tag_law h" "\<And>x. octets (sha256 h x)" "sealTipBalance h seed pda previous available tokenId = Inr (sealed, nonce, plaintext)"
  shows "openTipBalance h seed pda previous sealed = Inr (available, tokenId)"
proof -
  from assms(4) have p: "encodeTipPlaintext available tokenId = Inr plaintext" and n: "deriveTipSealNonce h pda previous = Inr nonce"
    and s: "sealed = subtle_seal h (deriveTipViewKey h seed) nonce plaintext" "length sealed = TIP_SEALED_BYTES"
    by (auto simp: sealTipBalance_def Let_def)
  have "octets nonce" using n assms(3) [of "utf8 ''TCAP_SEAL_V1'' @ pda @ previous"]
    by (auto simp: deriveTipSealNonce_def list_all_iff dest: in_set_takeD)
  moreover have "octets (deriveTipViewKey h seed)" using assms(3) by (simp add: deriveTipViewKey_def)
  ultimately have "subtle_open h (deriveTipViewKey h seed) nonce sealed = Inr plaintext"
    using subtle_open_seal [OF assms(1,2)] decode_tip_plaintext [OF p] s(1) by blast
  then show ?thesis using s(2) n decode_tip_plaintext [OF p] by (simp add: openTipBalance_def)
qed

text \<open>
  Key and nonce depend on the seed, the account and the previous commitment only: two balances
  sealed on the same tip use the same pair.
\<close>

lemma seal_nonce_reused:
  "sealTipBalance h seed pda previous a t = Inr (s, n, p) \<Longrightarrow> sealTipBalance h seed pda previous a' t' = Inr (s', n', p') \<Longrightarrow> n = n'"
  by (auto simp: sealTipBalance_def Let_def)

text \<open>The fields of an account at the offsets the program writes them are read back.\<close>

definition tip_account :: "byte_list \<Rightarrow> byte_list \<Rightarrow> nat \<Rightarrow> byte_list \<Rightarrow> byte_list \<Rightarrow> bool \<Rightarrow> nat \<Rightarrow> byte_list" where
  "tip_account disc commitment sequence policy nullifier frozen bump =
     disc @ le_bytes 2 1 @ commitment @ le_bytes 8 sequence @ policy @ nullifier @ [if frozen then 1 else 0, bump]"

lemma decode_tip_account:
  assumes "length disc = 8" "length commitment = 32" "length policy = 32" "length nullifier = 32" "sequence < 256 ^ 8"
    and "octets (tip_account disc commitment sequence policy nullifier frozen bump)"
  shows "decodeTcapTinTipV1Account address \<lparr>ai_owner = p, ai_lamports = l,
      ai_data = (btoa (tip_account disc commitment sequence policy nullifier frozen bump), ''base64'')\<rparr> (Some p) (Some disc) =
    Inr \<lparr>dt_address = address, dt_owner = p, dt_lamports = l, dt_version = 1, dt_current_commitment = to_hex commitment,
         dt_sequence = sequence, dt_policy_commitment = to_hex policy, dt_last_transition_nullifier = to_hex nullifier,
         dt_frozen = frozen, dt_bump = bump\<rparr>"
proof -
  have "le_val (le_bytes 2 1) = 1" by (rule le_val_le_bytes) simp
  then show ?thesis
    using assms atob_btoa [OF assms(6)] le_val_le_bytes [OF assms(5)]
    by (simp add: decodeTcapTinTipV1Account_def) (simp add: tip_account_def slice_def tip_hex_def nth_append)
qed

end
