(* ===== verification/Provider_Pool.thy ===== *)
theory Provider_Pool
  imports Complex_Main Json_Parse
begin

text \<open>
  The pool of Solana RPC providers behind the gateway, \<open>services/tsn-rpc-gateway/provider-pool.mjs\<close>.
  The pool runs in one thread and gives up control only where the source awaits, so each piece of
  code between two awaits is one function here: \<open>probe_start\<close>, \<open>probe_result\<close> and \<open>probe_finish\<close> are the
  three pieces of \<open>runProbeRound\<close>, and the relation \<open>pool_step\<close> lets them interleave with recorded
  outcomes in any order. Latencies are rationals; the rounding of floating-point numbers is not modelled.
\<close>

section \<open>Method kinds and latencies\<close>

datatype method_kind = ReadKind | WriteKind | MixedKind

definition READ_METHODS :: "string list" where
  "READ_METHODS =
     [''getAccountInfo'', ''getBalance'', ''getBlock'', ''getBlockHeight'', ''getBlockTime'', ''getClusterNodes'',
      ''getEpochInfo'', ''getFeeForMessage'', ''getFirstAvailableBlock'', ''getHealth'', ''getHighestSnapshotSlot'',
      ''getIdentity'', ''getInflationGovernor'', ''getInflationRate'', ''getLatestBlockhash'', ''getLeaderSchedule'',
      ''getLatestBlockhashAndContext'', ''getMultipleAccounts'', ''getParsedAccountInfo'', ''getParsedProgramAccounts'',
      ''getProgramAccounts'', ''getRecentPerformanceSamples'', ''getSignatureStatuses'', ''getSignaturesForAddress'',
      ''getSlot'', ''getSupply'', ''getTransaction'', ''getTokenAccountBalance'', ''getTokenLargestAccounts'',
      ''getVersion'', ''isBlockhashValid'', ''simulateTransaction'']"

definition WRITE_METHODS :: "string list" where
  "WRITE_METHODS = [''requestAirdrop'', ''sendRawTransaction'', ''sendTransaction'']"

text \<open>The argument is the method of a JSON-RPC request; \<open>None\<close> and values other than texts are in no set.\<close>

definition classifyMethod :: "json option \<Rightarrow> method_kind" where
  "classifyMethod m =
     (case m of
        Some (JStr s) \<Rightarrow> if s \<in> set READ_METHODS then ReadKind else if s \<in> set WRITE_METHODS then WriteKind else MixedKind
      | _ \<Rightarrow> MixedKind)"

definition averageLatency :: "rat \<Rightarrow> rat \<Rightarrow> rat" where
  "averageLatency previous sample = (if previous \<le> 0 then sample else previous * (3 / 4) + sample * (1 / 4))"

text \<open>\<open>Math.round\<close> rounds halves up.\<close>

definition roundLatency :: "rat option \<Rightarrow> int option" where
  "roundLatency v = (case v of Some x \<Rightarrow> if 0 < x then Some \<lfloor>x + 1 / 2\<rfloor> else None | None \<Rightarrow> None)"

section \<open>State\<close>

record upstream =
  up_id :: string
  up_label :: string
  up_url :: string
  up_wsUrl :: string
  up_displayUrl :: string
  up_displayWsUrl :: string

record provider_stats =
  requests :: nat
  successes :: nat
  failures :: nat
  averageLatencyMs :: rat
  lastSuccessAt :: "int option"
  lastErrorAt :: "int option"
  lastError :: "string option"
  lastUsedAt :: "int option"
  cooldownUntil :: int
  lastProbeAt :: "int option"
  lastProbeLatencyMs :: "rat option"
  lastProbeSuccessAt :: "int option"
  lastProbeFailureAt :: "int option"
  probeFailures :: nat
  probeSuccesses :: nat
  healthy :: bool

record provider = upstream +
  index :: nat
  stats :: provider_stats

definition fresh_stats :: provider_stats where
  "fresh_stats =
     \<lparr>requests = 0, successes = 0, failures = 0, averageLatencyMs = 0, lastSuccessAt = None, lastErrorAt = None,
      lastError = None, lastUsedAt = None, cooldownUntil = 0, lastProbeAt = None, lastProbeLatencyMs = None,
      lastProbeSuccessAt = None, lastProbeFailureAt = None, probeFailures = 0, probeSuccesses = 0, healthy = False\<rparr>"

definition createProviderState :: "upstream \<Rightarrow> nat \<Rightarrow> provider" where
  "createProviderState entry i = upstream.extend entry \<lparr>index = i, stats = fresh_stats\<rparr>"

record probe_state =
  lastStartedAt :: "int option"
  lastCompletedAt :: "int option"
  lastDurationMs :: "rat option"
  round_number :: nat
  inFlight :: bool
  probe_error :: "string option"

definition createProbeState :: probe_state where
  "createProbeState = \<lparr>lastStartedAt = None, lastCompletedAt = None, lastDurationMs = None, round_number = 0,
     inFlight = False, probe_error = None\<rparr>"

record leader_state =
  providerUrl :: "string option"
  selectedAt :: "int option"
  selectionReason :: string

definition createLeaderState :: leader_state where
  "createLeaderState = \<lparr>providerUrl = None, selectedAt = None, selectionReason = ''bootstrap''\<rparr>"

text \<open>
  A probe that is under way is the position of its provider with the clock reading it started with;
  the results a round has so far are kept with the position of the provider.
\<close>

type_synonym probe_outcome = "(string \<times> rat option) + rat"

record pool =
  providers :: "provider list"
  probeState :: probe_state
  leaderState :: leader_state
  probing :: bool
  pending :: "(nat \<times> int) list"
  probe_reason :: string
  results :: "(nat \<times> probe_outcome) list"

record pool_options =
  mode :: string
  probeIntervalMs :: int
  probeTimeoutMs :: int

definition createProviderPool :: "upstream list \<Rightarrow> pool" where
  "createProviderPool upstreams =
     \<lparr>providers = map2 createProviderState upstreams [0..<length upstreams], probeState = createProbeState,
      leaderState = createLeaderState, probing = False, pending = [], probe_reason = [], results = []\<rparr>"

section \<open>Ranking\<close>

definition observed_latency :: "provider_stats \<Rightarrow> rat" where
  "observed_latency s =
     (case lastProbeLatencyMs s of Some l \<Rightarrow> l | None \<Rightarrow> if 0 < averageLatencyMs s then averageLatencyMs s else 9999)"

definition is_leader :: "string option \<Rightarrow> provider \<Rightarrow> bool" where
  "is_leader leaderUrl p \<longleftrightarrow> leaderUrl = Some (up_url p)"

definition scoreProvider :: "provider \<Rightarrow> method_kind \<Rightarrow> string \<Rightarrow> int \<Rightarrow> string option \<Rightarrow> rat" where
  "scoreProvider p kind m now leaderUrl =
     (let s = stats p in
      of_nat (index p) * 10
      + (if \<not> healthy s then 50000 else 0)
      + (if now < cooldownUntil s then 25000 else 0)
      + (if m = ''prefer-first'' then of_nat (index p)
         else if m = ''fastest'' then observed_latency s * 2
         else observed_latency s * (7 / 5))
      + of_nat (failures s) * 250
      + of_nat (probeFailures s) * 400
      - min (of_nat (probeSuccesses s) * 4) 40
      - min (of_nat (successes s) * 3) 30
      + (if kind = WriteKind then of_nat (failures s) * 150 + of_nat (probeFailures s) * 250 else 0)
      - (if leaderUrl \<noteq> Some [] \<and> is_leader leaderUrl p \<and> healthy s then 75 else 0))"

definition ranked :: "method_kind \<Rightarrow> string \<Rightarrow> int \<Rightarrow> pool \<Rightarrow> provider list" where
  "ranked kind m now pl =
     (let leaderUrl = providerUrl (leaderState pl) in
      sort_by (\<lambda>l r. scoreProvider l kind m now leaderUrl \<le> scoreProvider r kind m now leaderUrl) (providers pl))"

definition getRankedProviders :: "pool_options \<Rightarrow> int \<Rightarrow> json option \<Rightarrow> pool \<Rightarrow> provider list" where
  "getRankedProviders opts now rpc pl = ranked (classifyMethod rpc) (mode opts) now pl"

definition find_url :: "string option \<Rightarrow> pool \<Rightarrow> provider option" where
  "find_url u pl = find (is_leader u) (providers pl)"

text \<open>The event of a change of leader is the pair of the old and the new provider.\<close>

definition chooseLeader :: "pool_options \<Rightarrow> int \<Rightarrow> string \<Rightarrow> pool \<Rightarrow> pool \<times> (provider option \<times> provider option) option" where
  "chooseLeader opts now reason pl =
     (case ranked ReadKind (mode opts) now pl of
        [] \<Rightarrow> (pl, None)
      | p # _ \<Rightarrow>
          (let pl' = pl\<lparr>leaderState := \<lparr>providerUrl = Some (up_url p), selectedAt = Some now, selectionReason = reason\<rparr>\<rparr> in
           (pl', if is_leader (providerUrl (leaderState pl)) p then None
                 else Some (find_url (providerUrl (leaderState pl)) pl', find_url (Some (up_url p)) pl'))))"

section \<open>Probes\<close>

text \<open>
  The answer of a provider to a request: the client throws, or there is a response with its latency,
  status and body, which is \<open>Inl\<close> with the message when reading it throws.
\<close>

datatype 'a fetch_answer = FetchThrows string rat | FetchReply rat int "'a result"

definition js_get :: "json \<Rightarrow> string \<Rightarrow> json option" where
  "js_get v k = (case v of JObj ob \<Rightarrow> map_of ob k | _ \<Rightarrow> None)"

definition template_text :: "json option \<Rightarrow> string" where
  "template_text v = (case v of None \<Rightarrow> ''undefined'' | Some x \<Rightarrow> js_string x)"

definition nullish_or :: "json option \<Rightarrow> json option \<Rightarrow> json option" where
  "nullish_or a b = (case a of Some JNull \<Rightarrow> b | Some v \<Rightarrow> Some v | None \<Rightarrow> b)"

definition response_ok :: "int \<Rightarrow> bool" where
  "response_ok status \<longleftrightarrow> 200 \<le> status \<and> status \<le> 299"

definition rpc_error_text :: "json option \<Rightarrow> string" where
  "rpc_error_text e =
     (case e of None \<Rightarrow> ''undefined'' | Some v \<Rightarrow> template_text (nullish_or (js_get v ''message'') (js_get v ''code'')))"

definition fetchProbe :: "json fetch_answer \<Rightarrow> probe_outcome" where
  "fetchProbe answer =
     (case answer of
        FetchThrows m latency \<Rightarrow> Inl (m, None)
      | FetchReply latency status body \<Rightarrow>
          (case body of
             Inl m \<Rightarrow> Inl (m, None)
           | Inr payload \<Rightarrow>
               if \<not> response_ok status then Inl (''Probe HTTP '' @ int_str status, Some latency)
               else if truthy (js_get payload ''error'')
                    then Inl (''Probe JSON-RPC '' @ rpc_error_text (js_get payload ''error''), Some latency)
               else Inr latency))"

text \<open>What a finished probe writes into the statistics; \<open>now\<close> is the reading taken when it started.\<close>

definition probe_stats :: "int \<Rightarrow> probe_outcome \<Rightarrow> provider_stats \<Rightarrow> provider_stats" where
  "probe_stats now out s =
     (case out of
        Inr latency \<Rightarrow>
          s\<lparr>healthy := True, probeSuccesses := probeSuccesses s + 1, lastProbeSuccessAt := Some now,
            lastProbeLatencyMs := Some latency, averageLatencyMs := averageLatency (averageLatencyMs s) latency,
            cooldownUntil := if cooldownUntil s \<le> now then 0 else cooldownUntil s\<rparr>
      | Inl (message, _) \<Rightarrow>
          s\<lparr>healthy := False, probeFailures := probeFailures s + 1, lastProbeFailureAt := Some now,
            lastErrorAt := Some now, lastError := Some message,
            cooldownUntil := now + min 60000 (3000 * max 1 (int (probeFailures s + 1)))\<rparr>)"

definition at_provider :: "nat \<Rightarrow> (provider_stats \<Rightarrow> provider_stats) \<Rightarrow> pool \<Rightarrow> pool" where
  "at_provider i f pl =
     (if i < length (providers pl)
      then pl\<lparr>providers := (providers pl)[i := (providers pl ! i)\<lparr>stats := f (stats (providers pl ! i))\<rparr>]\<rparr> else pl)"

definition probe_start :: "int \<Rightarrow> string \<Rightarrow> pool \<Rightarrow> pool" where
  "probe_start now reason pl =
     (if inFlight (probeState pl) then pl
      else pl\<lparr>probeState := (probeState pl)\<lparr>inFlight := True, lastStartedAt := Some now,
                                            round_number := round_number (probeState pl) + 1\<rparr>,
              providers := map (\<lambda>p. p\<lparr>stats := (stats p)\<lparr>lastProbeAt := Some now\<rparr>\<rparr>) (providers pl),
              pending := map (\<lambda>i. (i, now)) [0..<length (providers pl)],
              probe_reason := reason, results := []\<rparr>)"

definition probe_result :: "nat \<Rightarrow> json fetch_answer \<Rightarrow> pool \<Rightarrow> pool" where
  "probe_result i answer pl =
     (case map_of (pending pl) i of
        None \<Rightarrow> pl
      | Some now \<Rightarrow>
          (at_provider i (probe_stats now (fetchProbe answer)) pl)
            \<lparr>pending := filter (\<lambda>e. fst e \<noteq> i) (pending pl), results := (i, fetchProbe answer) # results pl\<rparr>)"

text \<open>The summary of a round: reason, number, leader, duration and the result of each provider.\<close>

record probe_summary =
  sm_reason :: string
  sm_round :: nat
  sm_leader :: "provider option"
  sm_durationMs :: "int option"
  sm_results :: "(string \<times> string \<times> bool \<times> int option \<times> string option) list"

definition result_row :: "pool_options \<Rightarrow> pool \<Rightarrow> nat \<Rightarrow> string \<times> string \<times> bool \<times> int option \<times> string option" where
  "result_row opts pl i =
     (let p = providers pl ! i in
      case map_of (results pl) i of
        Some (Inr latency) \<Rightarrow> (up_id p, up_label p, True, roundLatency (Some latency), None)
      | Some (Inl (message, latency)) \<Rightarrow>
          (up_id p, up_label p, False,
           roundLatency (Some (case latency of Some l \<Rightarrow> l | None \<Rightarrow> of_int (probeTimeoutMs opts))), Some message)
      | None \<Rightarrow> (up_id p, up_label p, False, None, None))"

text \<open>The last piece runs when every probe has reported.\<close>

definition probe_finish :: "pool_options \<Rightarrow> int \<Rightarrow> rat \<Rightarrow> pool \<Rightarrow> (pool \<times> probe_summary) option" where
  "probe_finish opts now duration pl =
     (if \<not> inFlight (probeState pl) \<or> pending pl \<noteq> [] then None
      else let done_state = (probeState pl)\<lparr>lastCompletedAt := Some now, lastDurationMs := Some duration, probe_error := None\<rparr>;
               pl' = fst (chooseLeader opts now (probe_reason pl) (pl\<lparr>probeState := done_state\<rparr>))
           in Some (pl'\<lparr>probeState := done_state\<lparr>inFlight := False\<rparr>\<rparr>,
                    \<lparr>sm_reason = probe_reason pl, sm_round = round_number (probeState pl),
                     sm_leader = find_url (providerUrl (leaderState pl')) pl',
                     sm_durationMs = roundLatency (Some duration),
                     sm_results = map (result_row opts pl) [0..<length (providers pl)]\<rparr>))"

text \<open>The timer: starting it begins a round at once, and every tick begins another.\<close>

definition startProbing :: "int \<Rightarrow> pool \<Rightarrow> pool" where
  "startProbing now pl = (if probing pl then pl else (probe_start now ''startup'' pl)\<lparr>probing := True\<rparr>)"

definition probe_tick :: "int \<Rightarrow> pool \<Rightarrow> pool" where
  "probe_tick now pl = (if probing pl then probe_start now ''scheduled'' pl else pl)"

definition stopProbing :: "pool \<Rightarrow> pool" where
  "stopProbing pl = pl\<lparr>probing := False\<rparr>"

section \<open>Outcomes of requests\<close>

text \<open>The latency of a failure is \<open>None\<close> when the caller's number is not finite.\<close>

datatype outcome = Success rat | Failure "rat option" string

definition outcome_stats :: "int \<Rightarrow> outcome \<Rightarrow> provider_stats \<Rightarrow> provider_stats" where
  "outcome_stats now out s =
     (let s = s\<lparr>requests := requests s + 1, lastUsedAt := Some now\<rparr> in
      case out of
        Success latency \<Rightarrow>
          s\<lparr>successes := successes s + 1, healthy := True, averageLatencyMs := averageLatency (averageLatencyMs s) latency,
            lastSuccessAt := Some now, cooldownUntil := 0, lastError := None\<rparr>
      | Failure latency message \<Rightarrow>
          s\<lparr>failures := failures s + 1, healthy := False,
            averageLatencyMs := averageLatency (averageLatencyMs s)
              (case latency of Some l \<Rightarrow> l | None \<Rightarrow> if averageLatencyMs s = 0 then 1000 else averageLatencyMs s),
            lastErrorAt := Some now, lastError := Some message,
            cooldownUntil := now + min 60000 (2000 * max 1 (int (failures s + 1)))\<rparr>)"

fun position_of :: "('a \<Rightarrow> bool) \<Rightarrow> 'a list \<Rightarrow> nat option" where
  "position_of P [] = None"
| "position_of P (x # xs) = (if P x then Some 0 else map_option Suc (position_of P xs))"

definition recordOutcome :: "int \<Rightarrow> string \<Rightarrow> outcome \<Rightarrow> pool \<Rightarrow> pool" where
  "recordOutcome now url out pl =
     (case position_of (is_leader (Some url)) (providers pl) of
        None \<Rightarrow> pl
      | Some i \<Rightarrow>
          (let pl' = at_provider i (outcome_stats now out) pl in
           case out of
             Success _ \<Rightarrow>
               if providerUrl (leaderState pl') = None
               then pl'\<lparr>leaderState := \<lparr>providerUrl = Some url, selectedAt = Some now, selectionReason = ''first-success''\<rparr>\<rparr>
               else pl'
           | Failure _ _ \<Rightarrow>
               if providerUrl (leaderState pl') = Some url then probe_start now ''leader-failure'' pl' else pl'))"

section \<open>Status\<close>

definition opt_num :: "int option \<Rightarrow> json" where
  "opt_num v = (case v of None \<Rightarrow> JNull | Some n \<Rightarrow> JNum n)"

definition opt_str :: "string option \<Rightarrow> json" where
  "opt_str v = (case v of None \<Rightarrow> JNull | Some s \<Rightarrow> JStr s)"

definition stats_json :: "provider_stats \<Rightarrow> json" where
  "stats_json s = JObj
     [(''requests'', JNum (int (requests s))), (''successes'', JNum (int (successes s))), (''failures'', JNum (int (failures s))),
      (''averageLatencyMs'', opt_num (roundLatency (Some (averageLatencyMs s)))), (''lastSuccessAt'', opt_num (lastSuccessAt s)),
      (''lastErrorAt'', opt_num (lastErrorAt s)), (''lastError'', opt_str (lastError s)), (''lastUsedAt'', opt_num (lastUsedAt s)),
      (''cooldownUntil'', JNum (cooldownUntil s)), (''lastProbeAt'', opt_num (lastProbeAt s)),
      (''lastProbeLatencyMs'', opt_num (roundLatency (lastProbeLatencyMs s))),
      (''lastProbeSuccessAt'', opt_num (lastProbeSuccessAt s)), (''lastProbeFailureAt'', opt_num (lastProbeFailureAt s)),
      (''probeFailures'', JNum (int (probeFailures s))), (''probeSuccesses'', JNum (int (probeSuccesses s))),
      (''healthy'', JBool (healthy s))]"

definition snapshotProvider :: "string option \<Rightarrow> provider \<Rightarrow> json" where
  "snapshotProvider leaderUrl p = JObj
     [(''id'', JStr (up_id p)), (''label'', JStr (up_label p)), (''displayUrl'', JStr (up_displayUrl p)),
      (''index'', JNum (int (index p))), (''isLeader'', JBool (is_leader leaderUrl p)), (''stats'', stats_json (stats p))]"

definition pool_snapshot :: "pool \<Rightarrow> json" where
  "pool_snapshot pl = JArr (map (snapshotProvider (providerUrl (leaderState pl))) (providers pl))"

definition probe_state_json :: "probe_state \<Rightarrow> json" where
  "probe_state_json ps = JObj
     [(''lastStartedAt'', opt_num (lastStartedAt ps)), (''lastCompletedAt'', opt_num (lastCompletedAt ps)),
      (''lastDurationMs'', opt_num (roundLatency (lastDurationMs ps))), (''round'', JNum (int (round_number ps))),
      (''inFlight'', JBool (inFlight ps)), (''lastError'', opt_str (probe_error ps))]"

definition leader_json :: "pool \<Rightarrow> json" where
  "leader_json pl =
     (case find_url (providerUrl (leaderState pl)) pl of
        None \<Rightarrow> JNull
      | Some p \<Rightarrow> JObj
          [(''id'', JStr (up_id p)), (''label'', JStr (up_label p)), (''displayUrl'', JStr (up_displayUrl p)),
           (''selectedAt'', opt_num (selectedAt (leaderState pl))), (''selectionReason'', JStr (selectionReason (leaderState pl))),
           (''latencyMs'', opt_num (case roundLatency (lastProbeLatencyMs (stats p)) of
                                      Some l \<Rightarrow> Some l | None \<Rightarrow> roundLatency (Some (averageLatencyMs (stats p)))))])"

definition getStatus :: "pool_options \<Rightarrow> pool \<Rightarrow> obj" where
  "getStatus opts pl =
     [(''mode'', JStr (mode opts)), (''probeIntervalMs'', JNum (probeIntervalMs opts)), (''probeTimeoutMs'', JNum (probeTimeoutMs opts)),
      (''probeState'', probe_state_json (probeState pl)), (''leader'', leader_json pl), (''providers'', pool_snapshot pl)]"

section \<open>Steps of the pool and its invariant\<close>

text \<open>\<open>T\<close> bounds the clock readings of the run.\<close>

inductive pool_step :: "pool_options \<Rightarrow> int \<Rightarrow> pool \<Rightarrow> pool \<Rightarrow> bool" for opts T where
  outcome_step: "now \<le> T \<Longrightarrow> pool_step opts T pl (recordOutcome now url out pl)"
| round_step: "now \<le> T \<Longrightarrow> pool_step opts T pl (probe_start now reason pl)"
| result_step: "pool_step opts T pl (probe_result i answer pl)"
| finish_step: "now \<le> T \<Longrightarrow> probe_finish opts now duration pl = Some (pl', summary) \<Longrightarrow> pool_step opts T pl pl'"
| start_step: "now \<le> T \<Longrightarrow> pool_step opts T pl (startProbing now pl)"
| tick_step: "now \<le> T \<Longrightarrow> pool_step opts T pl (probe_tick now pl)"
| stop_step: "pool_step opts T pl (stopProbing pl)"

inductive_cases pool_stepE: "pool_step opts T pl pl'"

definition entry_of :: "provider \<Rightarrow> upstream" where
  "entry_of p = upstream.truncate p"

definition probed :: "provider \<Rightarrow> nat" where
  "probed p = probeSuccesses (stats p) + probeFailures (stats p)"

definition stats_ok :: "int \<Rightarrow> provider_stats \<Rightarrow> bool" where
  "stats_ok T s \<longleftrightarrow> requests s = successes s + failures s \<and> cooldownUntil s \<le> T + 60000"

definition round_ok :: "pool \<Rightarrow> bool" where
  "round_ok pl \<longleftrightarrow>
     (inFlight (probeState pl) \<or> pending pl = []) \<and> distinct (map fst (pending pl))
     \<and> fst ` set (pending pl) \<subseteq> {..<length (providers pl)}
     \<and> (\<forall>i<length (providers pl).
          probed (providers pl ! i) + (if i \<in> fst ` set (pending pl) then 1 else 0) = round_number (probeState pl))"

definition pool_inv :: "upstream list \<Rightarrow> int \<Rightarrow> pool \<Rightarrow> bool" where
  "pool_inv ups T pl \<longleftrightarrow>
     map entry_of (providers pl) = ups \<and> map index (providers pl) = [0..<length ups]
     \<and> (\<forall>p\<in>set (providers pl). stats_ok T (stats p))
     \<and> (\<forall>e\<in>set (pending pl). snd e \<le> T)
     \<and> (\<forall>u. providerUrl (leaderState pl) = Some u \<longrightarrow> u \<in> up_url ` set ups)
     \<and> round_ok pl"

lemma entry_of_simps [simp]: "entry_of (p\<lparr>stats := s\<rparr>) = entry_of p" "up_url (entry_of p) = up_url p"
  "up_id (entry_of p) = up_id p" "up_label (entry_of p) = up_label p" "up_displayUrl (entry_of p) = up_displayUrl p"
  by (simp_all add: entry_of_def upstream.truncate_def)

lemma createProviderState_simps [simp]: "entry_of (createProviderState e i) = e" "index (createProviderState e i) = i"
  "stats (createProviderState e i) = fresh_stats"
  by (simp_all add: entry_of_def createProviderState_def upstream.truncate_def upstream.extend_def)

lemma pool_inv_create: "0 \<le> T \<Longrightarrow> pool_inv ups T (createProviderPool ups)"
  by (auto simp: pool_inv_def round_ok_def createProviderPool_def createProbeState_def createLeaderState_def probed_def
      fresh_stats_def stats_ok_def set_zip map_nth intro!: nth_equalityI)

lemma at_provider_simps [simp]:
  "length (providers (at_provider i f pl)) = length (providers pl)"
  "probeState (at_provider i f pl) = probeState pl" "leaderState (at_provider i f pl) = leaderState pl"
  "pending (at_provider i f pl) = pending pl" "results (at_provider i f pl) = results pl"
  "probing (at_provider i f pl) = probing pl" "probe_reason (at_provider i f pl) = probe_reason pl"
  by (simp_all add: at_provider_def)

lemma at_provider_entries [simp]: "map entry_of (providers (at_provider i f pl)) = map entry_of (providers pl)"
  "map index (providers (at_provider i f pl)) = map index (providers pl)"
  by (auto simp: at_provider_def map_update intro!: list_update_same_conv [THEN iffD2])

lemma at_provider_nth: "j < length (providers pl) \<Longrightarrow>
    stats (providers (at_provider i f pl) ! j) = (if j = i then f (stats (providers pl ! j)) else stats (providers pl ! j))"
  by (auto simp: at_provider_def nth_list_update)

lemma stats_at_provider:
  assumes "\<forall>p\<in>set (providers pl). Q (stats p)" "\<And>s. Q s \<Longrightarrow> Q (f s)"
  shows "\<forall>p\<in>set (providers (at_provider i f pl)). Q (stats p)"
  using assms by (auto simp: at_provider_def dest!: subsetD [OF set_update_subset_insert])

lemma outcome_stats_ok: "now \<le> T \<Longrightarrow> 0 \<le> T \<Longrightarrow> stats_ok T s \<Longrightarrow> stats_ok T (outcome_stats now out s)"
  by (auto simp: stats_ok_def outcome_stats_def Let_def split: outcome.splits)

lemma probe_stats_ok: "now \<le> T \<Longrightarrow> 0 \<le> T \<Longrightarrow> stats_ok T s \<Longrightarrow> stats_ok T (probe_stats now out s)"
  by (auto simp: stats_ok_def probe_stats_def split: sum.splits)

lemma probed_outcome: "probed (p\<lparr>stats := outcome_stats now out s\<rparr>) = probeSuccesses s + probeFailures s"
  by (simp add: probed_def outcome_stats_def Let_def split: outcome.split)

lemma probed_probe: "probeSuccesses (probe_stats now out s) + probeFailures (probe_stats now out s)
    = Suc (probeSuccesses s + probeFailures s)"
  by (auto simp: probe_stats_def split: sum.split)

lemma round_ok_cong:
  assumes "round_ok pl" "length (providers pl') = length (providers pl)" "probeState pl' = probeState pl" "pending pl' = pending pl"
    "\<And>i. i < length (providers pl) \<Longrightarrow> probed (providers pl' ! i) = probed (providers pl ! i)"
  shows "round_ok pl'"
  using assms by (simp add: round_ok_def)

lemma pool_inv_at_outcome:
  assumes "pool_inv ups T pl" "now \<le> T" "0 \<le> T"
  shows "pool_inv ups T (at_provider i (outcome_stats now out) pl)"
proof -
  have "round_ok (at_provider i (outcome_stats now out) pl)"
    by (rule round_ok_cong [of pl]) (use assms in \<open>auto simp: pool_inv_def probed_def at_provider_nth outcome_stats_def Let_def split: outcome.split\<close>)
  moreover have "\<forall>p\<in>set (providers (at_provider i (outcome_stats now out) pl)). stats_ok T (stats p)"
    by (rule stats_at_provider) (use assms outcome_stats_ok in \<open>auto simp: pool_inv_def\<close>)
  ultimately show ?thesis using assms by (simp add: pool_inv_def)
qed

lemma pool_inv_start:
  assumes "pool_inv ups T pl" "now \<le> T"
  shows "pool_inv ups T (probe_start now reason pl)"
  using assms
  by (auto simp: pool_inv_def probe_start_def round_ok_def probed_def stats_ok_def comp_def image_image)

lemma pool_inv_leader:
  "pool_inv ups T pl \<Longrightarrow> u \<in> up_url ` set ups \<Longrightarrow> pool_inv ups T (pl\<lparr>leaderState := \<lparr>providerUrl = Some u, selectedAt = a, selectionReason = r\<rparr>\<rparr>)"
  by (simp add: pool_inv_def round_ok_def)

lemma position_of_Some: "position_of P xs = Some i \<Longrightarrow> i < length xs \<and> P (xs ! i)"
  by (induction xs arbitrary: i) (auto split: if_splits)

lemma pool_inv_urls: "pool_inv ups T pl \<Longrightarrow> p \<in> set (providers pl) \<Longrightarrow> up_url p \<in> up_url ` set ups"
  by (auto simp: pool_inv_def intro!: image_eqI [of _ _ "entry_of p"])

lemma pool_inv_outcome:
  assumes inv: "pool_inv ups T pl" and t: "now \<le> T" "0 \<le> T"
  shows "pool_inv ups T (recordOutcome now url out pl)"
proof (cases "position_of (is_leader (Some url)) (providers pl)")
  case (Some i)
  then have "url \<in> up_url ` set ups"
    using pool_inv_urls [OF inv, of "providers pl ! i"] by (auto simp: is_leader_def dest!: position_of_Some)
  with Some pool_inv_at_outcome [OF inv t] show ?thesis
    by (auto simp: recordOutcome_def Let_def intro!: pool_inv_leader pool_inv_start t split: outcome.split)
qed (simp add: recordOutcome_def inv)

lemma pool_inv_result:
  assumes inv: "pool_inv ups T pl" and t: "0 \<le> T"
  shows "pool_inv ups T (probe_result i answer pl)"
proof (cases "map_of (pending pl) i")
  case (Some now)
  have now: "now \<le> T" "i < length (providers pl)" and d: "distinct (map fst (pending pl))"
  proof -
    have "(i, now) \<in> set (pending pl)" by (rule map_of_SomeD [OF Some])
    then show "now \<le> T" "i < length (providers pl)" "distinct (map fst (pending pl))"
      using inv unfolding pool_inv_def round_ok_def by fastforce+
  qed
  let ?pl = "probe_result i answer pl"
  have pend: "fst ` set (pending ?pl) = fst ` set (pending pl) - {i}" by (auto simp: probe_result_def Some)
  have n: "length (providers ?pl) = length (providers pl)" "probeState ?pl = probeState pl" by (simp_all add: probe_result_def Some)
  have r: "probed (providers pl ! j) + (if j \<in> fst ` set (pending pl) then 1 else 0) = round_number (probeState pl)"
    if "j < length (providers pl)" for j using inv that by (simp add: pool_inv_def round_ok_def)
  have i: "i \<in> fst ` set (pending pl)" using map_of_SomeD [OF Some] by force
  have p: "probed (providers ?pl ! j) = (if j = i then Suc (probed (providers pl ! j)) else probed (providers pl ! j))"
    if "j < length (providers pl)" for j using that by (simp add: probe_result_def Some probed_def at_provider_nth probed_probe)
  have "probed (providers ?pl ! j) + (if j \<in> fst ` set (pending ?pl) then 1 else 0) = round_number (probeState pl)"
    if "j < length (providers pl)" for j using r [OF that] i by (auto simp: p [OF that] pend split: if_splits)
  moreover have "distinct (map fst (pending ?pl))" using d by (simp add: probe_result_def Some distinct_map_filter)
  moreover have "inFlight (probeState pl)" "fst ` set (pending pl) \<subseteq> {..<length (providers pl)}"
    using inv i by (auto simp: pool_inv_def round_ok_def)
  ultimately have "round_ok ?pl" unfolding round_ok_def n pend by auto
  moreover have "\<forall>p\<in>set (providers (at_provider i (probe_stats now (fetchProbe answer)) pl)). stats_ok T (stats p)"
    by (rule stats_at_provider) (use inv now t probe_stats_ok in \<open>auto simp: pool_inv_def\<close>)
  ultimately show ?thesis using inv by (simp add: pool_inv_def probe_result_def Some)
qed (simp add: probe_result_def inv)

lemma ranked_set [simp]: "set (ranked k m now pl) = set (providers pl)"
  by (simp add: ranked_def Let_def)

lemma pool_inv_choose:
  assumes "pool_inv ups T pl"
  shows "pool_inv ups T (fst (chooseLeader opts now reason pl))"
proof (cases "ranked ReadKind (mode opts) now pl")
  case (Cons p ps)
  then have "p \<in> set (providers pl)" by (metis list.set_intros(1) ranked_set)
  with Cons show ?thesis by (simp add: chooseLeader_def Let_def pool_inv_leader assms pool_inv_urls [OF assms])
qed (simp add: chooseLeader_def assms)

lemma chooseLeader_simps [simp]:
  "probeState (fst (chooseLeader opts now reason pl)) = probeState pl"
  "pending (fst (chooseLeader opts now reason pl)) = pending pl"
  "providers (fst (chooseLeader opts now reason pl)) = providers pl"
  by (simp_all add: chooseLeader_def Let_def split: list.split)

lemma pool_inv_probe_state:
  "pool_inv ups T pl \<Longrightarrow> round_number s = round_number (probeState pl) \<Longrightarrow> inFlight s \<or> pending pl = [] \<Longrightarrow>
   pool_inv ups T (pl\<lparr>probeState := s\<rparr>)"
  by (auto simp: pool_inv_def round_ok_def)

lemma pool_inv_finish:
  assumes inv: "pool_inv ups T pl" and fin: "probe_finish opts now duration pl = Some (pl', summary)"
  shows "pool_inv ups T pl'"
  using fin inv
  by (auto simp: probe_finish_def Let_def split: if_splits intro!: pool_inv_probe_state pool_inv_choose)

lemma pool_inv_probing [simp]: "pool_inv ups T (pl\<lparr>probing := b\<rparr>) = pool_inv ups T pl"
  by (simp add: pool_inv_def round_ok_def)

lemma pool_inv_step:
  assumes "pool_step opts T pl pl'" "pool_inv ups T pl" "0 \<le> T"
  shows "pool_inv ups T pl'"
  using assms
  by (cases rule: pool_step.cases)
     (auto intro: pool_inv_outcome pool_inv_start pool_inv_result pool_inv_finish
       simp: startProbing_def probe_tick_def stopProbing_def)

section \<open>What callers may rely on\<close>

text \<open>
  C24: Whatever requests and probe rounds do to the pool, in any order: its upstreams stay the
  configured ones, every request is counted as a success or a failure, a cool-down ends at most 60
  seconds after the latest clock reading, the leader is one of the upstreams, and when no round is
  under way every upstream has been probed exactly once in every round, so rounds never overlap.
\<close>

theorem pool_accounting:
  assumes "(pool_step opts T)\<^sup>*\<^sup>* (createProviderPool ups) pl" "0 \<le> T"
  shows "map entry_of (providers pl) = ups
    \<and> list_all (\<lambda>p. requests (stats p) = successes (stats p) + failures (stats p) \<and> cooldownUntil (stats p) \<le> T + 60000)
        (providers pl)
    \<and> (case providerUrl (leaderState pl) of None \<Rightarrow> True | Some u \<Rightarrow> u \<in> up_url ` set ups)
    \<and> (inFlight (probeState pl) \<or>
       list_all (\<lambda>p. probeSuccesses (stats p) + probeFailures (stats p) = round_number (probeState pl)) (providers pl))"
proof -
  have "pool_inv ups T pl"
    using assms(1) by (induction rule: rtranclp_induct) (auto intro: pool_inv_create pool_inv_step assms(2))
  then show ?thesis
    by (auto simp: pool_inv_def round_ok_def list_all_iff list_all_length stats_ok_def probed_def in_set_conv_nth split: option.split)
qed

definition sample_upstreams :: "upstream list" where
  "sample_upstreams =
     [\<lparr>up_id = ''provider-1'', up_label = ''a'', up_url = ''https://a'', up_wsUrl = ''wss://a'', up_displayUrl = ''https://a'', up_displayWsUrl = ''wss://a''\<rparr>,
      \<lparr>up_id = ''provider-2'', up_label = ''b'', up_url = ''https://b'', up_wsUrl = ''wss://b'', up_displayUrl = ''https://b'', up_displayWsUrl = ''wss://b''\<rparr>]"

definition sample_pool :: pool where
  "sample_pool = recordOutcome 7 ''https://a'' (Failure None ''timeout'') (recordOutcome 5 ''https://a'' (Success 20) (createProviderPool sample_upstreams))"

theorem pool_accounting_witness:
  "map entry_of (providers sample_pool) = sample_upstreams \<and> inFlight (probeState sample_pool)
   \<and> requests (stats (hd (providers sample_pool))) = 2"
proof -
  let ?c = "createProviderPool sample_upstreams" and ?o = "\<lparr>mode = ''balanced'', probeIntervalMs = 60000, probeTimeoutMs = 2500\<rparr>"
  have "(pool_step ?o 10)\<^sup>*\<^sup>* ?c sample_pool"
    unfolding sample_pool_def
    by (rule converse_rtranclp_into_rtranclp, rule outcome_step [of 5], simp, rule r_into_rtranclp, rule outcome_step, simp)
  from pool_accounting [OF this] have "map entry_of (providers sample_pool) = sample_upstreams" by simp
  then show ?thesis
    by (simp add: sample_pool_def recordOutcome_def createProviderPool_def sample_upstreams_def createProviderState_def
        upstream.extend_def is_leader_def at_provider_def outcome_stats_def fresh_stats_def createLeaderState_def
        probe_start_def createProbeState_def upt_rec)
qed

text \<open>In a sorted list a strictly smaller element stands before a larger one.\<close>

definition precedes :: "'a list \<Rightarrow> 'a \<Rightarrow> 'a \<Rightarrow> bool" where
  "precedes xs p q \<longleftrightarrow> p \<in> set (takeWhile (\<lambda>x. x \<noteq> q) xs)"

context comparator
begin

lemma sort_precedes:
  assumes "p \<in> set xs" "q \<in> set xs" "\<not> le q p"
  shows "precedes (sort_by le xs) p q"
proof -
  have "p \<noteq> q" using assms(3) le_total by blast
  obtain as bs where s: "sort_by le xs = as @ q # bs" "q \<notin> set as"
    using assms(2) by (metis set_sort_by split_list_first)
  have "p \<notin> set bs" using sorted_sort_by [of xs] assms(3) by (auto simp: s sorted_wrt_append)
  moreover have "p \<in> set (as @ q # bs)" using assms(1) s by (metis set_sort_by)
  ultimately have "p \<in> set as" using \<open>p \<noteq> q\<close> by auto
  then show ?thesis using s by (auto simp: precedes_def takeWhile_append)
qed

end

interpretation score_order: comparator "\<lambda>l r. scoreProvider l kind m now leaderUrl \<le> scoreProvider r kind m now leaderUrl"
  for kind m now leaderUrl
  by unfold_locales auto

lemma ranked_precedes:
  assumes "p \<in> set (providers pl)" "q \<in> set (providers pl)"
    "scoreProvider p (classifyMethod rpc) (mode opts) now (providerUrl (leaderState pl))
      < scoreProvider q (classifyMethod rpc) (mode opts) now (providerUrl (leaderState pl))"
  shows "precedes (getRankedProviders opts now rpc pl) p q"
  using score_order.sort_precedes [OF assms(1,2)] assms(3) by (simp add: getRankedProviders_def ranked_def Let_def not_le)

definition in_good_standing :: "int \<Rightarrow> provider \<Rightarrow> bool" where
  "in_good_standing now p \<longleftrightarrow>
     healthy (stats p) \<and> cooldownUntil (stats p) \<le> now \<and> index p \<le> 100 \<and> 0 \<le> observed_latency (stats p)
     \<and> observed_latency (stats p) \<le> 10000 \<and> failures (stats p) \<le> 20 \<and> probeFailures (stats p) \<le> 20"

definition mode_part :: "provider \<Rightarrow> string \<Rightarrow> rat" where
  "mode_part p m = (if m = ''prefer-first'' then of_nat (index p) else if m = ''fastest'' then observed_latency (stats p) * 2
     else observed_latency (stats p) * (7 / 5))"

definition bonus_part :: "provider \<Rightarrow> string option \<Rightarrow> rat" where
  "bonus_part p u = min (of_nat (probeSuccesses (stats p)) * 4) 40 + min (of_nat (successes (stats p)) * 3) 30
     + (if u \<noteq> Some [] \<and> is_leader u p \<and> healthy (stats p) then 75 else 0)"

definition health_part :: "provider \<Rightarrow> int \<Rightarrow> rat" where
  "health_part p now = (if \<not> healthy (stats p) then 50000 else 0) + (if now < cooldownUntil (stats p) then 25000 else 0)"

definition failure_part :: "provider \<Rightarrow> method_kind \<Rightarrow> rat" where
  "failure_part p kind = of_nat (failures (stats p)) * (if kind = WriteKind then 400 else 250)
     + of_nat (probeFailures (stats p)) * (if kind = WriteKind then 650 else 400)"

lemma score_parts:
  "scoreProvider p kind m now u = of_nat (index p) * 10 + mode_part p m + health_part p now + failure_part p kind - bonus_part p u"
proof -
  define a b c d e where "a = mode_part p m" and "b = health_part p now" and "c = (of_nat (failures (stats p)) :: rat)"
    and "d = (of_nat (probeFailures (stats p)) :: rat)" and "e = bonus_part p u"
  have "scoreProvider p kind m now u
      = of_nat (index p) * 10 + b + a + c * 250 + d * 400 + (if kind = WriteKind then c * 150 + d * 250 else 0) - e"
    unfolding a_def b_def c_def d_def e_def scoreProvider_def Let_def mode_part_def bonus_part_def health_part_def
    by (simp only: diff_conv_add_uminus minus_add add.assoc add.left_commute)
  moreover have "failure_part p kind = c * 250 + d * 400 + (if kind = WriteKind then c * 150 + d * 250 else 0)"
    unfolding failure_part_def c_def d_def by (cases "kind = WriteKind") (simp_all add: algebra_simps)
  ultimately have "scoreProvider p kind m now u = of_nat (index p) * 10 + b + a + failure_part p kind - e" by (simp only: add.assoc)
  then show ?thesis unfolding a_def b_def e_def by (simp only: add.assoc add.commute [of "health_part p now"] add.left_commute [of "health_part p now"])
qed

lemma bonus_bounds: "0 \<le> bonus_part p u" "bonus_part p u \<le> 145" "\<not> healthy (stats p) \<Longrightarrow> bonus_part p u \<le> 70"
  by (auto simp: bonus_part_def min_def)

lemma part_bounds:
  "0 \<le> observed_latency (stats p) \<Longrightarrow> 0 \<le> mode_part p m" "0 \<le> failure_part p kind" "0 \<le> health_part p now"
  by (simp_all add: mode_part_def failure_part_def health_part_def)

lemma score_good:
  assumes "in_good_standing now p"
  shows "scoreProvider p kind m now u \<le> 42100"
proof -
  have n: "(of_nat (index p) :: rat) \<le> 100" "(of_nat (failures (stats p)) :: rat) \<le> 20" "(of_nat (probeFailures (stats p)) :: rat) \<le> 20"
    using assms of_nat_mono [of "index p" 100, where 'a = rat] of_nat_mono [of "failures (stats p)" 20, where 'a = rat]
      of_nat_mono [of "probeFailures (stats p)" 20, where 'a = rat] by (simp_all add: in_good_standing_def)
  have "mode_part p m \<le> 20000" using assms n by (simp add: mode_part_def in_good_standing_def)
  moreover have "failure_part p kind \<le> 21000" using n by (simp add: failure_part_def)
  moreover have "health_part p now = 0" using assms by (simp add: health_part_def in_good_standing_def)
  ultimately show ?thesis using n bonus_bounds(1) [of p u] unfolding score_parts by linarith
qed

lemma score_failing:
  assumes "\<not> healthy (stats q)" "0 \<le> observed_latency (stats q)"
  shows "49930 \<le> scoreProvider q kind m now u"
proof -
  have "50000 \<le> health_part q now" using assms by (simp add: health_part_def)
  then show ?thesis
    using part_bounds(1) [OF assms(2), of m] part_bounds(2) [of q kind] bonus_bounds(3) [OF assms(1), of u]
      of_nat_0_le_iff [of "index q", where 'a = rat] unfolding score_parts by linarith
qed

text \<open>
  Whatever the mode, the method and the leader: a healthy provider that is not cooling down,
  answers within 10 seconds and has failed at most 20 times and 20 probes is tried before every
  unhealthy provider.
\<close>

theorem healthy_provider_first:
  assumes "p \<in> set (providers pl)" "q \<in> set (providers pl)" "in_good_standing now p"
    "\<not> healthy (stats q)" "0 \<le> observed_latency (stats q)"
  shows "precedes (getRankedProviders opts now rpc pl) p q"
proof (rule ranked_precedes [OF assms(1,2)])
  show "scoreProvider p (classifyMethod rpc) (mode opts) now (providerUrl (leaderState pl))
      < scoreProvider q (classifyMethod rpc) (mode opts) now (providerUrl (leaderState pl))"
    by (rule le_less_trans [OF score_good [OF assms(3)] less_le_trans [OF _ score_failing [OF assms(4,5)]]]) simp
qed

definition served_pool :: pool where
  "served_pool = recordOutcome 5 ''https://b'' (Success 20) (createProviderPool sample_upstreams)"

lemma served_pool_providers:
  "providers served_pool =
     [createProviderState (sample_upstreams ! 0) 0,
      (createProviderState (sample_upstreams ! 1) 1)\<lparr>stats := outcome_stats 5 (Success 20) fresh_stats\<rparr>]"
  by (simp add: served_pool_def recordOutcome_def createProviderPool_def sample_upstreams_def createProviderState_def
      upstream.extend_def is_leader_def at_provider_def createLeaderState_def upt_rec)

theorem healthy_provider_first_witness:
  "precedes (getRankedProviders \<lparr>mode = ''fastest'', probeIntervalMs = 60000, probeTimeoutMs = 2500\<rparr> 6
       (Some (JStr ''sendTransaction'')) served_pool)
     (providers served_pool ! 1) (providers served_pool ! 0)"
proof (rule healthy_provider_first)
  show "in_good_standing 6 (providers served_pool ! 1)"
    by (simp add: served_pool_providers in_good_standing_def outcome_stats_def fresh_stats_def observed_latency_def averageLatency_def)
  show "\<not> healthy (stats (providers served_pool ! 0))" "0 \<le> observed_latency (stats (providers served_pool ! 0))"
    by (simp_all add: served_pool_providers fresh_stats_def observed_latency_def)
qed (simp_all add: served_pool_providers)

section \<open>Failures are never forgotten\<close>

text \<open>A pool of two providers after \<open>n\<close> failed requests to the first and none to the second.\<close>

definition only_failures :: "upstream \<Rightarrow> upstream \<Rightarrow> nat \<Rightarrow> pool \<Rightarrow> bool" where
  "only_failures a b n pl \<longleftrightarrow>
     (\<exists>s. providers pl = [(createProviderState a 0)\<lparr>stats := s\<rparr>, createProviderState b 1]
        \<and> failures s = n \<and> probeFailures s = 0 \<and> lastProbeLatencyMs s = None \<and> 0 \<le> averageLatencyMs s)
     \<and> leaderState pl = createLeaderState"

lemma createProviderState_url [simp]: "up_url (createProviderState e i) = up_url e"
  by (simp add: createProviderState_def upstream.extend_def)

lemma averageLatency_nonneg: "0 \<le> x \<Longrightarrow> 0 \<le> y \<Longrightarrow> 0 \<le> averageLatency x y"
  by (simp add: averageLatency_def)

lemma only_failures_fail:
  assumes "only_failures a b n pl" "0 \<le> l"
  shows "only_failures a b (Suc n) (recordOutcome now (up_url a) (Failure (Some l) msg) pl)"
  using assms
  by (auto simp: only_failures_def recordOutcome_def is_leader_def at_provider_def outcome_stats_def averageLatency_nonneg createLeaderState_def)

lemma only_failures_iterate:
  "0 \<le> l \<Longrightarrow> only_failures a b n ((recordOutcome now (up_url a) (Failure (Some l) msg) ^^ n) (createProviderPool [a, b]))"
  by (induction n)
     (auto simp: only_failures_fail, simp add: only_failures_def createProviderPool_def fresh_stats_def createProviderState_def upstream.extend_def)

text \<open>
  Counters of failures only grow: a provider that has failed 260 times over the life of the
  gateway and then answers is healthy again, yet a provider that was never reached at all is tried
  before it, although it counts as unhealthy.
\<close>

theorem old_failures_outrank_health:
  assumes "260 \<le> n" "0 \<le> l" "0 \<le> l'" "0 \<le> now"
  shows "let pl = recordOutcome now (up_url a) (Success l')
                    ((recordOutcome now (up_url a) (Failure (Some l) msg) ^^ n) (createProviderPool [a, b]));
             opts = \<lparr>mode = ''balanced'', probeIntervalMs = i, probeTimeoutMs = t\<rparr>
         in healthy (stats (providers pl ! 0)) \<and> \<not> healthy (stats (providers pl ! 1))
            \<and> hd (getRankedProviders opts now rpc pl) = providers pl ! 1"
proof -
  let ?f = "(recordOutcome now (up_url a) (Failure (Some l) msg) ^^ n) (createProviderPool [a, b])"
  define pl where "pl = recordOutcome now (up_url a) (Success l') ?f"
  obtain s where s: "providers ?f = [(createProviderState a 0)\<lparr>stats := s\<rparr>, createProviderState b 1]" "failures s = n"
      "lastProbeLatencyMs s = None" "0 \<le> averageLatencyMs s" "leaderState ?f = createLeaderState"
    using only_failures_iterate [OF assms(2), of a b n now msg] by (auto simp: only_failures_def)
  define p where "p = (createProviderState a 0)\<lparr>stats := outcome_stats now (Success l') s\<rparr>"
  have pl: "providers pl = [p, createProviderState b 1]"
    using s by (simp add: pl_def p_def recordOutcome_def is_leader_def at_provider_def createLeaderState_def)
  have p: "failures (stats p) = n" "healthy (stats p)" "0 \<le> observed_latency (stats p)"
    using s(2-4) assms(3) by (simp_all add: p_def outcome_stats_def observed_latency_def averageLatency_nonneg)
  have n: "(260 :: rat) \<le> of_nat n" using of_nat_mono [OF assms(1), where 'a = rat] by simp
  have hi: "64855 \<le> scoreProvider p kind m now u" for kind m u
  proof -
    have "65000 \<le> failure_part p kind" using n p(1) by (simp add: failure_part_def)
    then show ?thesis using part_bounds(1) [OF p(3), of m] part_bounds(3) [of p now] bonus_bounds(2) [of p u]
        of_nat_0_le_iff [of "index p", where 'a = rat] unfolding score_parts by linarith
  qed
  have lo: "scoreProvider (createProviderState b 1) kind ''balanced'' now u \<le> 64600" for kind u
  proof -
    let ?q = "createProviderState b 1"
    have "health_part ?q now = 50000" "mode_part ?q ''balanced'' = 9999 * (7 / 5)" "failure_part ?q kind = 0"
      using assms(4) by (simp_all add: health_part_def mode_part_def failure_part_def observed_latency_def fresh_stats_def)
    then show ?thesis using bonus_bounds(1) [of ?q u] unfolding score_parts by simp
  qed
  have "\<not> scoreProvider p kind ''balanced'' now u \<le> scoreProvider (createProviderState b 1) kind ''balanced'' now u" for kind u
    using hi [of kind "''balanced''" u] lo [of kind u] by linarith
  then have "getRankedProviders \<lparr>mode = ''balanced'', probeIntervalMs = i, probeTimeoutMs = t\<rparr> now rpc pl = [createProviderState b 1, p]"
    by (simp add: getRankedProviders_def ranked_def pl sort_by_Cons Let_def)
  then show ?thesis unfolding Let_def pl_def [symmetric] using p(2) by (simp add: pl fresh_stats_def)
qed

theorem old_failures_outrank_health_witness:
  "let a = sample_upstreams ! 0; b = sample_upstreams ! 1;
       pl = recordOutcome 9 (up_url a) (Success 20)
              ((recordOutcome 9 (up_url a) (Failure (Some 30) ''timeout'') ^^ 300) (createProviderPool [a, b]));
       opts = \<lparr>mode = ''balanced'', probeIntervalMs = 60000, probeTimeoutMs = 2500\<rparr>
   in healthy (stats (providers pl ! 0)) \<and> \<not> healthy (stats (providers pl ! 1))
      \<and> hd (getRankedProviders opts 9 (Some (JStr ''getSlot'')) pl) = providers pl ! 1"
  unfolding Let_def by (rule old_failures_outrank_health [unfolded Let_def]) simp_all

section \<open>Upstream URLs stay private\<close>

text \<open>The pool with other URLs, as with other API keys in them.\<close>

definition with_urls :: "(string \<Rightarrow> string) \<Rightarrow> (string \<Rightarrow> string) \<Rightarrow> pool \<Rightarrow> pool" where
  "with_urls f g pl = pl\<lparr>providers := map (\<lambda>p. p\<lparr>up_url := f (up_url p), up_wsUrl := g (up_wsUrl p)\<rparr>) (providers pl),
     leaderState := (leaderState pl)\<lparr>providerUrl := map_option f (providerUrl (leaderState pl))\<rparr>\<rparr>"

lemma is_leader_with_urls: "inj f \<Longrightarrow> is_leader (map_option f u) (p\<lparr>up_url := f (up_url p), up_wsUrl := w\<rparr>) = is_leader u p"
  by (cases u) (auto simp: is_leader_def dest: injD)

lemma find_with_urls:
  "inj f \<Longrightarrow> find (is_leader (map_option f u)) (map (\<lambda>p. p\<lparr>up_url := f (up_url p), up_wsUrl := g (up_wsUrl p)\<rparr>) ps)
     = map_option (\<lambda>p. p\<lparr>up_url := f (up_url p), up_wsUrl := g (up_wsUrl p)\<rparr>) (find (is_leader u) ps)"
  by (induction ps) (auto simp: is_leader_with_urls)

text \<open>
  The status of the pool, as every public page shows it, does not depend on the upstream URLs,
  which carry the API keys: pools that differ only in distinct URLs have the same status.
\<close>

lemma status_independent_of_urls:
  assumes "inj f"
  shows "getStatus opts (with_urls f g pl) = getStatus opts pl"
  by (simp add: getStatus_def with_urls_def pool_snapshot_def snapshotProvider_def leader_json_def find_url_def
      find_with_urls [OF assms] is_leader_with_urls [OF assms] split: option.split)

end
