(* ===== verification/Gateway_Config.thy ===== *)
theory Gateway_Config
  imports Provider_Pool
begin

text \<open>
  The configuration of the RPC gateway, \<open>services/tsn-rpc-gateway/config.mjs\<close>. The environment is a
  function from names to values; the class \<open>URL\<close> of the runtime is the record \<open>url_api\<close>.
\<close>

section \<open>Reading lists\<close>

definition FALLBACK_PORT :: int where "FALLBACK_PORT = 8787"
definition FALLBACK_TIMEOUT_MS :: int where "FALLBACK_TIMEOUT_MS = 4500"
definition FALLBACK_PROBE_INTERVAL_MS :: int where "FALLBACK_PROBE_INTERVAL_MS = 60000"
definition FALLBACK_PROBE_TIMEOUT_MS :: int where "FALLBACK_PROBE_TIMEOUT_MS = 2500"
definition FALLBACK_DASHBOARD_REFRESH_MS :: int where "FALLBACK_DASHBOARD_REFRESH_MS = 5000"

definition DEFAULT_SOLANA_RPC_URLS :: "string list" where
  "DEFAULT_SOLANA_RPC_URLS = [''https://api.devnet.solana.com'']"

definition DEFAULT_ALLOWED_ORIGINS :: "string list" where
  "DEFAULT_ALLOWED_ORIGINS =
     [''https://trustlink-pay.vercel.app'', ''https://trustlink-pay-backend.vercel.app'', ''https://tsn-node.wasmer.app'',
      ''https://tsn-receiver-kappa.vercel.app'', ''http://localhost:3001'', ''http://localhost:3000'', ''http://localhost:4317'',
      ''http://127.0.0.1:4317'']"

definition ENV_KEYS :: "string list" where
  "ENV_KEYS = [''TSN_SOLANA_RPC_UPSTREAM_URLS'', ''TSN_SOLANA_RPC_UPSTREAM_URL'', ''TSN_SOLANA_RPC_URLS'',
     ''TSN_SOLANA_RPC_URL'', ''SOLANA_RPC_URL'']"

definition WS_ENV_KEYS :: "string list" where
  "WS_ENV_KEYS = [''TSN_SOLANA_WS_UPSTREAM_URLS'', ''TSN_SOLANA_WS_UPSTREAM_URL'', ''TSN_SOLANA_WS_URLS'',
     ''TSN_SOLANA_WS_URL'', ''SOLANA_WS_UPSTREAM_URLS'', ''SOLANA_WS_UPSTREAM_URL'']"

type_synonym env = "string \<Rightarrow> string option"

text \<open>\<open>s.split(/[,\\s]+/g)\<close>: a run of separators is one cut.\<close>

definition list_sep :: "char \<Rightarrow> bool" where
  "list_sep c \<longleftrightarrow> c = CHR '','' \<or> is_space c"

function split_runs :: "string \<Rightarrow> string list" where
  "split_runs s =
     (case dropWhile (\<lambda>c. \<not> list_sep c) s of
        [] \<Rightarrow> [s]
      | c # r \<Rightarrow> takeWhile (\<lambda>c. \<not> list_sep c) s # split_runs (dropWhile list_sep r))"
  by auto
termination
proof (relation "measure length")
  fix s c r assume "dropWhile (\<lambda>c. \<not> list_sep c) s = c # r"
  then have "Suc (length r) \<le> length s" by (metis length_Cons length_dropWhile_le)
  then show "(dropWhile list_sep r, s) \<in> measure length" by (simp add: le_less_trans [OF length_dropWhile_le])
qed simp

declare split_runs.simps [simp del]

text \<open>\<open>s.replace(/\\/+$/, "")\<close>.\<close>

definition strip_slashes :: "string \<Rightarrow> string" where
  "strip_slashes s = rev (dropWhile (\<lambda>c. c = CHR ''/'') (rev s))"

definition normalizeRpcUrl :: "string \<Rightarrow> string" where
  "normalizeRpcUrl v = strip_slashes (js_trim v)"

definition non_empty :: "string list \<Rightarrow> string list" where
  "non_empty = filter (\<lambda>s. s \<noteq> [])"

definition splitRpcUrlList :: "string \<Rightarrow> string list" where
  "splitRpcUrlList v = non_empty (map normalizeRpcUrl (split_runs v))"

definition unique :: "string list \<Rightarrow> string list" where
  "unique vs = js_uniq (non_empty vs)"

definition collect_from :: "string list \<Rightarrow> env \<Rightarrow> string list" where
  "collect_from keys source =
     unique (map normalizeRpcUrl (concat (map (\<lambda>k. case source k of None \<Rightarrow> [] | Some v \<Rightarrow> if v = [] then [] else splitRpcUrlList v) keys)))"

definition collectUrls :: "env \<Rightarrow> string list" where
  "collectUrls = collect_from ENV_KEYS"

definition collectWsUrls :: "env \<Rightarrow> string list" where
  "collectWsUrls = collect_from WS_ENV_KEYS"

section \<open>Numbers, paths and origins\<close>

definition number_at_least :: "host \<Rightarrow> string option \<Rightarrow> int \<Rightarrow> int \<Rightarrow> int" where
  "number_at_least h v least fallback =
     (case js_number h (map_option JStr v) of Some n \<Rightarrow> if least \<le> n then n else fallback | None \<Rightarrow> fallback)"

definition parsePort :: "host \<Rightarrow> env \<Rightarrow> int" where
  "parsePort h source =
     number_at_least h (case source ''TSN_RPC_GATEWAY_PORT'' of Some v \<Rightarrow> Some v | None \<Rightarrow> source ''PORT'') 1 FALLBACK_PORT"

definition parseWebSocketPath :: "env \<Rightarrow> string result" where
  "parseWebSocketPath source =
     (let value = js_trim (case source ''TSN_RPC_GATEWAY_WS_PATH'' of Some v \<Rightarrow> v | None \<Rightarrow> ''/ws'') in
      if \<not> js_starts_with value ''/'' \<or> js_includes value ''://'' \<or> js_includes value ''..''
      then Inl ''TSN_RPC_GATEWAY_WS_PATH must be an absolute local path'' else Inr value)"

definition parseAllowedOrigins :: "env \<Rightarrow> string list" where
  "parseAllowedOrigins source =
     (let configured = unique (non_empty (map (\<lambda>v. strip_slashes (js_trim v))
            (split_runs (case source ''TSN_RPC_GATEWAY_ALLOWED_ORIGINS'' of Some v \<Rightarrow> v | None \<Rightarrow> []))))
      in if configured \<noteq> [] then configured else DEFAULT_ALLOWED_ORIGINS)"

definition parseBoolean :: "env \<Rightarrow> string \<Rightarrow> bool" where
  "parseBoolean source name \<longleftrightarrow> lower (js_trim (case source name of Some v \<Rightarrow> v | None \<Rightarrow> [])) = ''true''"

definition parseTimeoutMs :: "host \<Rightarrow> env \<Rightarrow> int" where
  "parseTimeoutMs h source = number_at_least h (source ''TSN_RPC_PROVIDER_TIMEOUT_MS'') 1000 FALLBACK_TIMEOUT_MS"

definition parseProbeIntervalMs :: "host \<Rightarrow> env \<Rightarrow> int" where
  "parseProbeIntervalMs h source = number_at_least h (source ''TSN_RPC_GATEWAY_PROBE_INTERVAL_MS'') 10000 FALLBACK_PROBE_INTERVAL_MS"

definition parseProbeTimeoutMs :: "host \<Rightarrow> env \<Rightarrow> int" where
  "parseProbeTimeoutMs h source = number_at_least h (source ''TSN_RPC_GATEWAY_PROBE_TIMEOUT_MS'') 500 FALLBACK_PROBE_TIMEOUT_MS"

definition parseDashboardRefreshMs :: "host \<Rightarrow> env \<Rightarrow> int" where
  "parseDashboardRefreshMs h source = number_at_least h (source ''TSN_RPC_GATEWAY_DASHBOARD_REFRESH_MS'') 1000 FALLBACK_DASHBOARD_REFRESH_MS"

definition parseProbeMode :: "env \<Rightarrow> string" where
  "parseProbeMode source =
     (if lower (js_trim (case source ''TSN_RPC_GATEWAY_PROBE_MODE'' of Some v \<Rightarrow> v | None \<Rightarrow> ''on-demand'')) = ''scheduled''
      then ''scheduled'' else ''on-demand'')"

section \<open>URLs\<close>

record url =
  u_protocol :: string
  u_hostname :: string
  u_pathname :: string
  u_searchParams :: "(string \<times> string) list"
  u_other :: string

record url_api =
  url_parse :: "string \<Rightarrow> url option"
  url_text :: "url \<Rightarrow> string"
  set_protocol :: "string \<Rightarrow> url \<Rightarrow> url"

definition labelForUrl :: "url_api \<Rightarrow> string \<Rightarrow> nat \<Rightarrow> string" where
  "labelForUrl api u i =
     (case url_parse api u of
        None \<Rightarrow> ''provider-'' @ dec (i + 1)
      | Some p \<Rightarrow> u_hostname p @ (if u_pathname p \<noteq> ''/'' then u_pathname p else []))"

definition deriveWsUrl :: "url_api \<Rightarrow> string \<Rightarrow> string" where
  "deriveWsUrl api u =
     (case url_parse api u of
        None \<Rightarrow> u
      | Some p \<Rightarrow> url_text api (set_protocol api (if u_protocol p = ''https:'' then ''wss:'' else ''ws:'') p))"

text \<open>
  The loop runs over the live list of parameters: setting the first parameter of a name removes the
  later ones of that name.
\<close>

function redact_params :: "(string \<times> string) list \<Rightarrow> (string \<times> string) list" where
  "redact_params [] = []"
| "redact_params ((k, v) # ps) = (k, ''redacted'') # redact_params (filter (\<lambda>e. fst e \<noteq> k) ps)"
  by pat_completeness auto
termination by (relation "measure length") (auto simp: le_imp_less_Suc)

text \<open>\<open>s.replace(/\\?.*$/, "?redacted")\<close>: the dot stops at line ends.\<close>

definition line_end :: "char \<Rightarrow> bool" where
  "line_end c \<longleftrightarrow> c = CHR 0x0A \<or> c = CHR 0x0D"

definition cut_query :: "string \<Rightarrow> string" where
  "cut_query s =
     (let tail = rev (takeWhile (\<lambda>c. \<not> line_end c) (rev s)); head = take (length s - length tail) s in
      head @ (if CHR ''?'' \<in> set tail then takeWhile (\<lambda>c. c \<noteq> CHR ''?'') tail @ ''?redacted'' else tail))"

definition redactRpcUrlForDisplay :: "url_api \<Rightarrow> string \<Rightarrow> string" where
  "redactRpcUrlForDisplay api u =
     (case url_parse api u of
        None \<Rightarrow> cut_query (normalizeRpcUrl u)
      | Some p \<Rightarrow> url_text api (p\<lparr>u_searchParams := redact_params (u_searchParams p)\<rparr>))"

section \<open>The configuration\<close>

record gateway_config = pool_options +
  port :: int
  webSocketPath :: string
  allowedOrigins :: "string list"
  allowAnyOrigin :: bool
  timeoutMs :: int
  probeMode :: string
  dashboardRefreshMs :: int
  logLevel :: string
  upstreams :: "upstream list"

definition ws_url_for :: "url_api \<Rightarrow> string list \<Rightarrow> string \<Rightarrow> nat \<Rightarrow> string" where
  "ws_url_for api wss u i = (if i < length wss \<and> wss ! i \<noteq> [] then normalizeRpcUrl (wss ! i) else deriveWsUrl api u)"

definition upstream_entry :: "url_api \<Rightarrow> string list \<Rightarrow> string \<Rightarrow> nat \<Rightarrow> upstream" where
  "upstream_entry api wss u i =
     \<lparr>up_id = ''provider-'' @ dec (i + 1), up_label = labelForUrl api u i, up_url = u, up_wsUrl = ws_url_for api wss u i,
      up_displayUrl = redactRpcUrlForDisplay api u, up_displayWsUrl = redactRpcUrlForDisplay api (ws_url_for api wss u i)\<rparr>"

definition env_lower :: "env \<Rightarrow> string \<Rightarrow> string \<Rightarrow> string" where
  "env_lower source name d = lower (case source name of Some v \<Rightarrow> v | None \<Rightarrow> d)"

definition getRpcGatewayConfig :: "host \<Rightarrow> url_api \<Rightarrow> env \<Rightarrow> gateway_config result" where
  "getRpcGatewayConfig h api source =
     (let upstreamWsUrls = collectWsUrls source;
          urls = unique (collectUrls source @ DEFAULT_SOLANA_RPC_URLS)
      in and_then (parseWebSocketPath source) (\<lambda>path. Inr
           \<lparr>mode = env_lower source ''TSN_RPC_GATEWAY_MODE'' ''balanced'', probeIntervalMs = parseProbeIntervalMs h source,
            probeTimeoutMs = parseProbeTimeoutMs h source, port = parsePort h source, webSocketPath = path,
            allowedOrigins = parseAllowedOrigins source,
            allowAnyOrigin = parseBoolean source ''TSN_RPC_GATEWAY_ALLOW_ANY_ORIGIN'', timeoutMs = parseTimeoutMs h source,
            probeMode = parseProbeMode source, dashboardRefreshMs = parseDashboardRefreshMs h source,
            logLevel = env_lower source ''TSN_RPC_GATEWAY_LOG_LEVEL'' ''info'',
            upstreams = map2 (upstream_entry api upstreamWsUrls) urls [0..<length urls]\<rparr>))"

section \<open>Properties\<close>

lemma number_at_least_bound: "least \<le> fallback \<Longrightarrow> least \<le> number_at_least h v least fallback"
  by (simp add: number_at_least_def split: option.split)

lemma upstream_urls: "map (up_url \<circ> (\<lambda>(u, i). upstream_entry api wss u i)) (zip us [0..<length us]) = us"
  by (auto intro!: nth_equalityI simp: upstream_entry_def)

text \<open>
  Every configuration the gateway starts with is usable: there is at least one upstream, the
  public endpoint is among them, no upstream occurs twice or is empty, time limits and intervals
  keep their lower bounds, the port is positive and the socket path is absolute.
\<close>

theorem config_within_bounds:
  assumes "getRpcGatewayConfig h api source = Inr c"
  shows "''https://api.devnet.solana.com'' \<in> up_url ` set (upstreams c) \<and> distinct (map up_url (upstreams c))
    \<and> [] \<notin> up_url ` set (upstreams c)
    \<and> 1000 \<le> timeoutMs c \<and> 10000 \<le> probeIntervalMs c \<and> 500 \<le> probeTimeoutMs c \<and> 1000 \<le> dashboardRefreshMs c
    \<and> 0 < port c \<and> js_starts_with (webSocketPath c) ''/''"
proof -
  let ?us = "unique (collectUrls source @ DEFAULT_SOLANA_RPC_URLS)"
  have u: "map up_url (upstreams c) = ?us"
    using assms by (auto simp: getRpcGatewayConfig_def Let_def upstream_urls)
  have "up_url ` set (upstreams c) = set ?us" by (metis u list.set_map)
  moreover have "''https://api.devnet.solana.com'' \<in> set ?us" "[] \<notin> set ?us" "distinct ?us"
    by (simp_all add: unique_def non_empty_def DEFAULT_SOLANA_RPC_URLS_def)
  moreover have "1 \<le> port c" "1000 \<le> timeoutMs c" "10000 \<le> probeIntervalMs c" "500 \<le> probeTimeoutMs c" "1000 \<le> dashboardRefreshMs c"
    using assms
    by (auto simp: getRpcGatewayConfig_def Let_def parsePort_def parseTimeoutMs_def parseProbeIntervalMs_def parseProbeTimeoutMs_def
        parseDashboardRefreshMs_def FALLBACK_PORT_def FALLBACK_TIMEOUT_MS_def FALLBACK_PROBE_INTERVAL_MS_def
        FALLBACK_PROBE_TIMEOUT_MS_def FALLBACK_DASHBOARD_REFRESH_MS_def intro!: number_at_least_bound)
  moreover have "js_starts_with (webSocketPath c) ''/''"
    using assms by (auto simp: getRpcGatewayConfig_def Let_def parseWebSocketPath_def split: if_splits)
  ultimately show ?thesis using u by auto
qed

definition sample_url_api :: url_api where
  "sample_url_api = \<lparr>url_parse = (\<lambda>s. None), url_text = u_hostname, set_protocol = (\<lambda>p u. u\<lparr>u_protocol := p\<rparr>)\<rparr>"

definition sample_env :: env where
  "sample_env = (\<lambda>k. if k = ''SOLANA_RPC_URL'' then Some ''https://rpc.one/?api-key=7 , https://rpc.two//'' else None)"

definition sample_config :: gateway_config where
  "sample_config = (case getRpcGatewayConfig sample_host sample_url_api sample_env of Inr c \<Rightarrow> c)"

lemma sample_config_Inr: "getRpcGatewayConfig sample_host sample_url_api sample_env = Inr sample_config"
proof -
  have "parseWebSocketPath sample_env = Inr ''/ws''"
    by code_simp
  then show ?thesis by (simp add: sample_config_def getRpcGatewayConfig_def Let_def)
qed

theorem config_within_bounds_witness:
  "distinct (map up_url (upstreams sample_config)) \<and> 1000 \<le> timeoutMs sample_config \<and> 0 < port sample_config"
  using config_within_bounds [OF sample_config_Inr] by blast

section \<open>What is shown of a URL\<close>

lemma map_fst_filter: "map fst (filter (\<lambda>e. fst e \<noteq> k) ps) = filter (\<lambda>x. x \<noteq> k) (map fst ps)"
  by (simp add: filter_map comp_def)

lemma redact_params_keys: "map fst ps = map fst qs \<Longrightarrow> redact_params ps = redact_params qs"
proof (induction ps arbitrary: qs rule: redact_params.induct)
  case (2 k v ps)
  then obtain w qs' where qs: "qs = (k, w) # qs'" "map fst ps = map fst qs'" by (cases qs) auto
  have "map fst (filter (\<lambda>e. fst e \<noteq> k) ps) = map fst (filter (\<lambda>e. fst e \<noteq> k) qs')"
    by (simp add: map_fst_filter qs(2))
  from 2(1) [OF this] show ?case by (simp add: qs(1))
qed simp

text \<open>
  The display form does not show values of query parameters: URLs that differ only in them look
  the same. It does show the path, where several providers put the API key.
\<close>

lemma display_hides_query_values:
  assumes "url_parse api a = Some p" "url_parse api b = Some (p\<lparr>u_searchParams := qs\<rparr>)" "map fst (u_searchParams p) = map fst qs"
  shows "redactRpcUrlForDisplay api a = redactRpcUrlForDisplay api b"
  using redact_params_keys [OF assms(3)] assms(1,2) by (simp add: redactRpcUrlForDisplay_def)

lemma display_shows_path:
  assumes "url_parse api a = Some p" "u_searchParams p = []" "url_text api p = a" "u_pathname p \<noteq> ''/''"
  shows "redactRpcUrlForDisplay api a = a \<and> labelForUrl api a i = u_hostname p @ u_pathname p"
  using assms by (cases p) (simp add: redactRpcUrlForDisplay_def labelForUrl_def)

end
