(* ===== verification/Rpc_Gateway.thy ===== *)
theory Rpc_Gateway
  imports Gateway_Config
begin

text \<open>
  The RPC gateway, \<open>services/tsn-rpc-gateway/gateway.mjs\<close>, and the origin checks and the socket
  connection of \<open>server.mjs\<close>. What the upstreams answer is an argument: for a URL, the answer and the
  clock when it is recorded. Logging and the HTML of the dashboard are not modelled.
\<close>

section \<open>Trying upstreams in order\<close>

text \<open>
  Both the RPC proxy and the socket connection go through the ranked providers until one succeeds or
  an error forbids to go on; the last error counts.
\<close>

fun first_answer :: "('p \<Rightarrow> 's \<Rightarrow> ('e + 'r) \<times> 's) \<Rightarrow> ('e \<Rightarrow> bool) \<Rightarrow> 'p list \<Rightarrow> 'e option \<Rightarrow> 's \<Rightarrow> ('e option + 'r) \<times> 's" where
  "first_answer attempt retry [] last_error s = (Inl last_error, s)"
| "first_answer attempt retry (p # ps) last_error s =
     (case attempt p s of
        (Inr r, s') \<Rightarrow> (Inr r, s')
      | (Inl e, s') \<Rightarrow> if retry e then first_answer attempt retry ps (Some e) s' else (Inl (Some e), s'))"

text \<open>The contract of an attempt: its result depends on the provider alone, not on the pool.\<close>

locale upstream_loop =
  fixes attempt :: "'p \<Rightarrow> 's \<Rightarrow> ('e + 'r) \<times> 's"
    and retry :: "'e \<Rightarrow> bool"
    and answer :: "'p \<Rightarrow> 'e + 'r"
  assumes attempt_answer: "fst (attempt p s) = answer p"
begin

definition retried :: "'p \<Rightarrow> bool" where
  "retried p = (case answer p of Inl e \<Rightarrow> retry e | Inr _ \<Rightarrow> False)"

lemma attempt_cases:
  "(case attempt p s of (Inr r, s') \<Rightarrow> f r s' | (Inl e, s') \<Rightarrow> g e s')
   = (case answer p of Inr r \<Rightarrow> f r (snd (attempt p s)) | Inl e \<Rightarrow> g e (snd (attempt p s)))"
  using attempt_answer [of p s] by (cases "attempt p s") (auto split: sum.split)

lemma first_answer_spec:
  "fst (first_answer attempt retry ps le s) =
     (case dropWhile retried ps of
        p # _ \<Rightarrow> (case answer p of Inr r \<Rightarrow> Inr r | Inl e \<Rightarrow> Inl (Some e))
      | [] \<Rightarrow> Inl (if ps = [] then le else Some (projl (answer (last ps)))))"
proof (induction ps arbitrary: le s)
  case (Cons p ps)
  show ?case
  proof (cases "answer p")
    case (Inl e)
    show ?thesis
    proof (cases "retry e")
      case True
      then have "retried p" "answer p = Inl e" by (simp_all add: retried_def Inl)
      then show ?thesis using True 
        by (cases "ps = []"; cases "dropWhile retried ps") (simp_all add: attempt_cases Cons.IH [of "Some e"] del: dropWhile_eq_Nil_conv)
    qed (simp add: attempt_cases retried_def Inl)
  qed (simp add: attempt_cases retried_def)
qed simp

lemma first_answer_served:
  assumes "p \<in> set ps" "answer p = Inr r" "\<And>q e. q \<in> set ps \<Longrightarrow> answer q = Inl e \<Longrightarrow> retry e"
  shows "\<exists>q r'. q \<in> set ps \<and> answer q = Inr r' \<and> fst (first_answer attempt retry ps le s) = Inr r'"
proof -
  have "\<not> retried p" using assms(2) by (simp add: retried_def)
  then obtain q rest where q: "dropWhile retried ps = q # rest" using assms(1) by (cases "dropWhile retried ps") auto
  then have "q \<in> set ps" "\<not> retried q" by (metis list.set_intros(1) set_dropWhileD, metis hd_dropWhile list.discI list.sel(1))
  with assms(3) obtain r' where "answer q = Inr r'" by (cases "answer q") (auto simp: retried_def)
  with q \<open>q \<in> set ps\<close> show ?thesis by (auto simp: first_answer_spec)
qed

end

section \<open>Requests to an upstream\<close>

text \<open>What a failed upstream request throws.\<close>

record rpc_failure =
  rf_message :: string
  rf_latency :: "rat option"
  rf_retryable :: bool

definition isJsonObject :: "json \<Rightarrow> bool" where
  "isJsonObject v = (case v of JObj _ \<Rightarrow> True | _ \<Rightarrow> False)"

text \<open>\<open>syntax_message\<close> is the message of the runtime's \<open>SyntaxError\<close> for a text.\<close>

definition parseJsonBody :: "(string \<Rightarrow> string) \<Rightarrow> string \<Rightarrow> json result" where
  "parseJsonBody syntax_message text =
     (if js_trim text = [] then Inl ''RPC request body is empty''
      else case json_parse text of None \<Rightarrow> Inl (syntax_message text) | Some v \<Rightarrow> Inr v)"

definition RETRY_WORDS :: "string list" where
  "RETRY_WORDS =
     [''invalid api key'', ''unauthorized'', ''forbidden'', ''rate limit'', ''too many requests'', ''timeout'', ''timed out'',
      ''econnrefused'', ''enotfound'', ''eai_again'', ''invalid url'', ''temporarily unavailable'', ''service unavailable'']"

definition shouldRetryRpcError :: "json option \<Rightarrow> bool" where
  "shouldRetryRpcError e =
     (case e of
        None \<Rightarrow> False
      | Some v \<Rightarrow>
          truthy e \<and>
          (let message = lower (str_or_empty (js_get v ''message'')) in
           js_get v ''code'' \<in> {Some (JNum (-32005)), Some (JNum (-32401)), Some (JNum 429)}
           \<or> list_ex (js_includes message) RETRY_WORDS))"

definition isBase64AccountData :: "json \<Rightarrow> bool" where
  "isBase64AccountData data = (case data of JStr _ \<Rightarrow> True | JArr (JStr _ # _) \<Rightarrow> True | _ \<Rightarrow> False)"

text \<open>\<open>v != null \<and> !isBase64AccountData(v)\<close>, and the chain \<open>responseBody?.result?.value\<close>.\<close>

definition bad_data :: "json option \<Rightarrow> bool" where
  "bad_data v = (case v of None \<Rightarrow> False | Some JNull \<Rightarrow> False | Some d \<Rightarrow> \<not> isBase64AccountData d)"

definition js_chain :: "json option \<Rightarrow> string \<Rightarrow> json option" where
  "js_chain v k = (case v of None \<Rightarrow> None | Some x \<Rightarrow> js_get x k)"

definition hasMalformedAccountData :: "json \<Rightarrow> json \<Rightarrow> bool" where
  "hasMalformedAccountData payload body =
     (let rpc = js_get payload ''method''; value = js_chain (js_get body ''result'') ''value'' in
      if rpc = Some (JStr ''getAccountInfo'') then bad_data (js_chain value ''data'')
      else if rpc = Some (JStr ''getMultipleAccounts'') then
        (case value of Some (JArr accounts) \<Rightarrow> list_ex (\<lambda>a. truthy (Some a) \<and> bad_data (js_get a ''data'')) accounts | _ \<Rightarrow> False)
      else False)"

definition retryable :: "string \<Rightarrow> rat \<Rightarrow> rpc_failure" where
  "retryable message latency = \<lparr>rf_message = message, rf_latency = Some latency, rf_retryable = True\<rparr>"

text \<open>The checks on a response that has been read, in the order of the source.\<close>

definition check_reply :: "string \<Rightarrow> json \<Rightarrow> rat \<Rightarrow> int \<Rightarrow> json \<Rightarrow> rpc_failure + json \<times> rat" where
  "check_reply label payload latency status parsed =
     (let fails = \<not> response_ok status; err = js_get parsed ''error'' in
      if fails \<and> 500 \<le> status then Inl (retryable (''Upstream '' @ label @ '' returned '' @ int_str status) latency)
      else if fails \<and> status = 429 then Inl (retryable (''Upstream '' @ label @ '' rate limited the request'') latency)
      else if isJsonObject parsed \<and> truthy err \<and> shouldRetryRpcError err
           then Inl (retryable (''Upstream '' @ label @ '' JSON-RPC error: '' @ rpc_error_text err) latency)
      else if fails \<and> (status = 401 \<or> status = 403)
           then Inl (retryable (''Upstream '' @ label @ '' rejected its provider credentials ('' @ int_str status @ '')'') latency)
      else if isJsonObject parsed \<and> hasMalformedAccountData payload parsed
           then Inl (retryable (''Upstream '' @ label @ '' returned malformed account data'') latency)
      else Inr (parsed, latency))"

definition fetchRpcPayload :: "string \<Rightarrow> json \<Rightarrow> string fetch_answer \<Rightarrow> rpc_failure + json \<times> rat" where
  "fetchRpcPayload label payload answer =
     (case answer of
        FetchThrows message latency \<Rightarrow> Inl (retryable message latency)
      | FetchReply latency status body \<Rightarrow>
          (case body of
             Inl message \<Rightarrow> Inl \<lparr>rf_message = message, rf_latency = None, rf_retryable = False\<rparr>
           | Inr text \<Rightarrow>
               (case parseJsonBody (\<lambda>_. []) text of
                  Inl _ \<Rightarrow> Inl (retryable (''Upstream '' @ label @ '' returned non-JSON response'') latency)
                | Inr parsed \<Rightarrow> check_reply label payload latency status parsed)))"

text \<open>One attempt asks a provider and records the outcome in the pool.\<close>

type_synonym network = "string \<Rightarrow> string fetch_answer \<times> int"

definition rpc_attempt :: "gateway_config \<Rightarrow> network \<Rightarrow> json \<Rightarrow> provider \<Rightarrow> pool \<Rightarrow> (rpc_failure + json \<times> provider) \<times> pool" where
  "rpc_attempt c net payload p pl =
     (case net (up_url p) of (answer, now) \<Rightarrow>
        (case fetchRpcPayload (up_label p) payload answer of
           Inr (body, latency) \<Rightarrow> (Inr (body, p), recordOutcome now (up_url p) (Success latency) pl)
         | Inl e \<Rightarrow>
             (Inl e, recordOutcome now (up_url p)
                (Failure (Some (case rf_latency e of Some l \<Rightarrow> l | None \<Rightarrow> of_int (timeoutMs c))) (rf_message e)) pl)))"

definition pool_of :: "gateway_config \<Rightarrow> pool_options" where
  "pool_of c = pool_options.truncate c"

definition proxySinglePayload :: "gateway_config \<Rightarrow> int \<Rightarrow> network \<Rightarrow> json \<Rightarrow> pool \<Rightarrow> (string + json \<times> provider) \<times> pool" where
  "proxySinglePayload c now net payload pl =
     (case first_answer (rpc_attempt c net payload) rf_retryable
             (getRankedProviders (pool_of c) now (js_get payload ''method'') pl) None pl of
        (Inr r, pl') \<Rightarrow> (Inr r, pl')
      | (Inl (Some e), pl') \<Rightarrow> (Inl (rf_message e), pl')
      | (Inl None, pl') \<Rightarrow> (Inl ''No upstream Solana RPC providers are available'', pl'))"

definition rpc_error :: "json \<Rightarrow> int \<Rightarrow> string \<Rightarrow> obj \<Rightarrow> json" where
  "rpc_error i n message extra =
     JObj [(''jsonrpc'', JStr ''2.0''), (''id'', i), (''error'', JObj ([(''code'', JNum n), (''message'', JStr message)] @ extra))]"

text \<open>A batch is served entry by entry; each entry has its own readings of clock and network.\<close>

fun proxyBatchPayload :: "gateway_config \<Rightarrow> (int \<times> network) list \<Rightarrow> json list \<Rightarrow> pool \<Rightarrow> json list \<times> pool" where
  "proxyBatchPayload c worlds [] pl = ([], pl)"
| "proxyBatchPayload c worlds (entry # rest) pl =
     (if \<not> isJsonObject entry then
        (let (rs, pl') = proxyBatchPayload c (tl worlds) rest pl in (rpc_error JNull (-32600) ''Invalid JSON-RPC batch entry'' [] # rs, pl'))
      else
        (case proxySinglePayload c (fst (hd worlds)) (snd (hd worlds)) entry pl of (r, pl1) \<Rightarrow>
           (let (rs, pl') = proxyBatchPayload c (tl worlds) rest pl1 in
            ((case r of Inr (body, _) \<Rightarrow> body | Inl message \<Rightarrow> rpc_error (nullish (js_get entry ''id'') JNull) (-32000) message []) # rs, pl'))))"

section \<open>Request handler\<close>

record gateway_request =
  q_method :: string
  q_pathname :: string
  q_param_method :: "string option"
  q_text :: string

datatype gateway_body = JsonBody json | TextBody string | DashboardPage obj

record gateway_reply =
  g_status :: int
  g_headers :: "(string \<times> string) list"
  g_body :: gateway_body

text \<open>\<open>new Response(body, ...)\<close> throws for a body with a null-body status or a status out of range.\<close>

definition new_response :: "gateway_body \<Rightarrow> int \<Rightarrow> (string \<times> string) list \<Rightarrow> gateway_reply result" where
  "new_response body status headers =
     (if status < 200 \<or> 599 < status \<or> status \<in> {204, 205, 304} then Inl ''Invalid response status code''
      else Inr \<lparr>g_status = status, g_headers = headers, g_body = body\<rparr>)"

definition jsonResponse :: "json \<Rightarrow> int \<Rightarrow> (string \<times> string) list \<Rightarrow> gateway_reply result" where
  "jsonResponse v status headers = new_response (JsonBody v) status ((''content-type'', ''application/json; charset=utf-8'') # headers)"

definition textResponse :: "string \<Rightarrow> int \<Rightarrow> (string \<times> string) list \<Rightarrow> gateway_reply result" where
  "textResponse s status headers = new_response (TextBody s) status ((''content-type'', ''text/plain; charset=utf-8'') # headers)"

definition htmlResponse :: "obj \<Rightarrow> gateway_reply result" where
  "htmlResponse status = new_response (DashboardPage status) 200 [(''content-type'', ''text/html; charset=utf-8'')]"

definition provider_ref :: "provider \<Rightarrow> json" where
  "provider_ref p = JObj [(''id'', JStr (up_id p)), (''label'', JStr (up_label p)), (''displayUrl'', JStr (up_displayUrl p))]"

definition summarizeSelection :: "string option \<Rightarrow> provider list \<Rightarrow> json" where
  "summarizeSelection rpc ps = JObj
     [(''method'', opt_str rpc), (''selected'', case ps of [] \<Rightarrow> JNull | p # _ \<Rightarrow> provider_ref p),
      (''rankedProviders'', JArr (map provider_ref ps))]"

definition service_head :: obj where
  "service_head = [(''ok'', JBool True), (''service'', JStr ''trustlink-rpc-gateway'')]"

definition status_field :: "obj \<Rightarrow> string \<Rightarrow> json" where
  "status_field st k = (case map_of st k of Some v \<Rightarrow> v | None \<Rightarrow> JNull)"

definition health_page :: "gateway_config \<Rightarrow> pool \<Rightarrow> json" where
  "health_page c pl =
     (let st = getStatus (pool_of c) pl in
      JObj (service_head @
        [(''mode'', JStr (mode c)), (''timeoutMs'', JNum (timeoutMs c)), (''probeIntervalMs'', JNum (probeIntervalMs c)),
         (''probeTimeoutMs'', JNum (probeTimeoutMs c)), (''probeMode'', JStr (probeMode c)), (''logLevel'', JStr (logLevel c)),
         (''upstreamCount'', JNum (int (length (upstreams c)))), (''leader'', status_field st ''leader''),
         (''probeState'', status_field st ''probeState''), (''upstreams'', status_field st ''providers'')]))"

definition get_page :: "gateway_config \<Rightarrow> int \<Rightarrow> gateway_request \<Rightarrow> pool \<Rightarrow> gateway_reply result option" where
  "get_page c now q pl =
     (let st = getStatus (pool_of c) pl in
      if q_pathname q = ''/'' \<or> q_pathname q = ''/health'' then Some (jsonResponse (health_page c pl) 200 [])
      else if q_pathname q = ''/providers'' then
        Some (jsonResponse (JObj (service_head @ [(''probeMode'', JStr (probeMode c)), (''leader'', status_field st ''leader''),
                (''providers'', status_field st ''providers'')])) 200 [])
      else if q_pathname q = ''/selection'' then
        Some (jsonResponse (JObj (service_head @ [(''upstreams'', summarizeSelection (q_param_method q)
                (getRankedProviders (pool_of c) now (map_option JStr (q_param_method q)) pl))])) 200 [])
      else if q_pathname q = ''/status'' then Some (jsonResponse (JObj (service_head @ st)) 200 [])
      else if q_pathname q = ''/dashboard'' then Some (htmlResponse st)
      else None)"

definition is_text :: "json option \<Rightarrow> bool" where
  "is_text v = (case v of Some (JStr _) \<Rightarrow> True | _ \<Rightarrow> False)"

definition rpc_header :: "(string \<times> string) list" where
  "rpc_header = [(''x-tsn-rpc-gateway'', ''trustlink'')]"

definition rpc_post :: "url_api \<Rightarrow> gateway_config \<Rightarrow> (string \<Rightarrow> string) \<Rightarrow> (int \<times> network) list \<Rightarrow> gateway_request \<Rightarrow> pool
    \<Rightarrow> gateway_reply result \<times> pool" where
  "rpc_post api c syntax_message worlds q pl =
     (case parseJsonBody syntax_message (q_text q) of
        Inl e \<Rightarrow> (jsonResponse (rpc_error JNull (-32700) e []) 400 [], pl)
      | Inr (JArr entries) \<Rightarrow>
          (case proxyBatchPayload c worlds entries pl of (rs, pl') \<Rightarrow> (jsonResponse (JArr rs) 200 rpc_header, pl'))
      | Inr payload \<Rightarrow>
          if \<not> isJsonObject payload \<or> \<not> is_text (js_get payload ''method'')
          then (jsonResponse (rpc_error (nullish (js_get payload ''id'') JNull) (-32600) ''Invalid JSON-RPC request'' []) 400 [], pl)
          else
            (case proxySinglePayload c (fst (hd worlds)) (snd (hd worlds)) payload pl of
               (Inr (body, p), pl') \<Rightarrow> (jsonResponse body 200 (rpc_header @ [(''x-tsn-rpc-provider'', up_displayUrl p)]), pl')
             | (Inl message, pl') \<Rightarrow>
                 (jsonResponse (rpc_error (nullish (js_get payload ''id'') JNull) (-32000) message
                    [(''data'', JObj [(''upstreams'', JArr (map (\<lambda>u. JStr (redactRpcUrlForDisplay api (up_url u))) (upstreams c)))])])
                    200 rpc_header, pl')))"

definition handleRequest :: "url_api \<Rightarrow> gateway_config \<Rightarrow> (string \<Rightarrow> string) \<Rightarrow> (int \<times> network) list \<Rightarrow> gateway_request \<Rightarrow> pool
    \<Rightarrow> gateway_reply result \<times> pool" where
  "handleRequest api c syntax_message worlds q pl =
     (if q_method q = ''OPTIONS'' then
        (textResponse [] 204 [(''access-control-allow-origin'', ''*''), (''access-control-allow-headers'', ''content-type''),
           (''access-control-allow-methods'', ''GET,POST,OPTIONS'')], pl)
      else case (if q_method q = ''GET'' then get_page c (fst (hd worlds)) q pl else None) of
        Some r \<Rightarrow> (r, pl)
      | None \<Rightarrow>
          if q_method q \<noteq> ''POST'' \<or> (q_pathname q \<noteq> ''/'' \<and> q_pathname q \<noteq> ''/rpc'')
          then (textResponse ''TrustLink RPC gateway'' 200 [], pl)
          else rpc_post api c syntax_message worlds q pl)"

definition createRpcGatewayApp :: "gateway_config \<Rightarrow> int \<Rightarrow> pool" where
  "createRpcGatewayApp c now =
     (let pl = createProviderPool (upstreams c) in if probeMode c = ''scheduled'' then startProbing now pl else pl)"

section \<open>Failover\<close>

text \<open>What a provider answers to a payload, without the bookkeeping.\<close>

definition rpc_answer_of :: "network \<Rightarrow> json \<Rightarrow> provider \<Rightarrow> rpc_failure + json \<times> provider" where
  "rpc_answer_of net payload p =
     (case fetchRpcPayload (up_label p) payload (fst (net (up_url p))) of Inr (body, _) \<Rightarrow> Inr (body, p) | Inl e \<Rightarrow> Inl e)"

interpretation rpc_loop: upstream_loop "rpc_attempt c net payload" rf_retryable "rpc_answer_of net payload" for c net payload
  by unfold_locales (simp add: rpc_attempt_def rpc_answer_of_def split: prod.split sum.split)

lemma proxy_result:
  "fst (proxySinglePayload c now net payload pl) =
     (case fst (first_answer (rpc_attempt c net payload) rf_retryable
             (getRankedProviders (pool_of c) now (js_get payload ''method'') pl) None pl) of
        Inr r \<Rightarrow> Inr r | Inl None \<Rightarrow> Inl ''No upstream Solana RPC providers are available'' | Inl (Some e) \<Rightarrow> Inl (rf_message e))"
  by (auto simp: proxySinglePayload_def split: prod.split sum.split option.split)

lemma getRankedProviders_set [simp]: "set (getRankedProviders opts now rpc pl) = set (providers pl)"
  by (simp add: getRankedProviders_def)

definition body_read :: "string fetch_answer \<Rightarrow> bool" where
  "body_read a = (case a of FetchThrows _ _ \<Rightarrow> True | FetchReply _ _ body \<Rightarrow> (case body of Inl _ \<Rightarrow> False | Inr _ \<Rightarrow> True))"

lemma body_read_retryable: "body_read a \<Longrightarrow> fetchRpcPayload l payload a = Inl e \<Longrightarrow> rf_retryable e"
  by (auto simp: body_read_def fetchRpcPayload_def check_reply_def retryable_def Let_def split: fetch_answer.splits sum.splits if_splits)

text \<open>
  C25: Failover: if at least one upstream gives a good answer to a request and every response that
  arrives can be read, the client gets the answer of an upstream that gave a good one, whatever
  the statistics of the pool.
\<close>

theorem gateway_fails_over:
  assumes "p \<in> set (providers pl)" "fetchRpcPayload (up_label p) payload (fst (net (up_url p))) = Inr (body, latency)"
    "list_all (\<lambda>q. body_read (fst (net (up_url q)))) (providers pl)"
  shows "case fst (proxySinglePayload c now net payload pl) of
           Inl _ \<Rightarrow> False
         | Inr (b, q) \<Rightarrow> q \<in> set (providers pl)
             \<and> fst ` {r. fetchRpcPayload (up_label q) payload (fst (net (up_url q))) = Inr r} = {b}"
proof -
  let ?ps = "getRankedProviders (pool_of c) now (js_get payload ''method'') pl"
  have "rpc_answer_of net payload p = Inr (body, p)" using assms(2) by (simp add: rpc_answer_of_def)
  moreover have "rf_retryable e" if "q \<in> set ?ps" "rpc_answer_of net payload q = Inl e" for q e
    using that assms(3) by (auto simp: rpc_answer_of_def list_all_iff split: sum.splits intro: body_read_retryable)
  ultimately obtain q r where q: "q \<in> set ?ps" "rpc_answer_of net payload q = Inr r"
      and r: "fst (first_answer (rpc_attempt c net payload) rf_retryable ?ps None pl) = Inr r"
    using rpc_loop.first_answer_served [of p ?ps net payload "(body, p)" c None pl] assms(1) by (metis getRankedProviders_set)
  from q(2) obtain b l where "fetchRpcPayload (up_label q) payload (fst (net (up_url q))) = Inr (b, l)" "r = (b, q)"
    by (auto simp: rpc_answer_of_def split: sum.splits)
  with q(1) r show ?thesis by (simp add: proxy_result)
qed

text \<open>The README promises to fail over from slow upstreams; a body that stalls until the time limit is not retried.\<close>

lemma stalled_body_not_retried:
  assumes "getRankedProviders (pool_of c) now (js_get payload ''method'') pl = p # rest"
    "fst (net (up_url p)) = FetchReply latency status (Inl message)"
  shows "fst (proxySinglePayload c now net payload pl) = Inl message"
  using assms unfolding proxy_result rpc_loop.first_answer_spec
  by (simp add: rpc_loop.retried_def rpc_answer_of_def fetchRpcPayload_def)

definition parsed_reply :: "json \<Rightarrow> bool" where
  "parsed_reply v = (case js_chain (js_chain (js_get v ''result'') ''value'') ''data'' of Some (JObj _) \<Rightarrow> True | _ \<Rightarrow> False)"

definition parsed_answer :: "string fetch_answer \<Rightarrow> bool" where
  "parsed_answer a =
     (case a of
        FetchReply _ status (Inr body) \<Rightarrow> status = 200 \<and> (case json_parse body of Some v \<Rightarrow> parsed_reply v | None \<Rightarrow> False)
      | _ \<Rightarrow> False)"

text \<open>
  A response with parsed account data, which clients ask for with the encoding \<open>jsonParsed\<close>, counts
  as malformed: if all upstreams answer such a request alike, the gateway has tried and marked every
  one of them as failed and the client gets an error.
\<close>

theorem parsed_accounts_refused:
  assumes "js_get payload ''method'' = Some (JStr ''getAccountInfo'')" "providers pl \<noteq> []"
    "list_all (\<lambda>q. parsed_answer (fst (net (up_url q)))) (providers pl)"
  shows "\<exists>message. fst (proxySinglePayload c now net payload pl) = Inl message"
proof -
  let ?ps = "getRankedProviders (pool_of c) now (js_get payload ''method'') pl"
  have fail: "\<exists>e. rpc_answer_of net payload q = Inl e" if "q \<in> set (providers pl)" for q
  proof -
    have "parsed_answer (fst (net (up_url q)))" using assms(3) that by (simp add: list_all_iff)
    then obtain latency reply v where a: "fst (net (up_url q)) = FetchReply latency 200 (Inr reply)" "json_parse reply = Some v" "parsed_reply v"
      by (auto simp: parsed_answer_def split: fetch_answer.splits sum.splits option.splits)
    have "hasMalformedAccountData payload v" "isJsonObject v"
      using assms(1) a(3)
      by (auto simp: parsed_reply_def hasMalformedAccountData_def bad_data_def isBase64AccountData_def js_chain_def js_get_def isJsonObject_def
          split: option.splits json.splits)
    then show ?thesis
      using a by (auto simp: rpc_answer_of_def fetchRpcPayload_def parseJsonBody_def check_reply_def Let_def split: sum.split)
  qed
  have "\<exists>e. fst (first_answer (rpc_attempt c net payload) rf_retryable ?ps None pl) = Inl e"
  proof (cases "dropWhile (rpc_loop.retried net payload) ?ps")
    case (Cons q qs)
    then have "q \<in> set (providers pl)" by (metis getRankedProviders_set list.set_intros(1) set_dropWhileD)
    with fail Cons show ?thesis unfolding rpc_loop.first_answer_spec by fastforce
  next
    case Nil
    show ?thesis unfolding rpc_loop.first_answer_spec Nil by simp
  qed
  then show ?thesis by (auto simp: proxy_result split: option.split)
qed

definition sample_net :: network where
  "sample_net u = (if u = ''https://a'' then FetchThrows ''The operation was aborted due to timeout'' 4500 else FetchReply 30 200 (Inr ''7''), 9)"

definition slot_request :: json where
  "slot_request = JObj [(''id'', JNum 1), (''method'', JStr ''getSlot'')]"

lemma sample_net_b: "fetchRpcPayload ''b'' slot_request (fst (sample_net ''https://b'')) = Inr (JNum 7, 30)"
proof -
  have "json_parse ''7'' = Some (JNum 7)" "js_trim ''7'' \<noteq> []" by code_simp+
  then show ?thesis
    by (simp add: sample_net_def fetchRpcPayload_def parseJsonBody_def check_reply_def response_ok_def isJsonObject_def)
qed

theorem gateway_fails_over_witness:
  "case fst (proxySinglePayload sample_config 8 sample_net slot_request (createProviderPool sample_upstreams)) of
     Inl _ \<Rightarrow> False
   | Inr (b, q) \<Rightarrow> q \<in> set (providers (createProviderPool sample_upstreams))
       \<and> fst ` {r. fetchRpcPayload (up_label q) slot_request (fst (sample_net (up_url q))) = Inr r} = {b}"
proof (rule gateway_fails_over)
  let ?q = "createProviderState (sample_upstreams ! 1) 1"
  show "?q \<in> set (providers (createProviderPool sample_upstreams))"
    by (simp add: createProviderPool_def sample_upstreams_def upt_rec)
  show "fetchRpcPayload (up_label ?q) slot_request (fst (sample_net (up_url ?q))) = Inr (JNum 7, 30)"
    using sample_net_b by (simp add: createProviderState_def upstream.extend_def sample_upstreams_def)
  show "list_all (\<lambda>q. body_read (fst (sample_net (up_url q)))) (providers (createProviderPool sample_upstreams))"
    by (simp add: createProviderPool_def sample_upstreams_def upt_rec sample_net_def body_read_def)
qed

definition parsed_account :: string where
  "parsed_account = json_stringify (JObj [(''result'', JObj [(''value'', JObj [(''data'', JObj [(''parsed'', JNum 1)])])])])"

theorem parsed_accounts_refused_witness:
  "\<exists>message. fst (proxySinglePayload sample_config 8 (\<lambda>_. (FetchReply 30 200 (Inr parsed_account), 9))
     (JObj [(''method'', JStr ''getAccountInfo'')]) (createProviderPool sample_upstreams)) = Inl message"
proof (rule parsed_accounts_refused)
  have "case json_parse parsed_account of Some v \<Rightarrow> parsed_reply v | None \<Rightarrow> False" by code_simp
  then show "list_all (\<lambda>q. parsed_answer (fst (FetchReply 30 200 (Inr parsed_account), 9))) (providers (createProviderPool sample_upstreams))"
    by (simp add: list_all_iff parsed_answer_def)
qed (simp_all add: js_get_def createProviderPool_def sample_upstreams_def upt_rec)

section \<open>Batches\<close>

definition request_id :: "json \<Rightarrow> json" where
  "request_id e = nullish (js_get e ''id'') JNull"

text \<open>The reply to an entry is what an upstream answered to it, or an error under the id of the entry.\<close>

definition answers_entry :: "gateway_config \<Rightarrow> (int \<times> network) list \<Rightarrow> json \<Rightarrow> json \<Rightarrow> bool" where
  "answers_entry c worlds e r \<longleftrightarrow>
     (\<exists>n message. r = rpc_error (request_id e) n message [])
     \<or> (\<exists>w pl q. w \<in> set worlds \<and> fst (proxySinglePayload c (fst w) (snd w) e pl) = Inr (r, q))"

lemma answers_entry_mono: "set ws \<subseteq> set ws' \<Longrightarrow> answers_entry c ws e r \<Longrightarrow> answers_entry c ws' e r"
  unfolding answers_entry_def by blast

text \<open>
  The reply to a batch has one element per entry, in the order of the batch: the body an
  upstream returned for that entry, or an error that carries the entry's id. A failing entry does
  not keep the others from being answered.
\<close>

theorem batch_reply_aligned:
  assumes "length entries \<le> length worlds"
  shows "list_all2 (answers_entry c worlds) entries (fst (proxyBatchPayload c worlds entries pl))"
  using assms
proof (induction entries arbitrary: worlds pl)
  case (Cons e es)
  then obtain w ws where w: "worlds = w # ws" "length es \<le> length ws" by (cases worlds) auto
  have rest: "list_all2 (answers_entry c worlds) es (fst (proxyBatchPayload c ws es pl'))" for pl'
    by (rule list_all2_mono [OF Cons.IH [OF w(2)]]) (auto simp: w(1) intro: answers_entry_mono [of ws])
  show ?case
  proof (cases "isJsonObject e")
    case False
    then have "request_id e = JNull" by (auto simp: request_id_def js_get_def isJsonObject_def split: json.splits)
    then have "answers_entry c worlds e (rpc_error JNull (-32600) ''Invalid JSON-RPC batch entry'' [])"
      unfolding answers_entry_def by metis
    with False rest [of pl] show ?thesis by (auto simp: w(1) split: prod.split)
  next
    case True
    obtain r pl1 where r: "proxySinglePayload c (fst w) (snd w) e pl = (r, pl1)" by force
    have "answers_entry c worlds e (case r of Inr (body, _) \<Rightarrow> body | Inl message \<Rightarrow> rpc_error (request_id e) (-32000) message [])"
    proof (cases r)
      case (Inr x)
      then have "fst (proxySinglePayload c (fst w) (snd w) e pl) = Inr (fst x, snd x)" by (simp add: r)
      then have "answers_entry c worlds e (fst x)" unfolding answers_entry_def w(1) by (metis list.set_intros(1))
      then show ?thesis using Inr by (cases x) simp
    qed (auto simp: answers_entry_def)
    with True rest [of pl1] r show ?thesis
      by (cases r) (auto simp: w(1) request_id_def split: prod.split)
  qed
qed simp

theorem batch_reply_aligned_witness:
  "list_all2 (answers_entry sample_config [(8, sample_net), (9, sample_net)]) [slot_request, JNum 3]
     (fst (proxyBatchPayload sample_config [(8, sample_net), (9, sample_net)] [slot_request, JNum 3] (createProviderPool sample_upstreams)))"
  by (rule batch_reply_aligned) simp

section \<open>Replies of the handler\<close>

lemma jsonResponse_ok: "200 \<le> s \<Longrightarrow> s \<le> 599 \<Longrightarrow> s \<notin> {204, 205, 304} \<Longrightarrow>
    jsonResponse v s hs = Inr \<lparr>g_status = s, g_headers = (''content-type'', ''application/json; charset=utf-8'') # hs, g_body = JsonBody v\<rparr>"
  by (simp add: jsonResponse_def new_response_def)

definition well_formed_rpc :: "json \<Rightarrow> bool" where
  "well_formed_rpc v = (case v of JArr _ \<Rightarrow> True | _ \<Rightarrow> isJsonObject v \<and> is_text (js_get v ''method''))"

text \<open>
  Every JSON-RPC request is answered. The answer has status 400 exactly when the body is not
  JSON or neither a batch nor an object with a method, and then no upstream was asked; in every
  other case it has status 200, also when all upstreams fail.
\<close>

theorem rpc_request_answered:
  assumes "q_method q = ''POST''" "q_pathname q = ''/'' \<or> q_pathname q = ''/rpc''"
  shows "case handleRequest api c msg worlds q pl of
           (Inl _, _) \<Rightarrow> False
         | (Inr r, pl') \<Rightarrow>
             (case parseJsonBody msg (q_text q) of
                Inr v \<Rightarrow> if well_formed_rpc v then g_status r = 200 else g_status r = 400 \<and> pl' = pl
              | Inl _ \<Rightarrow> g_status r = 400 \<and> pl' = pl)"
  using assms
  by (auto simp: handleRequest_def rpc_post_def well_formed_rpc_def jsonResponse_ok isJsonObject_def split: sum.split json.split prod.split)

definition sample_post :: gateway_request where
  "sample_post = \<lparr>q_method = ''POST'', q_pathname = ''/rpc'', q_param_method = None, q_text = ''7''\<rparr>"

theorem rpc_request_answered_witness:
  "case handleRequest sample_url_api sample_config (\<lambda>_. ''bad'') [(8, sample_net)] sample_post served_pool of
     (Inl _, _) \<Rightarrow> False
   | (Inr r, pl') \<Rightarrow>
       (case parseJsonBody (\<lambda>_. ''bad'') (q_text sample_post) of
          Inr v \<Rightarrow> if well_formed_rpc v then g_status r = 200 else g_status r = 400 \<and> pl' = served_pool
        | Inl _ \<Rightarrow> g_status r = 400 \<and> pl' = served_pool)"
  by (rule rpc_request_answered) (simp_all add: sample_post_def)

text \<open>A preflight request throws: the runtime refuses a body, even an empty one, with status 204.\<close>

lemma preflight_throws: "q_method q = ''OPTIONS'' \<Longrightarrow> handleRequest api c msg worlds q pl = (Inl ''Invalid response status code'', pl)"
  by (simp add: handleRequest_def textResponse_def new_response_def)

section \<open>Pages do not show upstream URLs\<close>

abbreviation new_urls :: "(string \<Rightarrow> string) \<Rightarrow> (string \<Rightarrow> string) \<Rightarrow> provider \<Rightarrow> provider" where
  "new_urls f g p \<equiv> p\<lparr>up_url := f (up_url p), up_wsUrl := g (up_wsUrl p)\<rparr>"

lemma score_new_urls:
  assumes "inj f" "f [] = []"
  shows "scoreProvider (new_urls f g p) kind m now (map_option f u) = scoreProvider p kind m now u"
proof -
  have "map_option f u = Some [] \<longleftrightarrow> u = Some []" using assms by (cases u) (auto dest: injD [of f _ "[]"])
  moreover have "stats (new_urls f g p) = stats p" "index (new_urls f g p) = index p" by simp_all
  ultimately show ?thesis by (simp only: scoreProvider_def is_leader_with_urls [OF assms(1)] Let_def)
qed

lemma ranked_new_urls:
  assumes "inj f" "f [] = []"
  shows "getRankedProviders opts now rpc (with_urls f g pl) = map (new_urls f g) (getRankedProviders opts now rpc pl)"
  unfolding getRankedProviders_def ranked_def Let_def with_urls_def
  by (simp add: sort_by_map [symmetric] score_new_urls [OF assms])

text \<open>
  No page shows an upstream URL, where the API keys are: every GET request has the same reply
  if all URLs of the pool are replaced by other distinct ones. (Their display forms are separate
  fields of the configuration.)
\<close>

theorem pages_hide_upstream_urls:
  assumes "q_method q = ''GET''" "inj f" "f [] = []"
  shows "fst (handleRequest api c msg worlds q (with_urls f g pl)) = fst (handleRequest api c msg worlds q pl)"
proof -
  have "summarizeSelection r (map (new_urls f g) ps) = summarizeSelection r ps" for r ps
    by (simp add: summarizeSelection_def provider_ref_def split: list.split)
  then show ?thesis
    using assms(1) by (simp add: handleRequest_def get_page_def health_page_def status_independent_of_urls [OF assms(2)]
        ranked_new_urls [OF assms(2,3)] Let_def split: option.split)
qed

theorem pages_hide_upstream_urls_witness:
  "fst (handleRequest sample_url_api sample_config (\<lambda>_. ''bad'') [(8, sample_net)]
      \<lparr>q_method = ''GET'', q_pathname = ''/selection'', q_param_method = None, q_text = []\<rparr>
      (with_urls (\<lambda>u. if u = [] then [] else u @ ''?api-key=7'') id served_pool))
   = fst (handleRequest sample_url_api sample_config (\<lambda>_. ''bad'') [(8, sample_net)]
      \<lparr>q_method = ''GET'', q_pathname = ''/selection'', q_param_method = None, q_text = []\<rparr> served_pool)"
  by (rule pages_hide_upstream_urls) (auto simp: inj_def split: if_splits)

section \<open>The server\<close>

definition isAllowedOrigin :: "gateway_config \<Rightarrow> string \<Rightarrow> bool" where
  "isAllowedOrigin c origin \<longleftrightarrow> origin = [] \<or> allowAnyOrigin c \<or> strip_slashes origin \<in> set (allowedOrigins c)"

definition corsHeaders :: "string \<Rightarrow> (string \<times> string) list" where
  "corsHeaders origin =
     (if origin = [] then []
      else [(''access-control-allow-origin'', origin), (''access-control-allow-methods'', ''GET, POST, OPTIONS''),
            (''access-control-allow-headers'', ''Content-Type, Accept, Origin, solana-client''),
            (''access-control-max-age'', ''86400''), (''vary'', ''Origin'')])"

abbreviation json_type :: "(string \<times> string) list" where
  "json_type \<equiv> [(''content-type'', ''application/json; charset=utf-8'')]"

text \<open>The listener of the HTTP server; \<open>setHeader\<close> replaces a header of the same name.\<close>

definition serve :: "url_api \<Rightarrow> gateway_config \<Rightarrow> (string \<Rightarrow> string) \<Rightarrow> (int \<times> network) list \<Rightarrow> string \<Rightarrow> gateway_request \<Rightarrow> pool
    \<Rightarrow> gateway_reply \<times> pool" where
  "serve api c msg worlds origin q pl =
     (if \<not> isAllowedOrigin c origin
      then (\<lparr>g_status = 403, g_headers = json_type,
              g_body = JsonBody (JObj [(''ok'', JBool False), (''error'', JStr ''RPC gateway origin is not allowed'')])\<rparr>, pl)
      else if q_method q = ''OPTIONS'' then (\<lparr>g_status = 204, g_headers = corsHeaders origin, g_body = TextBody []\<rparr>, pl)
      else case handleRequest api c msg worlds q pl of
        (Inr r, pl') \<Rightarrow> (r\<lparr>g_headers := js_assign (corsHeaders origin) (g_headers r)\<rparr>, pl')
      | (Inl e, pl') \<Rightarrow>
          (\<lparr>g_status = 500, g_headers = js_assign (corsHeaders origin) json_type,
             g_body = JsonBody (JObj [(''ok'', JBool False), (''service'', JStr ''trustlink-rpc-gateway''), (''error'', JStr e)])\<rparr>, pl'))"

text \<open>Sockets: \<open>connect\<close> gives the error or the open socket for a URL.\<close>

definition connectUpstreamWebSocket :: "gateway_config \<Rightarrow> int \<Rightarrow> (string \<Rightarrow> string + 's) \<Rightarrow> pool \<Rightarrow> string + 's \<times> provider" where
  "connectUpstreamWebSocket c now connect pl =
     (case fst (first_answer (\<lambda>p s. (map_sum id (\<lambda>k. (k, p)) (connect (up_wsUrl p)), s)) (\<lambda>_. True)
                  (getRankedProviders (pool_of c) now None pl) None ()) of
        Inr r \<Rightarrow> Inr r
      | Inl e \<Rightarrow> Inl (case e of Some m \<Rightarrow> m | None \<Rightarrow> ''No upstream Solana WebSocket providers are available''))"

datatype 'a upgrade = Forbidden | BadGateway | Upgraded 'a provider

definition upgrade_socket :: "gateway_config \<Rightarrow> int \<Rightarrow> (string \<Rightarrow> string + 's) \<Rightarrow> string \<Rightarrow> string \<Rightarrow> pool \<Rightarrow> 's upgrade" where
  "upgrade_socket c now connect origin pathname pl =
     (if pathname \<noteq> webSocketPath c \<or> \<not> isAllowedOrigin c origin then Forbidden
      else case connectUpstreamWebSocket c now connect pl of Inr (s, p) \<Rightarrow> Upgraded s p | Inl _ \<Rightarrow> BadGateway)"

datatype ready_state = Connecting | Open | Closing | Closed

definition close_socket :: "ready_state \<Rightarrow> ready_state" where
  "close_socket s = (if s = Open \<or> s = Connecting then Closing else s)"

definition closeSocketPair :: "ready_state \<Rightarrow> ready_state \<Rightarrow> ready_state \<times> ready_state" where
  "closeSocketPair client upstream = (close_socket client, close_socket upstream)"

interpretation ws_loop: upstream_loop "\<lambda>p s. (map_sum id (\<lambda>k. (k, p)) (connect (up_wsUrl p)), s)" "\<lambda>_. True"
  "\<lambda>p. map_sum id (\<lambda>k. (k, p)) (connect (up_wsUrl p))" for connect
  by unfold_locales simp

lemma websocket_fails_over:
  assumes "p \<in> set (providers pl)" "connect (up_wsUrl p) = Inr k"
  shows "\<exists>r. connectUpstreamWebSocket c now connect pl = Inr r"
  using ws_loop.first_answer_served [of p "getRankedProviders (pool_of c) now None pl" connect "(k, p)" None "()"] assms
  by (auto simp: connectUpstreamWebSocket_def)

definition plain_headers :: "(string \<times> string) list \<Rightarrow> bool" where
  "plain_headers hs \<longleftrightarrow> distinct (map fst hs) \<and> fst ` set hs \<subseteq> {''content-type'', ''x-tsn-rpc-gateway'', ''x-tsn-rpc-provider''}"

lemma response_headers:
  "jsonResponse v s hs = Inr r \<Longrightarrow> g_headers r = (''content-type'', ''application/json; charset=utf-8'') # hs"
  "textResponse t s hs = Inr r \<Longrightarrow> g_headers r = (''content-type'', ''text/plain; charset=utf-8'') # hs"
  "htmlResponse st = Inr r \<Longrightarrow> g_headers r = [(''content-type'', ''text/html; charset=utf-8'')]"
  by (auto simp: jsonResponse_def textResponse_def htmlResponse_def new_response_def split: if_splits)

lemma get_page_headers: "get_page c now q pl = Some (Inr r) \<Longrightarrow> plain_headers (g_headers r)"
  by (auto simp: get_page_def Let_def plain_headers_def split: if_splits dest!: response_headers)

lemma rpc_post_headers: "fst (rpc_post api c msg worlds q pl) = Inr r \<Longrightarrow> plain_headers (g_headers r)"
  by (auto simp: rpc_post_def plain_headers_def rpc_header_def split: if_splits sum.splits json.splits prod.splits dest!: response_headers)

lemma handler_headers:
  assumes "q_method q \<noteq> ''OPTIONS''" "handleRequest api c msg worlds q pl = (Inr r, pl')"
  shows "plain_headers (g_headers r)"
proof (cases "if q_method q = ''GET'' then get_page c (fst (hd worlds)) q pl else None")
  case (Some x)
  then show ?thesis using assms get_page_headers by (auto simp: handleRequest_def split: if_splits)
next
  case None
  then have "fst (rpc_post api c msg worlds q pl) = Inr r \<or> textResponse ''TrustLink RPC gateway'' 200 [] = Inr r"
    using assms unfolding handleRequest_def by (simp split: if_splits)
  moreover have "plain_headers [(''content-type'', ''text/plain; charset=utf-8'')]" by (simp add: plain_headers_def)
  ultimately show ?thesis using rpc_post_headers response_headers(2) by metis
qed

lemma assign_keeps_origin:
  assumes "plain_headers hs"
  shows "map_of (js_assign (corsHeaders origin) hs) ''access-control-allow-origin'' = map_of (corsHeaders origin) ''access-control-allow-origin''"
proof -
  have "''access-control-allow-origin'' \<notin> fst ` set hs" "''__proto__'' \<notin> fst ` set hs" using assms by (auto simp: plain_headers_def)
  then show ?thesis using assms by (simp add: map_of_js_assign plain_headers_def map_of_eq_None_iff [THEN iffD2])
qed

text \<open>
  Unless any origin is allowed, a browser on an origin that is not configured gets nothing from
  the gateway: its requests are answered 403 without a CORS header and without asking an upstream,
  and its socket upgrades are refused. A configured origin is told exactly its own origin.
\<close>

theorem foreign_origin_refused:
  assumes "origin \<noteq> []" "\<not> allowAnyOrigin c"
  shows "if strip_slashes origin \<in> set (allowedOrigins c)
    then map_of (g_headers (fst (serve api c msg worlds origin q pl))) ''access-control-allow-origin'' = Some origin
    else g_status (fst (serve api c msg worlds origin q pl)) = 403
      \<and> map_of (g_headers (fst (serve api c msg worlds origin q pl))) ''access-control-allow-origin'' = None
      \<and> snd (serve api c msg worlds origin q pl) = pl
      \<and> upgrade_socket c now connect origin pathname pl = Forbidden"
proof (cases "strip_slashes origin \<in> set (allowedOrigins c)")
  case True
  have o: "map_of (corsHeaders origin) ''access-control-allow-origin'' = Some origin" using assms(1) by (simp add: corsHeaders_def)
  have "plain_headers json_type" by (simp add: plain_headers_def)
  then have "map_of (g_headers (fst (serve api c msg worlds origin q pl))) ''access-control-allow-origin'' = Some origin"
    using True by (auto simp: serve_def isAllowedOrigin_def o assign_keeps_origin handler_headers split: prod.split sum.split)
  then show ?thesis using True by simp
next
  case False
  then show ?thesis using assms by (simp add: serve_def upgrade_socket_def isAllowedOrigin_def)
qed

lemma config_origins:
  "getRpcGatewayConfig h api source = Inr c \<Longrightarrow>
   allowedOrigins c = parseAllowedOrigins source \<and> allowAnyOrigin c = parseBoolean source ''TSN_RPC_GATEWAY_ALLOW_ANY_ORIGIN''"
  by (auto simp: getRpcGatewayConfig_def Let_def)

lemma sample_origins: "allowedOrigins sample_config = DEFAULT_ALLOWED_ORIGINS" "\<not> allowAnyOrigin sample_config"
proof -
  have "parseAllowedOrigins sample_env = DEFAULT_ALLOWED_ORIGINS" "\<not> parseBoolean sample_env ''TSN_RPC_GATEWAY_ALLOW_ANY_ORIGIN''" by code_simp+
  then show "allowedOrigins sample_config = DEFAULT_ALLOWED_ORIGINS" "\<not> allowAnyOrigin sample_config"
    using config_origins [OF sample_config_Inr] by simp_all
qed

theorem foreign_origin_refused_witness:
  "g_status (fst (serve sample_url_api sample_config (\<lambda>_. ''bad'') [(8, sample_net)] ''https://evil.example'' sample_post served_pool)) = 403"
proof -
  have nf: "strip_slashes ''https://evil.example'' \<notin> set DEFAULT_ALLOWED_ORIGINS" by code_simp
  have "''https://evil.example'' \<noteq> []" by simp
  from foreign_origin_refused [OF this sample_origins(2), of sample_url_api "\<lambda>_. ''bad''" "[(8, sample_net)]" sample_post served_pool
        8 "\<lambda>_. Inl []" "''/ws''"]
  show ?thesis unfolding sample_origins(1) if_not_P [OF nf] by (rule conjunct1)
qed

end
