(* ===== verification/Receipt_Envelope.thy ===== *)
theory Receipt_Envelope
  imports Node_Envelope
begin

text \<open>
  Private receipts, \<open>sdks/tsn-sdk/src/receipts/internal/receipt-envelope.ts\<close> and \<open>receipt-aad.ts\<close>, and the
  recovery of old receipts on a new device, \<open>recovery/history-recovery.ts\<close>. A receipt is sealed with a
  fresh data key, and the data key is wrapped for each recipient with a key both sides derive.
  X25519, HKDF and the JWK format are the runtime's, the record \<open>curve\<close>; random bytes are arguments.
\<close>

section \<open>The runtime\<close>

record curve =
  x_public :: "byte_list \<Rightarrow> byte_list"
  x_shared :: "byte_list \<Rightarrow> byte_list \<Rightarrow> byte_list option"
  jwk_import :: "json \<Rightarrow> byte_list option"
  jwk_export :: "byte_list \<Rightarrow> json"
  hkdf_sha256 :: "byte_list \<Rightarrow> byte_list \<Rightarrow> byte_list \<Rightarrow> nat \<Rightarrow> byte_list"

text \<open>AES-GCM of Web Crypto: the tag follows the ciphertext; keys have 16, 24 or 32 bytes.\<close>

definition gcm_encrypt :: "host \<Rightarrow> byte_list \<Rightarrow> byte_list \<Rightarrow> byte_list \<Rightarrow> byte_list \<Rightarrow> byte_list" where
  "gcm_encrypt h key iv aad plaintext = (case gcm_seal h key iv aad plaintext of (ct, tag) \<Rightarrow> ct @ tag)"

definition gcm_decrypt :: "host \<Rightarrow> byte_list \<Rightarrow> byte_list \<Rightarrow> byte_list \<Rightarrow> byte_list \<Rightarrow> byte_list result" where
  "gcm_decrypt h key iv aad c =
     (if length c < 16 then Inl ''OperationError''
      else case gcm_open h key iv aad (take (length c - 16) c) (drop (length c - 16) c) of
             None \<Rightarrow> Inl ''OperationError'' | Some plaintext \<Rightarrow> Inr plaintext)"

definition import_key :: "byte_list \<Rightarrow> byte_list result" where
  "import_key raw = (if length raw \<in> {16, 24, 32} then Inr raw else Inl ''DataError'')"

definition or_error :: "string \<Rightarrow> 'a option \<Rightarrow> 'a result" where
  "or_error e v = (case v of None \<Rightarrow> Inl e | Some x \<Rightarrow> Inr x)"

lemma or_error_Inr [simp]: "or_error e v = Inr x \<longleftrightarrow> v = Some x"
  by (cases v) (auto simp: or_error_def)

section \<open>Records\<close>

definition TSN_PRIVATE_RECEIPT_PROTOCOL_VERSION :: string where
  "TSN_PRIVATE_RECEIPT_PROTOCOL_VERSION = ''tsn-private-receipt-v1''"

definition TSN_PRIVATE_RECEIPT_ENCRYPTION_VERSION :: string where
  "TSN_PRIVATE_RECEIPT_ENCRYPTION_VERSION = ''aes-256-gcm+x25519-hkdf-sha256-v1''"

datatype recipient_type = DeviceRecipient | RecoveryRecipient

record receipt_recipient =
  rr_recipientKeyId :: string
  rr_recipientType :: recipient_type
  rr_encryptionPublicKey :: json

record key_envelope =
  ke_recipientKeyId :: string
  ke_recipientType :: recipient_type
  ke_wrappedDek :: string
  ke_algorithm :: string
  ke_ephemeralPublicKey :: json
  ke_nonce :: string
  ke_createdAt :: string
  ke_revokedAt :: "string option"

record receipt_head =
  rc_receiptId :: string
  rc_operationId :: string
  rc_tinCommitment :: string

record receipt_record = receipt_head +
  rc_protocolVersion :: string
  rc_ciphertext :: string
  rc_nonce :: string
  rc_authenticationTag :: string
  rc_encryptionVersion :: string
  rc_aadCommitment :: string
  rc_integrityCommitment :: string
  rc_keyEnvelopes :: "key_envelope list"
  rc_createdAt :: string

record receipt_aad =
  aad_protocolVersion :: string
  aad_receiptId :: string
  aad_operationId :: string
  aad_tinCommitment :: string
  aad_encryptionVersion :: string

definition createPrivateReceiptAad :: "'a receipt_head_scheme \<Rightarrow> receipt_aad" where
  "createPrivateReceiptAad p =
     \<lparr>aad_protocolVersion = TSN_PRIVATE_RECEIPT_PROTOCOL_VERSION, aad_receiptId = rc_receiptId p, aad_operationId = rc_operationId p,
      aad_tinCommitment = rc_tinCommitment p, aad_encryptionVersion = TSN_PRIVATE_RECEIPT_ENCRYPTION_VERSION\<rparr>"

definition serializePrivateReceiptAad :: "receipt_aad \<Rightarrow> byte_list" where
  "serializePrivateReceiptAad a = canonicalFields
     [''TSN_PRIVATE_RECEIPT_AAD'', aad_protocolVersion a, aad_receiptId a, aad_operationId a, aad_tinCommitment a, aad_encryptionVersion a]"

section \<open>Wrapping the data key\<close>

definition deriveWrappingKey :: "curve \<Rightarrow> byte_list \<Rightarrow> byte_list \<Rightarrow> byte_list \<Rightarrow> string \<Rightarrow> byte_list result" where
  "deriveWrappingKey cv private public salt recipientKeyId =
     and_then (or_error ''OperationError'' (x_shared cv private public)) (\<lambda>sharedSecret.
       Inr (hkdf_sha256 cv sharedSecret salt (canonicalFields [''TSN_RECEIPT_DEK_WRAP_V1'', recipientKeyId]) 32))"

text \<open>\<open>ephemeral\<close> is the generated private key, \<open>nonce\<close> the random bytes.\<close>

definition wrapDek :: "host \<Rightarrow> curve \<Rightarrow> byte_list \<times> byte_list \<Rightarrow> byte_list \<Rightarrow> receipt_recipient \<Rightarrow> byte_list \<Rightarrow> string \<Rightarrow> key_envelope result" where
  "wrapDek h cv random dek recipient aad createdAt =
     (let (ephemeral, nonce) = random in
      and_then (or_error ''DataError'' (jwk_import cv (rr_encryptionPublicKey recipient))) (\<lambda>recipientPublicKey.
      and_then (deriveWrappingKey cv ephemeral recipientPublicKey nonce (rr_recipientKeyId recipient)) (\<lambda>wrappingKey.
        Inr \<lparr>ke_recipientKeyId = rr_recipientKeyId recipient, ke_recipientType = rr_recipientType recipient,
             ke_wrappedDek = bytesToBase64Url (gcm_encrypt h wrappingKey nonce aad dek),
             ke_algorithm = ''x25519-hkdf-sha256-aes-256-gcm-v1'', ke_ephemeralPublicKey = jwk_export cv (x_public cv ephemeral),
             ke_nonce = bytesToBase64Url nonce, ke_createdAt = createdAt, ke_revokedAt = None\<rparr>)))"

fun wrap_all :: "(byte_list \<times> byte_list \<Rightarrow> receipt_recipient \<Rightarrow> key_envelope result) \<Rightarrow> (byte_list \<times> byte_list) list
    \<Rightarrow> receipt_recipient list \<Rightarrow> key_envelope list result" where
  "wrap_all wrap rnd [] = Inr []"
| "wrap_all wrap rnd (r # rs) =
     and_then (wrap (hd rnd) r) (\<lambda>e. and_then (wrap_all wrap (tl rnd) rs) (\<lambda>es. Inr (e # es)))"

definition integrity_fields :: "string \<Rightarrow> string \<Rightarrow> string \<Rightarrow> string \<Rightarrow> byte_list" where
  "integrity_fields aadCommitment nonce ciphertext tag = canonicalFields [aadCommitment, nonce, ciphertext, tag]"

record receipt_random =
  rnd_dek :: byte_list
  rnd_nonce :: byte_list
  rnd_wraps :: "(byte_list \<times> byte_list) list"

definition encryptPrivateReceipt :: "host \<Rightarrow> curve \<Rightarrow> int \<Rightarrow> receipt_random \<Rightarrow> receipt_head \<Rightarrow> byte_list \<Rightarrow> receipt_recipient list
    \<Rightarrow> string option \<Rightarrow> receipt_record result" where
  "encryptPrivateReceipt h cv now rnd p plaintext recipients created =
     and_then (require (recipients \<noteq> []) ''A private receipt requires at least one owner-authorized key envelope'') (\<lambda>_.
     and_then (require (distinct (map rr_recipientKeyId recipients)) ''Receipt key-envelope recipient IDs must be unique'') (\<lambda>_.
       let createdAt = (case created of Some t \<Rightarrow> t | None \<Rightarrow> to_iso h now);
           aad = serializePrivateReceiptAad (createPrivateReceiptAad p);
           aadCommitment = sha256Hex (sha256 h) aad;
           encrypted = gcm_encrypt h (rnd_dek rnd) (rnd_nonce rnd) aad plaintext;
           ciphertext = bytesToBase64Url (take (length encrypted - 16) encrypted);
           authenticationTag = bytesToBase64Url (drop (length encrypted - 16) encrypted);
           nonce = bytesToBase64Url (rnd_nonce rnd)
       in and_then (wrap_all (\<lambda>r recipient. wrapDek h cv r (rnd_dek rnd) recipient aad createdAt) (rnd_wraps rnd) recipients) (\<lambda>keyEnvelopes.
            Inr (receipt_head.extend p
              \<lparr>rc_protocolVersion = TSN_PRIVATE_RECEIPT_PROTOCOL_VERSION, rc_ciphertext = ciphertext, rc_nonce = nonce,
               rc_authenticationTag = authenticationTag, rc_encryptionVersion = TSN_PRIVATE_RECEIPT_ENCRYPTION_VERSION,
               rc_aadCommitment = aadCommitment,
               rc_integrityCommitment = sha256Hex (sha256 h) (integrity_fields aadCommitment nonce ciphertext authenticationTag),
               rc_keyEnvelopes = keyEnvelopes, rc_createdAt = createdAt\<rparr>))))"

section \<open>Opening a receipt\<close>

definition active_envelope :: "string \<Rightarrow> key_envelope \<Rightarrow> bool" where
  "active_envelope keyId e \<longleftrightarrow> ke_recipientKeyId e = keyId \<and> (ke_revokedAt e = None \<or> ke_revokedAt e = Some [])"

definition unwrapReceiptDek :: "host \<Rightarrow> curve \<Rightarrow> receipt_record \<Rightarrow> string \<Rightarrow> byte_list \<Rightarrow> (byte_list \<times> byte_list) result" where
  "unwrapReceiptDek h cv r keyId private =
     and_then (or_error ''No active receipt key envelope exists for this authorized key'' (find (active_envelope keyId) (rc_keyEnvelopes r))) (\<lambda>envelope.
       let aad = serializePrivateReceiptAad (createPrivateReceiptAad r) in
       and_then (require (sha256Hex (sha256 h) aad = rc_aadCommitment r) ''Private receipt authenticated context does not match its commitment'') (\<lambda>_.
       and_then (base64UrlToBytes (ke_nonce envelope)) (\<lambda>nonce.
       and_then (or_error ''DataError'' (jwk_import cv (ke_ephemeralPublicKey envelope))) (\<lambda>ephemeralPublicKey.
       and_then (deriveWrappingKey cv private ephemeralPublicKey nonce keyId) (\<lambda>wrappingKey.
       and_then (base64UrlToBytes (ke_wrappedDek envelope)) (\<lambda>wrapped.
       and_then (gcm_decrypt h wrappingKey nonce aad wrapped) (\<lambda>dek. Inr (dek, aad))))))))"

definition verifyEncryptedReceiptIntegrity :: "host \<Rightarrow> receipt_record \<Rightarrow> unit result" where
  "verifyEncryptedReceiptIntegrity h r =
     require (sha256Hex (sha256 h) (integrity_fields (rc_aadCommitment r) (rc_nonce r) (rc_ciphertext r) (rc_authenticationTag r))
        = rc_integrityCommitment r) ''Private receipt integrity commitment does not match its encrypted payload''"

definition rewrapPrivateReceiptDek :: "host \<Rightarrow> curve \<Rightarrow> int \<Rightarrow> byte_list \<times> byte_list \<Rightarrow> receipt_record \<Rightarrow> string \<Rightarrow> byte_list
    \<Rightarrow> receipt_recipient \<Rightarrow> string option \<Rightarrow> key_envelope result" where
  "rewrapPrivateReceiptDek h cv now random r approvingKeyId approvingPrivateKey newRecipient created =
     and_then (require (\<not> list_ex (active_envelope (rr_recipientKeyId newRecipient)) (rc_keyEnvelopes r))
        ''An active key envelope already exists for the recovery recipient'') (\<lambda>_.
     and_then (unwrapReceiptDek h cv r approvingKeyId approvingPrivateKey) (\<lambda>(dek, aad).
     and_then (verifyEncryptedReceiptIntegrity h r) (\<lambda>_.
       wrapDek h cv random dek newRecipient aad (case created of Some t \<Rightarrow> t | None \<Rightarrow> to_iso h now))))"

definition decryptPrivateReceiptForAuthorizedKey :: "host \<Rightarrow> curve \<Rightarrow> receipt_record \<Rightarrow> string \<Rightarrow> byte_list \<Rightarrow> byte_list result" where
  "decryptPrivateReceiptForAuthorizedKey h cv r keyId private =
     and_then (unwrapReceiptDek h cv r keyId private) (\<lambda>(dek, aad).
     and_then (verifyEncryptedReceiptIntegrity h r) (\<lambda>_.
     and_then (base64UrlToBytes (rc_ciphertext r)) (\<lambda>ciphertext.
     and_then (base64UrlToBytes (rc_authenticationTag r)) (\<lambda>tag.
     and_then (import_key dek) (\<lambda>key.
     and_then (base64UrlToBytes (rc_nonce r)) (\<lambda>nonce.
       gcm_decrypt h key nonce aad (ciphertext @ tag)))))))"

section \<open>Recovery of old receipts\<close>

datatype history_state = NoHistory | HistoryAvailable | RecoveryRequired string | RecoveryUnavailable string

datatype recovery_method = AuthorizedDevice | RecoveryCredential

record history_inventory =
  historicalReceiptCount :: int
  accessibleHistoricalReceiptCount :: int
  activeApprovingDeviceCount :: int
  activeRecoveryCredentialCount :: int

definition detectHistoricalPrivateRecords :: "history_inventory \<Rightarrow> history_state" where
  "detectHistoricalPrivateRecords i =
     (if historicalReceiptCount i = 0 then NoHistory
      else if accessibleHistoricalReceiptCount i = historicalReceiptCount i then HistoryAvailable
      else if 0 < activeApprovingDeviceCount i \<or> 0 < activeRecoveryCredentialCount i
      then RecoveryRequired ''Historical private records found. Authorize secure recovery to restore access on this device.''
      else RecoveryUnavailable ''Historical private records cannot be restored because no authorized device or recovery credential is available.'')"

definition getRecoveryOptions :: "history_inventory \<Rightarrow> (recovery_method \<times> bool \<times> string) list" where
  "getRecoveryOptions i =
     (let devices = (if 0 < activeApprovingDeviceCount i then [(AuthorizedDevice, True, ''Approve from another device'')] else []) in
      devices @ (if 0 < activeRecoveryCredentialCount i then [(RecoveryCredential, devices = [], ''Use recovery passkey'')] else []))"

datatype recovery_status = AwaitingApproval | RecoveryApproved | RecoveryCompleted | RecoveryExpired | RecoveryRevoked

record recovery_request =
  rq_recoveryRequestId :: string
  rq_tinCommitment :: string
  rq_requestingDeviceId :: string
  rq_requestingDeviceEncryptionKeyFingerprint :: string
  rq_scope :: string
  rq_selectedReceiptIds :: "string list option"
  rq_nonce :: string
  rq_issuedAt :: string
  rq_expiresAt :: string
  rq_status :: recovery_status

text \<open>An invalid date compares as not smaller or equal.\<close>

definition validateRecoveryScope :: "host \<Rightarrow> recovery_request \<Rightarrow> unit result" where
  "validateRecoveryScope h r =
     (let chosen = (case rq_selectedReceiptIds r of None \<Rightarrow> [] | Some ids \<Rightarrow> ids) in
      if rq_scope r = ''selected'' \<and> chosen = [] then Inl ''selected-recovery-requires-receipts''
      else if rq_scope r \<noteq> ''selected'' \<and> chosen \<noteq> [] then Inl ''receipt-selection-does-not-match-scope''
      else case (date_parse h (rq_expiresAt r), date_parse h (rq_issuedAt r)) of
             (Some e, Some i) \<Rightarrow> if e \<le> i then Inl ''invalid-recovery-expiry'' else Inr ()
           | _ \<Rightarrow> Inr ())"

section \<open>Who can read a receipt\<close>

text \<open>
  What the code relies on in X25519 and the key format: both sides derive the same secret, and an
  exported public key can be imported again.
\<close>

definition curve_law :: "curve \<Rightarrow> bool" where
  "curve_law cv \<longleftrightarrow>
     (\<forall>a b s. x_shared cv a (x_public cv b) = Some s \<longrightarrow> x_shared cv b (x_public cv a) = Some s)
     \<and> (\<forall>k. jwk_import cv (jwk_export cv (x_public cv k)) = Some (x_public cv k))
     \<and> (\<forall>s salt info n. octets (hkdf_sha256 cv s salt info n))"

lemma curve_lawD:
  assumes "curve_law cv"
  shows "x_shared cv a (x_public cv b) = Some s \<Longrightarrow> x_shared cv b (x_public cv a) = Some s"
    and "jwk_import cv (jwk_export cv (x_public cv k)) = Some (x_public cv k)"
    and "octets (hkdf_sha256 cv s' salt info n)"
  using assms unfolding curve_law_def by blast+

lemma gcm_decrypt_encrypt:
  assumes "gcm_law h" "tag_law h" "octets key" "octets iv" "octets aad" "octets pt"
  shows "gcm_decrypt h key iv aad (gcm_encrypt h key iv aad pt) = Inr pt" "octets (gcm_encrypt h key iv aad pt)"
    "16 \<le> length (gcm_encrypt h key iv aad pt)"
proof -
  obtain ct tag where seal: "gcm_seal h key iv aad pt = (ct, tag)" by (cases "gcm_seal h key iv aad pt")
  have "length (snd (gcm_seal h key iv aad pt)) = 16" using assms(2) unfolding tag_law_def by blast
  then have "length tag = 16" using seal by simp
  moreover note gcm_lawD [OF assms(1,3,4,5,6) seal]
  ultimately show "gcm_decrypt h key iv aad (gcm_encrypt h key iv aad pt) = Inr pt" "octets (gcm_encrypt h key iv aad pt)"
    "16 \<le> length (gcm_encrypt h key iv aad pt)"
    by (simp_all add: gcm_decrypt_def gcm_encrypt_def seal)
qed

lemma octets_canonicalFields: "octets (canonicalFields fs)"
  by (simp add: canonicalFields_def octets_utf8)

lemma octets_aad: "octets (serializePrivateReceiptAad a)"
  by (simp add: serializePrivateReceiptAad_def octets_canonicalFields)

text \<open>An envelope opens for a private key and a data key, under the additional data of the receipt.\<close>

definition opens :: "host \<Rightarrow> curve \<Rightarrow> byte_list \<Rightarrow> byte_list \<Rightarrow> byte_list \<Rightarrow> key_envelope \<Rightarrow> bool" where
  "opens h cv aad private dek e \<longleftrightarrow>
     (\<exists>nonce pub key wrapped. base64UrlToBytes (ke_nonce e) = Inr nonce \<and> jwk_import cv (ke_ephemeralPublicKey e) = Some pub
        \<and> deriveWrappingKey cv private pub nonce (ke_recipientKeyId e) = Inr key \<and> base64UrlToBytes (ke_wrappedDek e) = Inr wrapped
        \<and> gcm_decrypt h key nonce aad wrapped = Inr dek)"

lemma wrapped_opens:
  assumes laws: "gcm_law h" "tag_law h" "curve_law cv" and o: "octets dek" "octets aad" "octets (snd random)"
    and wrap: "wrapDek h cv random dek recipient aad t = Inr e"
    and key: "jwk_import cv (rr_encryptionPublicKey recipient) = Some (x_public cv private)"
  shows "opens h cv aad private dek e" "active_envelope (rr_recipientKeyId recipient) e"
proof -
  obtain eph nonce where r: "random = (eph, nonce)" by (cases random)
  obtain k where k: "deriveWrappingKey cv eph (x_public cv private) nonce (rr_recipientKeyId recipient) = Inr k"
      and e: "ke_recipientKeyId e = rr_recipientKeyId recipient" "ke_wrappedDek e = bytesToBase64Url (gcm_encrypt h k nonce aad dek)"
        "ke_ephemeralPublicKey e = jwk_export cv (x_public cv eph)" "ke_nonce e = bytesToBase64Url nonce" "ke_revokedAt e = None"
    using wrap key by (auto simp: wrapDek_def r)
  have k': "deriveWrappingKey cv private (x_public cv eph) nonce (rr_recipientKeyId recipient) = Inr k" and "octets k"
  proof -
    obtain s where s: "x_shared cv eph (x_public cv private) = Some s"
        "k = hkdf_sha256 cv s nonce (canonicalFields [''TSN_RECEIPT_DEK_WRAP_V1'', rr_recipientKeyId recipient]) 32"
      using k by (auto simp: deriveWrappingKey_def)
    then show "deriveWrappingKey cv private (x_public cv eph) nonce (rr_recipientKeyId recipient) = Inr k"
      by (simp add: deriveWrappingKey_def curve_lawD(1) [OF laws(3) s(1)])
    show "octets k" unfolding s(2) by (rule curve_lawD(3) [OF laws(3)])
  qed
  have n: "octets nonce" using o(3) r by simp
  note g = gcm_decrypt_encrypt [OF laws(1,2) \<open>octets k\<close> n o(2,1)]
  show "opens h cv aad private dek e"
    unfolding opens_def e by (intro exI conjI) (rule base64Url_round [OF n] curve_lawD(2) [OF laws(3)] k' base64Url_round [OF g(2)] g(1))+
  show "active_envelope (rr_recipientKeyId recipient) e" by (simp add: active_envelope_def e)
qed

lemma unwrap_opens:
  assumes "find (active_envelope keyId) (rc_keyEnvelopes r) = Some e"
    "opens h cv (serializePrivateReceiptAad (createPrivateReceiptAad r)) private dek e"
    "sha256Hex (sha256 h) (serializePrivateReceiptAad (createPrivateReceiptAad r)) = rc_aadCommitment r"
  shows "unwrapReceiptDek h cv r keyId private = Inr (dek, serializePrivateReceiptAad (createPrivateReceiptAad r))"
proof -
  have "ke_recipientKeyId e = keyId" using assms(1) by (auto simp: find_Some_iff active_envelope_def)
  then show ?thesis using assms by (auto simp: unwrapReceiptDek_def opens_def Let_def or_error_def)
qed

text \<open>A record is well sealed for a data key and a plaintext; both producing operations keep this.\<close>

definition sealed_receipt :: "host \<Rightarrow> byte_list \<Rightarrow> byte_list \<Rightarrow> receipt_record \<Rightarrow> bool" where
  "sealed_receipt h dek plaintext r \<longleftrightarrow>
     (let aad = serializePrivateReceiptAad (createPrivateReceiptAad r) in
      sha256Hex (sha256 h) aad = rc_aadCommitment r \<and> verifyEncryptedReceiptIntegrity h r = Inr ()
      \<and> (\<exists>ct tag nonce. base64UrlToBytes (rc_ciphertext r) = Inr ct \<and> base64UrlToBytes (rc_authenticationTag r) = Inr tag
           \<and> base64UrlToBytes (rc_nonce r) = Inr nonce \<and> gcm_decrypt h dek nonce aad (ct @ tag) = Inr plaintext))"

lemma decrypt_sealed:
  assumes "sealed_receipt h dek plaintext r" "length dek = 32"
    "unwrapReceiptDek h cv r keyId private = Inr (dek, serializePrivateReceiptAad (createPrivateReceiptAad r))"
  shows "decryptPrivateReceiptForAuthorizedKey h cv r keyId private = Inr plaintext"
  using assms by (auto simp: decryptPrivateReceiptForAuthorizedKey_def sealed_receipt_def Let_def import_key_def)

lemma wrap_all_nth:
  "wrap_all wrap rnd rs = Inr es \<Longrightarrow> length es = length rs \<and> (\<forall>i<length rs. wrap (hd (drop i rnd)) (rs ! i) = Inr (es ! i))"
proof (induction rs arbitrary: rnd es)
  case (Cons r rs)
  then obtain e es' where e: "wrap (hd rnd) r = Inr e" "wrap_all wrap (tl rnd) rs = Inr es'" "es = e # es'" by auto
  from Cons.IH [OF e(2)] e show ?case by (auto simp: nth_Cons drop_Suc split: nat.split)
qed simp

lemma encrypt_sealed:
  assumes laws: "gcm_law h" "tag_law h" and o: "octets (rnd_dek rnd)" "octets (rnd_nonce rnd)" "octets plaintext"
    and enc: "encryptPrivateReceipt h cv now rnd p plaintext recipients created = Inr r"
  shows "sealed_receipt h (rnd_dek rnd) plaintext r"
proof -
  have a: "createPrivateReceiptAad r = createPrivateReceiptAad p"
    using enc by (auto simp: encryptPrivateReceipt_def Let_def createPrivateReceiptAad_def receipt_head.extend_def)
  let ?aad = "serializePrivateReceiptAad (createPrivateReceiptAad p)"
  let ?c = "gcm_encrypt h (rnd_dek rnd) (rnd_nonce rnd) ?aad plaintext"
  note g = gcm_decrypt_encrypt [OF laws o(1,2) octets_aad o(3), of "createPrivateReceiptAad p"]
  have "octets (take (length ?c - 16) ?c)" "octets (drop (length ?c - 16) ?c)"
    using g(2) by (auto simp: list_all_iff dest: in_set_takeD in_set_dropD)
  then show ?thesis
    using enc g(1) base64Url_round [OF o(2)]
    by (auto simp: sealed_receipt_def a encryptPrivateReceipt_def Let_def verifyEncryptedReceiptIntegrity_def receipt_head.extend_def
        base64Url_round)
qed

lemma encrypted_envelopes:
  assumes "encryptPrivateReceipt h cv now rnd p plaintext recipients created = Inr r"
  shows "distinct (map rr_recipientKeyId recipients)"
    and "\<exists>t. wrap_all (\<lambda>x recipient. wrapDek h cv x (rnd_dek rnd) recipient (serializePrivateReceiptAad (createPrivateReceiptAad r)) t)
           (rnd_wraps rnd) recipients = Inr (rc_keyEnvelopes r)"
  using assms by (auto simp: encryptPrivateReceipt_def Let_def receipt_head.extend_def createPrivateReceiptAad_def)

lemma find_distinct:
  assumes "distinct (map f xs)" "i < length xs" "P (xs ! i)" "\<And>x. P x \<Longrightarrow> f x = f (xs ! i)"
  shows "find P xs = Some (xs ! i)"
proof -
  have "\<not> P (xs ! j)" if "j < i" for j
    using assms that by (metis nth_map order.strict_trans nth_eq_iff_index_eq length_map nat_less_le)
  then show ?thesis using assms by (auto simp: find_Some_iff)
qed

lemma wrapDek_keyId: "wrapDek h cv x dek recipient aad t = Inr e \<Longrightarrow> ke_recipientKeyId e = rr_recipientKeyId recipient"
  by (auto simp: wrapDek_def split: prod.splits)

lemma recipient_unwraps:
  assumes laws: "gcm_law h" "tag_law h" "curve_law cv" and o: "octets (rnd_dek rnd)" "octets (rnd_nonce rnd)" "octets plaintext"
    and w: "length (rnd_wraps rnd) = length recipients" "\<forall>x\<in>set (rnd_wraps rnd). octets (snd x)"
    and enc: "encryptPrivateReceipt h cv now rnd p plaintext recipients created = Inr r"
    and m: "recipient \<in> set recipients" and key: "jwk_import cv (rr_encryptionPublicKey recipient) = Some (x_public cv private)"
  shows "unwrapReceiptDek h cv r (rr_recipientKeyId recipient) private = Inr (rnd_dek rnd, serializePrivateReceiptAad (createPrivateReceiptAad r))"
proof -
  obtain i where i: "i < length recipients" "recipients ! i = recipient" using m by (auto simp: in_set_conv_nth)
  let ?aad = "serializePrivateReceiptAad (createPrivateReceiptAad r)" and ?es = "rc_keyEnvelopes r"
  obtain t where es: "length ?es = length recipients"
      "\<And>j. j < length recipients \<Longrightarrow> wrapDek h cv (hd (drop j (rnd_wraps rnd))) (rnd_dek rnd) (recipients ! j) ?aad t = Inr (?es ! j)"
    using encrypted_envelopes(2) [OF enc] wrap_all_nth by blast
  have "octets (snd (hd (drop i (rnd_wraps rnd))))" using w i(1) by (simp add: hd_drop_conv_nth)
  note e = wrapped_opens [OF laws o(1) octets_aad this es(2) [OF i(1)], unfolded i(2), OF key]
  have "map ke_recipientKeyId ?es = map rr_recipientKeyId recipients"
    by (rule nth_equalityI) (simp_all add: es(1) wrapDek_keyId [OF es(2)])
  then have "distinct (map ke_recipientKeyId ?es)" using encrypted_envelopes(1) [OF enc] by simp
  then have "find (active_envelope (rr_recipientKeyId recipient)) ?es = Some (?es ! i)"
    by (rule find_distinct) (use e(2) es(1) i in \<open>auto simp: active_envelope_def\<close>)
  moreover have "sha256Hex (sha256 h) ?aad = rc_aadCommitment r"
    using encrypt_sealed [OF laws(1,2) o enc] by (simp add: sealed_receipt_def Let_def)
  ultimately show ?thesis using e(1) by (intro unwrap_opens)
qed

lemma rewrapped_readable:
  assumes laws: "gcm_law h" "tag_law h" "curve_law cv" and o: "octets dek" "length dek = 32" "octets (snd x)"
    and sealed: "sealed_receipt h dek plaintext r"
    and unwrap: "unwrapReceiptDek h cv r keyId private = Inr (dek, serializePrivateReceiptAad (createPrivateReceiptAad r))"
    and rewrap: "rewrapPrivateReceiptDek h cv now x r keyId private new created = Inr e"
    and key: "jwk_import cv (rr_encryptionPublicKey new) = Some (x_public cv private')"
  shows "decryptPrivateReceiptForAuthorizedKey h cv (r\<lparr>rc_keyEnvelopes := rc_keyEnvelopes r @ [e]\<rparr>) (rr_recipientKeyId new) private' = Inr plaintext"
proof -
  let ?r = "r\<lparr>rc_keyEnvelopes := rc_keyEnvelopes r @ [e]\<rparr>"
  have none: "find (active_envelope (rr_recipientKeyId new)) (rc_keyEnvelopes r) = None"
    and wrap: "\<exists>t. wrapDek h cv x dek new (serializePrivateReceiptAad (createPrivateReceiptAad r)) t = Inr e"
    using rewrap unwrap by (auto simp: rewrapPrivateReceiptDek_def find_None_iff list_ex_iff)
  have same: "createPrivateReceiptAad ?r = createPrivateReceiptAad r" by (simp add: createPrivateReceiptAad_def)
  from wrap obtain t where "wrapDek h cv x dek new (serializePrivateReceiptAad (createPrivateReceiptAad r)) t = Inr e" ..
  note e = wrapped_opens [OF laws o(1) octets_aad o(3) this key]
  have s: "sealed_receipt h dek plaintext ?r"
    using sealed by (simp add: sealed_receipt_def same verifyEncryptedReceiptIntegrity_def)
  have "find (active_envelope (rr_recipientKeyId new)) (xs @ [e]) = Some e" if "find (active_envelope (rr_recipientKeyId new)) xs = None" for xs
    using that e(2) by (induction xs) (auto split: if_splits)
  from this [OF none] show ?thesis
    by (intro decrypt_sealed [OF s o(2)] unwrap_opens) (use e(1) sealed in \<open>auto simp: same sealed_receipt_def Let_def\<close>)
qed

text \<open>
  C26: Every recipient of a private receipt reads exactly the sealed text with its private key, and
  so does every recipient a reader adds: the envelope made by the rewrapping operation opens the same
  record for the new key.
\<close>

theorem receipt_access:
  assumes "gcm_law h" "tag_law h" "curve_law cv" "octets (rnd_dek rnd)" "length (rnd_dek rnd) = 32" "octets (rnd_nonce rnd)"
    "octets plaintext" "length (rnd_wraps rnd) = length recipients" "\<forall>x\<in>set (rnd_wraps rnd). octets (snd x)"
    "encryptPrivateReceipt h cv now rnd p plaintext recipients created = Inr r"
    "recipient \<in> set recipients" "jwk_import cv (rr_encryptionPublicKey recipient) = Some (x_public cv private)"
  shows "decryptPrivateReceiptForAuthorizedKey h cv r (rr_recipientKeyId recipient) private = Inr plaintext
    \<and> (octets (snd x) \<and> jwk_import cv (rr_encryptionPublicKey new) = Some (x_public cv private')
        \<and> rewrapPrivateReceiptDek h cv now' x r (rr_recipientKeyId recipient) private new created' = Inr e
        \<longrightarrow> decryptPrivateReceiptForAuthorizedKey h cv (r\<lparr>rc_keyEnvelopes := rc_keyEnvelopes r @ [e]\<rparr>) (rr_recipientKeyId new) private'
              = Inr plaintext)"
proof -
  note s = encrypt_sealed [OF assms(1,2,4,6,7,10)] and u = recipient_unwraps [OF assms(1-4,6-12)]
  from decrypt_sealed [OF s assms(5) u] rewrapped_readable [OF assms(1-5) _ s u] show ?thesis by blast
qed

definition sample_curve :: curve where
  "sample_curve =
     \<lparr>x_public = (\<lambda>k. k), x_shared = (\<lambda>a b. Some (replicate 32 ((sum_list a + sum_list b) mod 256))),
      jwk_import = (\<lambda>v. case v of JArr ns \<Rightarrow> Some (map (\<lambda>n. case n of JNum z \<Rightarrow> nat z | _ \<Rightarrow> 0) ns) | _ \<Rightarrow> None),
      jwk_export = (\<lambda>k. JArr (map (\<lambda>b. JNum (int b)) k)),
      hkdf_sha256 = (\<lambda>s salt info n. take n (map (\<lambda>b. b mod 256) (s @ salt @ info)))\<rparr>"

lemma sample_curve_law: "curve_law sample_curve"
  by (auto simp: curve_law_def sample_curve_def list_all_iff comp_def add.commute dest!: in_set_takeD)

lemma sample_tag_law: "tag_law sample_host"
  by (simp add: tag_law_def)

definition sample_recipient :: "string \<Rightarrow> nat \<Rightarrow> receipt_recipient" where
  "sample_recipient i k = \<lparr>rr_recipientKeyId = i, rr_recipientType = DeviceRecipient, rr_encryptionPublicKey = JArr [JNum (int k)]\<rparr>"

definition sample_random :: receipt_random where
  "sample_random = \<lparr>rnd_dek = replicate 32 1, rnd_nonce = replicate 12 2, rnd_wraps = [([3], replicate 12 4)]\<rparr>"

definition sample_head :: receipt_head where
  "sample_head = \<lparr>rc_receiptId = ''r1'', rc_operationId = ''o1'', rc_tinCommitment = ''t1''\<rparr>"

definition sample_receipt :: receipt_record where
  "sample_receipt = projr (encryptPrivateReceipt sample_host sample_curve 5 sample_random sample_head [1, 2, 3] [sample_recipient ''k'' 9] None)"

lemma sample_receipt_Inr:
  "encryptPrivateReceipt sample_host sample_curve 5 sample_random sample_head [1, 2, 3] [sample_recipient ''k'' 9] None = Inr sample_receipt"
  by (simp add: sample_receipt_def encryptPrivateReceipt_def Let_def wrapDek_def deriveWrappingKey_def sample_recipient_def sample_curve_def
      sample_random_def or_error_def)

lemma sample_receipt_parts:
  "octets (rnd_dek sample_random)" "length (rnd_dek sample_random) = 32" "octets (rnd_nonce sample_random)" "octets [1, 2, 3]"
  "length (rnd_wraps sample_random) = length [sample_recipient ''k'' 9]" "\<forall>x\<in>set (rnd_wraps sample_random). octets (snd x)"
  "sample_recipient ''k'' 9 \<in> set [sample_recipient ''k'' 9]"
  "jwk_import sample_curve (rr_encryptionPublicKey (sample_recipient ''k'' 9)) = Some (x_public sample_curve [9])"
  by (simp_all add: sample_random_def list_all_iff sample_curve_def sample_recipient_def)

theorem receipt_access_witness:
  "decryptPrivateReceiptForAuthorizedKey sample_host sample_curve sample_receipt (rr_recipientKeyId (sample_recipient ''k'' 9)) [9] = Inr [1, 2, 3]"
  by (rule receipt_access [THEN conjunct1, OF sample_laws(1) sample_tag_law sample_curve_law sample_receipt_parts(1-6) sample_receipt_Inr
        sample_receipt_parts(7,8)])

text \<open>
  An integrity commitment fixes the receipt: two records with the same commitment that both pass
  the checks of the opening operation agree on ciphertext, nonce, tag, receipt id, operation and TIN
  commitment, given no hash collision on the texts involved.
\<close>

theorem receipt_integrity_binding:
  assumes "decryptPrivateReceiptForAuthorizedKey h cv r keyId private = Inr plaintext"
    "decryptPrivateReceiptForAuthorizedKey h cv r' keyId' private' = Inr plaintext'"
    "rc_integrityCommitment r = rc_integrityCommitment r'"
    "inj_on (sha256Hex (sha256 h))
       ((\<lambda>x. integrity_fields (rc_aadCommitment x) (rc_nonce x) (rc_ciphertext x) (rc_authenticationTag x)) ` {r, r'}
        \<union> (\<lambda>x. serializePrivateReceiptAad (createPrivateReceiptAad x)) ` {r, r'})"
  shows "rc_ciphertext r = rc_ciphertext r' \<and> rc_nonce r = rc_nonce r' \<and> rc_authenticationTag r = rc_authenticationTag r'
    \<and> rc_receiptId r = rc_receiptId r' \<and> rc_operationId r = rc_operationId r' \<and> rc_tinCommitment r = rc_tinCommitment r'"
proof -
  let ?f = "\<lambda>x. integrity_fields (rc_aadCommitment x) (rc_nonce x) (rc_ciphertext x) (rc_authenticationTag x)"
  let ?a = "\<lambda>x. serializePrivateReceiptAad (createPrivateReceiptAad x)"
  have i: "sha256Hex (sha256 h) (?f r) = rc_integrityCommitment r" "sha256Hex (sha256 h) (?f r') = rc_integrityCommitment r'"
    and a: "sha256Hex (sha256 h) (?a r) = rc_aadCommitment r" "sha256Hex (sha256 h) (?a r') = rc_aadCommitment r'"
    using assms(1,2)
    by (auto simp: decryptPrivateReceiptForAuthorizedKey_def verifyEncryptedReceiptIntegrity_def unwrapReceiptDek_def Let_def)
  have "?f r = ?f r'" by (rule inj_onD [OF assms(4)]) (use i assms(3) in auto)
  then have f: "rc_aadCommitment r = rc_aadCommitment r'" "rc_nonce r = rc_nonce r'" "rc_ciphertext r = rc_ciphertext r'"
      "rc_authenticationTag r = rc_authenticationTag r'" by (auto simp: integrity_fields_def canonicalFields_inject)
  have "?a r = ?a r'" by (rule inj_onD [OF assms(4)]) (use a f(1) in auto)
  with f show ?thesis by (auto simp: serializePrivateReceiptAad_def createPrivateReceiptAad_def canonicalFields_inject)
qed

lemma revoked_key_refused:
  "\<forall>e\<in>set (rc_keyEnvelopes r). \<not> active_envelope keyId e \<Longrightarrow>
   decryptPrivateReceiptForAuthorizedKey h cv r keyId private = Inl ''No active receipt key envelope exists for this authorized key''"
  using find_None_iff [of "active_envelope keyId" "rc_keyEnvelopes r"]
  by (auto simp: decryptPrivateReceiptForAuthorizedKey_def unwrapReceiptDek_def or_error_def)

text \<open>A recovery request with unreadable dates passes the check of its expiry.\<close>

lemma undated_recovery_accepted:
  "date_parse h (rq_expiresAt r) = None \<Longrightarrow> rq_scope r = ''all'' \<Longrightarrow> rq_selectedReceiptIds r = None \<Longrightarrow> validateRecoveryScope h r = Inr ()"
  by (simp add: validateRecoveryScope_def)

lemma recovery_options_match:
  "0 < historicalReceiptCount i \<Longrightarrow> accessibleHistoricalReceiptCount i < historicalReceiptCount i \<Longrightarrow>
   (getRecoveryOptions i \<noteq> [] \<longleftrightarrow> (\<exists>m. detectHistoricalPrivateRecords i = RecoveryRequired m))
   \<and> length (filter (\<lambda>(_, recommended, _). recommended) (getRecoveryOptions i)) = (if getRecoveryOptions i = [] then 0 else 1)"
  by (auto simp: getRecoveryOptions_def detectHistoricalPrivateRecords_def Let_def)

lemma canonicalFields_head: "\<exists>x. canonicalFields (f # fs) = utf8 (dec (length f)) @ x"
  by (cases fs) (auto simp: canonicalFields_def field_text_def utf8_append)

lemma sample_receipt_opened:
  "decryptPrivateReceiptForAuthorizedKey sample_host sample_curve sample_receipt (rr_recipientKeyId (sample_recipient ''k'' 9)) [9] = Inr [1, 2, 3]"
proof -
  note p = sample_receipt_parts and laws = sample_laws(1) sample_tag_law
  show ?thesis
    by (rule decrypt_sealed [OF encrypt_sealed [OF laws p(1,3,4) sample_receipt_Inr] p(2)])
       (rule recipient_unwraps [OF laws sample_curve_law p(1,3-6) sample_receipt_Inr p(7,8)])
qed

lemma sample_receipt_texts:
  "sha256Hex (sha256 sample_host) (integrity_fields (rc_aadCommitment sample_receipt) n c t)
     \<noteq> sha256Hex (sha256 sample_host) (serializePrivateReceiptAad a)"
proof -
  have "\<exists>v. rc_aadCommitment sample_receipt = sha256Hex (sha256 sample_host) v"
    using encrypt_sealed [OF sample_laws(1) sample_tag_law sample_receipt_parts(1,3,4) sample_receipt_Inr]
    unfolding sealed_receipt_def Let_def by metis
  then have l: "length (rc_aadCommitment sample_receipt) = 64" by (auto intro!: sha256Hex_length)
  obtain x where x: "integrity_fields (rc_aadCommitment sample_receipt) n c t = utf8 (dec 64) @ x"
    using canonicalFields_head [of "rc_aadCommitment sample_receipt"] by (auto simp: integrity_fields_def l)
  obtain y where y: "serializePrivateReceiptAad a = utf8 (dec 23) @ y"
    using canonicalFields_head [of "''TSN_PRIVATE_RECEIPT_AAD''"] unfolding serializePrivateReceiptAad_def by (auto simp: eval_nat_numeral)
  have "utf8 (dec 64) = [54, 52]" "utf8 (dec 23) = [50, 51]" by code_simp+
  then show ?thesis by (simp add: x y sha256Hex_def bytesToHex_def hex_byte_def hex_digit_def)
qed

theorem receipt_integrity_binding_witness:
  "rc_ciphertext sample_receipt = rc_ciphertext (sample_receipt\<lparr>rc_createdAt := ''later''\<rparr>)"
proof -
  let ?r = "sample_receipt\<lparr>rc_createdAt := ''later''\<rparr>"
  have "decryptPrivateReceiptForAuthorizedKey sample_host sample_curve ?r (rr_recipientKeyId (sample_recipient ''k'' 9)) [9] = Inr [1, 2, 3]"
    using sample_receipt_opened
    by (simp add: decryptPrivateReceiptForAuthorizedKey_def unwrapReceiptDek_def verifyEncryptedReceiptIntegrity_def createPrivateReceiptAad_def)
  moreover have "createPrivateReceiptAad ?r = createPrivateReceiptAad sample_receipt" by (simp add: createPrivateReceiptAad_def)
  ultimately show ?thesis
    using receipt_integrity_binding [OF sample_receipt_opened, of ?r "rr_recipientKeyId (sample_recipient ''k'' 9)" "[9]" "[1, 2, 3]"] sample_receipt_texts
      sample_receipt_texts [symmetric] by (simp add: inj_on_def)
qed

end
