(* ===== verification/Private_View.thy ===== *)
theory Private_View
  imports Private_Session Receipt_Envelope
begin

text \<open>
  The encryption module and the private view of the SDK, \<open>sdks/tsn-sdk/src/encryption/index.ts\<close> and
  \<open>private-view/index.ts\<close>. A typed array is a view of a buffer (\<open>view\<close>), because the source hands
  buffers to Web Crypto. \<open>tweetnacl\<close> and \<open>@noble/hashes\<close> are the record \<open>box_api\<close>.
\<close>

section \<open>Typed arrays and libraries\<close>

record view =
  vw_buffer :: byte_list
  vw_offset :: nat
  vw_length :: nat

definition view_bytes :: "view \<Rightarrow> byte_list" where
  "view_bytes v = take (vw_length v) (drop (vw_offset v) (vw_buffer v))"

definition fresh_view :: "byte_list \<Rightarrow> view" where
  "fresh_view bs = \<lparr>vw_buffer = bs, vw_offset = 0, vw_length = length bs\<rparr>"

lemma view_bytes_fresh [simp]: "view_bytes (fresh_view bs) = bs"
  by (simp add: view_bytes_def fresh_view_def)

record box_api =
  box_before :: "byte_list \<Rightarrow> byte_list \<Rightarrow> byte_list"
  box_public :: "byte_list \<Rightarrow> byte_list"
  noble_hkdf :: "byte_list \<Rightarrow> byte_list \<Rightarrow> nat \<Rightarrow> byte_list"

section \<open>Encryption\<close>

record encryption_context =
  ec_receiptId :: string
  ec_tinHash :: string
  ec_deviceId :: string
  ec_protocolVersion :: string

record encrypted_payload =
  ep_ciphertext :: byte_list
  ep_iv :: byte_list
  ep_ephemeralPublicKey :: byte_list
  ep_authTag :: byte_list
  ep_context :: encryption_context

record encryption_metadata =
  em_algorithm :: string
  em_protocolVersion :: string
  em_iv :: string
  em_ephemeralPublicKey :: string
  em_contextHash :: string
  em_createdAt :: string

definition deriveSharedSecret :: "box_api \<Rightarrow> byte_list \<Rightarrow> byte_list \<Rightarrow> byte_list result" where
  "deriveSharedSecret box private peer =
     (if length private \<noteq> 32 \<or> length peer \<noteq> 32 then Inl ''Invalid key length for X25519'' else Inr (box_before box peer private))"

definition buildContextString :: "encryption_context \<Rightarrow> byte_list" where
  "buildContextString c =
     utf8 (js_join ''|'' [''tsn_receipt_v1'', ec_protocolVersion c, ec_receiptId c, ec_tinHash c, ec_deviceId c])"

definition deriveEncryptionKey :: "box_api \<Rightarrow> byte_list \<Rightarrow> encryption_context \<Rightarrow> byte_list" where
  "deriveEncryptionKey box secret c = noble_hkdf box secret (buildContextString c) 32"

definition check_lengths :: "view \<Rightarrow> byte_list \<Rightarrow> unit result" where
  "check_lengths key iv =
     and_then (require (vw_length key = 32) (''Invalid key length: expected 32, got '' @ dec (vw_length key))) (\<lambda>_.
       require (length iv = 12) (''Invalid IV length: expected 12, got '' @ dec (length iv)))"

text \<open>Key and plaintext are passed on by their buffers; the result is cut into ciphertext and tag.\<close>

definition encryptAes256Gcm :: "host \<Rightarrow> view \<Rightarrow> view \<Rightarrow> byte_list \<Rightarrow> (byte_list \<times> byte_list) result" where
  "encryptAes256Gcm h plaintext key iv =
     and_then (check_lengths key iv) (\<lambda>_.
     and_then (import_key (vw_buffer key)) (\<lambda>k.
       let encrypted = gcm_encrypt h k iv [] (vw_buffer plaintext) in
       Inr (take (length encrypted - 16) encrypted, drop (length encrypted - 16) encrypted)))"

definition decryptAes256Gcm :: "host \<Rightarrow> byte_list \<Rightarrow> byte_list \<Rightarrow> view \<Rightarrow> byte_list \<Rightarrow> byte_list result" where
  "decryptAes256Gcm h ciphertext authTag key iv =
     and_then (check_lengths key iv) (\<lambda>_.
     and_then (import_key (vw_buffer key)) (\<lambda>k. gcm_decrypt h k iv [] (ciphertext @ authTag)))"

definition hashContext :: "host \<Rightarrow> encryption_context \<Rightarrow> byte_list" where
  "hashContext h c = sha256 h (buildContextString c)"

definition encryptWithEcdh :: "host \<Rightarrow> box_api \<Rightarrow> byte_list \<Rightarrow> view \<Rightarrow> byte_list \<Rightarrow> byte_list \<Rightarrow> encryption_context \<Rightarrow> encrypted_payload result" where
  "encryptWithEcdh h box iv plaintext senderPrivate recipientPublic c =
     and_then (deriveSharedSecret box senderPrivate recipientPublic) (\<lambda>secret.
     and_then (encryptAes256Gcm h plaintext (fresh_view (deriveEncryptionKey box secret c)) iv) (\<lambda>(ciphertext, authTag).
       Inr \<lparr>ep_ciphertext = ciphertext, ep_iv = iv, ep_ephemeralPublicKey = box_public box senderPrivate, ep_authTag = authTag, ep_context = c\<rparr>))"

definition decryptWithEcdh :: "host \<Rightarrow> box_api \<Rightarrow> encrypted_payload \<Rightarrow> byte_list \<Rightarrow> byte_list result" where
  "decryptWithEcdh h box p recipientPrivate =
     and_then (deriveSharedSecret box recipientPrivate (ep_ephemeralPublicKey p)) (\<lambda>secret.
       decryptAes256Gcm h (ep_ciphertext p) (ep_authTag p) (fresh_view (deriveEncryptionKey box secret (ep_context p))) (ep_iv p))"

definition serializeEncryptedPayload :: "host \<Rightarrow> int \<Rightarrow> encrypted_payload \<Rightarrow> string \<times> encryption_metadata" where
  "serializeEncryptedPayload h now p =
     (btoa (ep_ciphertext p),
      \<lparr>em_algorithm = ''x25519-ecdh-hkdf-sha256-aes256-gcm'', em_protocolVersion = ''1.0'', em_iv = btoa (ep_iv p),
       em_ephemeralPublicKey = btoa (ep_ephemeralPublicKey p), em_contextHash = to_hex (hashContext h (ep_context p)),
       em_createdAt = to_iso h now\<rparr>)"

definition deserializeEncryptedPayload :: "host \<Rightarrow> string \<Rightarrow> encryption_metadata \<Rightarrow> encryption_context \<Rightarrow> encrypted_payload" where
  "deserializeEncryptedPayload h ciphertext m c =
     \<lparr>ep_ciphertext = base64_decode h ciphertext, ep_iv = base64_decode h (em_iv m),
      ep_ephemeralPublicKey = base64_decode h (em_ephemeralPublicKey m), ep_authTag = [], ep_context = c\<rparr>"

definition verifyContextHash :: "host \<Rightarrow> encryption_context \<Rightarrow> string \<Rightarrow> bool" where
  "verifyContextHash h c expectedHash \<longleftrightarrow> to_hex (hashContext h c) = expectedHash"

section \<open>The private view\<close>

datatype view_state = ViewLocked | ViewAuthorized string | ViewAvailable json | ViewExpired | ViewError string

record stored_receipt =
  sr_receiptId :: string
  sr_paymentId :: string
  sr_tinHash :: string
  sr_ciphertext :: string
  sr_metadata :: encryption_metadata

record device_keys =
  dk_signing :: key_pair
  dk_encryption :: key_pair

record view_config =
  vc_tsnMempoolUrl :: string
  vc_deviceEncryptionPublicKey :: string
  vc_ownerPublicKey :: string

record private_view_sdk =
  pv_config :: view_config
  pv_deviceKeyPair :: "device_keys option"

definition new_private_view :: "view_config \<Rightarrow> private_view_sdk" where
  "new_private_view c = \<lparr>pv_config = c, pv_deviceKeyPair = None\<rparr>"

definition setDeviceKeys :: "device_keys \<Rightarrow> private_view_sdk \<Rightarrow> private_view_sdk" where
  "setDeviceKeys k sdk = sdk\<lparr>pv_deviceKeyPair := Some k\<rparr>"

definition hasDeviceKeys :: "private_view_sdk \<Rightarrow> bool" where
  "hasDeviceKeys sdk \<longleftrightarrow> pv_deviceKeyPair sdk \<noteq> None"

definition receipt_context :: "stored_receipt \<Rightarrow> device_keys \<Rightarrow> encryption_context" where
  "receipt_context r k =
     \<lparr>ec_receiptId = sr_receiptId r, ec_tinHash = sr_tinHash r, ec_deviceId = to_hex (kp_publicKey (dk_signing k)), ec_protocolVersion = ''1.0''\<rparr>"

text \<open>\<open>td\<close> is the text decoder of the runtime, \<open>syntax_message\<close> the message of its JSON parser.\<close>

definition decryptReceipt :: "host \<Rightarrow> box_api \<Rightarrow> (byte_list \<Rightarrow> string) \<Rightarrow> (string \<Rightarrow> string) \<Rightarrow> stored_receipt \<Rightarrow> device_keys \<Rightarrow> json result" where
  "decryptReceipt h box td syntax_message r k =
     (let c = receipt_context r k in
      and_then (require (verifyContextHash h c (em_contextHash (sr_metadata r))) ''Receipt context verification failed'') (\<lambda>_.
      and_then (decryptWithEcdh h box (deserializeEncryptedPayload h (sr_ciphertext r) (sr_metadata r) c) (kp_secretKey (dk_encryption k))) (\<lambda>plaintext.
        case json_parse (td plaintext) of None \<Rightarrow> Inl (syntax_message (td plaintext)) | Some v \<Rightarrow> Inr v)))"

definition receipt_member :: "json \<Rightarrow> string \<Rightarrow> json option" where
  "receipt_member v k = (case v of JObj ob \<Rightarrow> map_of ob k | _ \<Rightarrow> None)"

definition openPrivateView :: "host \<Rightarrow> box_api \<Rightarrow> (byte_list \<Rightarrow> string) \<Rightarrow> (string \<Rightarrow> string) \<Rightarrow> int \<Rightarrow> int \<Rightarrow> private_view_sdk
    \<Rightarrow> string \<Rightarrow> stored_receipt \<Rightarrow> private_session \<Rightarrow> view_state" where
  "openPrivateView h box td syntax_message now now' sdk receiptId r s =
     (case validateSession h now now' s (ps_userId s) (ps_tin s) (ps_deviceId s) of
        Inl _ \<Rightarrow> ViewExpired
      | Inr _ \<Rightarrow>
          if \<not> hasPermission s ''decryptReceipts'' then ViewLocked
          else case pv_deviceKeyPair sdk of
            None \<Rightarrow> ViewLocked
          | Some k \<Rightarrow>
              (case decryptReceipt h box td syntax_message r k of
                 Inl e \<Rightarrow> ViewError e
               | Inr v \<Rightarrow>
                   if v = JNull then ViewError ''Cannot read properties of null''
                   else if receipt_member v ''counterpartyTin'' \<noteq> Some (JStr (ps_tin s)) \<and> receipt_member v ''paymentId'' \<noteq> Some (JStr (ps_userId s))
                   then ViewError ''Receipt does not belong to session TIN''
                   else ViewAvailable v))"

definition EXTENDED_TTL :: int where
  "EXTENDED_TTL = 8 * 60 * 60 * 1000"

record receipt_metadata =
  md_receiptId :: string
  md_paymentId :: string
  md_createdAt :: string
  md_expiresAt :: string

definition getReceiptMetadata :: "host \<Rightarrow> stored_receipt \<Rightarrow> receipt_metadata result" where
  "getReceiptMetadata h r =
     (case date_parse h (em_createdAt (sr_metadata r)) of
        None \<Rightarrow> Inl ''Invalid time value''
      | Some t \<Rightarrow> Inr \<lparr>md_receiptId = sr_receiptId r, md_paymentId = sr_paymentId r, md_createdAt = em_createdAt (sr_metadata r),
                        md_expiresAt = to_iso h (t + EXTENDED_TTL)\<rparr>)"

definition view_validateDeviceAuthorization :: "host \<Rightarrow> int \<Rightarrow> private_view_sdk \<Rightarrow> authorization_proof \<Rightarrow> int option \<Rightarrow> string option result" where
  "view_validateDeviceAuthorization h now sdk p currentTime =
     validateDeviceAuthorization h p (vc_ownerPublicKey (pv_config sdk)) (ap_tin p) (case currentTime of Some t \<Rightarrow> t | None \<Rightarrow> now)"

definition view_validateDeviceSignature :: "host \<Rightarrow> int \<Rightarrow> private_view_sdk \<Rightarrow> signature_proof \<Rightarrow> signature_purpose \<Rightarrow> string \<Rightarrow> int option
    \<Rightarrow> string option result" where
  "view_validateDeviceSignature h now sdk p purpose nonce currentTime =
     fst (validateDeviceSignature h p
       (to_hex (case pv_deviceKeyPair sdk of Some k \<Rightarrow> kp_publicKey (dk_signing k) | None \<Rightarrow> replicate 32 0))
       purpose nonce (case currentTime of Some t \<Rightarrow> t | None \<Rightarrow> now) None ())"

text \<open>The members of a receipt in the order of \<open>buildPrivateReceipt\<close>; \<open>null\<close> where there is no text.\<close>

definition buildPrivateReceipt :: "string \<Rightarrow> string \<Rightarrow> string \<Rightarrow> string \<Rightarrow> string \<Rightarrow> string \<Rightarrow> string option \<Rightarrow> string option \<Rightarrow> string option
    \<Rightarrow> string option \<Rightarrow> json" where
  "buildPrivateReceipt receiptId paymentId amount tokenSymbol tokenMintAddress settlementStatus settledAt displayName tin note =
     (let text = (\<lambda>v. case v of None \<Rightarrow> JNull | Some t \<Rightarrow> JStr t) in JObj
       [(''receiptId'', JStr receiptId), (''paymentId'', JStr paymentId), (''amount'', JStr amount), (''tokenSymbol'', JStr tokenSymbol),
        (''tokenMintAddress'', JStr tokenMintAddress), (''settlementStatus'', JStr settlementStatus), (''settledAt'', text settledAt),
        (''counterpartyDisplayName'', text displayName), (''counterpartyTin'', text tin), (''transactionNote'', text note)])"

definition serializeReceipt :: "json \<Rightarrow> byte_list" where
  "serializeReceipt v = utf8 (json_stringify v)"

definition isReceiptExpired :: "host \<Rightarrow> int \<Rightarrow> receipt_metadata \<Rightarrow> bool" where
  "isReceiptExpired h now m \<longleftrightarrow> (case date_parse h (md_expiresAt m) of None \<Rightarrow> False | Some t \<Rightarrow> t < now)"

definition getReceiptRemainingTtl :: "host \<Rightarrow> int \<Rightarrow> receipt_metadata \<Rightarrow> int option" where
  "getReceiptRemainingTtl h now m = map_option (\<lambda>t. max 0 (t - now)) (date_parse h (md_expiresAt m))"

section \<open>What is sealed, stored and opened\<close>

text \<open>
  What the code relies on: both sides of a key agreement get the same secret, keys have 32 bytes,
  AES-GCM keeps the length of the text, and \<open>Buffer\<close> reads back what it wrote as base 64.
\<close>

definition box_law :: "box_api \<Rightarrow> bool" where
  "box_law box \<longleftrightarrow>
     (\<forall>a b. box_before box (box_public box b) a = box_before box (box_public box a) b)
     \<and> (\<forall>k. length (box_public box k) = 32 \<and> octets (box_public box k))
     \<and> (\<forall>s i n. length (noble_hkdf box s i n) = n \<and> octets (noble_hkdf box s i n))"

definition stream_law :: "host \<Rightarrow> bool" where
  "stream_law h \<longleftrightarrow>
     (\<forall>key iv aad pt. length (fst (gcm_seal h key iv aad pt)) = length pt)
     \<and> (\<forall>key iv aad ct tag pt. gcm_open h key iv aad ct tag = Some pt \<longrightarrow> length pt = length ct)"

definition buffer_law :: "host \<Rightarrow> bool" where
  "buffer_law h \<longleftrightarrow> (\<forall>bs. octets bs \<longrightarrow> base64_decode h (btoa bs) = bs)"

lemma box_lawD:
  assumes "box_law box"
  shows "box_before box (box_public box b) a = box_before box (box_public box a) b"
    and "length (box_public box k) = 32" "octets (box_public box k)"
    and "length (noble_hkdf box s i n) = n" "octets (noble_hkdf box s i n)"
  using assms unfolding box_law_def by blast+

lemma encrypted_parts:
  assumes enc: "encryptWithEcdh h box iv plaintext a (box_public box b) c = Inr p" and box: "box_law box" and b: "length b = 32"
  defines "key \<equiv> deriveEncryptionKey box (box_before box (box_public box b) a) c"
  shows "ep_ciphertext p @ ep_authTag p = gcm_encrypt h key iv [] (vw_buffer plaintext)"
    "ep_ciphertext p = take (length (gcm_encrypt h key iv [] (vw_buffer plaintext)) - 16) (gcm_encrypt h key iv [] (vw_buffer plaintext))"
    "ep_iv p = iv" "ep_ephemeralPublicKey p = box_public box a" "ep_context p = c" "length iv = 12"
    "deriveSharedSecret box b (box_public box a) = Inr (box_before box (box_public box b) a)"
  using enc
  by (auto simp: encryptWithEcdh_def encryptAes256Gcm_def deriveSharedSecret_def Let_def import_key_def check_lengths_def key_def fresh_view_def
      deriveEncryptionKey_def box_lawD [OF box] b split: if_splits)

lemma decrypt_encrypted:
  assumes enc: "encryptWithEcdh h box iv plaintext a (box_public box b) c = Inr p" and box: "box_law box" and b: "length b = 32"
    and laws: "gcm_law h" "tag_law h" and o: "octets iv" "octets (vw_buffer plaintext)"
  shows "decryptWithEcdh h box p b = Inr (vw_buffer plaintext)"
proof -
  note p = encrypted_parts [OF enc box b]
  let ?k = "deriveEncryptionKey box (box_before box (box_public box b) a) c"
  have k: "length ?k = 32" "octets ?k" by (simp_all add: deriveEncryptionKey_def box_lawD [OF box])
  have "gcm_decrypt h ?k iv [] (gcm_encrypt h ?k iv [] (vw_buffer plaintext)) = Inr (vw_buffer plaintext)"
    by (rule gcm_decrypt_encrypt(1) [OF laws k(2) o(1) _ o(2)]) simp
  then show ?thesis
    using p k(1) by (simp add: decryptWithEcdh_def decryptAes256Gcm_def check_lengths_def import_key_def fresh_view_def)
qed

lemma gcm_encrypt_length: "tag_law h \<Longrightarrow> stream_law h \<Longrightarrow> length (gcm_encrypt h k iv aad pt) = length pt + 16"
  unfolding tag_law_def stream_law_def gcm_encrypt_def by (metis case_prod_beta length_append)

lemma gcm_decrypt_length: "stream_law h \<Longrightarrow> gcm_decrypt h k iv aad c = Inr pt \<Longrightarrow> length pt + 16 = length c"
  unfolding stream_law_def gcm_decrypt_def by (fastforce split: if_splits option.splits)

text \<open>
  C27: A payload sealed for a device opens with the device's key, but not after it has been stored:
  the stored form leaves out the authentication tag, so what is read back never opens to the
  sealed text. What is sealed is the whole buffer behind the array that was passed.
\<close>

theorem stored_payload_lost:
  assumes "encryptWithEcdh h box iv plaintext a (box_public box b) c = Inr p" "box_law box" "length b = 32"
    "gcm_law h" "tag_law h" "stream_law h" "buffer_law h" "octets iv" "octets (vw_buffer plaintext)"
  shows "decryptWithEcdh h box p b = Inr (vw_buffer plaintext)
    \<and> decryptWithEcdh h box (deserializeEncryptedPayload h (fst (serializeEncryptedPayload h now p)) (snd (serializeEncryptedPayload h now p)) c) b
        \<noteq> Inr (vw_buffer plaintext)"
proof
  note p = encrypted_parts [OF assms(1-3)]
  let ?k = "deriveEncryptionKey box (box_before box (box_public box b) a) c"
  let ?e = "gcm_encrypt h ?k iv [] (vw_buffer plaintext)"
  let ?d = "deserializeEncryptedPayload h (fst (serializeEncryptedPayload h now p)) (snd (serializeEncryptedPayload h now p)) c"
  have "octets ?k" by (simp add: deriveEncryptionKey_def box_lawD [OF assms(2)])
  from gcm_decrypt_encrypt(2) [OF assms(4,5) this assms(8) _ assms(9), of "[]"] have "octets ?e" by simp
  then have "octets (ep_ciphertext p)" by (auto simp: p(2) list_all_iff dest: in_set_takeD)
  then have d: "ep_ciphertext ?d = ep_ciphertext p" "ep_authTag ?d = []"
    using assms(7) by (simp_all add: deserializeEncryptedPayload_def serializeEncryptedPayload_def buffer_law_def)
  have len: "length (ep_ciphertext p) = length (vw_buffer plaintext)"
    by (simp add: p(2) gcm_encrypt_length [OF assms(5,6)])
  show "decryptWithEcdh h box p b = Inr (vw_buffer plaintext)" by (rule decrypt_encrypted [OF assms(1-5,8,9)])
  show "decryptWithEcdh h box ?d b \<noteq> Inr (vw_buffer plaintext)"
  proof
    assume "decryptWithEcdh h box ?d b = Inr (vw_buffer plaintext)"
    then obtain k i where "gcm_decrypt h k i [] (ep_ciphertext p) = Inr (vw_buffer plaintext)"
      by (auto simp: decryptWithEcdh_def decryptAes256Gcm_def d)
    from gcm_decrypt_length [OF assms(6) this] len show False by simp
  qed
qed

definition sample_box :: box_api where
  "sample_box =
     \<lparr>box_before = (\<lambda>pk sk. [(sum_list pk + sum_list (take 32 (map (\<lambda>b. b mod 256) sk))) mod 256]),
      box_public = (\<lambda>sk. take 32 (map (\<lambda>b. b mod 256) sk @ replicate 32 0)),
      noble_hkdf = (\<lambda>s i n. take n (map (\<lambda>b. b mod 256) (s @ i) @ replicate n 0))\<rparr>"

lemma sample_box_law: "box_law sample_box"
  by (auto simp: box_law_def sample_box_def list_all_iff sum_list_replicate ac_simps dest!: in_set_takeD)

lemma sample_stream_laws: "stream_law sample_host" "buffer_law sample_host"
  by (auto simp: stream_law_def buffer_law_def split: if_splits)

definition sample_context :: encryption_context where
  "sample_context = \<lparr>ec_receiptId = ''r1'', ec_tinHash = ''t1'', ec_deviceId = ''d1'', ec_protocolVersion = ''1.0''\<rparr>"

definition sample_payload :: encrypted_payload where
  "sample_payload = projr (encryptWithEcdh sample_host sample_box (replicate 12 1) (fresh_view [5, 6]) (replicate 32 2)
     (box_public sample_box (replicate 32 3)) sample_context)"

lemma sample_payload_Inr:
  "encryptWithEcdh sample_host sample_box (replicate 12 1) (fresh_view [5, 6]) (replicate 32 2) (box_public sample_box (replicate 32 3)) sample_context
   = Inr sample_payload"
proof -
  have "length (box_public sample_box k) = 32" "length (noble_hkdf sample_box s i 32) = 32" for k s i
    by (rule box_lawD [OF sample_box_law])+
  then show ?thesis
    by (simp add: sample_payload_def encryptWithEcdh_def deriveSharedSecret_def encryptAes256Gcm_def check_lengths_def import_key_def
        deriveEncryptionKey_def fresh_view_def Let_def)
qed

theorem stored_payload_lost_witness:
  "decryptWithEcdh sample_host sample_box sample_payload (replicate 32 3) = Inr [5, 6]
   \<and> decryptWithEcdh sample_host sample_box (deserializeEncryptedPayload sample_host (fst (serializeEncryptedPayload sample_host 9 sample_payload))
       (snd (serializeEncryptedPayload sample_host 9 sample_payload)) sample_context) (replicate 32 3) \<noteq> Inr [5, 6]"
  using stored_payload_lost [OF sample_payload_Inr sample_box_law _ sample_laws(1) sample_tag_law sample_stream_laws, of 9]
  by (simp add: fresh_view_def list_all_iff)

text \<open>The context text does not fix the context: separators inside an id move the boundary.\<close>

lemma context_text_ambiguous:
  "buildContextString \<lparr>ec_receiptId = ''a|b'', ec_tinHash = ''c'', ec_deviceId = ''d'', ec_protocolVersion = ''1.0''\<rparr>
   = buildContextString \<lparr>ec_receiptId = ''a'', ec_tinHash = ''b|c'', ec_deviceId = ''d'', ec_protocolVersion = ''1.0''\<rparr>"
  by (simp add: buildContextString_def)

text \<open>A receipt is shown only to a live session with the permission, on a device whose key opens it.\<close>

lemma view_available:
  assumes "openPrivateView h box td syntax_message now now' sdk receiptId r s = ViewAvailable v"
  shows "\<not> isSessionExpired h now s" "ps_status s \<noteq> SessionRevoked" "hasPermission s ''decryptReceipts''"
    "\<exists>k. pv_deviceKeyPair sdk = Some k \<and> verifyContextHash h (receipt_context r k) (em_contextHash (sr_metadata r))
       \<and> decryptReceipt h box td syntax_message r k = Inr v"
  using assms
  by (auto simp: openPrivateView_def validateSession_def decryptReceipt_def Let_def split: sum.splits if_splits option.splits)

text \<open>The receipt id the caller asks for is not compared with the receipt that is opened.\<close>

lemma requested_id_ignored:
  "openPrivateView h box td syntax_message now now' sdk i r s = openPrivateView h box td syntax_message now now' sdk j r s"
  by (simp add: openPrivateView_def)

end
