(* ===== verification/Prime_Field.thy ===== *)
theory Prime_Field
  imports Complex_Main
begin

text \<open>
  Number theory the BabyJubjub routines rest on: Fermat's theorem, and Pocklington's criterion, which
  shows a number prime from the factored part of its predecessor. Congruences are on natural
  numbers, written with \<open>mod\<close>.
\<close>

definition is_prime :: "nat \<Rightarrow> bool" where
  "is_prime p \<longleftrightarrow> 1 < p \<and> (\<forall>d. d dvd p \<longrightarrow> d = 1 \<or> d = p)"

section \<open>Primes\<close>

lemma is_prime_gt: "is_prime p \<Longrightarrow> 1 < p"
  by (simp add: is_prime_def)

lemma prime_coprime: "is_prime p \<Longrightarrow> \<not> p dvd a \<Longrightarrow> coprime p a"
  unfolding is_prime_def coprime_iff_gcd_eq_1 by (metis gcd_dvd1 gcd_dvd2)

lemma prime_dvd_mult: "is_prime p \<Longrightarrow> p dvd a * b \<longleftrightarrow> p dvd a \<or> p dvd b"
  using prime_coprime coprime_dvd_mult_right_iff by (metis dvd_mult dvd_mult2)

lemma prime_factor: "1 < n \<Longrightarrow> \<exists>p. is_prime p \<and> p dvd n"
proof (induction n rule: less_induct)
  case (less n)
  show ?case
  proof (cases "is_prime n")
    case False
    with less.prems obtain d where d: "d dvd n" "d \<noteq> 1" "d \<noteq> n" by (auto simp: is_prime_def)
    have "d \<le> n" "d \<noteq> 0" using d(1) less.prems by (auto intro!: dvd_imp_le gr0I)
    with d(2,3) have "1 < d" "d < n" by linarith+
    with less.IH d show ?thesis using dvd_trans by blast
  qed auto
qed

lemma prime_fact: "is_prime p \<Longrightarrow> n < p \<Longrightarrow> \<not> p dvd fact n"
proof (induction n)
  case (Suc n)
  then have "\<not> p dvd Suc n" by (simp add: nat_dvd_not_less)
  with Suc show ?case by (simp add: prime_dvd_mult del: mult_Suc)
qed (auto simp: is_prime_def)

section \<open>Fermat's theorem\<close>

lemma mod_eq_dvd: "(a::nat) mod p = b mod p \<Longrightarrow> b \<le> a \<Longrightarrow> p dvd a - b"
  by (simp add: mod_eq_dvd_iff_nat)

lemma cancel_left:
  assumes "is_prime p" "\<not> p dvd k" "(k * a) mod p = (k * b) mod p"
  shows "a mod p = b mod p"
proof -
  have c: "a mod p = b mod p" if "b \<le> a" "(k * a) mod p = (k * b) mod p" for a b
  proof -
    have "p dvd k * a - k * b" using that by (intro mod_eq_dvd) auto
    then have "p dvd k * (a - b)" by (simp add: diff_mult_distrib2)
    then have "p dvd a - b" using assms(1,2) by (simp add: prime_dvd_mult)
    with that(1) show ?thesis by (simp add: mod_eq_dvd_iff_nat)
  qed
  show ?thesis using c [of b a] c [of a b] assms(3) by (cases "b \<le> a") auto
qed

lemma fermat:
  assumes p: "is_prime p" and a: "\<not> p dvd a"
  shows "a ^ (p - 1) mod p = 1"
proof -
  let ?S = "{1..<p}" and ?f = "\<lambda>i. (a * i) mod p"
  have p1: "1 < p" using p by (rule is_prime_gt)
  have inj: "inj_on ?f ?S"
  proof (rule inj_onI)
    fix i j assume ij: "i \<in> ?S" "j \<in> ?S" and e: "?f i = ?f j"
    from cancel_left [OF p a e] ij show "i = j" by simp
  qed
  have "?f i \<in> ?S" if "i \<in> ?S" for i
  proof -
    have "\<not> p dvd i" using that by (auto simp: nat_dvd_not_less)
    then have "\<not> p dvd a * i" using p a by (simp add: prime_dvd_mult)
    with p1 show ?thesis by (simp add: dvd_eq_mod_eq_0)
  qed
  then have im: "?f ` ?S = ?S" by (intro card_subset_eq card_image inj) auto
  have P: "\<Prod>?S = fact (p - 1)" using p1 by (simp add: fact_prod atLeastLessThanSuc_atLeastAtMost [symmetric])
  have "\<Prod>?S = (\<Prod>i\<in>?S. ?f i)" using prod.reindex [OF inj, of id] im by simp
  then have "fact (p - 1) mod p = (\<Prod>i\<in>?S. a * i) mod p"
    unfolding P by (simp add: mod_prod_eq)
  also have "\<dots> = (fact (p - 1) * a ^ (p - 1)) mod p"
    using P by (simp add: prod.distrib mult.commute)
  finally have "(fact (p - 1) * a ^ (p - 1)) mod p = (fact (p - 1) * 1) mod p" by simp
  from cancel_left [OF p _ this] p1 show ?thesis using prime_fact [OF p, of "p - 1"] by simp
qed

section \<open>Pocklington's criterion\<close>

lemma pow_mod_1:
  assumes "(a::nat) ^ x mod r = 1 mod r" "x dvd y"
  shows "a ^ y mod r = 1 mod r"
proof -
  obtain k where "y = x * k" using assms(2) by auto
  then have "a ^ y mod r = (a ^ x mod r) ^ k mod r" by (simp add: power_mult power_mod)
  then show ?thesis using assms(1) by (simp add: power_mod)
qed

lemma pow_gcd:
  "(a::nat) ^ x mod r = 1 mod r \<Longrightarrow> a ^ y mod r = 1 mod r \<Longrightarrow> a ^ gcd x y mod r = 1 mod r"
proof (induction x y rule: gcd_nat_induct)
  case (step m n)
  have "a ^ m = a ^ (n * (m div n)) * a ^ (m mod n)" by (metis mult_div_mod_eq power_add)
  then have "a ^ m mod r = ((a ^ (n * (m div n)) mod r) * a ^ (m mod n)) mod r" by (simp add: mod_mult_left_eq)
  also have "\<dots> = a ^ (m mod n) mod r"
    using pow_mod_1 [OF step.prems(2), of "n * (m div n)"] by (simp add: mod_mult_left_eq)
  finally have "a ^ (m mod n) mod r = 1 mod r" using step.prems(1) by simp
  with step show ?case by (simp add: gcd.commute gcd_red_nat [of m n] ac_simps)
qed simp

text \<open>A divisor that misses a full prime power also divides what is left without one factor.\<close>

lemma dvd_less_power:
  assumes q: "is_prime q"
  shows "g dvd q ^ k * m \<Longrightarrow> \<not> q ^ k dvd g \<Longrightarrow> g dvd q ^ (k - 1) * m"
proof (induction k arbitrary: g)
  case (Suc k)
  show ?case
  proof (cases "q dvd g")
    case True
    then obtain g' where g: "g = q * g'" by auto
    have q0: "0 < q" using is_prime_gt [OF q] by simp
    have "g' dvd q ^ k * m" "\<not> q ^ k dvd g'" using Suc.prems q0 by (simp_all add: g mult.assoc)
    with Suc.IH have d: "g' dvd q ^ (k - 1) * m" "k \<noteq> 0" by (auto intro: ccontr)
    then have "q * g' dvd q * (q ^ (k - 1) * m)" by simp
    with d(2) show ?thesis by (cases k) (simp_all add: g mult.assoc)
  next
    case False
    then have "coprime g (q ^ Suc k)" using prime_coprime [OF q] by (simp add: coprime_commute)
    then have "g dvd m" using Suc.prems(1) by (simp add: coprime_dvd_mult_right_iff)
    then show ?thesis by simp
  qed
qed simp

lemma pocklington_power:
  assumes n: "n - 1 = q ^ k * m" "1 < n" and q: "is_prime q"
    and one: "a ^ (n - 1) mod n = 1" and sep: "coprime (a ^ (q ^ (k - 1) * m) - 1) n"
    and r: "is_prime r" "r dvd n"
  shows "q ^ k dvd r - 1"
proof (rule ccontr)
  assume no: "\<not> q ^ k dvd r - 1"
  have r1: "1 < r" using r(1) by (rule is_prime_gt)
  have a1: "a ^ (n - 1) mod r = 1 mod r" using one r(2) by (metis mod_mod_cancel)
  have na: "\<not> r dvd a"
  proof
    assume "r dvd a"
    then have "r dvd a ^ (n - 1)" using n(2) by (simp add: dvd_power dvd_trans)
    with a1 r1 show False by (simp add: dvd_eq_mod_eq_0)
  qed
  have "a ^ gcd (n - 1) (r - 1) mod r = 1 mod r" using pow_gcd [OF a1] fermat [OF r(1) na] r1 by simp
  moreover have "gcd (n - 1) (r - 1) dvd q ^ (k - 1) * m"
    using no by (intro dvd_less_power [OF q]) (auto simp: n(1) [symmetric] intro: dvd_trans)
  ultimately have "a ^ (q ^ (k - 1) * m) mod r = 1 mod r" by (rule pow_mod_1)
  moreover have "0 < a" using na by (cases a) auto
  ultimately have "r dvd a ^ (q ^ (k - 1) * m) - 1" by (intro mod_eq_dvd) auto
  with sep r r1 show False by (metis coprime_common_divisor_nat less_irrefl)
qed

lemma pocklington:
  assumes n: "1 < n" "n < f * f" and f: "\<And>r. is_prime r \<Longrightarrow> r dvd n \<Longrightarrow> f dvd r - 1"
  shows "is_prime n"
proof -
  have big: "f < r" if "is_prime r" "r dvd n" for r
  proof -
    have "0 < r - 1" using is_prime_gt [OF that(1)] by simp
    then have "f \<le> r - 1" using f [OF that] by (simp add: dvd_imp_le)
    with \<open>0 < r - 1\<close> show ?thesis by simp
  qed
  have "d = 1 \<or> d = n" if d: "d dvd n" for d
  proof (rule ccontr)
    assume no: "\<not> (d = 1 \<or> d = n)"
    obtain e where e: "n = d * e" using d by auto
    have "d \<noteq> 0" "e \<noteq> 0" "e \<noteq> 1" using no n(1) e by (metis mult_is_0 not_one_less_zero, metis mult_is_0 not_one_less_zero, metis mult.right_neutral)
    with no have "1 < d" "1 < e" by linarith+
    then obtain r s where "is_prime r" "r dvd d" "is_prime s" "s dvd e" using prime_factor by metis
    then have "f < r" "f < s" "r \<le> d" "s \<le> e"
      using big [of r] big [of s] e \<open>1 < d\<close> \<open>1 < e\<close> by (simp_all add: dvd_imp_le)
    then have "f \<le> d" "f \<le> e" by simp_all
    then have "f * f \<le> d * e" by (rule mult_le_mono)
    with n(2) e show False by simp
  qed
  then show ?thesis using n(1) by (auto simp: is_prime_def)
qed

section \<open>Certificates\<close>

text \<open>Trial division, for the smallest primes of a certificate.\<close>

lemma trial_division:
  assumes n: "1 < n" "n < k * k" and no: "\<forall>d \<in> set [2..<k]. \<not> d dvd n"
  shows "is_prime n"
proof -
  have "k \<le> d" if "d dvd n" "d \<noteq> 1" for d
  proof (rule ccontr)
    assume "\<not> k \<le> d"
    moreover have "d \<noteq> 0" using that(1) n(1) by (auto intro!: gr0I)
    ultimately have "d \<in> set [2..<k]" using that(2) by auto
    with no that(1) show False by blast
  qed
  note big = this
  have "d = 1 \<or> d = n" if d: "d dvd n" for d
  proof (rule ccontr)
    assume c: "\<not> (d = 1 \<or> d = n)"
    obtain e where e: "n = d * e" using d by auto
    have "k \<le> d" "k \<le> e" using big [of d] big [of e] c e by auto
    then have "k * k \<le> d * e" by (rule mult_le_mono)
    with n(2) e show False by simp
  qed
  then show ?thesis using n(1) by (auto simp: is_prime_def)
qed

text \<open>
  A power modulo \<open>n\<close> is certified by the quotients and remainders of its squarings: each step squares
  and, where the flag is set, multiplies with the base.
\<close>

fun powers :: "int \<Rightarrow> int \<Rightarrow> int \<Rightarrow> int \<Rightarrow> (bool \<times> int \<times> int) list \<Rightarrow> (int \<times> int) option" where
  "powers n b e x [] = Some (e, x)"
| "powers n b e x ((odd_bit, q, r) # steps) =
     (if (if odd_bit then b * (x * x) else x * x) = q * n + r
      then powers n b (if odd_bit then 2 * e + 1 else 2 * e) r steps else None)"

definition reaches :: "int \<Rightarrow> int \<Rightarrow> int \<Rightarrow> int \<Rightarrow> bool" where
  "reaches n b e x \<longleftrightarrow> 0 \<le> e \<and> b ^ nat e mod n = x mod n"

lemma reaches_start: "reaches n b 1 b"
  by (simp add: reaches_def)

lemma reaches_square:
  assumes "reaches n b e x"
  shows "reaches n b (2 * e) (x * x)" "reaches n b (2 * e + 1) (b * (x * x))"
proof -
  have e: "nat (2 * e) = nat e + nat e" "nat (2 * e + 1) = Suc (nat e + nat e)"
    using assms by (auto simp: reaches_def)
  have m: "(b ^ nat e * b ^ nat e) mod n = (x * x) mod n"
    using assms by (auto simp: reaches_def intro: mod_mult_cong)
  show "reaches n b (2 * e) (x * x)" using assms m by (simp add: reaches_def e power_add)
  have "(b * (b ^ nat e * b ^ nat e)) mod n = (b * (x * x)) mod n" using m by (rule mod_mult_cong [OF refl])
  then show "reaches n b (2 * e + 1) (b * (x * x))" using assms unfolding reaches_def e by (simp add: power_add)
qed

lemma reaches_cong: "reaches n b e x \<Longrightarrow> x mod n = y mod n \<Longrightarrow> reaches n b e y"
  by (simp add: reaches_def)

lemma reaches_steps: "reaches n b e x \<Longrightarrow> powers n b e x steps = Some (e', y) \<Longrightarrow> reaches n b e' y"
proof (induction steps arbitrary: e x)
  case (Cons s steps)
  obtain odd_bit q r where s: "s = (odd_bit, q, r)" by (cases s)
  have eq: "(if odd_bit then b * (x * x) else x * x) = q * n + r" using Cons.prems(2) by (auto simp: s split: if_splits)
  have "reaches n b (if odd_bit then 2 * e + 1 else 2 * e) (if odd_bit then b * (x * x) else x * x)"
    using reaches_square [OF Cons.prems(1)] by simp
  then have "reaches n b (if odd_bit then 2 * e + 1 else 2 * e) r" unfolding eq by (rule reaches_cong) simp
  with Cons.IH Cons.prems(2) show ?case by (auto simp: s split: if_splits)
qed simp

lemma reaches_trans:
  assumes "reaches n b e x" "reaches n x f y"
  shows "reaches n b (e * f) y"
proof -
  have "b ^ nat (e * f) = (b ^ nat e) ^ nat f" using assms by (simp add: reaches_def nat_mult_distrib power_mult)
  then have "b ^ nat (e * f) mod n = (b ^ nat e mod n) ^ nat f mod n" by (simp only: power_mod)
  also have "b ^ nat e mod n = x mod n" using assms(1) by (simp add: reaches_def)
  also have "(x mod n) ^ nat f mod n = x ^ nat f mod n" by (rule power_mod)
  finally show ?thesis using assms by (simp add: reaches_def)
qed

lemma reaches_nat: "reaches (int n) (int b) (int e) x \<Longrightarrow> int (b ^ e mod n) = x mod int n"
  by (simp add: reaches_def zmod_int)

text \<open>The certified form of \<open>pocklington_power\<close>; \<open>u\<close> inverts \<open>x - 1\<close> modulo \<open>n\<close>.\<close>

lemma certified_power:
  assumes n: "1 < n" "n - 1 = q ^ k * m" "0 < k" and q: "is_prime q"
    and one: "reaches (int n) (int a) (int (n - 1)) 1"
    and sep: "reaches (int n) (int a) (int (q ^ (k - 1) * m)) x" "u * (x - 1) = 1 + v * int n"
    and r: "is_prime r" "r dvd n"
  shows "q ^ k dvd r - 1"
proof -
  let ?e = "q ^ (k - 1) * m"
  have a1: "a ^ (n - 1) mod n = 1" using reaches_nat [OF one] n(1) by simp
  have "0 < a" using a1 n(1) by (cases a) (auto simp: power_0_left split: if_splits)
  then have ge: "1 \<le> a ^ ?e" by (simp add: Suc_le_eq)
  have "coprime (int (a ^ ?e - 1)) (int n)"
  proof (rule coprimeI)
    fix g assume g: "g dvd int (a ^ ?e - 1)" "g dvd int n"
    have "int (a ^ ?e) mod int n = x mod int n" using reaches_nat [OF sep(1)] by (simp add: zmod_int)
    then have "int n dvd int (a ^ ?e) - x" by (simp add: mod_eq_dvd_iff)
    then have "g dvd int (a ^ ?e) - x" using g(2) by (rule dvd_trans [rotated])
    moreover have "g dvd int (a ^ ?e) - 1" using g(1) ge by (simp add: of_nat_diff)
    ultimately have "g dvd (int (a ^ ?e) - 1) - (int (a ^ ?e) - x)" by (rule dvd_diff [rotated])
    then have "g dvd x - 1" by simp
    then have "g dvd 1 + v * int n" using sep(2) by (metis dvd_mult)
    then show "is_unit g" using g(2) by (simp add: dvd_add_left_iff)
  qed
  then have "coprime (a ^ ?e - 1) n" by (simp only: coprime_int_iff)
  from pocklington_power [OF n(2) n(1) q a1 this r] show ?thesis .
qed

end
