(* ===== verification/Baby_Jub.thy ===== *)
theory Baby_Jub
  imports Token_Amount
begin

text \<open>
  \<open>sdks/tsn-sdk/src/gpru/babyjub-delta-cipher.ts\<close>: arithmetic on the BabyJubjub curve and the cipher of
  blinding deltas. A \<open>BigInt\<close> is an \<open>int\<close>; \<open>%\<close> is \<open>bigint_mod\<close>, whose sign is that of the dividend. The
  hash and the random bytes are arguments.
\<close>

section \<open>The field\<close>

definition FIELD :: int where
  "FIELD = 21888242871839275222246405745257275088548364400416034343698204186575808495617"

definition ORDER :: int where
  "ORDER = 2736030358979909402780800718157159386076813972158567259200215660948447373041"

definition jub_A :: int where
  "jub_A = 168700"

definition jub_D :: int where
  "jub_D = 168696"

text \<open>\<open>BabyJubPointV1\<close>.\<close>

record babyjub_point =
  px :: int
  py :: int

definition BASE :: babyjub_point where
  "BASE =
     \<lparr>px = 5299619240641551281634865583518297030282874472190772894086521144482721001553,
      py = 16950150798460657717958625567821834550301663161624707787222815936182638968203\<rparr>"

definition KEY_DOMAIN :: byte_list where
  "KEY_DOMAIN = utf8 (''TSN_GPRU_BALANCE_SCAN_KEY_V1'' @ [CHR 0x00])"

definition jub_mod :: "int \<Rightarrow> int \<Rightarrow> int" where
  "jub_mod v modulus = (let r = bigint_mod v modulus in if r < 0 then r + modulus else r)"

function pow_loop :: "int \<Rightarrow> int \<Rightarrow> int \<Rightarrow> int \<Rightarrow> int" where
  "pow_loop modulus n x r =
     (if 0 < n
      then pow_loop modulus (n div 2) (bigint_mod (x * x) modulus)
             (if n mod 2 = 1 then bigint_mod (r * x) modulus else r)
      else r)"
  by auto
termination by (relation "measure (\<lambda>(m, n, x, r). nat n)") auto

declare pow_loop.simps [simp del]

definition jub_pow :: "int \<Rightarrow> int \<Rightarrow> int \<Rightarrow> int" where
  "jub_pow b e modulus = pow_loop modulus e (jub_mod b modulus) 1"

section \<open>Points\<close>

definition jub_add :: "babyjub_point \<Rightarrow> babyjub_point \<Rightarrow> babyjub_point" where
  "jub_add p q =
     (let product = jub_mod (px p * px q * py p * py q) FIELD in
      \<lparr>px = jub_mod ((px p * py q + py p * px q) * jub_pow (1 + jub_D * product) (FIELD - 2) FIELD) FIELD,
       py = jub_mod ((py p * py q - jub_A * px p * px q) * jub_pow (1 - jub_D * product) (FIELD - 2) FIELD) FIELD\<rparr>)"

function multiply_loop :: "int \<Rightarrow> babyjub_point \<Rightarrow> babyjub_point \<Rightarrow> babyjub_point" where
  "multiply_loop n b r =
     (if 0 < n
      then multiply_loop (n div 2) (jub_add b b) (if n mod 2 = 1 then jub_add r b else r)
      else r)"
  by auto
termination by (relation "measure (\<lambda>(n, b, r). nat n)") auto

declare multiply_loop.simps [simp del]

definition jub_zero :: babyjub_point where
  "jub_zero = \<lparr>px = 0, py = 1\<rparr>"

definition multiply :: "babyjub_point \<Rightarrow> int \<Rightarrow> babyjub_point" where
  "multiply point scalar = multiply_loop scalar point jub_zero"

definition canonical_point :: "babyjub_point \<Rightarrow> bool" where
  "canonical_point p \<longleftrightarrow>
     \<not> (px p < 0 \<or> FIELD \<le> px p \<or> py p < 0 \<or> FIELD \<le> py p \<or>
        jub_mod (jub_A * px p * px p + py p * py p - 1 - jub_D * px p * px p * py p * py p) FIELD \<noteq> 0)"

definition assertPoint :: "babyjub_point \<Rightarrow> string \<Rightarrow> unit result" where
  "assertPoint p label = require (canonical_point p) (label @ '' is not a canonical BabyJubjub point'')"

definition isValidBabyJubPointV1 :: "babyjub_point \<Rightarrow> bool" where
  "isValidBabyJubPointV1 p =
     (case assertPoint p ''BabyJubjub point'' of
        Inl _ \<Rightarrow> False
      | Inr _ \<Rightarrow>
          if px p = 0 \<and> py p = 1 then False
          else (let subgroupCheck = multiply p ORDER in px subgroupCheck = 0 \<and> py subgroupCheck = 1))"

section \<open>Bytes and keys\<close>

text \<open>\<open>scalarFromBytes\<close> and, in the other files of the directory, \<open>littleEndianInteger\<close>: the loop runs from
  the last byte to the first.\<close>

definition scalarFromBytes :: "byte_list \<Rightarrow> int" where
  "scalarFromBytes bytes = foldr (\<lambda>b v. v * 256 + int b) bytes 0"

fun be_fill :: "nat \<Rightarrow> int \<Rightarrow> byte_list \<Rightarrow> byte_list" where
  "be_fill 0 n out = out"
| "be_fill (Suc i) n out = be_fill i (n div 256) (nat (n mod 256) # out)"

definition to32BE :: "int \<Rightarrow> byte_list" where
  "to32BE v = be_fill 32 v []"

definition MASTER_SEED_ERROR :: string where
  "MASTER_SEED_ERROR = ''TIN master seed must contain at least 32 bytes''"

definition deriveGpruBalanceScanKeyV1 ::
  "(byte_list \<Rightarrow> byte_list) \<Rightarrow> byte_list \<Rightarrow> (int \<times> babyjub_point) result" where
  "deriveGpruBalanceScanKeyV1 sha masterSeed =
     and_then (require (32 \<le> length masterSeed) MASTER_SEED_ERROR) (\<lambda>_.
       let s = bigint_mod (scalarFromBytes (sha (KEY_DOMAIN @ masterSeed))) ORDER;
           secret = (if s = 0 then 1 else s)
       in Inr (secret, multiply BASE secret))"

section \<open>The cipher\<close>

record encrypted_delta =
  encryptedDelta :: int
  ephemeralPublicKey :: babyjub_point
  ephemeralScalar :: int

text \<open>\<open>random\<close> is what \<open>getRandomValues\<close> wrote, used when no scalar is given.\<close>

definition encryptBalanceBlindingDeltaV1 ::
  "byte_list \<Rightarrow> int \<Rightarrow> babyjub_point \<Rightarrow> int option \<Rightarrow> encrypted_delta result" where
  "encryptBalanceBlindingDeltaV1 random delta scanPublicKey scalar =
     and_then (require (\<not> (delta \<le> 0 \<or> ORDER \<le> delta)) ''GPRU blinding delta must be a nonzero BabyJubjub scalar'') (\<lambda>_.
     and_then (assertPoint scanPublicKey ''GPRU balance scan public key'') (\<lambda>_.
       let e = (case scalar of Some s \<Rightarrow> s | None \<Rightarrow> bigint_mod (scalarFromBytes random) ORDER);
           eph = (if e = 0 then 1 else e)
       in and_then (require (\<not> ORDER \<le> eph) ''GPRU delta ephemeral scalar is outside the BabyJubjub subgroup order'') (\<lambda>_.
            let shared = multiply scanPublicKey eph in
            Inr \<lparr>encryptedDelta = jub_mod (delta + px shared) ORDER,
                 ephemeralPublicKey = multiply BASE eph,
                 ephemeralScalar = eph\<rparr>)))"

definition decryptBalanceBlindingDeltaV1 :: "int \<Rightarrow> babyjub_point \<Rightarrow> int \<Rightarrow> int result" where
  "decryptBalanceBlindingDeltaV1 cipher eph scanSecret =
     and_then (require (\<not> (cipher < 0 \<or> ORDER \<le> cipher \<or> scanSecret \<le> 0 \<or> ORDER \<le> scanSecret))
       ''GPRU encrypted delta or scan secret is outside the BabyJubjub scalar field'') (\<lambda>_.
     and_then (assertPoint eph ''GPRU delta ephemeral public key'') (\<lambda>_.
     Inr (jub_mod (cipher - px (multiply eph scanSecret)) ORDER)))"

section \<open>Text forms\<close>

function hex_nat :: "nat \<Rightarrow> string" where
  "hex_nat n = (if n < 16 then [hex_digit n] else hex_nat (n div 16) @ [hex_digit (n mod 16)])"
  by auto
termination by (relation "measure id") auto

declare hex_nat.simps [simp del]

text \<open>\<open>v.toString(16).padStart(64, "0")\<close> of a non-negative number.\<close>

definition hex64 :: "int \<Rightarrow> string" where
  "hex64 v = padStart 64 (hex_nat (nat v))"

text \<open>\<open>BigInt(`0x${s}`)\<close> of hexadecimal text.\<close>

definition big_hex :: "string \<Rightarrow> int" where
  "big_hex s = foldl (\<lambda>a c. a * 16 + int (hex_val c)) 0 s"

definition encodeBabyJubFieldHexV1 :: "int \<Rightarrow> string result" where
  "encodeBabyJubFieldHexV1 v =
     and_then (require (\<not> (v < 0 \<or> FIELD \<le> v)) ''BabyJubjub coordinate is outside the base field'') (\<lambda>_. Inr (hex64 v))"

definition encodeBabyJubScalarHexV1 :: "int \<Rightarrow> string result" where
  "encodeBabyJubScalarHexV1 v =
     and_then (require (\<not> (v < 0 \<or> ORDER \<le> v)) ''BabyJubjub scalar is outside the subgroup order'') (\<lambda>_. Inr (hex64 v))"

definition decodeBabyJubHexV1 :: "string \<Rightarrow> string \<Rightarrow> int result" where
  "decodeBabyJubHexV1 s label = and_then (require (is_hex64 s) (label @ '' must be 32-byte hex'')) (\<lambda>_. Inr (big_hex s))"

definition encodeBabyJubKeyV1 :: "babyjub_point \<Rightarrow> (byte_list \<times> byte_list) result" where
  "encodeBabyJubKeyV1 point =
     and_then (assertPoint point ''GPRU balance scan public key'') (\<lambda>_. Inr (to32BE (px point), to32BE (py point)))"

section \<open>Remainders and powers\<close>

lemma bigint_mod_nonneg [simp]: "0 \<le> v \<Longrightarrow> 0 < m \<Longrightarrow> bigint_mod v m = v mod m"
  by (cases "v = 0") (simp_all add: bigint_mod_def)

lemma jub_mod_eq: "0 < m \<Longrightarrow> jub_mod v m = v mod m"
proof (cases "0 \<le> v")
  case False
  assume m: "0 < m"
  with False have b: "bigint_mod v m = - ((- v) mod m)" by (simp add: bigint_mod_def)
  have "v mod m = (if (- v) mod m = 0 then 0 else m - (- v) mod m)" using zmod_zminus1_eq_if [of "- v" m] by simp
  moreover have "0 \<le> (- v) mod m" using m by simp
  ultimately show ?thesis by (simp add: jub_mod_def b)
qed (simp add: jub_mod_def Let_def not_less)

lemma nat_double: "0 < (n::int) \<Longrightarrow> nat n = (if n mod 2 = 1 then Suc (2 * nat (n div 2)) else 2 * nat (n div 2))"
  by (simp add: nat_eq_iff) presburger

lemma pow_loop_eq:
  "1 < m \<Longrightarrow> 0 \<le> x \<Longrightarrow> 0 \<le> r \<Longrightarrow> r < m \<Longrightarrow> pow_loop m n x r = (r * x ^ nat n) mod m"
proof (induction m n x r rule: pow_loop.induct)
  case (1 m n x r)
  show ?case
  proof (cases "0 < n")
    case True
    let ?r = "if n mod 2 = 1 then bigint_mod (r * x) m else r"
    have r: "0 \<le> ?r" "?r < m" "?r mod m = (if n mod 2 = 1 then r * x else r) mod m" using "1.prems" by simp_all
    have "pow_loop m n x r = pow_loop m (n div 2) (bigint_mod (x * x) m) ?r" using True by (simp add: pow_loop.simps)
    also have "\<dots> = (?r * ((x * x) mod m) ^ nat (n div 2)) mod m" using 1 True r(1,2) by simp
    also have "\<dots> = ((if n mod 2 = 1 then r * x else r) * (x * x) ^ nat (n div 2)) mod m"
      using r(3) by (metis mod_mult_cong mod_mod_trivial power_mod)
    also have "(if n mod 2 = 1 then r * x else r) * (x * x) ^ nat (n div 2) = r * x ^ nat n"
      unfolding nat_double [OF True] by (simp add: power_mult power2_eq_square)
    finally show ?thesis .
  next
    case False
    with "1.prems" show ?thesis by (simp add: pow_loop.simps)
  qed
qed

lemma jub_pow_eq: "1 < m \<Longrightarrow> jub_pow b e m = b ^ nat e mod m"
  by (simp add: jub_pow_def jub_mod_eq pow_loop_eq power_mod)


section \<open>Reading text forms back\<close>

lemma big_hex_foldl: "foldl (\<lambda>a c. a * 16 + int (hex_val c)) k s = k * 16 ^ length s + big_hex s"
proof (induction s arbitrary: k)
  case (Cons c s)
  have "big_hex (c # s) = int (hex_val c) * 16 ^ length s + big_hex s" by (simp add: big_hex_def) (simp add: Cons big_hex_def [symmetric])
  then show ?case by (simp add: Cons) (simp add: algebra_simps)
qed (simp add: big_hex_def)

lemma big_hex_Nil [simp]: "big_hex [] = 0"
  by (simp add: big_hex_def)

lemma big_hex_append: "big_hex (s @ t) = big_hex s * 16 ^ length t + big_hex t"
  unfolding big_hex_def foldl_append by (simp add: big_hex_foldl)

lemma big_hex_single: "big_hex [c] = int (hex_val c)"
  by (simp add: big_hex_def)

lemma big_hex_hex_nat: "big_hex (hex_nat n) = int n"
proof (induction n rule: hex_nat.induct)
  case (1 n)
  have "int (n div 16) * 16 + int (n mod 16) = int n" by (metis div_mult_mod_eq of_nat_add of_nat_mult of_nat_numeral)
  with 1 show ?case by (subst hex_nat.simps) (auto simp: big_hex_append big_hex_single hex_val_digit)
qed

lemma hex_nat_hex: "list_all is_lower_hex (hex_nat n)"
  by (induction n rule: hex_nat.induct) (subst hex_nat.simps, auto simp: is_lower_hex_digit)

lemma length_hex_nat: "n < 16 ^ Suc k \<Longrightarrow> length (hex_nat n) \<le> Suc k"
proof (induction k arbitrary: n)
  case (Suc k)
  then have "n div 16 < 16 ^ Suc k" by (simp add: less_mult_imp_div_less)
  with Suc.IH show ?case by (subst hex_nat.simps) auto
qed (subst hex_nat.simps, auto)

lemma big_hex_zeros: "big_hex (replicate n (CHR ''0'')) = 0"
  by (induction n) (simp_all add: replicate_append_same [symmetric] big_hex_append big_hex_single hex_val_def)

lemma big_hex_hex64: "0 \<le> v \<Longrightarrow> big_hex (hex64 v) = v"
  by (simp add: hex64_def padStart_def big_hex_append big_hex_zeros big_hex_hex_nat)

lemma hex64_form:
  assumes "v < 16 ^ 64"
  shows "length (hex64 v) = 64" "list_all is_lower_hex (hex64 v)"
proof -
  have "nat v < 16 ^ Suc 63" using assms by (simp add: nat_less_iff)
  then show "length (hex64 v) = 64" using length_hex_nat by (fastforce simp: hex64_def padStart_def)
  show "list_all is_lower_hex (hex64 v)"
    using hex_nat_hex [of "nat v"] by (auto simp: hex64_def padStart_def list_all_iff is_lower_hex_def [of "CHR ''0''"] is_digit_def)
qed

lemma field_hex_roundtrip: "encodeBabyJubFieldHexV1 v = Inr s \<Longrightarrow> decodeBabyJubHexV1 s label = Inr v"
  using hex64_form [of v]
  by (auto simp: encodeBabyJubFieldHexV1_def decodeBabyJubHexV1_def is_hex64_def big_hex_hex64 FIELD_def
        list_all_iff is_hex_def)

lemma scalarFromBytes_Nil [simp]: "scalarFromBytes [] = 0"
  by (simp add: scalarFromBytes_def)

lemma scalarFromBytes_Cons [simp]: "scalarFromBytes (b # bs) = scalarFromBytes bs * 256 + int b"
  by (simp add: scalarFromBytes_def)

lemma scalarFromBytes_nonneg: "0 \<le> scalarFromBytes bs"
  by (induction bs) simp_all

lemma scalarFromBytes_append: "scalarFromBytes (s @ t) = scalarFromBytes s + scalarFromBytes t * 256 ^ length s"
  by (induction s) (simp_all add: algebra_simps)

lemma be_fill_value:
  "0 \<le> v \<Longrightarrow> scalarFromBytes (rev (be_fill n v out)) = scalarFromBytes (rev out) + (v mod 256 ^ n) * 256 ^ length out"
proof (induction n arbitrary: v out)
  case (Suc n)
  have m: "v mod 256 ^ Suc n = v mod 256 + 256 * (v div 256 mod 256 ^ n)"
    by (simp add: zmod_zmult2_eq add.commute)
  from Suc show ?case unfolding m by (simp add: scalarFromBytes_append algebra_simps)
qed simp

text \<open>The coordinates of an encoded key can be read back from its bytes.\<close>

lemma to32BE_value: "0 \<le> v \<Longrightarrow> v < 256 ^ 32 \<Longrightarrow> scalarFromBytes (rev (to32BE v)) = v"
  by (simp add: to32BE_def be_fill_value del: be_fill.simps)

end
