(* ===== verification/Jub_Prime.thy ===== *)
theory Jub_Prime
  imports Prime_Field Baby_Jub
begin

text \<open>
  The modulus of the BabyJubjub field is prime, and the curve's constant \<open>jub_D\<close> is no square in it. Both
  follow from powers of \<open>jub_D\<close>, each certified by the quotients of its squarings.
\<close>

lemma small_primes: "is_prime 2" "is_prime 983" "is_prime 1637" "is_prime 853"
  by (rule trial_division [where k = 2], simp_all) (rule trial_division [where k = 50], simp_all)+

lemma n1_root_steps: "powers 639533339 2 1 2
   [(True, 0, 8),
    (True, 0, 128),
    (False, 0, 16384),
    (False, 0, 268435456),
    (True, 225344292, 588504884),
    (False, 541547996, 381214812),
    (True, 454471171, 307520719),
    (False, 147871872, 569936353)]
   = Some (458, 569936353)"
  by code_simp

lemma n1_root: "reaches 639533339 2 458 569936353"
  by (rule reaches_steps [OF reaches_start n1_root_steps])

lemma n1_853_steps: "powers 639533339 569936353 1 569936353
   [(True, 289478216234088479, 576757596),
    (False, 520143836, 346350812),
    (True, 106904402385646302, 580870054),
    (False, 527587850, 307631766),
    (True, 84338432882458476, 48885504),
    (False, 3736775, 308492291),
    (True, 84810925283441368, 315972641),
    (False, 156111814, 195747935),
    (True, 34147392641381370, 248876995)]
   = Some (853, 248876995)"
  by code_simp

lemma n1_853: "reaches 639533339 569936353 853 248876995"
  by (rule reaches_steps [OF reaches_start n1_853_steps])

lemma n1_1637_steps: "powers 639533339 569936353 1 569936353
   [(True, 289478216234088479, 576757596),
    (False, 520143836, 346350812),
    (False, 187572527, 476081691),
    (True, 201988260654501803, 282182576),
    (True, 70961625837607988, 144132996),
    (False, 32483561, 306995837),
    (False, 147367522, 530514611),
    (True, 250817519520035488, 148227881),
    (False, 34355526, 449868847),
    (True, 180357833244691964, 256057581)]
   = Some (1637, 256057581)"
  by code_simp

lemma n1_1637: "reaches 639533339 569936353 1637 256057581"
  by (rule reaches_steps [OF reaches_start n1_1637_steps])

lemma n1_one_steps: "powers 639533339 248876995 1 248876995
   [(True, 24104108513732596, 257756831),
    (False, 103886036, 448608357),
    (False, 314681730, 461042979),
    (True, 82718831445793624, 605154259),
    (True, 142512760780281521, 547712976),
    (False, 469075630, 181348006),
    (False, 51423588, 343175704),
    (True, 45830503833922619, 147059079),
    (False, 33815864, 301238345),
    (True, 35313606304240566, 1)]
   = Some (1637, 1)"
  by code_simp

lemma n1_one: "reaches 639533339 248876995 1637 1"
  by (rule reaches_steps [OF reaches_start n1_one_steps])

lemma prime_n1: "is_prime 639533339"
proof (rule pocklington [where f = "853 * 1637"])
  fix r :: nat assume r: "is_prime r" "r dvd 639533339"
  have e1: "reaches 639533339 2 390674 248876995" using reaches_trans [OF n1_root n1_853] by simp
  have e2: "reaches 639533339 2 749746 256057581" using reaches_trans [OF n1_root n1_1637] by simp
  have one: "reaches 639533339 2 639533338 1" using reaches_trans [OF e1 n1_one] by simp
  have "1637 dvd r - 1"
    using certified_power [of 639533339 1637 1 390674 2 248876995 296391531 115341967 r] one e1 small_primes r by simp
  moreover have "853 dvd r - 1"
    using certified_power [of 639533339 853 1 749746 2 256057581 303978671 121707561 r] one e2 small_primes r by simp
  moreover have "coprime (853::nat) 1637" by (rule prime_coprime [OF small_primes(4)]) simp
  ultimately show "853 * 1637 dvd r - 1" by (simp only: divides_mult)
qed simp_all

lemma n2_root_1: "powers 65865678001877903 2 1 2
   [(True, 0, 8),
    (False, 0, 64),
    (False, 0, 4096),
    (False, 0, 16777216),
    (True, 0, 562949953421312),
    (False, 4811499094384, 33669438334804592),
    (False, 17211256487011155, 29183889115278499),
    (False, 12930852755642900, 29525774262854301),
    (True, 26471187187845368, 38887542728293898),
    (True, 45918937611232604, 59236409187319396),
    (True, 106548730077825773, 6154534983015613),
    (False, 575084049936949, 36599328655427822),
    (False, 20337008570530909, 34345934146059857),
    (False, 17909831465362696, 24290170823953961),
    (False, 8957812574859433, 36278529593780522),
    (False, 19982056655505539, 3469598488387767),
    (False, 182767627022369, 2511672767434082),
    (True, 191556521759029, 38057013584529261),
    (True, 43978482478590778, 20679008872633708),
    (False, 6492325303965923, 54636828819129795)]
   = Some (1609222, 54636828819129795)"
  by code_simp

lemma n2_root_2: "powers 65865678001877903 2 1609222 54636828819129795
   [(False, 45322285505446117, 64564281277289374),
    (False, 63288597996882220, 44900285821727216),
    (True, 61216576767503058, 37692726735093938),
    (False, 21570288074556196, 11626112380210856),
    (True, 4104307225788775, 29991397622566647),
    (False, 13656337543951966, 8595199928015311)]
   = Some (102990218, 8595199928015311)"
  by code_simp

lemma n2_root: "reaches 65865678001877903 2 102990218 8595199928015311"
  by (rule reaches_steps [OF reaches_steps [OF reaches_start n2_root_1] n2_root_2])

lemma n2_one_1: "powers 65865678001877903 8595199928015311 1 8595199928015311
   [(False, 1121638219535948, 19226070235069677),
    (False, 5612054531243013, 56968334197042590),
    (True, 423510183232298076066708681834053, 18611656393288241),
    (True, 45202959374349877660961621177297, 43734149829486000),
    (False, 29039037011862199, 48447415136911303),
    (False, 35635434184421551, 64820389105270256),
    (False, 63791688952762989, 51329992322973469),
    (False, 40002140595916967, 61286237417813760),
    (True, 490142921288394337846414271406219, 58465146411114843),
    (True, 446057554997906898972272095157838, 25160803760737125),
    (True, 82612513787164335000675626766215, 43282835694537230),
    (True, 244471495027615063934132657189104, 17564606142202988),
    (False, 4684008398454788, 55317398354378580),
    (True, 399319307562260678798468385898334, 1018752242786798),
    (False, 15757161600212, 12272844760177368),
    (False, 2286816488902135, 60491326033384519),
    (False, 55555497738486739, 51365274646233044),
    (False, 40057151456145759, 35194706668242559),
    (False, 18805961086870182, 41777112883480135),
    (False, 26498279738793255, 38459179869673960)]
   = Some (1249088, 38459179869673960)"
  by code_simp

lemma n2_one_2: "powers 65865678001877903 8595199928015311 1249088 38459179869673960
   [(True, 193017574525211962194057670023672, 34048583907657784),
    (False, 17601064792557961, 64143099883154873),
    (False, 62465572167997396, 7159896889705541),
    (False, 778313152257439, 33061215984632264),
    (True, 142637744203100821101567003574651, 45545585862734603),
    (True, 270700714503731058371995098223914, 60626625102889057),
    (False, 55804294176725281, 57018535114983506),
    (True, 424256912718228810479975320665579, 51349957123922359),
    (True, 344093910544517473616235870615330, 1)]
   = Some (639533339, 1)"
  by code_simp

lemma n2_one: "reaches 65865678001877903 8595199928015311 639533339 1"
  by (rule reaches_steps [OF reaches_steps [OF reaches_start n2_one_1] n2_one_2])

lemma prime_n2: "is_prime 65865678001877903"
proof (rule pocklington [where f = 639533339])
  fix r :: nat assume r: "is_prime r" "r dvd 65865678001877903"
  have one: "reaches 65865678001877903 2 65865678001877902 1" using reaches_trans [OF n2_root n2_one] by simp
  show "639533339 dvd r - 1"
    using certified_power [of 65865678001877903 639533339 1 102990218 2 8595199928015311 39033286818209505 5093683299525283 r] one n2_root prime_n1 r by simp
qed simp_all

lemma n3_root_1: "powers 13818364434197438864469338081 2 1 2
   [(True, 0, 8),
    (False, 0, 64),
    (False, 0, 4096),
    (False, 0, 16777216),
    (False, 0, 281474976710656),
    (True, 11, 6454316252356847677925181781),
    (True, 6029396385341059018488849032, 3495777377331334031211076330),
    (False, 884363669090863434061195624, 5951512278320042950352511356),
    (True, 5126583333022570793371124314, 3033976872573099009872716038),
    (True, 1332287291617238877341127730, 5465722792888113942790748758),
    (False, 2161914732453046151362086970, 2529445442512532155623637994),
    (False, 463013859354695514139124629, 440353389748771911165647087),
    (False, 14032855247567947294659998, 3112286383224838334422801731),
    (True, 1401949786073842315533881775, 10883367953763375060713818947),
    (True, 17143519203165805732740378846, 1565875933293083035397743092),
    (False, 177442666977171268995158131, 490821471181962507738633853),
    (True, 34867471866212608159567063, 3614946713776805242456025115),
    (False, 945686430957463357797433800, 6928623037275597399094225425),
    (False, 3474059279683071211899348013, 6696758088301655987143847572),
    (True, 6490864979975223539824368237, 7819367881320079670549657171)]
   = Some (1600617, 7819367881320079670549657171)"
  by code_simp

lemma n3_root_2: "powers 13818364434197438864469338081 2 1600617 7819367881320079670549657171
   [(False, 4424728726368345116139345134, 10070268653200299995843475387),
    (True, 14677614160567393559483905204, 3816707788476410042118326014),
    (True, 2108391106919383424229655895, 10583777458174873562128618897),
    (True, 16212677819808335378335784360, 61611541808797052178780058),
    (False, 274705599358989201090276, 13703444609288914443892883008),
    (True, 27178961020180359420052531882, 11889075508072828027261057686),
    (False, 10229149557443025403805724764, 6696750377520025105869736712),
    (True, 6490850032559479353922649588, 9102474818579538724333781260),
    (False, 5996009746119188294764522344, 7993853100498013929712605736),
    (False, 4624403104769690972397348741, 13077241212351534571391395675),
    (False, 12375866806841661028364915781, 776611901396362500027549364),
    (True, 87293405563666857765410512, 692313430825461849034301520),
    (False, 34685572868172718843708685, 9108418817094604941133376915),
    (False, 6003843200305748308873229536, 13554696113211819504756156809),
    (False, 13296058849542891426351952643, 9851413725777882755728564398),
    (False, 7023287948338256667858150105, 11475781924502439791542453899),
    (False, 9530329830701529986281943625, 7935281130018080704632618576)]
   = Some (209796131360, 7935281130018080704632618576)"
  by code_simp

lemma n3_root: "reaches 13818364434197438864469338081 2 209796131360 7935281130018080704632618576"
  by (rule reaches_steps [OF reaches_steps [OF reaches_start n3_root_1] n3_root_2])

lemma n3_one_1: "powers 13818364434197438864469338081 7935281130018080704632618576 1 7935281130018080704632618576
   [(True, 36160157234019820593656434810912400073923117856596640388, 6024626098376368604520791548),
    (True, 20843270889732861504642252020179335800848481377405675075, 12956526157738010221657952029),
    (False, 12148439916717187945993007246, 13033178315209579486208481915),
    (True, 97545300189312131588803716683816824912735272897555113753, 9317283377009505927246043607),
    (False, 6282347664290678482172820614, 3487141057479528001213568715),
    (True, 6983042830610096821690238426374757642570061406534182653, 8970463893610592358603246707),
    (False, 5823353613936214452629922993, 13047074007182443388793947416),
    (False, 12318834183271586178204503029, 1735893499133178782183529707),
    (False, 218066780238875881708645688, 2277860932176299701036661121),
    (False, 375489476416926927519801274, 10456841577218911324352461447),
    (False, 7913059196821277262825356721, 11582084072275290222046741408),
    (False, 9707709772458610131767890683, 4440869139873206848644823141),
    (False, 1427181835548658164227207531, 8368951715619670804580817870),
    (False, 5068570390649222222447822820, 9262168650417991593144528480),
    (False, 6208243277799203197439006991, 10413093752592839881829586129),
    (False, 7846986668837679889618568807, 11541844625233648289585365274),
    (True, 76499064186232298931551398142410375436989102897297042427, 4089172793395676412059969189),
    (True, 9602329411420467013837213596607194569588137258964910571, 123795530186511610780831045),
    (True, 8800667306140912692751007403220991781344172469321524, 3995911146589813549241500956),
    (True, 9169324035484884386315786489910343715427711914546378041, 7213163208392189156475395815)]
   = Some (1916943, 7213163208392189156475395815)"
  by code_simp

lemma n3_one_2: "powers 13818364434197438864469338081 7935281130018080704632618576 1916943 7213163208392189156475395815
   [(True, 29878390081893383536680654949741633182927953850389896181, 3274665168306567780251474939),
    (False, 776027583842131564554195909, 7783209883449169180516943092),
    (False, 4383902044145152776301274455, 12137052172119357729802499609),
    (False, 10660309049614580476033707195, 753190004820108438227960086),
    (False, 41053714139785103145534241, 9480013504884722808418395875),
    (True, 51608779354032304601844427235438354507461239986294555401, 10310184326597100927003724519),
    (True, 61043374658555247524768685186814798224406808011672472493, 3138503201478530464709256003),
    (False, 712834170252007700279149200, 12483562629543047011950850809),
    (True, 89491701248344353636660922585606478587825200665978331935, 2281409498763660828057122321),
    (False, 376660300561203939319250238, 8432267785655359550494713763),
    (False, 5145553972584220841260386703, 9286782187083334098797683226),
    (False, 6241283026006494625360125555, 7349931621413274043139007121),
    (False, 3909398619257669835214187983, 11241010701785258861774228018),
    (True, 72563195183604974763557242973781612092903686333931172970, 10495543114326162342869356054),
    (True, 63258007625692293349038722439362663270062652653233660169, 1878424754868214010089219927),
    (False, 255347119878347713289285475, 7214738950431482892676211854),
    (False, 3766904424235236668690114342, 8378849114816027470545259614),
    (False, 5080565997746519261641650059, 12903809095485579282294832217),
    (True, 95618413550745840307716752928220339353119280733914553914, 10620567016425678254099014230),
    (False, 8162792658097975055380754810, 2552326705477704630885573290)]
   = Some (2010060974178, 2552326705477704630885573290)"
  by code_simp

lemma n3_one_3: "powers 13818364434197438864469338081 7935281130018080704632618576 2010060974178 2552326705477704630885573290
   [(False, 471428557447292700283853517, 93879213923488799007543223),
    (True, 5061095872150748168633396977833222747944212071880761, 5861745727356882287855134263),
    (True, 19731478398026598964785085339503304957691047997579130911, 5715998367833451257024545553),
    (False, 2364435928482029727391501744, 9315829236175563345934962545),
    (False, 6280386855539157330383867780, 6932638189365131593329946845),
    (True, 27599597315488376749123508104598921971575946919681282583, 3083762274448825405925025177),
    (True, 5460940661845436937051013321219417080959782739717531005, 3124199797785987746960266099),
    (True, 5605098837909056663051674949084411895287930127706647470, 3057894684126085342478126306),
    (False, 676687891952362932159807334, 3859583265371772333019919582),
    (False, 1078013469197015318761326081, 6246147404744190337875264163),
    (False, 2823370130928126115010642214, 7624688656232388209735739235),
    (True, 33384886522644002102307075280757292915309801211280165261, 5751857602344423908298335459),
    (True, 18998614333635614113345463345054052558812856274856728064, 9228697715789270620358885072),
    (True, 48908744806797015680538685549567579040555357538794911464, 7213377970993644489293477400),
    (True, 29880169289190174974897177631906616417384215380690163679, 1)]
   = Some (65865678001877903, 1)"
  by code_simp

lemma n3_one: "reaches 13818364434197438864469338081 7935281130018080704632618576 65865678001877903 1"
  by (rule reaches_steps [OF reaches_steps [OF reaches_steps [OF reaches_start n3_one_1] n3_one_2] n3_one_3])

lemma prime_n3: "is_prime 13818364434197438864469338081"
proof (rule pocklington [where f = 65865678001877903])
  fix r :: nat assume r: "is_prime r" "r dvd 13818364434197438864469338081"
  have one: "reaches 13818364434197438864469338081 2 13818364434197438864469338080 1" using reaches_trans [OF n3_root n3_one] by simp
  show "65865678001877903 dvd r - 1"
    using certified_power [of 13818364434197438864469338081 65865678001877903 1 209796131360 2 7935281130018080704632618576 12281824895882260584345986666 7052913809197938965814028629 r] one n3_root prime_n2 r by simp
qed simp_all

lemma field_root_1: "powers FIELD jub_D 1 jub_D
   [(False, 0, 28458340416),
    (False, 0, 809877139232939053056),
    (True, 0, 110647871832091612617571046730013776817900486656),
    (False, 559339167271502129, 18089916985391926617588994282914868009525576384878940856507571026626331393743),
    (False, 14950724845958036119605281689033913290708668783516351481754013620860197304436, 4251815900183497997134563785242669567851207190402608914211206986957178893037),
    (False, 825920040950921481475031273541069952152050320162123822340763742286741487815, 12261778964034824158548373362420668852820097176930303056265049105801200676514),
    (False, 6869040344772676120196249076509354237644346291718028251591140993686154094939, 17707551980455919664406810337904679410841198175720792137368864483221487809833),
    (True, 2416634308095882846536169627115132431344477356268201623115956747399133068648914075, 20855708285262599547484625736830331124053925399313019239324351573486873813469),
    (False, 19871881476588402873564574534484244638702471814726684236111370603981393220479, 9569275068697112741924441981734142356532402421930507427462157678110819673418),
    (False, 4183571329894211499064769883164158864419538396641959506550970073428661106473, 631778151234599334834551519629911110006662063199067404657733957735384973883),
    (False, 18235526474851661631824242546917970063626858369938120953636225042087518222, 10767645213821792110343704082937137461881128477939516891294596206237697464715),
    (False, 5297007353655916956575971882147966922626618809287731697713182877769399146027, 828751217511874122852468713936834025872914116103917029138643378127297567566),
    (False, 31378881555223683172027474496142284520189150671074184953377009969361342533, 3149708006999335318113482060781841109504066548824911084859617560018168986495),
    (True, 76460031920303812513889659316334526817511685962219837771187246269552007795406858, 18781714534612650612357414581276686221236199108715666246969343552915959436014),
    (True, 2718719215711266475569721381279824488754882511012932263973071988307369575729649353, 5766427022206266996402518135270615980540280211996908254253277509393434446615),
    (True, 256275734135084407684928086867961370433028949296533881942997680458172895159367140, 13996828949395492726444743640912505176783687061694675716097683384418128899220),
    (False, 8950522971886836412742122716378294432504463148889444841178771302712581349640, 12281598435032766723449582959471608006068969551692694387240526007989032080520),
    (True, 1162528671693415604234323882463249068468150396089971372070264350300288357608974605, 20746090933828595471371515953434182896075890480532333794660247100775395792115),
    (True, 3317160156899065775899318195839038685624160651559936428702661778195194166231870447, 5378102315146377473176581851038355367075453763371022111085632863284127033801),
    (False, 1321439307921583506395388867437612472309720591626937978889123552141615189381, 8711960681399433067278305723816771977321070580550100510579326258564433064524)]
   = Some (1183862, 8711960681399433067278305723816771977321070580550100510579326258564433064524)"
  by code_simp

lemma field_root_2: "powers FIELD jub_D 1183862 8711960681399433067278305723816771977321070580550100510579326258564433064524
   [(True, 584959366577165623140028370598637457197256035120970295971490068940651935574930196, 3536490627592536899381047352153806244345787297641445809612179566963031033964),
    (False, 571391958334886131488741352796955514109916565584288403731353351227752957245, 17336356061134532193808393697103519283827687599248189769412453805204550658131),
    (False, 13731081258473846339165493003355711499801225773141176740621029875683529345152, 13573449082753930581052797124687461636063229307436160837100480562778964214377),
    (True, 1419954153115848343261860455814337580799662954077502536664629068269424044115065996, 17066189553505402881834320841769259831507329533563646660618707927328448630252),
    (True, 2244745016477370694273354410941419604520979766641564818350033430152546773976459174, 21542498572356672054678365955817807281895429602475487937894725876503340350426),
    (False, 21202215612156744302843319760923195863582485756312273165614999164446326861534, 2071230024870849614545741390226877029386270283693859799618510513618873484998),
    (True, 33063631512542869485014848734324798314759728455959619692768820757824640934438173, 4838727739989587230666361908546586830496221922538582554150393067828670447043),
    (False, 1069674083883066555629143968299062097706343240515996625119267321324071540705, 1825090055505198112588163087036759561191647671349771865227042051816037853864),
    (True, 25672164297110536531455487633663741870569724076242338595189299303132505725667472, 2717145699532719367495264247042982273467880824158930828847854375620944282992),
    (True, 56900979156453102503677279679180715084588034146686056416563943441990607794747437, 21346106293264430745094259517341167314109176181351578804503483143596278824915),
    (True, 3511811699786996153226467959555248875174968881693675254843655796985462180621749557, 21448768087868712707925143119799257384889497933563268198850576158836938636931),
    (False, 21018117131689025905083931667026086844415223467913827922208615243250439586707, 11844879825585062952708559796718439122705830852747214408772577086219336135542),
    (False, 6409887669103814352365233185501036349264479849855055054192774671355439365492, 8685511535506935559715710614003417588658621611808976787251648732489052585200),
    (True, 581412934145989050821282972424213293911062860844024259322936873532089442733223196, 4636670166783609810051678335611838513799090643708439628768519369432763108068),
    (False, 982203567523490538085808045341122776919266931428337352132436942478762777463, 1077795883580164915654240015693080097435063055631758141615627908288864812953),
    (True, 8952965834100531351223493958955185654417433904056953959709268659210827192544951, 15543392521438704010771286087523735628809659007060343274730908110519415957697),
    (True, 1862025031743015256913202980860233524812361866551267991914073946410440433243841951, 11836039155431036326309726891658810782611864663009803261814701172399442174297),
    (True, 1079708878069453993749992004758096342632208127093237112139789474210813395909212255, 3541583787374268202234710939271819014697482137067133243962656827337038095129),
    (True, 96669378789111621001948462935532651683475206284794611996989092899761796840151983, 17484169087718921378023956058500087291207160013501746420409143712497660871625),
    (False, 13966227004966441335830866089554940770289748252569041826322979385797635480336, 12774883531113236331768641734020825819423470137335070501127259122539384453313)]
   = Some (1241369914974, 12774883531113236331768641734020825819423470137335070501127259122539384453313)"
  by code_simp

lemma field_root_3: "powers FIELD jub_D 1241369914974 12774883531113236331768641734020825819423470137335070501127259122539384453313
   [(False, 7455950218985972233255533480046723788689206587229636017053688671200151265228, 3684727686020750631537514768853291982063942037252894911239632505990034170293),
    (True, 104641674592338827133182897581067231626350512742800130686802308244772373254182097, 20098873256319738273266751148742110215118927384794011144743279690406137534055),
    (True, 3113417119486485500062417426356832557951809752561775338542206827739889155308067389, 20176900087991809601887006290467045995763619600612365400242706828687262211387),
    (False, 18599359461812959728339290416630375951214782089370137451807932277355516866719, 19169123024833774538379259828476421002725855118169728127031000237612587793146),
    (True, 2832033428313447393144946485901073613871831640928908670012181821842569185306509615, 7095964215405639873530582173206112484452845185646638121192609515551959042481),
    (True, 388075941188484171051219138563150726856777486121215551817389038180069757755483928, 12182619180269516273246663264753961955753522982495138640319486243293632915680),
    (False, 6780636114122176891024802879051261960232862853978378314057171585551415560207, 797094459145790378730960750834366987966919306429767820236636021140030749681),
    (False, 29027436351154241496186521089733765557250386916812346402597350569231990380, 18200239552782209190211354781147435272588962640278869622839167790444465437301),
    (True, 2552984008765471145424927300338439689412965270155209314040305014730501028866421571, 6818321762551283599262585737878450247361665736405667161840963795336891775989),
    (True, 358301701261461034685838148836599756367808739992241996443282184031971665206118045, 21329931215305216144430369258994116792341000268357807999993160565547579191451),
    (True, 3506491543913696819750346348260927617436982067825672231585629426402828868463424357, 17641846210146422208573312574903455157259688389191889537018816768851495663827),
    (True, 2398733220335555891701272343349427564762121089906069523300026648808388969027625621, 892725169441237167414202120585805199012590881585047224448971164078355675427),
    (False, 36410333749504716921726750927589754436365330783143459048214469944466858859, 2954631327588459465488699483584120999529011265774739267752878620907112511326),
    (False, 398837235728898462591211480923774045632948456651984156833041961507149301860, 304315188169785126060910512706992594381568717136135971663560989944058330656),
    (False, 4230935040928201979274411660406760577379212154009659171211877574627003663, 4345017398115790077158310365504537518250213412144616954663002301897050945265),
    (True, 145504667742597298108197812142678460709238654245323647674981047317631936549429273, 678957495248226721553286186253027042007419793652985393662921256406566280159),
    (True, 3552867898894106225166748709263916456161851123568999301447786604599728361829290, 3226441296972934885828908770160606376466255517348065441431796084053937421646),
    (False, 475594295246306603220416564041435336204603508859069168716983840736141082531, 18841121332103493858353286653773282149888988043253251855816720641773440582689),
    (True, 2735945101164120433746019973378927562693533647164119281173564691020719326933123444, 10685041692087339287048748709314165596647836613480514897925184006243630804868),
    (False, 5216047566272775173397658712313820995860641888579100354799127150550699527583, 21181403669304412624109418088710135082975849778052172177945820994069666393713)]
   = Some (1301670699964223258, 21181403669304412624109418088710135082975849778052172177945820994069666393713)"
  by code_simp

lemma field_root_4: "powers FIELD jub_D 1301670699964223258 21181403669304412624109418088710135082975849778052172177945820994069666393713
   [(True, 3457827787010281822028760969171160336012623725879972202959894460498574195858733330, 6629956895543216542193940392245000169205120012996983475511168078166397930214),
    (False, 2008216406138012798254840433472369054709570683916276029680338910752674446965, 16998528444819165518013724108612314247000379614127713504621394607229112633391),
    (False, 13201149630018050436298548469919505353752052345252613200273411472133778531647, 12861341862376422155449069518667282009199191130567314182314435833848472867682),
    (False, 7557213042154827862515933192903181389322157860853708232182377279533489073585, 12249130525689329222346412925259844246577476967429033698674651562430817076179),
    (False, 6854876360514640918842010867287950679666600597050602572672592642276632371971, 1712772400466876431346664604056462741689237155803454247842045659838422088934),
    (False, 134025801567440109270653001094338568712747642028336396634204398404939490411, 9540916250462130753106555131498122764589039033008130746225091422979698227769),
    (True, 701574916658748091528178099869778242085349183730709822344490398278699736948386134, 12620168296443152633427429646033080331355686351153369981276252770166245356578),
    (True, 1227507569782578308591288347279448863071517041482342460450760214707466082408809036, 20361617421995718387830820935738186244162445468505060886079185622666415695252),
    (True, 3195349979034996137725808605668418363577124513792733070469778835434326706618730050, 8190670799256805931701312909339008681664625329957684884056723210800776559934),
    (False, 3064982809931731041402649401889808732347461400068727150726278391574898178154, 8496794433090346906284070649949038844200262329294456962897715232922299933338),
    (False, 3298369634370221154595933374774682434230211592659680432593679389997524056830, 3002953579894164269216125324075972178792007079859378641151120969230129908134),
    (False, 411989681209226020171767713581637877297265930723922432224665560213023713920, 6563474015790548677529049244398276954160011016777720143719714426741897473316),
    (True, 332017845095976401025270259522319194857064658467072615759639585331586254388891092, 19037322352552666082183946105958302490892986365357042689484254040013348420012),
    (False, 16557731220228695856636776554182444844293026005344877638352241114046025890155, 17260273679220277893306462816999618778818462102809432218138392539232921129509),
    (False, 13610825191677446649214525527097826061187418885504159949838223733892173901843, 844441876092110335286950051874494990768033291651180185596013965781496858950),
    (True, 5495831512193451080937223787366098440280009394244566339596523557955014660854310, 11941604756177975346667975721932451752646627642902828895715792867547900780730),
    (False, 6515000997921107320027049325731945668216108720927684784091505707097365242684, 16088867131472840754849916646936466538913962140797843443746975986285384016872),
    (False, 11826058724303425025481977223002950487214387737286195225692955909246636775170, 10648733781991925753174874250511740684777344088719056844198545722532021234494),
    (True, 873956517959423950465401003971590750391402960014067158875495265129759238263487264, 8323885231438271366915028583027430777555991119072807219905726556345038207168),
    (False, 3165492349104857718245033550154335062815058172349623692593268366857373330228, 16117248246788416726513349955829826071334084381417493721177137530985654969548)]
   = Some (1364900655885685367519378, 16117248246788416726513349955829826071334084381417493721177137530985654969548)"
  by code_simp

lemma field_root_5: "powers FIELD jub_D 1364900655885685367519378 16117248246788416726513349955829826071334084381417493721177137530985654969548
   [(False, 11867818379464834055643870966685474722081361975049740867344764802083390882269, 2885055327967016261899782199169921048916298088633709353652562539181557809331),
    (False, 380274665909326050650645701298901986982969647398387843726288047756616478897, 6800402434729998477958774700285636695840460712114210055782491633358553173112),
    (False, 2112799713757729838553427035950695601037363278745189943678982676982040978575, 1984193181919001115868132453501309882621323451642454436407737191166561358769),
    (True, 30343228809178792431578057089681576471679798480056581180217189025051461084423956, 15382297298733508499792490133785492334902051915711867555820337207012528818404),
    (True, 1823628151145811947660784032875556146894202412792508498214976214541382129787066400, 8468238299314182534988155614727940504878098854465937761107496754287062941536),
    (False, 3276236485215208961309827505968531892780503246596415390454334473961940756169, 8583994504755921315817915993509181629305561976604518494861392733949651828023),
    (False, 3366417399931202734594550168159085965846448364487550380041608006066156921483, 7248232419730966238365793059132075845875888771035997684313753211647349448518),
    (False, 2400232559463752407619296706124349144571370143987589274683274745839041991141, 17839065638359124465039346148913373233085161905153350906176775523167281067327),
    (False, 14538958869974567768738496710800827973719754208910630517750825506773499406568, 5431506210827100919581339240544851047923800691281768008026399021497977912473),
    (False, 1347813065260197950624098924996685469105877568345783707589551501713142588296, 4048876722120537032926944084596060069885212995325376153474140076833497477097),
    (False, 748959284073952812634320131851903782938296274017133187737558162702932721253, 20724853409679792083201742110646564313783867964092136940647749314410106299308),
    (True, 3310372159040700116405662572914907938372202780065094298325362476043942806552053153, 3197220996533654237856686632659643398797775870522584023583404896828667710943),
    (False, 467018853935837969696205214083684356228018661986341527161315244261488844095, 15613382433885279341402910138412641496851402673048524105480963858541198117634),
    (False, 11137381490790845720718302431174505481770190089808850158645133138173227650918, 13840987485408850967581493941140466385517109477593453505973594506224492731550),
    (True, 1476481596063128566783231836734590808683363191628423913751888689415873951732323423, 12091574605495617004033195939972601888004162408240418733278943073252218203009),
    (True, 1126833126129993406418803269933219802583294146593644405561877703290477810034941406, 18764499654110951182520343944562299119853689031388716438271702331803394030874),
    (False, 16086556117400318415327841763451218927075950946902367616063717703362571927126, 20538242640722179616215290533188073270382627995697019616512550333595050797134),
    (False, 19271506316840003425618790421441129626129148104815268864763654027307770269017, 21745219443691784861624424804463638675408790667663610179013601994490667215467),
    (False, 21603130567537290613058256341670683208493069623860057613253054879728325291178, 18080959044254307785603961282185513963058765261343699518255672046121742261263),
    (False, 14935921621219217615931584948424192698297974265582666829863123705294088240588, 12346570190164373273064381434462444236937658003095609440700176628801910852373)]
   = Some (1431202070145988419931999404336, 12346570190164373273064381434462444236937658003095609440700176628801910852373)"
  by code_simp

lemma field_root_6: "powers FIELD jub_D 1431202070145988419931999404336 12346570190164373273064381434462444236937658003095609440700176628801910852373
   [(False, 6964368787079624425688952284705815357216137036332072443924487597833371206162, 21578341943463574581778482077278628661743168481929936569141914649925419339175),
    (False, 21272828694170678772641607460624039696199905691570784786202428123529644352657, 5880421906853991090323896804327575976695401825618706690510725460626702876256),
    (True, 266508374053080504943656813093696062898089599530602088310134856218851748858156879, 12113995279030211811254488278865503823105218751614943795637803731845666113713),
    (True, 1131015837076603905434620888022525773304276039395095425968979148686669094670075432, 5577001086637513956822641958467595264522421011226637656295230293446824483280),
    (False, 1420988486945751006295817689703852130109688068051192914636950286872639792318, 12839537459818196855761764608805696698445467836273505450758575298280106288194),
    (True, 1270552582957993294768763169013250730420853398750254344158050733898240353738932838, 15404890442142175256765136709748251917284321013921054234605524719111446495610),
    (True, 1828989086436050322818972695624061680991506498308901313876770547703290553874996674, 9189808629290470699403939843905404264669807608111587553929264438976387603742),
    (False, 3858353689579881090787854589403607403047235336036754187013285290591869665306, 907407999598960587445729857456697372012364085880143918678080305859654438762),
    (True, 6345985760953493625125818683288732579101103745119970145319674317678576253973736, 17992485525852017884508437292227579516141113202571179322399885848324007557112),
    (True, 2495032516920852579717824867815513126965445653404802344630678374660443254764572704, 14922017957257809170322766843608328001513329502491320992027764927436548812256),
    (True, 1716125334199351965537102734341235215359296903795968558523751440615861853025513869, 15654840005759312260264806116509028719197701064607642988583904016126466272883),
    (True, 1888822523522309172003142658469078977691515859780468297563663927175349328973949669, 19792584511791587425010502172871509148562036155735171363473120614185666306771),
    (True, 3019248797666365086364463323343274150569834845081340475882089066252104381721003612, 9394123404060182491324956028005615987088988286136886339162247878501849642332),
    (True, 680152670923916907808958729462092924634635536647515380319407420883688609645786715, 19235569095251411074468009515247424830644149999699556802046443795631480467749),
    (True, 2851700852103626084125850432775154489091698738122411998617957772792401133924280883, 1758850666829938757351773148594325040122859893474483694434882655561626170885),
    (True, 23842501659896106936595705597656001772029747020988945999574758386416528356546293, 8353632911214670913802510523526332653977638322232655940585946264142925226819),
    (True, 537829549733313389657226451168059021505043961332096065384988409366868039799840611, 16910143320397409383207107208420895305385959490438118826855476277023393443669),
    (True, 2203882634581324114116028511917253289022247776254576461878816392243635867671204232, 4578238353677104189198018646354754549333507110846864785176426515074440763312),
    (True, 161543945085564873362595270879044883549798959456412652143340521275936072847672064, 5258374875199266305724088062989823335968750642595579685477245943453598151936),
    (False, 1263258384422496114699937618117179767188336872041840095312323115417042227395, 11317035071958723671592036451462321908342954251628932812603854745676765720381)]
   = Some (1500724141905399953418616207401250814, 11317035071958723671592036451462321908342954251628932812603854745676765720381)"
  by code_simp

lemma field_root_7: "powers FIELD jub_D 1500724141905399953418616207401250814 11317035071958723671592036451462321908342954251628932812603854745676765720381
   [(False, 5851327745669407940541387839924211409964880871365079845581185302991767609689, 3243546806193115561040489024146997905846804339844498906357961148122755552048),
    (True, 81083824482084554872844497955073457444017316193196600534115601803133101354662050, 6589299389739653684266091411477134847367623221303205685460291072064049872734),
    (False, 1983661580413324099184898368702678969708025401084984640858748011672849744274, 11231661832801203697282310484563238071735032536484059169925350115546496787698),
    (False, 5763378461443527239010677762688650461192427869302502297442411067096207918911, 15047934445332660133898630407950807202338360727606184488620617664647649226117),
    (False, 10345295069909890346119890657306896138118198361169868737155418690020276800895, 10158437843884049269061388817503478072142531641253690150812199046673605720474),
    (False, 4714579422033990005491064231000120648809362128947273461710612675774109843145, 979126794118031665121503415560772257910165867025077868492027594662332789211),
    (False, 43799280032353526111070166514876874466724875043295821850597440450701146247, 18963132720041599437119708015387767359658891789934441356037140916680382503122),
    (False, 16428929661620434424561503127045574931104007328822350549496963868877540210782, 3671025146055988578206817165522041413812836298366297894873021436749836604390),
    (False, 615692438259342305386265035581152654085143889014729130857174701266382581384, 20574948711760268628374628911441568669479218945245275603156728976831257478172),
    (False, 19340452176552129198710080263364718962209259790966071143498698952741857716086, 4862296618418986270112174234454708744659955175884568554761613919529895066522),
    (False, 1080119977830914440150651070178775764594205259521736355347521341835711677091, 4276932047500090904712453985225069271003699457522225682722172082026012366337),
    (False, 835706540997286800887931063818116894892456991538581804639562121548313317115, 16878197843291323039716148816699831432488612317974771354763017168695082212614),
    (False, 13014912348391073140906125194293765892958712503220070088207341565384444884590, 4448985422095430568687321723694320513439327426295434771039651607954814870966),
    (False, 904296950738029047041993080730960375820307549515296168022319381649502751238, 8211012325335141284837675125742416032121678224127097932680385107363865449310),
    (False, 3080225480024574565660786211833515441408516520650862007921977421681140645360, 10990568412375244721541640583909271210469833895625458482021406516234068088980),
    (False, 5518606255164888508219142638046780312266499421836850614053024189126774508454, 13610079051573583603682964311170775413848200741010857745392950586266808994282),
    (False, 8462728272647168893270331901417413567104031924162020705611096904321714346392, 3437820180810647083074544436784750335219461170006598615711617439388356931660),
    (False, 539952323482046106928356455616306215716542826389076728896242877100271151419, 6878410205857799145318377592210166371624316936974146883050952953011105525077),
    (False, 2161549798084502240835364317192114855004027501999115909354267153211770610012, 8070522291905384141652932645107941126556661273122963688161942449331757538525),
    (False, 2975722192298050025223105163073600969874462634401168319980105882279455203037, 21117549508088182856828806210416443436399590144128222341344847689088599586796)]
   = Some (1573623317822596661555878908291973973803008, 21117549508088182856828806210416443436399590144128222341344847689088599586796)"
  by code_simp

lemma field_root_8: "powers FIELD jub_D 1573623317822596661555878908291973973803008 21117549508088182856828806210416443436399590144128222341344847689088599586796
   [(False, 20373992551055884463342316304676645005458049450974184564510412356185397271918, 19531639664936852512590995969509841417969380493771391238191099033822477362210),
    (False, 17428760738567146413633105225339372409382500081623946330384281057662261917081, 20060359897464997628472371127732769536562114263843487967956730794078530150123),
    (False, 18385123080553911490201653710342238412182223563139479992426149069029123228000, 21036681461381795686310784562039641679487796525315554538724019127150025239129),
    (False, 20218250021202254536760506062634951272342830765140486520391514591333931489703, 17423997229463165179500803366536688465707202331332478385851080011685476546890),
    (False, 13870262735568267452892107280664272825452083257896495040388150783749278273308, 7612770176512717669215447209563655862249042525481000814915447165255522581064),
    (False, 2647735137979650940511010458020119540823993901340971454038448772867601025486, 11839351797497056524314297507341114131210017446565269462903798552748315077234),
    (False, 6403906051555898035945385729921895375620389026341883376265625524418893762335, 8628371809922096213481441452747172684736205043524817401984135420265897905061),
    (False, 3401314601915432636948812297702850579802111181302900183306346942547295206037, 10773695627178756477529214517698955365256867124635911381564963813267542973892),
    (False, 5302961875319188310329127923876860667682101806356473130718869004884429899502, 6340651266326883583650198844777651311422430732872345418297662520034276144930)]
   = Some (805695138725169490716610001045490674587140096, 6340651266326883583650198844777651311422430732872345418297662520034276144930)"
  by code_simp

lemma field_root: "reaches FIELD jub_D 805695138725169490716610001045490674587140096 6340651266326883583650198844777651311422430732872345418297662520034276144930"
  by (rule reaches_steps [OF reaches_steps [OF reaches_steps [OF reaches_steps [OF reaches_steps [OF reaches_steps [OF reaches_steps [OF reaches_steps [OF reaches_start field_root_1] field_root_2] field_root_3] field_root_4] field_root_5] field_root_6] field_root_7] field_root_8])

lemma field_tail_1: "powers FIELD 6340651266326883583650198844777651311422430732872345418297662520034276144930 1 6340651266326883583650198844777651311422430732872345418297662520034276144930
   [(False, 1836778708851852702654993690611762721342820227866650672397625248433234610304, 18252985054412703786553032223748833776477761370136591382664661542898877667332),
    (True, 96514099996926914585488751981799310593367591979885795427992977534743145046904520595819164446297117927206461870776722682791874074123073117213595801410760, 20218206709256397922452500816516175803381854827227184077434329207387489965400),
    (True, 118415412897054454580085438608208400599886191337397560890867365328019049660387162531090821511666818342797529758096029981056349687038992501037045089645211, 4648467131207533335733383589400556189066866724363189504316720519374220259813),
    (False, 987207917804918247332379879160326524004665882384682489366474370910367766771, 2300720288292598859371191602462793184875809058547207539547974809891791052262),
    (False, 241833658186029646914309936960579772074679138316803879766125321977557207236, 5670317712608711216099741186184132084694670466529437754016563979448148632032),
    (True, 9314032643679806148163676049495052826181018661772115539052535872686384521835539441429239526724079127044098701889431800860823581928163477602688354050653, 21346032006892674886181961881046923825607751267332880728559704761454034560419),
    (False, 20817252673375414733882649451551111552902576748414801956621086196754503465031, 15546087208769508410690604100636738109693467416005912797416763937560685186434),
    (True, 70010820600098037182148159444065169532151003714931734451094908356671666193644432357923313384556092255687589817987309694235426521912705170262409844031456, 16256410585331122984978691670582709570447867685723174682808456860356106946728),
    (False, 12073645503032515812224446190344692625997551085143186394041650915997290486087, 12563179430859312474390465550703634940452755882534234806236431444036490925305),
    (False, 7210879298814346849406512040053873551076453311967328349225028735879423425167, 7223684945359340194875127713563971820499043059930530777462985456855442349986),
    (True, 15116128025233166632810891784568757489477361363489951544823476321769636419245090335581553776095721948866189102503874666330469586368950543377192535837567, 14017204590487780436182424127805422882874542120208266774805814149755786962441),
    (True, 56917496984627519537690257321587997356383858891632496150094331408454081936068792801199515685708999905242813270514685020918362888076659409951522153403131, 3970130886156393816687618439676889820882794219383546480245851946886960674503),
    (False, 720109848264328613000177883168804917443690303985918501035318715343660904683, 12329831296380545372334303434184614340662344685433204421393460069921254022598),
    (False, 6945497666822557435104830642118521794551595918524594845258934315890062483122, 1812872986561147902547460882902471060717223278335442335973567218386021193330),
    (True, 952045542667232977820454969853001317577879609957639410939231125298263066108307853873050302885187390557601476840134913148015666215455238937570569839455, 14233226530135397413502001083937539211822041734580058375397004638603975108265),
    (False, 9255413449326682858893448906485919330714008508006132779048275679821173140322, 18823300058679888075671331166566474713638832604374848884996740138820008341551),
    (False, 16187531688756565406679404819515525010124558415314037212189112390855393084208, 5261957785594323805830215379746894347180947656803909379349333992227193169265),
    (True, 8020800013736183703709135734311436331749964156290871120675216731337102991223678669262410908387335301857277779523609057651327223284988377972848176861824, 12847297873599322648890443842201685182481329390851023490687088991473569183842),
    (False, 7540717800849229242171993658664229422846721862950965016418822687082719199432, 3215517560370410061105343704694118327898660898888561040293035714195472991420),
    (False, 472379315305981806376173508524499433964579517733040330614036453034260706079, 13312745534390074575487737390490149387577683414320747472831059313558196860657)]
   = Some (1463076, 13312745534390074575487737390490149387577683414320747472831059313558196860657)"
  by code_simp

lemma field_tail_2: "powers FIELD 6340651266326883583650198844777651311422430732872345418297662520034276144930 1463076 13312745534390074575487737390490149387577683414320747472831059313558196860657
   [(False, 8097004163428777467208095928169785686818644994614025510635663878033109170707, 1750399552613138036361240853907748813914130254305675510381288525406160180430),
    (False, 139979193932016779091436806660803541866297385222416726087499238290272273661, 10971344565779214051587928390711588453644529132417377002340397658863611941063),
    (True, 34869255777270422468307616281855664978259654602668099091318571557187346940999758179054899891446770449158485566115168779243514109928056620222715389020421, 50782536654748243376988538783651462637306228008339876874481519448797612413),
    (True, 747053577977236497947915873312369945049504954601826400670990192565897383736156182222905202896503359642705789933081125643203346880521365684285736670, 2846247388688210954351642871678312480555389135012551119770940488849687549780),
    (True, 2346757741269486831938941362773817721887545611673553637415039992128811121493609851333993947658945007942173523586762494611777686313249708353134126523603, 16281606557229158088889340901408025907671794696269357526145260966795482063949),
    (True, 76792265560613807192422877827382902707724878481451232817231202937953424786665037002907178756695822184767226423125080553663424392408008494543782317241407, 17404007376149173110769364201814759383926272308144400754019348539546819509811),
    (True, 87744819751017911201589406099479793435538055030042842593339688162003074483953467676351577132695164688549642968056015519892506163899648768253297420307587, 8549051950837923593628566122532203835949964785242402499410823105676426298351),
    (False, 3339066076983101643735835844581071266418616163705106194265355748409465976678, 20902750676382241995327905363705416694447894798928402651845218149531278098875),
    (False, 19961629099114768065936733603871790750022430629697486158735886051359542766448, 5436923233296884904799847785011574845447112458427735294102713840837013607209),
    (True, 8563067566880585685624924297160515528327109871260561401425750649256850759876173113090417074106137251742223665098913695835010325493749496483458433383858, 745570228819316646540948590000251253108754542429317703972558436982314316944),
    (True, 161027512732268432951175056596390147124198871910407409432687488545254360343382539919791123619824358571009963302237306427511025087530795438774021832331, 8953713635504305543388624393232917609034198112463092682650637752546003387253),
    (True, 23223590738322568984172444875932678352989982767879415003043447301965981094567429027656246223525140280044163331774966416740917087672422875764693704396465, 11399827539409933466512917216998094558269066217150543744544029683988570490465),
    (True, 37646060101814265036328430298737304236341638021972346648867365907647816315268248180046741745054512564111473255845438406490571822055669438623191707201521, 6395214209155412070031565967209091891855093411999824874603415551137974255793),
    (True, 11847675769048877613220665880968251559893307319246400613205676561849416866679580609829746037062859397684811537285291260341201948733466590967325491793460, 6504144986172241342309708067036628057047434098024282191889634248111393720750),
    (True, 12254720096296939239094510761424360620938378097430405699885372754399831962794593708668992415379352036527628731957190024340097846234806469428695053430006, 18497587200390472543931152652911683451301141977083121982458020788212255841298),
    (False, 15632169938879044292273598373566349421849228418882225570668944659601897320711, 2189917407553438715527567599330340620945973306525219172879001209617875501117),
    (False, 219101107383800998778464448171876080900984521383585708529014918796890275125, 18505912874123766121197583553084475493313987264769318479064357639040381620564),
    (True, 99207383378868899843816778500035360277500186267225951208917945377706478062688162552245613416370085784884730139143749119142217765567550134730547389006730, 2682555466098442396304824782818279747919478004857038616023940141505893950870),
    (True, 2084588750279990763161867707354077430426613982390874645101463902351270924940611324796784509933041056806494614849774449017664035104919890213894751412054, 4614835348418222465579857855608132363047534668287113633659731226640767549682),
    (False, 972974642949069606449223644390228243029902679217161853659573656077690717103, 15906864953337550336293035938586284483882565252314146908670559140989975863573)]
   = Some (1534146635750, 15906864953337550336293035938586284483882565252314146908670559140989975863573)"
  by code_simp

lemma field_tail_3: "powers FIELD 6340651266326883583650198844777651311422430732872345418297662520034276144930 1534146635750 15906864953337550336293035938586284483882565252314146908670559140989975863573
   [(True, 73298005417836598747135978705428894782498470350873632459680894944582102042118638814329591955196437082309702389275343025908800492617927167902307029301803, 17921402821668433659302595504814299455082947894175400179429958532939243164519),
    (False, 14673479318420808844117330831633554037582700040575392752982569030094610830362, 2738969253649341650628367176641335372904780921410804091108217569846892978007),
    (True, 2173187923620028409742978839687325337429732245783250523745045137128700823821247162235872113621758502807585361063780193839290031050811769671582645308535, 17996349860731269556591920715825876260696879761835000736727960431206712470475),
    (True, 93819221279079685303493681001229851882950949823967583517999763459469722905363153579012644851461025001024914102562351162881756528011476088624544079149577, 4108202149059928164518331685222949768928392433400117214770074104846352927241),
    (True, 4889073650652925692755475804755835927133626571610563368738758456631118041603297461733249474697569973537727985614179562487802869665149983546297736465914, 13399249863808300215091074308380987119808327867189136099502558711306477800392),
    (True, 52009651089021956704179081278862671937227901600309659714056333715905016308735578406385946503389791306670248039428350333334095055401900529990459318511634, 12695715945748439510960004608964217158661197983293647099931165873198818015342),
    (False, 7363825608062027681166440170910821678206257562610934050023094251525739775924, 11118890218617790594054898192092256988750788678032935096374605164714631251856),
    (False, 5648224958830865663450542741543831870627389213361748754622749812040699983619, 985461038217488875341432682664957262154762181610885579939995419980770146813),
    (True, 281320827135811072110492093100679291635102680844074356493931835645333110298273838920707803321100846937287166792297325256047165011503696246597936839409, 20220786155138036034674708714124181356252395904720055605224973343277511146817),
    (False, 18680357081466528901871846983824078071338307561424917590707570633897668891968, 11916699188896514645502106318851564231236340569581230169957867214413154727233),
    (True, 41137218374261599042948531247213981593644634607191724029592703857818531999626164276251336747674379072517780954259133602009185282141594848297409675642677, 5968388722562920453942988171857454269926758708765813527239499622262784718061),
    (False, 1627433693613020065744473577910829269149463495897569986670706270646986396276, 19592536233525227316740887244117861778996199402378330751940260480051488477429),
    (True, 111199871659213311357821039227853132483639300142725152400807139925134925565404179048063246206290101307472407868825332974146398051080057540318802721536410, 19767731062276706664499307076034101122958388434766206919432154548186609527160),
    (True, 113197442964149498394664481229934034022924048134539366087438016779146027246929312721840344100044388202853008883584448228269182184447987882744932556546942, 17083345162195235939433960157725691529252297847032992343974168974895413654786),
    (True, 84541276350251661441724441923126460045134350631791046049520353319784144310433050208610865990713582978071204033451874715227539272362011224308895088334267, 10027344713928558765254138949984057946635899877481543770794605516919686606541),
    (True, 29126939854523227592123041404837010268137242937730543106772353722327610661373926889586131171250592948227792157190482287029173984682256077598900390528727, 12381528877648776838636756834812252361546265814254000970391737454704563727771),
    (False, 7003863135367729384535724995047692365012702521209598655372238381557080342353, 5776196784398585438155758764202696652647241655411254353464356955483536661640),
    (True, 9665112859580323893198206546533611453719884571801701938766569435484316802623793730155653771504141621544460709664002057242491894958260738096026223694999, 12036086852052928018973574557516430336432306867144654996723258241613031408617),
    (False, 6618502342028705523243771080552319363711770875109548539328374148960778679447, 18550486838529883058660141175472344239817442508452768581908632853678274368890),
    (False, 15721707948937514131901347433492819476641923503879161271280093584666909009846, 11108481481097854864408180029529616799612567275753707123028295476279498987118)]
   = Some (1608669342728964852, 11108481481097854864408180029529616799612567275753707123028295476279498987118)"
  by code_simp

lemma field_tail_4: "powers FIELD 6340651266326883583650198844777651311422430732872345418297662520034276144930 1608669342728964852 11108481481097854864408180029529616799612567275753707123028295476279498987118
   [(False, 5637654951949315253304410936718010336768380288464820122156128873631420075235, 17445936747796072812691853556557515364240604552570322489566413161549622200929),
    (False, 13905214355953731139184857429983023487480251486122721425583097786926576195540, 12282528951249385610098470544306108669569153742237043925252237261627423514861),
    (True, 43701723182376916649169778527009411998801081125354169285557498083817057602786380951036743203862056883308167837380789486902499719427434853146112746790181, 18673061651404095149542399097710590342575450897225471954994784144093440955853),
    (True, 101007595077596998281687711341799014407564673376676604116307255514851124629877173724364375875406918772435795312641571206266187142900238749242337308180563, 4313071085820297027138600251429865380854478293546655642129673707925860179999),
    (True, 5388851312510699701158888105141311541121523525597470234717385465184071974806524284929898594701026309335961843069669671357490237773845843384629201386132, 6091842779334471117763161799847303393196171745178179704259751425776454761486),
    (False, 1695455805448631880736963485205677271784876782435223908170423623542696001360, 17746536677812419001703160240813387150811477435337061498197810262818162889076),
    (False, 14388526566567514935143442264491867538449972728730132048523478948490313660273, 16951728923554837081633392464151402011292412723638474131024464088926132610335),
    (True, 83243621649337803282302512362941364042550791234881688212441459866950604190050310655502521265669415686787689670774073705412536590208163227848473222625508, 14502492471184123340735629833949234776466734631393452461809518221247005370814),
    (False, 9608916033517986059949349171920411004290189500318898387045098075708583661216, 12428877360257676016322357089376604562544731258950389898402677564390694132324),
    (True, 44749354411172582573343253303029715981484270698402914697582129647860852562840035258770664839789726499211332337932601556257001862667989338931093255761878, 6078720174455122363874276274915718135384143241756149587451760955417443962954),
    (False, 1688159217516153403595025939145644084456042042940031053612488594768133247925, 19096799702746874727018242435946613985976300425130239477406827877646187561391),
    (False, 16661353815478213747149212664356154652359744305483176268426914370319087584029, 18958104032246400294615848398746751583267691631999068417186554896645828153988),
    (True, 104114872841010701569959592591726399971945882489156860694857614678976370103817848440863417365078481532029964752094136250203633476345920297303634140633965, 13068492991685521755261568160635853015906874837951054630964680119337719758515),
    (False, 7802613945473935802067107809054737308841965474031607356251741857818180993710, 6983975510268443985406216532165545167601712906738745349780383901852675436155),
    (True, 14129551751817818941350281188687015802702166221867104854544529026332879274075912063836904099671047631028515265849829086644260389032910516161064650582405, 2023003620270591465796993114803669697995934409090855890161617877662960924365),
    (False, 186974517396883299144902957970597111600917798005153212844054532130695121940, 21333926023833690363753102303210155759562692750224462582000144812143480116245),
    (True, 131845265301183201983322252709378608391309028182412777046890220946600160701919119377327853235949424811796862728560958027198867430210390637052053321880574, 7328971334692029616004465818506075024689050464260107005028719452333224179092),
    (False, 2454003326774301389053629316715035746480899976098694873828857247054229910036, 15551837109316278602246689872707307747187536853748039974299708689262879632252),
    (False, 11049751178788129507463403619428399753779846102807013225989016572849398308118, 13879385074866739982509257990554249234421952897739401298205267459896140072698),
    (True, 55803754459232076817190722615195740353271660184147136926564957920424358228776452268342841751425939636384726959466318111097913469739380411928380295724419, 9727755865350820937563414676223266759864134783477021157824488158188837264197)]
   = Some (1686812064721367048885417, 9727755865350820937563414676223266759864134783477021157824488158188837264197)"
  by code_simp

lemma field_tail_5: "powers FIELD 6340651266326883583650198844777651311422430732872345418297662520034276144930 1686812064721367048885417 9727755865350820937563414676223266759864134783477021157824488158188837264197
   [(False, 4323290577957461135043097496012509429996944837161654525698473154157660685390, 16835162020446291908489575230269125286931547613778535806436699971046547119179),
    (False, 12948626434482777913931480680944789315266723569086901026850513592581515722576, 2176469517547170181847932399459633160527558872300732157821799127744745684649),
    (True, 1372233908986865343527645618859375615094268866584557091788287698222953585892583109512079866895220524196556097789742606053073781623613274447861131927954, 8262553657726587593759674499327009396376792602273059422761931269581823643312),
    (True, 19776596579024380221042649972786518572059826566205896641279536650088879187372846166488675678399107165902158230986193914594904160045527886371889766762738, 14175300085864975255516373430986683640657952638504256695879101907298583906574),
    (True, 58208645278428237553264709073713237010243387209975071675139159504852990980526272727167337938079889014820416882022353797728740875104513607442318490086856, 1327925372966968070558829534073786812993190875751459153408623926805655486528),
    (True, 510822839776228713349926903838179942219714150572867835166589577792907405602043639374770971783964368526612138893650131289463448443394564011601815546192, 3078426059399600875551302435266058383801349030883237640550409122167170004656),
    (True, 2745240657837226624615156633943951838615001335073949173652557474289699250476357352488485301197946773714826625893416165109416984151829529422278465942773, 4420006858368778472266638109221161340040070200113058204161929241803033910539),
    (True, 5659379994362964150406827442116425540856941270901553513303806002821102987095932140394075430624669055191854682461983607758047546886012971816026877642550, 20964328250320243201823643212058555148969893664397061828108858133839184905180),
    (False, 20079412566854612194567058740861081078476590740411266510816428561004369649476, 7290123245445374947487263733726869552752847321549235839410857997816418485708),
    (False, 2428056799486579428224833801295965715781722217551656092178738660315677267350, 10516294077050392218839783119902585399658236072778776786283924824454788056314),
    (False, 5052595668028241624394588345970308591134933377437090234350018217367729086837, 3965985430292298654337400563798600899916462486896507113734166780639908373167),
    (False, 718606812131424124892127813636061234148299241979819466325000285053903094697, 10326644331098388046055028594938684417847569102503252636808398215656265166840),
    (True, 30891671471423845765471319556100334377717446911574203345335356871293794655844934674631263068714666307410019020055150858283049580507181599701036445708756, 5221004622450802187063610261789145424455743949485571261789791631385336485548)]
   = Some (13818364434197438864469338081, 5221004622450802187063610261789145424455743949485571261789791631385336485548)"
  by code_simp

lemma field_tail: "reaches FIELD 6340651266326883583650198844777651311422430732872345418297662520034276144930 13818364434197438864469338081 5221004622450802187063610261789145424455743949485571261789791631385336485548"
  by (rule reaches_steps [OF reaches_steps [OF reaches_steps [OF reaches_steps [OF reaches_steps [OF reaches_start field_tail_1] field_tail_2] field_tail_3] field_tail_4] field_tail_5])

lemma field_part3_steps: "powers FIELD 6340651266326883583650198844777651311422430732872345418297662520034276144930 1 6340651266326883583650198844777651311422430732872345418297662520034276144930
   [(True, 11646373246243758052256786127839244130259519721697678018780379770380988284567341851315449495642282075019678984067897005042385561453739912466139454559937, 2328221933132510421924562739916549693541294338367606635181123711414352860871),
    (True, 1570260554586219594419119414132673420470339553256835194049786342513262115729000357986040361182874393248789128336299766281174557238152806679587807456862, 12586289114287072475685371288316637365330930321839846953805261797393673866276),
    (True, 45890033616756504710440579610347608467936779976785157700098732100206966854597243761134628261981360318023974169390714941097352499372594898350471335960880, 10826905716730530213851960453665194411480635048062942512608101044625190484720),
    (False, 5355472711324225538041429560190174318690086210889757258912769651146555131472, 13486686848644375120880394519438727833025821559412649557976686307584582720176),
    (True, 52690645133459100424056268692984777377631917757736887104474676606003372612354557275615025585530488686279678854769717236234957143553365967977665308551396, 17658759372772046055732060355128492502754094805746972747520354193744159320348),
    (False, 14246542511946335726319606628435252174859204700711147793095310026469462869465, 9906312226612936507803481061577549419036737966055347305364687242115591206199),
    (True, 28428044897073932916518285597367337984224019669327883668571139622726139212757080966835249389188114202353801923440154986722387867615660183475405770636862, 1936423714309623701729665240284860698722713266027151085490312821934130579076),
    (True, 1086234904145844313144824087324570989476118159759462802787787290517518315933586485921519167457281311004314935827540168862530864736528364820463944442812, 8173628761810226986490997084043353787548951021682377982263314086231933400676),
    (True, 19353200056191746051534993368455442566271221097715060274968151047999646604234055364871261680729161069084937750506946911510349876308330882421268570455713, 21125924940061859183839065424782156831595158134501594592802845958259976421759),
    (False, 20390156815526259661827080909653678988953008676774775556862659630933771811621, 10451551883854267012239209469739607219014087609282307477543310799564720488924)]
   = Some (1966, 10451551883854267012239209469739607219014087609282307477543310799564720488924)"
  by code_simp

lemma field_part3: "reaches FIELD 6340651266326883583650198844777651311422430732872345418297662520034276144930 1966 10451551883854267012239209469739607219014087609282307477543310799564720488924"
  by (rule reaches_steps [OF reaches_start field_part3_steps])

lemma field_half_steps: "powers FIELD 5221004622450802187063610261789145424455743949485571261789791631385336485548 1 5221004622450802187063610261789145424455743949485571261789791631385336485548
   [(True, 6502065410302619044422221802012171868333878032373399177949832368974114481495293347450742590466139811720848526542385299169038484609232473654444718408266, 20519811238470954270050075500166376848108664493521694825314025902746161316470),
    (True, 100436114122854298835944994721809612108159454180134092298452953962543341659266581583022526001246447222816622125358994687673770378098968130961776636813522, 11117917959269014847399790942581004413603958841752757327489746693944860140126),
    (True, 29484251611278367193160116808554890014489779074174560326553921150672606569510807709336129007246414877047519564640885603735489631169162027235862786323100, 11212980849755471824356546711061947632801986968223090964624891160405642147348),
    (False, 5744222607231045252284388998150487464358908943441658633204331477588702516095, 13117061184588195270701579670746547721007838980226665201099918927491863977489),
    (True, 41040842482785099674334187269341405834790578276537593905391065490967800730436864901348584035741677957097454104870134177005148672305918960631708155706146, 7113724617802228729147785601149855633026295903368704159807612356439771049226),
    (False, 2311975348328776390035752793401503684771272639812536147170023375193535610191, 7783176508084165254319953026348491370078198234743280116067293195939071166229),
    (True, 14449637027914288942712844554932975379376060777903606436120079071874854340186140442233236027616684360297021988364781806704931606486008859881215595790009, 15921203061502126810913766034781316446958914547456481121683201449555505076115),
    (True, 60463730886400527397469084993529929709199692497698345463035420108961623202272791916921999736246376069296919922680179545933397393622528558427652225355219, 6553772951878177729707611463097041156442754950327909239814520111532018837177),
    (True, 10245330248713074220141374519545082398516244726972545140287008866377578576783477675586038535487943281198797405733324946084131879562190666095479023573228, 21888242871839275222246405745257275088548364400416034343698204186575808495616)]
   = Some (983, 21888242871839275222246405745257275088548364400416034343698204186575808495616)"
  by code_simp

lemma field_half: "reaches FIELD 5221004622450802187063610261789145424455743949485571261789791631385336485548 983 21888242871839275222246405745257275088548364400416034343698204186575808495616"
  by (rule reaches_steps [OF reaches_start field_half_steps])

lemma field_part2_steps: "powers FIELD 5221004622450802187063610261789145424455743949485571261789791631385336485548 1 5221004622450802187063610261789145424455743949485571261789791631385336485548
   [(False, 1245366721634977514986949118884258136264486066386058863642736864452698636043, 15711711877295265056320577958607268930501513207745234114200782996696369136773)]
   = Some (2, 15711711877295265056320577958607268930501513207745234114200782996696369136773)"
  by code_simp

lemma field_part2: "reaches FIELD 5221004622450802187063610261789145424455743949485571261789791631385336485548 2 15711711877295265056320577958607268930501513207745234114200782996696369136773"
  by (rule reaches_steps [OF reaches_start field_part2_steps])

lemma tail_power: "reaches FIELD jub_D 11133389049765653724438660094230557013503745880170922860477214743934795776 5221004622450802187063610261789145424455743949485571261789791631385336485548"
  using reaches_trans [OF field_root field_tail] by simp

lemma half_power: "reaches FIELD jub_D 10944121435919637611123202872628637544274182200208017171849102093287904247808 21888242871839275222246405745257275088548364400416034343698204186575808495616"
  using reaches_trans [OF tail_power field_half] by simp

lemma power_983: "reaches FIELD jub_D 22266778099531307448877320188461114027007491760341845720954429487869591552 15711711877295265056320577958607268930501513207745234114200782996696369136773"
  using reaches_trans [OF tail_power field_part2] by simp

lemma power_n3: "reaches FIELD jub_D 1583996642733683218748855262055434666238317428736 10451551883854267012239209469739607219014087609282307477543310799564720488924"
  using reaches_trans [OF field_root field_part3] by simp

lemma full_power: "reaches FIELD jub_D 21888242871839275222246405745257275088548364400416034343698204186575808495616 1"
proof -
  have "reaches FIELD jub_D 21888242871839275222246405745257275088548364400416034343698204186575808495616 (21888242871839275222246405745257275088548364400416034343698204186575808495616 * 21888242871839275222246405745257275088548364400416034343698204186575808495616)" using reaches_square(1) [OF half_power] by simp
  then show ?thesis by (rule reaches_cong) (simp add: FIELD_def)
qed

lemma prime_FIELD: "is_prime 21888242871839275222246405745257275088548364400416034343698204186575808495617"
proof (rule pocklington [where f = "268435456 * 983 * 13818364434197438864469338081"])
  fix r :: nat assume r: "is_prime r" "r dvd 21888242871839275222246405745257275088548364400416034343698204186575808495617"
  note defs = FIELD_def jub_D_def
  have p2: "268435456 dvd r - 1"
    using certified_power [of 21888242871839275222246405745257275088548364400416034343698204186575808495617 2 28 81540058820840996586704275553141814055101440848469862132140264610111 168696 21888242871839275222246405745257275088548364400416034343698204186575808495616 10944121435919637611123202872628637544274182200208017171849102093287904247808 10944121435919637611123202872628637544274182200208017171849102093287904247807 r]
      full_power half_power small_primes r by (simp add: defs)
  have p983: "983 dvd r - 1"
    using certified_power [of 21888242871839275222246405745257275088548364400416034343698204186575808495617 983 1 22266778099531307448877320188461114027007491760341845720954429487869591552 168696 15711711877295265056320577958607268930501513207745234114200782996696369136773 11421072231294338847879593625521578165518447173299408320808113570089741191902 8198218435283453991577820233170845031813334807286574254177307611110434869879 r]
      full_power power_983 small_primes r by (simp add: defs)
  have pn: "13818364434197438864469338081 dvd r - 1"
    using certified_power [of 21888242871839275222246405745257275088548364400416034343698204186575808495617 13818364434197438864469338081 1 1583996642733683218748855262055434666238317428736 168696 10451551883854267012239209469739607219014087609282307477543310799564720488924 14634220580852594468551071306966676679341860351585889146745916307673451756115 6987784107482190103639672416503606477195776643026366986556940807039992543232 r]
      full_power power_n3 prime_n3 r by (simp add: defs)
  have "coprime (268435456::nat) 983" using prime_coprime [OF small_primes(2), of 268435456] by (simp add: coprime_commute)
  with p2 p983 have "268435456 * 983 dvd r - 1" by (simp only: divides_mult)
  moreover have "coprime (268435456 * 983 :: nat) 13818364434197438864469338081"
    using prime_coprime [OF prime_n3, of "268435456 * 983"] by (simp add: coprime_commute)
  ultimately show "268435456 * 983 * 13818364434197438864469338081 dvd r - 1" using pn by (simp only: divides_mult)
qed simp_all

end
