(* ===== verification/Jub_Group.thy ===== *)
theory Jub_Group
  imports Jub_Prime
begin

text \<open>
  The group of the BabyJubjub curve. The residues modulo \<open>FIELD\<close> are a field (\<open>fp\<close>), in which the addition
  of points never divides by zero, because \<open>jub_A\<close> is a square and \<open>jub_D\<close> is none. The locale
  \<open>point_group\<close> is what the double-and-add loop needs of an addition; it is interpreted on \<open>jub_add\<close>.
\<close>

section \<open>The field of residues\<close>

lemma FIELD_pos [simp]: "0 < FIELD" "1 < FIELD" "FIELD \<noteq> 0" "FIELD \<noteq> 1" "0 \<le> FIELD" "\<not> FIELD \<le> 0" "\<not> FIELD \<le> 1"
  by (simp_all add: FIELD_def)

lemma field_fermat: "\<not> FIELD dvd x \<Longrightarrow> x ^ nat (FIELD - 1) mod FIELD = 1"
proof -
  assume x: "\<not> FIELD dvd x"
  define p :: nat where "p = nat FIELD"
  have F: "FIELD = int p" by (simp add: p_def)
  have p: "is_prime p" using prime_FIELD by (simp add: p_def FIELD_def)
  define a where "a = nat (x mod FIELD)"
  have a: "int a = x mod FIELD" by (simp add: a_def)
  have "\<not> int p dvd int a" using x by (simp add: a F [symmetric] dvd_mod_iff)
  then have "a ^ (p - 1) mod p = 1" using fermat [OF p] by simp
  then have "int (a ^ (p - 1) mod p) = 1" by simp
  then have "int a ^ (p - 1) mod FIELD = 1" by (simp add: zmod_int F)
  moreover have "nat (FIELD - 1) = p - 1" by (simp add: p_def nat_diff_distrib)
  ultimately show ?thesis unfolding a by (simp only: power_mod)
qed

typedef fp = "{0..<FIELD}"
  morphisms fp_val Abs_fp
  by (auto intro: exI [of _ 0])

setup_lifting type_definition_fp

instantiation fp :: comm_ring_1
begin

lift_definition zero_fp :: fp is 0 by simp

lift_definition one_fp :: fp is 1 by simp

lift_definition plus_fp :: "fp \<Rightarrow> fp \<Rightarrow> fp" is "\<lambda>a b. (a + b) mod FIELD" by simp

lift_definition minus_fp :: "fp \<Rightarrow> fp \<Rightarrow> fp" is "\<lambda>a b. (a - b) mod FIELD" by simp

lift_definition uminus_fp :: "fp \<Rightarrow> fp" is "\<lambda>a. (- a) mod FIELD" by simp

lift_definition times_fp :: "fp \<Rightarrow> fp \<Rightarrow> fp" is "\<lambda>a b. (a * b) mod FIELD" by simp

instance
  by standard (transfer; simp add: mod_simps algebra_simps)+

end

lift_definition fp_of :: "int \<Rightarrow> fp" is "\<lambda>a. a mod FIELD" by simp

lemma fp_of_simps:
  "fp_of 0 = 0" "fp_of 1 = 1" "fp_of (a + b) = fp_of a + fp_of b" "fp_of (a - b) = fp_of a - fp_of b"
  "fp_of (a * b) = fp_of a * fp_of b" "fp_of (a mod FIELD) = fp_of a"
  by (transfer; simp add: mod_simps)+

lemma fp_of_power: "fp_of (a ^ n) = fp_of a ^ n"
  by (induction n) (simp_all add: fp_of_simps)

lemma fp_of_eq: "fp_of a = fp_of b \<longleftrightarrow> a mod FIELD = b mod FIELD"
  by transfer simp

lemma fp_of_surj: "\<exists>a. x = fp_of a"
  by transfer (metis mod_pos_pos_trivial atLeastLessThan_iff)

lemma fp_of_zero: "fp_of a = 0 \<longleftrightarrow> FIELD dvd a"
  by transfer (simp add: dvd_eq_mod_eq_0)

lemma fp_fermat: "x \<noteq> 0 \<Longrightarrow> x ^ nat (FIELD - 1) = (1 :: fp)"
proof -
  assume x: "x \<noteq> 0"
  obtain a where a: "x = fp_of a" using fp_of_surj by blast
  then have "a ^ nat (FIELD - 1) mod FIELD = 1" using x by (simp add: field_fermat fp_of_zero)
  then show ?thesis unfolding a fp_of_power [symmetric] fp_of_simps(2) [symmetric] fp_of_eq by simp
qed

instantiation fp :: field
begin

definition inverse_fp :: "fp \<Rightarrow> fp" where
  "inverse_fp x = x ^ nat (FIELD - 2)"

definition divide_fp :: "fp \<Rightarrow> fp \<Rightarrow> fp" where
  "divide_fp x y = x * inverse (y :: fp)"

instance
proof
  fix x y :: fp
  show "x \<noteq> 0 \<Longrightarrow> inverse x * x = 1"
  proof -
    assume "x \<noteq> 0"
    moreover have "nat (FIELD - 1) = Suc (nat (FIELD - 2))" by (simp add: FIELD_def)
    ultimately show ?thesis using fp_fermat [of x] by (simp add: inverse_fp_def mult.commute)
  qed
  show "x div y = x * inverse y" by (simp add: divide_fp_def)
  show "inverse (0 :: fp) = 0" by (simp add: inverse_fp_def FIELD_def)
qed

end

section \<open>The addition law\<close>

text \<open>The constants of the curve: the first is a square, the second is none.\<close>

lemma fp_two: "(1 :: fp) + 1 \<noteq> 0" "(1 :: fp) \<noteq> - 1"
proof -
  have "fp_of 2 \<noteq> 0" by (simp add: fp_of_zero FIELD_def)
  then show two: "(1 :: fp) + 1 \<noteq> 0" using fp_of_simps(3) [of 1 1] by (simp add: fp_of_simps(2))
  then show "(1 :: fp) \<noteq> - 1" by (metis add.left_inverse)
qed

definition root_A :: int where
  "root_A = 7214280148105020021932206872019688659210616427216992810330019057549499971851"

lemma jub_A_square: "fp_of jub_A = fp_of root_A * fp_of root_A" "fp_of root_A \<noteq> 0"
  unfolding fp_of_simps(5) [symmetric] fp_of_eq fp_of_zero by (simp_all add: jub_A_def root_A_def FIELD_def)

lemma jub_D_not_square: "fp_of jub_D \<noteq> z * z"
proof
  assume z: "fp_of jub_D = z * z"
  define h where "h = nat 10944121435919637611123202872628637544274182200208017171849102093287904247808"
  have "jub_D ^ h mod FIELD = (0 - 1) mod FIELD" using half_power by (simp add: reaches_def FIELD_def h_def)
  then have "fp_of jub_D ^ h = fp_of (0 - 1)" unfolding fp_of_power [symmetric] fp_of_eq .
  then have "z ^ (2 * h) = - 1" by (simp add: z fp_of_simps(1,2,4) power_mult power2_eq_square del: diff_0)
  moreover have "2 * h = nat (FIELD - 1)" by (simp add: FIELD_def h_def)
  moreover have "z \<noteq> 0"
  proof
    assume "z = 0"
    with z have "FIELD dvd jub_D" by (simp add: fp_of_zero [symmetric])
    then show False by (simp add: FIELD_def jub_D_def)
  qed
  ultimately show False using fp_fermat [of z] fp_two by simp
qed

type_synonym fp_point = "fp \<times> fp"

definition fp_A :: fp where "fp_A = fp_of jub_A"

definition fp_D :: fp where "fp_D = fp_of jub_D"

fun on_curve :: "fp_point \<Rightarrow> bool" where
  "on_curve (x, y) \<longleftrightarrow> fp_A * x^2 + y^2 = 1 + fp_D * x^2 * y^2"

fun fp_add :: "fp_point \<Rightarrow> fp_point \<Rightarrow> fp_point" where
  "fp_add (x1, y1) (x2, y2) =
     ((x1 * y2 + y1 * x2) / (1 + fp_D * (x1 * x2 * y1 * y2)),
      (y1 * y2 - fp_A * x1 * x2) / (1 - fp_D * (x1 * x2 * y1 * y2)))"

lemma unified_addition_defined:
  assumes p: "on_curve (x1, y1)" and q: "on_curve (x2, y2)" and e: "e * e = 1"
  shows "fp_D * (x1 * x2 * y1 * y2) \<noteq> e"
proof
  assume k: "fp_D * (x1 * x2 * y1 * y2) = e"
  obtain s where s: "fp_A = s * s" "s \<noteq> 0" using jub_A_square by (auto simp: fp_A_def)
  have nz: "x1 \<noteq> 0" "x2 \<noteq> 0" "y1 \<noteq> 0" "y2 \<noteq> 0" using k e by auto
  have d: "fp_D \<noteq> z * z" for z using jub_D_not_square by (simp add: fp_D_def)
  have plus: "(s * x1 + e * y1)^2 = fp_D * (x1 * y1)^2 * (s * x2 + y2)^2"
    using p q k e unfolding on_curve.simps s(1) by algebra
  have minus: "(s * x1 - e * y1)^2 = fp_D * (x1 * y1)^2 * (s * x2 - y2)^2"
    using p q k e unfolding on_curve.simps s(1) by algebra
  have root: "v = 0" if "u^2 = fp_D * w^2 * v^2" "w \<noteq> 0" for u v w :: fp
  proof (rule ccontr)
    assume "v \<noteq> 0"
    with that have "fp_D = (u / (w * v)) * (u / (w * v))" by (simp add: field_simps power2_eq_square)
    with d show False by blast
  qed
  have "s * x2 + y2 = 0" "s * x2 - y2 = 0" using root [OF plus] root [OF minus] nz by simp_all
  then have "(1 + 1) * (s * x2) = 0" by algebra
  then show False using fp_two(1) s(2) nz(2) by simp
qed

lemma denominators:
  assumes "on_curve (x1, y1)" "on_curve (x2, y2)"
  shows "1 + fp_D * (x1 * x2 * y1 * y2) \<noteq> 0" "1 - fp_D * (x1 * x2 * y1 * y2) \<noteq> 0"
  using unified_addition_defined [OF assms, of "- 1"] unified_addition_defined [OF assms, of 1]
  by (auto simp: add_eq_0_iff)

lemma on_curve_zero: "on_curve (0, 1)"
  by simp

lemma fp_add_zero: "fp_add p (0, 1) = p"
  by (cases p) simp

lemma fp_add_commute: "fp_add p q = fp_add q p"
  by (cases p; cases q) (simp add: ac_simps)

text \<open>Sums as fractions: cleared of denominators, closure and associativity are polynomial identities.\<close>

lemma curve_closed_poly:
  fixes a d x1 y1 x2 y2 :: "'a::field"
  assumes "a * x1^2 + y1^2 = 1 + d * x1^2 * y1^2" "a * x2^2 + y2^2 = 1 + d * x2^2 * y2^2"
    and k: "k = x1 * x2 * y1 * y2" and nx: "nx = x1 * y2 + y1 * x2" and ny: "ny = y1 * y2 - a * x1 * x2"
  shows "a * nx^2 * (1 - d * k)^2 + ny^2 * (1 + d * k)^2 = (1 + d * k)^2 * (1 - d * k)^2 + d * nx^2 * ny^2"
  using assms(1,2) unfolding k nx ny by algebra

lemma on_curve_fraction:
  assumes "u \<noteq> 0" "v \<noteq> 0"
  shows "on_curve (x / u, y / v) \<longleftrightarrow> fp_A * x^2 * v^2 + y^2 * u^2 = u^2 * v^2 + fp_D * x^2 * y^2"
  using assms by (simp add: power_divide field_simps)

lemma on_curve_add: "on_curve p \<Longrightarrow> on_curve q \<Longrightarrow> on_curve (fp_add p q)"
proof -
  assume pq: "on_curve p" "on_curve q"
  obtain x1 y1 x2 y2 where xy: "p = (x1, y1)" "q = (x2, y2)" by (metis surj_pair)
  note c = pq [unfolded xy]
  note poly = curve_closed_poly [OF c [unfolded on_curve.simps] refl refl refl]
  show ?thesis unfolding xy fp_add.simps on_curve_fraction [OF denominators [OF c]] using poly by (simp only: mult.assoc)
qed

lemma curve_assoc_poly_x:
  fixes a d x1 y1 x2 y2 x3 y3 :: "'a::field"
  assumes "a * x1^2 + y1^2 = 1 + d * x1^2 * y1^2" "a * x2^2 + y2^2 = 1 + d * x2^2 * y2^2"
    "a * x3^2 + y3^2 = 1 + d * x3^2 * y3^2"
    and k: "k = x1 * x2 * y1 * y2" and l: "l = x2 * x3 * y2 * y3"
    and n: "nx = x1 * y2 + y1 * x2" "ny = y1 * y2 - a * x1 * x2"
    and m: "mx = x2 * y3 + y2 * x3" "my = y2 * y3 - a * x2 * x3"
  shows "(nx * y3 * (1 - d * k) + ny * x3 * (1 + d * k)) * ((1 + d * l) * (1 - d * l) + d * (x1 * mx * y1 * my)) =
    (x1 * my * (1 + d * l) + y1 * mx * (1 - d * l)) * ((1 + d * k) * (1 - d * k) + d * (nx * x3 * ny * y3))"
  using assms(1,2,3) unfolding k l n m by algebra

lemma curve_assoc_poly_y:
  fixes a d x1 y1 x2 y2 x3 y3 :: "'a::field"
  assumes "a * x1^2 + y1^2 = 1 + d * x1^2 * y1^2" "a * x2^2 + y2^2 = 1 + d * x2^2 * y2^2"
    "a * x3^2 + y3^2 = 1 + d * x3^2 * y3^2"
    and k: "k = x1 * x2 * y1 * y2" and l: "l = x2 * x3 * y2 * y3"
    and n: "nx = x1 * y2 + y1 * x2" "ny = y1 * y2 - a * x1 * x2"
    and m: "mx = x2 * y3 + y2 * x3" "my = y2 * y3 - a * x2 * x3"
  shows "(ny * y3 * (1 + d * k) - a * nx * x3 * (1 - d * k)) * ((1 + d * l) * (1 - d * l) - d * (x1 * mx * y1 * my)) =
    (y1 * my * (1 + d * l) - a * x1 * mx * (1 - d * l)) * ((1 + d * k) * (1 - d * k) - d * (nx * x3 * ny * y3))"
  using assms(1,2,3) unfolding k l n m by algebra

lemma fp_add_fraction_left:
  assumes "u \<noteq> 0" "v \<noteq> 0" and c: "on_curve (nx / u, ny / v)" "on_curve (x3, y3)"
  shows "fp_add (nx / u, ny / v) (x3, y3) =
    ((nx * y3 * v + ny * x3 * u) / (u * v + fp_D * (nx * x3 * ny * y3)),
     (ny * y3 * u - fp_A * nx * x3 * v) / (u * v - fp_D * (nx * x3 * ny * y3)))"
    "u * v + fp_D * (nx * x3 * ny * y3) \<noteq> 0" "u * v - fp_D * (nx * x3 * ny * y3) \<noteq> 0"
proof -
  have k: "nx / u * x3 * (ny / v) * y3 = nx * x3 * ny * y3 / (u * v)" by simp
  have den: "1 + fp_D * (nx / u * x3 * (ny / v) * y3) = (u * v + fp_D * (nx * x3 * ny * y3)) / (u * v)"
    "1 - fp_D * (nx / u * x3 * (ny / v) * y3) = (u * v - fp_D * (nx * x3 * ny * y3)) / (u * v)"
    unfolding k using assms(1,2) by (simp_all add: add_divide_distrib diff_divide_distrib)
  have num: "nx / u * y3 + ny / v * x3 = (nx * y3 * v + ny * x3 * u) / (u * v)"
    "ny / v * y3 - fp_A * (nx / u) * x3 = (ny * y3 * u - fp_A * nx * x3 * v) / (u * v)"
    using assms(1,2) by (simp_all add: field_simps)
  note nz = denominators [OF c, unfolded den]
  show "u * v + fp_D * (nx * x3 * ny * y3) \<noteq> 0" "u * v - fp_D * (nx * x3 * ny * y3) \<noteq> 0" using nz by auto
  show "fp_add (nx / u, ny / v) (x3, y3) =
    ((nx * y3 * v + ny * x3 * u) / (u * v + fp_D * (nx * x3 * ny * y3)),
     (ny * y3 * u - fp_A * nx * x3 * v) / (u * v - fp_D * (nx * x3 * ny * y3)))"
    unfolding fp_add.simps den num using assms(1,2) by simp
qed


lemma fp_add_assoc:
  assumes c: "on_curve p" "on_curve q" "on_curve r"
  shows "fp_add (fp_add p q) r = fp_add p (fp_add q r)"
proof -
  obtain x1 y1 x2 y2 x3 y3 where xy: "p = (x1, y1)" "q = (x2, y2)" "r = (x3, y3)" by (metis surj_pair)
  note cs = c [unfolded xy]
  define k l where "k = x1 * x2 * y1 * y2" and "l = x2 * x3 * y2 * y3"
  define nx ny where "nx = x1 * y2 + y1 * x2" and "ny = y1 * y2 - fp_A * x1 * x2"
  define mx my where "mx = x2 * y3 + y2 * x3" and "my = y2 * y3 - fp_A * x2 * x3"
  note defs = k_def l_def nx_def ny_def mx_def my_def
  have pq: "fp_add p q = (nx / (1 + fp_D * k), ny / (1 - fp_D * k))"
    and qr: "fp_add q r = (mx / (1 + fp_D * l), my / (1 - fp_D * l))" by (simp_all add: xy defs)
  have u: "1 + fp_D * k \<noteq> 0" "1 - fp_D * k \<noteq> 0" using denominators [OF cs(1,2)] by (simp_all add: defs)
  have v: "1 + fp_D * l \<noteq> 0" "1 - fp_D * l \<noteq> 0" using denominators [OF cs(2,3)] by (simp_all add: defs)
  note left = fp_add_fraction_left [OF u on_curve_add [OF c(1,2), unfolded pq] cs(3)]
  note right = fp_add_fraction_left [OF v on_curve_add [OF c(2,3), unfolded qr] cs(1)]
  note eqs = cs [unfolded on_curve.simps] k_def l_def nx_def ny_def mx_def my_def
  have sym: "mx * x1 * my * y1 = x1 * mx * y1 * my" by (simp only: ac_simps)
  have px: "(nx * y3 * (1 - fp_D * k) + ny * x3 * (1 + fp_D * k)) * ((1 + fp_D * l) * (1 - fp_D * l) + fp_D * (mx * x1 * my * y1)) =
      (mx * y1 * (1 - fp_D * l) + my * x1 * (1 + fp_D * l)) * ((1 + fp_D * k) * (1 - fp_D * k) + fp_D * (nx * x3 * ny * y3))"
    unfolding sym using curve_assoc_poly_x [OF eqs] by (simp only: ac_simps)
  have py: "(ny * y3 * (1 + fp_D * k) - fp_A * nx * x3 * (1 - fp_D * k)) * ((1 + fp_D * l) * (1 - fp_D * l) - fp_D * (mx * x1 * my * y1)) =
      (my * y1 * (1 + fp_D * l) - fp_A * mx * x1 * (1 - fp_D * l)) * ((1 + fp_D * k) * (1 - fp_D * k) - fp_D * (nx * x3 * ny * y3))"
    unfolding sym using curve_assoc_poly_y [OF eqs] by (simp only: ac_simps)
  have "fp_add (fp_add p q) r = fp_add (fp_add q r) p"
    unfolding pq qr unfolding xy(1,3) left(1) right(1)
    using px py by (simp only: prod.inject frac_eq_eq [OF left(2) right(2)] frac_eq_eq [OF left(3) right(3)])
  then show ?thesis by (simp only: fp_add_commute [of p "fp_add q r"])
qed

section \<open>The points of the program\<close>

definition curve_of :: "babyjub_point \<Rightarrow> fp_point" where
  "curve_of p = (fp_of (px p), fp_of (py p))"

lemma canonical_iff:
  "canonical_point p \<longleftrightarrow> 0 \<le> px p \<and> px p < FIELD \<and> 0 \<le> py p \<and> py p < FIELD \<and> on_curve (curve_of p)"
proof -
  let ?v = "jub_A * px p * px p + py p * py p - 1 - jub_D * px p * px p * py p * py p"
  have "?v mod FIELD = 0 \<longleftrightarrow> fp_of ?v = 0" by (simp add: fp_of_zero dvd_eq_mod_eq_0)
  also have "\<dots> \<longleftrightarrow> on_curve (curve_of p)"
    by (simp add: fp_of_simps curve_of_def fp_A_def fp_D_def power2_eq_square algebra_simps)
  finally show ?thesis by (auto simp: canonical_point_def jub_mod_eq)
qed

lemma curve_of_inject: "canonical_point p \<Longrightarrow> canonical_point q \<Longrightarrow> curve_of p = curve_of q \<Longrightarrow> p = q"
  by (cases p; cases q) (simp add: canonical_iff curve_of_def fp_of_eq)

lemma fp_of_inverse: "fp_of (jub_pow t (FIELD - 2) FIELD) = inverse (fp_of t)"
  by (simp add: jub_pow_eq fp_of_simps fp_of_power inverse_fp_def)

lemma curve_of_add: "curve_of (jub_add p q) = fp_add (curve_of p) (curve_of q)"
  by (simp add: curve_of_def jub_add_def Let_def jub_mod_eq fp_of_simps fp_of_inverse fp_A_def fp_D_def divide_fp_def)

lemma canonical_add: "canonical_point p \<Longrightarrow> canonical_point q \<Longrightarrow> canonical_point (jub_add p q)"
  unfolding canonical_iff curve_of_add by (auto intro: on_curve_add simp: jub_add_def Let_def jub_mod_eq)

lemma canonical_zero: "canonical_point jub_zero"
  by (simp add: canonical_point_def jub_zero_def jub_mod_eq)

lemma canonical_BASE: "canonical_point BASE"
proof -
  have "jub_A * px BASE * px BASE + py BASE * py BASE - 1 - jub_D * px BASE * px BASE * py BASE * py BASE =
      -62191403086110220425523875739154366399104739493086176760411877391021728267665268977561486253991563349659052214975873450642363203618916667247718507418654906232627965121794341471165202544569711297598876439959086001470022024015404635204 * FIELD"
    by code_simp
  moreover have "0 \<le> px BASE" "px BASE < FIELD" "0 \<le> py BASE" "py BASE < FIELD" by (simp_all add: BASE_def FIELD_def)
  ultimately show ?thesis by (simp add: canonical_point_def jub_mod_eq)
qed

section \<open>Scalar multiplication\<close>

text \<open>Repeated addition, the specification of \<open>multiply\<close>.\<close>

primrec times_by :: "('p \<Rightarrow> 'p \<Rightarrow> 'p) \<Rightarrow> 'p \<Rightarrow> nat \<Rightarrow> 'p \<Rightarrow> 'p" where
  "times_by pl z 0 p = z"
| "times_by pl z (Suc n) p = pl (times_by pl z n p) p"

locale point_group =
  fixes pl :: "'p \<Rightarrow> 'p \<Rightarrow> 'p" and z :: 'p and ok :: "'p \<Rightarrow> bool"
  assumes ok_zero: "ok z"
    and ok_plus: "ok p \<Longrightarrow> ok q \<Longrightarrow> ok (pl p q)"
    and plus_assoc: "ok p \<Longrightarrow> ok q \<Longrightarrow> ok r \<Longrightarrow> pl (pl p q) r = pl p (pl q r)"
    and plus_commute: "ok p \<Longrightarrow> ok q \<Longrightarrow> pl p q = pl q p"
    and plus_zero: "ok p \<Longrightarrow> pl p z = p"
begin

lemma zero_plus: "ok p \<Longrightarrow> pl z p = p"
  using plus_commute plus_zero ok_zero by metis

lemma ok_times: "ok p \<Longrightarrow> ok (times_by pl z n p)"
  by (induction n) (simp_all add: ok_zero ok_plus)

lemma times_add: "ok p \<Longrightarrow> times_by pl z (m + n) p = pl (times_by pl z m p) (times_by pl z n p)"
  by (induction n) (simp_all add: plus_zero ok_times plus_assoc)

lemma times_plus:
  assumes "ok p" "ok q"
  shows "times_by pl z n (pl p q) = pl (times_by pl z n p) (times_by pl z n q)"
proof (induction n)
  case (Suc n)
  let ?P = "times_by pl z n p" and ?Q = "times_by pl z n q"
  have t: "ok ?P" "ok ?Q" "ok (pl ?Q p)" using assms by (simp_all add: ok_times ok_plus)
  have "pl (pl ?P ?Q) (pl p q) = pl (pl ?P (pl ?Q p)) q" using assms t by (simp add: plus_assoc ok_plus)
  also have "\<dots> = pl (pl ?P (pl p ?Q)) q" using assms t by (simp add: plus_commute)
  also have "\<dots> = pl (pl ?P p) (pl ?Q q)" using assms t by (simp add: plus_assoc ok_plus)
  finally show ?case by (simp add: Suc)
qed (simp add: plus_zero ok_zero)

lemma times_double: "ok p \<Longrightarrow> times_by pl z n (pl p p) = times_by pl z (2 * n) p"
  by (simp add: times_plus times_add mult_2)

lemma times_times: "ok p \<Longrightarrow> times_by pl z m (times_by pl z n p) = times_by pl z (m * n) p"
  by (induction m) (simp_all add: times_add ok_times plus_commute add.commute [of n])

lemma times_exchange: "ok p \<Longrightarrow> times_by pl z m (times_by pl z n p) = times_by pl z n (times_by pl z m p)"
  by (simp add: times_times mult.commute)

end

interpretation jub: point_group jub_add jub_zero canonical_point
proof
  show "jub_add (jub_add p q) r = jub_add p (jub_add q r)"
    if "canonical_point p" "canonical_point q" "canonical_point r" for p q r
    using that by (intro curve_of_inject canonical_add) (simp_all add: curve_of_add fp_add_assoc canonical_iff)
  show "jub_add p q = jub_add q p" if "canonical_point p" "canonical_point q" for p q
    using that by (intro curve_of_inject canonical_add) (simp_all add: curve_of_add fp_add_commute)
  have "curve_of jub_zero = (0, 1)" by (simp add: curve_of_def jub_zero_def fp_of_simps)
  then show "jub_add p jub_zero = p" if "canonical_point p" for p
    using that by (intro curve_of_inject canonical_add canonical_zero) (simp_all add: curve_of_add fp_add_zero)
qed (auto intro: canonical_add canonical_zero)

abbreviation jub_times :: "nat \<Rightarrow> babyjub_point \<Rightarrow> babyjub_point" where
  "jub_times \<equiv> times_by jub_add jub_zero"

lemma multiply_loop_eq:
  "canonical_point b \<Longrightarrow> canonical_point r \<Longrightarrow> multiply_loop n b r = jub_add r (jub_times (nat n) b)"
proof (induction n b r rule: multiply_loop.induct)
  case (1 n b r)
  show ?case
  proof (cases "0 < n")
    case True
    let ?h = "nat (n div 2)" and ?r = "if n mod 2 = 1 then jub_add r b else r"
    have r: "canonical_point ?r" using "1.prems" by (simp add: canonical_add)
    have "multiply_loop n b r = multiply_loop (n div 2) (jub_add b b) ?r" using True by (simp add: multiply_loop.simps)
    also have "\<dots> = jub_add ?r (jub_times ?h (jub_add b b))" using 1 True r by (simp add: canonical_add)
    also have "\<dots> = jub_add ?r (jub_times (2 * ?h) b)" using "1.prems" by (simp add: jub.times_double)
    also have "\<dots> = jub_add r (jub_times (nat n) b)"
      unfolding nat_double [OF True] using "1.prems"
      by (simp add: jub.plus_assoc jub.plus_commute [of b] jub.ok_times)
    finally show ?thesis .
  next
    case False
    with "1.prems" show ?thesis by (simp add: multiply_loop.simps jub.plus_zero)
  qed
qed

lemma multiply_eq: "canonical_point p \<Longrightarrow> multiply p n = jub_times (nat n) p"
  by (simp add: multiply_def multiply_loop_eq canonical_zero jub.zero_plus jub.ok_times)

lemma multiply_exchange:
  "canonical_point p \<Longrightarrow> multiply (multiply p m) n = multiply (multiply p n) m"
  by (simp add: multiply_eq jub.ok_times jub.times_exchange)

end
