(* ===== verification/Jub_Cipher.thy ===== *)
theory Jub_Cipher
  imports Jub_Group
begin

text \<open>
  The cipher of \<open>gpru/babyjub-delta-cipher.ts\<close>: what is encrypted to a scan key is read back with its
  secret.
\<close>

section \<open>The cipher\<close>

lemma ORDER_pos [simp]: "0 < ORDER" "1 < ORDER" "\<not> ORDER \<le> 1"
  by (simp_all add: ORDER_def)

lemma scan_key:
  assumes "deriveGpruBalanceScanKeyV1 sha seed = Inr (secret, pub)"
  shows "0 < secret" "secret < ORDER" "pub = multiply BASE secret" "canonical_point pub"
proof -
  let ?s = "scalarFromBytes (sha (KEY_DOMAIN @ seed)) mod ORDER"
  have r: "0 \<le> ?s" "?s < ORDER" by simp_all
  have s: "secret = (if ?s = 0 then 1 else ?s)" and p: "pub = multiply BASE secret"
    using assms by (auto simp: deriveGpruBalanceScanKeyV1_def Let_def scalarFromBytes_nonneg)
  show "0 < secret" "secret < ORDER" using r by (auto simp: s simp del: pos_mod_sign pos_mod_bound)
  show "pub = multiply BASE secret" by (rule p)
  show "canonical_point pub" by (simp add: p multiply_eq canonical_BASE jub.ok_times)
qed

lemma scan_key_total:
  "32 \<le> length seed \<Longrightarrow> \<exists>secret pub. deriveGpruBalanceScanKeyV1 sha seed = Inr (secret, pub)"
  by (simp add: deriveGpruBalanceScanKeyV1_def Let_def)

lemma encrypted_delta_opens:
  assumes key: "deriveGpruBalanceScanKeyV1 sha seed = Inr (secret, pub)"
    and enc: "encryptBalanceBlindingDeltaV1 random delta pub scalar = Inr c"
  shows "decryptBalanceBlindingDeltaV1 (encryptedDelta c) (ephemeralPublicKey c) secret = Inr delta"
proof -
  define e where "e = ephemeralScalar c"
  have c: "encryptedDelta c = (delta + px (multiply pub e)) mod ORDER" "ephemeralPublicKey c = multiply BASE e"
    and d: "0 < delta" "delta < ORDER"
    using enc by (auto simp: encryptBalanceBlindingDeltaV1_def Let_def e_def jub_mod_eq)
  have x: "multiply (multiply BASE e) secret = multiply pub e"
    using multiply_exchange [OF canonical_BASE] by (simp add: scan_key(3) [OF key])
  have ok: "canonical_point (multiply BASE e)" by (simp add: multiply_eq canonical_BASE jub.ok_times)
  have "(encryptedDelta c - px (multiply pub e)) mod ORDER = delta" using d by (simp add: c mod_simps)
  moreover have "0 \<le> encryptedDelta c" "encryptedDelta c < ORDER" by (simp_all add: c)
  ultimately show ?thesis using ok scan_key(1,2) [OF key]
    by (simp add: decryptBalanceBlindingDeltaV1_def assertPoint_def c(2) x jub_mod_eq)
qed

lemma encryption_total:
  assumes "canonical_point pub" "0 < delta" "delta < ORDER"
  shows "\<exists>c. encryptBalanceBlindingDeltaV1 random delta pub None = Inr c"
proof -
  have "scalarFromBytes random mod ORDER < ORDER" by simp
  with assms show ?thesis
    by (simp add: encryptBalanceBlindingDeltaV1_def assertPoint_def Let_def scalarFromBytes_nonneg not_le not_less)
qed


text \<open>
  C28: the blinding delta of a balance, encrypted to the scan key of a master seed with fresh random bytes, is
  recovered exactly with the scan secret of the same seed, for every seed of at least 32 bytes, every
  hash function, every random bytes and every delta between 0 and the subgroup order. None of the
  three operations fails.
\<close>

theorem blinding_delta_roundtrip:
  assumes "32 \<le> length seed" "0 < delta" "delta < ORDER"
  shows "\<exists>secret pub c.
    deriveGpruBalanceScanKeyV1 sha seed = Inr (secret, pub) \<and>
    encryptBalanceBlindingDeltaV1 random delta pub None = Inr c \<and>
    decryptBalanceBlindingDeltaV1 (encryptedDelta c) (ephemeralPublicKey c) secret = Inr delta"
proof -
  obtain secret pub where key: "deriveGpruBalanceScanKeyV1 sha seed = Inr (secret, pub)"
    using scan_key_total [OF assms(1)] by blast
  obtain c where "encryptBalanceBlindingDeltaV1 random delta pub None = Inr c"
    using encryption_total [OF scan_key(4) [OF key] assms(2,3)] by blast
  with key encrypted_delta_opens show ?thesis by blast
qed

theorem blinding_delta_roundtrip_witness:
  "\<exists>secret pub c.
    deriveGpruBalanceScanKeyV1 (sha256 sample_host) (replicate 32 7) = Inr (secret, pub) \<and>
    encryptBalanceBlindingDeltaV1 (replicate 32 9) 5 pub None = Inr c \<and>
    decryptBalanceBlindingDeltaV1 (encryptedDelta c) (ephemeralPublicKey c) secret = Inr 5"
  by (rule blinding_delta_roundtrip) (simp_all add: ORDER_def)

text \<open>
  on canonical points the double-and-add loop computes repeated addition, its result is a
  canonical point again, and scalars can be multiplied in either order, so that both sides of the key
  agreement arrive at the same point.
\<close>

theorem multiply_is_repeated_addition:
  assumes "canonical_point p"
  shows "multiply p n = times_by jub_add jub_zero (nat n) p \<and> canonical_point (multiply p n) \<and>
    multiply (multiply p m) n = multiply (multiply p n) m"
  using assms by (simp add: multiply_eq jub.ok_times jub.times_exchange)

theorem multiply_is_repeated_addition_witness:
  "multiply BASE 3 = jub_add (jub_add (jub_add jub_zero BASE) BASE) BASE \<and> canonical_point (multiply BASE 3) \<and>
    multiply (multiply BASE 5) 3 = multiply (multiply BASE 3) 5"
  using multiply_is_repeated_addition [OF canonical_BASE, of 3 5] 
  unfolding nat_numeral numeral_3_eq_3 times_by.simps .

text \<open>
  \<open>encryptBalanceBlindingDeltaV1\<close> checks its key with \<open>assertPoint\<close> and not with \<open>isValidBabyJubPointV1\<close>: the
  neutral point is accepted, and the ciphertext is then the delta itself.
\<close>

lemma times_zero: "jub_times n jub_zero = jub_zero"
  by (induction n) (simp_all add: jub.plus_zero canonical_zero)

lemma multiply_zero: "multiply jub_zero n = jub_zero"
  by (simp add: multiply_eq canonical_zero times_zero)

lemma neutral_key_shows_delta:
  "encryptBalanceBlindingDeltaV1 random delta jub_zero scalar = Inr c \<Longrightarrow> encryptedDelta c = delta"
  by (auto simp: encryptBalanceBlindingDeltaV1_def Let_def multiply_zero jub_mod_eq) (simp_all add: jub_zero_def)

lemma neutral_key_accepted:
  "0 < delta \<Longrightarrow> delta < ORDER \<Longrightarrow> \<exists>c. encryptBalanceBlindingDeltaV1 random delta jub_zero None = Inr c"
  by (rule encryption_total [OF canonical_zero])

end
