(* ===== verification/Stealth_Keys.thy ===== *)
theory Stealth_Keys
  imports Jub_Group
begin

text \<open>
  \<open>sdks/tsn-sdk/src/gpru/stealth-keys.ts\<close>: the one-time ElGamal key of a DNA. The ristretto group of
  \<open>@noble/curves\<close>, the ElGamal keys of \<open>@solana/zk-sdk\<close> and the hashes are the record \<open>ristretto_api\<close>.
\<close>

record 'p ristretto_api =
  Fn_ORDER :: int
  point_fromBytes :: "byte_list \<Rightarrow> 'p result"
  point_multiply :: "'p \<Rightarrow> int \<Rightarrow> 'p result"
  point_toBytes :: "'p \<Rightarrow> byte_list"
  sha3_512 :: "byte_list \<Rightarrow> byte_list"
  noble_sha256 :: "byte_list \<Rightarrow> byte_list"
  elgamal_public :: "byte_list \<Rightarrow> byte_list result"
  confidential_secret :: "byte_list \<Rightarrow> byte_list result"

text \<open>
  The points are those of \<open>Point\<close>, \<open>elgamal_public s\<close> is the public key of \<open>ElGamalSecretKey.fromBytes(s)\<close> and
  \<open>confidential_secret m\<close> the secret key of \<open>ConfidentialKeys.fromIkm(m)\<close>. What can throw is a result.
\<close>

section \<open>Scalars\<close>

definition TWEAK_DOMAIN :: byte_list where
  "TWEAK_DOMAIN = utf8 (''TSN_GPRU_DNA_ELGAMAL_TWEAK_V1'' @ [CHR 0x00])"

definition COMMITMENT_DOMAIN :: byte_list where
  "COMMITMENT_DOMAIN = utf8 (''TSN_GPRU_DNA_ELGAMAL_KEY_COMMITMENT_V1'' @ [CHR 0x00])"

definition assert32 :: "byte_list \<Rightarrow> string \<Rightarrow> unit result" where
  "assert32 v label = require (length v = 32) (label @ '' must be exactly 32 bytes'')"

fun littleEndianBytes :: "int \<Rightarrow> nat \<Rightarrow> byte_list" where
  "littleEndianBytes v 0 = []"
| "littleEndianBytes v (Suc n) = nat (v mod 256) # littleEndianBytes (v div 256) n"

text \<open>The extended Euclidean loop, shared by both \<open>inverse\<close> functions of the directory. Its measure is the
  absolute value of the remainder.\<close>

lemma bigint_rest: "a - bigint_div a b * b = bigint_mod a b"
proof -
  have "\<bar>a\<bar> = \<bar>a\<bar> div \<bar>b\<bar> * \<bar>b\<bar> + \<bar>a\<bar> mod \<bar>b\<bar>" by simp
  then have "sgn a * \<bar>a\<bar> = sgn a * (\<bar>a\<bar> div \<bar>b\<bar>) * \<bar>b\<bar> + sgn a * (\<bar>a\<bar> mod \<bar>b\<bar>)"
    by (metis distrib_left mult.assoc)
  moreover have "sgn a * \<bar>a\<bar> = a" by (simp add: sgn_mult_abs)
  moreover have "\<bar>b\<bar> = sgn b * b" by (simp add: abs_sgn mult.commute)
  ultimately have "a = sgn a * (\<bar>a\<bar> div \<bar>b\<bar>) * (sgn b * b) + sgn a * (\<bar>a\<bar> mod \<bar>b\<bar>)" by metis
  then show ?thesis unfolding bigint_div_def bigint_mod_def by (simp add: algebra_simps)
qed

lemma bigint_mod_less: "b \<noteq> 0 \<Longrightarrow> \<bar>bigint_mod a b\<bar> < \<bar>b\<bar>"
  by (cases "a = 0") (simp_all add: bigint_mod_def abs_mult)

function inverse_loop :: "int \<Rightarrow> int \<Rightarrow> int \<Rightarrow> int \<Rightarrow> int \<times> int" where
  "inverse_loop oldR r oldS s =
     (if r = 0 then (oldR, oldS)
      else (let quotient = bigint_div oldR r in inverse_loop r (oldR - quotient * r) s (oldS - quotient * s)))"
  by auto
termination
  by (relation "measure (\<lambda>(oldR, r, oldS, s). nat \<bar>r\<bar>)") (auto simp: bigint_rest bigint_mod_less)

declare inverse_loop.simps [simp del]

definition stealth_inverse :: "int \<Rightarrow> int \<Rightarrow> int result" where
  "stealth_inverse order v =
     (let scalar = jub_mod v order in
      and_then (require (scalar \<noteq> 0) ''GPRU ElGamal scalar cannot be zero'') (\<lambda>_.
        let (oldR, oldS) = inverse_loop order scalar 0 1 in
        and_then (require (oldR = 1) ''GPRU ElGamal scalar is not invertible'') (\<lambda>_.
        Inr (jub_mod oldS order))))"

definition deriveTweak :: "'p ristretto_api \<Rightarrow> byte_list \<Rightarrow> byte_list \<Rightarrow> int result" where
  "deriveTweak c dna sharedPoint =
     (let tweak = jub_mod (scalarFromBytes (sha3_512 c (TWEAK_DOMAIN @ dna @ sharedPoint))) (Fn_ORDER c) in
      and_then (require (tweak \<noteq> 0) ''GPRU derived a zero ElGamal tweak; retry with a fresh DNA'') (\<lambda>_. Inr tweak))"

definition deriveCommitment :: "'p ristretto_api \<Rightarrow> byte_list \<Rightarrow> byte_list \<Rightarrow> byte_list \<Rightarrow> byte_list" where
  "deriveCommitment c dna ephemeral publicKey = noble_sha256 c (COMMITMENT_DOMAIN @ [1] @ dna @ ephemeral @ publicKey)"

section \<open>The owner's key\<close>

record gpru_dna_owner_key =
  ok_version :: int
  ok_dna :: byte_list
  ok_ephemeralPublicKey :: byte_list
  ok_oneTimePublicKey :: byte_list
  ok_keyCommitment :: byte_list
  ok_oneTimeSecretKey :: byte_list

definition check_dna_key ::
  "'p ristretto_api \<Rightarrow> byte_list \<Rightarrow> byte_list \<Rightarrow> byte_list \<Rightarrow> byte_list \<Rightarrow> gpru_dna_owner_key result" where
  "check_dna_key c dna eph oneTimePublicKey secretBytes =
     and_then (elgamal_public c secretBytes) (\<lambda>derivedPublicKey.
     and_then (require (to_hex derivedPublicKey = to_hex oneTimePublicKey)
       ''GPRU DNA key does not match the Node-derived one-time public key'') (\<lambda>_.
     Inr \<lparr>ok_version = 1, ok_dna = dna, ok_ephemeralPublicKey = eph, ok_oneTimePublicKey = oneTimePublicKey,
          ok_keyCommitment = deriveCommitment c dna eph oneTimePublicKey, ok_oneTimeSecretKey = secretBytes\<rparr>))"

definition deriveOwnerGpruDnaKeyV1 ::
  "'p ristretto_api \<Rightarrow> byte_list \<Rightarrow> byte_list \<Rightarrow> byte_list \<Rightarrow> byte_list \<Rightarrow> gpru_dna_owner_key result" where
  "deriveOwnerGpruDnaKeyV1 c dna eph oneTimePublicKey scanSecretKey =
     and_then (assert32 dna ''GPRU DNA'') (\<lambda>_.
     and_then (assert32 eph ''GPRU ephemeral public key'') (\<lambda>_.
     and_then (assert32 oneTimePublicKey ''GPRU one-time public key'') (\<lambda>_.
     and_then (assert32 scanSecretKey ''GPRU scan secret key'') (\<lambda>_.
       let scanSecret = scalarFromBytes scanSecretKey in
       and_then (require (\<not> (scanSecret = 0 \<or> Fn_ORDER c \<le> scanSecret))
         ''GPRU scan secret key is not a canonical nonzero Solana ElGamal scalar'') (\<lambda>_.
       and_then (point_fromBytes c eph) (\<lambda>ephemeral.
       and_then (stealth_inverse (Fn_ORDER c) scanSecret) (\<lambda>inv.
       and_then (point_multiply c ephemeral inv) (\<lambda>shared.
       and_then (deriveTweak c dna (point_toBytes c shared)) (\<lambda>tweak.
       and_then (stealth_inverse (Fn_ORDER c) tweak) (\<lambda>tweakInverse.
       check_dna_key c dna eph oneTimePublicKey
         (littleEndianBytes (jub_mod (scanSecret * tweakInverse) (Fn_ORDER c)) 32)))))))))))"

section \<open>Modular inverses\<close>

lemma inverse_loop_gcd:
  "0 \<le> oldR \<Longrightarrow> 0 \<le> r \<Longrightarrow> m dvd oldS * v - oldR \<Longrightarrow> m dvd s * v - r \<Longrightarrow> inverse_loop oldR r oldS s = (g, t) \<Longrightarrow>
   g = gcd oldR r \<and> m dvd t * v - g"
proof (induction oldR r oldS s rule: inverse_loop.induct)
  case (1 oldR r oldS s)
  show ?case
  proof (cases "r = 0")
    case True
    with "1.prems" show ?thesis by (simp add: inverse_loop.simps)
  next
    case False
    let ?q = "bigint_div oldR r"
    have r: "oldR - ?q * r = oldR mod r" using "1.prems" False by (simp add: bigint_rest)
    have "(oldS - ?q * s) * v - (oldR - ?q * r) = (oldS * v - oldR) - ?q * (s * v - r)" by (simp add: algebra_simps)
    then have d: "m dvd (oldS - ?q * s) * v - oldR mod r" using "1.prems"(3,4) unfolding r by (simp add: dvd_diff)
    have "inverse_loop r (oldR mod r) s (oldS - ?q * s) = (g, t)"
      using "1.prems"(5) False by (subst (asm) inverse_loop.simps) (simp add: Let_def r)
    moreover have "0 \<le> oldR mod r" using "1.prems" False by simp
    ultimately have "g = gcd r (oldR mod r) \<and> m dvd t * v - g"
      using "1.IH" [OF False refl, unfolded r] "1.prems" d by blast
    then show ?thesis by (metis gcd_red_int gcd.commute)
  qed
qed

lemma modular_inverse_unique:
  assumes "1 < (m::int)" "0 \<le> i" "i < m" "0 \<le> j" "j < m" "(v * i) mod m = 1" "(v * j) mod m = 1"
  shows "i = j"
proof -
  have "(i * (v * j)) mod m = i mod m" using assms(7) by (metis mod_mult_right_eq mult.right_neutral)
  moreover have "(j * (v * i)) mod m = j mod m" using assms(6) by (metis mod_mult_right_eq mult.right_neutral)
  ultimately have "i mod m = j mod m" by (simp add: ac_simps)
  with assms show ?thesis by simp
qed

text \<open>What both \<open>inverse\<close> functions compute before they normalize the coefficient.\<close>

lemma inverse_loop_inverse:
  assumes m: "1 < m" and l: "inverse_loop m (v mod m) 0 1 = (g, t)"
  shows "g = 1 \<longleftrightarrow> coprime v m" "g = 1 \<Longrightarrow> (v * (t mod m)) mod m = 1"
proof -
  have "m dvd 1 * v - v mod m" by (simp add: mod_eq_dvd_iff [symmetric])
  then have g: "g = gcd m (v mod m)" "m dvd t * v - g" using inverse_loop_gcd [OF _ _ _ _ l, of m v] m by auto
  show "g = 1 \<longleftrightarrow> coprime v m" using g(1) by (metis coprime_iff_gcd_eq_1 gcd.commute gcd_red_int)
  assume "g = 1"
  then have "(v * t) mod m = 1 mod m" using g(2) by (simp add: mod_eq_dvd_iff mult.commute)
  then show "(v * (t mod m)) mod m = 1" using m by (simp add: mod_simps)
qed

lemma invertible_coprime: "1 < (m::int) \<Longrightarrow> (v * i) mod m = 1 \<Longrightarrow> coprime v m"
proof (rule coprimeI)
  fix g assume "1 < m" "(v * i) mod m = 1" "g dvd v" "g dvd m"
  then show "is_unit g" by (metis dvd_mod dvd_mult2)
qed

lemma coprime_nonzero: "1 < (m::int) \<Longrightarrow> coprime v m \<Longrightarrow> v mod m \<noteq> 0"
  by (metis coprime_absorb_right dvd_eq_mod_eq_0 less_irrefl zdvd1_eq zabs_less_one_iff abs_of_pos zero_less_one less_trans)

lemma stealth_inverse_iff:
  assumes m: "1 < order"
  shows "stealth_inverse order v = Inr i \<longleftrightarrow> 0 \<le> i \<and> i < order \<and> (v * i) mod order = 1"
proof -
  obtain g t where l: "inverse_loop order (v mod order) 0 1 = (g, t)" by fastforce
  note inv = inverse_loop_inverse [OF m l]
  have eq: "stealth_inverse order v = Inr i \<longleftrightarrow> v mod order \<noteq> 0 \<and> g = 1 \<and> i = t mod order"
    using m l by (auto simp: stealth_inverse_def jub_mod_eq Let_def)
  show ?thesis
  proof
    assume "stealth_inverse order v = Inr i"
    with eq inv m show "0 \<le> i \<and> i < order \<and> (v * i) mod order = 1" by simp
  next
    assume i: "0 \<le> i \<and> i < order \<and> (v * i) mod order = 1"
    then have c: "coprime v order" using m invertible_coprime by blast
    then have "g = 1" "v mod order \<noteq> 0" using inv(1) coprime_nonzero [OF m] by simp_all
    moreover have "i = t mod order" using i inv(2) \<open>g = 1\<close> m by (intro modular_inverse_unique [of order i _ v]) simp_all
    ultimately show "stealth_inverse order v = Inr i" using eq by simp
  qed
qed


section \<open>The Node's side\<close>

text \<open>
  \<open>derive_node_dna_key_v1\<close> of \<open>programs/gpru/src/stealth_keys.rs\<close>, without its proof of equal exponents. The
  crates \<open>curve25519-dalek\<close> and \<open>sha3\<close> are the record \<open>dalek_api\<close>; \<open>None\<close> is an \<open>Err\<close>.
\<close>

record 'p dalek_api =
  dalek_order :: int
  decompress :: "byte_list \<Rightarrow> 'p option"
  compress :: "'p \<Rightarrow> byte_list"
  scalar_times :: "int \<Rightarrow> 'p \<Rightarrow> 'p"
  dalek_identity :: 'p
  elgamal_generator :: 'p
  dalek_sha3 :: "byte_list \<Rightarrow> byte_list"

definition from_bytes_mod_order_wide :: "'p dalek_api \<Rightarrow> byte_list \<Rightarrow> int" where
  "from_bytes_mod_order_wide d bs = scalarFromBytes bs mod dalek_order d"

definition tweak_scalar :: "'p dalek_api \<Rightarrow> byte_list \<Rightarrow> 'p \<Rightarrow> int option" where
  "tweak_scalar d dna shared =
     (let tweak = from_bytes_mod_order_wide d (dalek_sha3 d (TWEAK_DOMAIN @ dna @ compress d shared)) in
      if tweak = 0 then None else Some tweak)"

record node_dna_key =
  nk_ephemeral :: byte_list
  nk_one_time :: byte_list
  nk_shared :: byte_list

definition derive_node_dna_key_v1 ::
  "'p dalek_api \<Rightarrow> byte_list \<Rightarrow> byte_list \<Rightarrow> byte_list \<Rightarrow> node_dna_key option" where
  "derive_node_dna_key_v1 d scan_public_key dna randomness =
     (case decompress d scan_public_key of
        None \<Rightarrow> None
      | Some scan_point \<Rightarrow>
          let ephemeral_scalar = from_bytes_mod_order_wide d (take 64 randomness);
              shared_point = scalar_times d ephemeral_scalar scan_point
          in if scan_point = dalek_identity d \<or> ephemeral_scalar = 0 then None
             else (case tweak_scalar d dna shared_point of
                     None \<Rightarrow> None
                   | Some tweak \<Rightarrow>
                       let one_time_point = scalar_times d tweak scan_point in
                       if one_time_point = dalek_identity d \<or> from_bytes_mod_order_wide d (drop 64 randomness) = 0 then None
                       else Some \<lparr>nk_ephemeral = compress d (scalar_times d ephemeral_scalar (elgamal_generator d)),
                                  nk_one_time = compress d one_time_point, nk_shared = compress d shared_point\<rparr>))"

text \<open>
  What the two sides rely on: both libraries implement the same group of prime order, in which scalars act by
  multiplication, and the public key of the secret \<open>s\<close> is the generator times the inverse of \<open>s\<close>.
\<close>

definition ristretto_law :: "'p ristretto_api \<Rightarrow> 'p dalek_api \<Rightarrow> bool" where
  "ristretto_law c d \<longleftrightarrow>
     1 < dalek_order d \<and> dalek_order d \<le> 256 ^ 32 \<and> Fn_ORDER c = dalek_order d \<and> sha3_512 c = dalek_sha3 d \<and>
     (\<forall>v. v mod dalek_order d \<noteq> 0 \<longrightarrow> coprime v (dalek_order d)) \<and>
     (\<forall>k l P. scalar_times d k (scalar_times d l P) = scalar_times d ((k * l) mod dalek_order d) P) \<and>
     (\<forall>k P. 0 < k \<longrightarrow> k < dalek_order d \<longrightarrow> point_multiply c P k = Inr (scalar_times d k P)) \<and>
     (\<forall>P. decompress d (compress d P) = Some P \<and> point_fromBytes c (compress d P) = Inr P \<and>
        point_toBytes c P = compress d P \<and> length (compress d P) = 32) \<and>
     (\<forall>s i. length s = 32 \<longrightarrow> 0 < scalarFromBytes s \<longrightarrow> scalarFromBytes s < dalek_order d \<longrightarrow>
        0 \<le> i \<longrightarrow> i < dalek_order d \<longrightarrow> (scalarFromBytes s * i) mod dalek_order d = 1 \<longrightarrow>
        elgamal_public c s = Inr (compress d (scalar_times d i (elgamal_generator d))))"

lemma ristretto_lawD:
  assumes "ristretto_law c d"
  shows "1 < dalek_order d" "dalek_order d \<le> 256 ^ 32" "Fn_ORDER c = dalek_order d" "sha3_512 c = dalek_sha3 d"
    "v mod dalek_order d \<noteq> 0 \<Longrightarrow> coprime v (dalek_order d)"
    "scalar_times d k (scalar_times d l P) = scalar_times d ((k * l) mod dalek_order d) P"
    "0 < k \<Longrightarrow> k < dalek_order d \<Longrightarrow> point_multiply c P k = Inr (scalar_times d k P)"
    "decompress d (compress d P) = Some P" "point_fromBytes c (compress d P) = Inr P"
    "point_toBytes c P = compress d P" "length (compress d P) = 32"
    "length s = 32 \<Longrightarrow> 0 < scalarFromBytes s \<Longrightarrow> scalarFromBytes s < dalek_order d \<Longrightarrow>
     0 \<le> i \<Longrightarrow> i < dalek_order d \<Longrightarrow> (scalarFromBytes s * i) mod dalek_order d = 1 \<Longrightarrow>
     elgamal_public c s = Inr (compress d (scalar_times d i (elgamal_generator d)))"
  using assms unfolding ristretto_law_def by simp_all

lemma length_littleEndianBytes [simp]: "length (littleEndianBytes v n) = n"
  by (induction n arbitrary: v) simp_all

lemma littleEndianBytes_value: "0 \<le> v \<Longrightarrow> v < 256 ^ n \<Longrightarrow> scalarFromBytes (littleEndianBytes v n) = v"
proof (induction n arbitrary: v)
  case (Suc n)
  have "v < 256 * k \<Longrightarrow> v div 256 < k" for k by presburger
  then have "v div 256 < 256 ^ n" using Suc.prems by simp
  with Suc show ?case by simp
qed simp

lemma inverse_exists:
  assumes "1 < (m::int)" "coprime v m"
  obtains i where "0 < i" "i < m" "(v * i) mod m = 1"
proof -
  obtain g t where l: "inverse_loop m (v mod m) 0 1 = (g, t)" by fastforce
  have i: "(v * (t mod m)) mod m = 1" using inverse_loop_inverse [OF assms(1) l] assms(2) by simp
  moreover have "t mod m \<noteq> 0" using i assms(1) by auto
  moreover have "0 \<le> t mod m" "t mod m < m" using assms(1) by simp_all
  ultimately show thesis using that [of "t mod m"] by simp
qed

text \<open>The arithmetic of both sides: with \<open>s i = 1\<close>, \<open>t u = 1\<close> the one-time secret \<open>s u\<close> has the inverse \<open>t i\<close>.\<close>

lemma product_inverse:
  assumes "(s * i) mod (m::int) = 1" "(t * u) mod m = 1"
  shows "((s * u) mod m * ((t * i) mod m)) mod m = 1"
proof -
  have "((s * u) mod m * ((t * i) mod m)) mod m = ((s * u) * (t * i)) mod m" by (rule mod_mult_eq)
  also have "(s * u) * (t * i) = (s * i) * (t * u)" by (simp only: ac_simps)
  also have "((s * i) * (t * u)) mod m = ((s * i) mod m * ((t * u) mod m)) mod m" by (rule mod_mult_eq [symmetric])
  also have "\<dots> = (1 mod m)" using assms by simp
  also have "\<dots> = 1" using assms(1) by (metis mod_mod_trivial)
  finally show ?thesis .
qed

lemma node_key_parts:
  assumes law: "ristretto_law c d" and node: "derive_node_dna_key_v1 d (compress d P) dna randomness = Some k"
  obtains e t where "tweak_scalar d dna (scalar_times d e P) = Some t"
    "nk_ephemeral k = compress d (scalar_times d e (elgamal_generator d))"
    "nk_one_time k = compress d (scalar_times d t P)" "nk_shared k = compress d (scalar_times d e P)"
  using node ristretto_lawD(8) [OF law]
  by (auto simp: derive_node_dna_key_v1_def Let_def split: if_splits option.splits)

lemma shared_tweak:
  assumes law: "ristretto_law c d" and t: "tweak_scalar d dna S = Some t"
  shows "deriveTweak c dna (compress d S) = Inr t" "0 < t" "t < dalek_order d" "coprime t (dalek_order d)"
proof -
  let ?t = "scalarFromBytes (dalek_sha3 d (TWEAK_DOMAIN @ dna @ compress d S)) mod dalek_order d"
  have m: "1 < dalek_order d" by (rule ristretto_lawD(1) [OF law])
  have eq: "t = ?t" "t \<noteq> 0" using t by (auto simp: tweak_scalar_def from_bytes_mod_order_wide_def Let_def split: if_splits)
  have r: "0 \<le> ?t" "?t < dalek_order d" using m by simp_all
  show "0 < t" "t < dalek_order d" using eq r by auto
  then show "coprime t (dalek_order d)" using ristretto_lawD(5) [OF law, of t] by simp
  show "deriveTweak c dna (compress d S) = Inr t"
    using eq m by (simp add: deriveTweak_def Let_def ristretto_lawD(3,4) [OF law] jub_mod_eq)
qed

text \<open>
  C29: the owner recovers the one-time key the Node derived. For every scan key pair, every DNA and every
  randomness of the Node, if the Node publishes an ephemeral key and a one-time key, then
  \<open>deriveOwnerGpruDnaKeyV1\<close> accepts them, and the secret it returns is the secret of the one-time key
  and differs from the scan secret by the tweak that both sides derive from the shared point.
\<close>

theorem owner_recovers_dna_key:
  assumes law: "ristretto_law c d"
    and scan: "length scanSecretKey = 32" "0 < scalarFromBytes scanSecretKey" "scalarFromBytes scanSecretKey < Fn_ORDER c"
    and pub: "elgamal_public c scanSecretKey = Inr scanPublicKey"
    and node: "derive_node_dna_key_v1 d scanPublicKey dna randomness = Some k" and dna: "length dna = 32"
  shows "\<exists>key tweak. deriveOwnerGpruDnaKeyV1 c dna (nk_ephemeral k) (nk_one_time k) scanSecretKey = Inr key \<and>
    elgamal_public c (ok_oneTimeSecretKey key) = Inr (nk_one_time k) \<and>
    deriveTweak c dna (nk_shared k) = Inr tweak \<and>
    (scalarFromBytes (ok_oneTimeSecretKey key) * tweak) mod Fn_ORDER c = scalarFromBytes scanSecretKey"
proof -
  note L = ristretto_lawD [OF law]
  define m where "m = dalek_order d"
  define s where "s = scalarFromBytes scanSecretKey"
  have m: "1 < m" "Fn_ORDER c = m" "m \<le> 256 ^ 32" using L(1-3) by (simp_all add: m_def)
  have s: "0 < s" "s < m" "s mod m = s" using scan m by (simp_all add: s_def)
  obtain i where i: "0 < i" "i < m" "(s * i) mod m = 1"
    using inverse_exists [OF m(1)] L(5) [of s] s by (auto simp: m_def)
  define P where "P = scalar_times d i (elgamal_generator d)"
  have P: "scanPublicKey = compress d P"
    using L(12) [of scanSecretKey i] scan i s pub by (simp add: m_def s_def P_def)
  obtain e t where t: "tweak_scalar d dna (scalar_times d e P) = Some t"
    and k: "nk_ephemeral k = compress d (scalar_times d e (elgamal_generator d))"
      "nk_one_time k = compress d (scalar_times d t P)" "nk_shared k = compress d (scalar_times d e P)"
    using node_key_parts [OF law node [unfolded P]] by metis
  note tw = shared_tweak [OF law t]
  obtain u where u: "0 < u" "u < m" "(t * u) mod m = 1" using inverse_exists [OF m(1)] tw(4) by (auto simp: m_def)
  define one where "one = (s * u) mod m"
  let ?secret = "littleEndianBytes one 32"
  have one: "0 \<le> one" "one < m" using m by (simp_all add: one_def)
  then have val: "scalarFromBytes ?secret = one" using m(3) by (intro littleEndianBytes_value) (auto intro: less_le_trans)
  have inv1: "(one * ((t * i) mod m)) mod m = 1" unfolding one_def by (rule product_inverse [OF i(3) u(3)])
  then have "one \<noteq> 0" using m(1) by auto
  with one have pos: "0 < one" by simp
  have shared: "scalar_times d i (scalar_times d e (elgamal_generator d)) = scalar_times d e P"
    by (simp add: P_def L(6) mult.commute)
  have oneTime: "elgamal_public c ?secret = Inr (nk_one_time k)"
    using L(12) [of ?secret "(t * i) mod m"] one val pos inv1 m(1) by (simp add: m_def k(2) P_def L(6))
  have invs: "stealth_inverse m s = Inr i" "stealth_inverse m t = Inr u"
    using i u m by (simp_all add: stealth_inverse_iff)
  have derive: "deriveOwnerGpruDnaKeyV1 c dna (nk_ephemeral k) (nk_one_time k) scanSecretKey =
      check_dna_key c dna (nk_ephemeral k) (nk_one_time k) ?secret"
    using scan dna s m i invs tw(1) L(7) [of i]
    by (simp add: deriveOwnerGpruDnaKeyV1_def assert32_def Let_def k(1,2) L(9-11) s_def [symmetric] m_def [symmetric]
        shared one_def jub_mod_eq)
  have "(one * t) mod m = (s * (t * u)) mod m" by (simp add: one_def mod_simps ac_simps)
  also have "\<dots> = s" using u(3) s m(1) by (metis mod_mult_right_eq mult.right_neutral)
  finally have "(scalarFromBytes ?secret * t) mod m = s" by (simp add: val)
  then show ?thesis using derive oneTime tw(1) by (simp add: check_dna_key_def k(3) m(2) s_def)
qed

text \<open>
  An instance: the additive group of the residues modulo \<open>FIELD\<close>, with points written as 32 bytes.
\<close>

definition sample_ristretto :: "fp ristretto_api" where
  "sample_ristretto =
     \<lparr>Fn_ORDER = FIELD, point_fromBytes = (\<lambda>bs. Inr (fp_of (scalarFromBytes (rev bs)))),
      point_multiply = (\<lambda>P k. Inr (fp_of k * P)), point_toBytes = (\<lambda>P. to32BE (fp_val P)),
      sha3_512 = (\<lambda>bs. [3]), noble_sha256 = sha256 sample_host,
      elgamal_public = (\<lambda>s. Inr (to32BE (fp_val (inverse (fp_of (scalarFromBytes s)))))),
      confidential_secret = (\<lambda>m. Inr (take 32 m))\<rparr>"

definition sample_dalek :: "fp dalek_api" where
  "sample_dalek =
     \<lparr>dalek_order = FIELD, decompress = (\<lambda>bs. Some (fp_of (scalarFromBytes (rev bs)))),
      compress = (\<lambda>P. to32BE (fp_val P)), scalar_times = (\<lambda>k P. fp_of k * P), dalek_identity = 0,
      elgamal_generator = 1, dalek_sha3 = (\<lambda>bs. [3])\<rparr>"

lemma fp_of_val: "fp_of (fp_val P) = P"
  by transfer simp

lemma fp_bytes: "fp_of (scalarFromBytes (rev (to32BE (fp_val P)))) = P"
proof -
  have "0 \<le> fp_val P" "fp_val P < 256 ^ 32" using fp_val [of P] by (auto simp: FIELD_def)
  then show ?thesis by (simp add: to32BE_value fp_of_val)
qed

lemma length_be_fill: "length (be_fill n v out) = n + length out"
  by (induction n arbitrary: v out) simp_all

lemma length_to32BE: "length (to32BE v) = 32"
  by (simp add: to32BE_def length_be_fill)

lemma fp_unit: "fp_of v \<noteq> 0 \<Longrightarrow> coprime v FIELD"
proof -
  assume "fp_of v \<noteq> 0"
  then have "(v * v ^ nat (FIELD - 2)) mod FIELD = 1"
    using field_fermat [of v] by (simp add: fp_of_zero power_Suc [symmetric] FIELD_def del: power_Suc)
  then show ?thesis using invertible_coprime [of FIELD] by simp
qed

lemma sample_ristretto_law: "ristretto_law sample_ristretto sample_dalek"
proof -
  have inv: "inverse (fp_of s) = fp_of i" if "(s * i) mod FIELD = 1" for s i
  proof -
    have "fp_of (s * i) = fp_of 1" unfolding fp_of_eq using that by simp
    then have "fp_of s * fp_of i = 1" by (simp add: fp_of_simps)
    then show ?thesis by (rule inverse_unique)
  qed
  have unit: "v mod FIELD \<noteq> 0 \<Longrightarrow> coprime v FIELD" for v by (rule fp_unit) (simp add: fp_of_zero dvd_eq_mod_eq_0)
  show ?thesis unfolding ristretto_law_def
    by (simp add: sample_ristretto_def sample_dalek_def unit inv fp_of_simps fp_bytes length_to32BE)
       (simp add: FIELD_def mult.assoc)
qed

lemma scalarFromBytes_zeros [simp]: "scalarFromBytes (replicate n 0) = 0"
  by (induction n) simp_all

definition sample_randomness :: byte_list where
  "sample_randomness = (5 # replicate 63 0) @ (7 # replicate 63 0)"

lemma sample_scan_key:
  "elgamal_public sample_ristretto (2 # replicate 31 0) = Inr (to32BE (fp_val (inverse (fp_of 2))))"
  by (simp add: sample_ristretto_def)

lemma fp_numeral_nonzero: "0 < v \<Longrightarrow> v < FIELD \<Longrightarrow> fp_of v \<noteq> 0"
  by (simp add: fp_of_zero zdvd_not_zless)

lemma sample_dna_key:
  "\<exists>k. derive_node_dna_key_v1 sample_dalek (to32BE (fp_val (inverse (fp_of 2)))) (replicate 32 1) sample_randomness = Some k"
proof -
  have t: "take 64 sample_randomness = 5 # replicate 63 0" "drop 64 sample_randomness = 7 # replicate 63 0"
    by (simp_all add: sample_randomness_def)
  have w: "from_bytes_mod_order_wide sample_dalek (take 64 sample_randomness) = 5"
    "from_bytes_mod_order_wide sample_dalek (drop 64 sample_randomness) = 7"
    "from_bytes_mod_order_wide sample_dalek (dalek_sha3 sample_dalek bs) = 3" for bs
    unfolding t by (simp_all add: from_bytes_mod_order_wide_def sample_dalek_def FIELD_def)
  have nz: "fp_of 2 \<noteq> 0" "fp_of 3 \<noteq> 0" by (rule fp_numeral_nonzero; simp add: FIELD_def)+
  have p: "decompress sample_dalek (to32BE (fp_val (inverse (fp_of 2)))) = Some (inverse (fp_of 2))"
    by (simp add: sample_dalek_def fp_bytes)
  show ?thesis unfolding derive_node_dna_key_v1_def tweak_scalar_def w p Let_def
    using nz by (simp add: sample_dalek_def)
qed

theorem owner_recovers_dna_key_witness:
  "\<exists>k key tweak.
    derive_node_dna_key_v1 sample_dalek (to32BE (fp_val (inverse (fp_of 2)))) (replicate 32 1) sample_randomness = Some k \<and>
    deriveOwnerGpruDnaKeyV1 sample_ristretto (replicate 32 1) (nk_ephemeral k) (nk_one_time k) (2 # replicate 31 0) = Inr key \<and>
    elgamal_public sample_ristretto (ok_oneTimeSecretKey key) = Inr (nk_one_time k) \<and>
    deriveTweak sample_ristretto (replicate 32 1) (nk_shared k) = Inr tweak \<and>
    (scalarFromBytes (ok_oneTimeSecretKey key) * tweak) mod Fn_ORDER sample_ristretto = 2"
proof -
  obtain k where k: "derive_node_dna_key_v1 sample_dalek (to32BE (fp_val (inverse (fp_of 2)))) (replicate 32 1) sample_randomness = Some k"
    using sample_dna_key by blast
  have "Fn_ORDER sample_ristretto = FIELD" by (simp add: sample_ristretto_def)
  then have "scalarFromBytes (2 # replicate 31 0) < Fn_ORDER sample_ristretto" by (simp add: FIELD_def)
  with owner_recovers_dna_key [OF sample_ristretto_law _ _ _ sample_scan_key k] k show ?thesis by auto
qed

end
