(* ===== verification/Gpru_Records.thy ===== *)
theory Gpru_Records
  imports Jub_Cipher Stealth_Keys
begin

text \<open>
  \<open>sdks/tsn-sdk/src/gpru/transaction-record.ts\<close>: the owner's record of a balance action, its encryption key, the
  binding in front of a Memo and the check against the on-chain proof. Decrypted records are JSON
  values; \<open>@dbrix/core\<close> and \<open>@dbrix/ledger\<close> are the record \<open>dbrix_api\<close>.
\<close>

section \<open>Numbers from text\<close>

definition digits_in :: "nat \<Rightarrow> string \<Rightarrow> bool" where
  "digits_in radix s \<longleftrightarrow> s \<noteq> [] \<and> list_all (\<lambda>c. is_hex c \<and> hex_val c < radix) s"

definition radix_val :: "nat \<Rightarrow> string \<Rightarrow> int" where
  "radix_val radix s = foldl (\<lambda>a c. a * int radix + int (hex_val c)) 0 s"

text \<open>\<open>BigInt(s)\<close> of a string.\<close>

definition js_BigInt :: "string \<Rightarrow> int result" where
  "js_BigInt s =
     (let t = js_trim s; p = lower (take 2 t); d = drop 2 t in
      if t = [] then Inr 0
      else if p = ''0x'' \<and> digits_in 16 d then Inr (big_hex d)
      else if p = ''0o'' \<and> digits_in 8 d then Inr (radix_val 8 d)
      else if p = ''0b'' \<and> digits_in 2 d then Inr (radix_val 2 d)
      else if list_all is_digit t then Inr (int (dec_val t))
      else if hd t = CHR ''-'' \<and> tl t \<noteq> [] \<and> list_all is_digit (tl t) then Inr (- int (dec_val (tl t)))
      else if hd t = CHR ''+'' \<and> tl t \<noteq> [] \<and> list_all is_digit (tl t) then Inr (int (dec_val (tl t)))
      else Inl (''Cannot convert '' @ s @ '' to a BigInt''))"

lemma digit_not_x: "is_digit c \<Longrightarrow> to_lower c = c"
  by (simp add: is_digit_def to_lower_def)

lemma js_BigInt_dec [simp]: "js_BigInt (dec n) = Inr (int n)"
proof -
  have t: "js_trim (dec n) = dec n"
    using dec_hd_digit [of n] by (intro js_trim_id) (auto simp: digit_not_space dec_last_not_space)
  have "\<forall>c \<in> set (lower (take 2 (dec n))). is_digit c"
    by (auto simp: lower_def digit_not_x dest!: in_set_takeD)
  then have "lower (take 2 (dec n)) \<noteq> ''0x''" "lower (take 2 (dec n)) \<noteq> ''0o''" "lower (take 2 (dec n)) \<noteq> ''0b''"
    by (auto simp: is_digit_def)
  then show ?thesis by (simp add: js_BigInt_def t Let_def)
qed

lemma js_BigInt_int_str [simp]: "js_BigInt (int_str z) = Inr z"
proof (cases "0 \<le> z")
  case False
  have "js_trim (int_str z) = int_str z"
    using False dec_last_not_space by (intro js_trim_id) (auto simp: int_str_def is_space_def)
  moreover have "int_str z = CHR ''-'' # dec (nat (- z))" using False by (simp add: int_str_def)
  ultimately show ?thesis using False by (simp add: js_BigInt_def Let_def lower_def to_lower_def is_digit_def)
qed (simp add: int_str_def)

section \<open>Records\<close>

definition RECORD_KEY_DOMAIN :: byte_list where
  "RECORD_KEY_DOMAIN = utf8 (''DBRIX_GPRU_TRANSACTION_RECORD_KEY_V1'' @ [CHR 0x00])"

definition RECORD_ENVELOPE_ALGORITHM :: string where
  "RECORD_ENVELOPE_ALGORITHM = ''dbrix-core-secretbox-v1''"

definition RECORD_TYPE :: string where
  "RECORD_TYPE = ''tsn-gpru-balance-action-v1''"

text \<open>\<open>GpruBalanceActionRecordV1\<close>.\<close>

record gpru_action =
  ga_version :: int
  ga_recordType :: string
  ga_sequence :: string
  ga_previousMemoCommitment :: string
  ga_actionCommitment :: string
  ga_authorizationCommitment :: string
  ga_nullifier :: string
  ga_actionKind :: int
  ga_tokenId :: int
  ga_amountBaseUnits :: string
  ga_balanceBlindingDelta :: string

text \<open>The action of the on-chain statement.\<close>

record proof_action =
  pa_actionKind :: int
  pa_tokenId :: int
  pa_amountBaseUnits :: string
  pa_actionCommitment :: string
  pa_authorizationCommitment :: string
  pa_nullifier :: string

record gpru_memo_binding =
  mb_successorPortfolioRoot :: string
  mb_successorBalancePoint :: "string \<times> string"
  mb_actionCommitment :: string
  mb_encryptedBlindingDelta :: string
  mb_deltaEphemeralPublicKey :: "string \<times> string"

section \<open>The key of a record\<close>

definition record_inverse :: "int \<Rightarrow> int \<Rightarrow> int result" where
  "record_inverse order v =
     (let scalar = bigint_mod v order in
      and_then (require (scalar \<noteq> 0) ''GPRU scan secret cannot be zero'') (\<lambda>_.
        let (oldR, oldS) = inverse_loop order scalar 0 1 in
        and_then (require (oldR = 1) ''GPRU scan secret is not invertible'') (\<lambda>_.
        Inr (bigint_mod (bigint_mod oldS order + order) order))))"

definition deriveGpruTransactionRecordKeyV1 ::
  "'p ristretto_api \<Rightarrow> byte_list \<Rightarrow> byte_list \<Rightarrow> byte_list \<Rightarrow> byte_list \<Rightarrow> byte_list result" where
  "deriveGpruTransactionRecordKeyV1 c masterSeed elgamalKey dna recordEphemeral =
     and_then (assert32 elgamalKey ''GPRU ElGamal public key'') (\<lambda>_.
     and_then (assert32 dna ''GPRU DNA'') (\<lambda>_.
     and_then (assert32 recordEphemeral ''GPRU record ephemeral public key'') (\<lambda>_.
     and_then (require (32 \<le> length masterSeed) MASTER_SEED_ERROR) (\<lambda>_.
     and_then (confidential_secret c masterSeed) (\<lambda>secretKey.
     and_then (elgamal_public c secretKey) (\<lambda>actualPublicKey.
     and_then (require (length actualPublicKey = 32 \<and> to_hex actualPublicKey = to_hex elgamalKey)
       ''TIN master seed does not derive the registered GPRU ElGamal route key'') (\<lambda>_.
     and_then (point_fromBytes c recordEphemeral) (\<lambda>ephemeral.
     and_then (record_inverse (Fn_ORDER c) (scalarFromBytes secretKey)) (\<lambda>inv.
     and_then (point_multiply c ephemeral inv) (\<lambda>shared.
     Inr (noble_sha256 c (RECORD_KEY_DOMAIN @ point_toBytes c shared @ dna @ recordEphemeral))))))))))))"

section \<open>The binding of a Memo\<close>

text \<open>The regular expression has the flag \<open>i\<close>: the prefix and the digits match in either case.\<close>

fun binding_fields :: "nat \<Rightarrow> string \<Rightarrow> (string list \<times> string) option" where
  "binding_fields 0 s = Some ([], s)"
| "binding_fields (Suc n) s =
     (if is_hex64 (take 64 s) \<and> take 1 (drop 64 s) = '':''
      then map_option (\<lambda>(fs, r). (take 64 s # fs, r)) (binding_fields n (drop 65 s))
      else None)"

definition HEAD_PREFIX :: string where
  "HEAD_PREFIX = ''TSN_GPRU_HEAD_V1:''"

definition match_binding :: "string \<Rightarrow> (string list \<times> string) option" where
  "match_binding memo =
     (if lower (take (length HEAD_PREFIX) memo) = lower HEAD_PREFIX
      then binding_fields 7 (drop (length HEAD_PREFIX) memo) else None)"

definition parseGpruMemoBindingV1 :: "string \<Rightarrow> gpru_memo_binding result" where
  "parseGpruMemoBindingV1 memo =
     (case match_binding memo of
        None \<Rightarrow> Inl ''Memo does not contain the GPRU portfolio-head V1 binding''
      | Some (fs, _) \<Rightarrow>
          Inr \<lparr>mb_successorPortfolioRoot = lower (fs ! 0),
               mb_successorBalancePoint = (lower (fs ! 1), lower (fs ! 2)),
               mb_actionCommitment = lower (fs ! 3),
               mb_encryptedBlindingDelta = lower (fs ! 4),
               mb_deltaEphemeralPublicKey = (lower (fs ! 5), lower (fs ! 6))\<rparr>)"

section \<open>Validation\<close>

definition EXPECTED_KEYS :: "string list" where
  "EXPECTED_KEYS = [''version'', ''recordType'', ''sequence'', ''previousMemoCommitment'', ''actionCommitment'',
     ''authorizationCommitment'', ''nullifier'', ''actionKind'', ''tokenId'', ''amountBaseUnits'']"

fun own_keys :: "json \<Rightarrow> string list option" where
  "own_keys (JObj ob) = Some (map fst ob)"
| "own_keys (JArr vs) = Some (map dec [0..<length vs])"
| "own_keys _ = None"

definition positive_decimal :: "string \<Rightarrow> bool" where
  "positive_decimal s \<longleftrightarrow> s \<noteq> [] \<and> list_all is_digit s \<and> hd s \<noteq> CHR ''0''"

definition lower_hex64 :: "string \<Rightarrow> bool" where
  "lower_hex64 s \<longleftrightarrow> length s = 64 \<and> list_all is_lower_hex s"

definition ZERO_MEMO :: string where
  "ZERO_MEMO = replicate 64 (CHR ''0'')"

definition u64_limit :: int where
  "u64_limit = 0xffffffffffffffff"

definition check_shape :: "json \<Rightarrow> unit result" where
  "check_shape v =
     (case own_keys v of
        None \<Rightarrow> Inl ''GPRU owner balance action record must be an object''
      | Some ks \<Rightarrow>
          and_then (require (''balanceBlindingDelta'' \<notin> set ks)
            ''DBrix Memo record must not contain a duplicate blinding delta; recover it from the proof-bound Memo ciphertext'') (\<lambda>_.
          and_then (require (js_join ''|'' (sort_by str_le ks) = js_join ''|'' (sort_by str_le EXPECTED_KEYS))
            ''GPRU owner action record contains missing or unsupported fields'') (\<lambda>_.
          require (member v ''version'' = Some (JNum 1) \<and> member v ''recordType'' = Some (JStr RECORD_TYPE))
            ''Unsupported GPRU owner balance action record'')))"

definition check_fields :: "json \<Rightarrow> unit result" where
  "check_fields v =
     (let text = (\<lambda>k. String_of (member v k)); num = (\<lambda>k. big_hex (String_of (member v k))) in
      and_then (require (positive_decimal (text ''sequence'')) ''GPRU action sequence must be a positive decimal integer'') (\<lambda>_.
      and_then (require (lower_hex64 (text ''previousMemoCommitment''))
        ''GPRU predecessor Memo commitment must be 32-byte lowercase hex'') (\<lambda>_.
      and_then (require (lower_hex64 (text ''actionCommitment'')) ''GPRU action commitment must be 32-byte lowercase hex'') (\<lambda>_.
      and_then (require (lower_hex64 (text ''authorizationCommitment''))
        ''GPRU authorization commitment must be 32-byte lowercase hex'') (\<lambda>_.
      and_then (require (lower_hex64 (text ''nullifier'')) ''GPRU nullifier must be 32-byte lowercase hex'') (\<lambda>_.
      require (\<not> (FIELD \<le> num ''previousMemoCommitment'' \<or> num ''actionCommitment'' = 0 \<or> FIELD \<le> num ''actionCommitment'' \<or>
                  FIELD \<le> num ''authorizationCommitment'' \<or> FIELD \<le> num ''nullifier'' \<or>
                  num ''authorizationCommitment'' = 0 \<or> num ''nullifier'' = 0))
        ''GPRU Memo, action, authorization, and nullifier values must be canonical BN254 field elements''))))))"


definition check_amounts :: "host \<Rightarrow> json \<Rightarrow> int \<Rightarrow> unit result" where
  "check_amounts h v blind =
     and_then (require (js_number h (member v ''actionKind'') \<in> {Some 1, Some 2, Some 3})
       ''GPRU action kind must be credit (1), debit (2), or exit (3)'') (\<lambda>_.
     and_then (require (case member v ''tokenId'' of Some (JNum n) \<Rightarrow> 0 < n \<and> n \<le> 0xffffffff | _ \<Rightarrow> False)
       ''GPRU action tokenId must be a positive u32'') (\<lambda>_.
     and_then (require (positive_decimal (String_of (member v ''amountBaseUnits'')))
       ''GPRU action amount must be a positive decimal integer'') (\<lambda>_.
     and_then (require (\<not> (u64_limit < int (dec_val (String_of (member v ''sequence''))) \<or>
                           u64_limit < int (dec_val (String_of (member v ''amountBaseUnits'')))))
       ''GPRU action sequence or amount exceeds u64'') (\<lambda>_.
     require (\<not> (blind = 0 \<or> ORDER \<le> blind))
       ''GPRU blinding delta must be nonzero and inside the BabyJubjub scalar field''))))"

definition token_number :: "json option \<Rightarrow> int" where
  "token_number v = (case v of Some (JNum n) \<Rightarrow> n | _ \<Rightarrow> 0)"

definition kind_number :: "host \<Rightarrow> json option \<Rightarrow> int" where
  "kind_number h v = (case js_number h v of Some n \<Rightarrow> n | None \<Rightarrow> 0)"

definition validateGpruBalanceActionRecordV1 :: "host \<Rightarrow> json \<Rightarrow> int \<Rightarrow> gpru_action result" where
  "validateGpruBalanceActionRecordV1 h v blind =
     and_then (check_shape v) (\<lambda>_.
     and_then (check_fields v) (\<lambda>_.
     and_then (check_amounts h v blind) (\<lambda>_.
     let sequence = dec_val (String_of (member v ''sequence'')) in
     and_then (toLowerCase (member v ''previousMemoCommitment'')) (\<lambda>predecessor.
     and_then (require ((sequence = 1) = (predecessor = ZERO_MEMO))
       ''First GPRU action must have no predecessor; later actions must name one'') (\<lambda>_.
     and_then (toLowerCase (member v ''actionCommitment'')) (\<lambda>actionCommitment.
     and_then (toLowerCase (member v ''authorizationCommitment'')) (\<lambda>authorizationCommitment.
     and_then (toLowerCase (member v ''nullifier'')) (\<lambda>nullifier.
     Inr \<lparr>ga_version = 1, ga_recordType = RECORD_TYPE, ga_sequence = dec sequence,
          ga_previousMemoCommitment = predecessor, ga_actionCommitment = actionCommitment,
          ga_authorizationCommitment = authorizationCommitment, ga_nullifier = nullifier,
          ga_actionKind = kind_number h (member v ''actionKind''), ga_tokenId = token_number (member v ''tokenId''),
          ga_amountBaseUnits = dec (dec_val (String_of (member v ''amountBaseUnits''))),
          ga_balanceBlindingDelta = int_str blind\<rparr>))))))))"

definition MISMATCH :: string where
  "MISMATCH = ''Decrypted GPRU Memo action does not match the on-chain proof statement''"

text \<open>The comparison stops at the first difference; only then is \<open>BigInt\<close> reached.\<close>

definition assertGpruMemoActionMatchesProofV1 :: "gpru_action \<Rightarrow> proof_action \<Rightarrow> unit result" where
  "assertGpruMemoActionMatchesProofV1 r p =
     and_then (require (ga_actionKind r = pa_actionKind p \<and> ga_tokenId r = pa_tokenId p) MISMATCH) (\<lambda>_.
     and_then (js_BigInt (pa_amountBaseUnits p)) (\<lambda>amount.
     require (ga_amountBaseUnits r = int_str amount \<and> ga_actionCommitment r = lower (pa_actionCommitment p) \<and>
              ga_authorizationCommitment r = lower (pa_authorizationCommitment p) \<and>
              ga_nullifier r = lower (pa_nullifier p)) MISMATCH))"

section \<open>Reading a Memo\<close>

text \<open>
  \<open>decodeLedgerSlots\<close> and \<open>decrypt\<close> of DBrix, and \<open>hexToBytes\<close> of \<open>@noble/hashes\<close>; each can throw.
\<close>

record dbrix_api =
  decodeLedgerSlots :: "string list \<Rightarrow> byte_list result"
  dbrix_decrypt :: "json option \<Rightarrow> json option \<Rightarrow> json option \<Rightarrow> byte_list \<Rightarrow> json result"
  hexToBytes :: "json option \<Rightarrow> byte_list result"

definition base64url_char :: "char \<Rightarrow> bool" where
  "base64url_char c \<longleftrightarrow> is_digit c \<or> 65 \<le> code c \<and> code c \<le> 90 \<or> 97 \<le> code c \<and> code c \<le> 122 \<or> c = CHR ''_'' \<or> c = CHR ''-''"

function ledger_slots :: "string \<Rightarrow> string list" where
  "ledger_slots s =
     (if s = [] then [] else (take 32 s @ replicate (32 - length s) (CHR ''='')) # ledger_slots (drop 32 s))"
  by auto
termination by (relation "measure length") auto

declare ledger_slots.simps [simp del]

text \<open>Reading a member of \<open>null\<close> throws; of any other value it gives \<open>undefined\<close> when there is none.\<close>

definition envelope_member :: "json \<Rightarrow> string \<Rightarrow> json option result" where
  "envelope_member v k = (if v = JNull then Inl ''Cannot read properties of null'' else Inr (member v k))"

definition check_scan_key :: "int \<times> babyjub_point \<Rightarrow> byte_list \<Rightarrow> byte_list \<Rightarrow> unit result" where
  "check_scan_key key scanX scanY =
     (let wrong = ''TIN master seed does not derive the registered GPRU balance scan key'' in
      and_then (decodeBabyJubHexV1 (to_hex scanX) ''TIP scan public x'') (\<lambda>x.
      and_then (require (px (snd key) = x) wrong) (\<lambda>_.
      and_then (decodeBabyJubHexV1 (to_hex scanY) ''TIP scan public y'') (\<lambda>y.
      require (py (snd key) = y) wrong))))"

definition open_envelope ::
  "'p ristretto_api \<Rightarrow> dbrix_api \<Rightarrow> byte_list \<Rightarrow> byte_list \<Rightarrow> json \<Rightarrow> json result" where
  "open_envelope c x masterSeed elgamalKey envelope =
     and_then (envelope_member envelope ''version'') (\<lambda>version.
     and_then (require (version = Some (JNum 1) \<and> member envelope ''algorithm'' = Some (JStr RECORD_ENVELOPE_ALGORITHM))
       ''Unsupported DBrix GPRU transaction-record envelope version'') (\<lambda>_.
     and_then (hexToBytes x (member envelope ''dna'')) (\<lambda>dna.
     and_then (hexToBytes x (member envelope ''recordEphemeralPublicKey'')) (\<lambda>recordEphemeral.
     and_then (deriveGpruTransactionRecordKeyV1 c masterSeed elgamalKey dna recordEphemeral) (\<lambda>key.
     dbrix_decrypt x (member envelope ''data'') (member envelope ''nonce'')
       (if truthy (member envelope ''compression'') then member envelope ''compression'' else None) key)))))"

definition decryptGpruLedgerMemoV1 ::
  "host \<Rightarrow> 'p ristretto_api \<Rightarrow> dbrix_api \<Rightarrow> string \<Rightarrow> byte_list \<Rightarrow> byte_list \<Rightarrow> byte_list \<Rightarrow> byte_list \<Rightarrow> gpru_action result" where
  "decryptGpruLedgerMemoV1 h c x memo masterSeed elgamalKey scanX scanY =
     and_then (parseGpruMemoBindingV1 memo) (\<lambda>binding.
       let ledgerPayload = snd (the (match_binding memo)) in
       and_then (require (ledgerPayload \<noteq> [] \<and> list_all base64url_char ledgerPayload)
         ''GPRU Memo payload must be an unpadded Base64URL Ledger stream'') (\<lambda>_.
       and_then (decodeLedgerSlots x (ledger_slots ledgerPayload)) (\<lambda>documentBytes.
       case Option.bind (utf8_decode documentBytes) json_parse of
         None \<Rightarrow> Inl ''Memo does not contain a valid DBrix GPRU record envelope''
       | Some envelope \<Rightarrow>
           and_then (open_envelope c x masterSeed elgamalKey envelope) (\<lambda>rec.
           and_then (deriveGpruBalanceScanKeyV1 (noble_sha256 c) masterSeed) (\<lambda>scanKey.
           and_then (check_scan_key scanKey scanX scanY) (\<lambda>_.
           and_then (decryptBalanceBlindingDeltaV1 (big_hex (mb_encryptedBlindingDelta binding))
               \<lparr>px = big_hex (fst (mb_deltaEphemeralPublicKey binding)), py = big_hex (snd (mb_deltaEphemeralPublicKey binding))\<rparr>
               (fst scanKey)) (\<lambda>delta.
           and_then (validateGpruBalanceActionRecordV1 h rec delta) (\<lambda>validated.
           and_then (require (ga_actionCommitment validated = mb_actionCommitment binding)
             ''Decrypted GPRU action commitment differs from the proof-bound Memo prefix'') (\<lambda>_.
           Inr validated)))))))))"


section \<open>Reading a binding back\<close>

definition binding_text :: "string list \<Rightarrow> string" where
  "binding_text fs = HEAD_PREFIX @ concat (map (\<lambda>f. f @ '':'') fs)"

lemma binding_fields_concat:
  "list_all is_hex64 fs \<Longrightarrow> binding_fields (length fs) (concat (map (\<lambda>f. f @ '':'') fs) @ r) = Some (fs, r)"
  by (induction fs) (auto simp: is_hex64_def)

lemma match_binding_text:
  assumes "list_all is_hex64 fs" "length fs = 7"
  shows "match_binding (binding_text fs @ r) = Some (fs, r)"
  using binding_fields_concat [OF assms(1), of r] by (simp add: match_binding_def binding_text_def assms(2))

lemma is_hex_lower: "is_lower_hex c \<Longrightarrow> is_hex c"
  by (simp add: is_hex_def)

lemma to_lower_lower_hex: "is_lower_hex c \<Longrightarrow> to_lower c = c"
  by (auto simp: is_lower_hex_def is_digit_def to_lower_def)

lemma lower_hex_text: "list_all is_lower_hex s \<Longrightarrow> lower s = s"
  unfolding lower_def by (rule map_idI) (auto simp: list_all_iff to_lower_lower_hex)

lemma is_hex64_lower: "lower_hex64 s \<Longrightarrow> is_hex64 s"
  by (auto simp: lower_hex64_def is_hex64_def list_all_iff is_hex_lower)

lemma lower_hex64_hex64: "v < 16 ^ 64 \<Longrightarrow> lower_hex64 (hex64 v)"
  by (simp add: lower_hex64_def hex64_form)

lemma lower_hex64_lower: "lower_hex64 s \<Longrightarrow> lower s = s"
  by (simp add: lower_hex64_def lower_hex_text)

lemma parse_binding_text:
  assumes "list_all lower_hex64 fs" "length fs = 7"
  shows "parseGpruMemoBindingV1 (binding_text fs @ r) =
    Inr \<lparr>mb_successorPortfolioRoot = fs ! 0, mb_successorBalancePoint = (fs ! 1, fs ! 2), mb_actionCommitment = fs ! 3,
         mb_encryptedBlindingDelta = fs ! 4, mb_deltaEphemeralPublicKey = (fs ! 5, fs ! 6)\<rparr>"
proof -
  have "list_all is_hex64 fs" using assms(1) by (auto simp: list_all_iff is_hex64_lower)
  moreover have "lower (fs ! i) = fs ! i" if "i < 7" for i
    using that assms by (simp add: list_all_length lower_hex64_lower)
  ultimately show ?thesis by (simp add: parseGpruMemoBindingV1_def match_binding_text assms(2))
qed


section \<open>Inverses\<close>

lemma bigint_mod_congruent: "bigint_mod x m mod m = x mod (m :: int)"
proof -
  have "x = bigint_mod x m + bigint_div x m * m" using bigint_rest [of x m] by simp
  then show ?thesis by (metis mod_mult_self1)
qed

lemma normalized_coefficient:
  assumes "0 < m"
  shows "bigint_mod (bigint_mod x m + m) m = x mod m"
proof -
  have "\<bar>bigint_mod x m\<bar> < \<bar>m\<bar>" using assms by (intro bigint_mod_less) simp
  then have "0 \<le> bigint_mod x m + m" using assms by simp
  then show ?thesis using assms by (simp add: bigint_mod_congruent)
qed

text \<open>
  the two inverses of scalars are exact. Their loops end for every argument, and a result is returned
  if and only if it is the one residue whose product with the argument is 1 modulo the group order;
  in every other case the call throws.
\<close>

theorem modular_inverses_exact:
  assumes "1 < order" "0 \<le> v"
  shows "(stealth_inverse order v = Inr i \<longleftrightarrow> 0 \<le> i \<and> i < order \<and> (v * i) mod order = 1) \<and>
    record_inverse order v = (case stealth_inverse order v of
       Inr j \<Rightarrow> Inr j
     | Inl _ \<Rightarrow> Inl (if v mod order = 0 then ''GPRU scan secret cannot be zero'' else ''GPRU scan secret is not invertible''))"
proof -
  obtain g t where l: "inverse_loop order (v mod order) 0 1 = (g, t)" by fastforce
  have "bigint_mod v order = v mod order" "jub_mod v order = v mod order" using assms by (simp_all add: jub_mod_eq)
  with assms(1) l have "record_inverse order v = (case stealth_inverse order v of
       Inr j \<Rightarrow> Inr j
     | Inl _ \<Rightarrow> Inl (if v mod order = 0 then ''GPRU scan secret cannot be zero'' else ''GPRU scan secret is not invertible''))"
    by (simp add: record_inverse_def stealth_inverse_def Let_def normalized_coefficient jub_mod_eq require_def)
  with stealth_inverse_iff [OF assms(1)] show ?thesis by blast
qed

theorem modular_inverses_exact_witness:
  "(stealth_inverse 7 3 = Inr 5 \<longleftrightarrow> (0 :: int) \<le> 5 \<and> (5 :: int) < 7 \<and> (3 * 5 :: int) mod 7 = 1) \<and>
    record_inverse 7 3 = (case stealth_inverse 7 3 of
       Inr j \<Rightarrow> Inr j
     | Inl _ \<Rightarrow> Inl (if (3 :: int) mod 7 = 0 then ''GPRU scan secret cannot be zero'' else ''GPRU scan secret is not invertible''))"
  by (rule modular_inverses_exact) simp_all


text \<open>
  The delta of a Memo: when the binding carries a delta encrypted to the scan key of the owner's seed, the record
  the owner decrypts has exactly this delta, and the commitment that the binding names.
\<close>

lemma memo_delta_recovered:
  assumes key: "deriveGpruBalanceScanKeyV1 (noble_sha256 c) seed = Inr (secret, pub)"
    and enc: "encryptBalanceBlindingDeltaV1 random delta pub scalar = Inr e"
    and fs: "list_all lower_hex64 [head, bx, by', ac]"
    and memo: "memo = binding_text [head, bx, by', ac, hex64 (encryptedDelta e), hex64 (px (ephemeralPublicKey e)),
        hex64 (py (ephemeralPublicKey e))] @ payload"
    and r: "decryptGpruLedgerMemoV1 h c x memo seed ek sx sy = Inr r"
  shows "ga_balanceBlindingDelta r = int_str delta" "ga_actionCommitment r = ac"
proof -
  define E where "E = ephemeralPublicKey e"
  have eph: "E = multiply BASE (ephemeralScalar e)" and cd: "0 \<le> encryptedDelta e" "encryptedDelta e < ORDER"
    using enc by (auto simp: E_def encryptBalanceBlindingDeltaV1_def Let_def jub_mod_eq)
  have "canonical_point E" by (simp add: eph multiply_eq canonical_BASE jub.ok_times)
  then have cp: "0 \<le> px E" "px E < FIELD" "0 \<le> py E" "py E < FIELD" by (simp_all add: canonical_iff)
  have hex: "lower_hex64 (hex64 (encryptedDelta e))" "lower_hex64 (hex64 (px E))" "lower_hex64 (hex64 (py E))"
    using cd cp by (auto intro!: lower_hex64_hex64 simp: FIELD_def ORDER_def)
  let ?fs = "[head, bx, by', ac, hex64 (encryptedDelta e), hex64 (px E), hex64 (py E)]"
  have parse: "parseGpruMemoBindingV1 memo = Inr \<lparr>mb_successorPortfolioRoot = head, mb_successorBalancePoint = (bx, by'),
      mb_actionCommitment = ac, mb_encryptedBlindingDelta = hex64 (encryptedDelta e),
      mb_deltaEphemeralPublicKey = (hex64 (px E), hex64 (py E))\<rparr>"
    using parse_binding_text [of ?fs payload] fs hex by (simp add: memo E_def)
  have "decryptBalanceBlindingDeltaV1 (big_hex (hex64 (encryptedDelta e))) \<lparr>px = big_hex (hex64 (px E)), py = big_hex (hex64 (py E))\<rparr> secret = Inr delta"
    using encrypted_delta_opens [OF key enc] cd cp unfolding E_def [symmetric] by (cases E) (simp add: big_hex_hex64)
  then obtain rec where v: "validateGpruBalanceActionRecordV1 h rec delta = Inr r" and a: "ga_actionCommitment r = ac"
    using r key by (auto simp: decryptGpruLedgerMemoV1_def parse Let_def split: option.splits)
  show "ga_actionCommitment r = ac" by (rule a)
  show "ga_balanceBlindingDelta r = int_str delta" using v by (auto simp: validateGpruBalanceActionRecordV1_def Let_def)
qed

end
