(* ===== verification/Gpru_History.thy ===== *)
theory Gpru_History
  imports Gpru_Records
begin

text \<open>
  \<open>sdks/tsn-sdk/src/gpru/balance-history.ts\<close>: the balances of an owner, rebuilt from decrypted Memo actions. The
  maps of the code are association lists in insertion order.
\<close>

record decrypted_memo_action =
  dm_memoPayload :: string
  dm_record :: gpru_action
  dm_onChainAction :: proof_action

record recovered_balance =
  rb_tokenId :: int
  rb_amountBaseUnits :: string
  rb_blindingScalar :: string

record recovered_history =
  rh_version :: int
  rh_latestSequence :: string
  rh_balances :: "recovered_balance list"
  rh_actions :: "(gpru_action \<times> string) list"

fun be_value :: "byte_list \<Rightarrow> int \<Rightarrow> int" where
  "be_value [] v = v"
| "be_value (b # bs) v = be_value bs (v * 256 + int b)"

definition memoCommitmentField :: "host \<Rightarrow> string \<Rightarrow> string" where
  "memoCommitmentField h memo = hex64 (bigint_mod (be_value (sha256 h (utf8 memo)) 0) FIELD)"

section \<open>Checking one action\<close>

text \<open>\<open>{ balanceBlindingDelta, ...ownerPayload } = record\<close>.\<close>

definition owner_payload :: "gpru_action \<Rightarrow> json" where
  "owner_payload r =
     JObj [(''version'', JNum (ga_version r)), (''recordType'', JStr (ga_recordType r)), (''sequence'', JStr (ga_sequence r)),
           (''previousMemoCommitment'', JStr (ga_previousMemoCommitment r)), (''actionCommitment'', JStr (ga_actionCommitment r)),
           (''authorizationCommitment'', JStr (ga_authorizationCommitment r)), (''nullifier'', JStr (ga_nullifier r)),
           (''actionKind'', JNum (ga_actionKind r)), (''tokenId'', JNum (ga_tokenId r)),
           (''amountBaseUnits'', JStr (ga_amountBaseUnits r))]"

definition check_action :: "host \<Rightarrow> decrypted_memo_action \<Rightarrow> (gpru_action \<times> string) result" where
  "check_action h a =
     and_then (parseGpruMemoBindingV1 (dm_memoPayload a)) (\<lambda>binding.
     and_then (js_BigInt (ga_balanceBlindingDelta (dm_record a))) (\<lambda>blind.
     and_then (validateGpruBalanceActionRecordV1 h (owner_payload (dm_record a)) blind) (\<lambda>validated.
     and_then (require (\<not> (ga_actionCommitment validated \<noteq> mb_actionCommitment binding \<or>
                           ga_actionCommitment validated \<noteq> pa_actionCommitment (dm_onChainAction a)))
       ''Decrypted GPRU action commitment differs from the on-chain proof binding'') (\<lambda>_.
     and_then (assertGpruMemoActionMatchesProofV1 validated (dm_onChainAction a)) (\<lambda>_.
     Inr (validated, memoCommitmentField h (dm_memoPayload a)))))))"

section \<open>The chain\<close>

definition sequence_of :: "gpru_action \<times> string \<Rightarrow> nat" where
  "sequence_of a = dec_val (ga_sequence (fst a))"

definition amount_of :: "gpru_action \<Rightarrow> int" where
  "amount_of r = int (dec_val (ga_amountBaseUnits r))"

record history_state =
  hs_balances :: "(int \<times> int) list"
  hs_blindings :: "(int \<times> int) list"
  hs_normalized :: "(gpru_action \<times> string) list"
  hs_expectedSequence :: int
  hs_expectedPreviousMemo :: string

definition history_start :: history_state where
  "history_start = \<lparr>hs_balances = [], hs_blindings = [], hs_normalized = [], hs_expectedSequence = 1,
     hs_expectedPreviousMemo = ZERO_MEMO\<rparr>"

definition entry_or_zero :: "(int \<times> int) list \<Rightarrow> int \<Rightarrow> int" where
  "entry_or_zero m k = (case map_of m k of None \<Rightarrow> 0 | Some v \<Rightarrow> v)"

definition next_balance :: "history_state \<Rightarrow> gpru_action \<Rightarrow> int" where
  "next_balance st r =
     (let prior = entry_or_zero (hs_balances st) (ga_tokenId r) in
      if ga_actionKind r = 1 then prior + amount_of r else prior - amount_of r)"

text \<open>\<open>BigInt(record.balanceBlindingDelta)\<close> of a validated record, whose delta is a printed integer.\<close>

definition delta_of :: "gpru_action \<Rightarrow> int" where
  "delta_of r = (case js_BigInt (ga_balanceBlindingDelta r) of Inr d \<Rightarrow> d | Inl _ \<Rightarrow> 0)"

definition history_step :: "history_state \<Rightarrow> gpru_action \<times> string \<Rightarrow> history_state result" where
  "history_step st a =
     (let r = fst a; sequence = int (sequence_of a); t = ga_tokenId r; nxt = next_balance st r in
      and_then (require (sequence = hs_expectedSequence st)
        (''GPRU Memo history has a sequence gap at '' @ int_str (hs_expectedSequence st))) (\<lambda>_.
      and_then (require (ga_previousMemoCommitment r = hs_expectedPreviousMemo st)
        (''GPRU Memo '' @ int_str sequence @ '' does not link to its decrypted predecessor'')) (\<lambda>_.
      and_then (require (\<not> nxt < 0)
        (''GPRU decrypted history produces a negative balance for token '' @ int_str t)) (\<lambda>_.
      Inr \<lparr>hs_balances = AList.update t nxt (hs_balances st),
           hs_blindings = AList.update t (bigint_mod (entry_or_zero (hs_blindings st) t + delta_of r) ORDER) (hs_blindings st),
           hs_normalized = hs_normalized st @ [a],
           hs_expectedSequence = hs_expectedSequence st + 1,
           hs_expectedPreviousMemo = snd a\<rparr>))))"

fun history_loop :: "history_state \<Rightarrow> (gpru_action \<times> string) list \<Rightarrow> history_state result" where
  "history_loop st [] = Inr st"
| "history_loop st (a # as) = and_then (history_step st a) (\<lambda>st'. history_loop st' as)"

definition by_sequence :: "(gpru_action \<times> string) list \<Rightarrow> (gpru_action \<times> string) list" where
  "by_sequence = sort_by (\<lambda>a b. sequence_of a \<le> sequence_of b)"

definition by_token :: "(int \<times> int) list \<Rightarrow> (int \<times> int) list" where
  "by_token = sort_by (\<lambda>a b. fst a \<le> fst b)"

text \<open>\<open>expectedLatestSequence\<close> is absent, a text or a number.\<close>

definition check_latest :: "(string + int) option \<Rightarrow> string \<Rightarrow> unit result" where
  "check_latest expected latest =
     (case expected of
        None \<Rightarrow> Inr ()
      | Some e \<Rightarrow>
          and_then (case e of Inl s \<Rightarrow> js_BigInt s | Inr n \<Rightarrow> Inr n) (\<lambda>n.
          require (latest = int_str n)
            (''GPRU Memo history ends at '' @ latest @ ''; expected '' @ (case e of Inl s \<Rightarrow> s | Inr n \<Rightarrow> int_str n))))"

definition recoverGpruBalanceHistoryV1 ::
  "host \<Rightarrow> decrypted_memo_action list \<Rightarrow> (string + int) option \<Rightarrow> recovered_history result" where
  "recoverGpruBalanceHistoryV1 h input expected =
     and_then (require (input \<noteq> []) ''No decrypted GPRU balance actions were supplied'') (\<lambda>_.
     and_then (map_result (check_action h) input) (\<lambda>checked.
     and_then (history_loop history_start (by_sequence checked)) (\<lambda>st.
     let latest = int_str (hs_expectedSequence st - 1) in
     and_then (check_latest expected latest) (\<lambda>_.
     Inr \<lparr>rh_version = 1, rh_latestSequence = latest,
          rh_balances = map (\<lambda>(t, amount). \<lparr>rb_tokenId = t, rb_amountBaseUnits = int_str amount,
             rb_blindingScalar = int_str (entry_or_zero (hs_blindings st) t)\<rparr>) (by_token (hs_balances st)),
          rh_actions = hs_normalized st\<rparr>))))"


section \<open>What one action contributes\<close>

definition chain_amount :: "proof_action \<Rightarrow> int" where
  "chain_amount p = (case js_BigInt (pa_amountBaseUnits p) of Inr n \<Rightarrow> n | Inl _ \<Rightarrow> 0)"

definition chain_change :: "int \<Rightarrow> proof_action \<Rightarrow> int" where
  "chain_change t p = (if pa_tokenId p = t then if pa_actionKind p = 1 then chain_amount p else - chain_amount p else 0)"

definition change :: "int \<Rightarrow> gpru_action \<times> string \<Rightarrow> int" where
  "change t a = (if ga_tokenId (fst a) = t then if ga_actionKind (fst a) = 1 then amount_of (fst a) else - amount_of (fst a) else 0)"

lemma int_str_dec: "int_str (int n) = dec n"
  by (simp add: int_str_def)

lemma int_str_eq_dec: "dec n = int_str z \<Longrightarrow> z = int n"
  by (metis int_str_dec int_str_inject)

lemma validated_parts:
  assumes "validateGpruBalanceActionRecordV1 h v blind = Inr r"
  shows "\<exists>n. ga_amountBaseUnits r = dec n" "ga_balanceBlindingDelta r = int_str blind" "\<exists>n. ga_sequence r = dec n"
  using assms by (auto simp: validateGpruBalanceActionRecordV1_def Let_def)

lemma check_action_Inr:
  assumes "check_action h a = Inr b"
  shows "snd b = memoCommitmentField h (dm_memoPayload a)"
    "ga_tokenId (fst b) = pa_tokenId (dm_onChainAction a)"
    "change t b = chain_change t (dm_onChainAction a)"
    "ga_actionCommitment (fst b) = pa_actionCommitment (dm_onChainAction a)"
    "\<exists>n. ga_sequence (fst b) = dec n"
proof -
  obtain v blind where v: "validateGpruBalanceActionRecordV1 h (owner_payload (dm_record a)) blind = Inr v"
    "b = (v, memoCommitmentField h (dm_memoPayload a))" "ga_actionCommitment v = pa_actionCommitment (dm_onChainAction a)"
    "assertGpruMemoActionMatchesProofV1 v (dm_onChainAction a) = Inr ()"
    using assms by (auto simp: check_action_def)
  obtain n where n: "ga_amountBaseUnits v = dec n" using validated_parts(1) [OF v(1)] by blast
  show "snd b = memoCommitmentField h (dm_memoPayload a)" "ga_tokenId (fst b) = pa_tokenId (dm_onChainAction a)"
    "ga_actionCommitment (fst b) = pa_actionCommitment (dm_onChainAction a)"
    using v(2-4) by (auto simp: assertGpruMemoActionMatchesProofV1_def)
  show "\<exists>n. ga_sequence (fst b) = dec n" using validated_parts(3) [OF v(1)] by (simp add: v(2))
  show "change t b = chain_change t (dm_onChainAction a)"
    using v(2,4) n
    by (auto simp: assertGpruMemoActionMatchesProofV1_def change_def chain_change_def chain_amount_def amount_of_def
        dest!: int_str_eq_dec)
qed

lemma map_result_list_all2: "map_result f xs = Inr ys \<longleftrightarrow> list_all2 (\<lambda>x y. f x = Inr y) xs ys"
  by (induction xs arbitrary: ys) (auto simp: list_all2_Cons1)

section \<open>The loop\<close>

lemma entry_or_zero_update:
  "entry_or_zero (AList.update k v m) t = (if t = k then v else entry_or_zero m t)"
  by (simp add: entry_or_zero_def update_conv)

lemma keys_update: "fst ` set (AList.update k v m) = insert k (fst ` set m)"
  by (induction m) auto

lemma history_step_Inr:
  assumes "history_step st a = Inr st'"
  shows "hs_expectedSequence st' = hs_expectedSequence st + 1" "int (sequence_of a) = hs_expectedSequence st"
    "ga_previousMemoCommitment (fst a) = hs_expectedPreviousMemo st" "hs_expectedPreviousMemo st' = snd a"
    "hs_normalized st' = hs_normalized st @ [a]"
    "entry_or_zero (hs_balances st') t = entry_or_zero (hs_balances st) t + change t a"
    "distinct (map fst (hs_balances st)) \<Longrightarrow> distinct (map fst (hs_balances st'))"
    "fst ` set (hs_balances st') = insert (ga_tokenId (fst a)) (fst ` set (hs_balances st))"
    "\<forall>t. 0 \<le> entry_or_zero (hs_balances st) t \<Longrightarrow> \<forall>t. 0 \<le> entry_or_zero (hs_balances st') t"
proof -
  let ?n = "next_balance st (fst a)" and ?t = "ga_tokenId (fst a)"
  have c: "int (sequence_of a) = hs_expectedSequence st" "ga_previousMemoCommitment (fst a) = hs_expectedPreviousMemo st"
      "0 \<le> ?n"
    and st': "hs_balances st' = AList.update ?t ?n (hs_balances st)" "hs_normalized st' = hs_normalized st @ [a]"
      "hs_expectedSequence st' = hs_expectedSequence st + 1" "hs_expectedPreviousMemo st' = snd a"
    using assms by (auto simp: history_step_def Let_def)
  show "hs_expectedSequence st' = hs_expectedSequence st + 1" "int (sequence_of a) = hs_expectedSequence st"
    "ga_previousMemoCommitment (fst a) = hs_expectedPreviousMemo st" "hs_expectedPreviousMemo st' = snd a"
    "hs_normalized st' = hs_normalized st @ [a]" using c st' by simp_all
  show "entry_or_zero (hs_balances st') t = entry_or_zero (hs_balances st) t + change t a"
    by (simp add: st' entry_or_zero_update change_def next_balance_def)
  show "distinct (map fst (hs_balances st)) \<Longrightarrow> distinct (map fst (hs_balances st'))"
    by (simp add: st' distinct_update)
  show "fst ` set (hs_balances st') = insert ?t (fst ` set (hs_balances st))" by (simp add: st' keys_update)
  show "\<forall>t. 0 \<le> entry_or_zero (hs_balances st) t \<Longrightarrow> \<forall>t. 0 \<le> entry_or_zero (hs_balances st') t"
    using c(3) by (simp add: st' entry_or_zero_update)
qed

definition linked :: "int \<Rightarrow> string \<Rightarrow> (gpru_action \<times> string) list \<Rightarrow> bool" where
  "linked n prev as \<longleftrightarrow>
     (\<forall>i < length as. int (sequence_of (as ! i)) = n + int i \<and>
        ga_previousMemoCommitment (fst (as ! i)) = (if i = 0 then prev else snd (as ! (i - 1))))"

lemma linked_Cons:
  "linked n prev (a # as) \<longleftrightarrow>
     int (sequence_of a) = n \<and> ga_previousMemoCommitment (fst a) = prev \<and> linked (n + 1) (snd a) as"
  unfolding linked_def by (auto simp: All_less_Suc2 nth_Cons' add.assoc)

lemma history_loop_facts:
  "history_loop st as = Inr st' \<Longrightarrow>
   hs_expectedSequence st' = hs_expectedSequence st + int (length as) \<and>
   linked (hs_expectedSequence st) (hs_expectedPreviousMemo st) as \<and>
   hs_normalized st' = hs_normalized st @ as \<and>
   entry_or_zero (hs_balances st') t = entry_or_zero (hs_balances st) t + (\<Sum>a\<leftarrow>as. change t a) \<and>
   fst ` set (hs_balances st') = fst ` set (hs_balances st) \<union> (\<lambda>a. ga_tokenId (fst a)) ` set as"
proof (induction as arbitrary: st)
  case (Cons a as)
  obtain st1 where st1: "history_step st a = Inr st1" "history_loop st1 as = Inr st'" using Cons.prems by auto
  note s = history_step_Inr [OF st1(1)]
  from Cons.IH [OF st1(2)] s(1-6,8) show ?case by (auto simp: linked_Cons)
qed (simp add: linked_def)

lemma history_loop_keeps:
  "history_loop st as = Inr st' \<Longrightarrow> distinct (map fst (hs_balances st)) \<Longrightarrow>
   \<forall>t. 0 \<le> entry_or_zero (hs_balances st) t \<Longrightarrow>
   distinct (map fst (hs_balances st')) \<and> (\<forall>t. 0 \<le> entry_or_zero (hs_balances st') t)"
proof (induction as arbitrary: st)
  case (Cons a as)
  obtain st1 where st1: "history_step st a = Inr st1" "history_loop st1 as = Inr st'" using Cons.prems by auto
  show ?case by (rule Cons.IH [OF st1(2) history_step_Inr(7) [OF st1(1) Cons.prems(2)] history_step_Inr(9) [OF st1(1) Cons.prems(3)]])
qed simp


section \<open>The recovered history\<close>

interpretation sequences: comparator "\<lambda>a b. sequence_of a \<le> sequence_of b"
  by unfold_locales auto

interpretation tokens: comparator "\<lambda>a b :: int \<times> int. fst a \<le> fst b"
  by unfold_locales auto

lemma sum_list_checked:
  assumes "list_all2 (\<lambda>a b. check_action h a = Inr b) input checked"
  shows "(\<Sum>a\<leftarrow>checked. change t a) = (\<Sum>a\<leftarrow>input. chain_change t (dm_onChainAction a))"
    "(\<lambda>a. ga_tokenId (fst a)) ` set checked = (\<lambda>a. pa_tokenId (dm_onChainAction a)) ` set input"
  using assms by (induction rule: list_all2_induct) (auto simp: check_action_Inr(2,3))

lemma sum_list_by_sequence: "(\<Sum>a\<leftarrow>by_sequence xs. f a) = (\<Sum>a\<leftarrow>xs. (f a :: int))"
proof -
  have "mset (map f (by_sequence xs)) = mset (map f xs)" by (simp add: by_sequence_def)
  then show ?thesis by (simp only: sum_mset_sum_list [symmetric])
qed

lemma history_start_simps [simp]:
  "hs_balances history_start = []" "hs_expectedSequence history_start = 1" "hs_normalized history_start = []"
  "hs_expectedPreviousMemo history_start = ZERO_MEMO" "entry_or_zero [] t = 0"
  by (simp_all add: history_start_def entry_or_zero_def)

text \<open>
  C30: the balances recovered from a history are the balances on chain. For every token of the on-chain
  statements there is exactly one entry, in ascending order, and its amount is the sum of the credits
  minus the debits and exits of that token over all statements, in whatever order the actions were given;
  it is never negative.
\<close>

theorem recovered_balances_match_chain:
  assumes "recoverGpruBalanceHistoryV1 h input expected = Inr out"
  shows "map rb_tokenId (rh_balances out) =
      sorted_list_of_set ((\<lambda>a. pa_tokenId (dm_onChainAction a)) ` set input) \<and>
    (\<forall>b \<in> set (rh_balances out).
       0 \<le> (\<Sum>a\<leftarrow>input. chain_change (rb_tokenId b) (dm_onChainAction a)) \<and>
       rb_amountBaseUnits b = int_str (\<Sum>a\<leftarrow>input. chain_change (rb_tokenId b) (dm_onChainAction a)))"
proof -
  obtain checked st where ck: "list_all2 (\<lambda>a b. check_action h a = Inr b) input checked"
    and loop: "history_loop history_start (by_sequence checked) = Inr st"
    and bal: "rh_balances out = map (\<lambda>(t, amount). \<lparr>rb_tokenId = t, rb_amountBaseUnits = int_str amount,
        rb_blindingScalar = int_str (entry_or_zero (hs_blindings st) t)\<rparr>) (by_token (hs_balances st))"
    using assms by (auto simp: recoverGpruBalanceHistoryV1_def Let_def map_result_list_all2)
  note facts = history_loop_facts [OF loop]
  have keep: "distinct (map fst (hs_balances st))" "\<forall>t. 0 \<le> entry_or_zero (hs_balances st) t"
    using history_loop_keeps [OF loop] by simp_all
  have sum: "entry_or_zero (hs_balances st) t = (\<Sum>a\<leftarrow>input. chain_change t (dm_onChainAction a))" for t
    using facts [of t] by (simp add: sum_list_by_sequence sum_list_checked(1) [OF ck])
  have keys: "fst ` set (hs_balances st) = (\<lambda>a. pa_tokenId (dm_onChainAction a)) ` set input"
    using facts by (simp add: by_sequence_def sum_list_checked(2) [OF ck])
  have ids: "map rb_tokenId (rh_balances out) = map fst (by_token (hs_balances st))"
    by (simp add: bal case_prod_beta)
  have "sorted (map fst (by_token (hs_balances st)))"
    using tokens.sorted_sort_by [of "hs_balances st"] by (simp add: by_token_def sorted_wrt_map)
  moreover have "mset (map fst (by_token (hs_balances st))) = mset (map fst (hs_balances st))" by (simp add: by_token_def)
  then have "distinct (map fst (by_token (hs_balances st)))" using keep(1) mset_eq_imp_distinct_iff by blast
  ultimately have one: "map rb_tokenId (rh_balances out) = sorted_list_of_set (fst ` set (hs_balances st))"
    unfolding ids by (metis by_token_def list.set_map set_sort_by sorted_list_of_set.idem_if_sorted_distinct)
  have "amount = entry_or_zero (hs_balances st) t" if "(t, amount) \<in> set (hs_balances st)" for t amount
    using that keep(1) by (simp add: entry_or_zero_def)
  then show ?thesis using one keep(2) by (auto simp: keys bal by_token_def sum)
qed

text \<open>
  C31: a history is accepted only when its actions form one chain: sorted by sequence they are numbered from
  1 to the number of actions without a gap or a repetition, the first has no predecessor and every other
  names the commitment of the Memo before it, and the actions returned are the checked inputs in that
  order.
\<close>

theorem recovered_history_is_a_chain:
  assumes "recoverGpruBalanceHistoryV1 h input expected = Inr out"
  shows "linked 1 ZERO_MEMO (rh_actions out) \<and> rh_latestSequence out = dec (length input) \<and>
    (\<exists>xs. mset xs = mset input \<and> list_all2 (\<lambda>a b. check_action h a = Inr b) xs (rh_actions out))"
proof -
  obtain checked st where ck: "list_all2 (\<lambda>a b. check_action h a = Inr b) input checked"
    and loop: "history_loop history_start (by_sequence checked) = Inr st"
    and res: "rh_latestSequence out = int_str (hs_expectedSequence st - 1)" "rh_actions out = hs_normalized st"
    using assms by (auto simp: recoverGpruBalanceHistoryV1_def Let_def map_result_list_all2)
  note facts = history_loop_facts [OF loop]
  have len: "length checked = length input" using ck by (simp add: list_all2_lengthD)
  have flip: "list_all2 (\<lambda>b a. check_action h a = Inr b) checked input" using ck by (simp add: list_all2_conv_all_nth)
  obtain xs where xs: "list_all2 (\<lambda>b a. check_action h a = Inr b) (by_sequence checked) xs" "mset xs = mset input"
    using list_all2_reorder_left_invariance [OF flip, of "by_sequence checked"] by (auto simp: by_sequence_def)
  have "list_all2 (\<lambda>a b. check_action h a = Inr b) xs (by_sequence checked)"
    using xs(1) by (simp add: list_all2_conv_all_nth)
  with xs(2) show ?thesis using facts res len by (auto simp: by_sequence_def int_str_dec)
qed

lemma linked_distinct:
  assumes "linked n prev as"
  shows "distinct (map sequence_of as)"
  unfolding distinct_conv_nth
proof (intro allI impI)
  fix i j assume ij: "i < length (map sequence_of as)" "j < length (map sequence_of as)" "i \<noteq> j"
  then have "int (sequence_of (as ! i)) = n + int i" "int (sequence_of (as ! j)) = n + int j"
    using assms unfolding linked_def by simp_all
  with ij show "map sequence_of as ! i \<noteq> map sequence_of as ! j" by auto
qed

lemma by_sequence_unique:
  assumes "mset xs = mset ys" "distinct (map sequence_of xs)"
  shows "by_sequence xs = by_sequence ys"
proof -
  have s: "sorted (map sequence_of (by_sequence zs))" for zs
    using sequences.sorted_sort_by [of zs] by (simp add: by_sequence_def sorted_wrt_map)
  have set: "set ys = set xs" using assms(1) by (metis mset_eq_setD)
  have m: "mset (map sequence_of (by_sequence xs)) = mset (map sequence_of xs)"
    "mset (map sequence_of (by_sequence ys)) = mset (map sequence_of xs)"
    using assms(1) by (simp_all add: by_sequence_def)
  then have "distinct (map sequence_of (by_sequence xs))" "distinct (map sequence_of (by_sequence ys))"
    using assms(2) mset_eq_imp_distinct_iff by blast+
  moreover have "inj_on sequence_of (set (by_sequence xs) \<union> set (by_sequence ys))"
    using assms(2) set by (simp add: by_sequence_def distinct_map)
  ultimately show ?thesis
    using s set by (intro map_sorted_distinct_set_unique [of sequence_of]) (auto simp: by_sequence_def)
qed

text \<open>
  the order in which decrypted actions are supplied does not matter: every permutation of an accepted
  history is accepted and gives the same balances and the same actions.
\<close>

theorem history_order_irrelevant:
  assumes rec: "recoverGpruBalanceHistoryV1 h input expected = Inr out" and perm: "mset input' = mset input"
  shows "recoverGpruBalanceHistoryV1 h input' expected = Inr out"
proof -
  obtain checked st where ck: "list_all2 (\<lambda>a b. check_action h a = Inr b) input checked"
    and loop: "history_loop history_start (by_sequence checked) = Inr st" and ne: "input \<noteq> []"
    using rec by (auto simp: recoverGpruBalanceHistoryV1_def Let_def map_result_list_all2)
  obtain checked' where ck': "list_all2 (\<lambda>a b. check_action h a = Inr b) input' checked'" "mset checked' = mset checked"
    using list_all2_reorder_left_invariance [OF ck perm] by blast
  have "linked 1 ZERO_MEMO (by_sequence checked)" using history_loop_facts [OF loop] by simp
  then have "distinct (map sequence_of (by_sequence checked))" by (rule linked_distinct)
  moreover have "mset (map sequence_of (by_sequence checked)) = mset (map sequence_of checked)" by (simp add: by_sequence_def)
  ultimately have "distinct (map sequence_of checked)" using mset_eq_imp_distinct_iff by blast
  then have same: "by_sequence checked' = by_sequence checked" using by_sequence_unique [OF ck'(2) [symmetric]] by simp
  have "map_result (check_action h) input' = Inr checked'" "map_result (check_action h) input = Inr checked"
    using ck ck'(1) by (simp_all add: map_result_list_all2)
  moreover have "input' \<noteq> []" using ne perm by (metis mset_zero_iff)
  ultimately show ?thesis using rec ne by (simp add: recoverGpruBalanceHistoryV1_def same)
qed


section \<open>Well-formed records\<close>

lemma dec_dec_val: "positive_decimal s \<Longrightarrow> dec (dec_val s) = s"
proof (induction s rule: rev_induct)
  case (snoc c s)
  then have c: "is_digit c" "list_all is_digit s" by (auto simp: positive_decimal_def)
  note v = digit_val_less [OF c(1)] digit_char_digit_val [OF c(1)]
  show ?case
  proof (cases "s = []")
    case True
    with v show ?thesis by (simp add: dec.simps)
  next
    case False
    then have p: "positive_decimal s" using snoc.prems by (auto simp: positive_decimal_def)
    with snoc.IH have s: "dec (dec_val s) = s" by blast
    have "dec_val s \<noteq> 0"
    proof
      assume "dec_val s = 0"
      with s have "s = dec 0" by simp
      moreover have "dec 0 = ''0''" by code_simp
      ultimately show False using p by (simp add: positive_decimal_def)
    qed
    moreover have "dec_val (s @ [c]) = dec_val s * 10 + digit_val c" by (simp add: dec_val_append)
    ultimately show ?thesis using v s by (subst dec.simps) simp
  qed
qed (simp add: positive_decimal_def)

definition field_hex :: "string \<Rightarrow> bool" where
  "field_hex s \<longleftrightarrow> lower_hex64 s \<and> big_hex s < FIELD"

definition action_ok :: "gpru_action \<Rightarrow> bool" where
  "action_ok r \<longleftrightarrow>
     ga_version r = 1 \<and> ga_recordType r = RECORD_TYPE \<and>
     positive_decimal (ga_sequence r) \<and> int (dec_val (ga_sequence r)) \<le> u64_limit \<and>
     field_hex (ga_previousMemoCommitment r) \<and>
     (dec_val (ga_sequence r) = 1 \<longleftrightarrow> ga_previousMemoCommitment r = ZERO_MEMO) \<and>
     field_hex (ga_actionCommitment r) \<and> big_hex (ga_actionCommitment r) \<noteq> 0 \<and>
     field_hex (ga_authorizationCommitment r) \<and> big_hex (ga_authorizationCommitment r) \<noteq> 0 \<and>
     field_hex (ga_nullifier r) \<and> big_hex (ga_nullifier r) \<noteq> 0 \<and>
     ga_actionKind r \<in> {1, 2, 3} \<and> 0 < ga_tokenId r \<and> ga_tokenId r \<le> 0xffffffff \<and>
     positive_decimal (ga_amountBaseUnits r) \<and> int (dec_val (ga_amountBaseUnits r)) \<le> u64_limit"

lemma owner_payload_members:
  "member (owner_payload r) ''version'' = Some (JNum (ga_version r))"
  "member (owner_payload r) ''recordType'' = Some (JStr (ga_recordType r))"
  "member (owner_payload r) ''sequence'' = Some (JStr (ga_sequence r))"
  "member (owner_payload r) ''previousMemoCommitment'' = Some (JStr (ga_previousMemoCommitment r))"
  "member (owner_payload r) ''actionCommitment'' = Some (JStr (ga_actionCommitment r))"
  "member (owner_payload r) ''authorizationCommitment'' = Some (JStr (ga_authorizationCommitment r))"
  "member (owner_payload r) ''nullifier'' = Some (JStr (ga_nullifier r))"
  "member (owner_payload r) ''actionKind'' = Some (JNum (ga_actionKind r))"
  "member (owner_payload r) ''tokenId'' = Some (JNum (ga_tokenId r))"
  "member (owner_payload r) ''amountBaseUnits'' = Some (JStr (ga_amountBaseUnits r))"
  by (simp_all add: owner_payload_def)

lemma owner_payload_keys: "own_keys (owner_payload r) = Some EXPECTED_KEYS" "''balanceBlindingDelta'' \<notin> set EXPECTED_KEYS"
  by (simp_all add: owner_payload_def EXPECTED_KEYS_def)

lemma check_shape_owner: "check_shape (owner_payload r) = Inr u \<longleftrightarrow> ga_version r = 1 \<and> ga_recordType r = RECORD_TYPE"
  by (simp add: check_shape_def owner_payload_keys owner_payload_members)

lemma check_fields_owner:
  "check_fields (owner_payload r) = Inr u \<longleftrightarrow>
     positive_decimal (ga_sequence r) \<and> field_hex (ga_previousMemoCommitment r) \<and>
     field_hex (ga_actionCommitment r) \<and> big_hex (ga_actionCommitment r) \<noteq> 0 \<and>
     field_hex (ga_authorizationCommitment r) \<and> big_hex (ga_authorizationCommitment r) \<noteq> 0 \<and>
     field_hex (ga_nullifier r) \<and> big_hex (ga_nullifier r) \<noteq> 0"
  by (auto simp: check_fields_def owner_payload_members String_of_def field_hex_def Let_def)

lemma check_amounts_owner:
  "check_amounts h (owner_payload r) blind = Inr u \<longleftrightarrow>
     ga_actionKind r \<in> {1, 2, 3} \<and> 0 < ga_tokenId r \<and> ga_tokenId r \<le> 0xffffffff \<and>
     positive_decimal (ga_amountBaseUnits r) \<and> int (dec_val (ga_sequence r)) \<le> u64_limit \<and>
     int (dec_val (ga_amountBaseUnits r)) \<le> u64_limit \<and> blind \<noteq> 0 \<and> blind < ORDER"
  by (auto simp: check_amounts_def owner_payload_members String_of_def not_le not_less)

lemma validate_owner_payload:
  "validateGpruBalanceActionRecordV1 h (owner_payload r) blind = Inr r' \<longleftrightarrow>
     action_ok r \<and> blind \<noteq> 0 \<and> blind < ORDER \<and> r' = r\<lparr>ga_balanceBlindingDelta := int_str blind\<rparr>"
proof -
  have same: "lower s = s" if "field_hex s" for s using that by (simp add: field_hex_def lower_hex64_lower)
  have num: "dec (dec_val s) = s" if "positive_decimal s" for s using that by (rule dec_dec_val)
  have one: "dec (Suc 0) = s" if "positive_decimal s" "dec_val s = Suc 0" for s using num [OF that(1)] that(2) by simp
  show ?thesis
    unfolding validateGpruBalanceActionRecordV1_def Let_def owner_payload_members and_then_Inr_iff check_shape_owner
      check_fields_owner check_amounts_owner
    by (cases r) (auto simp: action_ok_def owner_payload_members String_of_def same num kind_number_def token_number_def intro: one)
qed


section \<open>An example\<close>

definition memo_host :: host where
  "memo_host = sample_host\<lparr>sha256 := (\<lambda>bs. replicate 31 0 @ [5])\<rparr>"

definition memo_hex :: "char \<Rightarrow> string" where
  "memo_hex c = replicate 63 (CHR ''0'') @ [c]"

definition sample_fields :: "char \<Rightarrow> string list" where
  "sample_fields c = map memo_hex [CHR ''1'', CHR ''2'', CHR ''3'', c, CHR ''4'', CHR ''5'', CHR ''6'']"

definition sample_memo :: "char \<Rightarrow> string" where
  "sample_memo c = binding_text (sample_fields c) @ ''AA''"

definition sample_action :: "nat \<Rightarrow> string \<Rightarrow> char \<Rightarrow> int \<Rightarrow> string \<Rightarrow> gpru_action" where
  "sample_action n prev c kind amount =
     \<lparr>ga_version = 1, ga_recordType = RECORD_TYPE, ga_sequence = dec n, ga_previousMemoCommitment = prev,
      ga_actionCommitment = memo_hex c, ga_authorizationCommitment = memo_hex (CHR ''8''), ga_nullifier = memo_hex c,
      ga_actionKind = kind, ga_tokenId = 7, ga_amountBaseUnits = amount, ga_balanceBlindingDelta = ''11''\<rparr>"

definition sample_memo_action :: "nat \<Rightarrow> string \<Rightarrow> char \<Rightarrow> int \<Rightarrow> string \<Rightarrow> decrypted_memo_action" where
  "sample_memo_action n prev c kind amount =
     \<lparr>dm_memoPayload = sample_memo c, dm_record = sample_action n prev c kind amount,
      dm_onChainAction = \<lparr>pa_actionKind = kind, pa_tokenId = 7, pa_amountBaseUnits = amount, pa_actionCommitment = memo_hex c,
        pa_authorizationCommitment = memo_hex (CHR ''8''), pa_nullifier = memo_hex c\<rparr>\<rparr>"

definition sample_history :: "decrypted_memo_action list" where
  "sample_history = [sample_memo_action 2 (memo_hex (CHR ''5'')) (CHR ''b'') 2 ''2'', sample_memo_action 1 ZERO_MEMO (CHR ''a'') 1 ''5'']"

definition sample_recovered :: recovered_history where
  "sample_recovered =
     \<lparr>rh_version = 1, rh_latestSequence = ''2'',
      rh_balances = [\<lparr>rb_tokenId = 7, rb_amountBaseUnits = ''3'', rb_blindingScalar = ''22''\<rparr>],
      rh_actions = [(sample_action 1 ZERO_MEMO (CHR ''a'') 1 ''5'', memo_hex (CHR ''5'')),
                    (sample_action 2 (memo_hex (CHR ''5'')) (CHR ''b'') 2 ''2'', memo_hex (CHR ''5''))]\<rparr>"

lemma memo_hex_form: "is_lower_hex c \<Longrightarrow> lower_hex64 (memo_hex c)" "big_hex (memo_hex c) = int (hex_val c)"
  by (simp_all add: lower_hex64_def memo_hex_def is_lower_hex_def [of "CHR ''0''"] is_digit_def list_all_iff
      big_hex_append big_hex_zeros big_hex_single)

lemma ZERO_MEMO_form: "lower_hex64 ZERO_MEMO" "big_hex ZERO_MEMO = 0"
  by (simp_all add: lower_hex64_def ZERO_MEMO_def is_lower_hex_def is_digit_def list_all_iff big_hex_zeros)

lemma sample_fields_form: "is_lower_hex c \<Longrightarrow> list_all lower_hex64 (sample_fields c)"
proof -
  have d: "is_lower_hex (CHR ''1'')" "is_lower_hex (CHR ''2'')" "is_lower_hex (CHR ''3'')" "is_lower_hex (CHR ''4'')"
    "is_lower_hex (CHR ''5'')" "is_lower_hex (CHR ''6'')" by code_simp+
  assume "is_lower_hex c"
  with d show ?thesis by (simp add: sample_fields_def memo_hex_form(1))
qed

lemma sample_binding:
  "is_lower_hex c \<Longrightarrow> \<exists>b. parseGpruMemoBindingV1 (sample_memo c) = Inr b \<and> mb_actionCommitment b = memo_hex c"
  unfolding sample_memo_def by (subst parse_binding_text) (auto simp: sample_fields_form, auto simp: sample_fields_def)

lemma sample_memo_commitment: "memoCommitmentField memo_host m = memo_hex (CHR ''5'')"
proof -
  have "be_value (replicate n 0 @ [5]) 0 = 5" for n by (induction n) simp_all
  moreover have "hex_nat 5 = ''5''" by code_simp
  ultimately show ?thesis by (simp add: memoCommitmentField_def memo_host_def FIELD_def hex64_def padStart_def memo_hex_def)
qed

lemma sample_checked:
  assumes ok: "action_ok (sample_action n prev c kind amount)" and c: "is_lower_hex c" and amount: "js_BigInt amount = Inr v" "amount = int_str v"
  shows "check_action memo_host (sample_memo_action n prev c kind amount) =
    Inr (sample_action n prev c kind amount, memo_hex (CHR ''5''))"
proof -
  obtain b where b: "parseGpruMemoBindingV1 (sample_memo c) = Inr b" "mb_actionCommitment b = memo_hex c"
    using sample_binding [OF c] by blast
  have "js_BigInt ''11'' = Inr 11" by code_simp
  moreover have "int_str 11 = ''11''" by code_simp
  then have "validateGpruBalanceActionRecordV1 memo_host (owner_payload (sample_action n prev c kind amount)) 11 =
      Inr (sample_action n prev c kind amount)"
    using ok by (simp add: validate_owner_payload sample_action_def ORDER_def)
  moreover have "lower (memo_hex c) = memo_hex c" "lower (memo_hex (CHR ''8'')) = memo_hex (CHR ''8'')"
    using c memo_hex_form(1) by (simp_all add: lower_hex64_lower is_lower_hex_def is_digit_def)
  ultimately show ?thesis using b amount
    by (simp add: check_action_def sample_memo_action_def sample_action_def assertGpruMemoActionMatchesProofV1_def sample_memo_commitment)
qed

lemma sample_actions_ok:
  "action_ok (sample_action 1 ZERO_MEMO (CHR ''a'') 1 ''5'')"
  "action_ok (sample_action 2 (memo_hex (CHR ''5'')) (CHR ''b'') 2 ''2'')"
proof -
  have d: "dec 1 = ''1''" "dec 2 = ''2''" "positive_decimal ''1''" "positive_decimal ''2''" "positive_decimal ''5''"
    "digit_val (CHR ''1'') = 1" "digit_val (CHR ''2'') = 2"
    "digit_val (CHR ''5'') = 5" "dec (Suc 0) = ''1''" by code_simp+
  have h: "is_lower_hex (CHR ''a'')" "is_lower_hex (CHR ''b'')" "is_lower_hex (CHR ''5'')" "is_lower_hex (CHR ''8'')"
    "hex_val (CHR ''a'') = 10" "hex_val (CHR ''b'') = 11" "hex_val (CHR ''5'') = 5" "hex_val (CHR ''8'') = 8" by code_simp+
  have z: "memo_hex (CHR ''5'') \<noteq> ZERO_MEMO" using memo_hex_form(2) [of "CHR ''5''"] ZERO_MEMO_form(2) h by auto
  show "action_ok (sample_action 1 ZERO_MEMO (CHR ''a'') 1 ''5'')"
    by (simp add: action_ok_def sample_action_def field_hex_def memo_hex_form ZERO_MEMO_form d h FIELD_def u64_limit_def)
  show "action_ok (sample_action 2 (memo_hex (CHR ''5'')) (CHR ''b'') 2 ''2'')"
    using z by (simp add: action_ok_def sample_action_def field_hex_def memo_hex_form d h FIELD_def u64_limit_def)
qed

lemma sample_history_recovered:
  "recoverGpruBalanceHistoryV1 memo_host sample_history (Some (Inr 2)) = Inr sample_recovered"
proof -
  have t: "js_BigInt ''5'' = Inr 5" "''5'' = int_str 5" "js_BigInt ''2'' = Inr 2" "''2'' = int_str 2"
    "is_lower_hex (CHR ''a'')" "is_lower_hex (CHR ''b'')" by code_simp+
  have m: "map_result (check_action memo_host) sample_history =
      Inr [(sample_action 2 (memo_hex (CHR ''5'')) (CHR ''b'') 2 ''2'', memo_hex (CHR ''5'')),
           (sample_action 1 ZERO_MEMO (CHR ''a'') 1 ''5'', memo_hex (CHR ''5''))]"
    using sample_checked [OF sample_actions_ok(1) t(5) t(1,2)] sample_checked [OF sample_actions_ok(2) t(6) t(3,4)]
    by (simp add: sample_history_def)
  have "and_then (history_loop history_start (by_sequence
      [(sample_action 2 (memo_hex (CHR ''5'')) (CHR ''b'') 2 ''2'', memo_hex (CHR ''5'')),
           (sample_action 1 ZERO_MEMO (CHR ''a'') 1 ''5'', memo_hex (CHR ''5''))])) (\<lambda>st.
     let latest = int_str (hs_expectedSequence st - 1) in
     and_then (check_latest (Some (Inr 2)) latest) (\<lambda>_.
     Inr \<lparr>rh_version = 1, rh_latestSequence = latest,
          rh_balances = map (\<lambda>(t, amount). \<lparr>rb_tokenId = t, rb_amountBaseUnits = int_str amount,
             rb_blindingScalar = int_str (entry_or_zero (hs_blindings st) t)\<rparr>) (by_token (hs_balances st)),
          rh_actions = hs_normalized st\<rparr>)) = Inr sample_recovered"
    by code_simp
  then show ?thesis by (simp add: recoverGpruBalanceHistoryV1_def m) (simp add: sample_history_def)
qed

theorem recovered_balances_match_chain_witness:
  "map rb_tokenId (rh_balances sample_recovered) =
      sorted_list_of_set ((\<lambda>a. pa_tokenId (dm_onChainAction a)) ` set sample_history) \<and>
    list_all (\<lambda>b.
       0 \<le> (\<Sum>a\<leftarrow>sample_history. chain_change (rb_tokenId b) (dm_onChainAction a)) \<and>
       rb_amountBaseUnits b = int_str (\<Sum>a\<leftarrow>sample_history. chain_change (rb_tokenId b) (dm_onChainAction a)))
      (rh_balances sample_recovered)"
  unfolding list_all_iff by (rule recovered_balances_match_chain [OF sample_history_recovered])

theorem recovered_history_is_a_chain_witness:
  "linked 1 ZERO_MEMO (rh_actions sample_recovered) \<and> rh_latestSequence sample_recovered = dec (length sample_history) \<and>
    (\<exists>xs. mset xs = mset sample_history \<and>
       list_all2 (\<lambda>a b. check_action memo_host a = Inr b) xs (rh_actions sample_recovered))"
  by (rule recovered_history_is_a_chain [OF sample_history_recovered])

theorem history_order_irrelevant_witness:
  "recoverGpruBalanceHistoryV1 memo_host (rev sample_history) (Some (Inr 2)) = Inr sample_recovered"
  by (rule history_order_irrelevant [OF sample_history_recovered]) simp

text \<open>
  A negative blinding delta passes the check that it lies inside the scalar field: only zero and the upper bound
  are tested.
\<close>

lemma negative_delta_accepted:
  "action_ok r \<Longrightarrow> blind < 0 \<Longrightarrow>
   validateGpruBalanceActionRecordV1 h (owner_payload r) blind = Inr (r\<lparr>ga_balanceBlindingDelta := int_str blind\<rparr>)"
  using ORDER_pos(1) by (simp add: validate_owner_payload del: ORDER_pos)

text \<open>
  The statement on chain is compared without regard to case by \<open>assertGpruMemoActionMatchesProofV1\<close>, but before
  that with regard to case: a statement with an upper-case commitment is refused.
\<close>

lemma upper_case_statement_refused:
  "pa_actionCommitment (dm_onChainAction a) \<noteq> lower (pa_actionCommitment (dm_onChainAction a)) \<Longrightarrow>
   check_action h a \<noteq> Inr b"
proof
  assume up: "pa_actionCommitment (dm_onChainAction a) \<noteq> lower (pa_actionCommitment (dm_onChainAction a))"
    and ok: "check_action h a = Inr b"
  then have "ga_actionCommitment (fst b) = lower (pa_actionCommitment (dm_onChainAction a))"
    by (auto simp: check_action_def assertGpruMemoActionMatchesProofV1_def)
  with check_action_Inr(4) [OF ok] up show False by simp
qed

end
