(* ===== verification/Payment_Authorization.thy ===== *)
theory Payment_Authorization
  imports Canonical_Message Complex_Main
begin

text \<open>
  The payment helpers of \<open>sdks/tsn-sdk/src\<close>: the text a sender signs for a payment (\<open>payment-authorization.ts\<close>), its
  verification (\<open>payment-authorization-server.ts\<close>, \<open>payment-jobs.ts\<close>), the intent request (\<open>contracts.ts\<close>), the fee
  quote (\<open>quote.ts\<close>) and the settlement estimate (\<open>settlement-economics.ts\<close>). Amounts given as numbers are
  their text; other numbers are rationals. The conversions between numbers and text are arguments, as are
  the clock, random bytes and the decoder of wallet addresses.
\<close>

section \<open>Signing\<close>

record authorization_params =
  au_senderWallet :: string
  au_senderIdentity :: string
  au_receiverIdentity :: string
  au_recipientDisplayName :: "string option"
  au_recipientDisplayNameSource :: "string option"
  au_recipientVerifiedCredentials :: "credential_claim list"
  au_tokenMintAddress :: string
  au_tokenDecimals :: int
  au_amount :: string
  au_senderFeeAmount :: string
  au_totalTokenRequiredUi :: rat
  au_nonce :: "string option"
  au_issuedAt :: "string option"
  au_expiresAt :: "string option"

text \<open>\<open>/(?:^|\|)tin:(\d+)/\<close>: the digits after the first \<open>tin:\<close> at the start or behind a bar. The second pattern of the
  code is a special case of the first.\<close>

definition tin_at :: "string \<Rightarrow> string option" where
  "tin_at s = (let d = takeWhile is_digit (drop 4 s) in if take 4 s = ''tin:'' \<and> d \<noteq> [] then Some d else None)"

fun tin_behind_bar :: "string \<Rightarrow> string option" where
  "tin_behind_bar [] = None"
| "tin_behind_bar (c # s) =
     (case (if c = CHR ''|'' then tin_at s else None) of Some t \<Rightarrow> Some t | None \<Rightarrow> tin_behind_bar s)"

definition identity_tin :: "string \<Rightarrow> string option" where
  "identity_tin s = (case tin_at s of Some t \<Rightarrow> Some t | None \<Rightarrow> tin_behind_bar s)"

definition recipient_tin :: "string \<Rightarrow> string result" where
  "recipient_tin identity =
     (case identity_tin identity of
        None \<Rightarrow> Inl ''recipient TIN is required for canonical TSN payment authorization''
      | Some t \<Rightarrow> Inr t)"

text \<open>The date of a message is printed last; an invalid date throws only then.\<close>

definition with_date :: "host \<Rightarrow> string \<Rightarrow> (int \<Rightarrow> string result) \<Rightarrow> string result" where
  "with_date h s build =
     (case date_parse h s of
        Some t \<Rightarrow> build t
      | None \<Rightarrow> and_then (build 0) (\<lambda>_. Inl ''Invalid time value''))"

definition TTL :: int where
  "TTL = 5 * 60000"

definition createPaymentAuthorizationExpiry :: "host \<Rightarrow> int \<Rightarrow> string" where
  "createPaymentAuthorizationExpiry h now = to_iso h (now + TTL)"

definition createPaymentAuthorizationNonce :: "byte_list \<Rightarrow> string" where
  "createPaymentAuthorizationNonce random = concat (map hex_byte random)"

definition or_else :: "'a option \<Rightarrow> 'a \<Rightarrow> 'a" where
  "or_else v d = (case v of None \<Rightarrow> d | Some x \<Rightarrow> x)"

definition createSenderPaymentAuthorizationMessage :: "host \<Rightarrow> int \<Rightarrow> authorization_params \<Rightarrow> string result" where
  "createSenderPaymentAuthorizationMessage h now p =
     and_then (recipient_tin (au_receiverIdentity p)) (\<lambda>tin.
     and_then (parseTokenAmountToBaseUnits (au_amount p) (au_tokenDecimals p) False) (\<lambda>amount.
     and_then (parseTokenAmountToBaseUnits (au_senderFeeAmount p) (au_tokenDecimals p) True) (\<lambda>fee.
     with_date h (or_else (au_expiresAt p) (createPaymentAuthorizationExpiry h now)) (\<lambda>expires.
       buildPaymentIntentMessage h
         \<lparr>p_amountBaseUnits = int amount, p_tokenMintAddress = au_tokenMintAddress p, p_tokenDecimals = au_tokenDecimals p,
          p_recipientTin = tin, p_recipientDisplayName = au_recipientDisplayName p,
          p_recipientDisplayNameSource = au_recipientDisplayNameSource p, p_credentials = au_recipientVerifiedCredentials p,
          p_feeBaseUnits = int fee, p_sender = ''Main Wallet'', p_nonce = or_else (au_nonce p) [], p_expires = expires\<rparr>))))"

record payment_authorization =
  pz_message :: string
  pz_amountBaseUnits :: string
  pz_feeBaseUnits :: string
  pz_nonce :: string
  pz_issuedAt :: string
  pz_expiresAt :: string

definition createPaymentAuthorization :: "host \<Rightarrow> int \<Rightarrow> byte_list \<Rightarrow> authorization_params \<Rightarrow> payment_authorization result" where
  "createPaymentAuthorization h now random p =
     (let nonce = or_else (au_nonce p) (createPaymentAuthorizationNonce random);
          issuedAt = or_else (au_issuedAt p) (to_iso h now);
          expiresAt = or_else (au_expiresAt p) (createPaymentAuthorizationExpiry h now)
      in and_then (parseTokenAmountToBaseUnits (au_amount p) (au_tokenDecimals p) False) (\<lambda>amount.
         and_then (parseTokenAmountToBaseUnits (au_senderFeeAmount p) (au_tokenDecimals p) True) (\<lambda>fee.
         and_then (createSenderPaymentAuthorizationMessage h now
             (p\<lparr>au_nonce := Some nonce, au_issuedAt := Some issuedAt, au_expiresAt := Some expiresAt\<rparr>)) (\<lambda>message.
         Inr \<lparr>pz_message = message, pz_amountBaseUnits = dec amount, pz_feeBaseUnits = dec fee, pz_nonce = nonce,
              pz_issuedAt = issuedAt, pz_expiresAt = expiresAt\<rparr>))))"

section \<open>Verifying\<close>

definition verifySenderPaymentAuthorization ::
  "host \<Rightarrow> (string \<Rightarrow> byte_list result) \<Rightarrow> string \<Rightarrow> string \<Rightarrow> string \<Rightarrow> bool result" where
  "verifySenderPaymentAuthorization h publicKey senderWallet signatureBase64 message =
     and_then (publicKey senderWallet) (\<lambda>key. Inr (ed25519_verify h key (utf8 message) (base64_decode h signatureBase64)))"

record payment_request =
  pr_senderWallet :: string
  pr_senderIdentity :: string
  pr_receiverIdentity :: string
  pr_tokenMintAddress :: string
  pr_tokenDecimals :: int
  pr_amount :: string
  pr_senderFeeAmount :: string
  pr_totalTokenRequiredUi :: rat
  pr_issuedAt :: string
  pr_nonce :: "string option"
  pr_expiresAt :: "string option"
  pr_signatureBase64 :: string
  pr_maxAgeMs :: "int option"

definition request_params :: "payment_request \<Rightarrow> authorization_params" where
  "request_params q =
     \<lparr>au_senderWallet = pr_senderWallet q, au_senderIdentity = pr_senderIdentity q, au_receiverIdentity = pr_receiverIdentity q,
      au_recipientDisplayName = None, au_recipientDisplayNameSource = None, au_recipientVerifiedCredentials = [],
      au_tokenMintAddress = pr_tokenMintAddress q, au_tokenDecimals = pr_tokenDecimals q, au_amount = pr_amount q,
      au_senderFeeAmount = pr_senderFeeAmount q, au_totalTokenRequiredUi = pr_totalTokenRequiredUi q, au_nonce = pr_nonce q,
      au_issuedAt = Some (pr_issuedAt q), au_expiresAt = pr_expiresAt q\<rparr>"

record sender_balance =
  sb_balance :: rat
  sb_symbol :: "string option"

text \<open>\<open>getSenderTokenBalance\<close> is absent or asks the chain; \<open>numtext\<close> prints a number.\<close>

definition check_balance ::
  "(rat \<Rightarrow> string) \<Rightarrow> (string \<Rightarrow> string \<Rightarrow> sender_balance result) option \<Rightarrow> payment_request \<Rightarrow> unit result" where
  "check_balance numtext getBalance q =
     (case getBalance of
        None \<Rightarrow> Inr ()
      | Some ask \<Rightarrow>
          and_then (ask (pr_senderWallet q) (pr_tokenMintAddress q)) (\<lambda>b.
          require (\<not> sb_balance b < pr_totalTokenRequiredUi q)
            (''Insufficient '' @ or_else (sb_symbol b) ''token'' @ '' balance. Required '' @
             numtext (pr_totalTokenRequiredUi q) @ '', available '' @ numtext (sb_balance b) @ ''.'')))"

definition verifyAuthorizedTsnPaymentRequest ::
  "host \<Rightarrow> int \<Rightarrow> (string \<Rightarrow> byte_list result) \<Rightarrow> (rat \<Rightarrow> string) \<Rightarrow> (string \<Rightarrow> string \<Rightarrow> sender_balance result) option \<Rightarrow>
   payment_request \<Rightarrow> string result" where
  "verifyAuthorizedTsnPaymentRequest h now publicKey numtext getBalance q =
     and_then (require (case date_parse h (pr_issuedAt q) of
         Some t \<Rightarrow> \<not> \<bar>now - t\<bar> > or_else (pr_maxAgeMs q) (5 * 60 * 1000) | None \<Rightarrow> False)
       ''Sender wallet authorization expired. Please review and sign again.'') (\<lambda>_.
     and_then (createSenderPaymentAuthorizationMessage h now (request_params q)) (\<lambda>message.
     and_then (verifySenderPaymentAuthorization h publicKey (pr_senderWallet q) (pr_signatureBase64 q) message) (\<lambda>valid.
     and_then (require valid ''Sender wallet authorization signature is invalid'') (\<lambda>_.
     and_then (check_balance numtext getBalance q) (\<lambda>_.
     Inr message)))))"


definition createCrossChainPaymentAuthorization ::
  "host \<Rightarrow> int \<Rightarrow> byte_list \<Rightarrow> authorization_params \<Rightarrow> cross_chain_params \<Rightarrow> (string \<times> string \<times> string \<times> string) result" where
  "createCrossChainPaymentAuthorization h now random p x =
     (let nonce = or_else (au_nonce p) (createPaymentAuthorizationNonce random);
          issuedAt = or_else (au_issuedAt p) (to_iso h now);
          expiresAt = or_else (au_expiresAt p) (createPaymentAuthorizationExpiry h now)
      in and_then (recipient_tin (au_receiverIdentity p)) (\<lambda>tin.
         and_then (parseTokenAmountToBaseUnits (au_amount p) 6 False) (\<lambda>amount.
         and_then (parseTokenAmountToBaseUnits (au_senderFeeAmount p) 6 True) (\<lambda>fee.
         and_then (with_date h expiresAt (\<lambda>expires.
           buildCrossChainPaymentIntentMessage h
             (x\<lparr>x_amountBaseUnits := int amount, x_recipientTin := tin, x_feeBaseUnits := int fee, x_sender := ''Main Wallet'',
                x_nonce := nonce, x_expires := expires\<rparr>))) (\<lambda>message.
         Inr (message, nonce, issuedAt, expiresAt))))))"

section \<open>Intent requests\<close>

datatype intent_status = IntentPending | Onchain | Executed | Settled | Expired | IntentFailed | Canceled | Reverted

datatype ui_stage = StagePending | StageFunded | StageLeaseClaimed | StageCrankerPaid | StageEpochSettled | StageReverted

fun computeTsnUiStage :: "intent_status \<Rightarrow> ui_stage" where
  "computeTsnUiStage Reverted = StageReverted"
| "computeTsnUiStage IntentFailed = StageReverted"
| "computeTsnUiStage Canceled = StageReverted"
| "computeTsnUiStage Expired = StageReverted"
| "computeTsnUiStage Settled = StageEpochSettled"
| "computeTsnUiStage Executed = StageCrankerPaid"
| "computeTsnUiStage Onchain = StageFunded"
| "computeTsnUiStage IntentPending = StagePending"

text \<open>\<open>'n\<close> stands for numbers; an absent member is \<open>None\<close>.\<close>

record 'n intent_request =
  ir_paymentId :: string
  ir_intentSeedHash :: string
  ir_recipientHash :: string
  ir_recipientTin :: string
  ir_tokenMintAddress :: string
  ir_amount :: 'n
  ir_senderWallet :: string
  ir_senderAuthorizationMessage :: string
  ir_senderAuthorizationSignature :: string
  ir_senderAuthorizationNonce :: string
  ir_senderAuthorizationIssuedAt :: "string option"
  ir_senderAuthorizationExpiresAt :: "string option"
  ir_senderFeeAmount :: "'n option"
  ir_senderSignedFundingTransaction :: string
  ir_recipientAmount :: "'n option"
  ir_destinationNetwork :: "string option"
  ir_destinationExecutor :: "string option"
  ir_destinationToken :: "string option"
  ir_settlementRouteId :: "string option"
  ir_source :: "string option"

definition normalizeRecipientHash :: "string \<Rightarrow> string result" where
  "normalizeRecipientHash v =
     (let n = lower (js_trim v) in
      and_then (require (length n = 64 \<and> list_all is_lower_hex n)
        ''recipientHash must be the 32-byte hexadecimal hash returned by TSN Node TIN resolution'') (\<lambda>_. Inr n))"

text \<open>The parameters have the members of the request; the two that are computed are filled in.\<close>

definition buildCreateIntentRequest :: "host \<Rightarrow> 'n intent_request \<Rightarrow> 'n intent_request result" where
  "buildCreateIntentRequest h p =
     and_then (normalizeRecipientHash (ir_recipientHash p)) (\<lambda>hash.
     Inr (p\<lparr>ir_intentSeedHash := sha256_hex h (ir_paymentId p), ir_recipientHash := hash\<rparr>))"

record 'n number_api =
  num_of :: "string \<Rightarrow> 'n option"
  num_text :: "'n \<Rightarrow> string"

definition exact_number :: "'n number_api \<Rightarrow> string \<Rightarrow> int \<Rightarrow> bool \<Rightarrow> string \<Rightarrow> 'n result" where
  "exact_number N v decimals zero err =
     and_then (parseTokenAmountToBaseUnits v decimals zero) (\<lambda>units.
     case num_of N v of
       None \<Rightarrow> Inl err
     | Some x \<Rightarrow>
         and_then (parseTokenAmountToBaseUnits (num_text N x) decimals zero) (\<lambda>again.
         and_then (require (again = units) err) (\<lambda>_. Inr x)))"

definition buildPaymentAuthorizationIntentRequest ::
  "host \<Rightarrow> 'n number_api \<Rightarrow> int \<Rightarrow> string \<Rightarrow> string option \<Rightarrow> 'n intent_request \<Rightarrow> 'n intent_request result" where
  "buildPaymentAuthorizationIntentRequest h N decimals amount senderFee p =
     and_then (exact_number N amount decimals False ''Payment amount cannot be represented exactly in the TSN intent request'') (\<lambda>requestAmount.
     and_then (exact_number N (or_else senderFee ''0'') decimals True ''Sender fee cannot be represented exactly in the TSN intent request'') (\<lambda>requestFee.
     and_then (buildCreateIntentRequest h
       (p\<lparr>ir_amount := requestAmount, ir_senderFeeAmount := (if senderFee = None then None else Some requestFee),
          ir_recipientAmount := None\<rparr>)) (\<lambda>r.
     Inr (r\<lparr>ir_recipientAmount := ir_recipientAmount p\<rparr>))))"

definition prepareTsnPaymentMempoolJobRequests :: "host \<Rightarrow> 'n intent_request \<Rightarrow> 'n intent_request result" where
  "prepareTsnPaymentMempoolJobRequests h p =
     and_then (buildCreateIntentRequest h
       (p\<lparr>ir_recipientAmount := None, ir_destinationNetwork := None, ir_destinationExecutor := None, ir_destinationToken := None,
          ir_settlementRouteId := None\<rparr>)) (\<lambda>r.
     Inr (r\<lparr>ir_recipientAmount := ir_recipientAmount p\<rparr>))"

definition createTsnPaymentMempoolJobs ::
  "host \<Rightarrow> ('n intent_request \<Rightarrow> 'i result) \<Rightarrow> 'n intent_request \<Rightarrow> ('n intent_request \<times> 'i) result" where
  "createTsnPaymentMempoolJobs h postIntent p =
     and_then (prepareTsnPaymentMempoolJobRequests h p) (\<lambda>r. and_then (postIntent r) (\<lambda>intent. Inr (r, intent)))"

section \<open>Fees\<close>

record fee_quote_input =
  fq_estimatedNetworkFeeLamports :: rat
  fq_solUsd :: "rat option"
  fq_tokenUsd :: "rat option"
  fq_tokenDecimals :: nat
  fq_coverageTxCount :: rat
  fq_feeBps :: rat
  fq_maxMarginUsd :: rat
  fq_maxUiAmount :: rat

definition lamportsToSol :: "rat \<Rightarrow> rat" where
  "lamportsToSol lamports = lamports / 1000000000"

definition roundUpToDecimals :: "rat \<Rightarrow> nat \<Rightarrow> rat" where
  "roundUpToDecimals v decimals = of_int \<lceil>v * 10 ^ decimals\<rceil> / 10 ^ decimals"

text \<open>A price is usable when it is present and not zero.\<close>

definition price :: "rat option \<Rightarrow> rat" where
  "price p = (case p of None \<Rightarrow> 0 | Some x \<Rightarrow> x)"

definition covered_fee_usd :: "fee_quote_input \<Rightarrow> rat" where
  "covered_fee_usd q = lamportsToSol (fq_estimatedNetworkFeeLamports q) * price (fq_solUsd q) * fq_coverageTxCount q"

definition margin_usd :: "fee_quote_input \<Rightarrow> rat" where
  "margin_usd q =
     (let uncapped = covered_fee_usd q * fq_feeBps q / 10000 in
      if 0 < fq_maxMarginUsd q then min uncapped (fq_maxMarginUsd q) else uncapped)"

definition quoteTransferFeeUiAmount :: "fee_quote_input \<Rightarrow> rat" where
  "quoteTransferFeeUiAmount q =
     (if fq_estimatedNetworkFeeLamports q \<le> 0 \<or> price (fq_solUsd q) = 0 \<or> price (fq_tokenUsd q) = 0 \<or>
         price (fq_tokenUsd q) \<le> 0 \<or> fq_coverageTxCount q \<le> 0 then 0
      else (let tokenFee = (covered_fee_usd q + margin_usd q) / price (fq_tokenUsd q);
                rounded = roundUpToDecimals tokenFee (fq_tokenDecimals q)
            in if 0 < fq_maxUiAmount q then min rounded (fq_maxUiAmount q) else rounded))"

datatype settlement_likelihood = LikelyClaimable | RiskyClaimAmount | EconomicallyNonClaimable

record economics_input =
  ec_paymentAmountUi :: rat
  ec_tokenUsd :: "rat option"
  ec_estimatedExecutionCostLamports :: rat
  ec_solUsd :: "rat option"
  ec_operatorFeeUi :: rat
  ec_ataCreationCostLamports :: "rat option"
  ec_safetyMultiplier :: "rat option"

record economics_result =
  er_likelihood :: settlement_likelihood
  er_netSettleableValueUi :: rat
  er_estimatedOperationalCostUi :: rat
  er_minimumTransferUi :: rat
  er_reason :: string

definition coarse_economics :: "economics_input \<Rightarrow> rat \<Rightarrow> economics_result" where
  "coarse_economics i safety =
     (let net = ec_paymentAmountUi i - ec_operatorFeeUi i in
      \<lparr>er_likelihood = (if net \<le> 0 then EconomicallyNonClaimable
         else if net < ec_paymentAmountUi i * (15 / 100) then RiskyClaimAmount else LikelyClaimable),
       er_netSettleableValueUi = max 0 net, er_estimatedOperationalCostUi = ec_operatorFeeUi i,
       er_minimumTransferUi = ec_operatorFeeUi i * safety,
       er_reason = ''Price feed unavailable; using conservative operator-only estimate.''\<rparr>)"

definition evaluateSettlementEconomics :: "economics_input \<Rightarrow> economics_result" where
  "evaluateSettlementEconomics i =
     (let safety = or_else (ec_safetyMultiplier i) (125 / 100);
          totalLamports = max 0 (ec_estimatedExecutionCostLamports i + or_else (ec_ataCreationCostLamports i) 0)
      in if price (ec_solUsd i) = 0 \<or> price (ec_tokenUsd i) = 0 \<or> price (ec_tokenUsd i) \<le> 0 then coarse_economics i safety
         else (let cost = lamportsToSol totalLamports * price (ec_solUsd i) / price (ec_tokenUsd i) + ec_operatorFeeUi i;
                   net = ec_paymentAmountUi i - cost;
                   minimum = cost * safety
               in if net \<le> 0
                  then \<lparr>er_likelihood = EconomicallyNonClaimable, er_netSettleableValueUi = 0, er_estimatedOperationalCostUi = cost,
                        er_minimumTransferUi = minimum, er_reason = ''Estimated settlement cost equals or exceeds transfer value.''\<rparr>
                  else if ec_paymentAmountUi i < minimum
                  then \<lparr>er_likelihood = RiskyClaimAmount, er_netSettleableValueUi = net, er_estimatedOperationalCostUi = cost,
                        er_minimumTransferUi = minimum,
                        er_reason = ''Transfer is above break-even but below safety threshold for reliable settlement.''\<rparr>
                  else \<lparr>er_likelihood = LikelyClaimable, er_netSettleableValueUi = net, er_estimatedOperationalCostUi = cost,
                        er_minimumTransferUi = minimum,
                        er_reason = ''Transfer appears economically settleable under current network conditions.''\<rparr>))"


section \<open>What a verified request authorizes\<close>

lemma authorization_message_Inr:
  assumes "createSenderPaymentAuthorizationMessage h now p = Inr m"
  obtains tin amount fee t where "recipient_tin (au_receiverIdentity p) = Inr tin"
    "parseTokenAmountToBaseUnits (au_amount p) (au_tokenDecimals p) False = Inr amount"
    "parseTokenAmountToBaseUnits (au_senderFeeAmount p) (au_tokenDecimals p) True = Inr fee"
    "date_parse h (or_else (au_expiresAt p) (createPaymentAuthorizationExpiry h now)) = Some t"
    "buildPaymentIntentMessage h
         \<lparr>p_amountBaseUnits = int amount, p_tokenMintAddress = au_tokenMintAddress p, p_tokenDecimals = au_tokenDecimals p,
          p_recipientTin = tin, p_recipientDisplayName = au_recipientDisplayName p,
          p_recipientDisplayNameSource = au_recipientDisplayNameSource p, p_credentials = au_recipientVerifiedCredentials p,
          p_feeBaseUnits = int fee, p_sender = ''Main Wallet'', p_nonce = or_else (au_nonce p) [], p_expires = t\<rparr> = Inr m"
  using assms by (auto simp: createSenderPaymentAuthorizationMessage_def with_date_def split: option.splits)

lemma main_wallet_plain: "plain_value ''Main Wallet''" "plain_value ''not provided''" "plain_value ''owner-provided''"
  by (simp_all add: plain_value_def is_space_def)

lemma authorization_message_parsed:
  assumes law: "text_law h" and m: "createSenderPaymentAuthorizationMessage h now p = Inr m"
    and plain: "au_tokenDecimals p \<noteq> 1" "nl \<notin> set (au_tokenMintAddress p)" "plain_value (or_else (au_nonce p) [])"
      "plain_value (or_else (au_recipientDisplayNameSource p) ''owner-provided'')"
      "\<forall>c \<in> set (au_recipientVerifiedCredentials p). distinct (map fst (claims c))"
  shows "\<exists>x. parsePaymentIntentMessage h m = Inr x \<and>
    parseTokenAmountToBaseUnits (au_amount p) (au_tokenDecimals p) False = Inr (amountBaseUnits x) \<and>
    parseTokenAmountToBaseUnits (au_senderFeeAmount p) (au_tokenDecimals p) True = Inr (feeBaseUnits x) \<and>
    recipient_tin (au_receiverIdentity p) = Inr (recipientTin x) \<and> tokenMintAddress x = js_trim (au_tokenMintAddress p) \<and>
    tokenDecimals x = au_tokenDecimals p \<and> pi_nonce x = or_else (au_nonce p) [] \<and>
    canonicalDisplayName (au_recipientDisplayName p) = Inr (recipientDisplayName x) \<and>
    date_parse h (or_else (au_expiresAt p) (createPaymentAuthorizationExpiry h now)) = Some (pi_expires x)"
proof -
  obtain tin amount fee t where parts: "recipient_tin (au_receiverIdentity p) = Inr tin"
      "parseTokenAmountToBaseUnits (au_amount p) (au_tokenDecimals p) False = Inr amount"
      "parseTokenAmountToBaseUnits (au_senderFeeAmount p) (au_tokenDecimals p) True = Inr fee"
      "date_parse h (or_else (au_expiresAt p) (createPaymentAuthorizationExpiry h now)) = Some t"
    and b: "buildPaymentIntentMessage h
         \<lparr>p_amountBaseUnits = int amount, p_tokenMintAddress = au_tokenMintAddress p, p_tokenDecimals = au_tokenDecimals p,
          p_recipientTin = tin, p_recipientDisplayName = au_recipientDisplayName p,
          p_recipientDisplayNameSource = au_recipientDisplayNameSource p, p_credentials = au_recipientVerifiedCredentials p,
          p_feeBaseUnits = int fee, p_sender = ''Main Wallet'', p_nonce = or_else (au_nonce p) [], p_expires = t\<rparr> = Inr m"
    (is "buildPaymentIntentMessage h ?p = Inr m")
    using m by (rule authorization_message_Inr)
  have src: "plain_value (display_source ?p)"
    using plain(4) by (auto simp: display_source_def or_else_def main_wallet_plain split: option.splits)
  from payment_text_parsed [OF law b, of amount fee] plain src show ?thesis
    using parts by (auto simp: main_wallet_plain)
qed


text \<open>
  C33: a signed expiry is never checked. Whoever holds one accepted request with an explicit expiry can have it
  accepted again at any later time, long after the expiry the sender signed, by writing a fresh \<open>issuedAt\<close>
  into it, which is not part of the signed text.
\<close>

theorem expired_authorization_accepted:
  assumes ok: "verifyAuthorizedTsnPaymentRequest h now publicKey numtext getBalance q = Inr m"
    and "pr_expiresAt q = Some e" and fresh: "date_parse h issued = Some t" "\<bar>later - t\<bar> \<le> or_else (pr_maxAgeMs q) 300000"
  shows "verifyAuthorizedTsnPaymentRequest h later publicKey numtext getBalance (q\<lparr>pr_issuedAt := issued\<rparr>) = Inr m"
proof -
  have "createSenderPaymentAuthorizationMessage h later (request_params (q\<lparr>pr_issuedAt := issued\<rparr>)) =
      createSenderPaymentAuthorizationMessage h now (request_params q)"
    using assms(2) by (simp add: createSenderPaymentAuthorizationMessage_def request_params_def or_else_def)
  with ok fresh show ?thesis
    by (auto simp: verifyAuthorizedTsnPaymentRequest_def check_balance_def split: option.splits)
qed

text \<open>
  A sender who signs for a recipient with a display name signs a text the verification never builds.
\<close>

lemma named_recipient_never_verifies:
  assumes "text_law h" and ok: "verifyAuthorizedTsnPaymentRequest h now publicKey numtext getBalance q = Inr m"
    and "pr_tokenDecimals q \<noteq> 1" "nl \<notin> set (pr_tokenMintAddress q)" "plain_value (or_else (pr_nonce q) [])"
    and s: "createSenderPaymentAuthorizationMessage h now' (request_params q\<lparr>au_recipientDisplayName := Some name\<rparr>) = Inr m'"
    and name: "js_trim name \<noteq> []" "js_trim name \<noteq> ''(not provided)''"
  shows "m' \<noteq> m"
proof -
  have m: "createSenderPaymentAuthorizationMessage h now (request_params q) = Inr m"
    using ok by (auto simp: verifyAuthorizedTsnPaymentRequest_def)
  obtain x where x: "parsePaymentIntentMessage h m = Inr x" "canonicalDisplayName None = Inr (recipientDisplayName x)"
    using authorization_message_parsed [OF assms(1) m] assms(3-5) by (auto simp: request_params_def or_else_def main_wallet_plain)
  obtain y where y: "parsePaymentIntentMessage h m' = Inr y" "canonicalDisplayName (Some name) = Inr (recipientDisplayName y)"
    using authorization_message_parsed [OF assms(1) s] assms(3-5) by (auto simp: request_params_def or_else_def main_wallet_plain)
  have "recipientDisplayName x = ''(not provided)''" "recipientDisplayName y = js_trim name"
    using x(2) y(2) name by (auto simp: canonicalDisplayName_def Let_def)
  with x(1) y(1) name(2) show ?thesis by auto
qed


text \<open>A request for 1.25 units of a mint, signed by a key of 32 sevens.\<close>

definition sample_payment_request :: "string \<Rightarrow> payment_request" where
  "sample_payment_request signature =
     \<lparr>pr_senderWallet = ''Wallet'', pr_senderIdentity = ''tin:7'', pr_receiverIdentity = ''a|tin:42'', pr_tokenMintAddress = ''Mint'',
      pr_tokenDecimals = 6, pr_amount = ''1.25'', pr_senderFeeAmount = ''0'', pr_totalTokenRequiredUi = 5 / 4, pr_issuedAt = to_iso sample_host 1000,
      pr_nonce = Some ''n1'', pr_expiresAt = Some (to_iso sample_host 2000), pr_signatureBase64 = signature, pr_maxAgeMs = None\<rparr>"

definition sample_wallet_key :: "string \<Rightarrow> byte_list result" where
  "sample_wallet_key wallet = Inr (replicate 32 7)"

definition sample_payment_signature :: "string \<Rightarrow> string" where
  "sample_payment_signature m = bytesToBase64Url (take 64 (replicate 32 7 @ utf8 m @ replicate 64 0))"

lemma utf8_byte: "b \<in> set (utf8 s) \<Longrightarrow> b < 256"
proof -
  have "code c div 64 < 64" for c :: char using code_less_256 [of c] by linarith
  then show "b \<in> set (utf8 s) \<Longrightarrow> b < 256" by (auto simp: utf8_def utf8_char_def split: if_splits)
qed

lemma sample_payment_parts:
  "recipient_tin ''a|tin:42'' = Inr ''42''" "parseTokenAmountToBaseUnits ''1.25'' 6 False = Inr 1250000"
  "parseTokenAmountToBaseUnits ''0'' 6 True = Inr 0"
proof -
  show "recipient_tin ''a|tin:42'' = Inr ''42''" by (simp add: recipient_tin_def identity_tin_def tin_at_def is_digit_def Let_def)
  have "decimal_parts (js_trim ''1.25'') = Some (''1'', Some ''25'')" "padEnd 6 ''25'' = ''250000''" by code_simp+
  moreover have "dec_val ''1'' = 1" "dec_val ''250000'' = 250000" by (simp_all add: dec_val_def digit_val_def)
  ultimately show "parseTokenAmountToBaseUnits ''1.25'' 6 False = Inr 1250000"
    by (simp add: parseTokenAmountToBaseUnits_def valid_decimals_def fraction_of_def base_units_def U64_MAX_def)
  have "decimal_parts (js_trim ''0'') = Some (''0'', None)" "padEnd 6 [] = ''000000''" by code_simp+
  moreover have "dec_val ''0'' = 0" "dec_val ''000000'' = 0" by (simp_all add: dec_val_def digit_val_def)
  ultimately show "parseTokenAmountToBaseUnits ''0'' 6 True = Inr 0"
    by (simp add: parseTokenAmountToBaseUnits_def valid_decimals_def fraction_of_def base_units_def U64_MAX_def)
qed

lemma sample_payment_message:
  "\<exists>m. \<forall>s. createSenderPaymentAuthorizationMessage sample_host now (request_params (sample_payment_request s)) = Inr m"
proof -
  have "js_trim ''Mint'' = ''Mint''" "canonicalDisplayName None = Inr ''(not provided)''" by code_simp+
  then show ?thesis
    by (simp add: createSenderPaymentAuthorizationMessage_def request_params_def sample_payment_request_def or_else_def with_date_def
        sample_payment_parts buildPaymentIntentMessage_def formatTokenBaseUnits_def valid_decimals_def parseTin_def
        canonicalRecipientCredentials_def is_digit_def)
qed

lemma sample_payment_verified:
  "\<exists>s m. verifyAuthorizedTsnPaymentRequest sample_host 1500 sample_wallet_key (\<lambda>_. ''n'') None (sample_payment_request s) = Inr m"
proof -
  obtain m where m: "createSenderPaymentAuthorizationMessage sample_host 1500 (request_params (sample_payment_request s)) = Inr m" for s
    using sample_payment_message by blast
  have "list_all (\<lambda>b. b < 256) (take 64 (replicate 32 7 @ utf8 m @ replicate 64 0))"
    by (auto simp: list_all_iff utf8_byte dest!: in_set_takeD)
  then have sig: "base64_decode sample_host (sample_payment_signature m) = take 64 (replicate 32 7 @ utf8 m @ replicate 64 0)"
    by (simp add: sample_payment_signature_def)
  have "verifySenderPaymentAuthorization sample_host sample_wallet_key w (sample_payment_signature m) m = Inr True" for w
    by (simp add: verifySenderPaymentAuthorization_def sample_wallet_key_def sig)
  moreover have "pr_issuedAt (sample_payment_request s) = to_iso sample_host 1000" "pr_maxAgeMs (sample_payment_request s) = None"
    "pr_signatureBase64 (sample_payment_request s) = s" for s
    by (simp_all add: sample_payment_request_def)
  ultimately have "verifyAuthorizedTsnPaymentRequest sample_host 1500 sample_wallet_key (\<lambda>_. ''n'') None
      (sample_payment_request (sample_payment_signature m)) = Inr m"
    by (simp add: verifyAuthorizedTsnPaymentRequest_def m check_balance_def or_else_def)
  then show ?thesis by blast
qed


theorem expired_authorization_accepted_witness:
  "\<exists>s m. verifyAuthorizedTsnPaymentRequest sample_host 9000000 sample_wallet_key (\<lambda>_. ''n'') None
     (sample_payment_request s\<lparr>pr_issuedAt := to_iso sample_host 8999999\<rparr>) = Inr m \<and>
     pr_expiresAt (sample_payment_request s) = Some (to_iso sample_host 2000)"
proof -
  obtain s m where v: "verifyAuthorizedTsnPaymentRequest sample_host 1500 sample_wallet_key (\<lambda>_. ''n'') None (sample_payment_request s) = Inr m"
    using sample_payment_verified by blast
  have p: "pr_expiresAt (sample_payment_request s) = Some (to_iso sample_host 2000)" "pr_maxAgeMs (sample_payment_request s) = None"
    by (simp_all add: sample_payment_request_def)
  then show ?thesis
    using expired_authorization_accepted [OF v, of "to_iso sample_host 2000" "to_iso sample_host 8999999" 8999999 9000000]
    by (auto simp: or_else_def)
qed

section \<open>Fees\<close>

lemma round_up_bounds: "v \<le> roundUpToDecimals v d" "roundUpToDecimals v d < v + 1 / 10 ^ d"
proof -
  have p: "(0::rat) < 10 ^ d" by simp
  have "v * 10 ^ d \<le> of_int \<lceil>v * 10 ^ d\<rceil>" "of_int \<lceil>v * 10 ^ d\<rceil> < v * 10 ^ d + 1" by linarith+
  then show "v \<le> roundUpToDecimals v d" "roundUpToDecimals v d < v + 1 / 10 ^ d"
    using p by (auto simp: roundUpToDecimals_def field_simps)
qed

lemma fee_is_capped: "0 < fq_maxUiAmount q \<Longrightarrow> quoteTransferFeeUiAmount q \<le> fq_maxUiAmount q"
  by (auto simp: quoteTransferFeeUiAmount_def Let_def)

lemma uncapped_fee_covers_cost:
  assumes "0 < fq_estimatedNetworkFeeLamports q" "0 < price (fq_tokenUsd q)" "0 < price (fq_solUsd q)" "0 < fq_coverageTxCount q"
    and "0 \<le> fq_feeBps q" "fq_maxUiAmount q \<le> 0"
  shows "covered_fee_usd q \<le> quoteTransferFeeUiAmount q * price (fq_tokenUsd q)"
proof -
  let ?t = "(covered_fee_usd q + margin_usd q) / price (fq_tokenUsd q)"
  have "0 \<le> covered_fee_usd q" using assms by (simp add: covered_fee_usd_def lamportsToSol_def)
  then have "0 \<le> margin_usd q" using assms(5) by (auto simp: margin_usd_def Let_def)
  moreover have "quoteTransferFeeUiAmount q = roundUpToDecimals ?t (fq_tokenDecimals q)"
    using assms by (simp add: quoteTransferFeeUiAmount_def Let_def)
  moreover have "?t * price (fq_tokenUsd q) = covered_fee_usd q + margin_usd q" using assms(2) by simp
  ultimately show ?thesis
    using mult_right_mono [OF round_up_bounds(1) [of ?t "fq_tokenDecimals q"], of "price (fq_tokenUsd q)"] assms(2) by simp
qed

text \<open>A payment judged claimable is worth its estimated cost.\<close>

lemma claimable_pays_its_cost:
  assumes "er_likelihood (evaluateSettlementEconomics i) \<noteq> EconomicallyNonClaimable"
  shows "er_estimatedOperationalCostUi (evaluateSettlementEconomics i) < ec_paymentAmountUi i"
    "er_netSettleableValueUi (evaluateSettlementEconomics i) =
       ec_paymentAmountUi i - er_estimatedOperationalCostUi (evaluateSettlementEconomics i)"
  using assms by (auto simp: evaluateSettlementEconomics_def coarse_economics_def Let_def split: if_splits)

end
