(* ===== verification/Tin_Envelopes.thy ===== *)
theory Tin_Envelopes
  imports Device_Authorization Json_Parse
begin

text \<open>
  The keys of a TIN, \<open>sdks/tsn-sdk/src/pru.ts\<close>, and its envelopes, \<open>tin-envelopes.ts\<close>: the locally encrypted master
  seed with its integrity commitment, and the list of receiving keys sealed for the Node. Members of a
  decoded envelope are JSON values where the code does not check more. The curve keys, the box of
  TweetNaCl, the address format and the text decoder are arguments.
\<close>

section \<open>Receiving keys\<close>

datatype pru_state = PLANNED | ACTIVE | USED | SWEPT

record pru_endpoint =
  pe_tinId :: string
  pe_index :: int
  pe_derivedPublicKey :: string
  pe_encryptedMetadata :: "string option"
  pe_state :: pru_state

definition DEFAULT_PRU_COUNT :: nat where
  "DEFAULT_PRU_COUNT = 30"

definition PRU_CONFIGURATION_TAG :: string where
  "PRU_CONFIGURATION_TAG = ''TSN_V1_TOKEN_AGNOSTIC_PRU_CONFIGURATION''"

definition TIN_MASTER_SEED_BYTES :: nat where
  "TIN_MASTER_SEED_BYTES = 32"

text \<open>The parts are texts here; \<open>sign_public\<close> is the public key of the key pair of a seed.\<close>

definition hashHex :: "host \<Rightarrow> string list \<Rightarrow> string" where
  "hashHex h parts = sha256_hex h (js_join ''|'' parts)"

definition derivePruPublicKey :: "host \<Rightarrow> (byte_list \<Rightarrow> byte_list) \<Rightarrow> string + byte_list \<Rightarrow> string \<Rightarrow> int \<Rightarrow> string result" where
  "derivePruPublicKey h sign_public masterSeed tinId index =
     and_then (require (\<not> index < 0) ''PRU index must be a non-negative integer'') (\<lambda>_.
       let masterSeedHex = (case masterSeed of Inl t \<Rightarrow> t | Inr bs \<Rightarrow> bytesToHex bs);
           seed = sha256 h (utf8 (''TRUSTLINK_PRU_KEY_V1|'' @ masterSeedHex @ ''|'' @ tinId @ ''|'' @ int_str index))
       in Inr (bytesToHex (sign_public seed)))"

definition derivePruSet :: "host \<Rightarrow> (byte_list \<Rightarrow> byte_list) \<Rightarrow> string + byte_list \<Rightarrow> string \<Rightarrow> (int \<Rightarrow> string option) \<Rightarrow> pru_state option \<Rightarrow>
    pru_endpoint list result" where
  "derivePruSet h sign_public masterSeed tinId metadata initial =
     map_result (\<lambda>i. and_then (derivePruPublicKey h sign_public masterSeed tinId i) (\<lambda>key.
         Inr \<lparr>pe_tinId = tinId, pe_index = i, pe_derivedPublicKey = key, pe_encryptedMetadata = metadata i,
              pe_state = (case initial of None \<Rightarrow> PLANNED | Some s \<Rightarrow> s)\<rparr>))
       (map int [0..<DEFAULT_PRU_COUNT])"

definition pru_line :: "pru_endpoint \<Rightarrow> string" where
  "pru_line p = pe_tinId p @ '':'' @ int_str (pe_index p) @ '':'' @ pe_derivedPublicKey p @ '':'' @
     (case pe_encryptedMetadata p of None \<Rightarrow> [] | Some m \<Rightarrow> m)"

definition computePruConfigurationHash :: "host \<Rightarrow> pru_endpoint list \<Rightarrow> string" where
  "computePruConfigurationHash h prus =
     hashHex h [PRU_CONFIGURATION_TAG, js_join [CHR 0x0A] (map pru_line (sort_key pe_index prus))]"

definition generateTinMasterSeed :: "(nat \<Rightarrow> byte_list) \<Rightarrow> byte_list result" where
  "generateTinMasterSeed randomBytes =
     (let seed = randomBytes TIN_MASTER_SEED_BYTES in
      and_then (require (length seed = TIN_MASTER_SEED_BYTES) ''TIN Master Seed must be exactly 32 bytes'') (\<lambda>_. Inr seed))"

section \<open>The envelope of the master seed\<close>

definition TIN_MASTER_SEED_ENVELOPE_VERSION :: string where
  "TIN_MASTER_SEED_ENVELOPE_VERSION = ''tsn-tin-master-seed-envelope''"

definition TIN_MASTER_SEED_LOCAL_ENCRYPTION_ALGORITHM :: string where
  "TIN_MASTER_SEED_LOCAL_ENCRYPTION_ALGORITHM = ''aes-256-gcm-local-master-seed''"

definition TIN_MASTER_SEED_ACCESS_DOMAIN :: string where
  "TIN_MASTER_SEED_ACCESS_DOMAIN = ''TSN_TIN_MASTER_SEED_ACCESS''"

definition TIN_PUBLIC_ROUTE_ENVELOPE_VERSION :: string where
  "TIN_PUBLIC_ROUTE_ENVELOPE_VERSION = ''tsn-tin-public-route-envelope''"

definition TIN_PUBLIC_ROUTE_ENCRYPTION_ALGORITHM :: string where
  "TIN_PUBLIC_ROUTE_ENCRYPTION_ALGORITHM = ''x25519-xsalsa20-poly1305''"

record seed_envelope =
  se_version :: string
  se_provider :: json
  se_tin :: json
  se_routeVersion :: int
  se_pruConfigurationHash :: string
  se_resourceCommitment :: string
  se_seedEncryptionAlgorithm :: string
  se_seedCiphertext :: json
  se_seedNonce :: json
  se_seedCiphertextCommitment :: json
  se_protectedKey :: json
  se_protectedKeyCommitment :: json
  se_accessControlHash :: json
  se_integrityCommitment :: json

definition assertHash32 :: "string \<Rightarrow> string \<Rightarrow> unit result" where
  "assertHash32 v label = require (is_hex64 v) (label @ '' must be a 32-byte hexadecimal commitment'')"

definition assertRouteVersion :: "int option \<Rightarrow> int result" where
  "assertRouteVersion v =
     (case v of
        None \<Rightarrow> Inl ''routeVersion must be a positive safe integer''
      | Some n \<Rightarrow> and_then (require (\<bar>n\<bar> \<le> max_safe_integer \<and> \<not> n < 1) ''routeVersion must be a positive safe integer'') (\<lambda>_. Inr n))"

text \<open>\<open>JSON.stringify\<close> writes the members in the order the envelope was built with.\<close>

definition envelope_json :: "seed_envelope \<Rightarrow> json" where
  "envelope_json e = JObj
     [(''version'', JStr (se_version e)), (''provider'', se_provider e), (''tin'', se_tin e), (''routeVersion'', JNum (se_routeVersion e)),
      (''pruConfigurationHash'', JStr (se_pruConfigurationHash e)), (''resourceCommitment'', JStr (se_resourceCommitment e)),
      (''seedEncryptionAlgorithm'', JStr (se_seedEncryptionAlgorithm e)), (''seedCiphertext'', se_seedCiphertext e),
      (''seedNonce'', se_seedNonce e), (''seedCiphertextCommitment'', se_seedCiphertextCommitment e), (''protectedKey'', se_protectedKey e),
      (''protectedKeyCommitment'', se_protectedKeyCommitment e), (''accessControlHash'', se_accessControlHash e),
      (''integrityCommitment'', se_integrityCommitment e)]"

definition encodeTinEnvelope :: "json \<Rightarrow> byte_list" where
  "encodeTinEnvelope v = utf8 (json_stringify v)"

definition parse_bytes :: "(byte_list \<Rightarrow> string) \<Rightarrow> byte_list \<Rightarrow> json result" where
  "parse_bytes td bs =
     (case json_parse (td bs) of None \<Rightarrow> Inl ''SyntaxError'' | Some JNull \<Rightarrow> Inl ''TypeError'' | Some v \<Rightarrow> Inr v)"

definition required_members :: "string list" where
  "required_members = [''provider'', ''tin'', ''seedCiphertext'', ''seedNonce'', ''seedCiphertextCommitment'', ''protectedKey'',
     ''protectedKeyCommitment'', ''accessControlHash'', ''integrityCommitment'']"

definition hash_members :: "string list" where
  "hash_members = [''pruConfigurationHash'', ''resourceCommitment'', ''seedCiphertextCommitment'', ''protectedKeyCommitment'',
     ''accessControlHash'', ''integrityCommitment'']"

fun check_hashes :: "json \<Rightarrow> string list \<Rightarrow> unit result" where
  "check_hashes v [] = Inr ()"
| "check_hashes v (k # ks) = and_then (assertHash32 (String_of (member v k)) k) (\<lambda>_. check_hashes v ks)"

definition decodeTinMasterSeedEnvelope :: "host \<Rightarrow> (byte_list \<Rightarrow> string) \<Rightarrow> byte_list \<Rightarrow> seed_envelope result" where
  "decodeTinMasterSeedEnvelope h td bs =
     and_then (parse_bytes td bs) (\<lambda>v.
     and_then (require (member v ''version'' = Some (JStr TIN_MASTER_SEED_ENVELOPE_VERSION)) ''TIN master-seed envelope version is unsupported'') (\<lambda>_.
     and_then (require (list_all (\<lambda>k. truthy (member v k)) required_members \<and>
         member v ''seedEncryptionAlgorithm'' = Some (JStr TIN_MASTER_SEED_LOCAL_ENCRYPTION_ALGORITHM))
       ''TIN master-seed envelope is incomplete'') (\<lambda>_.
     and_then (assertRouteVersion (js_number h (member v ''routeVersion''))) (\<lambda>routeVersion.
     and_then (check_hashes v hash_members) (\<lambda>_.
       let value = (\<lambda>k. the (member v k)) in
       Inr \<lparr>se_version = TIN_MASTER_SEED_ENVELOPE_VERSION, se_provider = value ''provider'', se_tin = value ''tin'',
            se_routeVersion = routeVersion, se_pruConfigurationHash = String_of (member v ''pruConfigurationHash''),
            se_resourceCommitment = String_of (member v ''resourceCommitment''),
            se_seedEncryptionAlgorithm = TIN_MASTER_SEED_LOCAL_ENCRYPTION_ALGORITHM, se_seedCiphertext = value ''seedCiphertext'',
            se_seedNonce = value ''seedNonce'', se_seedCiphertextCommitment = value ''seedCiphertextCommitment'',
            se_protectedKey = value ''protectedKey'', se_protectedKeyCommitment = value ''protectedKeyCommitment'',
            se_accessControlHash = value ''accessControlHash'', se_integrityCommitment = value ''integrityCommitment''\<rparr>)))))"

definition serializeTinMasterSeedWalletAuthorization ::
  "string \<Rightarrow> string \<Rightarrow> int \<Rightarrow> string \<Rightarrow> string \<Rightarrow> string \<Rightarrow> byte_list result" where
  "serializeTinMasterSeedWalletAuthorization tin ownerPublicKey routeVersion pruConfigurationHash resourceCommitment deviceSessionBinding =
     and_then (assertRouteVersion (Some routeVersion)) (\<lambda>_.
     and_then (assertHash32 pruConfigurationHash ''pruConfigurationHash'') (\<lambda>_.
     and_then (assertHash32 resourceCommitment ''resourceCommitment'') (\<lambda>_.
       Inr (canonicalFields [TIN_MASTER_SEED_ACCESS_DOMAIN, tin, ownerPublicKey, int_str routeVersion, lower pruConfigurationHash,
         lower resourceCommitment, deviceSessionBinding]))))"

text \<open>
  A field of the canonical text for a value that may not be a string: its \<open>length\<close> and its text.
\<close>

definition length_text :: "json \<Rightarrow> string" where
  "length_text v =
     (case v of JStr s \<Rightarrow> dec (length s) | JArr vs \<Rightarrow> dec (length vs) | JObj ob \<Rightarrow> String_of (map_of ob ''length'') | _ \<Rightarrow> ''undefined'')"

definition json_fields :: "json list \<Rightarrow> byte_list" where
  "json_fields vs = utf8 (js_join ''|'' (map (\<lambda>v. length_text v @ '':'' @ js_string v) vs))"

record seed_params =
  sq_provider :: json
  sq_tin :: json
  sq_ownerPublicKey :: string
  sq_routeVersion :: int
  sq_pruConfigurationHash :: string
  sq_resourceCommitment :: string
  sq_seedCiphertext :: json
  sq_seedNonce :: json
  sq_seedCiphertextCommitment :: json
  sq_protectedKey :: json
  sq_protectedKeyCommitment :: json
  sq_accessControlHash :: json

definition createTinMasterSeedEnvelope :: "host \<Rightarrow> seed_params \<Rightarrow> seed_envelope result" where
  "createTinMasterSeedEnvelope h p =
     and_then (assertRouteVersion (Some (sq_routeVersion p))) (\<lambda>_.
     and_then (assertHash32 (sq_pruConfigurationHash p) ''pruConfigurationHash'') (\<lambda>_.
     and_then (assertHash32 (sq_resourceCommitment p) ''resourceCommitment'') (\<lambda>_.
     and_then (assertHash32 (js_string (sq_seedCiphertextCommitment p)) ''seedCiphertextCommitment'') (\<lambda>_.
     and_then (assertHash32 (js_string (sq_protectedKeyCommitment p)) ''protectedKeyCommitment'') (\<lambda>_.
     and_then (assertHash32 (js_string (sq_accessControlHash p)) ''accessControlHash'') (\<lambda>_.
     and_then (toLowerCase (Some (sq_seedCiphertextCommitment p))) (\<lambda>seedCiphertextCommitment.
     and_then (toLowerCase (Some (sq_protectedKeyCommitment p))) (\<lambda>protectedKeyCommitment.
     and_then (toLowerCase (Some (sq_accessControlHash p))) (\<lambda>accessControlHash.
       Inr \<lparr>se_version = TIN_MASTER_SEED_ENVELOPE_VERSION, se_provider = sq_provider p, se_tin = sq_tin p,
            se_routeVersion = sq_routeVersion p, se_pruConfigurationHash = lower (sq_pruConfigurationHash p),
            se_resourceCommitment = lower (sq_resourceCommitment p),
            se_seedEncryptionAlgorithm = TIN_MASTER_SEED_LOCAL_ENCRYPTION_ALGORITHM, se_seedCiphertext = sq_seedCiphertext p,
            se_seedNonce = sq_seedNonce p, se_seedCiphertextCommitment = JStr seedCiphertextCommitment,
            se_protectedKey = sq_protectedKey p, se_protectedKeyCommitment = JStr protectedKeyCommitment,
            se_accessControlHash = JStr accessControlHash,
            se_integrityCommitment = JStr (sha256Hex (sha256 h) (json_fields
              [JStr TIN_MASTER_SEED_ENVELOPE_VERSION, sq_provider p, sq_tin p, JStr (sq_ownerPublicKey p), JStr (int_str (sq_routeVersion p)),
               JStr (lower (sq_pruConfigurationHash p)), JStr (lower (sq_resourceCommitment p)),
               JStr TIN_MASTER_SEED_LOCAL_ENCRYPTION_ALGORITHM, sq_seedCiphertext p, sq_seedNonce p, JStr seedCiphertextCommitment,
               sq_protectedKey p, JStr protectedKeyCommitment, JStr accessControlHash]))\<rparr>)))))))))"

definition params_of :: "string \<Rightarrow> seed_envelope \<Rightarrow> seed_params" where
  "params_of ownerPublicKey e =
     \<lparr>sq_provider = se_provider e, sq_tin = se_tin e, sq_ownerPublicKey = ownerPublicKey, sq_routeVersion = se_routeVersion e,
      sq_pruConfigurationHash = se_pruConfigurationHash e, sq_resourceCommitment = se_resourceCommitment e,
      sq_seedCiphertext = se_seedCiphertext e, sq_seedNonce = se_seedNonce e,
      sq_seedCiphertextCommitment = se_seedCiphertextCommitment e, sq_protectedKey = se_protectedKey e,
      sq_protectedKeyCommitment = se_protectedKeyCommitment e, sq_accessControlHash = se_accessControlHash e\<rparr>"

text \<open>The envelope is given as bytes, or as an object, which the code turns into bytes first.\<close>

definition validateTinMasterSeedEnvelope ::
  "host \<Rightarrow> (byte_list \<Rightarrow> string) \<Rightarrow> byte_list + json \<Rightarrow> string \<Rightarrow> string \<Rightarrow> string \<Rightarrow> seed_envelope result" where
  "validateTinMasterSeedEnvelope h td given tin ownerPublicKey pruConfigurationHash =
     and_then (decodeTinMasterSeedEnvelope h td (case given of Inl bs \<Rightarrow> bs | Inr v \<Rightarrow> utf8 (json_stringify v))) (\<lambda>envelope.
     and_then (require (se_tin envelope = JStr tin \<and> lower (se_pruConfigurationHash envelope) = lower pruConfigurationHash)
       ''TIN master-seed envelope identity does not match'') (\<lambda>_.
     and_then (createTinMasterSeedEnvelope h (params_of ownerPublicKey envelope)) (\<lambda>expected.
     and_then (require (se_integrityCommitment expected = se_integrityCommitment envelope)
       ''TIN master-seed envelope integrity check failed'') (\<lambda>_. Inr envelope))))"

section \<open>Public routes\<close>

definition decodeTinPublicRouteEnvelope :: "(byte_list \<Rightarrow> string) \<Rightarrow> byte_list \<Rightarrow> json result" where
  "decodeTinPublicRouteEnvelope td bs =
     and_then (parse_bytes td bs) (\<lambda>v.
     and_then (require (member v ''version'' = Some (JStr TIN_PUBLIC_ROUTE_ENVELOPE_VERSION) \<and>
         member v ''algorithm'' = Some (JStr TIN_PUBLIC_ROUTE_ENCRYPTION_ALGORITHM))
       ''TIN public-route envelope version or algorithm is unsupported'') (\<lambda>_.
     and_then (require (truthy (member v ''ephemeralPublicKey'') \<and> truthy (member v ''nonce'') \<and> truthy (member v ''ciphertext''))
       ''TIN public-route envelope is incomplete'') (\<lambda>_. Inr v)))"

record route_entry =
  re_index :: int
  re_publicKey :: string
  re_publicKeyHex :: string
  re_state :: pru_state

record route_payload =
  rp_version :: string
  rp_tin :: string
  rp_routeVersion :: int
  rp_routeNonce :: string
  rp_pruConfigurationHash :: string
  rp_prus :: "route_entry list"

text \<open>\<open>Buffer.from(s, "hex")\<close> stops at the first pair that is not hexadecimal.\<close>

fun buffer_hex :: "string \<Rightarrow> byte_list" where
  "buffer_hex (a # b # s) = (if is_hex a \<and> is_hex b then (16 * hex_val a + hex_val b) # buffer_hex s else [])"
| "buffer_hex _ = []"

definition createTinPublicRoutePayload ::
  "(byte_list \<Rightarrow> string result) \<Rightarrow> string \<Rightarrow> int \<Rightarrow> string \<Rightarrow> string \<Rightarrow> pru_endpoint list \<Rightarrow> route_payload result" where
  "createTinPublicRoutePayload toBase58 tin routeVersion routeNonce pruConfigurationHash prus =
     and_then (assertRouteVersion (Some routeVersion)) (\<lambda>_.
     and_then (assertHash32 routeNonce ''routeNonce'') (\<lambda>_.
     and_then (assertHash32 pruConfigurationHash ''pruConfigurationHash'') (\<lambda>_.
     and_then (map_result (\<lambda>pru. and_then (toBase58 (buffer_hex (pe_derivedPublicKey pru))) (\<lambda>key.
         Inr \<lparr>re_index = pe_index pru, re_publicKey = key, re_publicKeyHex = lower (pe_derivedPublicKey pru), re_state = pe_state pru\<rparr>))
       (sort_key pe_index prus)) (\<lambda>entries.
     Inr \<lparr>rp_version = TIN_PUBLIC_ROUTE_ENVELOPE_VERSION, rp_tin = tin, rp_routeVersion = routeVersion, rp_routeNonce = lower routeNonce,
          rp_pruConfigurationHash = lower pruConfigurationHash, rp_prus = entries\<rparr>))))"

fun state_text :: "pru_state \<Rightarrow> string" where
  "state_text PLANNED = ''PLANNED''"
| "state_text ACTIVE = ''ACTIVE''"
| "state_text USED = ''USED''"
| "state_text SWEPT = ''SWEPT''"

definition payload_json :: "route_payload \<Rightarrow> json" where
  "payload_json p = JObj
     [(''version'', JStr (rp_version p)), (''tin'', JStr (rp_tin p)), (''routeVersion'', JNum (rp_routeVersion p)),
      (''routeNonce'', JStr (rp_routeNonce p)), (''pruConfigurationHash'', JStr (rp_pruConfigurationHash p)),
      (''prus'', JArr (map (\<lambda>e. JObj [(''index'', JNum (re_index e)), (''publicKey'', JStr (re_publicKey e)),
         (''publicKeyHex'', JStr (re_publicKeyHex e)), (''state'', JStr (state_text (re_state e)))]) (rp_prus p)))]"

text \<open>\<open>box\<close> of TweetNaCl takes the text, the nonce, their public and our secret key.\<close>

record nacl_box =
  box_public :: "byte_list \<Rightarrow> byte_list"
  nacl_seal :: "byte_list \<Rightarrow> byte_list \<Rightarrow> byte_list \<Rightarrow> byte_list \<Rightarrow> byte_list"

definition encryptTinPublicRoutePayload ::
  "host \<Rightarrow> nacl_box \<Rightarrow> byte_list \<Rightarrow> byte_list \<Rightarrow> route_payload \<Rightarrow> string \<Rightarrow> json result" where
  "encryptTinPublicRoutePayload h box ephemeralSecret nonce payload nodeKeyBase64 =
     (let nodePublicKey = base64_decode h nodeKeyBase64 in
      and_then (require (nodeKeyBase64 \<noteq> [] \<and> nodePublicKey \<noteq> []) ''Node routing public key is invalid'') (\<lambda>_.
      and_then (require (length nodePublicKey = 32) ''Node routing public key must be exactly 32 bytes'') (\<lambda>_.
        Inr (JObj [(''version'', JStr TIN_PUBLIC_ROUTE_ENVELOPE_VERSION), (''algorithm'', JStr TIN_PUBLIC_ROUTE_ENCRYPTION_ALGORITHM),
          (''ephemeralPublicKey'', JStr (btoa (box_public box ephemeralSecret))), (''nonce'', JStr (btoa nonce)),
          (''ciphertext'', JStr (btoa (nacl_seal box (utf8 (json_stringify (payload_json payload))) nonce nodePublicKey ephemeralSecret)))]))))"


section \<open>An envelope belongs to its owner\<close>

lemma is_hex_to_lower [simp]: "is_hex (to_lower c) \<longleftrightarrow> is_hex c"
  by (auto simp: to_lower_def is_hex_def is_lower_hex_def is_digit_def)

lemma hex64_lower [simp]: "is_hex64 (lower s) \<longleftrightarrow> is_hex64 s"
  by (simp add: is_hex64_def list_all_iff) (simp add: lower_def)

lemma hex64_digest: "hash_law h \<Longrightarrow> is_hex64 (sha256Hex (sha256 h) bs)"
  using to_hex_lower_hex [of "sha256 h bs"] hash_lawD [of h bs] sha256Hex_length [of "sha256 h" bs]
  by (auto simp: is_hex64_def sha256Hex_def bytesToHex_def to_hex_def [symmetric] list_all_iff is_hex_def)

text \<open>Parameters as their type has them, with nothing empty.\<close>

definition is_text :: "json \<Rightarrow> bool" where
  "is_text v \<longleftrightarrow> (\<exists>s. v = JStr s \<and> s \<noteq> [])"

definition typed_params :: "seed_params \<Rightarrow> bool" where
  "typed_params p \<longleftrightarrow> is_text (sq_provider p) \<and> is_text (sq_seedCiphertext p) \<and> is_text (sq_seedNonce p) \<and> is_text (sq_protectedKey p)"

lemma toLowerCase_Inr: "toLowerCase v = Inr t \<longleftrightarrow> (\<exists>s. v = Some (JStr s) \<and> t = lower s)"
  by (cases v rule: toLowerCase.cases) auto

lemma create_Inr:
  assumes "createTinMasterSeedEnvelope h p = Inr e"
  obtains a b c where "sq_seedCiphertextCommitment p = JStr a" "sq_protectedKeyCommitment p = JStr b" "sq_accessControlHash p = JStr c"
    "is_hex64 a" "is_hex64 b" "is_hex64 c" "is_hex64 (sq_pruConfigurationHash p)" "is_hex64 (sq_resourceCommitment p)"
    "1 \<le> sq_routeVersion p" "sq_routeVersion p \<le> max_safe_integer"
  using assms that
  by (auto simp: createTinMasterSeedEnvelope_def assertRouteVersion_def assertHash32_def toLowerCase_Inr)

lemma create_again:
  assumes "createTinMasterSeedEnvelope h p = Inr e"
  shows "createTinMasterSeedEnvelope h (params_of (sq_ownerPublicKey p) e) = Inr e"
proof -
  obtain a b c where "sq_seedCiphertextCommitment p = JStr a" "sq_protectedKeyCommitment p = JStr b" "sq_accessControlHash p = JStr c"
    using assms by (rule create_Inr)
  with assms show ?thesis
    by (auto simp: createTinMasterSeedEnvelope_def assertHash32_def params_of_def)
qed

lemma decode_encode:
  assumes "hash_law h" "\<And>s. td (utf8 s) = s" "typed_params p" "sq_tin p = JStr tin" "tin \<noteq> []"
    and e: "createTinMasterSeedEnvelope h p = Inr e"
  shows "decodeTinMasterSeedEnvelope h td (encodeTinEnvelope (envelope_json e)) = Inr e"
proof -
  obtain a b c where p: "sq_seedCiphertextCommitment p = JStr a" "sq_protectedKeyCommitment p = JStr b" "sq_accessControlHash p = JStr c"
      "is_hex64 a" "is_hex64 b" "is_hex64 c" "is_hex64 (sq_pruConfigurationHash p)" "is_hex64 (sq_resourceCommitment p)"
      "1 \<le> sq_routeVersion p" "sq_routeVersion p \<le> max_safe_integer"
    using e by (rule create_Inr)
  obtain w x y z where t: "sq_provider p = JStr w" "sq_seedCiphertext p = JStr x" "sq_seedNonce p = JStr y" "sq_protectedKey p = JStr z"
      "w \<noteq> []" "x \<noteq> []" "y \<noteq> []" "z \<noteq> []"
    using assms(3) by (auto simp: typed_params_def is_text_def)
  have ne: "is_hex64 s \<Longrightarrow> lower s \<noteq> [] \<and> s \<noteq> []" for s by (auto simp: is_hex64_def lower_def)
  obtain ic where ic: "se_integrityCommitment e = JStr ic" "is_hex64 ic"
    using e hex64_digest [OF assms(1)] by (auto simp: createTinMasterSeedEnvelope_def)
  have v: "member (envelope_json e) ''version'' = Some (JStr TIN_MASTER_SEED_ENVELOPE_VERSION)"
    "member (envelope_json e) ''provider'' = Some (JStr w)" "member (envelope_json e) ''tin'' = Some (JStr tin)"
    "member (envelope_json e) ''routeVersion'' = Some (JNum (sq_routeVersion p))"
    "member (envelope_json e) ''pruConfigurationHash'' = Some (JStr (lower (sq_pruConfigurationHash p)))"
    "member (envelope_json e) ''resourceCommitment'' = Some (JStr (lower (sq_resourceCommitment p)))"
    "member (envelope_json e) ''seedEncryptionAlgorithm'' = Some (JStr TIN_MASTER_SEED_LOCAL_ENCRYPTION_ALGORITHM)"
    "member (envelope_json e) ''seedCiphertext'' = Some (JStr x)" "member (envelope_json e) ''seedNonce'' = Some (JStr y)"
    "member (envelope_json e) ''seedCiphertextCommitment'' = Some (JStr (lower a))" "member (envelope_json e) ''protectedKey'' = Some (JStr z)"
    "member (envelope_json e) ''protectedKeyCommitment'' = Some (JStr (lower b))"
    "member (envelope_json e) ''accessControlHash'' = Some (JStr (lower c))" "member (envelope_json e) ''integrityCommitment'' = Some (JStr ic)"
    using e p(1-3) t(1-4) assms(4) ic by (auto simp: createTinMasterSeedEnvelope_def envelope_json_def)
  have e_eq: "e = \<lparr>se_version = TIN_MASTER_SEED_ENVELOPE_VERSION, se_provider = JStr w, se_tin = JStr tin,
            se_routeVersion = sq_routeVersion p, se_pruConfigurationHash = lower (sq_pruConfigurationHash p),
            se_resourceCommitment = lower (sq_resourceCommitment p),
            se_seedEncryptionAlgorithm = TIN_MASTER_SEED_LOCAL_ENCRYPTION_ALGORITHM, se_seedCiphertext = JStr x,
            se_seedNonce = JStr y, se_seedCiphertextCommitment = JStr (lower a), se_protectedKey = JStr z,
            se_protectedKeyCommitment = JStr (lower b), se_accessControlHash = JStr (lower c), se_integrityCommitment = JStr ic\<rparr>"
    using e p(1-3) t(1-4) assms(4) ic by (auto simp: createTinMasterSeedEnvelope_def)
  have "wf_json (envelope_json e)"
    using e p(1-3) t(1-4) assms(4) by (auto simp: createTinMasterSeedEnvelope_def envelope_json_def wf_JObj)
  then have "parse_bytes td (encodeTinEnvelope (envelope_json e)) = Inr (envelope_json e)"
    by (simp add: parse_bytes_def encodeTinEnvelope_def assms(2) json_parse_stringify envelope_json_def)
  moreover have "list_all (\<lambda>k. truthy (member (envelope_json e) k)) required_members"
    using ne [OF ic(2)] ne [OF p(4)] ne [OF p(5)] ne [OF p(6)] t(5-8) assms(5) by (simp add: required_members_def v)
  moreover have "check_hashes (envelope_json e) hash_members = Inr ()"
    using p ic by (simp add: hash_members_def v String_of_def assertHash32_def)
  moreover have "assertRouteVersion (js_number h (member (envelope_json e) ''routeVersion'')) = Inr (sq_routeVersion p)"
    using p by (simp add: v assertRouteVersion_def)
  ultimately show ?thesis
    by (simp add: decodeTinMasterSeedEnvelope_def v String_of_def Let_def) (rule e_eq [symmetric])
qed

text \<open>
  A master-seed envelope survives storage. What \<open>createTinMasterSeedEnvelope\<close> returns for typed parameters is,
  after encoding, accepted for the same TIN, owner key and configuration and read back unchanged.
\<close>

lemma seed_envelope_roundtrip:
  assumes "hash_law h" "\<And>s. td (utf8 s) = s" "typed_params p" "sq_tin p = JStr tin" "tin \<noteq> []"
    and e: "createTinMasterSeedEnvelope h p = Inr e"
  shows "validateTinMasterSeedEnvelope h td (Inl (encodeTinEnvelope (envelope_json e))) tin (sq_ownerPublicKey p) (sq_pruConfigurationHash p) = Inr e"
proof -
  have "se_tin e = JStr tin" "se_pruConfigurationHash e = lower (sq_pruConfigurationHash p)"
    using e assms(4) by (auto simp: createTinMasterSeedEnvelope_def)
  with decode_encode [of h td p tin e] assms create_again [OF e] show ?thesis
    by (simp add: validateTinMasterSeedEnvelope_def)
qed


text \<open>The text behind the integrity commitment of an envelope, for an owner key that is not in it.\<close>

definition integrity_text :: "string \<Rightarrow> seed_envelope \<Rightarrow> string list" where
  "integrity_text owner e =
     [se_version e, js_string (se_provider e), js_string (se_tin e), owner, int_str (se_routeVersion e), lower (se_pruConfigurationHash e),
      lower (se_resourceCommitment e), se_seedEncryptionAlgorithm e, js_string (se_seedCiphertext e), js_string (se_seedNonce e),
      lower (js_string (se_seedCiphertextCommitment e)), js_string (se_protectedKey e), lower (js_string (se_protectedKeyCommitment e)),
      lower (js_string (se_accessControlHash e))]"

definition typed_envelope :: "seed_envelope \<Rightarrow> bool" where
  "typed_envelope e \<longleftrightarrow> is_text (se_provider e) \<and> is_text (se_seedCiphertext e) \<and> is_text (se_seedNonce e) \<and> is_text (se_protectedKey e)"

lemma json_fields_texts: "json_fields (map JStr ss) = canonicalFields ss"
proof -
  have "(\<lambda>v. length_text v @ '':'' @ js_string v) \<circ> JStr = field_text" by (simp add: fun_eq_iff length_text_def field_text_def)
  then show ?thesis by (simp only: json_fields_def canonicalFields_def map_map)
qed

lemma validated_commitment:
  assumes "validateTinMasterSeedEnvelope h td given tin owner config = Inr e" "typed_envelope e"
  shows "se_integrityCommitment e = JStr (sha256Hex (sha256 h) (canonicalFields (integrity_text owner e)))"
    "se_tin e = JStr tin" "lower (se_pruConfigurationHash e) = lower config"
proof -
  obtain e' where d: "decodeTinMasterSeedEnvelope h td (case given of Inl bs \<Rightarrow> bs | Inr v \<Rightarrow> utf8 (json_stringify v)) = Inr e"
    and c: "createTinMasterSeedEnvelope h (params_of owner e) = Inr e'" "se_integrityCommitment e' = se_integrityCommitment e"
    and t: "se_tin e = JStr tin" "lower (se_pruConfigurationHash e) = lower config"
    using assms(1) by (auto simp: validateTinMasterSeedEnvelope_def)
  show "se_tin e = JStr tin" "lower (se_pruConfigurationHash e) = lower config" by (fact t)+
  have v: "se_version e = TIN_MASTER_SEED_ENVELOPE_VERSION" "se_seedEncryptionAlgorithm e = TIN_MASTER_SEED_LOCAL_ENCRYPTION_ALGORITHM"
    using d by (auto simp: decodeTinMasterSeedEnvelope_def Let_def)
  obtain a b c' where "se_seedCiphertextCommitment e = JStr a" "se_protectedKeyCommitment e = JStr b" "se_accessControlHash e = JStr c'"
    using c(1) by (rule create_Inr) (simp add: params_of_def)
  moreover obtain w x y z where "se_provider e = JStr w" "se_seedCiphertext e = JStr x" "se_seedNonce e = JStr y" "se_protectedKey e = JStr z"
    using assms(2) by (auto simp: typed_envelope_def is_text_def)
  ultimately show "se_integrityCommitment e = JStr (sha256Hex (sha256 h) (canonicalFields (integrity_text owner e)))"
    using c by (auto simp: createTinMasterSeedEnvelope_def params_of_def integrity_text_def v t simp flip: json_fields_texts)
qed

lemma hex_digest_inject: "hash_law h \<Longrightarrow> sha256Hex (sha256 h) x = sha256Hex (sha256 h) y \<longleftrightarrow> sha256 h x = sha256 h y"
  using from_to_hex [of "sha256 h x"] from_to_hex [of "sha256 h y"] hash_lawD(1) [of h]
  by (metis bytesToHex_def sha256Hex_def to_hex_def)


section \<open>Receiving keys are ordered by their index\<close>

lemma sort_key_mset_cong:
  fixes f :: "'a \<Rightarrow> 'b :: linorder"
  assumes "mset xs = mset ys" "distinct (map f xs)"
  shows "sort_key f xs = sort_key f ys"
proof -
  have "mset (map f xs) = mset (map f ys)" using assms(1) by simp
  then have "distinct (map f ys)" using assms(2) mset_eq_imp_distinct_iff by blast
  moreover have eq: "set xs = set ys" using assms(1) by (rule mset_eq_setD)
  ultimately have "map f (sort_key f xs) = map f (sort_key f ys)"
    using assms(2) by (intro sorted_distinct_set_unique) (simp_all add: distinct_map)
  moreover have "inj_on f (set (sort_key f xs) \<union> set (sort_key f ys))"
    using assms(2) eq by (simp add: distinct_map)
  ultimately show ?thesis by (rule map_inj_on)
qed

text \<open>The configuration hash and the published route do not depend on the order of the list.\<close>

lemma configuration_order_irrelevant:
  assumes "mset prus = mset prus'" "distinct (map pe_index prus)"
  shows "computePruConfigurationHash h prus = computePruConfigurationHash h prus'"
    "createTinPublicRoutePayload toBase58 tin v nonce config prus = createTinPublicRoutePayload toBase58 tin v nonce config prus'"
  using sort_key_mset_cong [OF assms] by (simp_all add: computePruConfigurationHash_def createTinPublicRoutePayload_def)

lemma derived_set:
  "\<exists>prus. derivePruSet h sign_public seed tinId metadata initial = Inr prus \<and> map pe_index prus = map int [0..<30]"
proof -
  have "\<exists>ps. map_result (\<lambda>i. and_then (derivePruPublicKey h sign_public seed tinId i) (\<lambda>key.
         Inr \<lparr>pe_tinId = tinId, pe_index = i, pe_derivedPublicKey = key, pe_encryptedMetadata = metadata i,
              pe_state = (case initial of None \<Rightarrow> PLANNED | Some s \<Rightarrow> s)\<rparr>)) is = Inr ps \<and> map pe_index ps = is"
    if "list_all (\<lambda>i. 0 \<le> i) is" for "is"
    using that by (induction "is") (auto simp: derivePruPublicKey_def Let_def)
  moreover have "list_all (\<lambda>i. 0 \<le> i) (map int [0..<DEFAULT_PRU_COUNT])" by (simp add: list_all_iff)
  ultimately show ?thesis unfolding derivePruSet_def DEFAULT_PRU_COUNT_def by blast
qed


definition sample_seed_params :: seed_params where
  "sample_seed_params =
     (let hash = replicate 64 (CHR ''A'') in
      \<lparr>sq_provider = JStr ''lit'', sq_tin = JStr ''42'', sq_ownerPublicKey = ''owner'', sq_routeVersion = 3, sq_pruConfigurationHash = hash,
       sq_resourceCommitment = hash, sq_seedCiphertext = JStr ''c'', sq_seedNonce = JStr ''n'', sq_seedCiphertextCommitment = JStr hash,
       sq_protectedKey = JStr ''k'', sq_protectedKeyCommitment = JStr hash, sq_accessControlHash = JStr hash\<rparr>)"

definition sample_seed_envelope :: seed_envelope where
  "sample_seed_envelope = projr (createTinMasterSeedEnvelope sample_host sample_seed_params)"

definition decode_text :: "byte_list \<Rightarrow> string" where
  "decode_text bs = (case utf8_decode bs of None \<Rightarrow> [] | Some s \<Rightarrow> s)"

lemma sample_seed_created: "createTinMasterSeedEnvelope sample_host sample_seed_params = Inr sample_seed_envelope"
proof -
  have "is_hex64 (replicate 64 (CHR ''A''))" by (simp add: is_hex64_def list_all_iff is_hex_def)
  then show ?thesis
    by (simp add: sample_seed_envelope_def createTinMasterSeedEnvelope_def sample_seed_params_def assertRouteVersion_def assertHash32_def
        max_safe_integer_def Let_def)
qed

lemma create_texts:
  "createTinMasterSeedEnvelope h p = Inr e \<Longrightarrow> se_provider e = sq_provider p \<and> se_seedCiphertext e = sq_seedCiphertext p \<and>
     se_seedNonce e = sq_seedNonce p \<and> se_protectedKey e = sq_protectedKey p"
  by (auto simp: createTinMasterSeedEnvelope_def)

lemma sample_seed_validated:
  "validateTinMasterSeedEnvelope sample_host decode_text (Inl (encodeTinEnvelope (envelope_json sample_seed_envelope))) ''42'' ''owner''
     (sq_pruConfigurationHash sample_seed_params) = Inr sample_seed_envelope"
  using seed_envelope_roundtrip [OF sample_hash_law, of decode_text sample_seed_params "''42''" sample_seed_envelope] sample_seed_created
  by (simp add: decode_text_def typed_params_def is_text_def sample_seed_params_def Let_def)


end
