(* ===== verification/Tin_Access.thy ===== *)
theory Tin_Access
  imports Tin_Envelopes Receipt_Envelope "HOL-Library.Sublist"
begin

text \<open>
  Access of an authorized device to the protected key of a TIN: the proof a device signs and its verification
  (\<open>sdks/tsn-sdk/src/tin-device-access.ts\<close>), the receipt of the service that consumed its nonce
  (\<open>tin-threshold-nonce-receipt.ts\<close>) and the envelope in which the key travels (\<open>tin-device-key-envelope.ts\<close>).
\<close>

section \<open>Access proofs\<close>

definition TIN_DEVICE_ACCESS_PROOF_VERSION :: string where
  "TIN_DEVICE_ACCESS_PROOF_VERSION = ''tsn-tin-device-access-proof''"

definition TIN_DEVICE_ACCESS_PROOF_DOMAIN :: string where
  "TIN_DEVICE_ACCESS_PROOF_DOMAIN = ''TSN_TIN_DEVICE_THRESHOLD_ACCESS''"

record device_signer =
  ds_deviceId :: string
  ds_signingPublicKey :: obj
  ds_signingKeyFingerprint :: string
  ds_encryptionPublicKey :: obj
  ds_encryptionKeyFingerprint :: string
  ds_signMessage :: "byte_list \<Rightarrow> byte_list result"

record access_proof =
  ap_version :: string
  ap_domain :: string
  ap_operation :: string
  ap_tin :: string
  ap_ownerPublicKey :: string
  ap_routeVersion :: int
  ap_pruConfigurationHash :: string
  ap_deviceSessionBinding :: string
  ap_deviceId :: string
  ap_deviceSigningKeyFingerprint :: string
  ap_deviceSigningPublicKey :: obj
  ap_deviceEncryptionKeyFingerprint :: string
  ap_deviceEncryptionPublicKey :: obj
  ap_walletAuthorizationCommitment :: string
  ap_resourceCommitment :: string
  ap_requestNonce :: string
  ap_issuedAt :: string
  ap_expiresAt :: string
  ap_signatureBase64Url :: string

definition canonical_key :: "obj \<Rightarrow> string" where
  "canonical_key k = json_stringify (JObj (map (\<lambda>n. (n, nullish (map_of k n) (JStr []))) [''kty'', ''crv'', ''x'']))"

definition access_fields :: "access_proof \<Rightarrow> string list" where
  "access_fields p =
     [ap_domain p, ap_version p, ap_operation p, ap_tin p, ap_ownerPublicKey p, int_str (ap_routeVersion p), lower (ap_pruConfigurationHash p),
      ap_deviceSessionBinding p, ap_deviceId p, ap_deviceSigningKeyFingerprint p, canonical_key (ap_deviceSigningPublicKey p),
      ap_deviceEncryptionKeyFingerprint p, canonical_key (ap_deviceEncryptionPublicKey p), ap_walletAuthorizationCommitment p,
      ap_resourceCommitment p, ap_requestNonce p, ap_issuedAt p, ap_expiresAt p]"

definition serializeTinDeviceAccessProof :: "access_proof \<Rightarrow> byte_list" where
  "serializeTinDeviceAccessProof p = canonicalFields (access_fields p)"

definition access_ttl :: int where
  "access_ttl = 5 * 60 * 1000"

record access_params =
  aq_operation :: string
  aq_tin :: string
  aq_ownerPublicKey :: string
  aq_routeVersion :: int
  aq_pruConfigurationHash :: string
  aq_deviceSessionBinding :: string
  aq_walletAuthorizationMessage :: byte_list
  aq_resourceCommitment :: string

definition unsigned_proof :: "host \<Rightarrow> int \<Rightarrow> byte_list \<Rightarrow> access_params \<Rightarrow> device_signer \<Rightarrow> access_proof" where
  "unsigned_proof h now random q d =
     \<lparr>ap_version = TIN_DEVICE_ACCESS_PROOF_VERSION, ap_domain = TIN_DEVICE_ACCESS_PROOF_DOMAIN, ap_operation = aq_operation q,
      ap_tin = aq_tin q, ap_ownerPublicKey = aq_ownerPublicKey q, ap_routeVersion = aq_routeVersion q,
      ap_pruConfigurationHash = aq_pruConfigurationHash q, ap_deviceSessionBinding = aq_deviceSessionBinding q,
      ap_deviceId = ds_deviceId d, ap_deviceSigningKeyFingerprint = ds_signingKeyFingerprint d,
      ap_deviceSigningPublicKey = ds_signingPublicKey d, ap_deviceEncryptionKeyFingerprint = ds_encryptionKeyFingerprint d,
      ap_deviceEncryptionPublicKey = ds_encryptionPublicKey d,
      ap_walletAuthorizationCommitment = sha256Hex (sha256 h) (aq_walletAuthorizationMessage q),
      ap_resourceCommitment = aq_resourceCommitment q, ap_requestNonce = bytesToBase64Url random, ap_issuedAt = to_iso h now,
      ap_expiresAt = to_iso h (now + access_ttl), ap_signatureBase64Url = []\<rparr>"

definition createTinDeviceAccessProof ::
  "host \<Rightarrow> web_crypto \<Rightarrow> int \<Rightarrow> byte_list \<Rightarrow> access_params \<Rightarrow> device_signer \<Rightarrow> access_proof result" where
  "createTinDeviceAccessProof h wc now random q d =
     and_then (require (is_hex64 (aq_resourceCommitment q)) ''Threshold resource commitment must be a 32-byte hexadecimal commitment'') (\<lambda>_.
       let unsigned = unsigned_proof h now random q d; message = serializeTinDeviceAccessProof unsigned in
       and_then (ds_signMessage d message) (\<lambda>signature.
       and_then (or_error ''DataError'' (import_ed25519 wc (ds_signingPublicKey d))) (\<lambda>publicKey.
       and_then (require (ed25519_verify h publicKey message signature) ''Authorized-device proof-of-possession is invalid'') (\<lambda>_.
         Inr (unsigned\<lparr>ap_signatureBase64Url := bytesToBase64Url signature\<rparr>)))))"

record access_expectation =
  ae_operation :: string
  ae_tin :: string
  ae_ownerPublicKey :: string
  ae_routeVersion :: int
  ae_pruConfigurationHash :: string
  ae_deviceSessionBinding :: string
  ae_resourceCommitment :: string
  ae_walletMessage :: byte_list
  ae_walletSignature :: byte_list

definition matches_request :: "access_expectation \<Rightarrow> access_proof \<Rightarrow> bool" where
  "matches_request e p \<longleftrightarrow>
     ap_operation p = ae_operation e \<and> ap_tin p = ae_tin e \<and> ap_ownerPublicKey p = ae_ownerPublicKey e \<and>
     ap_routeVersion p = ae_routeVersion e \<and> lower (ap_pruConfigurationHash p) = lower (ae_pruConfigurationHash e) \<and>
     ap_deviceSessionBinding p = ae_deviceSessionBinding e \<and> lower (ap_resourceCommitment p) = lower (ae_resourceCommitment e)"

definition expected_wallet_message :: "access_expectation \<Rightarrow> byte_list result" where
  "expected_wallet_message e =
     serializeTinMasterSeedWalletAuthorization (ae_tin e) (ae_ownerPublicKey e) (ae_routeVersion e) (ae_pruConfigurationHash e)
       (ae_resourceCommitment e) (ae_deviceSessionBinding e)"

text \<open>\<open>nacl.verify\<close> is true on equal byte lists that are not empty.\<close>

definition check_wallet :: "host \<Rightarrow> (string \<Rightarrow> byte_list option) \<Rightarrow> access_expectation \<Rightarrow> access_proof \<Rightarrow> unit result" where
  "check_wallet h pk e p =
     and_then (expected_wallet_message e) (\<lambda>expected.
     and_then (require (expected = ae_walletMessage e \<and> expected \<noteq> [])
       ''Main-wallet authorization message does not match the threshold request'') (\<lambda>_.
     and_then (require (sha256Hex (sha256 h) (ae_walletMessage e) = ap_walletAuthorizationCommitment p)
       ''Authorized-device proof is not bound to the main-wallet authorization'') (\<lambda>_.
     and_then (or_error ''Invalid public key input'' (pk (ae_ownerPublicKey e))) (\<lambda>owner.
     require (length (ae_walletSignature e) = 64 \<and> ed25519_verify h owner (ae_walletMessage e) (ae_walletSignature e))
       ''Main-wallet authorization signature is invalid''))))"

definition device_suffix :: "string \<Rightarrow> string \<Rightarrow> string" where
  "device_suffix fingerprint encryptionFingerprint = '':device:'' @ fingerprint @ '':encryption:'' @ encryptionFingerprint"

definition check_device :: "host \<Rightarrow> access_expectation \<Rightarrow> access_proof \<Rightarrow> unit result" where
  "check_device h e p =
     (let fingerprint = fingerprintDeviceSigningPublicKey h (ap_deviceSigningPublicKey p);
          encryptionFingerprint = fingerprintEncryptionPublicKey h (ap_deviceEncryptionPublicKey p) ''device''
      in and_then (require (fingerprint = ap_deviceSigningKeyFingerprint p) ''Authorized-device signing-key fingerprint is invalid'') (\<lambda>_.
         and_then (require (encryptionFingerprint = ap_deviceEncryptionKeyFingerprint p)
           ''Authorized-device encryption-key fingerprint is invalid'') (\<lambda>_.
         require (suffix (device_suffix fingerprint encryptionFingerprint) (ae_deviceSessionBinding e))
           ''Threshold session is not bound to the authorized device'')))"

definition valid_window :: "host \<Rightarrow> int \<Rightarrow> access_proof \<Rightarrow> bool" where
  "valid_window h now p \<longleftrightarrow>
     (case (date_parse h (ap_issuedAt p), date_parse h (ap_expiresAt p)) of
        (Some issuedAt, Some expiresAt) \<Rightarrow>
          \<not> expiresAt \<le> issuedAt \<and> \<not> expiresAt - issuedAt > access_ttl \<and> \<not> issuedAt > now + 30000 \<and> \<not> expiresAt \<le> now
      | _ \<Rightarrow> False)"

definition check_access :: "host \<Rightarrow> web_crypto \<Rightarrow> (string \<Rightarrow> byte_list option) \<Rightarrow> int \<Rightarrow> access_expectation \<Rightarrow> access_proof \<Rightarrow> unit result" where
  "check_access h wc pk now e p =
     and_then (require (is_hex64 (ae_resourceCommitment e) \<and> is_hex64 (ap_resourceCommitment p)) ''Threshold resource commitment is invalid'') (\<lambda>_.
     and_then (require (ap_version p = TIN_DEVICE_ACCESS_PROOF_VERSION \<and> ap_domain p = TIN_DEVICE_ACCESS_PROOF_DOMAIN)
       ''Authorized-device proof version or domain is invalid'') (\<lambda>_.
     and_then (require (matches_request e p) ''Authorized-device proof does not match the threshold request'') (\<lambda>_.
     and_then (check_wallet h pk e p) (\<lambda>_.
     and_then (check_device h e p) (\<lambda>_.
     and_then (require (valid_window h now p) ''Authorized-device proof is expired or has an invalid validity window'') (\<lambda>_.
     and_then (or_error ''Authorized-device signing public key is invalid'' (import_ed25519 wc (ap_deviceSigningPublicKey p))) (\<lambda>publicKey.
     and_then (base64UrlToBytes (ap_signatureBase64Url p)) (\<lambda>signature.
     require (ed25519_verify h publicKey (serializeTinDeviceAccessProof p) signature) ''Authorized-device signature is invalid''))))))))"

record access_grant =
  ag_walletPublicKey :: string
  ag_deviceId :: string
  ag_deviceSigningKeyFingerprint :: string
  ag_deviceEncryptionKeyFingerprint :: string
  ag_requestNonce :: string
  ag_expiresAt :: string

definition verifyTinDeviceAccessRequest ::
  "host \<Rightarrow> web_crypto \<Rightarrow> (string \<Rightarrow> byte_list option) \<Rightarrow> int \<Rightarrow> access_expectation \<Rightarrow> access_proof \<Rightarrow>
   (string \<Rightarrow> string \<Rightarrow> 's \<Rightarrow> bool \<times> 's) option \<Rightarrow> 's \<Rightarrow> access_grant result \<times> 's" where
  "verifyTinDeviceAccessRequest h wc pk now e p consumeNonce s =
     (case check_access h wc pk now e p of
        Inl x \<Rightarrow> (Inl x, s)
      | Inr _ \<Rightarrow>
          (case (case consumeNonce of None \<Rightarrow> (True, s) | Some consume \<Rightarrow> consume (ap_requestNonce p) (ap_expiresAt p) s) of
             (False, s') \<Rightarrow> (Inl ''Authorized-device proof nonce was already used'', s')
           | (True, s') \<Rightarrow>
               (Inr \<lparr>ag_walletPublicKey = ae_ownerPublicKey e, ag_deviceId = ap_deviceId p,
                     ag_deviceSigningKeyFingerprint = ap_deviceSigningKeyFingerprint p,
                     ag_deviceEncryptionKeyFingerprint = ap_deviceEncryptionKeyFingerprint p,
                     ag_requestNonce = ap_requestNonce p, ag_expiresAt = ap_expiresAt p\<rparr>, s')))"

section \<open>Nonce receipts\<close>

definition TIN_THRESHOLD_NONCE_RECEIPT_DOMAIN :: string where
  "TIN_THRESHOLD_NONCE_RECEIPT_DOMAIN = ''TSN_TIN_THRESHOLD_NONCE_RECEIPT''"

record nonce_receipt =
  nr_domain :: string
  nr_operation :: string
  nr_tin :: string
  nr_ownerPublicKey :: string
  nr_resourceCommitment :: string
  nr_requestNonce :: string
  nr_consumedAt :: string
  nr_expiresAt :: string
  nr_verifierPublicKeyBase64Url :: string
  nr_signatureBase64Url :: string

definition serializeTinThresholdNonceReceipt :: "nonce_receipt \<Rightarrow> byte_list" where
  "serializeTinThresholdNonceReceipt r = canonicalFields
     [nr_domain r, nr_operation r, nr_tin r, nr_ownerPublicKey r, lower (nr_resourceCommitment r), nr_requestNonce r, nr_consumedAt r,
      nr_expiresAt r, nr_verifierPublicKeyBase64Url r]"

definition receipt_matches :: "nonce_receipt \<Rightarrow> access_proof \<Rightarrow> string \<Rightarrow> bool" where
  "receipt_matches r p verifier \<longleftrightarrow>
     nr_domain r = TIN_THRESHOLD_NONCE_RECEIPT_DOMAIN \<and> nr_operation r = ap_operation p \<and> nr_tin r = ap_tin p \<and>
     nr_ownerPublicKey r = ap_ownerPublicKey p \<and> lower (nr_resourceCommitment r) = lower (ap_resourceCommitment p) \<and>
     nr_requestNonce r = ap_requestNonce p \<and> nr_expiresAt r = ap_expiresAt p \<and> nr_verifierPublicKeyBase64Url r = verifier"

definition receipt_window :: "host \<Rightarrow> int \<Rightarrow> nonce_receipt \<Rightarrow> access_proof \<Rightarrow> bool" where
  "receipt_window h now r p \<longleftrightarrow>
     (case (date_parse h (nr_consumedAt r), date_parse h (ap_issuedAt p), date_parse h (nr_expiresAt r)) of
        (Some consumedAt, Some issuedAt, Some expiresAt) \<Rightarrow>
          \<not> consumedAt < issuedAt - 30000 \<and> \<not> consumedAt \<ge> expiresAt \<and> \<not> expiresAt \<le> now
      | _ \<Rightarrow> False)"

definition verifyTinThresholdNonceReceipt :: "host \<Rightarrow> int \<Rightarrow> nonce_receipt \<Rightarrow> access_proof \<Rightarrow> string \<Rightarrow> nonce_receipt result" where
  "verifyTinThresholdNonceReceipt h now r p verifier =
     and_then (require (receipt_matches r p verifier) ''TIN threshold nonce receipt does not match the access proof'') (\<lambda>_.
     and_then (require (receipt_window h now r p) ''TIN threshold nonce receipt is expired or has an invalid time'') (\<lambda>_.
     and_then (base64UrlToBytes (nr_verifierPublicKeyBase64Url r)) (\<lambda>publicKey.
     and_then (require (length publicKey = 32) ''TIN threshold nonce verifier public key is invalid'') (\<lambda>_.
     and_then (base64UrlToBytes (nr_signatureBase64Url r)) (\<lambda>signature.
     and_then (require (ed25519_verify h publicKey (serializeTinThresholdNonceReceipt r) signature)
       ''TIN threshold nonce receipt signature is invalid'') (\<lambda>_. Inr r))))))"

section \<open>The key envelope\<close>

definition TIN_DEVICE_KEY_ENVELOPE_VERSION :: string where
  "TIN_DEVICE_KEY_ENVELOPE_VERSION = ''tsn-tin-device-key-envelope''"

definition TIN_DEVICE_KEY_ENVELOPE_ALGORITHM :: string where
  "TIN_DEVICE_KEY_ENVELOPE_ALGORITHM = ''x25519-hkdf-sha256-aes-256-gcm''"

datatype aad_mode = RequestMode | DeviceEnvelopeMode

record device_key_envelope =
  dk_version :: string
  dk_algorithm :: string
  dk_recipientKeyFingerprint :: string
  dk_ephemeralPublicKey :: json
  dk_nonceBase64Url :: string
  dk_wrappedKeyBase64Url :: string
  dk_aadCommitment :: string
  dk_aadMode :: "aad_mode option"

fun aad_fields :: "access_proof \<Rightarrow> aad_mode \<Rightarrow> string list" where
  "aad_fields p DeviceEnvelopeMode =
     [''TSN_TIN_DEVICE_KEY_DEVICE_ENVELOPE'', ap_tin p, ap_ownerPublicKey p, int_str (ap_routeVersion p), lower (ap_pruConfigurationHash p),
      lower (ap_resourceCommitment p), ap_deviceId p, ap_deviceSigningKeyFingerprint p, ap_deviceEncryptionKeyFingerprint p]"
| "aad_fields p RequestMode =
     [''TSN_TIN_DEVICE_KEY_RELEASE'', ap_operation p, ap_tin p, ap_ownerPublicKey p, int_str (ap_routeVersion p),
      lower (ap_pruConfigurationHash p), lower (ap_resourceCommitment p), ap_deviceSessionBinding p, ap_deviceId p,
      ap_deviceSigningKeyFingerprint p, ap_deviceEncryptionKeyFingerprint p, ap_walletAuthorizationCommitment p, ap_requestNonce p,
      ap_expiresAt p]"

definition mode_or_request :: "aad_mode option \<Rightarrow> aad_mode" where
  "mode_or_request m = (case m of None \<Rightarrow> RequestMode | Some x \<Rightarrow> x)"

definition accessAad :: "access_proof \<Rightarrow> aad_mode option \<Rightarrow> byte_list" where
  "accessAad p m = canonicalFields (aad_fields p (mode_or_request m))"

definition device_wrapping_key :: "curve \<Rightarrow> byte_list \<Rightarrow> byte_list \<Rightarrow> byte_list \<Rightarrow> string \<Rightarrow> byte_list result" where
  "device_wrapping_key cv private public nonce fingerprint =
     and_then (or_error ''OperationError'' (x_shared cv private public)) (\<lambda>sharedSecret.
       Inr (hkdf_sha256 cv sharedSecret nonce (canonicalFields [''TSN_TIN_DEVICE_KEY_WRAP'', fingerprint]) 32))"

definition wrapTinThresholdKeyForDevice ::
  "host \<Rightarrow> curve \<Rightarrow> byte_list \<Rightarrow> byte_list \<Rightarrow> byte_list \<Rightarrow> access_proof \<Rightarrow> aad_mode option \<Rightarrow> device_key_envelope result" where
  "wrapTinThresholdKeyForDevice h cv ephemeral nonce keyMaterial p mode =
     and_then (require (length keyMaterial = 32) ''TIN threshold key material must be exactly 32 bytes'') (\<lambda>_.
     and_then (or_error ''DataError'' (jwk_import cv (JObj (ap_deviceEncryptionPublicKey p)))) (\<lambda>recipientPublicKey.
     and_then (device_wrapping_key cv ephemeral recipientPublicKey nonce (ap_deviceEncryptionKeyFingerprint p)) (\<lambda>wrappingKey.
       Inr \<lparr>dk_version = TIN_DEVICE_KEY_ENVELOPE_VERSION, dk_algorithm = TIN_DEVICE_KEY_ENVELOPE_ALGORITHM,
            dk_recipientKeyFingerprint = ap_deviceEncryptionKeyFingerprint p,
            dk_ephemeralPublicKey = jwk_export cv (x_public cv ephemeral), dk_nonceBase64Url = bytesToBase64Url nonce,
            dk_wrappedKeyBase64Url = bytesToBase64Url (gcm_encrypt h wrappingKey nonce (accessAad p mode) keyMaterial),
            dk_aadCommitment = sha256Hex (sha256 h) (accessAad p mode), dk_aadMode = Some (mode_or_request mode)\<rparr>)))"

definition unwrapTinThresholdKeyOnDevice ::
  "host \<Rightarrow> curve \<Rightarrow> device_key_envelope \<Rightarrow> access_proof \<Rightarrow> byte_list \<Rightarrow> aad_mode option \<Rightarrow> byte_list result" where
  "unwrapTinThresholdKeyOnDevice h cv v p private mode =
     and_then (require (dk_version v = TIN_DEVICE_KEY_ENVELOPE_VERSION \<and> dk_algorithm v = TIN_DEVICE_KEY_ENVELOPE_ALGORITHM \<and>
         dk_recipientKeyFingerprint v = ap_deviceEncryptionKeyFingerprint p)
       ''TIN device key envelope does not match the authorized device'') (\<lambda>_.
     let aad = accessAad p (case mode of None \<Rightarrow> dk_aadMode v | Some m \<Rightarrow> Some m) in
     and_then (require (sha256Hex (sha256 h) aad = dk_aadCommitment v) ''TIN device key envelope context has been modified'') (\<lambda>_.
     and_then (or_error ''DataError'' (jwk_import cv (dk_ephemeralPublicKey v))) (\<lambda>ephemeralPublicKey.
     and_then (base64UrlToBytes (dk_nonceBase64Url v)) (\<lambda>nonce.
     and_then (device_wrapping_key cv private ephemeralPublicKey nonce (dk_recipientKeyFingerprint v)) (\<lambda>wrappingKey.
     and_then (base64UrlToBytes (dk_wrappedKeyBase64Url v)) (\<lambda>wrapped.
     and_then (gcm_decrypt h wrappingKey nonce aad wrapped) (\<lambda>unwrapped.
     and_then (require (length unwrapped = 32) ''TIN threshold key response has an invalid length'') (\<lambda>_.
       Inr unwrapped))))))))"


section \<open>Who gets access\<close>

lemma check_access_Inr:
  assumes "check_access h wc pk now e p = Inr ()"
  obtains owner key sig where "matches_request e p" "expected_wallet_message e = Inr (ae_walletMessage e)"
    "pk (ae_ownerPublicKey e) = Some owner" "ed25519_verify h owner (ae_walletMessage e) (ae_walletSignature e)"
    "sha256Hex (sha256 h) (ae_walletMessage e) = ap_walletAuthorizationCommitment p"
    "fingerprintDeviceSigningPublicKey h (ap_deviceSigningPublicKey p) = ap_deviceSigningKeyFingerprint p"
    "fingerprintEncryptionPublicKey h (ap_deviceEncryptionPublicKey p) ''device'' = ap_deviceEncryptionKeyFingerprint p"
    "suffix (device_suffix (ap_deviceSigningKeyFingerprint p) (ap_deviceEncryptionKeyFingerprint p)) (ae_deviceSessionBinding e)"
    "valid_window h now p" "import_ed25519 wc (ap_deviceSigningPublicKey p) = Some key"
    "base64UrlToBytes (ap_signatureBase64Url p) = Inr sig" "ed25519_verify h key (serializeTinDeviceAccessProof p) sig"
  using assms that by (auto simp: check_access_def check_wallet_def check_device_def Let_def)

lemma verify_access_Inr:
  assumes "verifyTinDeviceAccessRequest h wc pk now e p consume s = (Inr g, s')"
  shows "check_access h wc pk now e p = Inr ()" "ag_requestNonce g = ap_requestNonce p"
    "consume = Some c \<Longrightarrow> c (ap_requestNonce p) (ap_expiresAt p) s = (True, s')"
  using assms by (auto simp: verifyTinDeviceAccessRequest_def split: sum.splits option.splits prod.splits bool.splits)

lemma wallet_message_inject:
  assumes "expected_wallet_message e = Inr m" "expected_wallet_message e' = Inr m"
  shows "ae_tin e = ae_tin e' \<and> ae_ownerPublicKey e = ae_ownerPublicKey e' \<and> ae_routeVersion e = ae_routeVersion e' \<and>
    lower (ae_pruConfigurationHash e) = lower (ae_pruConfigurationHash e') \<and>
    lower (ae_resourceCommitment e) = lower (ae_resourceCommitment e') \<and> ae_deviceSessionBinding e = ae_deviceSessionBinding e'"
  using assms by (auto simp: expected_wallet_message_def serializeTinMasterSeedWalletAuthorization_def canonicalFields_inject)

lemma device_suffix_unique:
  assumes "suffix (device_suffix f x) b" "suffix (device_suffix f' x') b" "length f = length f'" "length x = length x'"
  shows "f = f' \<and> x = x'"
  using assms by (auto simp: suffix_def device_suffix_def)

lemma fingerprint_lengths:
  "hash_law h \<Longrightarrow> length (fingerprintDeviceSigningPublicKey h k) = 64"
  "hash_law h \<Longrightarrow> length (fingerprintEncryptionPublicKey h k purpose) = 64"
  by (simp_all add: fingerprintDeviceSigningPublicKey_def fingerprintEncryptionPublicKey_def sha256Hex_length hash_lawD)

text \<open>
  C34: one signature of the main wallet opens a protected key to one device. An accepted request has a
  signature of the owner's wallet over its message and a signature of the device over its proof, within
  at most five minutes; and two accepted requests with the same wallet message are for the same TIN,
  owner, route version and resource and come from devices with the same two key fingerprints.
\<close>

theorem wallet_signature_names_device:
  assumes law: "hash_law h" and ok: "verifyTinDeviceAccessRequest h wc pk now e p consume s = (Inr g, s1)"
    and ok': "verifyTinDeviceAccessRequest h wc pk now' e' p' consume' s' = (Inr g', s1')"
    and same: "ae_walletMessage e = ae_walletMessage e'"
  shows "(\<exists>owner key sig i x. pk (ae_ownerPublicKey e) = Some owner \<and>
      ed25519_verify h owner (ae_walletMessage e) (ae_walletSignature e) \<and>
      import_ed25519 wc (ap_deviceSigningPublicKey p) = Some key \<and> ed25519_verify h key (serializeTinDeviceAccessProof p) sig \<and>
      date_parse h (ap_issuedAt p) = Some i \<and> date_parse h (ap_expiresAt p) = Some x \<and> now < x \<and> x \<le> i + 300000) \<and>
    ap_tin p = ap_tin p' \<and> ap_ownerPublicKey p = ap_ownerPublicKey p' \<and> ap_routeVersion p = ap_routeVersion p' \<and>
    lower (ap_resourceCommitment p) = lower (ap_resourceCommitment p') \<and>
    ap_deviceSigningKeyFingerprint p = ap_deviceSigningKeyFingerprint p' \<and>
    ap_deviceEncryptionKeyFingerprint p = ap_deviceEncryptionKeyFingerprint p'"
proof -
  obtain owner key sig where a: "matches_request e p" "expected_wallet_message e = Inr (ae_walletMessage e)"
      "pk (ae_ownerPublicKey e) = Some owner" "ed25519_verify h owner (ae_walletMessage e) (ae_walletSignature e)"
      "fingerprintDeviceSigningPublicKey h (ap_deviceSigningPublicKey p) = ap_deviceSigningKeyFingerprint p"
      "fingerprintEncryptionPublicKey h (ap_deviceEncryptionPublicKey p) ''device'' = ap_deviceEncryptionKeyFingerprint p"
      "suffix (device_suffix (ap_deviceSigningKeyFingerprint p) (ap_deviceEncryptionKeyFingerprint p)) (ae_deviceSessionBinding e)"
      "valid_window h now p" "import_ed25519 wc (ap_deviceSigningPublicKey p) = Some key"
      "ed25519_verify h key (serializeTinDeviceAccessProof p) sig"
    using check_access_Inr [OF verify_access_Inr(1) [OF ok]] by metis
  obtain b: "matches_request e' p'" "expected_wallet_message e' = Inr (ae_walletMessage e')"
      "fingerprintDeviceSigningPublicKey h (ap_deviceSigningPublicKey p') = ap_deviceSigningKeyFingerprint p'"
      "fingerprintEncryptionPublicKey h (ap_deviceEncryptionPublicKey p') ''device'' = ap_deviceEncryptionKeyFingerprint p'"
      "suffix (device_suffix (ap_deviceSigningKeyFingerprint p') (ap_deviceEncryptionKeyFingerprint p')) (ae_deviceSessionBinding e')"
    using check_access_Inr [OF verify_access_Inr(1) [OF ok']] by metis
  note w = wallet_message_inject [OF a(2) b(2) [folded same]]
  have "ap_deviceSigningKeyFingerprint p = ap_deviceSigningKeyFingerprint p' \<and>
      ap_deviceEncryptionKeyFingerprint p = ap_deviceEncryptionKeyFingerprint p'"
  proof (rule device_suffix_unique [OF a(7)])
    show "suffix (device_suffix (ap_deviceSigningKeyFingerprint p') (ap_deviceEncryptionKeyFingerprint p')) (ae_deviceSessionBinding e)"
      using b(5) w by simp
  qed (simp_all add: fingerprint_lengths [OF law] flip: a(5,6) b(3,4))
  moreover have "\<exists>i x. date_parse h (ap_issuedAt p) = Some i \<and> date_parse h (ap_expiresAt p) = Some x \<and> now < x \<and> x \<le> i + 300000"
    using a(8) by (auto simp: valid_window_def access_ttl_def split: option.splits)
  ultimately show ?thesis using a b(1) w by (auto simp: matches_request_def)
qed

definition expectation_of :: "access_params \<Rightarrow> byte_list \<Rightarrow> access_expectation" where
  "expectation_of q walletSignature =
     \<lparr>ae_operation = aq_operation q, ae_tin = aq_tin q, ae_ownerPublicKey = aq_ownerPublicKey q, ae_routeVersion = aq_routeVersion q,
      ae_pruConfigurationHash = aq_pruConfigurationHash q, ae_deviceSessionBinding = aq_deviceSessionBinding q,
      ae_resourceCommitment = aq_resourceCommitment q, ae_walletMessage = aq_walletAuthorizationMessage q,
      ae_walletSignature = walletSignature\<rparr>"

definition honest_device :: "host \<Rightarrow> device_signer \<Rightarrow> bool" where
  "honest_device h d \<longleftrightarrow>
     ds_signingKeyFingerprint d = fingerprintDeviceSigningPublicKey h (ds_signingPublicKey d) \<and>
     ds_encryptionKeyFingerprint d = fingerprintEncryptionPublicKey h (ds_encryptionPublicKey d) ''device'' \<and>
     (\<forall>m sig. ds_signMessage d m = Inr sig \<longrightarrow> octets sig)"

lemma canonicalFields_nonempty: "canonicalFields (x # xs) \<noteq> []"
  using canonicalFields_inject [of "x # xs" "[]"] by (auto simp: canonicalFields_def utf8_def)

lemma created_proof:
  assumes "createTinDeviceAccessProof h wc now random q d = Inr p" "honest_device h d"
  obtains key sig where "p = unsigned_proof h now random q d\<lparr>ap_signatureBase64Url := bytesToBase64Url sig\<rparr>"
    "is_hex64 (aq_resourceCommitment q)" "import_ed25519 wc (ds_signingPublicKey d) = Some key"
    "base64UrlToBytes (ap_signatureBase64Url p) = Inr sig" "ed25519_verify h key (serializeTinDeviceAccessProof p) sig"
proof -
  obtain key sig where c: "is_hex64 (aq_resourceCommitment q)" "ds_signMessage d (serializeTinDeviceAccessProof (unsigned_proof h now random q d)) = Inr sig"
      "import_ed25519 wc (ds_signingPublicKey d) = Some key"
      "ed25519_verify h key (serializeTinDeviceAccessProof (unsigned_proof h now random q d)) sig"
      "p = unsigned_proof h now random q d\<lparr>ap_signatureBase64Url := bytesToBase64Url sig\<rparr>"
    using assms(1) by (auto simp: createTinDeviceAccessProof_def Let_def)
  have "octets sig" using assms(2) c(2) by (auto simp: honest_device_def)
  with c show thesis
    by (intro that [of sig key]) (simp_all add: base64Url_round serializeTinDeviceAccessProof_def access_fields_def)
qed

lemma created_check:
  assumes dates: "\<forall>t. date_parse h (to_iso h t) = Some t" and d: "honest_device h d"
    and made: "createTinDeviceAccessProof h wc now random q d = Inr p"
    and wallet: "expected_wallet_message (expectation_of q ws) = Inr (aq_walletAuthorizationMessage q)"
      "pk (aq_ownerPublicKey q) = Some owner" "length ws = 64" "ed25519_verify h owner (aq_walletAuthorizationMessage q) ws"
    and bound: "aq_deviceSessionBinding q = session @ device_suffix (ds_signingKeyFingerprint d) (ds_encryptionKeyFingerprint d)"
    and time: "now - 30000 \<le> later" "later < now + 300000"
  shows "check_access h wc pk later (expectation_of q ws) p = Inr ()"
proof -
  obtain key sig where p: "p = unsigned_proof h now random q d\<lparr>ap_signatureBase64Url := bytesToBase64Url sig\<rparr>"
    "is_hex64 (aq_resourceCommitment q)" "import_ed25519 wc (ds_signingPublicKey d) = Some key"
    "base64UrlToBytes (ap_signatureBase64Url p) = Inr sig" "ed25519_verify h key (serializeTinDeviceAccessProof p) sig"
    using made d by (rule created_proof)
  have f: "ap_version p = TIN_DEVICE_ACCESS_PROOF_VERSION" "ap_domain p = TIN_DEVICE_ACCESS_PROOF_DOMAIN"
    "matches_request (expectation_of q ws) p" "ap_deviceSigningPublicKey p = ds_signingPublicKey d"
    "ap_resourceCommitment p = aq_resourceCommitment q" "ap_requestNonce p = bytesToBase64Url random" "ap_deviceId p = ds_deviceId d"
    unfolding p(1) by (simp_all add: unsigned_proof_def matches_request_def expectation_of_def)
  have "aq_walletAuthorizationMessage q \<noteq> []"
    using wallet(1) canonicalFields_nonempty
    by (auto simp: expected_wallet_message_def serializeTinMasterSeedWalletAuthorization_def)
  with wallet have "check_wallet h pk (expectation_of q ws) p = Inr ()"
    unfolding p(1) by (simp add: check_wallet_def unsigned_proof_def) (simp add: expectation_of_def or_error_def)
  moreover have "check_device h (expectation_of q ws) p = Inr ()"
    using d bound unfolding p(1) by (simp add: check_device_def honest_device_def unsigned_proof_def expectation_of_def suffix_def)
  moreover have "valid_window h later p"
    using time unfolding p(1) by (simp add: valid_window_def unsigned_proof_def dates access_ttl_def)
  ultimately show ?thesis
    using p(2-5) f by (simp add: check_access_def or_error_def) (simp add: expectation_of_def)
qed

text \<open>
  an authorized device gets in. A proof that an honest device created for a session bound to its keys, with
  the wallet's signature over the message of the request, is accepted until it expires five minutes later,
  unless the nonce was used.
\<close>

theorem created_access_accepted:
  assumes dates: "\<forall>t. date_parse h (to_iso h t) = Some t" and d: "honest_device h d"
    and made: "createTinDeviceAccessProof h wc now random q d = Inr p"
    and wallet: "expected_wallet_message (expectation_of q ws) = Inr (aq_walletAuthorizationMessage q)"
      "pk (aq_ownerPublicKey q) = Some owner" "length ws = 64" "ed25519_verify h owner (aq_walletAuthorizationMessage q) ws"
    and bound: "aq_deviceSessionBinding q = session @ device_suffix (ds_signingKeyFingerprint d) (ds_encryptionKeyFingerprint d)"
    and time: "now - 30000 \<le> later" "later < now + 300000"
    and nonce: "consume (ap_requestNonce p) (ap_expiresAt p) s = (True, s')"
  shows "\<exists>g. verifyTinDeviceAccessRequest h wc pk later (expectation_of q ws) p (Some consume) s = (Inr g, s') \<and>
    ag_deviceId g = ds_deviceId d \<and> ag_requestNonce g = bytesToBase64Url random"
proof -
  have "check_access h wc pk later (expectation_of q ws) p = Inr ()" by (rule created_check) (fact assms)+
  moreover have "ap_requestNonce p = bytesToBase64Url random" "ap_deviceId p = ds_deviceId d"
    using made by (auto simp: createTinDeviceAccessProof_def Let_def unsigned_proof_def)
  ultimately show ?thesis using nonce by (simp add: verifyTinDeviceAccessRequest_def)
qed

section \<open>The key reaches the device\<close>

lemma device_wrapping_key_agrees:
  assumes "curve_law cv" "device_wrapping_key cv a (x_public cv b) nonce fp = Inr k"
  shows "device_wrapping_key cv b (x_public cv a) nonce fp = Inr k" "octets k"
proof -
  obtain s where s: "x_shared cv a (x_public cv b) = Some s" "k = hkdf_sha256 cv s nonce (canonicalFields [''TSN_TIN_DEVICE_KEY_WRAP'', fp]) 32"
    using assms(2) by (auto simp: device_wrapping_key_def)
  show "device_wrapping_key cv b (x_public cv a) nonce fp = Inr k"
    using curve_lawD(1) [OF assms(1) s(1)] s(2) by (simp add: device_wrapping_key_def)
  show "octets k" unfolding s(2) by (rule curve_lawD(3) [OF assms(1)])
qed

text \<open>
  C35: a protected key wrapped for a device is unwrapped by it. Under a proof with the same additional data the
  device gets exactly the 32 bytes that were wrapped; in the device-envelope mode every later proof of the
  same TIN, owner, route, resource and device has the same additional data, whatever its session, nonce,
  wallet signature and expiry are.
\<close>

theorem threshold_key_roundtrip:
  assumes laws: "gcm_law h" "tag_law h" "curve_law cv" and o: "octets key" "octets nonce"
    and wrap: "wrapTinThresholdKeyForDevice h cv ephemeral nonce key p (Some DeviceEnvelopeMode) = Inr v"
    and pub: "jwk_import cv (JObj (ap_deviceEncryptionPublicKey p)) = Some (x_public cv private)"
    and later: "p' = p\<lparr>ap_operation := op, ap_deviceSessionBinding := binding, ap_walletAuthorizationCommitment := wallet,
      ap_requestNonce := n, ap_issuedAt := issued, ap_expiresAt := expires, ap_signatureBase64Url := sig\<rparr>"
  shows "unwrapTinThresholdKeyOnDevice h cv v p' private None = Inr key"
proof -
  let ?aad = "accessAad p (Some DeviceEnvelopeMode)"
  obtain k where len: "length key = 32" and k: "device_wrapping_key cv ephemeral (x_public cv private) nonce (ap_deviceEncryptionKeyFingerprint p) = Inr k"
    and v: "v = \<lparr>dk_version = TIN_DEVICE_KEY_ENVELOPE_VERSION, dk_algorithm = TIN_DEVICE_KEY_ENVELOPE_ALGORITHM,
            dk_recipientKeyFingerprint = ap_deviceEncryptionKeyFingerprint p,
            dk_ephemeralPublicKey = jwk_export cv (x_public cv ephemeral), dk_nonceBase64Url = bytesToBase64Url nonce,
            dk_wrappedKeyBase64Url = bytesToBase64Url (gcm_encrypt h k nonce ?aad key),
            dk_aadCommitment = sha256Hex (sha256 h) ?aad, dk_aadMode = Some DeviceEnvelopeMode\<rparr>"
    using wrap pub by (auto simp: wrapTinThresholdKeyForDevice_def mode_or_request_def)
  note agree = device_wrapping_key_agrees [OF laws(3) k]
  have "octets ?aad" by (simp add: accessAad_def octets_canonicalFields)
  note g = gcm_decrypt_encrypt [OF laws(1,2) agree(2) o(2) this o(1)]
  have same: "accessAad p' (Some DeviceEnvelopeMode) = ?aad" "ap_deviceEncryptionKeyFingerprint p' = ap_deviceEncryptionKeyFingerprint p"
    by (simp_all add: later accessAad_def mode_or_request_def)
  show ?thesis
    by (simp add: unwrapTinThresholdKeyOnDevice_def v same base64Url_round [OF o(2)] base64Url_round [OF g(2)] curve_lawD(2) [OF laws(3)]
        agree(1) g(1) len or_error_def Let_def)
qed

text \<open>In the request mode a proof with another nonce does not unwrap: its context is another one.\<close>

lemma request_envelope_context:
  assumes "hash_law h" "wrapTinThresholdKeyForDevice h cv ephemeral nonce key p None = Inr v"
    "unwrapTinThresholdKeyOnDevice h cv v p' private None = Inr key'"
    and no_collision: "sha256 h (accessAad p None) = sha256 h (accessAad p' None) \<Longrightarrow> accessAad p None = accessAad p' None"
  shows "ap_requestNonce p' = ap_requestNonce p" "ap_tin p' = ap_tin p" "ap_walletAuthorizationCommitment p' = ap_walletAuthorizationCommitment p"
proof -
  have "sha256Hex (sha256 h) (accessAad p' None) = sha256Hex (sha256 h) (accessAad p None)"
    using assms(2,3) by (auto simp: wrapTinThresholdKeyForDevice_def unwrapTinThresholdKeyOnDevice_def Let_def accessAad_def mode_or_request_def)
  then have "aad_fields p RequestMode = aad_fields p' RequestMode"
    using no_collision hex_digest_inject [OF assms(1)] by (simp add: accessAad_def mode_or_request_def canonicalFields_inject)
  then show "ap_requestNonce p' = ap_requestNonce p" "ap_tin p' = ap_tin p"
      "ap_walletAuthorizationCommitment p' = ap_walletAuthorizationCommitment p"
    by auto
qed

text \<open>An accepted receipt is signed by the configured service and names the nonce, operation and resource of the proof.\<close>

lemma nonce_receipt_signed:
  assumes "verifyTinThresholdNonceReceipt h now r p verifier = Inr r'"
  shows "r' = r" "nr_requestNonce r = ap_requestNonce p" "nr_operation r = ap_operation p"
    "\<exists>key sig. base64UrlToBytes verifier = Inr key \<and> length key = 32 \<and> ed25519_verify h key (serializeTinThresholdNonceReceipt r) sig"
  using assms by (auto simp: verifyTinThresholdNonceReceipt_def receipt_matches_def)


section \<open>A sample device\<close>

definition sample_signature :: "byte_list \<Rightarrow> byte_list" where
  "sample_signature m = take 64 (map (\<lambda>b. b mod 256) m @ replicate 64 0)"

definition sample_signer :: device_signer where
  "sample_signer =
     \<lparr>ds_deviceId = ''d1'', ds_signingPublicKey = [], ds_signingKeyFingerprint = fingerprintDeviceSigningPublicKey sample_host [],
      ds_encryptionPublicKey = [], ds_encryptionKeyFingerprint = fingerprintEncryptionPublicKey sample_host [] ''device'',
      ds_signMessage = (\<lambda>m. Inr (sample_signature m))\<rparr>"

definition sample_binding :: string where
  "sample_binding = ''session'' @ device_suffix (ds_signingKeyFingerprint sample_signer) (ds_encryptionKeyFingerprint sample_signer)"

definition sample_access :: access_params where
  "sample_access =
     (let hash = replicate 64 (CHR ''a'') in
      \<lparr>aq_operation = ''RELEASE_KEY'', aq_tin = ''42'', aq_ownerPublicKey = ''owner'', aq_routeVersion = 1, aq_pruConfigurationHash = hash,
       aq_deviceSessionBinding = sample_binding,
       aq_walletAuthorizationMessage = projr (serializeTinMasterSeedWalletAuthorization ''42'' ''owner'' 1 hash hash sample_binding),
       aq_resourceCommitment = hash\<rparr>)"

definition sample_wallet_signature :: byte_list where
  "sample_wallet_signature = take 64 (replicate 32 7 @ aq_walletAuthorizationMessage sample_access @ replicate 64 0)"

definition use_nonce :: "string \<Rightarrow> string \<Rightarrow> string list \<Rightarrow> bool \<times> string list" where
  "use_nonce n expires used = (n \<notin> set used, n # used)"

lemma sample_signature_octets: "octets (sample_signature m)"
  by (auto simp: sample_signature_def list_all_iff dest!: in_set_takeD)

lemma sample_signature_valid: "octets m \<Longrightarrow> ed25519_verify sample_host [] m (sample_signature m)"
proof -
  assume "octets m"
  then have "map (\<lambda>b. b mod 256) m = m" by (intro map_idI) (auto simp: list_all_iff)
  then show ?thesis by (simp add: sample_signature_def)
qed

lemma sample_dates: "\<forall>t. date_parse sample_host (to_iso sample_host t) = Some t"
  by simp

lemma sample_signer_honest: "honest_device sample_host sample_signer"
  by (auto simp: honest_device_def sample_signer_def sample_signature_octets)

lemma sample_wallet_message:
  "expected_wallet_message (expectation_of sample_access ws) = Inr (aq_walletAuthorizationMessage sample_access)"
proof -
  have "is_hex64 (replicate 64 (CHR ''a''))" by (simp add: is_hex64_def list_all_iff is_hex_def is_lower_hex_def)
  then show ?thesis
    by (simp add: expected_wallet_message_def expectation_of_def sample_access_def Let_def serializeTinMasterSeedWalletAuthorization_def
        assertRouteVersion_def assertHash32_def max_safe_integer_def)
qed

lemma sample_access_created:
  "\<exists>p. createTinDeviceAccessProof sample_host sample_crypto 1000 random sample_access sample_signer = Inr p"
proof -
  have "is_hex64 (aq_resourceCommitment sample_access)" by (simp add: sample_access_def Let_def is_hex64_def list_all_iff is_hex_def is_lower_hex_def)
  moreover have "ds_signMessage sample_signer m = Inr (sample_signature m)" for m by (simp add: sample_signer_def)
  moreover have "import_ed25519 sample_crypto k = Some []" for k by (simp add: sample_crypto_def)
  moreover have "ed25519_verify sample_host [] (serializeTinDeviceAccessProof u) (sample_signature (serializeTinDeviceAccessProof u))" for u
    unfolding serializeTinDeviceAccessProof_def by (rule sample_signature_valid) (rule octets_canonicalFields)
  ultimately show ?thesis by (simp add: createTinDeviceAccessProof_def Let_def or_error_def del: sample_host_simps)
qed

lemma sample_wallet_parts:
  "length sample_wallet_signature = 64"
  "ed25519_verify sample_host (replicate 32 7) (aq_walletAuthorizationMessage sample_access) sample_wallet_signature"
  "aq_deviceSessionBinding sample_access = ''session'' @ device_suffix (ds_signingKeyFingerprint sample_signer) (ds_encryptionKeyFingerprint sample_signer)"
  by (simp_all add: sample_wallet_signature_def) (simp add: sample_access_def Let_def sample_binding_def)

lemma sample_access_verified:
  assumes "createTinDeviceAccessProof sample_host sample_crypto 1000 random sample_access sample_signer = Inr p"
  shows "check_access sample_host sample_crypto (\<lambda>_. Some (replicate 32 7)) 2000 (expectation_of sample_access sample_wallet_signature) p = Inr ()"
  by (rule created_check) (rule sample_dates sample_signer_honest assms sample_wallet_message refl sample_wallet_parts | simp)+

theorem created_access_accepted_witness:
  "\<exists>p g. verifyTinDeviceAccessRequest sample_host sample_crypto (\<lambda>_. Some (replicate 32 7)) 2000
     (expectation_of sample_access sample_wallet_signature) p (Some use_nonce) [] = (Inr g, [ap_requestNonce p]) \<and> ag_deviceId g = ''d1''"
proof -
  obtain p where p: "createTinDeviceAccessProof sample_host sample_crypto 1000 [5] sample_access sample_signer = Inr p"
    using sample_access_created by blast
  have n: "use_nonce (ap_requestNonce p) (ap_expiresAt p) [] = (True, [ap_requestNonce p])" by (simp add: use_nonce_def)
  have "\<exists>g. verifyTinDeviceAccessRequest sample_host sample_crypto (\<lambda>_. Some (replicate 32 7)) 2000
     (expectation_of sample_access sample_wallet_signature) p (Some use_nonce) [] = (Inr g, [ap_requestNonce p]) \<and>
     ag_deviceId g = ds_deviceId sample_signer \<and> ag_requestNonce g = bytesToBase64Url [5]"
    by (rule created_access_accepted) (rule sample_dates sample_signer_honest p sample_wallet_message refl sample_wallet_parts n | simp)+
  then show ?thesis by (auto simp: sample_signer_def)
qed

text \<open>Two requests under one wallet signature, with different nonces.\<close>

theorem wallet_signature_names_device_witness:
  "\<exists>p p' g g' s s'. p \<noteq> p' \<and>
     verifyTinDeviceAccessRequest sample_host sample_crypto (\<lambda>_. Some (replicate 32 7)) 2000
       (expectation_of sample_access sample_wallet_signature) p (Some use_nonce) [] = (Inr g, s) \<and>
     verifyTinDeviceAccessRequest sample_host sample_crypto (\<lambda>_. Some (replicate 32 7)) 2000
       (expectation_of sample_access sample_wallet_signature) p' None s = (Inr g', s') \<and>
     ap_deviceSigningKeyFingerprint p = ap_deviceSigningKeyFingerprint p'"
proof -
  obtain p p' where p: "createTinDeviceAccessProof sample_host sample_crypto 1000 [5] sample_access sample_signer = Inr p"
      "createTinDeviceAccessProof sample_host sample_crypto 1000 [6] sample_access sample_signer = Inr p'"
    using sample_access_created by blast
  have n: "ap_requestNonce p = bytesToBase64Url [5]" "ap_requestNonce p' = bytesToBase64Url [6]"
    using p by (auto simp: createTinDeviceAccessProof_def Let_def unsigned_proof_def)
  have "bytesToBase64Url [5] \<noteq> bytesToBase64Url [6]"
    using base64Url_round [of "[5]"] base64Url_round [of "[6]"] by (auto dest: arg_cong [of _ _ base64UrlToBytes])
  then have "p \<noteq> p'" using n by auto
  obtain g s where g: "verifyTinDeviceAccessRequest sample_host sample_crypto (\<lambda>_. Some (replicate 32 7)) 2000
       (expectation_of sample_access sample_wallet_signature) p (Some use_nonce) [] = (Inr g, s)"
    using sample_access_verified [OF p(1)] by (auto simp: verifyTinDeviceAccessRequest_def use_nonce_def)
  obtain g' s' where g': "verifyTinDeviceAccessRequest sample_host sample_crypto (\<lambda>_. Some (replicate 32 7)) 2000
       (expectation_of sample_access sample_wallet_signature) p' None s = (Inr g', s')"
    using sample_access_verified [OF p(2)] by (auto simp: verifyTinDeviceAccessRequest_def)
  from wallet_signature_names_device [OF sample_hash_law g g' refl] \<open>p \<noteq> p'\<close> g g' show ?thesis by blast
qed

definition sample_key_proof :: access_proof where
  "sample_key_proof = unsigned_proof sample_host 1000 [5] sample_access sample_signer"

text \<open>A curve whose keys are objects with one member.\<close>

definition object_curve :: curve where
  "object_curve = sample_curve\<lparr>jwk_import := (\<lambda>v. Some (case member v ''x'' of Some (JArr ns) \<Rightarrow> map (\<lambda>n. case n of JNum z \<Rightarrow> nat z | _ \<Rightarrow> 0) ns | _ \<Rightarrow> [])),
     jwk_export := (\<lambda>k. JObj [(''x'', JArr (map (\<lambda>b. JNum (int b)) k))])\<rparr>"

theorem threshold_key_roundtrip_witness:
  "\<exists>v. wrapTinThresholdKeyForDevice sample_host object_curve [3] (replicate 12 2) (replicate 32 1) sample_key_proof (Some DeviceEnvelopeMode) = Inr v \<and>
     unwrapTinThresholdKeyOnDevice sample_host object_curve v (sample_key_proof\<lparr>ap_requestNonce := ''other''\<rparr>) [] None = Inr (replicate 32 1)"
proof -
  have law: "curve_law object_curve"
    by (auto simp: curve_law_def object_curve_def sample_curve_def list_all_iff comp_def add.commute dest!: in_set_takeD)
  have pub: "jwk_import object_curve (JObj (ap_deviceEncryptionPublicKey sample_key_proof)) = Some (x_public object_curve [])"
    by (simp add: object_curve_def sample_key_proof_def unsigned_proof_def sample_signer_def sample_curve_def)
  have "\<exists>v. wrapTinThresholdKeyForDevice sample_host object_curve [3] (replicate 12 2) (replicate 32 1) sample_key_proof (Some DeviceEnvelopeMode) = Inr v"
    using pub by (simp add: wrapTinThresholdKeyForDevice_def device_wrapping_key_def or_error_def) (simp add: object_curve_def sample_curve_def)
  then obtain v where v: "wrapTinThresholdKeyForDevice sample_host object_curve [3] (replicate 12 2) (replicate 32 1) sample_key_proof (Some DeviceEnvelopeMode) = Inr v"
    by blast
  have o: "octets (replicate 32 1)" "octets (replicate 12 2)" by (simp_all add: list_all_iff)
  have "unwrapTinThresholdKeyOnDevice sample_host object_curve v (sample_key_proof\<lparr>ap_requestNonce := ''other''\<rparr>) [] None = Inr (replicate 32 1)"
    by (rule threshold_key_roundtrip [OF sample_laws(1) sample_tag_law law o v pub, where op = "ap_operation sample_key_proof" and binding = "ap_deviceSessionBinding sample_key_proof"
      and wallet = "ap_walletAuthorizationCommitment sample_key_proof" and n = "''other''" and issued = "ap_issuedAt sample_key_proof"
      and expires = "ap_expiresAt sample_key_proof" and sig = "ap_signatureBase64Url sample_key_proof"]) simp
  with v show ?thesis by blast
qed

end
