(* ===== verification/Tin_Registry.thy ===== *)
theory Tin_Registry
  imports Tcap_Snapshot Baby_Jub Json_Parse
begin

text \<open>
  The registry client of TINs, \<open>sdks/tsn-sdk/src/tins.ts\<close>: the route of a TIN, the account the chain holds, the
  envelopes that only the owner or the resolver can open, and the creation request with its intent
  hash; and the identities and authorizations of \<open>gpru.ts\<close>. The record \<open>solana\<close> holds what the packages give:
  addresses, derived addresses and accounts. Public keys are their 32 bytes.
\<close>

section \<open>Keys and identities of a GPRU\<close>

definition GPRU_DERIVATION_DOMAIN :: string where
  "GPRU_DERIVATION_DOMAIN = ''TSN_GPRU_DERIVATION_V1''"

definition GPRU_AUTHORIZATION_DOMAIN :: string where
  "GPRU_AUTHORIZATION_DOMAIN = ''TSN_GPRU_AUTHORIZATION_V1''"

definition GPRU_ELGAMAL_KEY_COMMITMENT_DOMAIN :: string where
  "GPRU_ELGAMAL_KEY_COMMITMENT_DOMAIN = ''TSN_GPRU_ELGAMAL_KEY_COMMITMENT_V1'' @ [CHR 0x00]"

type_synonym text_or_bytes = "string + byte_list"

record gpru_derivation =
  gd_tinPrivacyReceivingRoot :: text_or_bytes
  gd_settlementCommitment :: text_or_bytes
  gd_epochContext :: text_or_bytes
  gd_authorizationScope :: text_or_bytes

record gpru_authorization = gpru_derivation +
  gd_gpruIdentity :: text_or_bytes

text \<open>\<open>hexToBytes\<close> belongs to the hash package and may throw.\<close>

definition gpru_bytes :: "(string \<Rightarrow> byte_list result) \<Rightarrow> text_or_bytes \<Rightarrow> string \<Rightarrow> byte_list result" where
  "gpru_bytes hexToBytes v label =
     and_then (case v of Inl s \<Rightarrow> hexToBytes s | Inr bs \<Rightarrow> Inr bs) (\<lambda>r.
     and_then (require (r \<noteq> []) (label @ '' must not be empty'')) (\<lambda>_. Inr r))"

definition gpru_fixed :: "(string \<Rightarrow> byte_list result) \<Rightarrow> text_or_bytes \<Rightarrow> string \<Rightarrow> byte_list result" where
  "gpru_fixed hexToBytes v label =
     and_then (gpru_bytes hexToBytes v label) (\<lambda>r.
     and_then (require (length r = 32) (label @ '' must be exactly 32 bytes'')) (\<lambda>_. Inr r))"

definition gpru_frame :: "byte_list \<Rightarrow> byte_list result" where
  "gpru_frame v = and_then (require (\<not> length v > 4294967295) ''GPRU field is too large'') (\<lambda>_. Inr (be_bytes 4 (length v) @ v))"

definition gpru_canonical :: "(string \<Rightarrow> byte_list result) \<Rightarrow> string \<Rightarrow> 'a gpru_derivation_scheme \<Rightarrow> byte_list result" where
  "gpru_canonical hx domain i = concat_all
     [gpru_frame (utf8 domain),
      and_then (gpru_fixed hx (gd_tinPrivacyReceivingRoot i) ''TIN privacy-receiving root'') gpru_frame,
      and_then (gpru_fixed hx (gd_settlementCommitment i) ''settlement commitment'') gpru_frame,
      and_then (gpru_bytes hx (gd_epochContext i) ''epoch context'') gpru_frame,
      and_then (gpru_bytes hx (gd_authorizationScope i) ''authorization scope'') gpru_frame]"

definition deriveGpruIdentity :: "host \<Rightarrow> (string \<Rightarrow> byte_list result) \<Rightarrow> 'a gpru_derivation_scheme \<Rightarrow> byte_list result" where
  "deriveGpruIdentity h hx i = and_then (gpru_canonical hx GPRU_DERIVATION_DOMAIN i) (\<lambda>bs. Inr (sha256 h bs))"

definition deriveGpruIdentityHex :: "host \<Rightarrow> (string \<Rightarrow> byte_list result) \<Rightarrow> 'a gpru_derivation_scheme \<Rightarrow> string result" where
  "deriveGpruIdentityHex h hx i = and_then (deriveGpruIdentity h hx i) (\<lambda>bs. Inr (bytesToHex bs))"

definition all_zero :: "byte_list \<Rightarrow> bool" where
  "all_zero bs = list_all (\<lambda>b. b = 0) bs"

text \<open>\<open>elgamal\<close> is the public key the Solana package derives from the key material.\<close>

definition deriveGpruElgamalPublicKey :: "(byte_list \<Rightarrow> byte_list) \<Rightarrow> byte_list \<Rightarrow> byte_list result" where
  "deriveGpruElgamalPublicKey elgamal masterSeed =
     and_then (require (\<not> length masterSeed < 32) ''GPRU ElGamal derivation requires at least 32 bytes of owner key material'') (\<lambda>_.
     let encoded = elgamal masterSeed in
     and_then (require (length encoded = 32 \<and> \<not> all_zero encoded) ''Solana zk-sdk returned an invalid GPRU ElGamal public key'') (\<lambda>_.
       Inr encoded))"

definition deriveGpruElgamalKeyCommitment :: "host \<Rightarrow> int \<Rightarrow> byte_list \<Rightarrow> byte_list result" where
  "deriveGpruElgamalKeyCommitment h version publicKey =
     and_then (require (version = 1) ''Unsupported GPRU ElGamal key version'') (\<lambda>_.
     and_then (require (length publicKey = 32 \<and> \<not> all_zero publicKey) ''GPRU ElGamal public key must be a nonzero 32-byte value'') (\<lambda>_.
       Inr (sha256 h (utf8 GPRU_ELGAMAL_KEY_COMMITMENT_DOMAIN @ [nat version] @ publicKey))))"

definition createCanonicalGpruAuthorizationMessage ::
  "(string \<Rightarrow> byte_list result) \<Rightarrow> 'a gpru_authorization_scheme \<Rightarrow> byte_list result" where
  "createCanonicalGpruAuthorizationMessage hx i =
     concat_all [gpru_canonical hx GPRU_AUTHORIZATION_DOMAIN i, and_then (gpru_fixed hx (gd_gpruIdentity i) ''GPRU identity'') gpru_frame]"

definition verifyGpruAuthorizationBinding :: "host \<Rightarrow> (string \<Rightarrow> byte_list result) \<Rightarrow> 'a gpru_authorization_scheme \<Rightarrow> bool result" where
  "verifyGpruAuthorizationBinding h hx i =
     and_then (deriveGpruIdentity h hx i) (\<lambda>expected.
     and_then (gpru_fixed hx (gd_gpruIdentity i) ''GPRU identity'') (\<lambda>supplied. Inr (expected = supplied \<and> expected \<noteq> [])))"

definition verifyGpruAuthorizationSignature ::
  "host \<Rightarrow> (string \<Rightarrow> byte_list result) \<Rightarrow> 'a gpru_authorization_scheme \<Rightarrow> text_or_bytes \<Rightarrow> text_or_bytes \<Rightarrow> bool result" where
  "verifyGpruAuthorizationSignature h hx i publicKey signature =
     and_then (verifyGpruAuthorizationBinding h hx i) (\<lambda>ok.
     if \<not> ok then Inr False
     else and_then (gpru_bytes hx signature ''GPRU authorization signature'') (\<lambda>sig.
       if length sig \<noteq> 64 then Inr False
       else and_then (createCanonicalGpruAuthorizationMessage hx i) (\<lambda>message.
         and_then (gpru_fixed hx publicKey ''GPRU authorization public key'') (\<lambda>key.
           Inr (ed25519_verify h key message sig)))))"

section \<open>Addresses\<close>

record solana =
  sol_pubkey :: "string \<Rightarrow> byte_list option"
  sol_base58 :: "byte_list \<Rightarrow> string"
  sol_find :: "byte_list list \<Rightarrow> byte_list \<Rightarrow> (byte_list \<times> nat) option"
  sol_account :: "byte_list \<Rightarrow> (byte_list \<times> byte_list) option"

definition DEFAULT_TIP_PROGRAM_ID :: string where
  "DEFAULT_TIP_PROGRAM_ID = ''TinseNnU588NkmRZBe4ADJbxqrqQma92678UFP6VuwT''"

definition publicKey_of :: "solana \<Rightarrow> text_or_bytes \<Rightarrow> byte_list result" where
  "publicKey_of sol v =
     (case v of Inr key \<Rightarrow> Inr key
      | Inl s \<Rightarrow> (case sol_pubkey sol s of None \<Rightarrow> Inl ''Invalid public key input'' | Some key \<Rightarrow> Inr key))"

definition getTinsProgramPublicKey :: "solana \<Rightarrow> text_or_bytes option \<Rightarrow> byte_list result" where
  "getTinsProgramPublicKey sol programId = publicKey_of sol (case programId of None \<Rightarrow> Inl DEFAULT_TIP_PROGRAM_ID | Some v \<Rightarrow> v)"

definition findProgramAddress :: "solana \<Rightarrow> byte_list list \<Rightarrow> byte_list \<Rightarrow> (byte_list \<times> nat) result" where
  "findProgramAddress sol seeds program =
     (case sol_find sol seeds program of None \<Rightarrow> Inl ''Unable to find a viable program address nonce'' | Some r \<Rightarrow> Inr r)"

definition secret_bytes :: "text_or_bytes \<Rightarrow> byte_list" where
  "secret_bytes v = (case v of Inl s \<Rightarrow> utf8 s | Inr bs \<Rightarrow> bs)"

definition is_tin :: "string \<Rightarrow> bool" where
  "is_tin s \<longleftrightarrow> length s = 10 \<and> list_all is_digit s"

definition lookup_commitment :: "host \<Rightarrow> byte_list \<Rightarrow> string \<Rightarrow> byte_list" where
  "lookup_commitment h secret tin = sha256 h (utf8 ''TSN_TIN_V1_LOOKUP'' @ secret @ utf8 tin)"

definition identity_key :: "host \<Rightarrow> byte_list \<Rightarrow> string \<Rightarrow> byte_list" where
  "identity_key h secret tin = sha256 h (utf8 ''TSN_TIN_V1_IDENTITY'' @ secret @ utf8 tin)"

definition getTinV1RegistryPda :: "host \<Rightarrow> solana \<Rightarrow> string \<Rightarrow> text_or_bytes \<Rightarrow> text_or_bytes option \<Rightarrow> (byte_list \<times> nat) result" where
  "getTinV1RegistryPda h sol tin secret programId =
     and_then (require (is_tin tin) ''TIN must contain exactly 10 digits'') (\<lambda>_.
     and_then (require (\<not> length (secret_bytes secret) < 16) ''lookupSecret must contain at least 16 bytes'') (\<lambda>_.
     and_then (getTinsProgramPublicKey sol programId) (\<lambda>program.
       findProgramAddress sol [utf8 ''tin-v1'', lookup_commitment h (secret_bytes secret) tin] program)))"

definition getTinsGlobalStatePda :: "solana \<Rightarrow> text_or_bytes option \<Rightarrow> byte_list result" where
  "getTinsGlobalStatePda sol programId =
     and_then (getTinsProgramPublicKey sol programId) (\<lambda>program.
     and_then (findProgramAddress sol [utf8 ''global-state''] program) (\<lambda>r. Inr (fst r)))"

definition getTipRouteMerkleRootV1Pda :: "solana \<Rightarrow> text_or_bytes option \<Rightarrow> byte_list result" where
  "getTipRouteMerkleRootV1Pda sol programId =
     and_then (getTinsProgramPublicKey sol programId) (\<lambda>program.
     and_then (findProgramAddress sol [utf8 ''tip:route-merkle-root:v1''] program) (\<lambda>r. Inr (fst r)))"

text \<open>An absent hash is 32 zero bytes.\<close>

definition normalizeHash32 :: "byte_list option \<Rightarrow> string \<Rightarrow> byte_list result" where
  "normalizeHash32 v label =
     (case v of None \<Rightarrow> Inr (replicate 32 0)
      | Some bs \<Rightarrow> and_then (require (length bs = 32) (label @ '' must be exactly 32 bytes'')) (\<lambda>_. Inr bs))"

definition requireHash32 :: "byte_list option \<Rightarrow> string \<Rightarrow> byte_list result" where
  "requireHash32 v label = (case v of None \<Rightarrow> Inl (label @ '' is required'') | Some bs \<Rightarrow> normalizeHash32 (Some bs) label)"

definition getTinV1CreationStagingPda :: "solana \<Rightarrow> byte_list \<Rightarrow> byte_list \<Rightarrow> text_or_bytes option \<Rightarrow> byte_list result" where
  "getTinV1CreationStagingPda sol owner intentHash programId =
     and_then (normalizeHash32 (Some intentHash) ''intentHash'') (\<lambda>hash.
     and_then (getTinsProgramPublicKey sol programId) (\<lambda>program.
     and_then (findProgramAddress sol [utf8 ''tin-v1-create-stage'', owner, hash] program) (\<lambda>r. Inr (fst r))))"

definition getTinV1OwnerRecoveryPda :: "solana \<Rightarrow> byte_list \<Rightarrow> text_or_bytes option \<Rightarrow> byte_list result" where
  "getTinV1OwnerRecoveryPda sol owner programId =
     and_then (getTinsProgramPublicKey sol programId) (\<lambda>program.
     and_then (findProgramAddress sol [utf8 ''tin-v1-owner-recovery'', owner] program) (\<lambda>r. Inr (fst r)))"

section \<open>Routes and registry accounts\<close>

record tip_route =
  tr_tipRouteVersion :: int
  tr_gpruElgamalKeyVersion :: int
  tr_gpruElgamalPublicKey :: "byte_list option"
  tr_gpruElgamalKeyCommitment :: "byte_list option"
  tr_gpruBalanceScanKeyVersion :: int
  tr_gpruBalanceScanPublicKeyX :: "byte_list option"
  tr_gpruBalanceScanPublicKeyY :: "byte_list option"
  tr_policyCommitment :: "byte_list option"

definition nonZero32 :: "byte_list option \<Rightarrow> bool" where
  "nonZero32 v = (case v of None \<Rightarrow> False | Some bs \<Rightarrow> length bs = 32 \<and> \<not> all_zero bs)"

definition or_none :: "byte_list option \<Rightarrow> byte_list" where
  "or_none v = (case v of None \<Rightarrow> [] | Some bs \<Rightarrow> bs)"

definition scanPointValid :: "tip_route \<Rightarrow> bool" where
  "scanPointValid r =
     (case and_then (decodeBabyJubHexV1 (bytesToHex (or_none (tr_gpruBalanceScanPublicKeyX r))) ''GPRU balance scan x'') (\<lambda>x.
           and_then (decodeBabyJubHexV1 (bytesToHex (or_none (tr_gpruBalanceScanPublicKeyY r))) ''GPRU balance scan y'') (\<lambda>y.
             Inr (isValidBabyJubPointV1 \<lparr>px = x, py = y\<rparr>))) of
        Inl _ \<Rightarrow> False | Inr b \<Rightarrow> b)"

definition validateTinTipRoute :: "host \<Rightarrow> tip_route \<Rightarrow> bool" where
  "validateTinTipRoute h r \<longleftrightarrow>
     tr_tipRouteVersion r = 1 \<and> tr_gpruElgamalKeyVersion r = 1 \<and> tr_gpruBalanceScanKeyVersion r = 1 \<and>
     nonZero32 (tr_gpruElgamalPublicKey r) \<and> nonZero32 (tr_gpruElgamalKeyCommitment r) \<and> nonZero32 (tr_gpruBalanceScanPublicKeyX r) \<and>
     nonZero32 (tr_gpruBalanceScanPublicKeyY r) \<and> scanPointValid r \<and> nonZero32 (tr_policyCommitment r) \<and>
     deriveGpruElgamalKeyCommitment h (tr_gpruElgamalKeyVersion r) (or_none (tr_gpruElgamalPublicKey r)) =
       Inr (or_none (tr_gpruElgamalKeyCommitment r))"

record registry_account =
  ra_version :: nat
  ra_bump :: nat
  ra_status :: nat
  ra_reserved :: byte_list
  ra_lookupCommitment :: byte_list
  ra_ownerCommitment :: byte_list
  ra_encryptedIdentityEnvelope :: byte_list
  ra_encryptedMasterSeed :: byte_list
  ra_createdAt :: byte_list
  ra_encryptedMetadataHash :: byte_list
  ra_routeVersion :: nat
  ra_routeNonce :: byte_list
  ra_tipRouteVersion :: nat
  ra_gpruElgamalKeyVersion :: nat
  ra_gpruElgamalPublicKey :: byte_list
  ra_gpruElgamalKeyCommitment :: byte_list
  ra_gpruBalanceScanKeyVersion :: nat
  ra_gpruBalanceScanPublicKeyX :: byte_list
  ra_gpruBalanceScanPublicKeyY :: byte_list
  ra_policyCommitment :: byte_list

text \<open>The closures of the decoder take bytes from the rest of the buffer.\<close>

definition reg_take :: "nat \<Rightarrow> string \<Rightarrow> byte_list \<Rightarrow> (byte_list \<times> byte_list) result" where
  "reg_take n label bs = (if length bs < n then Inl (''TIN_REGISTRY_MALFORMED_AT_'' @ label) else Inr (take n bs, drop n bs))"

definition reg_u8 :: "string \<Rightarrow> byte_list \<Rightarrow> (nat \<times> byte_list) result" where
  "reg_u8 label bs = and_then (reg_take 1 label bs) (\<lambda>(v, rest). Inr (hd v, rest))"

definition reg_vec :: "string \<Rightarrow> byte_list \<Rightarrow> (byte_list \<times> byte_list) result" where
  "reg_vec label bs = and_then (reg_take 4 (label @ ''_length'') bs) (\<lambda>(n, rest). reg_take (le_val n) label rest)"

definition decodeTinV1RegistryAccount :: "byte_list \<Rightarrow> registry_account result" where
  "decodeTinV1RegistryAccount b0 =
     and_then (reg_u8 ''version'' b0) (\<lambda>(version, b1).
     and_then (reg_u8 ''bump'' b1) (\<lambda>(bump, b2).
     and_then (reg_u8 ''status'' b2) (\<lambda>(status, b3).
     and_then (reg_take 5 ''reserved'' b3) (\<lambda>(reserved, b4).
     and_then (reg_take 32 ''lookup_commitment'' b4) (\<lambda>(lookup, b5).
     and_then (reg_take 32 ''owner_commitment'' b5) (\<lambda>(owner, b6).
     and_then (reg_vec ''identity_envelope'' b6) (\<lambda>(identity, b7).
     and_then (reg_vec ''master_seed_envelope'' b7) (\<lambda>(seed, b8).
     and_then (reg_take 8 ''created_at'' b8) (\<lambda>(created, b9).
     and_then (reg_take 32 ''metadata_hash'' b9) (\<lambda>(metadata, b10).
     and_then (reg_take 8 ''route_version'' b10) (\<lambda>(routeVersion, b11).
     and_then (reg_take 32 ''route_nonce'' b11) (\<lambda>(nonce, b12).
     and_then (reg_u8 ''tip_route_version'' b12) (\<lambda>(tipVersion, b13).
     and_then (reg_u8 ''gpru_elgamal_key_version'' b13) (\<lambda>(keyVersion, b14).
     and_then (reg_take 32 ''gpru_elgamal_public_key'' b14) (\<lambda>(key, b15).
     and_then (reg_take 32 ''gpru_elgamal_key_commitment'' b15) (\<lambda>(commitment, b16).
     and_then (reg_u8 ''gpru_balance_scan_key_version'' b16) (\<lambda>(scanVersion, b17).
     and_then (reg_take 32 ''gpru_balance_scan_public_key_x'' b17) (\<lambda>(x, b18).
     and_then (reg_take 32 ''gpru_balance_scan_public_key_y'' b18) (\<lambda>(y, b19).
     and_then (reg_take 32 ''policy_commitment'' b19) (\<lambda>(policy, b20).
     and_then (require (all_zero b20) ''TIN_REGISTRY_HAS_NONZERO_TRAILING_DATA'') (\<lambda>_.
       Inr \<lparr>ra_version = version, ra_bump = bump, ra_status = status, ra_reserved = reserved, ra_lookupCommitment = lookup,
            ra_ownerCommitment = owner, ra_encryptedIdentityEnvelope = identity, ra_encryptedMasterSeed = seed, ra_createdAt = created,
            ra_encryptedMetadataHash = metadata, ra_routeVersion = le_val routeVersion, ra_routeNonce = nonce,
            ra_tipRouteVersion = tipVersion, ra_gpruElgamalKeyVersion = keyVersion, ra_gpruElgamalPublicKey = key,
            ra_gpruElgamalKeyCommitment = commitment, ra_gpruBalanceScanKeyVersion = scanVersion, ra_gpruBalanceScanPublicKeyX = x,
            ra_gpruBalanceScanPublicKeyY = y, ra_policyCommitment = policy\<rparr>)))))))))))))))))))))"

definition account_route :: "registry_account \<Rightarrow> tip_route" where
  "account_route a =
     \<lparr>tr_tipRouteVersion = int (ra_tipRouteVersion a), tr_gpruElgamalKeyVersion = int (ra_gpruElgamalKeyVersion a),
      tr_gpruElgamalPublicKey = Some (ra_gpruElgamalPublicKey a), tr_gpruElgamalKeyCommitment = Some (ra_gpruElgamalKeyCommitment a),
      tr_gpruBalanceScanKeyVersion = int (ra_gpruBalanceScanKeyVersion a),
      tr_gpruBalanceScanPublicKeyX = Some (ra_gpruBalanceScanPublicKeyX a),
      tr_gpruBalanceScanPublicKeyY = Some (ra_gpruBalanceScanPublicKeyY a), tr_policyCommitment = Some (ra_policyCommitment a)\<rparr>"

record tin_identity =
  ti_tin :: string
  ti_displayName :: string
  ti_displayNameSource :: string
  ti_ownerPubkeyHash :: string
  ti_registryPda :: string
  ti_gpruBalanceScanKeyVersion :: nat
  ti_gpruBalanceScanPublicKeyX :: string
  ti_gpruBalanceScanPublicKeyY :: string

definition check_account :: "host \<Rightarrow> nat \<Rightarrow> byte_list \<Rightarrow> string \<Rightarrow> registry_account \<Rightarrow> unit result" where
  "check_account h expectedBump secret tin a =
     and_then (require (ra_version a = 1 \<and> ra_bump a = expectedBump \<and> ra_status a = 1) ''TIN_REGISTRY_V1_ACCOUNT_BINDING_MISMATCH'') (\<lambda>_.
     and_then (require (ra_lookupCommitment a = lookup_commitment h secret tin) ''TIN_REGISTRY_LOOKUP_COMMITMENT_MISMATCH'') (\<lambda>_.
     and_then (require (\<not> ra_routeVersion a < 1 \<and> ra_tipRouteVersion a = 1 \<and> ra_gpruElgamalKeyVersion a = 1 \<and> ra_gpruBalanceScanKeyVersion a = 1)
       ''TIN_REGISTRY_ROUTE_VERSION_UNSUPPORTED'') (\<lambda>_.
     and_then (deriveGpruElgamalKeyCommitment h (int (ra_gpruElgamalKeyVersion a)) (ra_gpruElgamalPublicKey a)) (\<lambda>c.
     and_then (require (c = ra_gpruElgamalKeyCommitment a) ''TIN_REGISTRY_GPRU_KEY_COMMITMENT_MISMATCH'') (\<lambda>_.
     require (validateTinTipRoute h (account_route a)) ''TIN_REGISTRY_GPRU_BALANCE_SCAN_KEY_INVALID'')))))"

definition open_identity :: "host \<Rightarrow> (byte_list \<Rightarrow> string) \<Rightarrow> byte_list \<Rightarrow> string \<Rightarrow> byte_list \<Rightarrow> string result" where
  "open_identity h td secret tin envelope =
     and_then (require (\<not> length envelope < 28) ''TIN_REGISTRY_IDENTITY_ENVELOPE_MALFORMED'') (\<lambda>_.
     case subtle_open h (identity_key h secret tin) (take 12 envelope) (drop 12 envelope) of
       Inl _ \<Rightarrow> Inl ''TIN_REGISTRY_IDENTITY_DECRYPTION_FAILED''
     | Inr plaintext \<Rightarrow>
         (case json_parse (td plaintext) of
            None \<Rightarrow> Inl ''TIN_REGISTRY_IDENTITY_DECRYPTION_FAILED''
          | Some JNull \<Rightarrow> Inl ''TypeError''
          | Some v \<Rightarrow>
              (case member v ''name'' of
                 Some (JStr name) \<Rightarrow>
                   and_then (require (member v ''tin'' = Some (JStr tin)) ''TIN_REGISTRY_IDENTITY_BINDING_MISMATCH'') (\<lambda>_. Inr name)
               | _ \<Rightarrow> Inl ''TIN_REGISTRY_IDENTITY_BINDING_MISMATCH'')))"

definition resolveTinV1Identity ::
  "host \<Rightarrow> (byte_list \<Rightarrow> string) \<Rightarrow> solana \<Rightarrow> string \<Rightarrow> text_or_bytes \<Rightarrow> text_or_bytes option \<Rightarrow> tin_identity option result" where
  "resolveTinV1Identity h td sol tin secret programId =
     and_then (getTinsProgramPublicKey sol programId) (\<lambda>program.
     and_then (getTinV1RegistryPda h sol tin secret (Some (Inr program))) (\<lambda>(registryPda, expectedBump).
     case sol_account sol registryPda of
       None \<Rightarrow> Inr None
     | Some (accountOwner, data) \<Rightarrow>
         and_then (require (accountOwner = program) ''TIN_REGISTRY_PROGRAM_MISMATCH'') (\<lambda>_.
         and_then (decodeTinV1RegistryAccount data) (\<lambda>a.
         and_then (check_account h expectedBump (secret_bytes secret) tin a) (\<lambda>_.
         and_then (open_identity h td (secret_bytes secret) tin (ra_encryptedIdentityEnvelope a)) (\<lambda>name.
           Inr (Some \<lparr>ti_tin = tin, ti_displayName = name,
             ti_displayNameSource = (if js_trim name \<noteq> [] then ''owner-provided'' else ''not provided''),
             ti_ownerPubkeyHash = bytesToHex (ra_ownerCommitment a), ti_registryPda = sol_base58 sol registryPda,
             ti_gpruBalanceScanKeyVersion = ra_gpruBalanceScanKeyVersion a,
             ti_gpruBalanceScanPublicKeyX = bytesToHex (ra_gpruBalanceScanPublicKeyX a),
             ti_gpruBalanceScanPublicKeyY = bytesToHex (ra_gpruBalanceScanPublicKeyY a)\<rparr>)))))))"

end
