(* ===== verification/Tin_Creation.thy ===== *)
theory Tin_Creation
  imports Tin_Registry
begin

text \<open>
  Creating and recovering a TIN, the second half of \<open>sdks/tsn-sdk/src/tins.ts\<close>: the recovery envelope that the owner's
  wallet signature opens, the identity envelope, the intent hash the owner signs, the instruction data
  and the request to the Receiver.
\<close>

section \<open>Owner recovery\<close>

definition RECOVERY_V4_MAGIC :: byte_list where
  "RECOVERY_V4_MAGIC = utf8 ''TSNTIN04''"

definition RECOVERY_V3_MAGIC :: byte_list where
  "RECOVERY_V3_MAGIC = utf8 ''TSNTIN03''"

definition RECOVERY_V2_MAGIC :: byte_list where
  "RECOVERY_V2_MAGIC = utf8 ''TSNTIN02''"

definition RECOVERY_KEY_DOMAIN :: byte_list where
  "RECOVERY_KEY_DOMAIN = utf8 ''TSN_TIN_OWNER_RECOVERY_KEY_V1''"

definition lines :: "string list \<Rightarrow> string" where
  "lines ls = js_join [CHR 0x0A] ls"

definition buildTinV1OwnerRecoveryMessage :: "solana \<Rightarrow> text_or_bytes \<Rightarrow> text_or_bytes option \<Rightarrow> byte_list result" where
  "buildTinV1OwnerRecoveryMessage sol owner programId =
     and_then (publicKey_of sol owner) (\<lambda>ownerPubkey.
     and_then (getTinsProgramPublicKey sol programId) (\<lambda>program.
       Inr (utf8 (lines
         [''TrustLink TIN recovery authorization'', ''Purpose: Recover the encrypted TIN associated with this wallet.'', [],
          ''Wallet: '' @ sol_base58 sol ownerPubkey, ''TIN program: '' @ sol_base58 sol program, [],
          ''This signature is used locally to decrypt the recovery record.'', ''It does not authorize a transaction.'']))))"

definition supported_magic :: "byte_list \<Rightarrow> byte_list option" where
  "supported_magic envelope =
     find (\<lambda>magic. take (length magic) envelope = magic) [RECOVERY_V4_MAGIC, RECOVERY_V3_MAGIC, RECOVERY_V2_MAGIC]"

definition envelope_magic :: "byte_list \<Rightarrow> byte_list result" where
  "envelope_magic envelope =
     (case supported_magic envelope of
        None \<Rightarrow> Inl ''TIN_OWNER_RECOVERY_ENVELOPE_UNSUPPORTED''
      | Some magic \<Rightarrow>
          and_then (require (\<not> length envelope < length magic + 12 + 16) ''TIN_OWNER_RECOVERY_ENVELOPE_UNSUPPORTED'') (\<lambda>_. Inr magic))"

definition getTinV1OwnerRecoveryMessageForEnvelope ::
  "solana \<Rightarrow> byte_list \<Rightarrow> text_or_bytes \<Rightarrow> text_or_bytes option \<Rightarrow> byte_list result" where
  "getTinV1OwnerRecoveryMessageForEnvelope sol envelope owner programId =
     and_then (envelope_magic envelope) (\<lambda>_. buildTinV1OwnerRecoveryMessage sol owner programId)"

definition getTinV1OwnerRecoveryEnvelope :: "solana \<Rightarrow> text_or_bytes \<Rightarrow> text_or_bytes option \<Rightarrow> byte_list option result" where
  "getTinV1OwnerRecoveryEnvelope sol owner programId =
     and_then (publicKey_of sol owner) (\<lambda>ownerPubkey.
     and_then (getTinsProgramPublicKey sol programId) (\<lambda>program.
     and_then (findProgramAddress sol [utf8 ''tin-v1-owner-recovery'', ownerPubkey] program) (\<lambda>(recoveryPda, expectedBump).
     case sol_account sol recoveryPda of
       None \<Rightarrow> Inr None
     | Some (accountOwner, data) \<Rightarrow>
         and_then (require (accountOwner = program) ''TIN_OWNER_RECOVERY_ACCOUNT_PROGRAM_MISMATCH'') (\<lambda>_.
         and_then (require (\<not> length data < 38) ''TIN_OWNER_RECOVERY_ACCOUNT_MALFORMED'') (\<lambda>_.
         and_then (require (data ! 0 = 1 \<and> data ! 1 = expectedBump \<and> take 32 (drop 2 data) = ownerPubkey)
           ''TIN_OWNER_RECOVERY_ACCOUNT_BINDING_MISMATCH'') (\<lambda>_.
         and_then (require (le_val (take 4 (drop 34 data)) = length data - 38) ''TIN_OWNER_RECOVERY_ACCOUNT_MALFORMED'') (\<lambda>_.
         and_then (getTinV1OwnerRecoveryMessageForEnvelope sol (drop 38 data) (Inr ownerPubkey) (Some (Inr program))) (\<lambda>_.
           Inr (Some (drop 38 data)))))))))) "

text \<open>\<open>nacl.sign.detached.verify\<close> throws on a signature that has not 64 bytes.\<close>

definition importTinRecoveryKey :: "host \<Rightarrow> solana \<Rightarrow> text_or_bytes \<Rightarrow> byte_list \<Rightarrow> text_or_bytes option \<Rightarrow> byte_list result" where
  "importTinRecoveryKey h sol owner signature programId =
     and_then (publicKey_of sol owner) (\<lambda>ownerPubkey.
     and_then (buildTinV1OwnerRecoveryMessage sol (Inr ownerPubkey) programId) (\<lambda>message.
     and_then (require (length signature = 64) ''bad signature size'') (\<lambda>_.
     and_then (require (ed25519_verify h ownerPubkey message signature) ''TIN_OWNER_RECOVERY_SIGNATURE_INVALID'') (\<lambda>_.
     and_then (getTinsProgramPublicKey sol programId) (\<lambda>program.
       Inr (sha256 h (RECOVERY_KEY_DOMAIN @ ownerPubkey @ program @ signature)))))))"

definition control_char :: "char \<Rightarrow> bool" where
  "control_char c \<longleftrightarrow> code c < 32 \<or> code c = 127"

definition createTinV1OwnerRecoveryEnvelope ::
  "host \<Rightarrow> solana \<Rightarrow> byte_list \<Rightarrow> string \<Rightarrow> string \<Rightarrow> text_or_bytes \<Rightarrow> byte_list \<Rightarrow> text_or_bytes option \<Rightarrow> byte_list result" where
  "createTinV1OwnerRecoveryEnvelope h sol nonce tin displayName owner signature programId =
     and_then (require (is_tin tin) ''TIN_OWNER_RECOVERY_TIN_INVALID'') (\<lambda>_.
     let name = js_trim displayName in
     and_then (require (\<not> (name = [] \<or> length name > 100 \<or> list_ex control_char name)) ''TIN_OWNER_RECOVERY_DISPLAY_NAME_INVALID'') (\<lambda>_.
     and_then (importTinRecoveryKey h sol owner signature programId) (\<lambda>key.
       Inr (RECOVERY_V4_MAGIC @ nonce @
         subtle_seal h key nonce (utf8 (json_stringify (JObj [(''tin'', JStr tin), (''displayName'', JStr name)])))))))"

definition decryptTinV1OwnerRecoveryEnvelope ::
  "host \<Rightarrow> (byte_list \<Rightarrow> string) \<Rightarrow> solana \<Rightarrow> byte_list \<Rightarrow> text_or_bytes \<Rightarrow> byte_list \<Rightarrow> text_or_bytes option \<Rightarrow> (string \<times> string option) result" where
  "decryptTinV1OwnerRecoveryEnvelope h td sol envelope owner signature programId =
     and_then (envelope_magic envelope) (\<lambda>magic.
     and_then (importTinRecoveryKey h sol owner signature programId) (\<lambda>key.
     and_then (subtle_open h key (take 12 (drop (length magic) envelope)) (drop (length magic + 12) envelope)) (\<lambda>plaintext.
     let decoded = td plaintext; isJson = (magic = RECOVERY_V4_MAGIC \<or> magic = RECOVERY_V3_MAGIC) in
     case (if isJson then json_parse decoded else Some (JObj [(''tin'', JStr decoded)])) of
       None \<Rightarrow> Inl ''TIN_OWNER_RECOVERY_ENVELOPE_MALFORMED''
     | Some JNull \<Rightarrow> Inl ''TypeError''
     | Some v \<Rightarrow>
         (case member v ''tin'' of
            Some (JStr tin) \<Rightarrow>
              and_then (require (is_tin tin) ''TIN_OWNER_RECOVERY_TIN_INVALID'') (\<lambda>_.
              case member v ''displayName'' of
                Some (JStr name) \<Rightarrow>
                  and_then (require (\<not> (isJson \<and> js_trim name = [])) ''TIN_OWNER_RECOVERY_DISPLAY_NAME_INVALID'') (\<lambda>_. Inr (tin, Some name))
              | _ \<Rightarrow> if isJson then Inl ''TIN_OWNER_RECOVERY_DISPLAY_NAME_INVALID'' else Inr (tin, None))
          | _ \<Rightarrow> Inl ''TIN_OWNER_RECOVERY_TIN_INVALID''))))"

section \<open>The identity envelope\<close>

definition createTinV1IdentityEnvelope ::
  "host \<Rightarrow> byte_list \<Rightarrow> string \<Rightarrow> string \<Rightarrow> text_or_bytes option \<Rightarrow> (byte_list \<times> byte_list) result" where
  "createTinV1IdentityEnvelope h nonce tin displayName lookupSecret =
     (case lookupSecret of
        None \<Rightarrow> Inl ''lookupSecret is required for TIN V1 identity creation''
      | Some s \<Rightarrow>
          (let secret = secret_bytes s in
           and_then (require (\<not> length secret < 16) ''lookupSecret must contain at least 16 bytes'') (\<lambda>_.
             Inr (lookup_commitment h secret tin,
               nonce @ subtle_seal h (identity_key h secret tin) nonce
                 (utf8 (json_stringify (JObj [(''name'', JStr displayName), (''tin'', JStr tin)])))))))"

section \<open>Creation\<close>

definition buildTinOwnerIntentMessage :: "byte_list \<Rightarrow> byte_list result" where
  "buildTinOwnerIntentMessage intentHash =
     and_then (normalizeHash32 (Some intentHash) ''intentHash'') (\<lambda>hash.
       Inr (utf8 (lines
         [''TrustLink TIN creation approval'', [], ''You are approving the encrypted creation request for your TIN.'', [],
          ''REQUEST DETAILS'', ''Intent reference: '' @ bytesToHex hash, [], ''Protocol: Transfer Identity Protocol (TIP)'', [],
          ''Version: 1'', [], ''NEXT STEP'', ''TSN will verify this approval before submission to Solana.'', [],
          ''No funds are transferred by this approval.''])))"

text \<open>The instruction is built by a package from key, message and signature.\<close>

definition createOwnerIntentSignatureInstruction ::
  "(byte_list \<Rightarrow> byte_list \<Rightarrow> byte_list \<Rightarrow> 'i) \<Rightarrow> byte_list \<Rightarrow> byte_list \<Rightarrow> byte_list \<Rightarrow> byte_list option \<Rightarrow> 'i result" where
  "createOwnerIntentSignatureInstruction instruction ownerPubkey intentHash signature given =
     and_then (case given of Some m \<Rightarrow> Inr m | None \<Rightarrow> buildTinOwnerIntentMessage intentHash) (\<lambda>message.
       Inr (instruction ownerPubkey message signature))"

text \<open>The writers of \<open>Buffer\<close> throw outside their range.\<close>

definition write_u8 :: "int \<Rightarrow> byte_list result" where
  "write_u8 v = and_then (require (0 \<le> v \<and> v < 256) ''ERR_OUT_OF_RANGE'') (\<lambda>_. Inr [nat v])"

definition write_u32 :: "int \<Rightarrow> byte_list result" where
  "write_u32 v = and_then (require (0 \<le> v \<and> v < 2 ^ 32) ''ERR_OUT_OF_RANGE'') (\<lambda>_. Inr (le_bytes 4 (nat v)))"

definition write_u64 :: "int \<Rightarrow> byte_list result" where
  "write_u64 v = and_then (require (0 \<le> v \<and> v < 2 ^ 64) ''ERR_OUT_OF_RANGE'') (\<lambda>_. Inr (le_bytes 8 (nat v)))"

definition write_i64 :: "int \<Rightarrow> byte_list result" where
  "write_i64 v = and_then (require (- (2 ^ 63) \<le> v \<and> v < 2 ^ 63) ''ERR_OUT_OF_RANGE'') (\<lambda>_. Inr (le_bytes 8 (nat (v mod 2 ^ 64))))"

definition u32LengthPrefixed :: "byte_list \<Rightarrow> byte_list result" where
  "u32LengthPrefixed v = and_then (write_u32 (int (length v))) (\<lambda>l. Inr (l @ v))"

definition byte_of :: "int \<Rightarrow> byte_list" where
  "byte_of v = [nat (v mod 256)]"

definition encodeInstruction :: "int \<Rightarrow> byte_list \<Rightarrow> byte_list" where
  "encodeInstruction tag body = byte_of tag @ body"

record creation_fields =
  cf_ownerPubkey :: byte_list
  cf_lookupCommitment :: byte_list
  cf_encryptedTinRecovery :: byte_list
  cf_encryptedIdentityEnvelope :: byte_list
  cf_encryptedMasterSeed :: byte_list
  cf_encryptedMetadataHash :: byte_list
  cf_routeVersion :: int
  cf_routeNonce :: byte_list
  cf_tipRouteVersion :: int
  cf_gpruElgamalKeyVersion :: int
  cf_gpruElgamalPublicKey :: byte_list
  cf_gpruElgamalKeyCommitment :: byte_list
  cf_gpruBalanceScanKeyVersion :: int
  cf_gpruBalanceScanPublicKeyX :: byte_list
  cf_gpruBalanceScanPublicKeyY :: byte_list
  cf_policyCommitment :: byte_list
  cf_expiryTs :: int

definition fields_route :: "creation_fields \<Rightarrow> tip_route" where
  "fields_route f =
     \<lparr>tr_tipRouteVersion = cf_tipRouteVersion f, tr_gpruElgamalKeyVersion = cf_gpruElgamalKeyVersion f,
      tr_gpruElgamalPublicKey = Some (cf_gpruElgamalPublicKey f), tr_gpruElgamalKeyCommitment = Some (cf_gpruElgamalKeyCommitment f),
      tr_gpruBalanceScanKeyVersion = cf_gpruBalanceScanKeyVersion f,
      tr_gpruBalanceScanPublicKeyX = Some (cf_gpruBalanceScanPublicKeyX f),
      tr_gpruBalanceScanPublicKeyY = Some (cf_gpruBalanceScanPublicKeyY f), tr_policyCommitment = Some (cf_policyCommitment f)\<rparr>"

definition route_version_bytes :: "creation_fields \<Rightarrow> byte_list result" where
  "route_version_bytes f =
     and_then (write_u64 (cf_routeVersion f)) (\<lambda>v. and_then (require (v \<noteq> replicate 8 0) ''routeVersion must be positive'') (\<lambda>_. Inr v))"

definition CREATE_DOMAIN :: byte_list where
  "CREATE_DOMAIN = utf8 ''TSN_TIN_V1_CREATE''"

definition intent_preimage :: "creation_fields \<Rightarrow> byte_list result" where
  "intent_preimage f =
     and_then (route_version_bytes f) (\<lambda>routeVersion.
     and_then (write_i64 (cf_expiryTs f)) (\<lambda>expiry.
     concat_all
       [Inr CREATE_DOMAIN, Inr (cf_ownerPubkey f), normalizeHash32 (Some (cf_lookupCommitment f)) ''lookupCommitment'',
        u32LengthPrefixed (cf_encryptedTinRecovery f), u32LengthPrefixed (cf_encryptedIdentityEnvelope f),
        u32LengthPrefixed (cf_encryptedMasterSeed f), normalizeHash32 (Some (cf_encryptedMetadataHash f)) ''encryptedMetadataHash'',
        Inr routeVersion, requireHash32 (Some (cf_routeNonce f)) ''routeNonce'', Inr (byte_of (cf_tipRouteVersion f)),
        Inr (byte_of (cf_gpruElgamalKeyVersion f)), normalizeHash32 (Some (cf_gpruElgamalPublicKey f)) ''gpruElgamalPublicKey'',
        normalizeHash32 (Some (cf_gpruElgamalKeyCommitment f)) ''gpruElgamalKeyCommitment'',
        Inr (byte_of (cf_gpruBalanceScanKeyVersion f)),
        normalizeHash32 (Some (cf_gpruBalanceScanPublicKeyX f)) ''gpruBalanceScanPublicKeyX'',
        normalizeHash32 (Some (cf_gpruBalanceScanPublicKeyY f)) ''gpruBalanceScanPublicKeyY'',
        normalizeHash32 (Some (cf_policyCommitment f)) ''policyCommitment'', Inr expiry]))"

definition createTinV1OwnerIntentHash :: "host \<Rightarrow> creation_fields \<Rightarrow> byte_list result" where
  "createTinV1OwnerIntentHash h f = and_then (intent_preimage f) (\<lambda>preimage. Inr (sha256 h preimage))"

definition creation_body :: "creation_fields \<Rightarrow> byte_list \<Rightarrow> byte_list result" where
  "creation_body f routeVersion = concat_all
     [Inr (cf_ownerPubkey f), Inr (cf_lookupCommitment f), u32LengthPrefixed (cf_encryptedTinRecovery f),
      u32LengthPrefixed (cf_encryptedIdentityEnvelope f), u32LengthPrefixed (cf_encryptedMasterSeed f),
      normalizeHash32 (Some (cf_encryptedMetadataHash f)) ''encryptedMetadataHash'', Inr routeVersion, Inr (cf_routeNonce f),
      Inr (byte_of (cf_tipRouteVersion f)), Inr (byte_of (cf_gpruElgamalKeyVersion f)), Inr (cf_gpruElgamalPublicKey f),
      Inr (cf_gpruElgamalKeyCommitment f), Inr (byte_of (cf_gpruBalanceScanKeyVersion f)),
      normalizeHash32 (Some (cf_gpruBalanceScanPublicKeyX f)) ''gpruBalanceScanPublicKeyX'',
      normalizeHash32 (Some (cf_gpruBalanceScanPublicKeyY f)) ''gpruBalanceScanPublicKeyY'', Inr (cf_policyCommitment f)]"

definition serializeTinV1CreationParams :: "host \<Rightarrow> creation_fields \<Rightarrow> byte_list \<Rightarrow> byte_list result" where
  "serializeTinV1CreationParams h f intentHash =
     and_then (normalizeHash32 (Some (cf_lookupCommitment f)) ''lookupCommitment'') (\<lambda>_.
     and_then (route_version_bytes f) (\<lambda>routeVersion.
     and_then (requireHash32 (Some (cf_routeNonce f)) ''routeNonce'') (\<lambda>_.
     and_then (normalizeHash32 (Some (cf_gpruElgamalPublicKey f)) ''gpruElgamalPublicKey'') (\<lambda>_.
     and_then (normalizeHash32 (Some (cf_gpruElgamalKeyCommitment f)) ''gpruElgamalKeyCommitment'') (\<lambda>_.
     and_then (normalizeHash32 (Some (cf_policyCommitment f)) ''policyCommitment'') (\<lambda>_.
     and_then (require (validateTinTipRoute h (fields_route f))
       ''TIN creation requires a valid versioned GPRU ElGamal key commitment and TIP policy commitment'') (\<lambda>_.
     and_then (creation_body f routeVersion) (\<lambda>body.
     and_then (write_i64 (cf_expiryTs f)) (\<lambda>expiry.
     let expected = sha256 h (CREATE_DOMAIN @ body @ expiry) in
     and_then (requireHash32 (Some intentHash) ''intentHash'') (\<lambda>given.
     and_then (require (expected = given) ''intentHash does not match CreateTinV1 payload'') (\<lambda>_.
       Inr (encodeInstruction 17 (body @ expected @ expiry)))))))))))))"

record stage_lengths =
  sl_encryptedIdentityEnvelopeLength :: int
  sl_encryptedTinRecoveryLength :: int
  sl_encryptedMasterSeedLength :: int

definition check_length :: "string \<Rightarrow> int \<Rightarrow> unit result" where
  "check_length field v = require (\<bar>v\<bar> \<le> max_safe_integer \<and> \<not> v \<le> 0) (field @ '' is invalid'')"

definition serializeTinV1CreationStageParams :: "host \<Rightarrow> creation_fields \<Rightarrow> stage_lengths \<Rightarrow> byte_list \<Rightarrow> byte_list result" where
  "serializeTinV1CreationStageParams h f l intentHash =
     and_then (check_length ''encryptedIdentityEnvelopeLength'' (sl_encryptedIdentityEnvelopeLength l)) (\<lambda>_.
     and_then (check_length ''encryptedTinRecoveryLength'' (sl_encryptedTinRecoveryLength l)) (\<lambda>_.
     and_then (check_length ''encryptedMasterSeedLength'' (sl_encryptedMasterSeedLength l)) (\<lambda>_.
     and_then (require (validateTinTipRoute h (fields_route f))
       ''TIN creation stage requires a valid versioned GPRU ElGamal key commitment and TIP policy commitment'') (\<lambda>_.
     and_then (concat_all
       [Inr (cf_ownerPubkey f), requireHash32 (Some (cf_lookupCommitment f)) ''lookupCommitment'',
        requireHash32 (Some intentHash) ''intentHash'', write_u32 (sl_encryptedIdentityEnvelopeLength l),
        write_u32 (sl_encryptedTinRecoveryLength l), write_u32 (sl_encryptedMasterSeedLength l),
        requireHash32 (Some (cf_encryptedMetadataHash f)) ''encryptedMetadataHash'', write_u64 (cf_routeVersion f),
        requireHash32 (Some (cf_routeNonce f)) ''routeNonce'', write_u8 (cf_tipRouteVersion f),
        Inr (byte_of (cf_gpruElgamalKeyVersion f)), requireHash32 (Some (cf_gpruElgamalPublicKey f)) ''gpruElgamalPublicKey'',
        requireHash32 (Some (cf_gpruElgamalKeyCommitment f)) ''gpruElgamalKeyCommitment'',
        Inr (byte_of (cf_gpruBalanceScanKeyVersion f)),
        requireHash32 (Some (cf_gpruBalanceScanPublicKeyX f)) ''gpruBalanceScanPublicKeyX'',
        requireHash32 (Some (cf_gpruBalanceScanPublicKeyY f)) ''gpruBalanceScanPublicKeyY'',
        requireHash32 (Some (cf_policyCommitment f)) ''policyCommitment'', write_i64 (cf_expiryTs f)]) (\<lambda>parts.
     Inr (encodeInstruction 19 parts))))))"

datatype chunk_kind = ChunkIdentity | ChunkMasterSeed | ChunkOwnerRecovery

fun chunk_code :: "chunk_kind \<Rightarrow> int" where
  "chunk_code ChunkIdentity = 0"
| "chunk_code ChunkMasterSeed = 1"
| "chunk_code ChunkOwnerRecovery = 3"

definition serializeTinV1CreationChunkParams :: "chunk_kind \<Rightarrow> int \<Rightarrow> byte_list \<Rightarrow> byte_list result" where
  "serializeTinV1CreationChunkParams kind offset bytes =
     and_then (require (\<bar>offset\<bar> \<le> max_safe_integer \<and> \<not> offset < 0)
       ''TIN V1 creation chunk offset must be a non-negative safe integer'') (\<lambda>_.
     and_then (concat_all [write_u8 (chunk_code kind), write_u32 offset, u32LengthPrefixed bytes]) (\<lambda>parts.
       Inr (encodeInstruction 20 parts)))"

definition serializeTinV1CreationFinalizeParams :: "byte_list \<Rightarrow> byte_list result" where
  "serializeTinV1CreationFinalizeParams intentHash =
     and_then (requireHash32 (Some intentHash) ''intentHash'') (\<lambda>hash. Inr (encodeInstruction 21 hash))"

definition serializeTinV1CreationCloseParams :: "byte_list \<Rightarrow> byte_list result" where
  "serializeTinV1CreationCloseParams intentHash =
     and_then (requireHash32 (Some intentHash) ''intentHash'') (\<lambda>hash. Inr (encodeInstruction 22 hash))"

text \<open>The optional parameters; \<open>now\<close> is in milliseconds, \<open>random\<close> the 32 fresh bytes.\<close>

record creation_options =
  co_encryptedMetadataHash :: "byte_list option"
  co_routeVersion :: "int option"
  co_routeNonce :: "byte_list option"
  co_expiryTs :: "int option"
  co_nonce :: "byte_list option"

record prepared_creation =
  pc_fields :: creation_fields
  pc_nonce :: byte_list
  pc_intentHash :: byte_list
  pc_instructionData :: byte_list

definition given_or :: "'a option \<Rightarrow> 'a \<Rightarrow> 'a" where
  "given_or v d = (case v of None \<Rightarrow> d | Some x \<Rightarrow> x)"

definition buildTinV1Creation :: "host \<Rightarrow> int \<Rightarrow> byte_list \<Rightarrow> creation_fields \<Rightarrow> creation_options \<Rightarrow> prepared_creation result" where
  "buildTinV1Creation h now random p opts =
     and_then (require (cf_tipRouteVersion p = 1) ''TIN V1 creation requires the active TIP route version'') (\<lambda>_.
     and_then (require (validateTinTipRoute h (fields_route p)) ''TIN V1 creation requires a valid versioned GPRU ElGamal key commitment'') (\<lambda>_.
     let nonce = given_or (co_nonce opts) (given_or (co_routeNonce opts) random) in
     and_then (require (length nonce = 32) ''nonce must be 32 bytes'') (\<lambda>_.
     let routeNonce = given_or (co_routeNonce opts) nonce in
     and_then (require (length routeNonce = 32) ''routeNonce must be 32 bytes'') (\<lambda>_.
     and_then (require (routeNonce = nonce) ''nonce must equal the signed routeNonce'') (\<lambda>_.
     let fields = p\<lparr>cf_encryptedMetadataHash := given_or (co_encryptedMetadataHash opts) (replicate 32 0),
                    cf_routeVersion := given_or (co_routeVersion opts) 1, cf_routeNonce := routeNonce,
                    cf_expiryTs := given_or (co_expiryTs opts) (now div 1000 + 900)\<rparr> in
     and_then (createTinV1OwnerIntentHash h fields) (\<lambda>intentHash.
     and_then (serializeTinV1CreationParams h fields intentHash) (\<lambda>instructionData.
       Inr \<lparr>pc_fields = fields, pc_nonce = nonce, pc_intentHash = intentHash, pc_instructionData = instructionData\<rparr>)))))))"

section \<open>Submission\<close>

record http_response =
  hr_ok :: bool
  hr_status :: nat
  hr_body :: json

definition creation_request :: "prepared_creation \<Rightarrow> string \<Rightarrow> string \<Rightarrow> string \<Rightarrow> string \<Rightarrow> string \<Rightarrow> json" where
  "creation_request p intentId ownerPubkey ownerSignature ownerIntentMessage proof =
     (let f = pc_fields p; hex = (\<lambda>bs. JStr (bytesToHex bs)); base64 = (\<lambda>bs. JStr (btoa bs)) in
      JObj [(''intentType'', JStr ''tin_creation''), (''intentId'', JStr intentId), (''ownerPubkey'', JStr ownerPubkey),
        (''ownerSignature'', JStr ownerSignature), (''ownerIntentHash'', hex (pc_intentHash p)), (''ownerIntentMessage'', JStr ownerIntentMessage),
        (''nonce'', hex (pc_nonce p)), (''expiry'', JNum (cf_expiryTs f)), (''lookupCommitment'', hex (cf_lookupCommitment f)),
        (''encryptedTinRecovery'', base64 (cf_encryptedTinRecovery f)), (''encryptedIdentityEnvelope'', base64 (cf_encryptedIdentityEnvelope f)),
        (''encryptedMasterSeed'', base64 (cf_encryptedMasterSeed f)), (''encryptedMetadataHash'', hex (cf_encryptedMetadataHash f)),
        (''routeVersion'', JNum (cf_routeVersion f)), (''routeNonce'', hex (cf_routeNonce f)), (''tipRouteVersion'', JNum (cf_tipRouteVersion f)),
        (''gpruElgamalKeyVersion'', JNum (cf_gpruElgamalKeyVersion f)), (''gpruElgamalPublicKey'', hex (cf_gpruElgamalPublicKey f)),
        (''gpruElgamalKeyCommitment'', hex (cf_gpruElgamalKeyCommitment f)),
        (''gpruBalanceScanKeyVersion'', JNum (cf_gpruBalanceScanKeyVersion f)),
        (''gpruBalanceScanPublicKeyX'', hex (cf_gpruBalanceScanPublicKeyX f)),
        (''gpruBalanceScanPublicKeyY'', hex (cf_gpruBalanceScanPublicKeyY f)), (''policyCommitment'', hex (cf_policyCommitment f)),
        (''lookupIssuanceProof'', JStr proof)])"

definition drop_slash :: "string \<Rightarrow> string" where
  "drop_slash s = (if s \<noteq> [] \<and> last s = CHR ''/'' then butlast s else s)"

definition submitTinV1Creation ::
  "solana \<Rightarrow> (string \<Rightarrow> string \<Rightarrow> http_response result) \<Rightarrow> string \<Rightarrow> prepared_creation \<Rightarrow> string \<Rightarrow> text_or_bytes \<Rightarrow> text_or_bytes \<Rightarrow> string \<Rightarrow> string \<Rightarrow> json result" where
  "submitTinV1Creation sol post ingressUrl prepared intentId ownerPubkey ownerSignature proof ownerIntentMessage =
     (let owner = (case ownerPubkey of Inl s \<Rightarrow> s | Inr key \<Rightarrow> sol_base58 sol key) in
      and_then (require (js_trim ownerIntentMessage \<noteq> []) ''The signed, human-readable TIN owner intent message is required'') (\<lambda>_.
      let signature = (case ownerSignature of Inl s \<Rightarrow> s | Inr bs \<Rightarrow> btoa bs) in
      and_then (post (drop_slash ingressUrl @ ''/tin-operations'')
          (json_stringify (creation_request prepared intentId owner signature ownerIntentMessage proof))) (\<lambda>response.
      if hr_ok response then Inr (hr_body response)
      else Inl (js_string (nullish (member (hr_body response) ''detail'') (nullish (member (hr_body response) ''error'')
        (JStr (''TIN V1 creation rejected ('' @ dec (hr_status response) @ '')''))))))))"


section \<open>The owner recovers the TIN\<close>

lemma js_trim_idem [simp]: "js_trim (js_trim s) = js_trim s"
proof (rule js_trim_id)
  let ?t = "dropWhile is_space s" and ?u = "dropWhile is_space (rev (dropWhile is_space s))"
  have u: "js_trim s = rev ?u" by (simp add: js_trim_def js_trim_start_def js_trim_end_def)
  show "js_trim s = [] \<or> \<not> is_space (hd (js_trim s)) \<and> \<not> is_space (last (js_trim s))"
  proof (cases "?u = []")
    case False
    then have "\<not> is_space (hd ?u)" by (rule hd_dropWhile)
    moreover have "hd (rev ?u) = hd ?t"
    proof -
      obtain v where "rev ?t = v @ ?u" by (metis takeWhile_dropWhile_id)
      then have "?t = rev ?u @ rev v" by (metis rev_append rev_rev_ident)
      then show ?thesis using False by (metis hd_append2 rev_is_Nil_conv)
    qed
    moreover have "?t \<noteq> []" using False by (metis dropWhile.simps(1) rev.simps(1))
    then have "\<not> is_space (hd ?t)" by (rule hd_dropWhile)
    ultimately show ?thesis unfolding u using False by (simp add: last_rev)
  qed (simp add: u)
qed

lemma subtle_seal_length: "tag_law h \<Longrightarrow> 16 \<le> length (subtle_seal h key iv pt)"
proof -
  assume "tag_law h"
  then have "length (snd (gcm_seal h key iv [] pt)) = 16" unfolding tag_law_def by blast
  then show ?thesis by (cases "gcm_seal h key iv [] pt") (simp add: subtle_seal_def)
qed

lemma recovery_magic:
  assumes "tag_law h" "length nonce = 12"
  shows "envelope_magic (RECOVERY_V4_MAGIC @ nonce @ subtle_seal h key nonce pt) = Inr RECOVERY_V4_MAGIC"
  using subtle_seal_length [OF assms(1), of key nonce pt] assms(2) by (simp add: envelope_magic_def supported_magic_def)

lemma importTinRecoveryKey_octets: "hash_law h \<Longrightarrow> importTinRecoveryKey h sol owner signature programId = Inr key \<Longrightarrow> octets key"
  by (auto simp: importTinRecoveryKey_def hash_lawD)

text \<open>
  The owner's wallet recovers the TIN. A recovery envelope opens with the same wallet signature, and gives
  the TIN and the trimmed display name that were put in.
\<close>

theorem recovery_envelope_roundtrip:
  assumes laws: "gcm_law h" "tag_law h" "hash_law h" "decoder_law td" and nonce: "length nonce = 12" "octets nonce"
    and made: "createTinV1OwnerRecoveryEnvelope h sol nonce tin name owner signature programId = Inr envelope"
  shows "decryptTinV1OwnerRecoveryEnvelope h td sol envelope owner signature programId = Inr (tin, Some (js_trim name))"
proof -
  let ?v = "JObj [(''tin'', JStr tin), (''displayName'', JStr (js_trim name))]"
  obtain key where k: "importTinRecoveryKey h sol owner signature programId = Inr key" and tin: "is_tin tin" "js_trim name \<noteq> []"
    and e: "envelope = RECOVERY_V4_MAGIC @ nonce @ subtle_seal h key nonce (utf8 (json_stringify ?v))"
    using made by (auto simp: createTinV1OwnerRecoveryEnvelope_def Let_def)
  note opened = subtle_open_seal [OF laws(1,2) importTinRecoveryKey_octets [OF laws(3) k] nonce(2) octets_utf8, of "json_stringify ?v"]
  have "json_parse (td (utf8 (json_stringify ?v))) = Some ?v"
    using laws(4) by (simp add: decoder_law_def json_parse_stringify wf_JObj)
  moreover note recovery_magic [OF laws(2) nonce(1), of key "utf8 (json_stringify ?v)"]
  ultimately show ?thesis
    using k tin opened nonce(1) by (simp add: decryptTinV1OwnerRecoveryEnvelope_def e Let_def)
qed

text \<open>The resolver reads the name that was put into the identity envelope.\<close>

lemma identity_envelope_roundtrip:
  assumes laws: "gcm_law h" "tag_law h" "hash_law h" "decoder_law td" and nonce: "length nonce = 12" "octets nonce"
    and made: "createTinV1IdentityEnvelope h nonce tin name (Some secret) = Inr (lookup, envelope)"
  shows "lookup = lookup_commitment h (secret_bytes secret) tin" "open_identity h td (secret_bytes secret) tin envelope = Inr name"
proof -
  let ?v = "JObj [(''name'', JStr name), (''tin'', JStr tin)]" and ?key = "identity_key h (secret_bytes secret) tin"
  show "lookup = lookup_commitment h (secret_bytes secret) tin" using made by (auto simp: createTinV1IdentityEnvelope_def Let_def)
  have e: "envelope = nonce @ subtle_seal h ?key nonce (utf8 (json_stringify ?v))"
    using made by (auto simp: createTinV1IdentityEnvelope_def Let_def)
  have "octets ?key" using laws(3) by (simp add: identity_key_def hash_lawD)
  note opened = subtle_open_seal [OF laws(1,2) this nonce(2) octets_utf8, of "json_stringify ?v"]
  have "json_parse (td (utf8 (json_stringify ?v))) = Some ?v"
    using laws(4) by (simp add: decoder_law_def json_parse_stringify wf_JObj)
  then show "open_identity h td (secret_bytes secret) tin envelope = Inr name"
    using opened nonce(1) subtle_seal_length [OF laws(2), of ?key nonce "utf8 (json_stringify ?v)"] by (simp add: open_identity_def e)
qed

section \<open>What the owner signs\<close>

lemma concat_all_Cons_Inr: "concat_all (r # rs) = Inr bs \<longleftrightarrow> (\<exists>a b. r = Inr a \<and> concat_all rs = Inr b \<and> bs = a @ b)"
  by (cases r; cases "concat_all rs") auto

lemma le_bytes_inject: "v < 256 ^ n \<Longrightarrow> w < 256 ^ n \<Longrightarrow> le_bytes n v = le_bytes n w \<longleftrightarrow> v = w"
  by (metis le_val_le_bytes)

lemma normalized: "normalizeHash32 (Some v) label = Inr x \<longleftrightarrow> x = v \<and> length v = 32" "requireHash32 (Some v) label = Inr x \<longleftrightarrow> x = v \<and> length v = 32"
  by (auto simp: normalizeHash32_def requireHash32_def)

lemma prefixed: "u32LengthPrefixed v = Inr x \<longleftrightarrow> length v < 2 ^ 32 \<and> x = le_bytes 4 (length v) @ v"
  by (auto simp: u32LengthPrefixed_def write_u32_def)

lemma prefixed_inject:
  assumes "length v < 2 ^ 32" "length w < 2 ^ 32" "le_bytes 4 (length v) @ v @ x = le_bytes 4 (length w) @ w @ y"
  shows "v = w \<and> x = y"
proof -
  have "le_bytes 4 (length v) = le_bytes 4 (length w)" "v @ x = w @ y" using assms(3) by simp_all
  then have "length v = length w" using assms(1,2) by (subst (asm) le_bytes_inject) simp_all
  with \<open>v @ x = w @ y\<close> show ?thesis by simp
qed


lemma write_u64_Inr: "write_u64 v = Inr x \<longleftrightarrow> 0 \<le> v \<and> v < 2 ^ 64 \<and> x = le_bytes 8 (nat v)"
  by (auto simp: write_u64_def)

lemma write_i64_Inr: "write_i64 v = Inr x \<longleftrightarrow> - (2 ^ 63) \<le> v \<and> v < 2 ^ 63 \<and> x = le_bytes 8 (nat (v mod 2 ^ 64))"
  by (auto simp: write_i64_def)

lemma write_u64_inject: "write_u64 v = Inr x \<Longrightarrow> write_u64 w = Inr x \<Longrightarrow> v = w"
proof -
  assume "write_u64 v = Inr x" "write_u64 w = Inr x"
  then have "0 \<le> v" "0 \<le> w" "nat v < 256 ^ 8" "nat w < 256 ^ 8" "le_bytes 8 (nat v) = le_bytes 8 (nat w)"
    by (auto simp: write_u64_Inr nat_less_iff)
  then show "v = w" by (simp add: le_bytes_inject eq_nat_nat_iff)
qed

lemma write_i64_inject:
  assumes "write_i64 v = Inr x" "write_i64 w = Inr x"
  shows "v = w"
proof -
  have r: "- (2 ^ 63) \<le> v" "v < 2 ^ 63" "- (2 ^ 63) \<le> w" "w < 2 ^ 63"
    and e: "le_bytes 8 (nat (v mod 2 ^ 64)) = le_bytes 8 (nat (w mod 2 ^ 64))"
    using assms by (auto simp: write_i64_Inr)
  have "nat (v mod 2 ^ 64) < 256 ^ 8" "nat (w mod 2 ^ 64) < 256 ^ 8" by (simp_all add: nat_less_iff)
  with e have "nat (v mod 2 ^ 64) = nat (w mod 2 ^ 64)" by (simp only: le_bytes_inject)
  then have "v mod 2 ^ 64 = w mod 2 ^ 64" by (simp add: eq_nat_nat_iff)
  then have d: "(2 ^ 64 :: int) dvd v - w" by (simp only: mod_eq_dvd_iff)
  have "v - w = 0"
  proof (rule ccontr)
    assume "v - w \<noteq> 0"
    from dvd_imp_le_int [OF this d] r show False by simp
  qed
  then show ?thesis by simp
qed


lemma length_byte_of [simp]: "length (byte_of v) = 1"
  by (simp add: byte_of_def)

text \<open>The last part of the hashed bytes has a fixed length.\<close>

definition preimage_tail :: "creation_fields \<Rightarrow> byte_list \<Rightarrow> byte_list \<Rightarrow> byte_list" where
  "preimage_tail f routeVersion expiry =
     cf_encryptedMetadataHash f @ routeVersion @ cf_routeNonce f @ byte_of (cf_tipRouteVersion f) @ byte_of (cf_gpruElgamalKeyVersion f) @
     cf_gpruElgamalPublicKey f @ cf_gpruElgamalKeyCommitment f @ byte_of (cf_gpruBalanceScanKeyVersion f) @
     cf_gpruBalanceScanPublicKeyX f @ cf_gpruBalanceScanPublicKeyY f @ cf_policyCommitment f @ expiry"

definition hash_fields :: "creation_fields \<Rightarrow> byte_list list" where
  "hash_fields f = [cf_lookupCommitment f, cf_encryptedMetadataHash f, cf_routeNonce f, cf_gpruElgamalPublicKey f,
     cf_gpruElgamalKeyCommitment f, cf_gpruBalanceScanPublicKeyX f, cf_gpruBalanceScanPublicKeyY f, cf_policyCommitment f]"

lemma intent_preimage_Inr:
  assumes "intent_preimage f = Inr x"
  obtains rv ex where "write_u64 (cf_routeVersion f) = Inr rv" "rv \<noteq> replicate 8 0" "write_i64 (cf_expiryTs f) = Inr ex"
    "list_all (\<lambda>v. length v = 32) (hash_fields f)" "length (cf_encryptedTinRecovery f) < 2 ^ 32"
    "length (cf_encryptedIdentityEnvelope f) < 2 ^ 32" "length (cf_encryptedMasterSeed f) < 2 ^ 32"
    "x = CREATE_DOMAIN @ cf_ownerPubkey f @ cf_lookupCommitment f @
       le_bytes 4 (length (cf_encryptedTinRecovery f)) @ cf_encryptedTinRecovery f @
       le_bytes 4 (length (cf_encryptedIdentityEnvelope f)) @ cf_encryptedIdentityEnvelope f @
       le_bytes 4 (length (cf_encryptedMasterSeed f)) @ cf_encryptedMasterSeed f @ preimage_tail f rv ex"
proof -
  obtain rv ex where w: "route_version_bytes f = Inr rv" "write_i64 (cf_expiryTs f) = Inr ex"
    using assms by (auto simp: intent_preimage_def)
  have "write_u64 (cf_routeVersion f) = Inr rv" "rv \<noteq> replicate 8 0" using w(1) by (auto simp: route_version_bytes_def)
  with assms w show thesis
    by (intro that [of rv ex])
      (auto simp: intent_preimage_def concat_all_Cons_Inr normalized prefixed hash_fields_def preimage_tail_def simp del: concat_all.simps(2))
qed

lemma preimage_tail_inject:
  assumes "list_all (\<lambda>v. length v = 32) (hash_fields f)" "list_all (\<lambda>v. length v = 32) (hash_fields f')"
    and "length rv = 8" "length rv' = 8" "preimage_tail f rv ex = preimage_tail f' rv' ex'"
  shows "cf_encryptedMetadataHash f = cf_encryptedMetadataHash f' \<and> rv = rv' \<and> cf_routeNonce f = cf_routeNonce f' \<and>
    byte_of (cf_tipRouteVersion f) = byte_of (cf_tipRouteVersion f') \<and>
    byte_of (cf_gpruElgamalKeyVersion f) = byte_of (cf_gpruElgamalKeyVersion f') \<and>
    cf_gpruElgamalPublicKey f = cf_gpruElgamalPublicKey f' \<and> cf_gpruElgamalKeyCommitment f = cf_gpruElgamalKeyCommitment f' \<and>
    byte_of (cf_gpruBalanceScanKeyVersion f) = byte_of (cf_gpruBalanceScanKeyVersion f') \<and>
    cf_gpruBalanceScanPublicKeyX f = cf_gpruBalanceScanPublicKeyX f' \<and> cf_gpruBalanceScanPublicKeyY f = cf_gpruBalanceScanPublicKeyY f' \<and>
    cf_policyCommitment f = cf_policyCommitment f' \<and> ex = ex'"
  using assms by (simp add: preimage_tail_def hash_fields_def)

definition version_bytes :: "creation_fields \<Rightarrow> bool" where
  "version_bytes f \<longleftrightarrow> list_all (\<lambda>v. 0 \<le> v \<and> v < 256) [cf_tipRouteVersion f, cf_gpruElgamalKeyVersion f, cf_gpruBalanceScanKeyVersion f]"

lemma byte_of_inject: "0 \<le> v \<Longrightarrow> v < 256 \<Longrightarrow> 0 \<le> w \<Longrightarrow> w < 256 \<Longrightarrow> byte_of v = byte_of w \<longleftrightarrow> v = w"
  by (simp add: byte_of_def eq_nat_nat_iff)

text \<open>
  C37: the hash an owner signs fixes the whole creation request. Two requests with the same intent hash, whose
  hashed bytes do not collide, are the same in every field: owner, commitments, the three encrypted
  envelopes of any length, route, keys, policy and expiry.
\<close>

theorem creation_intent_binding:
  assumes hash: "createTinV1OwnerIntentHash h f = Inr hash" "createTinV1OwnerIntentHash h f' = Inr hash"
    and owner: "length (cf_ownerPubkey f) = 32" "length (cf_ownerPubkey f') = 32" and bytes: "version_bytes f" "version_bytes f'"
    and no_collision: "\<And>x y. intent_preimage f = Inr x \<Longrightarrow> intent_preimage f' = Inr y \<Longrightarrow> sha256 h x = sha256 h y \<Longrightarrow> x = y"
  shows "f = f'"
proof -
  obtain x where x: "intent_preimage f = Inr x" "sha256 h x = hash" using hash(1) by (auto simp: createTinV1OwnerIntentHash_def)
  obtain y where y: "intent_preimage f' = Inr y" "sha256 h y = hash" using hash(2) by (auto simp: createTinV1OwnerIntentHash_def)
  have xy: "x = y" by (rule no_collision [OF x(1) y(1)]) (simp add: x(2) y(2))
  obtain rv ex where a: "write_u64 (cf_routeVersion f) = Inr rv" "write_i64 (cf_expiryTs f) = Inr ex"
      "list_all (\<lambda>v. length v = 32) (hash_fields f)" "length (cf_encryptedTinRecovery f) < 2 ^ 32"
      "length (cf_encryptedIdentityEnvelope f) < 2 ^ 32" "length (cf_encryptedMasterSeed f) < 2 ^ 32"
      "x = CREATE_DOMAIN @ cf_ownerPubkey f @ cf_lookupCommitment f @
         le_bytes 4 (length (cf_encryptedTinRecovery f)) @ cf_encryptedTinRecovery f @
         le_bytes 4 (length (cf_encryptedIdentityEnvelope f)) @ cf_encryptedIdentityEnvelope f @
         le_bytes 4 (length (cf_encryptedMasterSeed f)) @ cf_encryptedMasterSeed f @ preimage_tail f rv ex"
    using x(1) by (rule intent_preimage_Inr)
  obtain rv' ex' where b: "write_u64 (cf_routeVersion f') = Inr rv'" "write_i64 (cf_expiryTs f') = Inr ex'"
      "list_all (\<lambda>v. length v = 32) (hash_fields f')" "length (cf_encryptedTinRecovery f') < 2 ^ 32"
      "length (cf_encryptedIdentityEnvelope f') < 2 ^ 32" "length (cf_encryptedMasterSeed f') < 2 ^ 32"
      "y = CREATE_DOMAIN @ cf_ownerPubkey f' @ cf_lookupCommitment f' @
         le_bytes 4 (length (cf_encryptedTinRecovery f')) @ cf_encryptedTinRecovery f' @
         le_bytes 4 (length (cf_encryptedIdentityEnvelope f')) @ cf_encryptedIdentityEnvelope f' @
         le_bytes 4 (length (cf_encryptedMasterSeed f')) @ cf_encryptedMasterSeed f' @ preimage_tail f' rv' ex'"
    using y(1) by (rule intent_preimage_Inr)
  have "length (cf_lookupCommitment f) = length (cf_lookupCommitment f')" using a(3) b(3) by (simp add: hash_fields_def)
  with xy owner have front: "cf_ownerPubkey f = cf_ownerPubkey f'" "cf_lookupCommitment f = cf_lookupCommitment f'"
    and rest: "le_bytes 4 (length (cf_encryptedTinRecovery f)) @ cf_encryptedTinRecovery f @
         (le_bytes 4 (length (cf_encryptedIdentityEnvelope f)) @ cf_encryptedIdentityEnvelope f @
         (le_bytes 4 (length (cf_encryptedMasterSeed f)) @ cf_encryptedMasterSeed f @ preimage_tail f rv ex)) =
       le_bytes 4 (length (cf_encryptedTinRecovery f')) @ cf_encryptedTinRecovery f' @
         (le_bytes 4 (length (cf_encryptedIdentityEnvelope f')) @ cf_encryptedIdentityEnvelope f' @
         (le_bytes 4 (length (cf_encryptedMasterSeed f')) @ cf_encryptedMasterSeed f' @ preimage_tail f' rv' ex'))"
    unfolding a(7) b(7) by simp_all
  note p1 = prefixed_inject [OF a(4) b(4) rest]
  note p2 = prefixed_inject [OF a(5) b(5) conjunct2 [OF p1]]
  note p3 = prefixed_inject [OF a(6) b(6) conjunct2 [OF p2]]
  have "length rv = 8" "length rv' = 8" using a(1) b(1) by (auto simp: write_u64_Inr)
  note t = preimage_tail_inject [OF a(3) b(3) this conjunct2 [OF p3]]
  have "cf_routeVersion f = cf_routeVersion f'" "cf_expiryTs f = cf_expiryTs f'"
    using write_u64_inject a(1) b(1) write_i64_inject a(2) b(2) t by metis+
  with front p1 p2 p3 t bytes show ?thesis
    by (intro creation_fields.equality) (auto simp: version_bytes_def byte_of_inject)
qed

text \<open>
  C38: the two encoders of a creation agree. A hash computed for the owner is never refused by the instruction
  encoder as a mismatch: with a valid route it gives the instruction tag, the fields, the same hash and the expiry.
\<close>

theorem creation_serializers_agree:
  assumes "hash_law h" "createTinV1OwnerIntentHash h f = Inr hash"
  shows "\<exists>body expiry. write_i64 (cf_expiryTs f) = Inr expiry \<and> hash = sha256 h (CREATE_DOMAIN @ body @ expiry) \<and>
    serializeTinV1CreationParams h f hash =
      (if validateTinTipRoute h (fields_route f) then Inr (17 # body @ hash @ expiry)
       else Inl ''TIN creation requires a valid versioned GPRU ElGamal key commitment and TIP policy commitment'')"
proof -
  obtain x where x: "intent_preimage f = Inr x" and hash: "hash = sha256 h x"
    using assms(2) by (auto simp: createTinV1OwnerIntentHash_def)
  obtain rv ex where a: "write_u64 (cf_routeVersion f) = Inr rv" "rv \<noteq> replicate 8 0" "write_i64 (cf_expiryTs f) = Inr ex"
      "list_all (\<lambda>v. length v = 32) (hash_fields f)" "length (cf_encryptedTinRecovery f) < 2 ^ 32"
      "length (cf_encryptedIdentityEnvelope f) < 2 ^ 32" "length (cf_encryptedMasterSeed f) < 2 ^ 32"
      "x = CREATE_DOMAIN @ cf_ownerPubkey f @ cf_lookupCommitment f @
         le_bytes 4 (length (cf_encryptedTinRecovery f)) @ cf_encryptedTinRecovery f @
         le_bytes 4 (length (cf_encryptedIdentityEnvelope f)) @ cf_encryptedIdentityEnvelope f @
         le_bytes 4 (length (cf_encryptedMasterSeed f)) @ cf_encryptedMasterSeed f @ preimage_tail f rv ex"
    using x by (rule intent_preimage_Inr)
  have r: "route_version_bytes f = Inr rv" using a(1,2) by (simp add: route_version_bytes_def)
  have n: "normalizeHash32 (Some v) label = Inr v" "requireHash32 (Some v) label = Inr v" if "v \<in> set (hash_fields f)" for v label
    using that a(4) by (auto simp: normalized list_all_iff)
  have p: "u32LengthPrefixed v = Inr (le_bytes 4 (length v) @ v)" if "length v < 2 ^ 32" for v
    using that prefixed by blast
  obtain body where body: "creation_body f rv = Inr body" "x = CREATE_DOMAIN @ body @ ex"
    using a(5-8) by (simp add: creation_body_def n hash_fields_def p preimage_tail_def)
  have "length hash = 32" unfolding hash using hash_lawD(2) [OF assms(1)] .
  then have h: "requireHash32 (Some hash) ''intentHash'' = Inr hash" by (simp add: normalized)
  have "sha256 h (CREATE_DOMAIN @ body @ ex) = hash" by (simp add: hash body(2))
  then have "write_i64 (cf_expiryTs f) = Inr ex \<and> hash = sha256 h (CREATE_DOMAIN @ body @ ex) \<and>
    serializeTinV1CreationParams h f hash =
      (if validateTinTipRoute h (fields_route f) then Inr (17 # body @ hash @ ex)
       else Inl ''TIN creation requires a valid versioned GPRU ElGamal key commitment and TIP policy commitment'')"
    using a(3) body(1) by (simp add: serializeTinV1CreationParams_def n hash_fields_def r h Let_def encodeInstruction_def byte_of_def)
  then show ?thesis by blast
qed


definition sample_fields :: creation_fields where
  "sample_fields =
     \<lparr>cf_ownerPubkey = replicate 32 1, cf_lookupCommitment = replicate 32 2, cf_encryptedTinRecovery = [1, 2, 3],
      cf_encryptedIdentityEnvelope = [4], cf_encryptedMasterSeed = [5, 6], cf_encryptedMetadataHash = replicate 32 0, cf_routeVersion = 1,
      cf_routeNonce = replicate 32 3, cf_tipRouteVersion = 1, cf_gpruElgamalKeyVersion = 1, cf_gpruElgamalPublicKey = replicate 32 4,
      cf_gpruElgamalKeyCommitment = replicate 32 5, cf_gpruBalanceScanKeyVersion = 1, cf_gpruBalanceScanPublicKeyX = replicate 32 6,
      cf_gpruBalanceScanPublicKeyY = replicate 32 7, cf_policyCommitment = replicate 32 8, cf_expiryTs = 900\<rparr>"

lemma sample_preimage: "\<exists>x. intent_preimage sample_fields = Inr x"
proof -
  have "le_bytes 8 1 \<noteq> replicate 8 0" by (auto simp: le_bytes_def be_bytes_numeral dest: arg_cong [of _ _ hd])
  then have "\<exists>rv. route_version_bytes sample_fields = Inr rv"
    by (simp add: route_version_bytes_def write_u64_def sample_fields_def)
  moreover have "\<exists>ex. write_i64 (cf_expiryTs sample_fields) = Inr ex" by (simp add: write_i64_def sample_fields_def)
  ultimately obtain rv ex where w: "route_version_bytes sample_fields = Inr rv" "write_i64 (cf_expiryTs sample_fields) = Inr ex" by blast
  have n: "normalizeHash32 (Some v) label = Inr v" "requireHash32 (Some v) label = Inr v" if "length v = 32" for v label
    using that by (simp_all add: normalized)
  have p: "u32LengthPrefixed v = Inr (le_bytes 4 (length v) @ v)" if "length v < 10" for v
    using that prefixed [of v "le_bytes 4 (length v) @ v"] by simp
  show ?thesis unfolding intent_preimage_def w by (simp add: n p sample_fields_def del: replicate_Suc)
qed

theorem creation_intent_binding_witness:
  "\<exists>hash. createTinV1OwnerIntentHash sample_host sample_fields = Inr hash \<and>
     createTinV1OwnerIntentHash sample_host (sample_fields\<lparr>cf_expiryTs := 300 + 600\<rparr>) = Inr hash \<and>
     sample_fields = sample_fields\<lparr>cf_expiryTs := 300 + 600\<rparr>"
proof -
  obtain hash where h: "createTinV1OwnerIntentHash sample_host sample_fields = Inr hash"
    using sample_preimage by (auto simp: createTinV1OwnerIntentHash_def)
  have same: "sample_fields\<lparr>cf_expiryTs := 300 + 600\<rparr> = sample_fields" by (simp add: sample_fields_def)
  have l: "length (cf_ownerPubkey sample_fields) = 32" "version_bytes sample_fields" by (simp_all add: sample_fields_def version_bytes_def)
  have "sample_fields = sample_fields\<lparr>cf_expiryTs := 300 + 600\<rparr>"
    by (rule creation_intent_binding [OF h, of "sample_fields\<lparr>cf_expiryTs := 300 + 600\<rparr>"]) (simp_all only: same h l, simp_all)
  with h show ?thesis by metis
qed

theorem creation_serializers_agree_witness:
  "\<exists>hash body expiry. createTinV1OwnerIntentHash sample_host sample_fields = Inr hash \<and>
     hash = sha256 sample_host (CREATE_DOMAIN @ body @ expiry) \<and> write_i64 (cf_expiryTs sample_fields) = Inr expiry"
proof -
  obtain hash where h: "createTinV1OwnerIntentHash sample_host sample_fields = Inr hash"
    using sample_preimage by (auto simp: createTinV1OwnerIntentHash_def)
  from creation_serializers_agree [OF sample_hash_law h] h show ?thesis by blast
qed

definition sample_solana :: solana where
  "sample_solana = \<lparr>sol_pubkey = (\<lambda>_. Some (replicate 32 9)), sol_base58 = (\<lambda>bs. bytesToHex bs), sol_find = (\<lambda>_ _. None), sol_account = (\<lambda>_. None)\<rparr>"

definition sample_recovery_signature :: byte_list where
  "sample_recovery_signature =
     take 64 (replicate 32 9 @ projr (buildTinV1OwnerRecoveryMessage sample_solana (Inr (replicate 32 9)) None) @ replicate 64 0)"

theorem recovery_envelope_roundtrip_witness:
  "\<exists>envelope. createTinV1OwnerRecoveryEnvelope sample_host sample_solana (replicate 12 1) ''1234567890'' '' Ada '' (Inl ''owner'')
       sample_recovery_signature None = Inr envelope \<and>
     decryptTinV1OwnerRecoveryEnvelope sample_host sample_td sample_solana envelope (Inl ''owner'') sample_recovery_signature None =
       Inr (''1234567890'', Some ''Ada'')"
proof -
  have name: "js_trim '' Ada '' = ''Ada''" by code_simp
  have o: "publicKey_of sample_solana (Inl s) = Inr (replicate 32 9)" for s by (simp add: publicKey_of_def sample_solana_def)
  have pr: "getTinsProgramPublicKey sample_solana None = Inr (replicate 32 9)" by (simp add: getTinsProgramPublicKey_def o)
  obtain m where m: "buildTinV1OwnerRecoveryMessage sample_solana (Inr (replicate 32 9)) None = Inr m"
    by (simp add: buildTinV1OwnerRecoveryMessage_def pr publicKey_of_def)
  have "\<exists>key. importTinRecoveryKey sample_host sample_solana (Inl ''owner'') sample_recovery_signature None = Inr key"
    by (simp add: importTinRecoveryKey_def o m pr sample_recovery_signature_def)
  moreover have "is_tin ''1234567890''" by (simp add: is_tin_def is_digit_def)
  ultimately obtain e where e: "createTinV1OwnerRecoveryEnvelope sample_host sample_solana (replicate 12 1) ''1234567890'' '' Ada '' (Inl ''owner'')
       sample_recovery_signature None = Inr e"
    by (auto simp: createTinV1OwnerRecoveryEnvelope_def name control_char_def)
  have n: "length (replicate 12 (1::nat)) = 12" "octets (replicate 12 1)" by (simp_all add: list_all_iff)
  from recovery_envelope_roundtrip [OF sample_snapshot_laws(1,2) sample_hash_law sample_snapshot_laws(3) n e] e show ?thesis by (auto simp: name)
qed

end
