(* ===== verification/Cross_Chain.thy ===== *)
theory Cross_Chain
  imports Payment_Authorization Tin_Creation
begin

text \<open>
  The cross-chain client, \<open>sdks/tsn-sdk/src/cross-chain.ts\<close>: validators of recipients, payouts, destinations and
  liquidity, the decoding of contract words, the route client and the preflight. The JSON-RPC endpoint
  and HTTP are arguments; requests of one \<open>Promise.all\<close> run in their order. Text is read with \<open>td\<close>.
\<close>

section \<open>Validators\<close>

definition is_hex_text :: "nat \<Rightarrow> string \<Rightarrow> bool" where
  "is_hex_text n s \<longleftrightarrow> take 2 s = ''0x'' \<and> length s = n + 2 \<and> list_all is_hex (drop 2 s)"

definition assertEvmAddress :: "string \<Rightarrow> string \<Rightarrow> string result" where
  "assertEvmAddress v field = and_then (require (is_hex_text 40 v) (field @ '' must be a 20-byte EVM address'')) (\<lambda>_. Inr v)"

definition assertBytes32 :: "string \<Rightarrow> string \<Rightarrow> string result" where
  "assertBytes32 v field = and_then (require (is_hex_text 64 v) (field @ '' must be bytes32'')) (\<lambda>_. Inr v)"

definition CREDITCOIN_SETTLEMENT_NETWORK :: string where
  "CREDITCOIN_SETTLEMENT_NETWORK = ''creditcoin-testnet''"

datatype cross_chain_recipient = TinRecipient string | WalletRecipient string

fun validateCrossChainRecipient :: "cross_chain_recipient \<Rightarrow> cross_chain_recipient result" where
  "validateCrossChainRecipient (TinRecipient tinHash) = and_then (assertBytes32 tinHash ''tinHash'') (\<lambda>_. Inr (TinRecipient tinHash))"
| "validateCrossChainRecipient (WalletRecipient address) =
     and_then (assertEvmAddress address ''destination wallet'') (\<lambda>_. Inr (WalletRecipient address))"

record payout_authorization =
  po_settlementId :: string
  po_sealedTipHeadHash :: string
  po_tinHash :: string
  po_exitCommitment :: string
  po_destinationNetwork :: string
  po_recipient :: string
  po_amount :: int
  po_nonce :: int
  po_deadline :: int
  po_merchantOverride :: bool

fun check_bytes32 :: "(string \<times> string) list \<Rightarrow> unit result" where
  "check_bytes32 [] = Inr ()"
| "check_bytes32 ((field, v) # vs) = and_then (require (is_hex_text 64 v) (field @ '' must be a bytes32 value'')) (\<lambda>_. check_bytes32 vs)"

definition validateCreditcoinPayoutAuthorization :: "payout_authorization \<Rightarrow> payout_authorization result" where
  "validateCreditcoinPayoutAuthorization a =
     and_then (require (is_hex_text 40 (po_recipient a)) ''Creditcoin payout recipient must be a 20-byte EVM address'') (\<lambda>_.
     and_then (check_bytes32 [(''settlementId'', po_settlementId a), (''sealedTipHeadHash'', po_sealedTipHeadHash a), (''tinHash'', po_tinHash a),
       (''exitCommitment'', po_exitCommitment a)]) (\<lambda>_.
     and_then (require (po_destinationNetwork a = CREDITCOIN_SETTLEMENT_NETWORK) ''only the Creditcoin settlement rail is enabled'') (\<lambda>_.
     and_then (require (\<not> (po_amount a \<le> 0 \<or> po_deadline a \<le> 0)) ''payout amount and deadline must be positive'') (\<lambda>_. Inr a))))"

record creditcoin_destination =
  cd_network :: string
  cd_address :: string
  cd_token :: string

definition validateCreditcoinDestination :: "creditcoin_destination \<Rightarrow> creditcoin_destination result" where
  "validateCreditcoinDestination d =
     and_then (require (is_hex_text 40 (cd_address d)) ''Creditcoin destination must be a 20-byte EVM address'') (\<lambda>_.
     and_then (require (js_trim (cd_token d) \<noteq> []) ''Creditcoin destination token is required'') (\<lambda>_. Inr d))"

record exit_input =
  ei_settlementId :: string
  ei_sourceNetwork :: string
  ei_destinationNetwork :: string
  ei_sealedTipHeadHash :: string
  ei_amount :: int
  ei_tinHash :: string
  ei_exitCommitment :: string

definition createTinExitReplayKey :: "exit_input \<Rightarrow> string" where
  "createTinExitReplayKey i = js_join '':'' [ei_sealedTipHeadHash i, int_str (ei_amount i), ei_tinHash i, ei_exitCommitment i]"

record liquidity_route =
  lr_routeId :: string
  lr_network :: string
  lr_sourceChainKey :: int
  lr_sourceLiquidityEmitter :: string
  lr_payoutVault :: string
  lr_settlementToken :: string
  lr_enabled :: bool

record liquidity_observation =
  lo_routeId :: string
  lo_queryId :: string
  lo_availableAmount :: int
  lo_sourceBlock :: int
  lo_validUntil :: int
  lo_nonce :: int

definition assertVerifiedDestinationLiquidity :: "liquidity_route \<Rightarrow> liquidity_observation \<Rightarrow> int \<Rightarrow> int \<Rightarrow> unit result" where
  "assertVerifiedDestinationLiquidity route observation requestedAmount nowSeconds =
     and_then (require (lr_enabled route) ''destination route is disabled'') (\<lambda>_.
     and_then (require (lr_routeId route = lo_routeId observation) ''liquidity observation route mismatch'') (\<lambda>_.
     and_then (require (is_hex_text 40 (lr_payoutVault route)) ''invalid destination payout vault'') (\<lambda>_.
     and_then (require (is_hex_text 40 (lr_settlementToken route)) ''invalid destination settlement token'') (\<lambda>_.
     and_then (require (\<not> (requestedAmount \<le> 0 \<or> lo_availableAmount observation < requestedAmount))
       ''verified destination liquidity is insufficient'') (\<lambda>_.
     require (\<not> lo_validUntil observation \<le> nowSeconds) ''verified destination liquidity has expired'')))))"

section \<open>Words of a contract's answer\<close>

definition DIRECT_ROUTE_GETTER :: string where "DIRECT_ROUTE_GETTER = ''0xe9207600''"
definition DIRECT_LIQUIDITY_GETTER :: string where "DIRECT_LIQUIDITY_GETTER = ''0xa2fb18c1''"
definition DIRECT_ACTIVE_GETTER :: string where "DIRECT_ACTIVE_GETTER = ''0x655d0aa8''"
definition ERC20_NAME :: string where "ERC20_NAME = ''0x06fdde03''"
definition ERC20_SYMBOL :: string where "ERC20_SYMBOL = ''0x95d89b41''"
definition ERC20_DECIMALS :: string where "ERC20_DECIMALS = ''0x313ce567''"

definition hex_body :: "string \<Rightarrow> string" where
  "hex_body s = (if take 2 s = ''0x'' then drop 2 s else s)"

definition text_slice :: "nat \<Rightarrow> nat \<Rightarrow> 'a list \<Rightarrow> 'a list" where
  "text_slice a b s = take (b - a) (drop a s)"

text \<open>\<open>BigInt("0x" + digits)\<close> on digits.\<close>

definition hex_value :: "string \<Rightarrow> nat" where
  "hex_value s = foldl (\<lambda>n c. 16 * n + hex_val c) 0 s"

definition bigint_hex :: "string \<Rightarrow> nat result" where
  "bigint_hex s = (if s \<noteq> [] \<and> list_all is_hex s then Inr (hex_value s) else Inl ''SyntaxError'')"

definition abi_word :: "string \<Rightarrow> nat \<Rightarrow> nat result" where
  "abi_word data index =
     (let value = text_slice (index * 64) ((index + 1) * 64) (hex_body data) in
      and_then (require (length value = 64) ''Creditcoin RPC returned malformed ABI data'') (\<lambda>_. bigint_hex value))"

definition wordAddress :: "string \<Rightarrow> nat \<Rightarrow> string result" where
  "wordAddress data index =
     assertEvmAddress (''0x'' @ text_slice (index * 64 + 24) (index * 64 + 64) (hex_body data)) (''route word '' @ dec index)"

definition wordBytes32 :: "string \<Rightarrow> nat \<Rightarrow> string result" where
  "wordBytes32 data index =
     assertBytes32 (''0x'' @ text_slice (index * 64) ((index + 1) * 64) (hex_body data)) (''route word '' @ dec index)"

text \<open>
  The pairs of \<open>/.{1,2}/g\<close>, which does not match line breaks; \<open>parseInt(pair, 16)\<close> skips leading white space, takes
  a sign and reads digits up to the first other character; without digits the byte is 0.
\<close>

definition line_break :: "char \<Rightarrow> bool" where
  "line_break c \<longleftrightarrow> code c = 10 \<or> code c = 13"

definition parse_byte :: "string \<Rightarrow> nat" where
  "parse_byte p =
     (let s = js_trim_start p; digits = (if s \<noteq> [] \<and> (hd s = CHR ''-'' \<or> hd s = CHR ''+'') then tl s else s);
          n = hex_value (takeWhile is_hex digits)
      in if s \<noteq> [] \<and> hd s = CHR ''-'' then (256 - n) mod 256 else n)"

function parse_pairs :: "string \<Rightarrow> byte_list" where
  "parse_pairs s =
     (case s of
        [] \<Rightarrow> []
      | a # r \<Rightarrow>
          if line_break a then parse_pairs r
          else (case r of
                  [] \<Rightarrow> [parse_byte [a]]
                | b # t \<Rightarrow> if line_break b then parse_byte [a] # parse_pairs t
                           else parse_byte [a, b] # parse_pairs t))"
  by auto
termination by (relation "measure length") auto

declare parse_pairs.simps [simp del]

definition decodeAbiString :: "(byte_list \<Rightarrow> string) \<Rightarrow> string \<Rightarrow> string option result" where
  "decodeAbiString td data =
     (let raw = hex_body data in
      if length raw < 128 then Inr None
      else and_then (bigint_hex (text_slice 0 64 raw)) (\<lambda>words.
        let offset = words * 2 in
        if offset + 64 > length raw then Inr None
        else and_then (bigint_hex (text_slice offset (offset + 64) raw)) (\<lambda>len.
          Inr (Some (td (parse_pairs (text_slice (offset + 64) (offset + 64 + len * 2) raw)))))))"

section \<open>The route client\<close>

record route_config =
  rg_registry :: string
  rg_routeId :: string
  rg_expectedChainId :: int
  rg_explorerBaseUrl :: string

definition route_client :: "string \<Rightarrow> string \<Rightarrow> int option \<Rightarrow> string option \<Rightarrow> route_config result" where
  "route_client registry routeId chainId explorer =
     and_then (assertEvmAddress registry ''registry'') (\<lambda>_.
     and_then (assertBytes32 routeId ''routeId'') (\<lambda>_.
       Inr \<lparr>rg_registry = registry, rg_routeId = routeId, rg_expectedChainId = or_else chainId 102031,
            rg_explorerBaseUrl = or_else explorer ''https://creditcoin-testnet.blockscout.com''\<rparr>))"

text \<open>\<open>post\<close> sends a body to the endpoint.\<close>

definition rpc :: "(string \<Rightarrow> http_response result) \<Rightarrow> string \<Rightarrow> json list \<Rightarrow> json result" where
  "rpc post m params =
     and_then (post (json_stringify (JObj [(''jsonrpc'', JStr ''2.0''), (''id'', JNum 1), (''method'', JStr m), (''params'', JArr params)]))) (\<lambda>r.
     and_then (require (hr_ok r) (''Creditcoin RPC HTTP '' @ dec (hr_status r))) (\<lambda>_.
     let body = hr_body r in
     if body = JNull then Inl ''TypeError''
     else if truthy (member body ''error'')
     then Inl (js_string (nullish (Option.bind (member body ''error'') (\<lambda>e. member e ''message'')) (JStr ''Creditcoin RPC returned no result'')))
     else case member body ''result'' of None \<Rightarrow> Inl ''Creditcoin RPC returned no result'' | Some v \<Rightarrow> Inr v))"

definition eth_call :: "(string \<Rightarrow> http_response result) \<Rightarrow> string \<Rightarrow> string \<Rightarrow> string result" where
  "eth_call post target data =
     and_then (rpc post ''eth_call'' [JObj [(''to'', JStr target), (''data'', JStr data)], JStr ''latest'']) (\<lambda>v.
     case v of JStr s \<Rightarrow> Inr s | _ \<Rightarrow> Inl ''TypeError'')"

text \<open>\<open>BigInt(x)\<close>: a text is trimmed; it has a radix prefix, or is decimal with an optional sign, or is empty.\<close>

definition radix_value :: "nat \<Rightarrow> string \<Rightarrow> int option" where
  "radix_value b s = (if s \<noteq> [] \<and> list_all (\<lambda>c. is_hex c \<and> hex_val c < b) s then Some (int (foldl (\<lambda>n c. b * n + hex_val c) 0 s)) else None)"

definition bigint_text :: "string \<Rightarrow> int option" where
  "bigint_text t =
     (let s = js_trim t; head = lower (take 2 s) in
      if s = [] then Some 0
      else if head = ''0x'' then radix_value 16 (drop 2 s)
      else if head = ''0o'' then radix_value 8 (drop 2 s)
      else if head = ''0b'' then radix_value 2 (drop 2 s)
      else if hd s = CHR ''-'' then map_option uminus (radix_value 10 (tl s))
      else if hd s = CHR ''+'' then radix_value 10 (tl s)
      else radix_value 10 s)"

fun bigint_json :: "json \<Rightarrow> int result" where
  "bigint_json (JNum n) = Inr n"
| "bigint_json (JBool b) = Inr (if b then 1 else 0)"
| "bigint_json JNull = Inl ''TypeError''"
| "bigint_json v = (case bigint_text (js_string v) of None \<Rightarrow> Inl ''SyntaxError'' | Some n \<Rightarrow> Inr n)"

record route_state =
  rs_chainId :: int
  rs_routeId :: string
  rs_enabled :: bool
  rs_payoutVault :: string
  rs_settlementToken :: string
  rs_destinationNetwork :: string
  rs_destinationChainId :: nat
  rs_destinationExecutor :: string
  rs_outbox :: string
  rs_tokenName :: "string option"
  rs_tokenSymbol :: "string option"
  rs_tokenDecimals :: nat

definition readRoute :: "(byte_list \<Rightarrow> string) \<Rightarrow> (string \<Rightarrow> http_response result) \<Rightarrow> route_config \<Rightarrow> route_state result" where
  "readRoute td post c =
     and_then (and_then (rpc post ''eth_chainId'' []) bigint_json) (\<lambda>chainId.
     and_then (require (chainId = rg_expectedChainId c)
       (''expected Creditcoin chain '' @ int_str (rg_expectedChainId c) @ '', received '' @ int_str chainId)) (\<lambda>_.
     and_then (eth_call post (rg_registry c) (DIRECT_ROUTE_GETTER @ drop 2 (rg_routeId c))) (\<lambda>raw.
     and_then (wordAddress raw 4) (\<lambda>token.
     and_then (and_then (eth_call post token ERC20_NAME) (decodeAbiString td)) (\<lambda>tokenName.
     and_then (and_then (eth_call post token ERC20_SYMBOL) (decodeAbiString td)) (\<lambda>tokenSymbol.
     and_then (and_then (eth_call post token ERC20_DECIMALS) (\<lambda>v. abi_word v 0)) (\<lambda>decimals.
     and_then (abi_word raw 0) (\<lambda>enabled.
     and_then (wordAddress raw 3) (\<lambda>payoutVault.
     and_then (wordBytes32 raw 5) (\<lambda>destinationNetwork.
     and_then (abi_word raw 6) (\<lambda>destinationChainId.
     and_then (wordAddress raw 7) (\<lambda>destinationExecutor.
     and_then (wordAddress raw 8) (\<lambda>outbox.
       Inr \<lparr>rs_chainId = chainId, rs_routeId = rg_routeId c, rs_enabled = (enabled = 1), rs_payoutVault = payoutVault,
            rs_settlementToken = token, rs_destinationNetwork = destinationNetwork, rs_destinationChainId = destinationChainId,
            rs_destinationExecutor = destinationExecutor, rs_outbox = outbox, rs_tokenName = tokenName, rs_tokenSymbol = tokenSymbol,
            rs_tokenDecimals = decimals\<rparr>)))))))))))))"

record liquidity_state =
  ls_availableAmount :: nat
  ls_sourceBlock :: nat
  ls_observedAt :: nat
  ls_validUntil :: nat
  ls_nonce :: nat
  ls_queryId :: string
  ls_isFresh :: bool

text \<open>\<open>now\<close> is the clock in milliseconds.\<close>

definition readLiquidity :: "(string \<Rightarrow> http_response result) \<Rightarrow> int \<Rightarrow> route_config \<Rightarrow> liquidity_state result" where
  "readLiquidity post now c =
     and_then (eth_call post (rg_registry c) (DIRECT_LIQUIDITY_GETTER @ drop 2 (rg_routeId c))) (\<lambda>raw.
     and_then (abi_word raw 3) (\<lambda>validUntil.
     and_then (abi_word raw 0) (\<lambda>availableAmount.
     and_then (abi_word raw 1) (\<lambda>sourceBlock.
     and_then (abi_word raw 2) (\<lambda>observedAt.
     and_then (abi_word raw 4) (\<lambda>nonce.
     and_then (wordBytes32 raw 5) (\<lambda>queryId.
       Inr \<lparr>ls_availableAmount = availableAmount, ls_sourceBlock = sourceBlock, ls_observedAt = observedAt, ls_validUntil = validUntil,
            ls_nonce = nonce, ls_queryId = queryId, ls_isFresh = (int validUntil > now div 1000)\<rparr>)))))))"

record explorer_links =
  el_registry :: string
  el_token :: string
  el_vault :: string

record route_evidence =
  rv_ready :: bool
  rv_route :: route_state
  rv_liquidity :: liquidity_state
  rv_logs :: "string list"
  rv_explorerLinks :: explorer_links
  rv_failure :: "string option"

definition address_link :: "route_config \<Rightarrow> string \<Rightarrow> string" where
  "address_link c a = rg_explorerBaseUrl c @ ''/address/'' @ a"

definition FIRST_LOGS :: "string list" where
  "FIRST_LOGS = [''Checking Creditcoin chain ID...'', ''Reading route from on-chain registry...'']"

definition read_all :: "(byte_list \<Rightarrow> string) \<Rightarrow> (string \<Rightarrow> http_response result) \<Rightarrow> int \<Rightarrow> route_config \<Rightarrow> route_evidence result" where
  "read_all td post now c =
     and_then (readRoute td post c) (\<lambda>route.
     and_then (readLiquidity post now c) (\<lambda>liquidity.
     and_then (eth_call post (rg_registry c) (DIRECT_ACTIVE_GETTER @ drop 2 (rg_routeId c))) (\<lambda>activeRaw.
     and_then (abi_word activeRaw 0) (\<lambda>w.
       let active = (w = 1);
           ready = (active \<and> rs_enabled route \<and> ls_isFresh liquidity \<and> 0 < ls_availableAmount liquidity)
       in Inr \<lparr>rv_ready = ready, rv_route = route, rv_liquidity = liquidity,
            rv_logs = FIRST_LOGS @
              [''Route: '' @ (if active \<and> rs_enabled route then ''active'' else ''inactive''),
               ''Settlement asset: '' @ or_else (rs_tokenSymbol route) ''unknown'' @ '' '' @ rs_settlementToken route,
               ''Vault liquidity: '' @ dec (ls_availableAmount liquidity) @ '' base units'',
               ''Liquidity observation: '' @ (if ls_isFresh liquidity then ''fresh'' else ''expired''),
               if ready then ''Route gate: ready for Node authorization'' else ''Route gate: blocked by on-chain state''],
            rv_explorerLinks = \<lparr>el_registry = address_link c (rg_registry c),
              el_token = address_link c (rs_settlementToken route), el_vault = address_link c (rs_payoutVault route)\<rparr>, rv_failure = None\<rparr>))))"

text \<open>After a failure the handler reads route and liquidity again, with the answers \<open>post'\<close>.\<close>

definition readEvidence ::
  "(byte_list \<Rightarrow> string) \<Rightarrow> (string \<Rightarrow> http_response result) \<Rightarrow> (string \<Rightarrow> http_response result) \<Rightarrow> int \<Rightarrow> route_config \<Rightarrow> route_evidence result" where
  "readEvidence td post post' now c =
     (case read_all td post now c of
        Inr e \<Rightarrow> Inr e
      | Inl failure \<Rightarrow>
          and_then (readRoute td post' c) (\<lambda>route.
          and_then (readLiquidity post' now c) (\<lambda>liquidity.
            Inr \<lparr>rv_ready = False, rv_route = route, rv_liquidity = liquidity,
                 rv_logs = FIRST_LOGS @ [''Route gate: failed ('' @ failure @ '')''],
                 rv_explorerLinks = \<lparr>el_registry = address_link c (rg_registry c),
                   el_token = address_link c (rg_registry c), el_vault = address_link c (rg_registry c)\<rparr>, rv_failure = Some failure\<rparr>)))"

section \<open>Preflight and intents\<close>

record ui_snapshot =
  us_ready :: bool
  us_logs :: "string list"
  us_nodeRoutes :: "json list"
  us_creditcoin :: route_evidence

text \<open>The answer of the Node gate: its routes, or the message of the failure. \<open>body.value\<close> is an array.\<close>

definition node_routes :: "http_response result \<Rightarrow> json list result" where
  "node_routes answer =
     and_then answer (\<lambda>r.
     and_then (require (hr_ok r) (''Node route gate HTTP '' @ dec (hr_status r))) (\<lambda>_.
     case hr_body r of
       JArr vs \<Rightarrow> Inr vs
     | JNull \<Rightarrow> Inl ''TypeError''
     | v \<Rightarrow> (case member v ''value'' of Some (JArr vs) \<Rightarrow> Inr vs | _ \<Rightarrow> Inr [])))"

definition loadCrossChainUiSnapshot :: "http_response result \<Rightarrow> route_evidence result \<Rightarrow> ui_snapshot result" where
  "loadCrossChainUiSnapshot nodeAnswer evidence =
     (let (routes, line) =
        (case node_routes nodeAnswer of
           Inr vs \<Rightarrow> (vs, ''Node route gate: '' @ dec (length vs) @ '' configured route(s)'')
         | Inl e \<Rightarrow> ([], ''Node route gate: failed ('' @ e @ '')''))
      in and_then evidence (\<lambda>creditcoin.
         let ready = (routes \<noteq> [] \<and> rv_ready creditcoin) in
         Inr \<lparr>us_ready = ready,
              us_logs = [''Checking TSN Node route gate...'', line] @ rv_logs creditcoin @
                [''Cross-chain UI preflight: '' @ (if ready then ''ready'' else ''blocked'')],
              us_nodeRoutes = routes, us_creditcoin = creditcoin\<rparr>))"

definition given_text :: "string option \<Rightarrow> bool" where
  "given_text v = (case v of None \<Rightarrow> False | Some s \<Rightarrow> s \<noteq> [])"

definition submitDebitIntent :: "('n intent_request \<Rightarrow> 'i result) \<Rightarrow> 'n intent_request \<Rightarrow> 'i result" where
  "submitDebitIntent postIntent r =
     and_then (require (ir_destinationNetwork r = Some CREDITCOIN_SETTLEMENT_NETWORK)
       ''cross-chain debit intent must target an enabled TSN destination'') (\<lambda>_.
     and_then (require (given_text (ir_destinationExecutor r) \<and> given_text (ir_destinationToken r) \<and> given_text (ir_settlementRouteId r))
       ''cross-chain debit intent requires registry-bound executor, token, and route ID'') (\<lambda>_.
     postIntent r))"

definition createCrankerHandoff :: "payout_authorization \<Rightarrow> string \<Rightarrow> (string \<times> payout_authorization \<times> string) result" where
  "createCrankerHandoff a signature =
     and_then (validateCreditcoinPayoutAuthorization a) (\<lambda>v. Inr (CREDITCOIN_SETTLEMENT_NETWORK, v, signature))"


section \<open>What a preflight shows\<close>

text \<open>An accepted address or hash is its own text; these laws leave the shape behind.\<close>

lemma assertEvmAddress_Inr [simp]: "assertEvmAddress v field = Inr w \<longleftrightarrow> is_hex_text 40 v \<and> w = v"
  by (auto simp: assertEvmAddress_def)

lemma assertBytes32_Inr [simp]: "assertBytes32 v field = Inr w \<longleftrightarrow> is_hex_text 64 v \<and> w = v"
  by (auto simp: assertBytes32_def)

lemma wordAddress_shape: "wordAddress data i = Inr a \<Longrightarrow> is_hex_text 40 a"
  by (auto simp: wordAddress_def)

lemma wordBytes32_shape: "wordBytes32 data i = Inr a \<Longrightarrow> is_hex_text 64 a"
  by (auto simp: wordBytes32_def)

lemma check_bytes32_Inr [simp]: "check_bytes32 vs = Inr () \<longleftrightarrow> list_all (\<lambda>(_, v). is_hex_text 64 v) vs"
  by (induction vs rule: check_bytes32.induct) auto

text \<open>A word of an answer is the number of 64 digits, so it fits the 256 bits of the contract.\<close>

lemma hex_val_16: "is_hex c \<Longrightarrow> hex_val c < 16"
  by (auto simp: is_hex_def is_lower_hex_def is_digit_def hex_val_def)

lemma hex_value_snoc: "hex_value (s @ [c]) = 16 * hex_value s + hex_val c"
  by (simp add: hex_value_def)

lemma hex_value_bound: "list_all is_hex s \<Longrightarrow> hex_value s < 16 ^ length s"
proof (induction s rule: rev_induct)
  case Nil then show ?case by (simp add: hex_value_def)
next
  case (snoc c s)
  then have "hex_value s < 16 ^ length s" "hex_val c < 16" by (auto intro: hex_val_16)
  then show ?case by (simp add: hex_value_snoc)
qed

lemma abi_word_bound: "abi_word data i = Inr n \<Longrightarrow> n < 2 ^ 256"
  using hex_value_bound [of "text_slice (i * 64) ((i + 1) * 64) (hex_body data)"]
  by (auto simp: abi_word_def bigint_hex_def Let_def split: if_splits)

text \<open>What the reads return.\<close>

lemma readRoute_state:
  assumes "readRoute td post c = Inr r"
  shows "rs_chainId r = rg_expectedChainId c" "rs_routeId r = rg_routeId c" "is_hex_text 40 (rs_settlementToken r)"
    "is_hex_text 40 (rs_payoutVault r)" "is_hex_text 40 (rs_destinationExecutor r)" "is_hex_text 40 (rs_outbox r)"
    "is_hex_text 64 (rs_destinationNetwork r)"
  using assms unfolding readRoute_def and_then_Inr_iff
  by (auto dest: wordAddress_shape wordBytes32_shape)

lemma readLiquidity_state:
  assumes "readLiquidity post now c = Inr l"
  shows "ls_isFresh l \<longleftrightarrow> now div 1000 < int (ls_validUntil l)" "ls_availableAmount l < 2 ^ 256"
  using assms unfolding readLiquidity_def and_then_Inr_iff by (auto dest: abi_word_bound)

lemma read_all_parts:
  assumes "read_all td post now c = Inr e"
  shows "readRoute td post c = Inr (rv_route e)" "readLiquidity post now c = Inr (rv_liquidity e)"
    "rv_ready e \<Longrightarrow> rs_enabled (rv_route e) \<and> ls_isFresh (rv_liquidity e) \<and> 0 < ls_availableAmount (rv_liquidity e)"
    "rv_ready e \<Longrightarrow> eth_call post (rg_registry c) (DIRECT_ACTIVE_GETTER @ drop 2 (rg_routeId c)) = Inr raw \<Longrightarrow> abi_word raw 0 = Inr 1"
  using assms unfolding read_all_def and_then_Inr_iff by (auto simp: Let_def)

lemma readEvidence_ready: "readEvidence td post post' now c = Inr e \<Longrightarrow> rv_ready e \<Longrightarrow> read_all td post now c = Inr e"
  by (auto simp: readEvidence_def split: sum.splits)

text \<open>
  The result of a failed read carries a second read of the same route: if the endpoint still gives the answers of the first one, the
  reader throws instead of reporting, unless only the last call, the active flag, had failed.
\<close>

lemma failed_route_throws:
  "readRoute td post c = Inl failure \<Longrightarrow> readEvidence td post post now c = Inl failure"
  by (simp add: readEvidence_def read_all_def)


text \<open>The texts of a replay key have no colon, so keys agree only for the same exit.\<close>

lemma hex_text_no_colon: "is_hex_text n s \<Longrightarrow> CHR '':'' \<notin> set s"
proof -
  assume h: "is_hex_text n s"
  have "s = take 2 s @ drop 2 s" by simp
  also have "take 2 s = ''0x''" using h by (simp add: is_hex_text_def)
  finally have "set s = set (''0x'' @ drop 2 s)" by (rule arg_cong)
  moreover have "CHR '':'' \<notin> set (drop 2 s)"
    using h by (auto simp: is_hex_text_def list_all_iff is_hex_def is_lower_hex_def is_digit_def)
  ultimately show ?thesis by auto
qed

lemma replay_key_inject:
  assumes "createTinExitReplayKey i = createTinExitReplayKey j"
    and "list_all (is_hex_text 64) [ei_sealedTipHeadHash i, ei_tinHash i, ei_exitCommitment i]"
    and "list_all (is_hex_text 64) [ei_sealedTipHeadHash j, ei_tinHash j, ei_exitCommitment j]"
  shows "ei_sealedTipHeadHash i = ei_sealedTipHeadHash j \<and> ei_amount i = ei_amount j \<and> ei_tinHash i = ei_tinHash j \<and>
    ei_exitCommitment i = ei_exitCommitment j"
proof -
  have num: "CHR '':'' \<notin> set (int_str n)" for n
    using int_str_chars [of "CHR '':''" n] by (auto simp: is_digit_def)
  have "[ei_sealedTipHeadHash i, int_str (ei_amount i), ei_tinHash i, ei_exitCommitment i] =
        [ei_sealedTipHeadHash j, int_str (ei_amount j), ei_tinHash j, ei_exitCommitment j]"
    using assms unfolding createTinExitReplayKey_def
    by (intro js_join_inject [of "CHR '':''"]) (auto simp: num dest: hex_text_no_colon)
  then show ?thesis by simp
qed

text \<open>A registry in which every word is 1, on the chain 102031.\<close>

definition one_word :: string where
  "one_word = replicate 63 CHR ''0'' @ ''1''"

definition ones :: string where
  "ones = ''0x'' @ concat (replicate 9 one_word)"

definition chain_request :: string where
  "chain_request = json_stringify (JObj [(''jsonrpc'', JStr ''2.0''), (''id'', JNum 1), (''method'', JStr ''eth_chainId''), (''params'', JArr [])])"

definition sample_post :: "string \<Rightarrow> http_response result" where
  "sample_post body =
     Inr \<lparr>hr_ok = True, hr_status = 200, hr_body = JObj [(''result'', JStr (if body = chain_request then ''0x18e8f'' else ones))]\<rparr>"

definition sample_config :: route_config where
  "sample_config = \<lparr>rg_registry = ''0x'' @ replicate 40 CHR ''1'', rg_routeId = ''0x'' @ replicate 64 CHR ''2'', rg_expectedChainId = 102031,
     rg_explorerBaseUrl = []\<rparr>"

lemma sample_chain: "and_then (rpc sample_post ''eth_chainId'' []) bigint_json = Inr 102031"
proof -
  have answer: "rpc sample_post ''eth_chainId'' [] = Inr (JStr ''0x18e8f'')"
    by (simp add: rpc_def sample_post_def chain_request_def)
  have "list_all is_hex ''18e8f''" "map hex_val ''18e8f'' = [1, 8, 14, 8, 15]" by code_simp+
  then have "list_all is_hex ''18e8f''" "foldl (\<lambda>n c. 16 * n + hex_val c) 0 ''18e8f'' = 102031" by auto
  then have "radix_value 16 ''18e8f'' = Some 102031"
    by (simp add: radix_value_def list_all_iff hex_val_16 del: foldl_Cons)
  moreover have "js_trim ''0x18e8f'' = ''0x18e8f''" "lower ''0x'' = ''0x''" by code_simp+
  ultimately have "bigint_json (JStr ''0x18e8f'') = Inr 102031" by (simp add: bigint_text_def Let_def)
  with answer show ?thesis by simp
qed

lemma sample_call [simp]: "eth_call sample_post a d = Inr ones"
  by (simp add: eth_call_def rpc_def sample_post_def chain_request_def)

lemma one_word_value: "length one_word = 64" "list_all is_hex one_word" "hex_value one_word = 1"
  by (simp add: one_word_def, code_simp, code_simp)

lemma drop_words: "length w = k \<Longrightarrow> i \<le> n \<Longrightarrow> drop (i * k) (concat (replicate n w)) = concat (replicate (n - i) w)"
proof (induction i arbitrary: n)
  case (Suc i)
  then obtain m where "n = Suc m" by (cases n) auto
  then show ?case using Suc by simp
qed simp

lemma ones_word: "i < 9 \<Longrightarrow> text_slice (i * 64) (64 + i * 64) (hex_body ones) = one_word"
proof -
  assume i: "i < 9"
  then obtain m where m: "9 - i = Suc m" by (metis Suc_pred' zero_less_diff)
  have "drop (i * 64) (hex_body ones) = one_word @ concat (replicate m one_word)"
    using drop_words [of one_word 64 i 9] i one_word_value(1) by (simp add: ones_def hex_body_def m)
  then show ?thesis by (simp add: text_slice_def one_word_value(1))
qed

lemma ones_abi [simp]: "i < 9 \<Longrightarrow> abi_word ones i = Inr 1"
  using one_word_value by (cases "one_word = []") (auto simp: abi_word_def ones_word bigint_hex_def Let_def)

lemma ones_bytes32 [simp]: "i < 9 \<Longrightarrow> wordBytes32 ones i = Inr (''0x'' @ one_word)"
  using one_word_value by (simp add: wordBytes32_def ones_word is_hex_text_def)

lemma ones_address [simp]: "i < 9 \<Longrightarrow> wordAddress ones i = Inr (''0x'' @ drop 24 one_word)"
proof -
  assume i: "i < 9"
  have "text_slice (i * 64 + 24) (i * 64 + 64) (hex_body ones) = drop 24 (text_slice (i * 64) (64 + i * 64) (hex_body ones))"
    by (simp add: text_slice_def drop_take add.commute)
  then show ?thesis
    using one_word_value i by (auto simp: wordAddress_def ones_word is_hex_text_def list_all_iff dest: in_set_dropD)
qed

lemma decodeAbiString_total:
  assumes "list_all is_hex (hex_body data)"
  shows "\<exists>t. decodeAbiString td data = Inr t"
proof -
  have hex: "\<exists>n. bigint_hex (text_slice a (a + 64) (hex_body data)) = Inr n" if "a + 64 \<le> length (hex_body data)" for a
    using assms that by (auto simp: bigint_hex_def text_slice_def list_all_iff dest: in_set_takeD in_set_dropD)
  show ?thesis using hex [of 0] hex by (auto simp: decodeAbiString_def Let_def not_less) (metis not_less)
qed

lemma ones_hex: "list_all is_hex (hex_body ones)"
  using one_word_value(2) by (auto simp: ones_def hex_body_def list_all_iff)

lemma sample_evidence:
  "\<exists>e. readEvidence td sample_post post' 0 sample_config = Inr e \<and> rv_ready e"
proof -
  obtain t where t: "decodeAbiString td ones = Inr t" using decodeAbiString_total ones_hex by blast
  obtain r where r: "readRoute td sample_post sample_config = Inr r" "rs_enabled r"
    unfolding readRoute_def sample_chain by (simp add: t sample_config_def)
  obtain l where l: "readLiquidity sample_post 0 sample_config = Inr l" "ls_isFresh l" "0 < ls_availableAmount l"
    unfolding readLiquidity_def by simp
  then show ?thesis using r by (simp add: readEvidence_def read_all_def Let_def)
qed

text \<open>A Node that lists one route.\<close>

definition sample_gate :: "http_response result" where
  "sample_gate = Inr \<lparr>hr_ok = True, hr_status = 200, hr_body = JArr [JStr ''creditcoin-testnet'']\<rparr>"

lemma sample_snapshot:
  "\<exists>s. loadCrossChainUiSnapshot sample_gate (readEvidence td sample_post post' 0 sample_config) = Inr s \<and> us_ready s"
  using sample_evidence [of td post'] by (auto simp: loadCrossChainUiSnapshot_def node_routes_def sample_gate_def)


end
