(* ===== verification/Spec2Isabelle.thy ===== *)
theory Spec2Isabelle
  imports Receiver_Queue Local_Lock Receiver_Routes Canonical_Message Private_Session Recurring_Mandate Tcap_Tip Rpc_Gateway Private_View Gpru_History Payment_Authorization Tin_Access Tin_Creation Cross_Chain
begin

text \<open>
  The Transfer Settlement Network: the Receiver service, the SDKs and the RPC gateway

  THE PROGRAM. A sender submits sender-signed funding to the Receiver (\<open>services/tsn-receiver\<close>). The
  Receiver keeps every piece of work as a record with a status and a version in a document store.
  TSN Nodes lease records in status RECEIVED, verify them and report VERIFIED or REJECTED with a
  signed attestation; Crankers authenticate with a challenge and a session, lease VERIFIED records,
  execute them on chain and report SUBMITTED, CONFIRMED or FAILED. A settlement record is created
  beside its funding and must wait until the funding is CONFIRMED. The SDK (\<open>sdks/tsn-sdk\<close>) builds and
  parses the texts wallets sign, authorizes devices for a TIN, proves possession of device keys to
  private services and keeps receipts and private views encrypted. The TCap SDK
  (\<open>programs/tcap-protocol/tcap-sdk\<close>) keeps private balances as encrypted snapshots whose head is
  on chain. The RPC gateway (\<open>services/tsn-rpc-gateway\<close>) forwards JSON-RPC calls to the healthiest of
  several Solana providers.

  THEORIES, in the order of their imports; file names are relative to \<open>src/services/tsn-receiver\<close>,
  \<open>src/sdks/tsn-sdk/src\<close>, \<open>src/programs/tcap-protocol/tcap-sdk/src\<close> or \<open>src/services/tsn-rpc-gateway\<close>.

  Shared vocabulary. \<open>TSN_Prelude\<close>: results (\<open>string + 'a\<close>, an error is the message the code throws),
  JavaScript string and object operations, decimal and hexadecimal text, UTF-8, the locales
  \<open>comparator\<close> and \<open>collation\<close> for the orders the code sorts with. \<open>Encoding\<close>
  (\<open>receipts/internal/encoding.ts\<close>): base 64, length-prefixed fields. \<open>Json_Values\<close> and \<open>Json_Parse\<close>: JSON
  values, \<open>JSON.stringify\<close>, \<open>JSON.parse\<close>, and the record \<open>host\<close> of the runtime functions the model takes
  as parameters (SHA-256, Ed25519, AES-GCM, base 64 of Node.js, dates, numbers, locale order).
  \<open>Sample_Host\<close>: an instance of \<open>host\<close> for the witnesses. \<open>Base58\<close>: the Receiver's decoder and the SDK's
  routines.

  The Receiver's records. \<open>Work_Contract\<close> (\<open>lib/work-contract.ts\<close>): the record \<open>work\<close>, the ingress check,
  commitments, compact deltas, the Cranker view. \<open>Node_Envelope\<close> (\<open>lib/node-envelope.ts\<close>).
  \<open>Node_Verification\<close> (\<open>lib/node-verification.ts\<close>): the attestation a Node signs.

  The stores. \<open>Local_Firestore\<close> (\<open>lib/local-firestore.ts\<close>): the document store on one file; the locale
  \<open>doc_store\<close> is its interface. \<open>Local_Lock\<close>: the lock file of the same source as a step relation with
  clock and crash steps. \<open>Receiver_Store\<close> (\<open>lib/store.ts\<close>, \<open>lib/settlement-retry.ts\<close>): each transaction is
  a function on the collection of works (\<open>receive_tx\<close>, \<open>lease_tx\<close>, \<open>requeue_tx\<close>, \<open>attach_tx\<close>, \<open>transition_tx\<close>,
  \<open>retry_tx\<close>), and the exported operations compose them. \<open>Receiver_Protocol\<close>: the step relation \<open>net_step\<close>,
  one step per transaction in any order and with any arguments, the edges of the life cycle and the
  invariants. \<open>Receiver_Safety\<close>: reachable states. \<open>Receiver_Queue\<close>: what single calls of \<open>receive\<close> and
  \<open>lease\<close> return. \<open>Node_State_Store\<close> (\<open>lib/node-state-store.ts\<close>). \<open>Cranker_Auth\<close> (\<open>lib/cranker-auth.ts\<close>).

  The service. \<open>Receiver_Config\<close> (\<open>lib/firebase.ts\<close>, \<open>auth.ts\<close>, \<open>node-wake.ts\<close>, \<open>cranker-wake.ts\<close>,
  \<open>node-proxy.ts\<close>, \<open>public-view.ts\<close>). \<open>Receiver_Routes\<close>: every handler under \<open>app\<close>, with its status codes.

  The SDK. \<open>Token_Amount\<close> and \<open>Canonical_Message\<close> (\<open>canonical-message.ts\<close>). \<open>Session_Proof\<close>
  (\<open>sessions/proof-of-possession.ts\<close>, \<open>private-session-request.ts\<close>, \<open>server/private-request-verifier.ts\<close>);
  the locale \<open>nonce_store\<close> is what the verifiers ask of a nonce store, interpreted on the Receiver's
  state store. \<open>Device_Authorization\<close> (\<open>authorization\<close>, \<open>authorization/server\<close>,
  \<open>device/key-fingerprints.ts\<close>). \<open>Device_Identity\<close> (\<open>device/index.ts\<close>). \<open>Private_Session\<close>
  (\<open>sessions/index.ts\<close>). \<open>Recurring_Mandate\<close> (\<open>recurring\<close>): validators of dynamic values and the mandate's
  commitment. \<open>Receipt_Envelope\<close> (\<open>receipts/types.ts\<close>, \<open>receipts/internal/receipt-envelope.ts\<close>,
  \<open>receipts/internal/receipt-aad.ts\<close>, \<open>recovery/history-recovery.ts\<close>): a receipt under one data key, the
  key wrapped for each recipient. \<open>Private_View\<close> (\<open>encryption/index.ts\<close>, \<open>private-view/index.ts\<close>).

  The TCap SDK. \<open>Tcap_Contracts\<close> (\<open>contracts.ts\<close>, \<open>models.ts\<close>, \<open>validation.ts\<close>, \<open>roots.ts\<close>): reserves, asset
  entries, the accumulator root. \<open>Tcap_Snapshot\<close> (\<open>snapshots.ts\<close>): the byte format of a snapshot, its
  encryption, its commitment and the walk back through the predecessors. \<open>Tcap_Tip\<close> (\<open>tip-rpc.ts\<close>,
  \<open>tip-seal.ts\<close>): the account that holds the head.

  The gateway. \<open>Provider_Pool\<close> (\<open>provider-pool.mjs\<close>): the statistics of each provider, scores, probes,
  the leader, and the step relation \<open>pool_step\<close> of requests and probes in any order. \<open>Gateway_Config\<close>
  (\<open>config.mjs\<close>). \<open>Rpc_Gateway\<close> (\<open>gateway.mjs\<close>, \<open>server.mjs\<close>): the locale \<open>upstream_loop\<close> is the loop over
  ranked providers, interpreted for HTTP calls and for WebSocket connections.

  WHAT IS PROVED. Of every interleaving of requests: settlements wait for their funding, executed
  work is attested by the configured Node key, records follow the life cycle with growing versions, a
  stale report has no effect, leases exist exactly on leased records, final records never change (C1
  to C6). Of the attestation, queue, ingress and commitments: C7 to C12. Of the stores: atomic
  mutation, migration, mutual exclusion of the lock (C13 to C15). Of authentication and the Cranker
  route: no replay, one session per challenge, the rate limit, what a lease reply shows (C16 to C19).
  Of signed texts, private requests, device registration and mandates: C20 to C26. Of private
  balances: a snapshot reads back, what is read is what the tip commits to, the walk through the
  history ends, the accumulator root binds its leaves (C27 to C30). Of the gateway: the accounting of
  the pool, the ranking, failover, the order of batch replies, refused origins and calls (C31 to C36).
  Of receipts: who can read them and what their hash binds (C37, C38). C39, C40 and several lemmas
  show where the code fails: payloads that are stored and cannot be read, keys the SDK cannot read,
  signed texts that are not binding, checks that are missing.

  MODELLING CHOICES. Strings are lists of code units below 256 and JSON numbers are integers; objects
  are association lists in insertion order with distinct names, and names that are integers or
  belong to \<open>Object.prototype\<close> are outside the model. Dates are integers of milliseconds, read and
  printed by \<open>host\<close>; \<open>None\<close> is an invalid date. Latencies and scores of the gateway are rational numbers,
  so the rounding of doubles is not modelled. A transaction sees one reading of the clock. Request
  bodies have the types the handlers declare for them. Random bytes, HTTP, Firebase messaging, Solana
  RPC, Web Crypto, \<open>tweetnacl\<close> and URL parsing are arguments; what is assumed of them is a named
  hypothesis (\<open>wallet_law\<close>, \<open>dates_law\<close>, \<open>text_law\<close>, \<open>gcm_law\<close>, \<open>tag_law\<close>, \<open>decoder_law\<close>, \<open>curve_law\<close>, \<open>box_law\<close>,
  \<open>stream_law\<close>, \<open>buffer_law\<close>, \<open>nonce_store\<close>) with an instance in a witness. No fuel is used. The walk through
  the snapshot history, which could loop on a fetcher that serves a cycle, is a partial function into
  \<open>option\<close>, and C29 shows that it returns; all other functions are total: \<open>lease\<close> looks at 50 records as
  the code does, the loops over endpoints and providers recur on their lists. The lock is a step
  relation because its loop waits for another process.

  NOT MODELLED. GPRU records and keys and the payment-authorization helpers are open. The TIN and exit
  clients, the threshold provider, Solana and EVM clients, the Cranker daemon and the scripts call
  services and packages whose code is elsewhere. Of the gateway, logging and the HTML of its pages
  are left out. The Node (Python), the on-chain programs (Rust), the contracts (Solidity) and the user
  interface are other languages or rendering.
\<close>

end
